(* ===== verification/Prelude.thy ===== *)
theory Prelude
  imports Complex_Main "HOL-Library.Word" "HOL-Library.Char_ord" "HOL-Library.List_Lexorder"
begin

text \<open>
  What the components share: the collections of rewrite rules, the texts of Go
  (strings are byte sequences, here character lists), the decimal formatting of
  integers, the wrap-around of 64-bit integers, the error values, and keyed
  tables (lists of rows with a primary key) with their laws, stated once as the
  locale \<open>keyed_table\<close> that every repository interprets.
\<close>

section \<open>Collections of rules\<close>

named_theorems table_simps \<open>rewrite rules of the keyed tables\<close>
named_theorems repo_defs \<open>definitions of the repository operations\<close>
named_theorems frame_simps \<open>what an operation leaves unchanged\<close>
named_theorems go_simps \<open>rewrite rules of Go's integers and texts\<close>

section \<open>Texts\<close>

text \<open>\<open>strings.Contains\<close>, \<open>strings.HasPrefix\<close> on byte sequences.\<close>

fun has_prefix :: "string \<Rightarrow> string \<Rightarrow> bool" where
  "has_prefix [] s = True"
| "has_prefix (c # p) [] = False"
| "has_prefix (c # p) (d # s) = (c = d \<and> has_prefix p s)"

fun str_contains :: "string \<Rightarrow> string \<Rightarrow> bool" where
  "str_contains [] p = (p = [])"
| "str_contains (c # s) p = (has_prefix p (c # s) \<or> str_contains s p)"

lemma has_prefix_append [simp]: "has_prefix p (p @ s)"
  by (induction p) auto

lemma has_prefix_iff: "has_prefix p s \<longleftrightarrow> (\<exists>t. s = p @ t)"
  by (induction p s rule: has_prefix.induct) auto

lemma str_contains_iff: "str_contains s p \<longleftrightarrow> (\<exists>a b. s = a @ p @ b)"
proof (induction s)
  case Nil
  then show ?case by auto
next
  case (Cons c s)
  show ?case
  proof
    assume "str_contains (c # s) p"
    then consider "has_prefix p (c # s)" | "str_contains s p" by auto
    then show "\<exists>a b. c # s = a @ p @ b"
    proof cases
      case 1
      then show ?thesis by (auto simp: has_prefix_iff intro: exI[of _ "[]"])
    next
      case 2
      then obtain a b where "s = a @ p @ b" using Cons.IH by auto
      then have "c # s = (c # a) @ p @ b" by simp
      then show ?thesis by blast
    qed
  next
    assume "\<exists>a b. c # s = a @ p @ b"
    then obtain a b where ab: "c # s = a @ p @ b" by auto
    show "str_contains (c # s) p"
    proof (cases a)
      case Nil
      then have "has_prefix p (c # s)" using ab by (auto simp: has_prefix_iff)
      then show ?thesis by simp
    next
      case (Cons d a')
      then have "s = a' @ p @ b" using ab by simp
      then show ?thesis using Cons.IH by auto
    qed
  qed
qed

lemma str_contains_append1: "str_contains s p \<Longrightarrow> str_contains (s @ t) p"
  by (auto simp: str_contains_iff) (metis append.assoc)

lemma str_contains_append2: "str_contains t p \<Longrightarrow> str_contains (s @ t) p"
  by (auto simp: str_contains_iff) (metis append.assoc)

section \<open>Decimal formatting\<close>

text \<open>\<open>strconv.FormatInt(n, 10)\<close>, \<open>strconv.Itoa\<close> and the verb \<open>%d\<close>.\<close>

definition digit :: "nat \<Rightarrow> char" where
  "digit n = char_of (48 + n)"

fun show_nat :: "nat \<Rightarrow> string" where
  "show_nat n = (if n < 10 then [digit n] else show_nat (n div 10) @ [digit (n mod 10)])"

declare show_nat.simps [simp del]

definition show_int :: "int \<Rightarrow> string" where
  "show_int i = (if i < 0 then CHR ''-'' # show_nat (nat (- i)) else show_nat (nat i))"

fun read_nat :: "nat \<Rightarrow> string \<Rightarrow> nat" where
  "read_nat a [] = a"
| "read_nat a (c # s) = read_nat (10 * a + (of_char c - 48)) s"

lemma read_nat_append [simp]: "read_nat a (s @ t) = read_nat (read_nat a s) t"
  by (induction s arbitrary: a) auto

lemma of_char_digit: "n < 10 \<Longrightarrow> of_char (digit n) = (48 + n :: nat)"
  by (simp add: digit_def of_char_of)

lemma read_show_nat [simp]: "read_nat 0 (show_nat n) = n"
proof (induction n rule: show_nat.induct)
  case (1 n)
  show ?case
  proof (cases "n < 10")
    case True
    then show ?thesis by (simp add: show_nat.simps[of n] of_char_digit)
  next
    case False
    then show ?thesis
      using 1 by (simp add: show_nat.simps[of n] of_char_digit)
  qed
qed

lemma show_nat_inject [simp]: "show_nat m = show_nat n \<longleftrightarrow> m = n"
  by (metis read_show_nat)

lemma digit_neq_minus: "n < 10 \<Longrightarrow> digit n \<noteq> CHR ''-''"
proof
  assume "n < 10" "digit n = CHR ''-''"
  then have "of_char (digit n) = (of_char (CHR ''-'') :: nat)" by simp
  then show False using \<open>n < 10\<close> by (simp add: of_char_digit)
qed

lemma show_nat_hd: "\<exists>k < 10. \<exists>s. show_nat n = digit k # s"
proof (induction n rule: show_nat.induct)
  case (1 n)
  show ?case
  proof (cases "n < 10")
    case True
    then show ?thesis by (auto simp: show_nat.simps[of n])
  next
    case False
    then obtain k s where "k < 10" "show_nat (n div 10) = digit k # s"
      using 1 by blast
    then show ?thesis using False by (subst show_nat.simps) auto
  qed
qed

lemma show_nat_ne_minus [simp]: "show_nat n \<noteq> CHR ''-'' # s"
  by (metis digit_neq_minus list.inject show_nat_hd)

lemma show_nat_not_Nil [simp]: "show_nat n \<noteq> []"
  by (metis list.distinct(1) show_nat_hd)

lemma minus_ne_show_nat [simp]: "CHR ''-'' # s \<noteq> show_nat n"
  by (metis show_nat_ne_minus)

lemma show_int_inject [simp]: "show_int i = show_int j \<longleftrightarrow> i = j"
  by (auto simp: show_int_def eq_nat_nat_iff)

lemma show_int_not_Nil [simp]: "show_int i \<noteq> []"
  by (simp add: show_int_def)

section \<open>64-bit integers\<close>

text \<open>Go's \<open>int\<close> and \<open>int64\<close> wrap around in two's complement.\<close>

definition wrap64 :: "int \<Rightarrow> int" where
  "wrap64 x = (x + 2 ^ 63) mod 2 ^ 64 - 2 ^ 63"

definition in_i64 :: "int \<Rightarrow> bool" where
  "in_i64 x \<longleftrightarrow> - (2 ^ 63) \<le> x \<and> x < 2 ^ 63"

definition in_i32 :: "int \<Rightarrow> bool" where
  "in_i32 x \<longleftrightarrow> - (2 ^ 31) \<le> x \<and> x < 2 ^ 31"

lemma wrap64_id [go_simps]: "in_i64 x \<Longrightarrow> wrap64 x = x"
  by (simp add: wrap64_def in_i64_def)

lemma wrap64_in_i64 [simp]: "in_i64 (wrap64 x)"
  by (simp add: wrap64_def in_i64_def)

lemma in_i32_in_i64 [go_simps]: "in_i32 x \<Longrightarrow> in_i64 x"
  by (simp add: in_i32_def in_i64_def)

lemma wrap64_cong: "a mod 2 ^ 64 = b mod 2 ^ 64 \<Longrightarrow> wrap64 a = wrap64 b"
  unfolding wrap64_def by (metis mod_add_left_eq)

lemma wrap64_mod: "wrap64 a mod 2 ^ 64 = a mod 2 ^ 64"
  unfolding wrap64_def by (simp add: mod_diff_left_eq)

lemma wrap64_mult_left: "wrap64 (wrap64 a * b) = wrap64 (a * b)"
  by (rule wrap64_cong) (metis mod_mult_left_eq wrap64_mod)

text \<open>\<open>uint64\<close> values and the conversion \<open>uint64(x)\<close> of a signed value.\<close>

definition u64 :: "int \<Rightarrow> int" where
  "u64 x = x mod 2 ^ 64"

lemma u64_id [go_simps]: "0 \<le> x \<Longrightarrow> x < 2 ^ 64 \<Longrightarrow> u64 x = x"
  by (simp add: u64_def)

section \<open>Errors\<close>

text \<open>
  The error values of the program: the sentinels it compares with
  \<open>errors.Is\<close>, a driver error of the data base, the error of a remote call with
  its gRPC status, a plain text (\<open>errors.New\<close>, \<open>fmt.Errorf\<close> without \<open>%w\<close>) and a
  wrapped error (\<open>fmt.Errorf("prefix%wsuffix")\<close>).
\<close>

datatype grpc_code = GOk | GUnavailable | GDeadlineExceeded | GAborted | GNotFound | GOtherCode

text \<open>The field \<open>ed_retryable\<close> and the code of the rich error \<open>nodeagent.v1.ErrorDetail\<close>.\<close>

record error_detail =
  ed_code :: string
  ed_category :: string
  ed_retryable :: bool
  ed_message :: string

record rpc_error =
  re_ctx_deadline :: bool    \<comment> \<open>the error is (or wraps) \<open>context.DeadlineExceeded\<close>\<close>
  re_status :: "grpc_code option"   \<comment> \<open>\<open>status.FromError\<close>: \<open>None\<close> when not a gRPC status\<close>
  re_details :: "error_detail list"
  re_text :: string

datatype gerr =
    ErrRecordNotFound
  | ErrDuplicatedKey
  | ErrReservationConflict
  | ErrNotQueued
  | ErrSubscriptionConflict
  | ErrStopFailure
  | ErrCredentialPoolEmpty
  | ErrCanceled
  | DbErr string
  | RpcErr rpc_error
  | Errorf string
  | Wrapped string gerr string

fun error_text :: "gerr \<Rightarrow> string" where
  "error_text ErrRecordNotFound = ''record not found''"
| "error_text ErrDuplicatedKey = ''duplicated key not allowed''"
| "error_text ErrReservationConflict = ''reservation conflict: node capacity changed''"
| "error_text ErrNotQueued = ''instance is not in queued state''"
| "error_text ErrSubscriptionConflict = ''subscription already has an active instance''"
| "error_text ErrStopFailure = ''instance is in stop-failure state''"
| "error_text ErrCredentialPoolEmpty = ''credential pool is empty, please ask admin to add credentials''"
| "error_text ErrCanceled = ''context canceled''"
| "error_text (DbErr t) = t"
| "error_text (RpcErr r) = re_text r"
| "error_text (Errorf t) = t"
| "error_text (Wrapped p e s) = p @ error_text e @ s"

text \<open>\<open>errors.Is(err, target)\<close> for a sentinel target.\<close>

fun errors_is :: "gerr \<Rightarrow> gerr \<Rightarrow> bool" where
  "errors_is (Wrapped p e s) t = (Wrapped p e s = t \<or> errors_is e t)"
| "errors_is e t = (e = t)"

section \<open>Keyed tables\<close>

text \<open>
  A data base table is the list of its rows in the order a query without
  \<open>ORDER BY\<close> returns them; \<open>key\<close> is its primary key.
\<close>

definition tbl_find :: "('r \<Rightarrow> 'k) \<Rightarrow> 'k \<Rightarrow> 'r list \<Rightarrow> 'r option" where
  "tbl_find key k rows = find (\<lambda>r. key r = k) rows"

definition tbl_upd :: "('r \<Rightarrow> bool) \<Rightarrow> ('r \<Rightarrow> 'r) \<Rightarrow> 'r list \<Rightarrow> 'r list" where
  "tbl_upd P f rows = map (\<lambda>r. if P r then f r else r) rows"

definition tbl_del :: "('r \<Rightarrow> bool) \<Rightarrow> 'r list \<Rightarrow> 'r list" where
  "tbl_del P rows = filter (\<lambda>r. \<not> P r) rows"

definition tbl_put :: "('r \<Rightarrow> 'k) \<Rightarrow> 'r \<Rightarrow> 'r list \<Rightarrow> 'r list" where
  "tbl_put key r rows =
     (if key r \<in> set (map key rows) then tbl_upd (\<lambda>x. key x = key r) (\<lambda>_. r) rows
      else rows @ [r])"

definition tbl_ok :: "('r \<Rightarrow> 'k) \<Rightarrow> 'r list \<Rightarrow> bool" where
  "tbl_ok key rows \<longleftrightarrow> distinct (map key rows)"

lemma tbl_find_Nil [table_simps]: "tbl_find key k [] = None"
  by (simp add: tbl_find_def)

lemma tbl_find_Cons [table_simps]:
  "tbl_find key k (r # rows) = (if key r = k then Some r else tbl_find key k rows)"
  by (simp add: tbl_find_def)

lemma tbl_find_append [table_simps]:
  "tbl_find key k (xs @ ys) = (case tbl_find key k xs of None \<Rightarrow> tbl_find key k ys | Some r \<Rightarrow> Some r)"
  by (induction xs) (auto simp: table_simps)

lemma tbl_find_SomeD: "tbl_find key k rows = Some r \<Longrightarrow> r \<in> set rows \<and> key r = k"
  by (auto simp: tbl_find_def find_Some_iff)

lemma tbl_find_None_iff: "tbl_find key k rows = None \<longleftrightarrow> k \<notin> key ` set rows"
  by (induction rows) (auto simp: table_simps)

lemma tbl_find_mem:
  "tbl_ok key rows \<Longrightarrow> r \<in> set rows \<Longrightarrow> tbl_find key (key r) rows = Some r"
  by (induction rows) (auto simp: table_simps tbl_ok_def)

lemma tbl_find_upd:
  assumes "\<And>r. key (f r) = key r"
  shows "tbl_find key k (tbl_upd P f rows) =
         map_option (\<lambda>r. if P r then f r else r) (tbl_find key k rows)"
  by (induction rows) (auto simp: tbl_upd_def tbl_find_def assms)

lemma tbl_find_upd_key:
  assumes "\<And>r. key (f r) = key r"
  shows "tbl_find key k (tbl_upd (\<lambda>r. key r = k') f rows) =
         (if k = k' then map_option f (tbl_find key k rows) else tbl_find key k rows)"
  by (induction rows) (auto simp: tbl_upd_def tbl_find_def assms)

lemma tbl_find_replace:
  assumes "key v = k'"
  shows "tbl_find key k (tbl_upd (\<lambda>r. key r = k') (\<lambda>_. v) rows) =
         (if k = k' \<and> k' \<in> set (map key rows) then Some v else tbl_find key k rows)"
  by (induction rows) (auto simp: tbl_upd_def tbl_find_def assms)

lemma tbl_find_put [table_simps]:
  "tbl_find key k (tbl_put key r rows) = (if k = key r then Some r else tbl_find key k rows)"
proof (cases "key r \<in> set (map key rows)")
  case True
  then show ?thesis by (simp add: tbl_put_def tbl_find_replace)
next
  case False
  then have "tbl_find key (key r) rows = None" by (simp add: tbl_find_None_iff)
  then show ?thesis using False
    by (auto simp: tbl_put_def table_simps split: option.splits)
qed

lemma tbl_find_del:
  "tbl_find key k (tbl_del (\<lambda>r. key r = k') rows) = (if k = k' then None else tbl_find key k rows)"
  by (induction rows) (auto simp: tbl_del_def tbl_find_def)

lemma map_tbl_upd [table_simps]:
  assumes "\<And>r. P r \<Longrightarrow> key (f r) = key r"
  shows "map key (tbl_upd P f rows) = map key rows"
  using assms by (simp add: tbl_upd_def)

lemma tbl_ok_upd: "(\<And>r. P r \<Longrightarrow> key (f r) = key r) \<Longrightarrow> tbl_ok key rows \<Longrightarrow> tbl_ok key (tbl_upd P f rows)"
  by (simp add: tbl_ok_def map_tbl_upd)

lemma tbl_ok_del: "tbl_ok key rows \<Longrightarrow> tbl_ok key (tbl_del P rows)"
  by (simp add: tbl_ok_def tbl_del_def distinct_map_filter)

lemma tbl_ok_put: "tbl_ok key rows \<Longrightarrow> tbl_ok key (tbl_put key r rows)"
  by (auto simp: tbl_put_def tbl_ok_upd intro: tbl_ok_upd) (auto simp: tbl_ok_def)

lemma set_tbl_upd: "set (tbl_upd P f rows) = (\<lambda>r. if P r then f r else r) ` set rows"
  by (simp add: tbl_upd_def)

lemma set_tbl_del [simp]: "set (tbl_del P rows) = {r \<in> set rows. \<not> P r}"
  by (auto simp: tbl_del_def)

lemma set_tbl_put_subset: "set (tbl_put key r rows) \<subseteq> insert r (set rows)"
  by (auto simp: tbl_put_def set_tbl_upd)

lemma tbl_upd_none: "(\<And>r. r \<in> set rows \<Longrightarrow> \<not> P r) \<Longrightarrow> tbl_upd P f rows = rows"
  by (simp add: tbl_upd_def map_idI)

text \<open>A Go map is an association list; \<open>m[k] = v\<close> is \<open>tbl_put fst (k, v)\<close>.\<close>

lemma map_of_tbl_put: "map_of (tbl_put fst (k, v) xs) k' = (if k' = k then Some v else map_of xs k')"
proof -
  have t: "map_of ys j = map_option snd (tbl_find fst j ys)" for j and ys :: "('k \<times> 'v) list"
    by (induction ys) (auto simp: table_simps)
  show ?thesis by (simp add: t tbl_find_put)
qed

text \<open>
  The contract of a repository with a primary key: what a lookup returns after a
  save and after a delete.  \<open>find\<close> answers \<open>None\<close> for \<open>gorm.ErrRecordNotFound\<close>.
\<close>

locale keyed_table =
  fixes find :: "'s \<Rightarrow> 'k \<Rightarrow> 'r option"
    and save :: "'s \<Rightarrow> 'r \<Rightarrow> 's"
    and delete :: "'s \<Rightarrow> 'k \<Rightarrow> 's"
    and key :: "'r \<Rightarrow> 'k"
  assumes find_save: "find (save s r) k = (if k = key r then Some r else find s k)"
    and find_delete: "find (delete s k') k = (if k = k' then None else find s k)"
    and find_key: "find s k = Some r \<Longrightarrow> key r = k"
begin

lemma save_visible: "find (save s r) (key r) = Some r"
  by (simp add: find_save)

lemma save_other: "k \<noteq> key r \<Longrightarrow> find (save s r) k = find s k"
  by (simp add: find_save)

lemma last_save_wins: "key r = key r' \<Longrightarrow> find (save (save s r) r') k = find (save s r') k"
  by (simp add: find_save)

lemma save_same_noop: "find s (key r) = Some r \<Longrightarrow> find (save s r) k = find s k"
  by (simp add: find_save)

lemma delete_idem: "find (delete (delete s k') k') k = find (delete s k') k"
  by (simp add: find_delete)

lemma delete_after_save: "find (delete (save s r) (key r)) k = find (delete s (key r)) k"
  by (simp add: find_delete find_save)

end

interpretation list_table: keyed_table
  "\<lambda>rows k. tbl_find key k rows" "\<lambda>rows r. tbl_put key r rows"
  "\<lambda>rows k. tbl_del (\<lambda>r. key r = k) rows" key
  by unfold_locales (auto simp: tbl_find_put tbl_find_del dest: tbl_find_SomeD)

end
