(* ===== verification/Entities.thy ===== *)
theory Entities
  imports Prelude
begin

text \<open>
  The data of the controller (\<open>controller-go/internal/entity\<close>): one record per
  struct, one datatype per enumeration with its integer code, and the methods of
  the entities (\<open>String\<close>, \<open>ParseInstanceStatus\<close>, \<open>IsActive\<close>, \<open>IsStopFailure\<close>,
  \<open>Advance\<close>).  Instants and durations are nanoseconds (\<open>int\<close>), a pointer that may
  be \<open>nil\<close> is an option, host and container ports are 16-bit words, other integers
  are \<open>int\<close> (an overflow is written out where an operation can cause one).
\<close>

type_synonym time = int
type_synonym duration = int

definition second :: duration where "second = 1000000000"
definition minute :: duration where "minute = 60 * second"

section \<open>Instance status\<close>

datatype InstanceStatus =
    StatusPending | StatusScheduling | StatusPreparingBuild | StatusRestoringSnapshot
  | StatusStarting | StatusRunning | StatusStopping | StatusCleaning | StatusStopped
  | StatusQueued | StatusCacheWarming | Failed

text \<open>The value \<open>iota\<close> gives each constant, which is what the data base column stores.\<close>

fun status_code :: "InstanceStatus \<Rightarrow> nat" where
  "status_code StatusPending = 0"
| "status_code StatusScheduling = 1"
| "status_code StatusPreparingBuild = 2"
| "status_code StatusRestoringSnapshot = 3"
| "status_code StatusStarting = 4"
| "status_code StatusRunning = 5"
| "status_code StatusStopping = 6"
| "status_code StatusCleaning = 7"
| "status_code StatusStopped = 8"
| "status_code StatusQueued = 9"
| "status_code StatusCacheWarming = 10"
| "status_code Failed = 11"

lemma status_code_inject [simp]: "status_code s = status_code t \<longleftrightarrow> s = t"
  by (cases s; cases t) auto

instantiation InstanceStatus :: linorder
begin

definition less_eq_InstanceStatus :: "InstanceStatus \<Rightarrow> InstanceStatus \<Rightarrow> bool" where
  "less_eq_InstanceStatus s t \<longleftrightarrow> status_code s \<le> status_code t"

definition less_InstanceStatus :: "InstanceStatus \<Rightarrow> InstanceStatus \<Rightarrow> bool" where
  "less_InstanceStatus s t \<longleftrightarrow> status_code s < status_code t"

instance
  by standard (auto simp: less_eq_InstanceStatus_def less_InstanceStatus_def)

end

fun status_String :: "InstanceStatus \<Rightarrow> string" where
  "status_String StatusPending = ''pending''"
| "status_String StatusScheduling = ''scheduling''"
| "status_String StatusPreparingBuild = ''preparing_build''"
| "status_String StatusRestoringSnapshot = ''restoring_snapshot''"
| "status_String StatusStarting = ''starting''"
| "status_String StatusRunning = ''running''"
| "status_String StatusStopping = ''stopping''"
| "status_String StatusCleaning = ''cleaning''"
| "status_String StatusStopped = ''stopped''"
| "status_String StatusQueued = ''queued''"
| "status_String StatusCacheWarming = ''cache_warming''"
| "status_String Failed = ''failed''"

definition ParseInstanceStatus :: "string \<Rightarrow> InstanceStatus option" where
  "ParseInstanceStatus s =
    (if s = ''pending'' then Some StatusPending
     else if s = ''scheduling'' then Some StatusScheduling
     else if s = ''preparing_build'' then Some StatusPreparingBuild
     else if s = ''restoring_snapshot'' then Some StatusRestoringSnapshot
     else if s = ''starting'' then Some StatusStarting
     else if s = ''running'' then Some StatusRunning
     else if s = ''stopping'' then Some StatusStopping
     else if s = ''cleaning'' then Some StatusCleaning
     else if s = ''stopped'' then Some StatusStopped
     else if s = ''queued'' then Some StatusQueued
     else if s = ''cache_warming'' then Some StatusCacheWarming
     else if s = ''failed'' then Some Failed
     else None)"

definition IsActive :: "InstanceStatus \<Rightarrow> bool" where
  "IsActive s \<longleftrightarrow> s \<noteq> StatusStopped \<and> s \<noteq> Failed"

section \<open>Game instances\<close>

record ResourceRequest =
  CPUMilli :: int
  MemoryBytes :: int
  DiskBytes :: int
  BandwidthRxMbps :: int
  BandwidthTxMbps :: int

record GameInstance =
  gi_ID :: string
  gi_GameID :: string
  gi_NodeAgentID :: "string option"
  gi_Status :: InstanceStatus
  gi_LastPendingTime :: time
  gi_CreateTime :: time
  gi_UpdateTime :: time
  gi_GameBuildId :: string
  gi_BranchName :: string
  gi_CacheBuildID :: string
  gi_Region :: string
  gi_Priority :: int
  gi_ResourceReq :: "ResourceRequest option"
  gi_ResourceOverride :: bool
  gi_QueuedReason :: string
  gi_QueuedAt :: "time option"
  gi_Cancelled :: bool
  gi_FailReason :: string
  gi_Config :: "(string \<times> string) list"
  gi_SubscriptionID :: "string option"

definition IsStopFailure :: "GameInstance \<Rightarrow> bool" where
  "IsStopFailure g \<longleftrightarrow> gi_Status g = Failed \<and> gi_NodeAgentID g \<noteq> None"

text \<open>\<open>(*GameInstance).Advance\<close>: the next status, or the error of the default branch.\<close>

fun Advance :: "GameInstance \<Rightarrow> GameInstance \<times> (gerr + InstanceStatus)" where
  "Advance g = (case gi_Status g of
      StatusPending \<Rightarrow> (g\<lparr>gi_Status := StatusScheduling\<rparr>, Inr StatusScheduling)
    | StatusScheduling \<Rightarrow> (g\<lparr>gi_Status := StatusPreparingBuild\<rparr>, Inr StatusPreparingBuild)
    | StatusPreparingBuild \<Rightarrow> (g\<lparr>gi_Status := StatusRestoringSnapshot\<rparr>, Inr StatusRestoringSnapshot)
    | StatusRestoringSnapshot \<Rightarrow> (g\<lparr>gi_Status := StatusStarting\<rparr>, Inr StatusStarting)
    | StatusStarting \<Rightarrow> (g\<lparr>gi_Status := StatusRunning\<rparr>, Inr StatusRunning)
    | StatusStopping \<Rightarrow> (g\<lparr>gi_Status := StatusCleaning\<rparr>, Inr StatusCleaning)
    | StatusCleaning \<Rightarrow> (g\<lparr>gi_Status := StatusStopped\<rparr>, Inr StatusStopped)
    | _ \<Rightarrow> (g, Inl (Errorf ''cannot advance from current status'')))"

section \<open>Nodes and node agents\<close>

datatype NodePressureStatus = PressureNormal | PressureWarning | PressureCritical

record Node =
  nd_Id :: int
  nd_Ip :: string
  nd_CoreNum :: int
  nd_CoreFrequency :: rat
  nd_MemorySize :: int
  nd_StorageSize :: int
  nd_Location :: string
  nd_ServiceProvider :: string
  nd_CPUUsedMilli :: int
  nd_MemoryUsedBytes :: int
  nd_DiskUsedBytes :: int
  nd_NetRxBps :: int
  nd_NetTxBps :: int
  nd_UsageReportedAt :: "time option"
  nd_CPUReservedMilli :: int
  nd_MemoryReservedBytes :: int
  nd_DiskReservedBytes :: int
  nd_PressureStatus :: NodePressureStatus
  nd_NetRxLimitMbps :: int
  nd_NetTxLimitMbps :: int
  nd_BandwidthRxReservedMbps :: int
  nd_BandwidthTxReservedMbps :: int

record NodeDynamicUsage =
  du_CPUUsedMilli :: int
  du_MemoryUsedBytes :: int
  du_DiskUsedBytes :: int
  du_NetRxBps :: int
  du_NetTxBps :: int

record NodeResourceSample =
  rs_ID :: int
  rs_NodeID :: string
  rs_SampledAt :: time
  rs_CPUUsedMilli :: int
  rs_MemoryUsedBytes :: int
  rs_DiskUsedBytes :: int
  rs_NetRxBps :: int
  rs_NetTxBps :: int

datatype NodeAgentStatus = Disabled | Enabled

datatype NodeAgentHealthStatus = HealthUnknown | HealthHealthy | HealthDegraded | HealthUnhealthy

record NodeAgent =
  na_ID :: string
  na_NodeId :: string
  na_Port :: int
  na_Status :: NodeAgentStatus
  na_Alive :: bool
  na_LastHeartbeatAt :: "time option"
  na_HealthStatus :: NodeAgentHealthStatus
  na_AgentVersion :: string
  na_UpdateState :: string
  na_TargetVersion :: string
  na_LastUpdateAt :: "time option"
  na_LastUpdateErr :: string

section \<open>Games, container configurations, ports\<close>

record Game =
  gm_ID :: string
  gm_Name :: string
  gm_AppId :: string
  gm_ContainerConfigID :: string

datatype ProtocolType = TCP | UDP

datatype GameContainerPortMode = PORT_MAPPING_MOD_NAT | PORT_MAPPING_MOD_HOST

type_synonym port = "16 word"

record GameContainerPortExcerpt =
  pe_ID :: nat
  pe_GameContainerConfigID :: string
  pe_Protocol :: ProtocolType
  pe_BeginPort :: port
  pe_ExcerptLength :: port
  pe_IsGamePort :: bool

record GameContainerConfig =
  gc_ID :: string
  gc_ContainerServerPath :: string
  gc_PortMode :: GameContainerPortMode
  gc_InjectGamePort :: bool
  gc_PortExcerpt :: "GameContainerPortExcerpt list"
  gc_CPURequestMilli :: int
  gc_MemoryRequestBytes :: int
  gc_DiskRequestBytes :: int
  gc_BandwidthRxMbps :: int
  gc_BandwidthTxMbps :: int
  gc_SingleThreaded :: bool
  gc_PortInjectEnv :: string
  gc_ProbeMode :: string
  gc_QueryPortOffset :: int

record ContainerPortMapping =
  pm_ID :: string
  pm_InstanceId :: string
  pm_NodeAgentId :: string
  pm_HostPort :: port
  pm_ContainerPort :: port
  pm_Protocol :: ProtocolType
  pm_IsGamePort :: bool

section \<open>Queue, branches, credentials, events\<close>

record SchedulingQueue =
  sq_InstanceID :: string
  sq_Priority :: int
  sq_Reason :: string
  sq_Attempts :: int
  sq_WakeAt :: time
  sq_QueuedAt :: time
  sq_TimeoutAt :: time

datatype SteamBranchStatus = Disable | Enable | Abandoned

record SteamBranch =
  sb_Id :: string
  sb_BranchName :: string
  sb_LastBuildId :: int
  sb_GameId :: string
  sb_Status :: SteamBranchStatus
  sb_MinReplicas :: int
  sb_Description :: string
  sb_CreateTime :: time
  sb_UpdateTime :: time

text \<open>The statuses of a credential are strings in the code.\<close>

definition CredentialAvailable :: string where "CredentialAvailable = ''available''"
definition CredentialInUse :: string where "CredentialInUse = ''in_use''"
definition CredentialOrphan :: string where "CredentialOrphan = ''orphan''"

lemma credential_status_distinct [simp]:
  "CredentialAvailable \<noteq> CredentialInUse" "CredentialInUse \<noteq> CredentialAvailable"
  "CredentialAvailable \<noteq> CredentialOrphan" "CredentialOrphan \<noteq> CredentialAvailable"
  "CredentialInUse \<noteq> CredentialOrphan" "CredentialOrphan \<noteq> CredentialInUse"
  by (simp_all add: CredentialAvailable_def CredentialInUse_def CredentialOrphan_def)

record CredentialPool =
  cp_ID :: string
  cp_GameID :: string
  cp_ResourceType :: string
  cp_Secret :: string
  cp_Status :: string
  cp_InstanceID :: "string option"
  cp_LastInstanceID :: "string option"
  cp_AllocatedAt :: "time option"
  cp_ReleasedAt :: "time option"
  cp_Remark :: string
  cp_CreateTime :: time
  cp_UpdateTime :: time

record GamePlatformConfig =
  gp_GameID :: string
  gp_Config :: "(string \<times> string) list"
  gp_Version :: int
  gp_UpdatedBy :: string
  gp_UpdateTime :: time

record SchedulerEventRow =
  se_OccurredAt :: time
  se_Type :: string
  se_InstanceID :: string
  se_NodeAgentID :: string
  se_Detail :: string
  se_CreatedAt :: time

section \<open>Properties of the statuses\<close>

lemma parse_status_String: "ParseInstanceStatus (status_String s) = Some s"
  by (cases s) (simp_all add: ParseInstanceStatus_def)

lemma ParseInstanceStatus_SomeD: "ParseInstanceStatus t = Some s \<Longrightarrow> t = status_String s"
  by (auto simp: ParseInstanceStatus_def split: if_splits)

end
