(* ===== verification/Database.thy ===== *)
theory Database
  imports Entities "HOL-Library.Product_Lexorder"
begin

text \<open>
  The data base of the controller: one table per entity, and the repository
  operations of \<open>controller-go/internal/repository/gorm\<close>.  A table is a list of
  rows in the order an unordered query returns them.  A driver error can strike
  any call: \<open>db_fault c = Some t\<close> makes the call \<open>c\<close> fail with the text \<open>t\<close> and
  leaves the tables unchanged, so every \<open>err != nil\<close> branch of the program is a
  branch of the model.  Operations are polymorphic in the rest of the state (the
  records of the scheduler and of the dispatcher extend \<open>db\<close>).
\<close>

section \<open>The calls that can fail\<close>

text \<open>A call is the repository method with its key arguments.\<close>

datatype dbcall = Call string "string list"

abbreviation InstSave :: "string \<Rightarrow> dbcall" where "InstSave k \<equiv> Call ''InstSave'' [k]"
abbreviation InstGet :: "string \<Rightarrow> dbcall" where "InstGet k \<equiv> Call ''InstGet'' [k]"
abbreviation InstUpdateStatus :: "string \<Rightarrow> dbcall" where "InstUpdateStatus k \<equiv> Call ''InstUpdateStatus'' [k]"
abbreviation InstList :: "dbcall" where "InstList \<equiv> Call ''InstList'' []"
abbreviation InstDelete :: "string \<Rightarrow> dbcall" where "InstDelete k \<equiv> Call ''InstDelete'' [k]"
abbreviation NodeGet :: "string \<Rightarrow> dbcall" where "NodeGet k \<equiv> Call ''NodeGet'' [k]"
abbreviation NodeList :: "dbcall" where "NodeList \<equiv> Call ''NodeList'' []"
abbreviation NodeSave :: "int \<Rightarrow> dbcall" where "NodeSave k \<equiv> Call ''NodeSave'' [show_int k]"
abbreviation NodeUpdate :: "string \<Rightarrow> dbcall" where "NodeUpdate k \<equiv> Call ''NodeUpdate'' [k]"
abbreviation NodeDelete :: "string \<Rightarrow> dbcall" where "NodeDelete k \<equiv> Call ''NodeDelete'' [k]"
abbreviation AgentGet :: "string \<Rightarrow> dbcall" where "AgentGet k \<equiv> Call ''AgentGet'' [k]"
abbreviation AgentList :: "dbcall" where "AgentList \<equiv> Call ''AgentList'' []"
abbreviation AgentListEnabled :: "dbcall" where "AgentListEnabled \<equiv> Call ''AgentListEnabled'' []"
abbreviation AgentSave :: "string \<Rightarrow> dbcall" where "AgentSave k \<equiv> Call ''AgentSave'' [k]"
abbreviation AgentUpdate :: "string \<Rightarrow> dbcall" where "AgentUpdate k \<equiv> Call ''AgentUpdate'' [k]"
abbreviation QueueEnqueue :: "string \<Rightarrow> dbcall" where "QueueEnqueue k \<equiv> Call ''QueueEnqueue'' [k]"
abbreviation QueueDequeue :: "string \<Rightarrow> dbcall" where "QueueDequeue k \<equiv> Call ''QueueDequeue'' [k]"
abbreviation QueueGet :: "string \<Rightarrow> dbcall" where "QueueGet k \<equiv> Call ''QueueGet'' [k]"
abbreviation QueueUpdateWake :: "string \<Rightarrow> dbcall" where "QueueUpdateWake k \<equiv> Call ''QueueUpdateWake'' [k]"
abbreviation QueueListDue :: "dbcall" where "QueueListDue \<equiv> Call ''QueueListDue'' []"
abbreviation QueueListAll :: "dbcall" where "QueueListAll \<equiv> Call ''QueueListAll'' []"
abbreviation QueueCount :: "dbcall" where "QueueCount \<equiv> Call ''QueueCount'' []"
abbreviation PortSave :: "string \<Rightarrow> dbcall" where "PortSave k \<equiv> Call ''PortSave'' [k]"
abbreviation PortListInstance :: "string \<Rightarrow> dbcall" where "PortListInstance k \<equiv> Call ''PortListInstance'' [k]"
abbreviation PortListAgent :: "string \<Rightarrow> dbcall" where "PortListAgent k \<equiv> Call ''PortListAgent'' [k]"
abbreviation PortDelete :: "string \<Rightarrow> dbcall" where "PortDelete k \<equiv> Call ''PortDelete'' [k]"
abbreviation CredList :: "string \<Rightarrow> dbcall" where "CredList k \<equiv> Call ''CredList'' [k]"
abbreviation CredGet :: "string \<Rightarrow> dbcall" where "CredGet k \<equiv> Call ''CredGet'' [k]"
abbreviation CredCreate :: "dbcall" where "CredCreate \<equiv> Call ''CredCreate'' []"
abbreviation CredDelete :: "string \<Rightarrow> dbcall" where "CredDelete k \<equiv> Call ''CredDelete'' [k]"
abbreviation CredAcquire :: "string \<Rightarrow> dbcall" where "CredAcquire k \<equiv> Call ''CredAcquire'' [k]"
abbreviation CredRelease :: "string \<Rightarrow> dbcall" where "CredRelease k \<equiv> Call ''CredRelease'' [k]"
abbreviation CredReleaseInstance :: "string \<Rightarrow> dbcall" where "CredReleaseInstance k \<equiv> Call ''CredReleaseInstance'' [k]"
abbreviation CredFind :: "string \<Rightarrow> dbcall" where "CredFind k \<equiv> Call ''CredFind'' [k]"
abbreviation CredOrphanMark :: "string \<Rightarrow> dbcall" where "CredOrphanMark k \<equiv> Call ''CredOrphanMark'' [k]"
abbreviation CredForce :: "string \<Rightarrow> dbcall" where "CredForce k \<equiv> Call ''CredForce'' [k]"
abbreviation GameGet :: "string \<Rightarrow> dbcall" where "GameGet k \<equiv> Call ''GameGet'' [k]"
abbreviation GameList :: "dbcall" where "GameList \<equiv> Call ''GameList'' []"
abbreviation ConfigGet :: "string \<Rightarrow> dbcall" where "ConfigGet k \<equiv> Call ''ConfigGet'' [k]"
abbreviation BranchList :: "string \<Rightarrow> dbcall" where "BranchList k \<equiv> Call ''BranchList'' [k]"
abbreviation BranchGet :: "string \<Rightarrow> string \<Rightarrow> dbcall" where "BranchGet k l \<equiv> Call ''BranchGet'' [k, l]"
abbreviation PlatformGet :: "string \<Rightarrow> dbcall" where "PlatformGet k \<equiv> Call ''PlatformGet'' [k]"
abbreviation SampleList :: "string \<Rightarrow> dbcall" where "SampleList k \<equiv> Call ''SampleList'' [k]"
abbreviation SampleAppend :: "dbcall" where "SampleAppend \<equiv> Call ''SampleAppend'' []"
abbreviation SamplePrune :: "dbcall" where "SamplePrune \<equiv> Call ''SamplePrune'' []"
abbreviation BranchSave :: "string \<Rightarrow> dbcall" where "BranchSave k \<equiv> Call ''BranchSave'' [k]"
abbreviation BranchDelete :: "string \<Rightarrow> dbcall" where "BranchDelete k \<equiv> Call ''BranchDelete'' [k]"
abbreviation StatIncr :: "string \<Rightarrow> dbcall" where "StatIncr k \<equiv> Call ''StatIncr'' [k]"
abbreviation StatAll :: "dbcall" where "StatAll \<equiv> Call ''StatAll'' []"
abbreviation ReserveTx :: "string \<Rightarrow> dbcall" where "ReserveTx k \<equiv> Call ''ReserveTx'' [k]"
abbreviation ReleaseTx :: "string \<Rightarrow> dbcall" where "ReleaseTx k \<equiv> Call ''ReleaseTx'' [k]"
abbreviation EventAppend :: "dbcall" where "EventAppend \<equiv> Call ''EventAppend'' []"
abbreviation EventList :: "dbcall" where "EventList \<equiv> Call ''EventList'' []"
abbreviation EventPrune :: "dbcall" where "EventPrune \<equiv> Call ''EventPrune'' []"
abbreviation EventCount :: "dbcall" where "EventCount \<equiv> Call ''EventCount'' []"

record db =
  t_nodes :: "Node list"
  t_agents :: "NodeAgent list"
  t_instances :: "GameInstance list"
  t_queue :: "SchedulingQueue list"
  t_ports :: "ContainerPortMapping list"
  t_creds :: "CredentialPool list"
  t_games :: "Game list"
  t_configs :: "GameContainerConfig list"
  t_branches :: "SteamBranch list"
  t_platform :: "GamePlatformConfig list"
  t_samples :: "NodeResourceSample list"
  t_stats :: "(string \<times> int) list"
  t_events :: "SchedulerEventRow list"
  db_fault :: "dbcall \<Rightarrow> string option"

definition guard_call :: "'a db_scheme \<Rightarrow> dbcall \<Rightarrow> (gerr + 'r) \<Rightarrow> gerr + 'r" where
  "guard_call w c r = (case db_fault w c of Some t \<Rightarrow> Inl (DbErr t) | None \<Rightarrow> r)"

definition guard_write ::
  "'a db_scheme \<Rightarrow> dbcall \<Rightarrow> 'a db_scheme \<Rightarrow> 'a db_scheme \<times> gerr option" where
  "guard_write w c w' = (case db_fault w c of Some t \<Rightarrow> (w, Some (DbErr t)) | None \<Rightarrow> (w', None))"

text \<open>\<open>First\<close>: a missing row is \<open>gorm.ErrRecordNotFound\<close>.\<close>

definition found :: "'r option \<Rightarrow> gerr + 'r" where
  "found r = (case r of None \<Rightarrow> Inl ErrRecordNotFound | Some x \<Rightarrow> Inr x)"

lemma found_Inr [simp]: "found r = Inr x \<longleftrightarrow> r = Some x"
  by (cases r) (auto simp: found_def)

lemma guard_call_Inr [simp]: "guard_call w c r = Inr x \<longleftrightarrow> db_fault w c = None \<and> r = Inr x"
  by (cases "db_fault w c") (auto simp: guard_call_def)

lemma guard_write_None [simp]: "snd (guard_write w c w') = None \<longleftrightarrow> db_fault w c = None"
  by (cases "db_fault w c") (auto simp: guard_write_def)

lemma fst_guard_write: "fst (guard_write w c w') = (if db_fault w c = None then w' else w)"
  by (cases "db_fault w c") (auto simp: guard_write_def)

section \<open>Constraints of the schema\<close>

text \<open>
  \<open>main.go\<close> opens gorm without \<open>TranslateError\<close>, so a unique violation reaches the
  program as the driver's error (SQLSTATE 23505) and not as \<open>gorm.ErrDuplicatedKey\<close>.
\<close>

definition gorm_TranslateError :: bool where
  "gorm_TranslateError = False"

definition unique_violation :: "string \<Rightarrow> gerr" where
  "unique_violation constr =
     (if gorm_TranslateError then ErrDuplicatedKey
      else DbErr (''ERROR: duplicate key value violates unique constraint '' @ constr @ '' (SQLSTATE 23505)''))"

definition foreign_key_violation :: "string \<Rightarrow> gerr" where
  "foreign_key_violation constr =
     DbErr (''ERROR: violates foreign key constraint '' @ constr @ '' (SQLSTATE 23503)'')"

text \<open>The partial unique index of migration 000027: \<open>status NOT IN (8, 10)\<close>.\<close>

definition index_excluded_codes :: "nat list" where
  "index_excluded_codes = [8, 10]"

definition in_active_index :: "GameInstance \<Rightarrow> bool" where
  "in_active_index g \<longleftrightarrow>
     gi_SubscriptionID g \<noteq> None \<and> status_code (gi_Status g) \<notin> set index_excluded_codes"

definition uq_subscription_single_active :: "GameInstance list \<Rightarrow> bool" where
  "uq_subscription_single_active rows \<longleftrightarrow>
     distinct (map gi_SubscriptionID (filter in_active_index rows))"

section \<open>Game instances (\<open>game_instance_repo.go\<close>)\<close>

text \<open>\<open>Save\<close> stamps \<open>UpdateTime\<close> on the caller's object, then writes the whole row;
  the object is returned.\<close>

definition InstanceRepo_Save ::
  "time \<Rightarrow> GameInstance \<Rightarrow> 'a db_scheme \<Rightarrow> 'a db_scheme \<times> GameInstance \<times> gerr option" where
  "InstanceRepo_Save now inst w =
    (let i = inst\<lparr>gi_UpdateTime := now\<rparr>;
         rows = tbl_put gi_ID i (t_instances w)
     in case db_fault w (InstSave (gi_ID inst)) of
          Some t \<Rightarrow> (w, i, Some (DbErr t))
        | None \<Rightarrow>
            if uq_subscription_single_active rows then (w\<lparr>t_instances := rows\<rparr>, i, None)
            else (w, i, Some (unique_violation ''uq_subscription_single_active'')))"

definition InstanceRepo_GetByID :: "string \<Rightarrow> 'a db_scheme \<Rightarrow> gerr + GameInstance" where
  "InstanceRepo_GetByID ident w = guard_call w (InstGet ident) (found (tbl_find gi_ID ident (t_instances w)))"

definition InstanceRepo_UpdateStatus ::
  "time \<Rightarrow> GameInstance \<Rightarrow> 'a db_scheme \<Rightarrow> 'a db_scheme \<times> gerr option" where
  "InstanceRepo_UpdateStatus now inst w =
    (let rows = tbl_upd (\<lambda>r. gi_ID r = gi_ID inst)
                  (\<lambda>r. r\<lparr>gi_Status := gi_Status inst, gi_UpdateTime := now\<rparr>) (t_instances w)
     in case db_fault w (InstUpdateStatus (gi_ID inst)) of
          Some t \<Rightarrow> (w, Some (DbErr t))
        | None \<Rightarrow>
            if uq_subscription_single_active rows then (w\<lparr>t_instances := rows\<rparr>, None)
            else (w, Some (unique_violation ''uq_subscription_single_active'')))"

definition InstanceRepo_ListByStatuses ::
  "InstanceStatus list \<Rightarrow> 'a db_scheme \<Rightarrow> gerr + GameInstance list" where
  "InstanceRepo_ListByStatuses ss w =
     guard_call w InstList (Inr (filter (\<lambda>r. gi_Status r \<in> set ss) (t_instances w)))"

definition InstanceRepo_ListByGame :: "string \<Rightarrow> 'a db_scheme \<Rightarrow> gerr + GameInstance list" where
  "InstanceRepo_ListByGame g w =
     guard_call w InstList (Inr (sort_key gi_CreateTime (filter (\<lambda>r. gi_GameID r = g) (t_instances w))))"

definition InstanceRepo_ListActiveBySubscription ::
  "string \<Rightarrow> 'a db_scheme \<Rightarrow> gerr + GameInstance list" where
  "InstanceRepo_ListActiveBySubscription s w =
     guard_call w InstList (Inr (sort_key gi_CreateTime
       (filter (\<lambda>r. gi_SubscriptionID r = Some s \<and> gi_Status r \<notin> {StatusStopped, Failed})
          (t_instances w))))"

definition InstanceRepo_ListBySubscription ::
  "string \<Rightarrow> 'a db_scheme \<Rightarrow> gerr + GameInstance list" where
  "InstanceRepo_ListBySubscription s w =
     guard_call w InstList (Inr (sort_key gi_CreateTime
       (filter (\<lambda>r. gi_SubscriptionID r = Some s) (t_instances w))))"

definition InstanceRepo_ListAll :: "'a db_scheme \<Rightarrow> gerr + GameInstance list" where
  "InstanceRepo_ListAll w = guard_call w InstList (Inr (sort_key gi_CreateTime (t_instances w)))"

text \<open>The queue table references the instance, so a queued instance cannot be deleted.\<close>

definition InstanceRepo_Delete :: "string \<Rightarrow> 'a db_scheme \<Rightarrow> 'a db_scheme \<times> gerr option" where
  "InstanceRepo_Delete ident w =
    (case db_fault w (InstDelete ident) of
       Some t \<Rightarrow> (w, Some (DbErr t))
     | None \<Rightarrow>
        if ident \<in> set (map sq_InstanceID (t_queue w))
           \<and> ident \<in> set (map gi_ID (t_instances w))
        then (w, Some (foreign_key_violation ''scheduling_queue_instance_id_fkey''))
        else (w\<lparr>t_instances := tbl_del (\<lambda>r. gi_ID r = ident) (t_instances w)\<rparr>, None))"

section \<open>Nodes and node agents (\<open>node_repo.go\<close>, \<open>node_agent_repo.go\<close>)\<close>

text \<open>\<open>fmtID\<close>: a node's number as the agents store it.\<close>

definition fmtID :: "int \<Rightarrow> string" where
  "fmtID ident = show_int ident"

lemma fmtID_inject [simp]: "fmtID a = fmtID b \<longleftrightarrow> a = b"
  by (simp add: fmtID_def)

definition node_key :: "Node \<Rightarrow> string" where
  "node_key n = fmtID (nd_Id n)"

definition NodeRepo_Save :: "Node \<Rightarrow> 'a db_scheme \<Rightarrow> 'a db_scheme \<times> gerr option" where
  "NodeRepo_Save n w = guard_write w (NodeSave (nd_Id n)) (w\<lparr>t_nodes := tbl_put node_key n (t_nodes w)\<rparr>)"

definition NodeRepo_GetByID :: "string \<Rightarrow> 'a db_scheme \<Rightarrow> gerr + Node" where
  "NodeRepo_GetByID ident w = guard_call w (NodeGet ident) (found (tbl_find node_key ident (t_nodes w)))"

definition NodeRepo_ListAll :: "'a db_scheme \<Rightarrow> gerr + Node list" where
  "NodeRepo_ListAll w = guard_call w NodeList (Inr (t_nodes w))"

definition NodeRepo_UpdateDynamicUsage ::
  "string \<Rightarrow> NodeDynamicUsage \<Rightarrow> time \<Rightarrow> 'a db_scheme \<Rightarrow> 'a db_scheme \<times> gerr option" where
  "NodeRepo_UpdateDynamicUsage ident u tm w = guard_write w (NodeUpdate ident)
     (w\<lparr>t_nodes := tbl_upd (\<lambda>n. node_key n = ident)
        (\<lambda>n. n\<lparr>nd_CPUUsedMilli := du_CPUUsedMilli u, nd_MemoryUsedBytes := du_MemoryUsedBytes u,
               nd_DiskUsedBytes := du_DiskUsedBytes u, nd_NetRxBps := du_NetRxBps u,
               nd_NetTxBps := du_NetTxBps u, nd_UsageReportedAt := Some tm\<rparr>) (t_nodes w)\<rparr>)"

definition NodeRepo_UpdatePressureStatus ::
  "string \<Rightarrow> NodePressureStatus \<Rightarrow> 'a db_scheme \<Rightarrow> 'a db_scheme \<times> gerr option" where
  "NodeRepo_UpdatePressureStatus ident s w = guard_write w (NodeUpdate ident)
     (w\<lparr>t_nodes := tbl_upd (\<lambda>n. node_key n = ident) (\<lambda>n. n\<lparr>nd_PressureStatus := s\<rparr>) (t_nodes w)\<rparr>)"

definition NodeRepo_Delete :: "string \<Rightarrow> 'a db_scheme \<Rightarrow> 'a db_scheme \<times> gerr option" where
  "NodeRepo_Delete ident w = guard_write w (NodeDelete ident)
     (w\<lparr>t_nodes := tbl_del (\<lambda>n. node_key n = ident) (t_nodes w)\<rparr>)"

definition AgentRepo_Save :: "NodeAgent \<Rightarrow> 'a db_scheme \<Rightarrow> 'a db_scheme \<times> gerr option" where
  "AgentRepo_Save a w = guard_write w (AgentSave (na_ID a)) (w\<lparr>t_agents := tbl_put na_ID a (t_agents w)\<rparr>)"

definition AgentRepo_GetByID :: "string \<Rightarrow> 'a db_scheme \<Rightarrow> gerr + NodeAgent" where
  "AgentRepo_GetByID ident w = guard_call w (AgentGet ident) (found (tbl_find na_ID ident (t_agents w)))"

definition AgentRepo_ListEnabledIDs :: "'a db_scheme \<Rightarrow> gerr + string list" where
  "AgentRepo_ListEnabledIDs w = guard_call w AgentListEnabled
     (Inr (map na_ID (filter (\<lambda>a. na_Status a = Enabled) (t_agents w))))"

definition AgentRepo_ListAll :: "'a db_scheme \<Rightarrow> gerr + NodeAgent list" where
  "AgentRepo_ListAll w = guard_call w AgentList (Inr (t_agents w))"

definition AgentRepo_UpdateHealth ::
  "string \<Rightarrow> bool \<Rightarrow> time \<Rightarrow> 'a db_scheme \<Rightarrow> 'a db_scheme \<times> gerr option" where
  "AgentRepo_UpdateHealth ident alive tm w = guard_write w (AgentUpdate ident)
     (w\<lparr>t_agents := tbl_upd (\<lambda>a. na_ID a = ident)
        (\<lambda>a. a\<lparr>na_Alive := alive, na_LastHeartbeatAt := Some tm\<rparr>) (t_agents w)\<rparr>)"

definition AgentRepo_UpdateHealthStatus ::
  "string \<Rightarrow> NodeAgentHealthStatus \<Rightarrow> 'a db_scheme \<Rightarrow> 'a db_scheme \<times> gerr option" where
  "AgentRepo_UpdateHealthStatus ident s w = guard_write w (AgentUpdate ident)
     (w\<lparr>t_agents := tbl_upd (\<lambda>a. na_ID a = ident) (\<lambda>a. a\<lparr>na_HealthStatus := s\<rparr>) (t_agents w)\<rparr>)"

definition AgentRepo_UpdateAgentVersion ::
  "string \<Rightarrow> string \<Rightarrow> 'a db_scheme \<Rightarrow> 'a db_scheme \<times> gerr option" where
  "AgentRepo_UpdateAgentVersion ident v w = guard_write w (AgentUpdate ident)
     (w\<lparr>t_agents := tbl_upd (\<lambda>a. na_ID a = ident) (\<lambda>a. a\<lparr>na_AgentVersion := v\<rparr>) (t_agents w)\<rparr>)"

definition AgentRepo_UpdateUpdateState ::
  "time \<Rightarrow> string \<Rightarrow> string \<Rightarrow> string \<Rightarrow> string \<Rightarrow> 'a db_scheme \<Rightarrow> 'a db_scheme \<times> gerr option" where
  "AgentRepo_UpdateUpdateState now ident state target msg w = guard_write w (AgentUpdate ident)
     (w\<lparr>t_agents := tbl_upd (\<lambda>a. na_ID a = ident)
        (\<lambda>a. a\<lparr>na_UpdateState := state, na_TargetVersion := target, na_LastUpdateErr := msg,
               na_LastUpdateAt := Some now\<rparr>) (t_agents w)\<rparr>)"

section \<open>Scheduling queue (\<open>scheduling_queue_repo.go\<close>)\<close>

text \<open>\<open>Create\<close>: the primary key and the reference to the instance are checked.\<close>

definition QueueRepo_Enqueue :: "SchedulingQueue \<Rightarrow> 'a db_scheme \<Rightarrow> 'a db_scheme \<times> gerr option" where
  "QueueRepo_Enqueue q w =
    (case db_fault w (QueueEnqueue (sq_InstanceID q)) of
       Some t \<Rightarrow> (w, Some (DbErr t))
     | None \<Rightarrow>
        if sq_InstanceID q \<in> set (map sq_InstanceID (t_queue w))
        then (w, Some (unique_violation ''scheduling_queue_pkey''))
        else if sq_InstanceID q \<notin> set (map gi_ID (t_instances w))
        then (w, Some (foreign_key_violation ''scheduling_queue_instance_id_fkey''))
        else (w\<lparr>t_queue := t_queue w @ [q]\<rparr>, None))"

definition QueueRepo_Dequeue :: "string \<Rightarrow> 'a db_scheme \<Rightarrow> 'a db_scheme \<times> gerr option" where
  "QueueRepo_Dequeue ident w = guard_write w (QueueDequeue ident)
     (w\<lparr>t_queue := tbl_del (\<lambda>q. sq_InstanceID q = ident) (t_queue w)\<rparr>)"

definition QueueRepo_Get :: "string \<Rightarrow> 'a db_scheme \<Rightarrow> gerr + SchedulingQueue" where
  "QueueRepo_Get ident w = guard_call w (QueueGet ident) (found (tbl_find sq_InstanceID ident (t_queue w)))"

definition QueueRepo_UpdateWake ::
  "string \<Rightarrow> time \<Rightarrow> int \<Rightarrow> 'a db_scheme \<Rightarrow> 'a db_scheme \<times> gerr option" where
  "QueueRepo_UpdateWake ident wake n w = guard_write w (QueueUpdateWake ident)
     (w\<lparr>t_queue := tbl_upd (\<lambda>q. sq_InstanceID q = ident)
        (\<lambda>q. q\<lparr>sq_WakeAt := wake, sq_Attempts := n\<rparr>) (t_queue w)\<rparr>)"

definition queue_order :: "SchedulingQueue \<Rightarrow> int \<times> time" where
  "queue_order q = (sq_Priority q, sq_QueuedAt q)"

definition QueueRepo_ListDue :: "time \<Rightarrow> 'a db_scheme \<Rightarrow> gerr + SchedulingQueue list" where
  "QueueRepo_ListDue now w = guard_call w QueueListDue
     (Inr (sort_key queue_order (filter (\<lambda>q. sq_WakeAt q \<le> now) (t_queue w))))"

definition QueueRepo_ListAll :: "'a db_scheme \<Rightarrow> gerr + SchedulingQueue list" where
  "QueueRepo_ListAll w = guard_call w QueueListAll (Inr (sort_key queue_order (t_queue w)))"

definition QueueRepo_Count :: "'a db_scheme \<Rightarrow> gerr + int" where
  "QueueRepo_Count w = guard_call w QueueCount (Inr (int (length (t_queue w))))"

section \<open>Port mappings (\<open>container_port_mapping_repo.go\<close>)\<close>

definition PortRepo_Save :: "ContainerPortMapping \<Rightarrow> 'a db_scheme \<Rightarrow> 'a db_scheme \<times> gerr option" where
  "PortRepo_Save m w = guard_write w (PortSave (pm_ID m)) (w\<lparr>t_ports := tbl_put pm_ID m (t_ports w)\<rparr>)"

definition PortRepo_ListByInstanceId :: "string \<Rightarrow> 'a db_scheme \<Rightarrow> gerr + ContainerPortMapping list" where
  "PortRepo_ListByInstanceId ident w = guard_call w (PortListInstance ident)
     (Inr (filter (\<lambda>m. pm_InstanceId m = ident) (t_ports w)))"

definition PortRepo_ListByNodeAgentId :: "string \<Rightarrow> 'a db_scheme \<Rightarrow> gerr + ContainerPortMapping list" where
  "PortRepo_ListByNodeAgentId ident w = guard_call w (PortListAgent ident)
     (Inr (filter (\<lambda>m. pm_NodeAgentId m = ident) (t_ports w)))"

definition PortRepo_DeleteByInstanceId :: "string \<Rightarrow> 'a db_scheme \<Rightarrow> 'a db_scheme \<times> gerr option" where
  "PortRepo_DeleteByInstanceId ident w = guard_write w (PortDelete ident)
     (w\<lparr>t_ports := tbl_del (\<lambda>m. pm_InstanceId m = ident) (t_ports w)\<rparr>)"

section \<open>Games, configurations, branches, samples, statistics\<close>

definition GameRepo_GetByID :: "string \<Rightarrow> 'a db_scheme \<Rightarrow> gerr + Game" where
  "GameRepo_GetByID ident w = guard_call w (GameGet ident) (found (tbl_find gm_ID ident (t_games w)))"

definition GameRepo_ListAll :: "'a db_scheme \<Rightarrow> gerr + Game list" where
  "GameRepo_ListAll w = guard_call w GameList (Inr (t_games w))"

definition ConfigRepo_GetByID :: "string \<Rightarrow> 'a db_scheme \<Rightarrow> gerr + GameContainerConfig" where
  "ConfigRepo_GetByID ident w = guard_call w (ConfigGet ident) (found (tbl_find gc_ID ident (t_configs w)))"

definition BranchRepo_GetByGameAndBranch :: "string \<Rightarrow> string \<Rightarrow> 'a db_scheme \<Rightarrow> gerr + SteamBranch" where
  "BranchRepo_GetByGameAndBranch g b w = guard_call w (BranchGet g b)
     (found (find (\<lambda>r. sb_GameId r = g \<and> sb_BranchName r = b) (t_branches w)))"

definition BranchRepo_ListByGame :: "string \<Rightarrow> 'a db_scheme \<Rightarrow> gerr + SteamBranch list" where
  "BranchRepo_ListByGame g w = guard_call w (BranchList g)
     (Inr (filter (\<lambda>r. sb_GameId r = g) (t_branches w)))"

text \<open>\<open>GetByGame\<close> answers \<open>nil, nil\<close> when the game has no platform configuration.\<close>

definition PlatformRepo_GetByGame :: "string \<Rightarrow> 'a db_scheme \<Rightarrow> gerr + GamePlatformConfig option" where
  "PlatformRepo_GetByGame g w = guard_call w (PlatformGet g) (Inr (tbl_find gp_GameID g (t_platform w)))"

definition BranchRepo_Save :: "SteamBranch \<Rightarrow> 'a db_scheme \<Rightarrow> 'a db_scheme \<times> gerr option" where
  "BranchRepo_Save b w = guard_write w (BranchSave (sb_Id b)) (w\<lparr>t_branches := tbl_put sb_Id b (t_branches w)\<rparr>)"

definition BranchRepo_DeleteByGame :: "string \<Rightarrow> 'a db_scheme \<Rightarrow> 'a db_scheme \<times> gerr option" where
  "BranchRepo_DeleteByGame g w = guard_write w (BranchDelete g)
     (w\<lparr>t_branches := tbl_del (\<lambda>r. sb_GameId r = g) (t_branches w)\<rparr>)"

text \<open>The identifier of a new sample is the next one of the sequence, \<open>ident\<close>.\<close>

definition SampleRepo_Append :: "int \<Rightarrow> NodeResourceSample \<Rightarrow> 'a db_scheme \<Rightarrow> 'a db_scheme \<times> gerr option" where
  "SampleRepo_Append ident s w = guard_write w SampleAppend (w\<lparr>t_samples := t_samples w @ [s\<lparr>rs_ID := ident\<rparr>]\<rparr>)"

definition SampleRepo_PruneBefore :: "time \<Rightarrow> 'a db_scheme \<Rightarrow> 'a db_scheme \<times> gerr option" where
  "SampleRepo_PruneBefore before w = guard_write w SamplePrune
     (w\<lparr>t_samples := tbl_del (\<lambda>r. rs_SampledAt r < before) (t_samples w)\<rparr>)"

definition SampleRepo_ListSince :: "string \<Rightarrow> time \<Rightarrow> 'a db_scheme \<Rightarrow> gerr + NodeResourceSample list" where
  "SampleRepo_ListSince n since w = guard_call w (SampleList n)
     (Inr (sort_key rs_SampledAt
        (filter (\<lambda>r. rs_NodeID r = n \<and> since \<le> rs_SampledAt r) (t_samples w))))"

text \<open>\<open>Incr\<close>: insert with count 1, on conflict add one.\<close>

definition StatRepo_Incr :: "string \<Rightarrow> 'a db_scheme \<Rightarrow> 'a db_scheme \<times> gerr option" where
  "StatRepo_Incr o' w = guard_write w (StatIncr o')
     (w\<lparr>t_stats := (if o' \<in> set (map fst (t_stats w))
                     then tbl_upd (\<lambda>r. fst r = o') (\<lambda>r. (fst r, snd r + 1)) (t_stats w)
                     else t_stats w @ [(o', 1)])\<rparr>)"

definition StatRepo_All :: "'a db_scheme \<Rightarrow> gerr + (string \<times> int) list" where
  "StatRepo_All w = guard_call w StatAll (Inr (t_stats w))"

lemmas repo_reads = InstanceRepo_GetByID_def InstanceRepo_ListByStatuses_def
  InstanceRepo_ListByGame_def InstanceRepo_ListActiveBySubscription_def
  InstanceRepo_ListBySubscription_def InstanceRepo_ListAll_def NodeRepo_GetByID_def
  NodeRepo_ListAll_def AgentRepo_GetByID_def AgentRepo_ListEnabledIDs_def AgentRepo_ListAll_def
  QueueRepo_Get_def QueueRepo_ListDue_def QueueRepo_ListAll_def QueueRepo_Count_def
  PortRepo_ListByInstanceId_def PortRepo_ListByNodeAgentId_def GameRepo_GetByID_def
  GameRepo_ListAll_def ConfigRepo_GetByID_def BranchRepo_GetByGameAndBranch_def
  BranchRepo_ListByGame_def PlatformRepo_GetByGame_def SampleRepo_ListSince_def StatRepo_All_def

end
