(* ===== verification/Float64.thy ===== *)
theory Float64
  imports Prelude
begin

text \<open>
  Go's \<open>float64\<close> as rational numbers with IEEE 754 rounding: a finite value is
  the rational it denotes, and every operation of the code rounds its exact
  result to 53 significant bits, ties to even (\<open>f64_round\<close>).  Overflow to
  infinity and subnormal numbers are outside this model: the values of the code
  (capacities, ratios, weights) have magnitudes between \<open>2^-1022\<close> and \<open>2^1023\<close>.
  A division by zero, which Go answers with an infinity or NaN, is excluded by
  the callers and gives 0 here.
\<close>

section \<open>Rounding to integers, ties to even\<close>

definition rhe :: "rat \<Rightarrow> int" where
  "rhe y = (let f = \<lfloor>y\<rfloor>; d = y - of_int f in
     if d < 1 / 2 then f else if d > 1 / 2 then f + 1 else if even f then f else f + 1)"

lemma rhe_of_int [simp]: "rhe (of_int n) = n"
  by (simp add: rhe_def)

lemma rhe_cases: "rhe y = \<lfloor>y\<rfloor> \<or> (rhe y = \<lfloor>y\<rfloor> + 1 \<and> y - of_int \<lfloor>y\<rfloor> \<ge> 1 / 2)"
  by (auto simp: rhe_def Let_def)

lemma rhe_mono: "x \<le> y \<Longrightarrow> rhe x \<le> rhe y"
proof -
  assume xy: "x \<le> y"
  then have fl: "\<lfloor>x\<rfloor> \<le> \<lfloor>y\<rfloor>" by (rule floor_mono)
  show ?thesis
  proof (cases "\<lfloor>x\<rfloor> = \<lfloor>y\<rfloor>")
    case True
    then show ?thesis using xy by (auto simp: rhe_def Let_def)
  next
    case False
    then have "\<lfloor>x\<rfloor> + 1 \<le> \<lfloor>y\<rfloor>" using fl by simp
    then show ?thesis using rhe_cases[of x] rhe_cases[of y] by auto
  qed
qed

lemma rhe_ge: "of_int n \<le> y \<Longrightarrow> n \<le> rhe y"
  using rhe_mono[of "of_int n" y] by simp

lemma rhe_le: "y \<le> of_int n \<Longrightarrow> rhe y \<le> n"
  using rhe_mono[of y "of_int n"] by simp

section \<open>The binade of a positive number\<close>

text \<open>\<open>binade x\<close> is the \<open>e\<close> with \<open>2^e \<le> x < 2^(e+1)\<close>.\<close>

function binade :: "rat \<Rightarrow> int" where
  "binade x = (if x \<le> 0 then 0
     else if x \<ge> 2 then 1 + binade (x / 2)
     else if x < 1 then binade (2 * x) - 1
     else 0)"
  by pat_completeness auto

definition binade_measure :: "rat \<Rightarrow> nat" where
  "binade_measure x = (if x \<ge> 1 then nat \<lfloor>x\<rfloor> else Suc (nat \<lfloor>1 / x\<rfloor>))"

lemma binade_measure_half: "2 \<le> x \<Longrightarrow> binade_measure (x / 2) < binade_measure x"
proof -
  assume x: "2 \<le> x"
  have "\<lfloor>x / 2\<rfloor> < \<lfloor>x\<rfloor>"
  proof -
    have "of_int \<lfloor>x / 2\<rfloor> \<le> x / 2" by (rule of_int_floor_le)
    also have "\<dots> \<le> x - 1" using x by simp
    finally have "\<lfloor>x / 2\<rfloor> + 1 \<le> \<lfloor>x\<rfloor>" by (simp add: le_floor_iff)
    then show ?thesis by simp
  qed
  moreover have "1 \<le> \<lfloor>x / 2\<rfloor>" using x by (simp add: le_floor_iff)
  ultimately show ?thesis using x by (simp add: binade_measure_def nat_less_eq_zless)
qed

lemma binade_measure_double: "0 < x \<Longrightarrow> x < 1 \<Longrightarrow> binade_measure (2 * x) < binade_measure x"
proof -
  assume x: "0 < x" "x < 1"
  have one: "1 < 1 / x" using x by simp
  have fx: "1 \<le> \<lfloor>1 / x\<rfloor>" using one by (simp add: le_floor_iff)
  show ?thesis
  proof (cases "2 * x \<ge> 1")
    case True
    have "\<lfloor>2 * x\<rfloor> = 1" using True x by (simp add: floor_eq_iff)
    then show ?thesis using True x fx by (simp add: binade_measure_def)
  next
    case False
    have "\<lfloor>1 / (2 * x)\<rfloor> < \<lfloor>1 / x\<rfloor>"
    proof -
      have half: "1 / (2 * x) = (1 / x) / 2" by simp
      have two: "2 < 1 / x" using False x by (simp add: field_simps)
      have "of_int \<lfloor>1 / (2 * x)\<rfloor> \<le> (1 / x) / 2" unfolding half by (rule of_int_floor_le)
      also have "\<dots> \<le> 1 / x - 1" using two by simp
      finally have "\<lfloor>1 / (2 * x)\<rfloor> + 1 \<le> \<lfloor>1 / x\<rfloor>" by (simp add: le_floor_iff)
      then show ?thesis by simp
    qed
    then show ?thesis using False x fx by (simp add: binade_measure_def)
  qed
qed

termination binade
  by (relation "measure binade_measure")
     (auto intro: binade_measure_half binade_measure_double simp: not_le)

declare binade.simps [simp del]

lemma binade_bounds:
  "0 < x \<Longrightarrow> 2 powi binade x \<le> x \<and> x < 2 powi (binade x + 1)"
proof (induction x rule: binade.induct)
  case (1 x)
  consider (big) "x \<ge> 2" | (small) "x < 1" | (mid) "1 \<le> x" "x < 2" by linarith
  then show ?case
  proof cases
    case big
    have b: "binade x = 1 + binade (x / 2)" using big by (subst binade.simps) simp
    have "2 powi binade (x / 2) \<le> x / 2 \<and> x / 2 < 2 powi (binade (x / 2) + 1)"
      using 1 big by simp
    then show ?thesis unfolding b
      by (auto simp: power_int_add field_simps)
  next
    case small
    have b: "binade x = binade (2 * x) - 1" using small 1(3) by (subst binade.simps) simp
    have "2 powi binade (2 * x) \<le> 2 * x \<and> 2 * x < 2 powi (binade (2 * x) + 1)"
      using 1 small by simp
    then show ?thesis unfolding b
      by (auto simp: power_int_diff power_int_add field_simps)
  next
    case mid
    then have "binade x = 0" by (subst binade.simps) simp
    then show ?thesis using mid by simp
  qed
qed

lemma powi2_pos [simp]: "(0::rat) < 2 powi e"
  by (simp add: zero_less_power_int)

lemma powi2_mono: "a \<le> b \<Longrightarrow> (2::rat) powi a \<le> 2 powi b"
  by (rule power_int_increasing) auto

lemma powi2_less_imp: "(2::rat) powi a < 2 powi b \<Longrightarrow> a < b"
  using powi2_mono[of b a] by (meson not_le order.strict_trans1 less_irrefl)

lemma binade_mono: "0 < x \<Longrightarrow> x \<le> y \<Longrightarrow> binade x \<le> binade y"
proof -
  assume xy: "0 < x" "x \<le> y"
  have "2 powi binade x \<le> x" "y < 2 powi (binade y + 1)"
    using binade_bounds[of x] binade_bounds[of y] xy by auto
  then have "(2::rat) powi binade x < 2 powi (binade y + 1)" using xy by linarith
  then show ?thesis using powi2_less_imp by fastforce
qed

section \<open>Rounding to 53 significant bits\<close>

definition ulp :: "rat \<Rightarrow> rat" where
  "ulp x = 2 powi (binade \<bar>x\<bar> - 52)"

definition f64_round :: "rat \<Rightarrow> rat" where
  "f64_round x = (if x = 0 then 0
     else if x < 0 then - (of_int (rhe (- x / ulp x)) * ulp x)
     else of_int (rhe (x / ulp x)) * ulp x)"

lemma ulp_pos [simp]: "0 < ulp x"
  by (simp add: ulp_def)

lemma ulp_nonneg [simp]: "0 \<le> ulp x"
  using ulp_pos[of x] by linarith

lemma ulp_minus [simp]: "ulp (- x) = ulp x"
  by (simp add: ulp_def)

lemma f64_round_0 [simp]: "f64_round 0 = 0"
  by (simp add: f64_round_def)

lemma f64_round_minus: "f64_round (- x) = - f64_round x"
  by (auto simp: f64_round_def)

lemma f64_round_pos: "0 < x \<Longrightarrow> f64_round x = of_int (rhe (x / ulp x)) * ulp x"
  by (simp add: f64_round_def)

lemma scaled_bounds:
  assumes "0 < x"
  shows "2 ^ 52 \<le> x / ulp x" "x / ulp x < 2 ^ 53"
proof -
  have e: "(2::rat) powi binade x = 2 ^ 52 * ulp x"
    using assms by (simp add: ulp_def power_int_diff)
  have e': "(2::rat) powi (binade x + 1) = 2 ^ 53 * ulp x"
    using e by (simp add: power_int_add)
  show "2 ^ 52 \<le> x / ulp x" using binade_bounds[OF assms] e
    by (simp add: pos_le_divide_eq)
  show "x / ulp x < 2 ^ 53" using binade_bounds[OF assms] e'
    by (simp add: pos_divide_less_eq)
qed

lemma rhe_scaled_bounds:
  assumes "0 < x"
  shows "2 ^ 52 \<le> rhe (x / ulp x)" "rhe (x / ulp x) \<le> 2 ^ 53"
  using scaled_bounds[OF assms] rhe_ge[of "2 ^ 52" "x / ulp x"] rhe_le[of "x / ulp x" "2 ^ 53"]
  by simp_all

lemma f64_round_nonneg: "0 \<le> x \<Longrightarrow> 0 \<le> f64_round x"
  using rhe_scaled_bounds(1)[of x] ulp_pos[of x]
  by (cases "x = 0") (auto simp: f64_round_pos intro!: mult_nonneg_nonneg)

lemma f64_round_mono_pos:
  assumes "0 < x" "x \<le> y"
  shows "f64_round x \<le> f64_round y"
proof -
  have y: "0 < y" using assms by simp
  show ?thesis
  proof (cases "binade x = binade y")
    case True
    then have u: "ulp x = ulp y" using assms y by (simp add: ulp_def)
    have "x / ulp x \<le> y / ulp x" using assms(2) ulp_nonneg[of x] by (rule divide_right_mono)
    then have "rhe (x / ulp x) \<le> rhe (y / ulp y)" using u by (simp add: rhe_mono)
    then show ?thesis using assms y u ulp_pos[of y]
      by (simp add: f64_round_pos mult_right_mono)
  next
    case False
    then have lt: "binade x + 1 \<le> binade y" using binade_mono[OF assms] by simp
    have "of_int (rhe (x / ulp x)) \<le> (2::rat) ^ 53"
      using rhe_scaled_bounds(2)[OF assms(1)] by (metis of_int_le_iff of_int_numeral of_int_power)
    then have "f64_round x \<le> 2 ^ 53 * ulp x"
      using assms ulp_pos[of x] by (simp add: f64_round_pos mult_right_mono)
    also have "\<dots> = 2 powi (binade x + 1)"
      using assms by (simp add: ulp_def power_int_diff power_int_add)
    also have "\<dots> \<le> 2 powi binade y" using lt by (rule powi2_mono)
    also have "\<dots> = 2 ^ 52 * ulp y" using y by (simp add: ulp_def power_int_diff)
    also have "\<dots> \<le> of_int (rhe (y / ulp y)) * ulp y"
    proof -
      have "(2::rat) ^ 52 \<le> of_int (rhe (y / ulp y))"
        using rhe_scaled_bounds(1)[OF y] by (metis of_int_le_iff of_int_numeral of_int_power)
      then show ?thesis using ulp_pos[of y] by (simp add: mult_right_mono)
    qed
    also have "\<dots> = f64_round y" using y by (simp add: f64_round_pos)
    finally show ?thesis .
  qed
qed

lemma f64_round_mono: "x \<le> y \<Longrightarrow> f64_round x \<le> f64_round y"
proof -
  assume xy: "x \<le> y"
  consider "0 < x" | "x \<le> 0" "0 \<le> y" | "y < 0" by linarith
  then show ?thesis
  proof cases
    case 1
    then show ?thesis using xy f64_round_mono_pos by blast
  next
    case 2
    have "f64_round x \<le> 0" using f64_round_nonneg[of "- x"] 2 by (simp add: f64_round_minus)
    then show ?thesis using f64_round_nonneg[of y] 2 by linarith
  next
    case 3
    then have "f64_round (- y) \<le> f64_round (- x)" using xy f64_round_mono_pos[of "- y" "- x"] by simp
    then show ?thesis by (simp add: f64_round_minus)
  qed
qed

text \<open>Integers up to \<open>2^53\<close> are represented exactly.\<close>

lemma f64_round_int_pos:
  assumes "0 < n" "n \<le> 2 ^ 53"
  shows "f64_round (of_int n) = of_int n"
proof (cases "n = 2 ^ 53")
  case False
  let ?x = "of_int n :: rat"
  have x: "0 < ?x" using assms by simp
  have "n < 2 ^ 53" using assms False by simp
  then have "?x < of_int (2 ^ 53)" by (simp only: of_int_less_iff)
  then have "?x < 2 powi 53" by simp
  then have "(2::rat) powi binade ?x < 2 powi 53" using binade_bounds[OF x] by linarith
  then have e: "binade ?x < 53" by (rule powi2_less_imp)
  have "?x / ulp ?x = ?x * 2 powi (52 - binade ?x)"
    using x by (simp add: ulp_def power_int_diff field_simps)
  also have "\<dots> = of_int (n * 2 ^ nat (52 - binade ?x))"
    using e by (simp add: power_int_def)
  finally have "rhe (?x / ulp ?x) = n * 2 ^ nat (52 - binade ?x)" by (metis rhe_of_int)
  moreover have "of_int (n * 2 ^ nat (52 - binade ?x)) * ulp ?x = ?x"
    using \<open>?x / ulp ?x = ?x * 2 powi (52 - binade ?x)\<close>
      \<open>?x * 2 powi (52 - binade ?x) = of_int (n * 2 ^ nat (52 - binade ?x))\<close>
      ulp_pos[of ?x] by (metis less_irrefl nonzero_eq_divide_eq)
  ultimately show ?thesis using x by (simp add: f64_round_pos)
next
  case True
  let ?x = "of_int n :: rat"
  have x: "0 < ?x" using assms by simp
  have eq: "?x = 2 powi 53" using True by simp
  have "binade ?x = 53"
  proof (rule antisym)
    have "(2::rat) powi binade ?x < 2 powi 54" using binade_bounds[OF x] eq by simp
    then show "binade ?x \<le> 53" using powi2_less_imp by fastforce
    have "(2::rat) powi 53 < 2 powi (binade ?x + 1)" using binade_bounds[OF x] eq by simp
    then show "53 \<le> binade ?x" using powi2_less_imp by fastforce
  qed
  then have u: "ulp ?x = 2" using x by (simp add: ulp_def)
  have "?x / ulp ?x = of_int (2 ^ 52)" using True u by simp
  then have "rhe (?x / ulp ?x) = 2 ^ 52" by (metis rhe_of_int)
  then show ?thesis using x u True by (simp add: f64_round_pos)
qed

lemma f64_round_int: "\<bar>n\<bar> \<le> 2 ^ 53 \<Longrightarrow> f64_round (of_int n) = of_int n"
proof -
  assume n: "\<bar>n\<bar> \<le> 2 ^ 53"
  consider "n = 0" | "0 < n" | "n < 0" by linarith
  then show ?thesis
  proof cases
    case 3
    then have "f64_round (of_int (- n)) = of_int (- n)" using n by (intro f64_round_int_pos) auto
    then show ?thesis by (simp add: f64_round_minus)
  qed (use n f64_round_int_pos in auto)
qed

lemma f64_round_1 [simp]: "f64_round 1 = 1"
  using f64_round_int[of 1] by simp

lemma f64_round_numeral: "numeral k \<le> (2 ^ 53 :: int) \<Longrightarrow> f64_round (numeral k) = numeral k"
  using f64_round_int[of "numeral k"] by simp

lemma f64_round_le_int: "x \<le> of_int n \<Longrightarrow> \<bar>n\<bar> \<le> 2 ^ 53 \<Longrightarrow> f64_round x \<le> of_int n"
  using f64_round_mono[of x "of_int n"] f64_round_int[of n] by simp

lemma f64_round_ge_int: "of_int n \<le> x \<Longrightarrow> \<bar>n\<bar> \<le> 2 ^ 53 \<Longrightarrow> of_int n \<le> f64_round x"
  using f64_round_mono[of "of_int n" x] f64_round_int[of n] by simp

section \<open>The operations of the code\<close>

definition fadd :: "rat \<Rightarrow> rat \<Rightarrow> rat" where "fadd a b = f64_round (a + b)"
definition fsub :: "rat \<Rightarrow> rat \<Rightarrow> rat" where "fsub a b = f64_round (a - b)"
definition fmul :: "rat \<Rightarrow> rat \<Rightarrow> rat" where "fmul a b = f64_round (a * b)"
definition fdiv :: "rat \<Rightarrow> rat \<Rightarrow> rat" where "fdiv a b = f64_round (a / b)"

text \<open>\<open>float64(n)\<close> of an integer, a decimal literal, and \<open>int64(x)\<close>: truncation
  toward zero, and the smallest integer when the value does not fit (amd64).\<close>

definition f64 :: "int \<Rightarrow> rat" where "f64 n = f64_round (of_int n)"
definition flit :: "rat \<Rightarrow> rat" where "flit q = f64_round q"

definition ftrunc :: "rat \<Rightarrow> int" where
  "ftrunc x = (let t = (if x < 0 then - \<lfloor>- x\<rfloor> else \<lfloor>x\<rfloor>) in if in_i64 t then t else - (2 ^ 63))"

lemma f64_exact: "\<bar>n\<bar> \<le> 2 ^ 53 \<Longrightarrow> f64 n = of_int n"
  by (simp add: f64_def f64_round_int)

lemma f64_mono: "a \<le> b \<Longrightarrow> f64 a \<le> f64 b"
  by (simp add: f64_def f64_round_mono)

lemma fmul_mono_left: "0 \<le> t \<Longrightarrow> a \<le> b \<Longrightarrow> fmul a t \<le> fmul b t"
  by (simp add: fmul_def f64_round_mono mult_right_mono)

lemma fmul_mono_right: "0 \<le> a \<Longrightarrow> s \<le> t \<Longrightarrow> fmul a s \<le> fmul a t"
  by (simp add: fmul_def f64_round_mono mult_left_mono)

lemma fmul_nonneg: "0 \<le> a \<Longrightarrow> 0 \<le> b \<Longrightarrow> 0 \<le> fmul a b"
  by (simp add: fmul_def f64_round_nonneg)

lemma fdiv_nonneg: "0 \<le> a \<Longrightarrow> 0 \<le> b \<Longrightarrow> 0 \<le> fdiv a b"
  by (simp add: fdiv_def f64_round_nonneg)

lemma ftrunc_nonneg_floor: "0 \<le> x \<Longrightarrow> x < 2 ^ 63 \<Longrightarrow> ftrunc x = \<lfloor>x\<rfloor>"
proof -
  assume x: "0 \<le> x" "x < 2 ^ 63"
  have "0 \<le> \<lfloor>x\<rfloor>" using x by simp
  moreover have "\<lfloor>x\<rfloor> < 2 ^ 63" using x by (simp add: floor_less_iff)
  ultimately show ?thesis using x by (simp add: ftrunc_def in_i64_def)
qed

lemma ftrunc_of_int: "in_i64 n \<Longrightarrow> ftrunc (of_int n) = n"
proof -
  have "\<lfloor>- (of_int n :: rat)\<rfloor> = - n" by (metis floor_of_int of_int_minus)
  then show "in_i64 n \<Longrightarrow> ftrunc (of_int n) = n" by (simp add: ftrunc_def)
qed

lemma ftrunc_in_i64 [simp]: "in_i64 (ftrunc x)"
  by (simp add: ftrunc_def Let_def in_i64_def)

end
