(* ===== verification/Messages.thy ===== *)
theory Messages
  imports Prelude
begin

text \<open>
  The texts of the program that are not plain ASCII, as the UTF-8 bytes a Go string
  literal holds.  The scheduler searches some of them (\<open>strings.Contains\<close>), so the
  bytes matter; \<open>isResourceOnlyReasons\<close> is modelled on these constants.
\<close>

text \<open>node_capacity.go: cpu shortage\<close>

definition msg_cpu_short :: string where
  "msg_cpu_short =
     ''cpu '' @
     [CHR 0xE4, CHR 0xB8, CHR 0x8D, CHR 0xE8, CHR 0xB6, CHR 0xB3] @
     '': '' @
     [CHR 0xE7, CHR 0xBC, CHR 0xBA] @
     '' ''"

text \<open>node_capacity.go: memory shortage\<close>

definition msg_mem_short :: string where
  "msg_mem_short =
     [CHR 0xE5, CHR 0x86, CHR 0x85, CHR 0xE5, CHR 0xAD, CHR 0x98, CHR 0xE4, CHR 0xB8, CHR 0x8D,
      CHR 0xE8, CHR 0xB6, CHR 0xB3] @
     '': '' @
     [CHR 0xE7, CHR 0xBC, CHR 0xBA] @
     '' ''"

text \<open>node_capacity.go: disk shortage\<close>

definition msg_disk_short :: string where
  "msg_disk_short =
     [CHR 0xE7, CHR 0xA3, CHR 0x81, CHR 0xE7, CHR 0x9B, CHR 0x98, CHR 0xE4, CHR 0xB8, CHR 0x8D,
      CHR 0xE8, CHR 0xB6, CHR 0xB3] @
     '': '' @
     [CHR 0xE7, CHR 0xBC, CHR 0xBA] @
     '' ''"

text \<open>constraint.go H1: agent not enabled\<close>

definition msg_not_enabled :: string where
  "msg_not_enabled =
     ''node_agent '' @
     [CHR 0xE6, CHR 0x9C, CHR 0xAA, CHR 0xE5, CHR 0x90, CHR 0xAF, CHR 0xE7, CHR 0x94, CHR 0xA8]"

text \<open>constraint.go H2: health unknown, no heartbeat\<close>

definition msg_no_heartbeat :: string where
  "msg_no_heartbeat =
     [CHR 0xE5, CHR 0x81, CHR 0xA5, CHR 0xE5, CHR 0xBA, CHR 0xB7, CHR 0xE7, CHR 0x8A, CHR 0xB6,
      CHR 0xE6, CHR 0x80, CHR 0x81, CHR 0xE6, CHR 0x9C, CHR 0xAA, CHR 0xE7, CHR 0x9F, CHR 0xA5,
      CHR 0xEF, CHR 0xBC, CHR 0x88, CHR 0xE6, CHR 0x97, CHR 0xA0, CHR 0xE5, CHR 0xBF, CHR 0x83,
      CHR 0xE8, CHR 0xB7, CHR 0xB3, CHR 0xE8, CHR 0xAE, CHR 0xB0, CHR 0xE5, CHR 0xBD, CHR 0x95,
      CHR 0xEF, CHR 0xBC, CHR 0x89]"

text \<open>constraint.go H2: heartbeat expired\<close>

definition msg_stale_heartbeat :: string where
  "msg_stale_heartbeat =
     [CHR 0xE5, CHR 0xBF, CHR 0x83, CHR 0xE8, CHR 0xB7, CHR 0xB3, CHR 0xE8, CHR 0xBF, CHR 0x87,
      CHR 0xE6, CHR 0x9C, CHR 0x9F, CHR 0xEF, CHR 0xBC, CHR 0x88, CHR 0xE6, CHR 0x95, CHR 0xB0,
      CHR 0xE6, CHR 0x8D, CHR 0xAE, CHR 0xE4, CHR 0xB8, CHR 0x8D, CHR 0xE5, CHR 0x8F, CHR 0xAF,
      CHR 0xE4, CHR 0xBF, CHR 0xA1, CHR 0xEF, CHR 0xBC, CHR 0x89]"

text \<open>constraint.go H2: not schedulable\<close>

definition msg_unhealthy :: string where
  "msg_unhealthy =
     [CHR 0xE5, CHR 0x81, CHR 0xA5, CHR 0xE5, CHR 0xBA, CHR 0xB7, CHR 0xE7, CHR 0x8A, CHR 0xB6,
      CHR 0xE6, CHR 0x80, CHR 0x81, CHR 0xE4, CHR 0xB8, CHR 0x8D, CHR 0xE5, CHR 0x8F, CHR 0xAF,
      CHR 0xE8, CHR 0xB0, CHR 0x83, CHR 0xE5, CHR 0xBA, CHR 0xA6, CHR 0xEF, CHR 0xBC, CHR 0x88] @
     ''unknown/unhealthy'' @
     [CHR 0xEF, CHR 0xBC, CHR 0x89]"

text \<open>constraint.go H4: ports not allocatable\<close>

definition msg_ports :: string where
  "msg_ports =
     [CHR 0xE7, CHR 0xAB, CHR 0xAF, CHR 0xE5, CHR 0x8F, CHR 0xA3, CHR 0xE4, CHR 0xB8, CHR 0x8D,
      CHR 0xE8, CHR 0xB6, CHR 0xB3] @
     ''/'' @
     [CHR 0xE4, CHR 0xB8, CHR 0x8D, CHR 0xE5, CHR 0x8F, CHR 0xAF, CHR 0xE5, CHR 0x88, CHR 0x86,
      CHR 0xE9, CHR 0x85, CHR 0x8D] @
     '': ''"

text \<open>constraint.go: branch not resolvable\<close>

definition msg_no_branch :: string where
  "msg_no_branch =
     [CHR 0xE6, CHR 0x97, CHR 0xA0, CHR 0xE6, CHR 0xB3, CHR 0x95, CHR 0xE8, CHR 0xA7, CHR 0xA3,
      CHR 0xE6, CHR 0x9E, CHR 0x90, CHR 0xE5, CHR 0xAE, CHR 0x9E, CHR 0xE4, CHR 0xBE, CHR 0x8B] @
     '' game_build '' @
     [CHR 0xE5, CHR 0xAF, CHR 0xB9, CHR 0xE5, CHR 0xBA, CHR 0x94, CHR 0xE5, CHR 0x88, CHR 0x86,
      CHR 0xE6, CHR 0x94, CHR 0xAF, CHR 0xEF, CHR 0xBC, CHR 0x88, CHR 0xE8, CHR 0xA7, CHR 0x86,
      CHR 0xE4, CHR 0xB8, CHR 0xBA, CHR 0xE6, CHR 0x97, CHR 0xA0, CHR 0xE7, CHR 0xBC, CHR 0x93,
      CHR 0xE5, CHR 0xAD, CHR 0x98, CHR 0xEF, CHR 0xBC, CHR 0x89]"

text \<open>constraint.go: cache needs\<close>

definition msg_cache_disk1 :: string where
  "msg_cache_disk1 =
     [CHR 0xE7, CHR 0xA3, CHR 0x81, CHR 0xE7, CHR 0x9B, CHR 0x98, CHR 0xE4, CHR 0xB8, CHR 0x8D,
      CHR 0xE8, CHR 0xB6, CHR 0xB3] @
     '':'' @
     [CHR 0xE7, CHR 0xBC, CHR 0x93, CHR 0xE5, CHR 0xAD, CHR 0x98, CHR 0xE9, CHR 0xA2, CHR 0x84,
      CHR 0xE7, CHR 0x95, CHR 0x99, CHR 0xE9, CHR 0x9C, CHR 0x80] @
     '' ''"

text \<open>constraint.go: cache budget\<close>

definition msg_cache_disk2 :: string where
  "msg_cache_disk2 =
     '' bytes,'' @
     [CHR 0xE5, CHR 0x8F, CHR 0xAF, CHR 0xE7, CHR 0x94, CHR 0xA8, CHR 0xE7, CHR 0xBC, CHR 0x93,
      CHR 0xE5, CHR 0xAD, CHR 0x98, CHR 0xE9, CHR 0xA2, CHR 0x84, CHR 0xE7, CHR 0xAE, CHR 0x97] @
     '' ''"

text \<open>constraint.go H6: pressure\<close>

definition msg_pressure1 :: string where
  "msg_pressure1 =
     [CHR 0xE8, CHR 0x8A, CHR 0x82, CHR 0xE7, CHR 0x82, CHR 0xB9, CHR 0xE5, CHR 0x8E, CHR 0x8B,
      CHR 0xE5, CHR 0x8A, CHR 0x9B, CHR 0xE7, CHR 0x8A, CHR 0xB6, CHR 0xE6, CHR 0x80, CHR 0x81,
      CHR 0xEF, CHR 0xBC, CHR 0x88]"

text \<open>closing full-width parenthesis\<close>

definition msg_close_paren :: string where
  "msg_close_paren =
     [CHR 0xEF, CHR 0xBC, CHR 0x89]"

text \<open>constraint.go isResourceOnlyReasons: not enabled\<close>

definition key_not_enabled :: string where
  "key_not_enabled =
     [CHR 0xE6, CHR 0x9C, CHR 0xAA, CHR 0xE5, CHR 0x90, CHR 0xAF, CHR 0xE7, CHR 0x94, CHR 0xA8]"

text \<open>constraint.go isResourceOnlyReasons: health\<close>

definition key_health :: string where
  "key_health =
     [CHR 0xE5, CHR 0x81, CHR 0xA5, CHR 0xE5, CHR 0xBA, CHR 0xB7]"

text \<open>constraint.go isResourceOnlyReasons: cannot resolve\<close>

definition key_unresolved :: string where
  "key_unresolved =
     [CHR 0xE6, CHR 0x97, CHR 0xA0, CHR 0xE6, CHR 0xB3, CHR 0x95, CHR 0xE8, CHR 0xA7, CHR 0xA3,
      CHR 0xE6, CHR 0x9E, CHR 0x90]"

text \<open>constraint.go isResourceOnlyReasons: branch\<close>

definition key_branch :: string where
  "key_branch =
     [CHR 0xE5, CHR 0x88, CHR 0x86, CHR 0xE6, CHR 0x94, CHR 0xAF]"

text \<open>scheduler_impl.go: single threaded request must be whole cores\<close>

definition msg_whole_core :: string where
  "msg_whole_core =
     [CHR 0xE5, CHR 0x8D, CHR 0x95, CHR 0xE6, CHR 0xA0, CHR 0xB8, CHR 0xE5, CHR 0xBA, CHR 0x94,
      CHR 0xE7, CHR 0x94, CHR 0xA8] @
     '' cpu_milli '' @
     [CHR 0xE5, CHR 0xBF, CHR 0x85, CHR 0xE9, CHR 0xA1, CHR 0xBB, CHR 0xE4, CHR 0xB8, CHR 0xBA,
      CHR 0xE6, CHR 0x95, CHR 0xB4, CHR 0xE6, CHR 0xA0, CHR 0xB8, CHR 0xEF, CHR 0xBC, CHR 0x88,
      CHR 0xE2, CHR 0x89, CHR 0xA5] @
     ''1000 '' @
     [CHR 0xE4, CHR 0xB8, CHR 0x94] @
     '' %1000==0'' @
     [CHR 0xEF, CHR 0xBC, CHR 0x89]"

text \<open>scheduler_impl.go: branch without build id\<close>

definition msg_no_buildid :: string where
  "msg_no_buildid =
     [CHR 0xE5, CHR 0x88, CHR 0x86, CHR 0xE6, CHR 0x94, CHR 0xAF] @
     '' buildid '' @
     [CHR 0xE8, CHR 0xA7, CHR 0xA3, CHR 0xE6, CHR 0x9E, CHR 0x90, CHR 0xE5, CHR 0xA4, CHR 0xB1,
      CHR 0xE8, CHR 0xB4, CHR 0xA5, CHR 0xEF, CHR 0xBC, CHR 0x88] @
     ''steam_branches '' @
     [CHR 0xE6, CHR 0x95, CHR 0xB0, CHR 0xE6, CHR 0x8D, CHR 0xAE, CHR 0xE5, CHR 0xBC, CHR 0x82,
      CHR 0xE5, CHR 0xB8, CHR 0xB8, CHR 0xEF, CHR 0xBC, CHR 0x8C, CHR 0xE8, CHR 0xAF, CHR 0xB7,
      CHR 0xE5, CHR 0x90, CHR 0x8C, CHR 0xE6, CHR 0xAD, CHR 0xA5, CHR 0xE5, CHR 0x88, CHR 0x86,
      CHR 0xE6, CHR 0x94, CHR 0xAF, CHR 0xEF, CHR 0xBC, CHR 0x89]"

text \<open>scheduler_impl.go: reservation retries exhausted\<close>

definition msg_retry_limit :: string where
  "msg_retry_limit =
     [CHR 0xE9, CHR 0xA2, CHR 0x84, CHR 0xE7, CHR 0x95, CHR 0x99, CHR 0xE5, CHR 0x86, CHR 0xB2,
      CHR 0xE7, CHR 0xAA, CHR 0x81, CHR 0xE9, CHR 0x87, CHR 0x8D, CHR 0xE8, CHR 0xAF, CHR 0x95,
      CHR 0xE8, CHR 0xBE, CHR 0xBE, CHR 0xE4, CHR 0xB8, CHR 0x8A, CHR 0xE9, CHR 0x99, CHR 0x90]"

text \<open>scheduler_impl.go: no node agent\<close>

definition msg_no_agent :: string where
  "msg_no_agent =
     [CHR 0xE6, CHR 0x97, CHR 0xA0, CHR 0xE6, CHR 0xB3, CHR 0xA8, CHR 0xE5, CHR 0x86, CHR 0x8C] @
     '' node_agent''"

text \<open>scheduler_impl.go: no branch\<close>

definition msg_no_branch_any :: string where
  "msg_no_branch_any =
     [CHR 0xE6, CHR 0x97, CHR 0xA0, CHR 0xE6, CHR 0xB3, CHR 0x95, CHR 0xE8, CHR 0xA7, CHR 0xA3,
      CHR 0xE6, CHR 0x9E, CHR 0x90] @
     '' game_build '' @
     [CHR 0xE5, CHR 0x88, CHR 0x86, CHR 0xE6, CHR 0x94, CHR 0xAF, CHR 0xEF, CHR 0xBC, CHR 0x88,
      CHR 0xE6, CHR 0x97, CHR 0xA0, CHR 0xE8, CHR 0x8A, CHR 0x82, CHR 0xE7, CHR 0x82, CHR 0xB9,
      CHR 0xE6, CHR 0x9C, CHR 0x89, CHR 0xE7, CHR 0xBC, CHR 0x93, CHR 0xE5, CHR 0xAD, CHR 0x98,
      CHR 0xEF, CHR 0xBC, CHR 0x89]"

text \<open>scheduler_impl.go: forced region\<close>

definition msg_region1 :: string where
  "msg_region1 =
     [CHR 0xE5, CHR 0x8C, CHR 0xBA, CHR 0xE5, CHR 0x9F, CHR 0x9F, CHR 0xE5, CHR 0xBC, CHR 0xBA,
      CHR 0xE5, CHR 0x88, CHR 0xB6, CHR 0xE6, CHR 0xA8, CHR 0xA1, CHR 0xE5, CHR 0xBC, CHR 0x8F,
      CHR 0xE4, CHR 0xB8, CHR 0x8B, CHR 0xE6, CHR 0x97, CHR 0xA0, CHR 0xE5, CHR 0x8C, CHR 0xBA,
      CHR 0xE5, CHR 0x9F, CHR 0x9F] @
     '' ''"

text \<open>scheduler_impl.go: forced region, suffix\<close>

definition msg_region2 :: string where
  "msg_region2 =
     '' '' @
     [CHR 0xE7, CHR 0x9A, CHR 0x84, CHR 0xE8, CHR 0x8A, CHR 0x82, CHR 0xE7, CHR 0x82, CHR 0xB9]"

text \<open>scheduler_impl.go: resource shortage\<close>

definition msg_shortage :: string where
  "msg_shortage =
     [CHR 0xE8, CHR 0xB5, CHR 0x84, CHR 0xE6, CHR 0xBA, CHR 0x90] @
     ''/'' @
     [CHR 0xE7, CHR 0xAB, CHR 0xAF, CHR 0xE5, CHR 0x8F, CHR 0xA3, CHR 0xE4, CHR 0xB8, CHR 0x8D,
      CHR 0xE8, CHR 0xB6, CHR 0xB3, CHR 0xEF, CHR 0xBC, CHR 0x8C, CHR 0xE6, CHR 0x97, CHR 0xA0,
      CHR 0xE5, CHR 0x8F, CHR 0xAF, CHR 0xE8, CHR 0xB0, CHR 0x83, CHR 0xE5, CHR 0xBA, CHR 0xA6,
      CHR 0xE8, CHR 0x8A, CHR 0x82, CHR 0xE7, CHR 0x82, CHR 0xB9]"

text \<open>scheduler_impl.go: structural exclusion\<close>

definition msg_structural :: string where
  "msg_structural =
     [CHR 0xE5, CHR 0xAD, CHR 0x98, CHR 0xE5, CHR 0x9C, CHR 0xA8, CHR 0xE7, CHR 0xBB, CHR 0x93,
      CHR 0xE6, CHR 0x9E, CHR 0x84, CHR 0xE6, CHR 0x80, CHR 0xA7, CHR 0xE6, CHR 0x8E, CHR 0x92,
      CHR 0xE9, CHR 0x99, CHR 0xA4, CHR 0xE5, CHR 0x8E, CHR 0x9F, CHR 0xE5, CHR 0x9B, CHR 0xA0,
      CHR 0xEF, CHR 0xBC, CHR 0x88, CHR 0xE6, CHR 0x97, CHR 0xA0, CHR 0xE7, CHR 0xBC, CHR 0x93,
      CHR 0xE5, CHR 0xAD, CHR 0x98] @
     ''/'' @
     [CHR 0xE6, CHR 0x9C, CHR 0xAA, CHR 0xE5, CHR 0x90, CHR 0xAF, CHR 0xE7, CHR 0x94, CHR 0xA8] @
     ''/'' @
     [CHR 0xE4, CHR 0xB8, CHR 0x8D, CHR 0xE5, CHR 0x81, CHR 0xA5, CHR 0xE5, CHR 0xBA, CHR 0xB7,
      CHR 0xE7, CHR 0xAD, CHR 0x89, CHR 0xEF, CHR 0xBC, CHR 0x89]"

text \<open>scheduler_impl.go: user cancelled\<close>

definition msg_user_cancel :: string where
  "msg_user_cancel =
     [CHR 0xE7, CHR 0x94, CHR 0xA8, CHR 0xE6, CHR 0x88, CHR 0xB7, CHR 0xE5, CHR 0x8F, CHR 0x96,
      CHR 0xE6, CHR 0xB6, CHR 0x88, CHR 0xE6, CHR 0x8E, CHR 0x92, CHR 0xE9, CHR 0x98, CHR 0x9F]"

text \<open>scheduler_impl.go Preview\<close>

definition msg_preview_queue :: string where
  "msg_preview_queue =
     [CHR 0xE8, CHR 0xB5, CHR 0x84, CHR 0xE6, CHR 0xBA, CHR 0x90] @
     ''/'' @
     [CHR 0xE7, CHR 0xAB, CHR 0xAF, CHR 0xE5, CHR 0x8F, CHR 0xA3, CHR 0xE4, CHR 0xB8, CHR 0x8D,
      CHR 0xE8, CHR 0xB6, CHR 0xB3, CHR 0xEF, CHR 0xBC, CHR 0x88, CHR 0xE5, CHR 0x8F, CHR 0xAF,
      CHR 0xE6, CHR 0x8E, CHR 0x92, CHR 0xE9, CHR 0x98, CHR 0x9F, CHR 0xEF, CHR 0xBC, CHR 0x8C] @
     ''P2 '' @
     [CHR 0xE7, CHR 0xAD, CHR 0x89, CHR 0xE5, CHR 0xBE, CHR 0x85, CHR 0xE5, CHR 0x94, CHR 0xA4,
      CHR 0xE9, CHR 0x86, CHR 0x92, CHR 0xEF, CHR 0xBC, CHR 0x89]"

text \<open>scheduler_impl.go Preview\<close>

definition msg_preview_fail :: string where
  "msg_preview_fail =
     [CHR 0xE5, CHR 0xAD, CHR 0x98, CHR 0xE5, CHR 0x9C, CHR 0xA8, CHR 0xE7, CHR 0xBB, CHR 0x93,
      CHR 0xE6, CHR 0x9E, CHR 0x84, CHR 0xE6, CHR 0x80, CHR 0xA7, CHR 0xE6, CHR 0x8E, CHR 0x92,
      CHR 0xE9, CHR 0x99, CHR 0xA4, CHR 0xE5, CHR 0x8E, CHR 0x9F, CHR 0xE5, CHR 0x9B, CHR 0xA0,
      CHR 0xEF, CHR 0xBC, CHR 0x88, CHR 0xE6, CHR 0x97, CHR 0xA0, CHR 0xE7, CHR 0xBC, CHR 0x93,
      CHR 0xE5, CHR 0xAD, CHR 0x98] @
     ''/'' @
     [CHR 0xE6, CHR 0x9C, CHR 0xAA, CHR 0xE5, CHR 0x90, CHR 0xAF, CHR 0xE7, CHR 0x94, CHR 0xA8] @
     ''/'' @
     [CHR 0xE4, CHR 0xB8, CHR 0x8D, CHR 0xE5, CHR 0x81, CHR 0xA5, CHR 0xE5, CHR 0xBA, CHR 0xB7] @
     ''/'' @
     [CHR 0xE5, CHR 0x8C, CHR 0xBA, CHR 0xE5, CHR 0x9F, CHR 0x9F, CHR 0xE5, CHR 0xBC, CHR 0xBA,
      CHR 0xE5, CHR 0x88, CHR 0xB6, CHR 0xE7, CHR 0xAD, CHR 0x89, CHR 0xEF, CHR 0xBC, CHR 0x89]"

text \<open>reconcile_dispatcher.go: queue timeout\<close>

definition msg_queue_timeout :: string where
  "msg_queue_timeout =
     [CHR 0xE6, CHR 0x8E, CHR 0x92, CHR 0xE9, CHR 0x98, CHR 0x9F, CHR 0xE8, CHR 0xB6, CHR 0x85,
      CHR 0xE6, CHR 0x97, CHR 0xB6, CHR 0xEF, CHR 0xBC, CHR 0x88] @
     ''30 '' @
     [CHR 0xE5, CHR 0x88, CHR 0x86, CHR 0xE9, CHR 0x92, CHR 0x9F, CHR 0xEF, CHR 0xBC, CHR 0x89,
      CHR 0xEF, CHR 0xBC, CHR 0x8C, CHR 0xE6, CHR 0x9C, CHR 0xAA, CHR 0xE8, CHR 0x8E, CHR 0xB7,
      CHR 0xE8, CHR 0xB0, CHR 0x83, CHR 0xE5, CHR 0xBA, CHR 0xA6]"

text \<open>reconcile_dispatcher.go: queue timeout event\<close>

definition msg_queue_timeout_ev :: string where
  "msg_queue_timeout_ev =
     [CHR 0xE6, CHR 0x8E, CHR 0x92, CHR 0xE9, CHR 0x98, CHR 0x9F, CHR 0xE8, CHR 0xB6, CHR 0x85,
      CHR 0xE6, CHR 0x97, CHR 0xB6, CHR 0xEF, CHR 0xBC, CHR 0x88] @
     ''30 '' @
     [CHR 0xE5, CHR 0x88, CHR 0x86, CHR 0xE9, CHR 0x92, CHR 0x9F, CHR 0xEF, CHR 0xBC, CHR 0x89]"

text \<open>reconcile_dispatcher.go: cache warming without branch\<close>

definition msg_warm_no_branch :: string where
  "msg_warm_no_branch =
     ''cache_warming '' @
     [CHR 0xE4, CHR 0xBD, CHR 0x86, CHR 0xE5, CHR 0x88, CHR 0x86, CHR 0xE6, CHR 0x94, CHR 0xAF,
      CHR 0xE6, CHR 0x9C, CHR 0xAA, CHR 0xE8, CHR 0xA7, CHR 0xA3, CHR 0xE6, CHR 0x9E, CHR 0x90]"

text \<open>reconcile_dispatcher.go handleDispatchError\<close>

definition msg_failed_sep :: string where
  "msg_failed_sep =
     '' '' @
     [CHR 0xE5, CHR 0xA4, CHR 0xB1, CHR 0xE8, CHR 0xB4, CHR 0xA5] @
     '': ''"

text \<open>reconcile_dispatcher.go pollCacheReady\<close>

definition msg_cache_dl_failed :: string where
  "msg_cache_dl_failed =
     [CHR 0xE7, CHR 0xBC, CHR 0x93, CHR 0xE5, CHR 0xAD, CHR 0x98, CHR 0xE4, CHR 0xB8, CHR 0x8B,
      CHR 0xE8, CHR 0xBD, CHR 0xBD, CHR 0xE5, CHR 0xA4, CHR 0xB1, CHR 0xE8, CHR 0xB4, CHR 0xA5,
      CHR 0xEF, CHR 0xBC, CHR 0x88, CHR 0xE8, CHR 0x8A, CHR 0x82, CHR 0xE7, CHR 0x82, CHR 0xB9,
      CHR 0xE7, CHR 0xBC, CHR 0x93, CHR 0xE5, CHR 0xAD, CHR 0x98, CHR 0xE4, CHR 0xB8, CHR 0x8D,
      CHR 0xE5, CHR 0x8F, CHR 0xAF, CHR 0xE7, CHR 0x94, CHR 0xA8, CHR 0xEF, CHR 0xBC, CHR 0x89]"

text \<open>reconcile_dispatcher.go pollCacheReady\<close>

definition msg_cache_dl_failed_p :: string where
  "msg_cache_dl_failed_p =
     [CHR 0xE7, CHR 0xBC, CHR 0x93, CHR 0xE5, CHR 0xAD, CHR 0x98, CHR 0xE4, CHR 0xB8, CHR 0x8B,
      CHR 0xE8, CHR 0xBD, CHR 0xBD, CHR 0xE5, CHR 0xA4, CHR 0xB1, CHR 0xE8, CHR 0xB4, CHR 0xA5,
      CHR 0xEF, CHR 0xBC, CHR 0x9A]"

text \<open>reconcile_dispatcher.go pollCacheReady\<close>

definition msg_progress :: string where
  "msg_progress =
     [CHR 0xEF, CHR 0xBC, CHR 0x8C, CHR 0xE8, CHR 0xBF, CHR 0x9B, CHR 0xE5, CHR 0xBA, CHR 0xA6] @
     '' ''"

text \<open>reconcile_dispatcher.go pollCacheReady\<close>

definition msg_warm_timeout1 :: string where
  "msg_warm_timeout1 =
     [CHR 0xE7, CHR 0xBC, CHR 0x93, CHR 0xE5, CHR 0xAD, CHR 0x98, CHR 0xE9, CHR 0xA2, CHR 0x84,
      CHR 0xE7, CHR 0x83, CHR 0xAD, CHR 0xE8, CHR 0xB6, CHR 0x85, CHR 0xE6, CHR 0x97, CHR 0xB6,
      CHR 0xEF, CHR 0xBC, CHR 0x88]"

text \<open>reconcile_dispatcher.go pollCacheReady\<close>

definition msg_warm_timeout2 :: string where
  "msg_warm_timeout2 =
     '' '' @
     [CHR 0xE5, CHR 0x88, CHR 0x86, CHR 0xE9, CHR 0x92, CHR 0x9F, CHR 0xEF, CHR 0xBC, CHR 0x89]"

text \<open>reconcile_dispatcher.go onCleanInstanceSucceeded\<close>

definition msg_stopped_ev :: string where
  "msg_stopped_ev =
     [CHR 0xE5, CHR 0xAE, CHR 0x9E, CHR 0xE4, CHR 0xBE, CHR 0x8B, CHR 0xE5, CHR 0x81, CHR 0x9C,
      CHR 0xE6, CHR 0xAD, CHR 0xA2, CHR 0xEF, CHR 0xBC, CHR 0x88, CHR 0xE9, CHR 0x87, CHR 0x8A,
      CHR 0xE6, CHR 0x94, CHR 0xBE, CHR 0xE9, CHR 0xA2, CHR 0x84, CHR 0xE7, CHR 0x95, CHR 0x99,
      CHR 0xE4, CHR 0xB8, CHR 0x8E, CHR 0xE7, CHR 0xAB, CHR 0xAF, CHR 0xE5, CHR 0x8F, CHR 0xA3,
      CHR 0xEF, CHR 0xBC, CHR 0x89]"

text \<open>reconcile_dispatcher.go fencing\<close>

definition msg_fence1 :: string where
  "msg_fence1 =
     [CHR 0xE8, CHR 0x8A, CHR 0x82, CHR 0xE7, CHR 0x82, CHR 0xB9, CHR 0xE5, CHR 0xA4, CHR 0xB1,
      CHR 0xE8, CHR 0x81, CHR 0x94, CHR 0xE8, CHR 0xB6, CHR 0x85, CHR 0xE8, CHR 0xBF, CHR 0x87] @
     '' ''"

text \<open>reconcile_dispatcher.go fencing\<close>

definition msg_fence2 :: string where
  "msg_fence2 =
     [CHR 0xEF, CHR 0xBC, CHR 0x8C, CHR 0xE5, CHR 0xAE, CHR 0x9E, CHR 0xE4, CHR 0xBE, CHR 0x8B,
      CHR 0xE5, CHR 0xB7, CHR 0xB2, CHR 0xE7, CHR 0xBB, CHR 0x88, CHR 0xE6, CHR 0xAD, CHR 0xA2,
      CHR 0xEF, CHR 0xBC, CHR 0x88] @
     ''fencing'' @
     [CHR 0xEF, CHR 0xBC, CHR 0x89, CHR 0xEF, CHR 0xBC, CHR 0x9B, CHR 0xE8, CHR 0x8A, CHR 0x82,
      CHR 0xE7, CHR 0x82, CHR 0xB9, CHR 0xE6, CHR 0x81, CHR 0xA2, CHR 0xE5, CHR 0xA4, CHR 0x8D,
      CHR 0xE5, CHR 0x90, CHR 0x8E, CHR 0xE8, CHR 0xAF, CHR 0xB7, CHR 0xE9, CHR 0x87, CHR 0x8D,
      CHR 0xE8, CHR 0xAF, CHR 0x95]"

text \<open>reconcile_dispatcher.go: game process exited\<close>

definition msg_game_exit :: string where
  "msg_game_exit =
     [CHR 0xE6, CHR 0xB8, CHR 0xB8, CHR 0xE6, CHR 0x88, CHR 0x8F, CHR 0xE8, CHR 0xBF, CHR 0x9B,
      CHR 0xE7, CHR 0xA8, CHR 0x8B, CHR 0xE9, CHR 0x80, CHR 0x80, CHR 0xE5, CHR 0x87, CHR 0xBA,
      CHR 0xEF, CHR 0xBC, CHR 0x88] @
     ''node_agent '' @
     [CHR 0xE6, CHR 0xA3, CHR 0x80, CHR 0xE6, CHR 0xB5, CHR 0x8B, CHR 0xE5, CHR 0x88, CHR 0xB0,
      CHR 0xE5, CHR 0xAE, CHR 0xB9, CHR 0xE5, CHR 0x99, CHR 0xA8, CHR 0xE5, CHR 0xBC, CHR 0x82,
      CHR 0xE5, CHR 0xB8, CHR 0xB8, CHR 0xEF, CHR 0xBC, CHR 0x89]"

text \<open>stale_reservation_reaper.go event\<close>

definition msg_stale_release :: string where
  "msg_stale_release =
     [CHR 0xE4, CHR 0xB8, CHR 0xAD, CHR 0xE9, CHR 0x97, CHR 0xB4, CHR 0xE6, CHR 0x80, CHR 0x81,
      CHR 0xE5, CHR 0x8D, CHR 0xA1, CHR 0xE6, CHR 0xAD, CHR 0xBB, CHR 0xEF, CHR 0xBC, CHR 0x8C,
      CHR 0xE9, CHR 0x87, CHR 0x8A, CHR 0xE6, CHR 0x94, CHR 0xBE, CHR 0xE9, CHR 0xA2, CHR 0x84,
      CHR 0xE7, CHR 0x95, CHR 0x99]"

text \<open>stale_reservation_reaper.go fail reason\<close>

definition msg_stale_fail :: string where
  "msg_stale_fail =
     [CHR 0xE4, CHR 0xB8, CHR 0xAD, CHR 0xE9, CHR 0x97, CHR 0xB4, CHR 0xE6, CHR 0x80, CHR 0x81,
      CHR 0xE5, CHR 0x8D, CHR 0xA1, CHR 0xE6, CHR 0xAD, CHR 0xBB, CHR 0xEF, CHR 0xBC, CHR 0x8C,
      CHR 0xE9, CHR 0xA2, CHR 0x84, CHR 0xE7, CHR 0x95, CHR 0x99, CHR 0xE8, CHR 0xB6, CHR 0x85,
      CHR 0xE6, CHR 0x97, CHR 0xB6, CHR 0xE9, CHR 0x87, CHR 0x8A, CHR 0xE6, CHR 0x94, CHR 0xBE,
      CHR 0xEF, CHR 0xBC, CHR 0x88] @
     ''stale_reservation'' @
     [CHR 0xEF, CHR 0xBC, CHR 0x89]"

text \<open>game_instance_use_case.go\<close>

definition msg_bad_status :: string where
  "msg_bad_status =
     ''invalid instance status'' @
     [CHR 0xEF, CHR 0xBC, CHR 0x9A]"

text \<open>game_instance_use_case.go Stop\<close>

definition msg_stop_only :: string where
  "msg_stop_only =
     [CHR 0xEF, CHR 0xBC, CHR 0x88, CHR 0xE4, CHR 0xBB, CHR 0x85] @
     '' running '' @
     [CHR 0xE6, CHR 0x88, CHR 0x96, CHR 0xE5, CHR 0x81, CHR 0x9C, CHR 0xE6, CHR 0xAD, CHR 0xA2,
      CHR 0xE5, CHR 0xA4, CHR 0xB1, CHR 0xE8, CHR 0xB4, CHR 0xA5, CHR 0xE5, CHR 0x8F, CHR 0xAF,
      CHR 0xE5, CHR 0x81, CHR 0x9C, CHR 0xE6, CHR 0xAD, CHR 0xA2, CHR 0xEF, CHR 0xBC, CHR 0x89]"

text \<open>game_instance_use_case.go Retry\<close>

definition msg_retry_only :: string where
  "msg_retry_only =
     [CHR 0xEF, CHR 0xBC, CHR 0x88, CHR 0xE4, CHR 0xBB, CHR 0x85] @
     '' failed '' @
     [CHR 0xE7, CHR 0x8A, CHR 0xB6, CHR 0xE6, CHR 0x80, CHR 0x81, CHR 0xE5, CHR 0x8F, CHR 0xAF,
      CHR 0xE9, CHR 0x87, CHR 0x8D, CHR 0xE8, CHR 0xAF, CHR 0x95, CHR 0xEF, CHR 0xBC, CHR 0x89]"

text \<open>game_instance_use_case.go Start\<close>

definition msg_stop_unfinished_start :: string where
  "msg_stop_unfinished_start =
     [CHR 0xEF, CHR 0xBC, CHR 0x9A, CHR 0xE4, CHR 0xB8, CHR 0x8A, CHR 0xE6, CHR 0xAC, CHR 0xA1,
      CHR 0xE5, CHR 0x81, CHR 0x9C, CHR 0xE6, CHR 0xAD, CHR 0xA2, CHR 0xE6, CHR 0x9C, CHR 0xAA,
      CHR 0xE5, CHR 0xAE, CHR 0x8C, CHR 0xE6, CHR 0x88, CHR 0x90, CHR 0xEF, CHR 0xBC, CHR 0x88,
      CHR 0xE5, CHR 0xAE, CHR 0xB9, CHR 0xE5, CHR 0x99, CHR 0xA8, CHR 0xE5, CHR 0x8F, CHR 0xAF,
      CHR 0xE8, CHR 0x83, CHR 0xBD, CHR 0xE6, CHR 0xAE, CHR 0x8B, CHR 0xE7, CHR 0x95, CHR 0x99,
      CHR 0xEF, CHR 0xBC, CHR 0x89, CHR 0xEF, CHR 0xBC, CHR 0x8C, CHR 0xE8, CHR 0xAF, CHR 0xB7,
      CHR 0xE5, CHR 0x85, CHR 0x88, CHR 0xE5, CHR 0x81, CHR 0x9C, CHR 0xE6, CHR 0xAD, CHR 0xA2,
      CHR 0xE6, CHR 0xB8, CHR 0x85, CHR 0xE7, CHR 0x90, CHR 0x86, CHR 0xE5, CHR 0x90, CHR 0x8E,
      CHR 0xE5, CHR 0x86, CHR 0x8D, CHR 0xE5, CHR 0x90, CHR 0xAF, CHR 0xE5, CHR 0x8A, CHR 0xA8]"

text \<open>game_instance_use_case.go Retry\<close>

definition msg_stop_unfinished_retry :: string where
  "msg_stop_unfinished_retry =
     [CHR 0xEF, CHR 0xBC, CHR 0x9A, CHR 0xE4, CHR 0xB8, CHR 0x8A, CHR 0xE6, CHR 0xAC, CHR 0xA1,
      CHR 0xE5, CHR 0x81, CHR 0x9C, CHR 0xE6, CHR 0xAD, CHR 0xA2, CHR 0xE6, CHR 0x9C, CHR 0xAA,
      CHR 0xE5, CHR 0xAE, CHR 0x8C, CHR 0xE6, CHR 0x88, CHR 0x90, CHR 0xEF, CHR 0xBC, CHR 0x88,
      CHR 0xE5, CHR 0xAE, CHR 0xB9, CHR 0xE5, CHR 0x99, CHR 0xA8, CHR 0xE5, CHR 0x8F, CHR 0xAF,
      CHR 0xE8, CHR 0x83, CHR 0xBD, CHR 0xE6, CHR 0xAE, CHR 0x8B, CHR 0xE7, CHR 0x95, CHR 0x99,
      CHR 0xEF, CHR 0xBC, CHR 0x89, CHR 0xEF, CHR 0xBC, CHR 0x8C, CHR 0xE8, CHR 0xAF, CHR 0xB7,
      CHR 0xE5, CHR 0x85, CHR 0x88, CHR 0xE5, CHR 0x81, CHR 0x9C, CHR 0xE6, CHR 0xAD, CHR 0xA2,
      CHR 0xE6, CHR 0xB8, CHR 0x85, CHR 0xE7, CHR 0x90, CHR 0x86, CHR 0xE5, CHR 0x90, CHR 0x8E,
      CHR 0xE5, CHR 0x86, CHR 0x8D, CHR 0xE9, CHR 0x87, CHR 0x8D, CHR 0xE8, CHR 0xAF, CHR 0x95]"

text \<open>game_instance_use_case.go checkSubscriptionSlot\<close>

definition msg_conflict1 :: string where
  "msg_conflict1 =
     [CHR 0xEF, CHR 0xBC, CHR 0x88, CHR 0xE7, CHR 0x8A, CHR 0xB6, CHR 0xE6, CHR 0x80, CHR 0x81] @
     '' ''"

text \<open>game_instance_use_case.go checkSubscriptionSlot\<close>

definition msg_conflict2 :: string where
  "msg_conflict2 =
     [CHR 0xEF, CHR 0xBC, CHR 0x8C, CHR 0xE6, CHR 0xB8, CHR 0xB8, CHR 0xE6, CHR 0x88, CHR 0x8F] @
     '' ''"

text \<open>game_instance_use_case.go checkSubscriptionSlot\<close>

definition msg_conflict3 :: string where
  "msg_conflict3 =
     [CHR 0xEF, CHR 0xBC, CHR 0x89, CHR 0xEF, CHR 0xBC, CHR 0x8C, CHR 0xE8, CHR 0xAF, CHR 0xB7,
      CHR 0xE5, CHR 0x85, CHR 0x88, CHR 0xE5, CHR 0x81, CHR 0x9C, CHR 0xE6, CHR 0xAD, CHR 0xA2,
      CHR 0xE5, CHR 0xAE, CHR 0x83]"

text \<open>game_instance_use_case.go mapSaveConflict\<close>

definition msg_concurrent :: string where
  "msg_concurrent =
     [CHR 0xEF, CHR 0xBC, CHR 0x88, CHR 0xE5, CHR 0xB9, CHR 0xB6, CHR 0xE5, CHR 0x8F, CHR 0x91,
      CHR 0xE5, CHR 0x86, CHR 0xB2, CHR 0xE7, CHR 0xAA, CHR 0x81, CHR 0xEF, CHR 0xBC, CHR 0x9A,
      CHR 0xE5, CHR 0x90, CHR 0x8C, CHR 0xE4, CHR 0xB8, CHR 0x80, CHR 0xE8, CHR 0xAE, CHR 0xA2,
      CHR 0xE9, CHR 0x98, CHR 0x85, CHR 0xE5, CHR 0x90, CHR 0x8C, CHR 0xE6, CHR 0x97, CHR 0xB6,
      CHR 0xE5, CHR 0x90, CHR 0xAF, CHR 0xE5, CHR 0x8A, CHR 0xA8, CHR 0xE4, CHR 0xBA, CHR 0x86,
      CHR 0xE5, CHR 0xA4, CHR 0x9A, CHR 0xE4, CHR 0xB8, CHR 0xAA, CHR 0xE5, CHR 0xAE, CHR 0x9E,
      CHR 0xE4, CHR 0xBE, CHR 0x8B, CHR 0xEF, CHR 0xBC, CHR 0x8C, CHR 0xE8, CHR 0xAF, CHR 0xB7,
      CHR 0xE5, CHR 0x88, CHR 0xB7, CHR 0xE6, CHR 0x96, CHR 0xB0, CHR 0xE5, CHR 0x90, CHR 0x8E,
      CHR 0xE9, CHR 0x87, CHR 0x8D, CHR 0xE8, CHR 0xAF, CHR 0x95, CHR 0xEF, CHR 0xBC, CHR 0x89]"

text \<open>game_instance_use_case.go CreateGameInstance\<close>

definition msg_no_schema1 :: string where
  "msg_no_schema1 =
     [CHR 0xE6, CHR 0xB8, CHR 0xB8, CHR 0xE6, CHR 0x88, CHR 0x8F] @
     '' ''"

text \<open>game_instance_use_case.go CreateGameInstance\<close>

definition msg_no_schema2 :: string where
  "msg_no_schema2 =
     '' '' @
     [CHR 0xE7, CHR 0x9A, CHR 0x84, CHR 0xE6, CHR 0x9E, CHR 0x84, CHR 0xE5, CHR 0xBB, CHR 0xBA] @
     '' ''"

text \<open>game_instance_use_case.go CreateGameInstance\<close>

definition msg_no_schema3 :: string where
  "msg_no_schema3 =
     '' '' @
     [CHR 0xE6, CHR 0x9C, CHR 0xAA, CHR 0xE6, CHR 0xB3, CHR 0xA8, CHR 0xE5, CHR 0x86, CHR 0x8C,
      CHR 0xE9, CHR 0x85, CHR 0x8D, CHR 0xE7, CHR 0xBD, CHR 0xAE] @
     '' schema'' @
     [CHR 0xEF, CHR 0xBC, CHR 0x8C, CHR 0xE6, CHR 0x97, CHR 0xA0, CHR 0xE6, CHR 0xB3, CHR 0x95,
      CHR 0xE6, CHR 0x8E, CHR 0xA5, CHR 0xE6, CHR 0x94, CHR 0xB6, CHR 0xE5, CHR 0xAE, CHR 0x9E,
      CHR 0xE4, CHR 0xBE, CHR 0x8B, CHR 0xE9, CHR 0x85, CHR 0x8D, CHR 0xE7, CHR 0xBD, CHR 0xAE]"

text \<open>game_instance_use_case.go UpdateInstanceConfig\<close>

definition msg_no_schema_upd :: string where
  "msg_no_schema_upd =
     [CHR 0xE8, CHR 0xAF, CHR 0xA5, CHR 0xE6, CHR 0x9E, CHR 0x84, CHR 0xE5, CHR 0xBB, CHR 0xBA,
      CHR 0xE6, CHR 0x9C, CHR 0xAA, CHR 0xE6, CHR 0xB3, CHR 0xA8, CHR 0xE5, CHR 0x86, CHR 0x8C,
      CHR 0xE9, CHR 0x85, CHR 0x8D, CHR 0xE7, CHR 0xBD, CHR 0xAE] @
     '' schema'' @
     [CHR 0xEF, CHR 0xBC, CHR 0x8C, CHR 0xE6, CHR 0x97, CHR 0xA0, CHR 0xE6, CHR 0xB3, CHR 0x95,
      CHR 0xE6, CHR 0x9B, CHR 0xB4, CHR 0xE6, CHR 0x96, CHR 0xB0, CHR 0xE5, CHR 0xAE, CHR 0x9E,
      CHR 0xE4, CHR 0xBE, CHR 0x8B, CHR 0xE9, CHR 0x85, CHR 0x8D, CHR 0xE7, CHR 0xBD, CHR 0xAE]"

text \<open>adapter_schema.go ParseAdapterSchema\<close>

definition msg_schema_parse :: string where
  "msg_schema_parse =
     ''schema_json '' @
     [CHR 0xE8, CHR 0xA7, CHR 0xA3, CHR 0xE6, CHR 0x9E, CHR 0x90, CHR 0xE5, CHR 0xA4, CHR 0xB1,
      CHR 0xE8, CHR 0xB4, CHR 0xA5] @
     '': ''"

text \<open>adapter_schema.go ParseAdapterSchema\<close>

definition msg_schema_no_id :: string where
  "msg_schema_no_id =
     ''schema.adapter_id '' @
     [CHR 0xE4, CHR 0xB8, CHR 0xBA, CHR 0xE7, CHR 0xA9, CHR 0xBA]"

text \<open>adapter_schema.go: unknown key\<close>

definition msg_unknown_key :: string where
  "msg_unknown_key =
     [CHR 0xE6, CHR 0x9C, CHR 0xAA, CHR 0xE7, CHR 0x9F, CHR 0xA5, CHR 0xE9, CHR 0x85, CHR 0x8D,
      CHR 0xE7, CHR 0xBD, CHR 0xAE, CHR 0xE9, CHR 0xA1, CHR 0xB9] @
     '': ''"

text \<open>adapter_schema.go: item\<close>

definition msg_item :: string where
  "msg_item =
     [CHR 0xE9, CHR 0x85, CHR 0x8D, CHR 0xE7, CHR 0xBD, CHR 0xAE, CHR 0xE9, CHR 0xA1, CHR 0xB9] @
     '' ''"

text \<open>adapter_schema.go: locked\<close>

definition msg_locked :: string where
  "msg_locked =
     '' '' @
     [CHR 0xE7, CHR 0x94, CHR 0xB1, CHR 0xE5, CHR 0xB9, CHR 0xB3, CHR 0xE5, CHR 0x8F, CHR 0xB0,
      CHR 0xE9, CHR 0x94, CHR 0x81, CHR 0xE5, CHR 0xAE, CHR 0x9A, CHR 0xEF, CHR 0xBC, CHR 0x8C,
      CHR 0xE4, CHR 0xB8, CHR 0x8D, CHR 0xE5, CHR 0x8F, CHR 0xAF, CHR 0xE9, CHR 0x85, CHR 0x8D,
      CHR 0xE7, CHR 0xBD, CHR 0xAE]"

text \<open>adapter_schema.go: integer needed\<close>

definition msg_need_int :: string where
  "msg_need_int =
     '' '' @
     [CHR 0xE9, CHR 0x9C, CHR 0x80, CHR 0xE8, CHR 0xA6, CHR 0x81, CHR 0xE6, CHR 0x95, CHR 0xB4,
      CHR 0xE6, CHR 0x95, CHR 0xB0, CHR 0xEF, CHR 0xBC, CHR 0x8C, CHR 0xE6, CHR 0x94, CHR 0xB6,
      CHR 0xE5, CHR 0x88, CHR 0xB0] @
     '': ''"

text \<open>adapter_schema.go: below the minimum\<close>

definition msg_below_min :: string where
  "msg_below_min =
     '' '' @
     [CHR 0xE5, CHR 0xB0, CHR 0x8F, CHR 0xE4, CHR 0xBA, CHR 0x8E, CHR 0xE6, CHR 0x9C, CHR 0x80,
      CHR 0xE5, CHR 0xB0, CHR 0x8F, CHR 0xE5, CHR 0x80, CHR 0xBC] @
     '' ''"

text \<open>adapter_schema.go: above the maximum\<close>

definition msg_above_max :: string where
  "msg_above_max =
     '' '' @
     [CHR 0xE5, CHR 0xA4, CHR 0xA7, CHR 0xE4, CHR 0xBA, CHR 0x8E, CHR 0xE6, CHR 0x9C, CHR 0x80,
      CHR 0xE5, CHR 0xA4, CHR 0xA7, CHR 0xE5, CHR 0x80, CHR 0xBC] @
     '' ''"

text \<open>adapter_schema.go: Boolean needed\<close>

definition msg_need_bool :: string where
  "msg_need_bool =
     '' '' @
     [CHR 0xE9, CHR 0x9C, CHR 0x80, CHR 0xE8, CHR 0xA6, CHR 0x81] @
     '' true/false'' @
     [CHR 0xEF, CHR 0xBC, CHR 0x8C, CHR 0xE6, CHR 0x94, CHR 0xB6, CHR 0xE5, CHR 0x88, CHR 0xB0] @
     '': ''"

text \<open>adapter_schema.go: not in the enumeration\<close>

definition msg_bad_enum :: string where
  "msg_bad_enum =
     '' '' @
     [CHR 0xE5, CHR 0x80, CHR 0xBC, CHR 0xE9, CHR 0x9D, CHR 0x9E, CHR 0xE6, CHR 0xB3, CHR 0x95] @
     '': ''"

text \<open>adapter_schema.go: the options\<close>

definition msg_enum_options :: string where
  "msg_enum_options =
     [CHR 0xEF, CHR 0xBC, CHR 0x88, CHR 0xE5, CHR 0x8F, CHR 0xAF, CHR 0xE9, CHR 0x80, CHR 0x89] @
     '': ''"

text \<open>pressure_monitor.go transition\<close>

definition msg_pressure_to :: string where
  "msg_pressure_to =
     [CHR 0xE5, CHR 0x8E, CHR 0x8B, CHR 0xE5, CHR 0x8A, CHR 0x9B, CHR 0xE7, CHR 0x8A, CHR 0xB6,
      CHR 0xE6, CHR 0x80, CHR 0x81] @
     '' '' @
     [CHR 0xE2, CHR 0x86, CHR 0x92] @
     '' ''"

text \<open>pressure_monitor.go transition\<close>

definition msg_pressure_recent :: string where
  "msg_pressure_recent =
     [CHR 0xEF, CHR 0xBC, CHR 0x88, CHR 0xE6, CHR 0x9C, CHR 0x80, CHR 0xE8, CHR 0xBF, CHR 0x91] @
     '' ''"

text \<open>pressure_monitor.go transition\<close>

definition msg_pressure_peak :: string where
  "msg_pressure_peak =
     '' '' @
     [CHR 0xE4, CHR 0xB8, CHR 0xAA, CHR 0xE9, CHR 0x87, CHR 0x87, CHR 0xE6, CHR 0xA0, CHR 0xB7,
      CHR 0xE5, CHR 0xB3, CHR 0xB0, CHR 0xE5, CHR 0x80, CHR 0xBC] @
     '' ''"

text \<open>pressure_monitor.go transition\<close>

definition msg_pressure_limits :: string where
  "msg_pressure_limits =
     ''%'' @
     [CHR 0xEF, CHR 0xBC, CHR 0x9B, CHR 0xE9, CHR 0x98, CHR 0x88, CHR 0xE5, CHR 0x80, CHR 0xBC] @
     '' Warning=''"

text \<open>node_agent_health_monitor.go publishHealthChange\<close>

definition msg_health_to :: string where
  "msg_health_to =
     [CHR 0xE5, CHR 0x81, CHR 0xA5, CHR 0xE5, CHR 0xBA, CHR 0xB7, CHR 0xE7, CHR 0x8A, CHR 0xB6,
      CHR 0xE6, CHR 0x80, CHR 0x81] @
     '' '' @
     [CHR 0xE2, CHR 0x86, CHR 0x92] @
     '' ''"

text \<open>node_agent_update_reconciler.go\<close>

definition msg_upd_stale :: string where
  "msg_upd_stale =
     [CHR 0xE6, CHR 0x9B, CHR 0xB4, CHR 0xE6, CHR 0x96, CHR 0xB0, CHR 0xE5, CHR 0x9C, CHR 0xA8,
      CHR 0xE8, CHR 0xB6, CHR 0x85, CHR 0xE6, CHR 0x97, CHR 0xB6, CHR 0xE7, CHR 0xAA, CHR 0x97,
      CHR 0xE5, CHR 0x8F, CHR 0xA3, CHR 0xE5, CHR 0x86, CHR 0x85, CHR 0xE6, CHR 0x9C, CHR 0xAA,
      CHR 0xE5, CHR 0xAE, CHR 0x8C, CHR 0xE6, CHR 0x88, CHR 0x90, CHR 0xEF, CHR 0xBC, CHR 0x88,
      CHR 0xE8, CHR 0x87, CHR 0xAA, CHR 0xE5, CHR 0x8A, CHR 0xA8, CHR 0xE5, CHR 0xAF, CHR 0xB9,
      CHR 0xE8, CHR 0xB4, CHR 0xA6, CHR 0xE6, CHR 0x94, CHR 0xB6, CHR 0xE6, CHR 0x95, CHR 0x9B,
      CHR 0xEF, CHR 0xBC, CHR 0x9A] @
     ''agent '' @
     [CHR 0xE5, CHR 0x8F, CHR 0xAF, CHR 0xE8, CHR 0x83, CHR 0xBD, CHR 0xE6, CHR 0x9C, CHR 0xAA,
      CHR 0xE9, CHR 0x87, CHR 0x8D, CHR 0xE5, CHR 0x90, CHR 0xAF, CHR 0xE6, CHR 0x88, CHR 0x96,
      CHR 0xE5, CHR 0xB7, CHR 0xB2, CHR 0xE5, CHR 0xA4, CHR 0xB1, CHR 0xE8, CHR 0x81, CHR 0x94,
      CHR 0xEF, CHR 0xBC, CHR 0x89]"

text \<open>node_agent_update_orchestrator.go\<close>

definition msg_upd_no_agent :: string where
  "msg_upd_no_agent =
     ''node_agent '' @
     [CHR 0xE4, CHR 0xB8, CHR 0x8D, CHR 0xE5, CHR 0xAD, CHR 0x98, CHR 0xE5, CHR 0x9C, CHR 0xA8]"

text \<open>node_agent_update_orchestrator.go\<close>

definition msg_upd_no_release :: string where
  "msg_upd_no_release =
     ''release '' @
     [CHR 0xE4, CHR 0xB8, CHR 0x8D, CHR 0xE5, CHR 0xAD, CHR 0x98, CHR 0xE5, CHR 0x9C, CHR 0xA8] @
     '': ''"

text \<open>node_agent_update_orchestrator.go\<close>

definition msg_upd_lost :: string where
  "msg_upd_lost =
     ''agent '' @
     [CHR 0xE5, CHR 0xA4, CHR 0xB1, CHR 0xE8, CHR 0x81, CHR 0x94, CHR 0xEF, CHR 0xBC, CHR 0x88,
      CHR 0xE4, CHR 0xB8, CHR 0x8D, CHR 0xE5, CHR 0x8F, CHR 0xAF, CHR 0xE6, CHR 0x9B, CHR 0xB4,
      CHR 0xE6, CHR 0x96, CHR 0xB0, CHR 0xEF, CHR 0xBC, CHR 0x89]"

text \<open>node_agent_update_orchestrator.go\<close>

definition msg_upd_busy :: string where
  "msg_upd_busy =
     [CHR 0xE5, CHR 0xB7, CHR 0xB2, CHR 0xE6, CHR 0x9C, CHR 0x89, CHR 0xE6, CHR 0x9B, CHR 0xB4,
      CHR 0xE6, CHR 0x96, CHR 0xB0, CHR 0xE8, CHR 0xBF, CHR 0x9B, CHR 0xE8, CHR 0xA1, CHR 0x8C,
      CHR 0xE4, CHR 0xB8, CHR 0xAD, CHR 0xEF, CHR 0xBC, CHR 0x88] @
     ''state=''"

text \<open>node_agent_update_orchestrator.go\<close>

definition msg_upd_latest :: string where
  "msg_upd_latest =
     [CHR 0xE5, CHR 0xB7, CHR 0xB2, CHR 0xE6, CHR 0x98, CHR 0xAF, CHR 0xE6, CHR 0x9C, CHR 0x80,
      CHR 0xE6, CHR 0x96, CHR 0xB0, CHR 0xE7, CHR 0x89, CHR 0x88, CHR 0xE6, CHR 0x9C, CHR 0xAC]"

text \<open>node_agent_update_orchestrator.go\<close>

definition msg_upd_check :: string where
  "msg_upd_check =
     [CHR 0xE6, CHR 0xA3, CHR 0x80, CHR 0xE6, CHR 0x9F, CHR 0xA5, CHR 0xE6, CHR 0xB4, CHR 0xBB,
      CHR 0xE8, CHR 0xB7, CHR 0x83, CHR 0xE5, CHR 0xAE, CHR 0x9E, CHR 0xE4, CHR 0xBE, CHR 0x8B,
      CHR 0xE5, CHR 0xA4, CHR 0xB1, CHR 0xE8, CHR 0xB4, CHR 0xA5] @
     '': ''"

text \<open>node_agent_update_orchestrator.go\<close>

definition msg_upd_active1 :: string where
  "msg_upd_active1 =
     [CHR 0xE8, CHR 0x8A, CHR 0x82, CHR 0xE7, CHR 0x82, CHR 0xB9, CHR 0xE4, CHR 0xBB, CHR 0x8D,
      CHR 0xE6, CHR 0x9C, CHR 0x89] @
     '' ''"

text \<open>node_agent_update_orchestrator.go\<close>

definition msg_upd_active2 :: string where
  "msg_upd_active2 =
     '' '' @
     [CHR 0xE4, CHR 0xB8, CHR 0xAA, CHR 0xE6, CHR 0xB4, CHR 0xBB, CHR 0xE8, CHR 0xB7, CHR 0x83,
      CHR 0xE5, CHR 0xAE, CHR 0x9E, CHR 0xE4, CHR 0xBE, CHR 0x8B, CHR 0xEF, CHR 0xBC, CHR 0x88,
      CHR 0xE5, CHR 0xA6, CHR 0x82] @
     '' ''"

text \<open>node_agent_update_orchestrator.go\<close>

definition msg_upd_active3 :: string where
  "msg_upd_active3 =
     [CHR 0xEF, CHR 0xBC, CHR 0x89, CHR 0xEF, CHR 0xBC, CHR 0x8C, CHR 0xE8, CHR 0xAF, CHR 0xB7,
      CHR 0xE5, CHR 0x85, CHR 0x88, CHR 0xE5, CHR 0x81, CHR 0x9C, CHR 0xE6, CHR 0xAD, CHR 0xA2]"

text \<open>node_agent_update_orchestrator.go\<close>

definition msg_upd_save :: string where
  "msg_upd_save =
     [CHR 0xE6, CHR 0x9B, CHR 0xB4, CHR 0xE6, CHR 0x96, CHR 0xB0, CHR 0xE7, CHR 0x8A, CHR 0xB6,
      CHR 0xE6, CHR 0x80, CHR 0x81, CHR 0xE8, CHR 0x90, CHR 0xBD, CHR 0xE5, CHR 0xBA, CHR 0x93,
      CHR 0xE5, CHR 0xA4, CHR 0xB1, CHR 0xE8, CHR 0xB4, CHR 0xA5] @
     '': ''"

text \<open>node_agent_update_orchestrator.go\<close>

definition msg_upd_send :: string where
  "msg_upd_send =
     [CHR 0xE4, CHR 0xB8, CHR 0x8B, CHR 0xE5, CHR 0x8F, CHR 0x91, CHR 0xE6, CHR 0x9B, CHR 0xB4,
      CHR 0xE6, CHR 0x96, CHR 0xB0, CHR 0xE5, CHR 0xA4, CHR 0xB1, CHR 0xE8, CHR 0xB4, CHR 0xA5] @
     '': ''"

text \<open>node_agent_update_orchestrator.go\<close>

definition msg_upd_rejected :: string where
  "msg_upd_rejected =
     [CHR 0xE6, CHR 0x9B, CHR 0xB4, CHR 0xE6, CHR 0x96, CHR 0xB0, CHR 0xE8, CHR 0xA2, CHR 0xAB] @
     '' node_agent '' @
     [CHR 0xE6, CHR 0x8B, CHR 0x92, CHR 0xE7, CHR 0xBB, CHR 0x9D]"

text \<open>node_agent_update_orchestrator.go\<close>

definition msg_upd_done :: string where
  "msg_upd_done =
     [CHR 0xE6, CHR 0x9B, CHR 0xB4, CHR 0xE6, CHR 0x96, CHR 0xB0, CHR 0xE5, CHR 0xAE, CHR 0x8C,
      CHR 0xE6, CHR 0x88, CHR 0x90]"

text \<open>node_agent_update_orchestrator.go\<close>

definition msg_upd_timeout :: string where
  "msg_upd_timeout =
     [CHR 0xE5, CHR 0xBF, CHR 0x83, CHR 0xE8, CHR 0xB7, CHR 0xB3, CHR 0xE6, CHR 0x9C, CHR 0xAA,
      CHR 0xE5, CHR 0x9C, CHR 0xA8, CHR 0xE6, CHR 0x97, CHR 0xB6, CHR 0xE9, CHR 0x99, CHR 0x90,
      CHR 0xE5, CHR 0x86, CHR 0x85, CHR 0xE5, CHR 0x9B, CHR 0x9E, CHR 0xE5, CHR 0xBD, CHR 0x92,
      CHR 0xE6, CHR 0x96, CHR 0xB0, CHR 0xE7, CHR 0x89, CHR 0x88, CHR 0xE6, CHR 0x9C, CHR 0xAC,
      CHR 0xEF, CHR 0xBC, CHR 0x88] @
     ''agent '' @
     [CHR 0xE5, CHR 0x8F, CHR 0xAF, CHR 0xE8, CHR 0x83, CHR 0xBD, CHR 0xE6, CHR 0x9C, CHR 0xAA,
      CHR 0xE8, CHR 0x87, CHR 0xAA, CHR 0xE5, CHR 0x8A, CHR 0xA8, CHR 0xE9, CHR 0x87, CHR 0x8D,
      CHR 0xE5, CHR 0x90, CHR 0xAF, CHR 0xEF, CHR 0xBC, CHR 0x8C, CHR 0xE8, CHR 0xAF, CHR 0xB7,
      CHR 0xE6, CHR 0xA3, CHR 0x80, CHR 0xE6, CHR 0x9F, CHR 0xA5, CHR 0xE9, CHR 0x83, CHR 0xA8,
      CHR 0xE7, CHR 0xBD, CHR 0xB2, CHR 0xEF, CHR 0xBC, CHR 0x89]"

text \<open>platform_config_use_case.go Update\<close>

definition msg_not_platform :: string where
  "msg_not_platform =
     '' '' @
     [CHR 0xE4, CHR 0xB8, CHR 0x8D, CHR 0xE6, CHR 0x98, CHR 0xAF, CHR 0xE5, CHR 0xB9, CHR 0xB3,
      CHR 0xE5, CHR 0x8F, CHR 0xB0, CHR 0xE5, CHR 0x8F, CHR 0xAF, CHR 0xE9, CHR 0x85, CHR 0x8D,
      CHR 0xE7, CHR 0xBD, CHR 0xAE, CHR 0xE9, CHR 0xA1, CHR 0xB9, CHR 0xEF, CHR 0xBC, CHR 0x88,
      CHR 0xE4, CHR 0xBB, CHR 0x85] @
     '' control=platform '' @
     [CHR 0xE7, CHR 0x9A, CHR 0x84, CHR 0xE9, CHR 0xA1, CHR 0xB9, CHR 0xE5, CHR 0x8F, CHR 0xAF,
      CHR 0xE5, CHR 0x9C, CHR 0xA8, CHR 0xE6, CHR 0xAD, CHR 0xA4, CHR 0xE8, CHR 0xAE, CHR 0xBE,
      CHR 0xE7, CHR 0xBD, CHR 0xAE, CHR 0xEF, CHR 0xBC, CHR 0x89]"

text \<open>node_cache_view.go refreshOnce\<close>

definition msg_cache_ready :: string where
  "msg_cache_ready =
     ''game-cache '' @
     [CHR 0xE7, CHR 0x8A, CHR 0xB6, CHR 0xE6, CHR 0x80, CHR 0x81, CHR 0xE5, CHR 0x8F, CHR 0x98,
      CHR 0xE5, CHR 0x8C, CHR 0x96, CHR 0xEF, CHR 0xBC, CHR 0x88, CHR 0xE9, CHR 0x83, CHR 0xA8,
      CHR 0xE5, CHR 0x88, CHR 0x86, CHR 0xE8, CHR 0xBD, CHR 0xAC] @
     '' AVAILABLE'' @
     [CHR 0xEF, CHR 0xBC, CHR 0x89]"

text \<open>credential_use_case.go Create\<close>

definition msg_no_declared :: string where
  "msg_no_declared =
     [CHR 0xE8, CHR 0xAF, CHR 0xA5, CHR 0xE6, CHR 0xB8, CHR 0xB8, CHR 0xE6, CHR 0x88, CHR 0x8F,
      CHR 0xE5, CHR 0xB0, CHR 0x9A, CHR 0xE6, CHR 0x9C, CHR 0xAA, CHR 0xE6, CHR 0xB3, CHR 0xA8,
      CHR 0xE5, CHR 0x86, CHR 0x8C, CHR 0xE4, CHR 0xBB, CHR 0xBB, CHR 0xE4, CHR 0xBD, CHR 0x95,
      CHR 0xE5, CHR 0xB8, CHR 0xA6, CHR 0xE5, CHR 0x87, CHR 0xAD, CHR 0xE8, CHR 0xAF, CHR 0x81,
      CHR 0xE5, CHR 0xA3, CHR 0xB0, CHR 0xE6, CHR 0x98, CHR 0x8E, CHR 0xE7, CHR 0x9A, CHR 0x84,
      CHR 0xE6, CHR 0x9E, CHR 0x84, CHR 0xE5, CHR 0xBB, CHR 0xBA, CHR 0xEF, CHR 0xBC, CHR 0x88] @
     ''adapter.toml [[credentials]]'' @
     [CHR 0xEF, CHR 0xBC, CHR 0x89, CHR 0xEF, CHR 0xBC, CHR 0x8C, CHR 0xE6, CHR 0x97, CHR 0xA0,
      CHR 0xE6, CHR 0xB3, CHR 0x95, CHR 0xE5, CHR 0xBD, CHR 0x95, CHR 0xE5, CHR 0x85, CHR 0xA5,
      CHR 0xE5, CHR 0x87, CHR 0xAD, CHR 0xE8, CHR 0xAF, CHR 0x81]"

text \<open>credential_use_case.go Create\<close>

definition msg_bad_type1 :: string where
  "msg_bad_type1 =
     [CHR 0xE6, CHR 0x97, CHR 0xA0, CHR 0xE6, CHR 0x95, CHR 0x88, CHR 0xE7, CHR 0x9A, CHR 0x84,
      CHR 0xE5, CHR 0x87, CHR 0xAD, CHR 0xE8, CHR 0xAF, CHR 0x81, CHR 0xE7, CHR 0xB1, CHR 0xBB,
      CHR 0xE5, CHR 0x9E, CHR 0x8B] @
     '' ''"

text \<open>credential_use_case.go Create\<close>

definition msg_bad_type2 :: string where
  "msg_bad_type2 =
     [CHR 0xEF, CHR 0xBC, CHR 0x8C, CHR 0xE5, CHR 0x8F, CHR 0xAF, CHR 0xE9, CHR 0x80, CHR 0x89,
      CHR 0xE7, CHR 0xB1, CHR 0xBB, CHR 0xE5, CHR 0x9E, CHR 0x8B] @
     '': ''"

text \<open>credential_use_case.go Create\<close>

definition msg_bad_type3 :: string where
  "msg_bad_type3 =
     [CHR 0xEF, CHR 0xBC, CHR 0x88, CHR 0xE9, CHR 0xA1, CHR 0xBB, CHR 0xE4, CHR 0xB8, CHR 0x8E,
      CHR 0xE8, CHR 0xAF, CHR 0xA5, CHR 0xE6, CHR 0xB8, CHR 0xB8, CHR 0xE6, CHR 0x88, CHR 0x8F,
      CHR 0xE6, CHR 0x9E, CHR 0x84, CHR 0xE5, CHR 0xBB, CHR 0xBA, CHR 0xE7, CHR 0x9A, CHR 0x84] @
     '' adapter.toml [[credentials]].pool '' @
     [CHR 0xE4, CHR 0xB8, CHR 0x80, CHR 0xE8, CHR 0x87, CHR 0xB4, CHR 0xEF, CHR 0xBC, CHR 0x89]"

text \<open>agent_release_use_case.go Register\<close>

definition msg_rel_exists :: string where
  "msg_rel_exists =
     '' '' @
     [CHR 0xE5, CHR 0xB7, CHR 0xB2, CHR 0xE5, CHR 0xAD, CHR 0x98, CHR 0xE5, CHR 0x9C, CHR 0xA8,
      CHR 0xEF, CHR 0xBC, CHR 0x88] @
     ''id=''"

text \<open>agent_release_use_case.go Register\<close>

definition msg_rel_exists2 :: string where
  "msg_rel_exists2 =
     [CHR 0xEF, CHR 0xBC, CHR 0x89, CHR 0xEF, CHR 0xBC, CHR 0x8C, CHR 0xE5, CHR 0xA6, CHR 0x82,
      CHR 0xE9, CHR 0x9C, CHR 0x80, CHR 0xE8, CHR 0xA6, CHR 0x86, CHR 0xE7, CHR 0x9B, CHR 0x96,
      CHR 0xE8, CHR 0xAF, CHR 0xB7, CHR 0xE5, CHR 0x85, CHR 0x88, CHR 0xE5, CHR 0x88, CHR 0xA0,
      CHR 0xE9, CHR 0x99, CHR 0xA4]"

text \<open>agent_release_use_case.go ErrReleaseInvalidTarget\<close>

definition msg_rel_target :: string where
  "msg_rel_target =
     ''os/arch '' @
     [CHR 0xE4, CHR 0xB8, CHR 0x8D, CHR 0xE6, CHR 0x94, CHR 0xAF, CHR 0xE6, CHR 0x8C, CHR 0x81,
      CHR 0xE6, CHR 0x88, CHR 0x96, CHR 0xE6, CHR 0xA0, CHR 0xBC, CHR 0xE5, CHR 0xBC, CHR 0x8F,
      CHR 0xE9, CHR 0x94, CHR 0x99, CHR 0xE8, CHR 0xAF, CHR 0xAF]"

text \<open>agent_release_use_case.go Register\<close>

definition msg_rel_recv :: string where
  "msg_rel_recv =
     ''asset_service '' @
     [CHR 0xE6, CHR 0x8E, CHR 0xA5, CHR 0xE6, CHR 0x94, CHR 0xB6] @
     '' release '' @
     [CHR 0xE5, CHR 0xA4, CHR 0xB1, CHR 0xE8, CHR 0xB4, CHR 0xA5] @
     '': ''"

text \<open>agent_release_use_case.go Register\<close>

definition msg_rel_missing :: string where
  "msg_rel_missing =
     ''asset_service '' @
     [CHR 0xE8, CHR 0xBF, CHR 0x94, CHR 0xE5, CHR 0x9B, CHR 0x9E, CHR 0xE7, CHR 0xBC, CHR 0xBA] @
     '' sha256/object_key''"

text \<open>node_use_case.go DeleteNode\<close>

definition msg_node_ref1 :: string where
  "msg_node_ref1 =
     [CHR 0xE8, CHR 0x8A, CHR 0x82, CHR 0xE7, CHR 0x82, CHR 0xB9] @
     '' ''"

text \<open>node_use_case.go DeleteNode\<close>

definition msg_node_ref2 :: string where
  "msg_node_ref2 =
     '' '' @
     [CHR 0xE4, CHR 0xBB, CHR 0x8D, CHR 0xE8, CHR 0xA2, CHR 0xAB] @
     '' node_agent ''"

text \<open>node_use_case.go DeleteNode\<close>

definition msg_node_ref3 :: string where
  "msg_node_ref3 =
     '' '' @
     [CHR 0xE5, CHR 0xBC, CHR 0x95, CHR 0xE7, CHR 0x94, CHR 0xA8, CHR 0xEF, CHR 0xBC, CHR 0x8C,
      CHR 0xE8, CHR 0xAF, CHR 0xB7, CHR 0xE5, CHR 0x85, CHR 0x88, CHR 0xE5, CHR 0x88, CHR 0xA0,
      CHR 0xE9, CHR 0x99, CHR 0xA4, CHR 0xE8, CHR 0xAF, CHR 0xA5] @
     '' node_agent''"

text \<open>game_use_case.go DeleteGame\<close>

definition msg_game_active1 :: string where
  "msg_game_active1 =
     [CHR 0xE6, CHR 0xB8, CHR 0xB8, CHR 0xE6, CHR 0x88, CHR 0x8F, CHR 0xE4, CHR 0xBB, CHR 0x8D,
      CHR 0xE6, CHR 0x9C, CHR 0x89, CHR 0xE7, CHR 0x8A, CHR 0xB6, CHR 0xE6, CHR 0x80, CHR 0x81,
      CHR 0xE4, CHR 0xB8, CHR 0xBA] @
     '' ''"

text \<open>game_use_case.go DeleteGame\<close>

definition msg_game_active2 :: string where
  "msg_game_active2 =
     '' '' @
     [CHR 0xE7, CHR 0x9A, CHR 0x84, CHR 0xE5, CHR 0xAE, CHR 0x9E, CHR 0xE4, CHR 0xBE, CHR 0x8B] @
     '' ''"

text \<open>game_use_case.go DeleteGame\<close>

definition msg_game_active3 :: string where
  "msg_game_active3 =
     [CHR 0xEF, CHR 0xBC, CHR 0x8C, CHR 0xE8, CHR 0xAF, CHR 0xB7, CHR 0xE5, CHR 0x85, CHR 0x88,
      CHR 0xE5, CHR 0x85, CHR 0xA8, CHR 0xE9, CHR 0x83, CHR 0xA8, CHR 0xE5, CHR 0x81, CHR 0x9C,
      CHR 0xE6, CHR 0xAD, CHR 0xA2, CHR 0xE5, CHR 0xB9, CHR 0xB6, CHR 0xE5, CHR 0x88, CHR 0xA0,
      CHR 0xE9, CHR 0x99, CHR 0xA4, CHR 0xE5, CHR 0xAE, CHR 0x9E, CHR 0xE4, CHR 0xBE, CHR 0x8B]"

text \<open>game_container_config_use_case.go configIDByGame\<close>

definition msg_no_container :: string where
  "msg_no_container =
     '' '' @
     [CHR 0xE6, CHR 0x9C, CHR 0xAA, CHR 0xE9, CHR 0x85, CHR 0x8D, CHR 0xE7, CHR 0xBD, CHR 0xAE,
      CHR 0xE5, CHR 0xAE, CHR 0xB9, CHR 0xE5, CHR 0x99, CHR 0xA8, CHR 0xE9, CHR 0x85, CHR 0x8D,
      CHR 0xE7, CHR 0xBD, CHR 0xAE, CHR 0xEF, CHR 0xBC, CHR 0x88] @
     ''container_config_id '' @
     [CHR 0xE4, CHR 0xB8, CHR 0xBA, CHR 0xE7, CHR 0xA9, CHR 0xBA, CHR 0xEF, CHR 0xBC, CHR 0x89]"

end
