(* ===== verification/Capacity.thy ===== *)
theory Capacity
  imports Database Float64 Messages
begin

text \<open>
  The capacity view of a node (\<open>biz/node_capacity.go\<close>): unit conversion, the
  utilization target, the allocatable amounts and the shortages that explain an
  exclusion.  \<open>int64\<close> arithmetic wraps around (\<open>wrap64\<close>).
\<close>

definition mebibyte :: int where "mebibyte = 1024 * 1024"

definition defaultUtilizationTarget :: rat where
  "defaultUtilizationTarget = flit (8 / 10)"

definition cpuCapacityMilli :: "Node \<Rightarrow> int" where
  "cpuCapacityMilli n = wrap64 (nd_CoreNum n * 1000)"

definition memoryCapacityBytes :: "Node \<Rightarrow> int" where
  "memoryCapacityBytes n = wrap64 (nd_MemorySize n * mebibyte)"

definition diskCapacityBytes :: "Node \<Rightarrow> int" where
  "diskCapacityBytes n = wrap64 (nd_StorageSize n * mebibyte)"

definition normTarget :: "rat \<Rightarrow> rat" where
  "normTarget target = (if target \<le> 0 \<or> target > 1 then defaultUtilizationTarget else target)"

definition capacityLimit :: "int \<Rightarrow> rat \<Rightarrow> int" where
  "capacityLimit capacity target =
     (let target = (if target \<le> 0 \<or> target > 1 then defaultUtilizationTarget else target)
      in ftrunc (fmul (f64 capacity) target))"

record NodeCapacity =
  CPUAllocatableMilli :: int
  MemAllocatableBytes :: int
  DiskAllocatableBytes :: int

definition ComputeCapacity :: "Node \<Rightarrow> rat \<Rightarrow> NodeCapacity" where
  "ComputeCapacity n target =
    \<lparr> CPUAllocatableMilli = wrap64 (capacityLimit (cpuCapacityMilli n) target - nd_CPUReservedMilli n),
      MemAllocatableBytes = wrap64 (capacityLimit (memoryCapacityBytes n) target - nd_MemoryReservedBytes n),
      DiskAllocatableBytes = wrap64 (capacityLimit (diskCapacityBytes n) target - nd_DiskReservedBytes n) \<rparr>"

definition ResourcesSatisfied :: "NodeCapacity \<Rightarrow> ResourceRequest \<Rightarrow> bool" where
  "ResourcesSatisfied c req \<longleftrightarrow>
     CPUAllocatableMilli c \<ge> CPUMilli req \<and>
     MemAllocatableBytes c \<ge> MemoryBytes req \<and>
     DiskAllocatableBytes c \<ge> DiskBytes req"

definition Shortages :: "NodeCapacity \<Rightarrow> ResourceRequest \<Rightarrow> string list" where
  "Shortages c req =
     (if CPUAllocatableMilli c < CPUMilli req
      then [msg_cpu_short @ show_int (wrap64 (CPUMilli req - CPUAllocatableMilli c)) @ ''m''] else []) @
     (if MemAllocatableBytes c < MemoryBytes req
      then [msg_mem_short @ show_int (wrap64 (MemoryBytes req - MemAllocatableBytes c)) @ '' bytes''] else []) @
     (if DiskAllocatableBytes c < DiskBytes req
      then [msg_disk_short @ show_int (wrap64 (DiskBytes req - DiskAllocatableBytes c)) @ '' bytes''] else [])"

section \<open>The utilization target\<close>

lemma f64_round_half: "f64_round (1 / 2) = 1 / 2"
proof -
  have b: "binade (1 / 2) = -1"
    by (subst binade.simps) (simp add: binade.simps[of 1])
  have u: "ulp (1 / 2) = 1 / 2 ^ 53"
    by (simp add: ulp_def b power_int_minus inverse_eq_divide)
  have "(1 / 2) / ulp (1 / 2) = of_int (2 ^ 52)" unfolding u by simp
  then have r: "rhe ((1 / 2) / ulp (1 / 2)) = 2 ^ 52" by (metis rhe_of_int)
  have "f64_round (1 / 2) = of_int (2 ^ 52) * ulp (1 / 2)"
    using f64_round_pos[of "1 / 2"] by (simp only: r)
  then show ?thesis unfolding u by simp
qed

lemma defaultUtilizationTarget_bounds:
  "0 < defaultUtilizationTarget" "defaultUtilizationTarget \<le> 1"
proof -
  have "f64_round (1 / 2) \<le> f64_round (8 / 10)" by (rule f64_round_mono) simp
  moreover have "f64_round (1 / 2) = 1 / 2" by (rule f64_round_half)
  ultimately show "0 < defaultUtilizationTarget"
    by (simp add: defaultUtilizationTarget_def flit_def)
  have "f64_round (8 / 10) \<le> f64_round 1" by (rule f64_round_mono) simp
  then show "defaultUtilizationTarget \<le> 1" by (simp add: defaultUtilizationTarget_def flit_def)
qed

lemma normTarget_bounds: "0 < normTarget t" "normTarget t \<le> 1"
  using defaultUtilizationTarget_bounds by (auto simp: normTarget_def)

lemma capacityLimit_norm: "capacityLimit c t = ftrunc (fmul (f64 c) (normTarget t))"
  by (simp add: capacityLimit_def normTarget_def Let_def)

lemma fmul_target_le:
  assumes "0 \<le> c" "c \<le> 2 ^ 53"
  shows "fmul (f64 c) (normTarget t) \<le> of_int c" "0 \<le> fmul (f64 c) (normTarget t)"
proof -
  have e: "f64 c = of_int c" using assms by (simp add: f64_exact)
  have "of_int c * normTarget t \<le> of_int c * 1"
    using assms normTarget_bounds by (intro mult_left_mono) auto
  then show "fmul (f64 c) (normTarget t) \<le> of_int c"
    unfolding fmul_def e using assms by (intro f64_round_le_int) auto
  show "0 \<le> fmul (f64 c) (normTarget t)"
    using assms normTarget_bounds[of t] by (intro fmul_nonneg) (auto simp: e)
qed

lemma capacityLimit_floor:
  assumes "0 \<le> c" "c \<le> 2 ^ 53"
  shows "capacityLimit c t = \<lfloor>fmul (f64 c) (normTarget t)\<rfloor>"
proof -
  have "fmul (f64 c) (normTarget t) \<le> of_int (2 ^ 53)"
    using fmul_target_le(1)[OF assms, of t] assms(2) by (meson of_int_le_iff order_trans)
  also have "\<dots> < 2 ^ 63" by simp
  finally show ?thesis
    using fmul_target_le[OF assms] by (simp add: capacityLimit_norm ftrunc_nonneg_floor)
qed

lemma capacityLimit_range:
  assumes "0 \<le> c" "c \<le> 2 ^ 53"
  shows "0 \<le> capacityLimit c t \<and> capacityLimit c t \<le> c"
  using fmul_target_le[OF assms, of t] capacityLimit_floor[OF assms, of t]
  by (simp add: floor_le_iff)

text \<open>The allocatable limit of a capacity lies between nothing and the capacity,
  whatever the configured target.\<close>

theorem capacityLimit_bounds:
  assumes "0 \<le> c" "c \<le> 2 ^ 53"
  shows "0 \<le> capacityLimit c t \<and> capacityLimit c t \<le> c"
  using capacityLimit_range[OF assms] .

theorem capacityLimit_bounds_witness:
  "0 \<le> capacityLimit 4000 (1 / 2) \<and> capacityLimit 4000 (1 / 2) \<le> 4000"
  by (rule capacityLimit_bounds) simp_all

lemma capacityLimit_mono:
  assumes "0 \<le> c" "c \<le> d" "d \<le> 2 ^ 53"
  shows "capacityLimit c t \<le> capacityLimit d t"
proof -
  have "fmul (f64 c) (normTarget t) \<le> fmul (f64 d) (normTarget t)"
    using assms normTarget_bounds[of t] by (intro fmul_mono_left f64_mono) auto
  then show ?thesis using assms by (simp add: capacityLimit_floor floor_mono)
qed

lemma capacityLimit_one: "0 \<le> c \<Longrightarrow> c \<le> 2 ^ 53 \<Longrightarrow> capacityLimit c 1 = c"
  by (simp add: capacityLimit_floor normTarget_def fmul_def f64_exact f64_round_int)

section \<open>Shortages\<close>

lemma Shortages_Nil_iff: "Shortages c req = [] \<longleftrightarrow> ResourcesSatisfied c req"
  by (auto simp: Shortages_def ResourcesSatisfied_def)

end
