(* ===== verification/Examples.thy ===== *)
theory Examples
  imports Database
begin

text \<open>
  One small concrete cluster, on which the theorems with hypotheses are applied:
  a node with its agent, a game with its container configuration and branch, an
  instance, and a data base that answers every call.
\<close>

definition ex_node :: Node where
  "ex_node = \<lparr> nd_Id = 1, nd_Ip = ''10.0.0.1'', nd_CoreNum = 8, nd_CoreFrequency = 3,
     nd_MemorySize = 16384, nd_StorageSize = 102400, nd_Location = ''eu'',
     nd_ServiceProvider = ''p'', nd_CPUUsedMilli = 0, nd_MemoryUsedBytes = 0,
     nd_DiskUsedBytes = 0, nd_NetRxBps = 0, nd_NetTxBps = 0, nd_UsageReportedAt = None,
     nd_CPUReservedMilli = 0, nd_MemoryReservedBytes = 0, nd_DiskReservedBytes = 0,
     nd_PressureStatus = PressureNormal, nd_NetRxLimitMbps = 1000, nd_NetTxLimitMbps = 1000,
     nd_BandwidthRxReservedMbps = 0, nd_BandwidthTxReservedMbps = 0 \<rparr>"

definition ex_agent :: NodeAgent where
  "ex_agent = \<lparr> na_ID = ''a1'', na_NodeId = ''1'', na_Port = 9000, na_Status = Enabled,
     na_Alive = True, na_LastHeartbeatAt = Some 0, na_HealthStatus = HealthHealthy,
     na_AgentVersion = ''v1.0.0'', na_UpdateState = ''idle'', na_TargetVersion = [],
     na_LastUpdateAt = None, na_LastUpdateErr = [] \<rparr>"

definition ex_game :: Game where
  "ex_game = \<lparr> gm_ID = ''g1'', gm_Name = ''game'', gm_AppId = ''1'', gm_ContainerConfigID = ''c1'' \<rparr>"

definition ex_excerpt :: GameContainerPortExcerpt where
  "ex_excerpt = \<lparr> pe_ID = 1, pe_GameContainerConfigID = ''c1'', pe_Protocol = TCP,
     pe_BeginPort = 26900, pe_ExcerptLength = 1, pe_IsGamePort = True \<rparr>"

definition ex_config :: GameContainerConfig where
  "ex_config = \<lparr> gc_ID = ''c1'', gc_ContainerServerPath = ''/srv'', gc_PortMode = PORT_MAPPING_MOD_NAT,
     gc_InjectGamePort = False, gc_PortExcerpt = [ex_excerpt], gc_CPURequestMilli = 1000,
     gc_MemoryRequestBytes = 1073741824, gc_DiskRequestBytes = 10737418240, gc_BandwidthRxMbps = 0,
     gc_BandwidthTxMbps = 0, gc_SingleThreaded = False, gc_PortInjectEnv = [], gc_ProbeMode = [],
     gc_QueryPortOffset = 0 \<rparr>"

definition ex_branch :: SteamBranch where
  "ex_branch = \<lparr> sb_Id = ''b1'', sb_BranchName = ''public'', sb_LastBuildId = 7,
     sb_GameId = ''g1'', sb_Status = Enable, sb_MinReplicas = 0,
     sb_Description = [], sb_CreateTime = 0, sb_UpdateTime = 0 \<rparr>"

definition ex_instance :: GameInstance where
  "ex_instance = \<lparr> gi_ID = ''i1'', gi_GameID = ''g1'', gi_NodeAgentID = None,
     gi_Status = StatusStopped, gi_LastPendingTime = 0, gi_CreateTime = 0, gi_UpdateTime = 0,
     gi_GameBuildId = ''build'', gi_BranchName = [], gi_CacheBuildID = [], gi_Region = [],
     gi_Priority = 100, gi_ResourceReq = None, gi_ResourceOverride = False, gi_QueuedReason = [],
     gi_QueuedAt = None, gi_Cancelled = False, gi_FailReason = [], gi_Config = [],
     gi_SubscriptionID = None \<rparr>"

definition ex_req :: ResourceRequest where
  "ex_req = \<lparr> CPUMilli = 1000, MemoryBytes = 1073741824, DiskBytes = 10737418240,
     BandwidthRxMbps = 0, BandwidthTxMbps = 0 \<rparr>"

definition ex_mapping :: ContainerPortMapping where
  "ex_mapping = \<lparr> pm_ID = ''m1'', pm_InstanceId = ''i1'', pm_NodeAgentId = ''a1'',
     pm_HostPort = 50100, pm_ContainerPort = 26900, pm_Protocol = TCP, pm_IsGamePort = False \<rparr>"

definition ex_db :: db where
  "ex_db = \<lparr> t_nodes = [ex_node], t_agents = [ex_agent], t_instances = [ex_instance],
     t_queue = [], t_ports = [], t_creds = [], t_games = [ex_game], t_configs = [ex_config],
     t_branches = [ex_branch], t_platform = [], t_samples = [], t_stats = [], t_events = [],
     db_fault = (\<lambda>_. None) \<rparr>"

section \<open>The fields of the example values\<close>

lemma ex_node_simps [simp]:
  "nd_Id ex_node = 1"
  "nd_Ip ex_node = ''10.0.0.1''"
  "nd_CoreNum ex_node = 8"
  "nd_CoreFrequency ex_node = 3"
  "nd_MemorySize ex_node = 16384"
  "nd_StorageSize ex_node = 102400"
  "nd_Location ex_node = ''eu''"
  "nd_ServiceProvider ex_node = ''p''"
  "nd_CPUUsedMilli ex_node = 0"
  "nd_MemoryUsedBytes ex_node = 0"
  "nd_DiskUsedBytes ex_node = 0"
  "nd_NetRxBps ex_node = 0"
  "nd_NetTxBps ex_node = 0"
  "nd_UsageReportedAt ex_node = None"
  "nd_CPUReservedMilli ex_node = 0"
  "nd_MemoryReservedBytes ex_node = 0"
  "nd_DiskReservedBytes ex_node = 0"
  "nd_PressureStatus ex_node = PressureNormal"
  "nd_NetRxLimitMbps ex_node = 1000"
  "nd_NetTxLimitMbps ex_node = 1000"
  "nd_BandwidthRxReservedMbps ex_node = 0"
  "nd_BandwidthTxReservedMbps ex_node = 0"
  by (simp_all add: ex_node_def)

lemma ex_agent_simps [simp]:
  "na_ID ex_agent = ''a1''"
  "na_NodeId ex_agent = ''1''"
  "na_Port ex_agent = 9000"
  "na_Status ex_agent = Enabled"
  "na_Alive ex_agent = True"
  "na_LastHeartbeatAt ex_agent = Some 0"
  "na_HealthStatus ex_agent = HealthHealthy"
  "na_AgentVersion ex_agent = ''v1.0.0''"
  "na_UpdateState ex_agent = ''idle''"
  "na_TargetVersion ex_agent = []"
  "na_LastUpdateAt ex_agent = None"
  "na_LastUpdateErr ex_agent = []"
  by (simp_all add: ex_agent_def)

lemma ex_game_simps [simp]:
  "gm_ID ex_game = ''g1''"
  "gm_Name ex_game = ''game''"
  "gm_AppId ex_game = ''1''"
  "gm_ContainerConfigID ex_game = ''c1''"
  by (simp_all add: ex_game_def)

lemma ex_excerpt_simps [simp]:
  "pe_ID ex_excerpt = 1"
  "pe_GameContainerConfigID ex_excerpt = ''c1''"
  "pe_Protocol ex_excerpt = TCP"
  "pe_BeginPort ex_excerpt = 26900"
  "pe_ExcerptLength ex_excerpt = 1"
  "pe_IsGamePort ex_excerpt = True"
  by (simp_all add: ex_excerpt_def)

lemma ex_config_simps [simp]:
  "gc_ID ex_config = ''c1''"
  "gc_ContainerServerPath ex_config = ''/srv''"
  "gc_PortMode ex_config = PORT_MAPPING_MOD_NAT"
  "gc_InjectGamePort ex_config = False"
  "gc_PortExcerpt ex_config = [ex_excerpt]"
  "gc_CPURequestMilli ex_config = 1000"
  "gc_MemoryRequestBytes ex_config = 1073741824"
  "gc_DiskRequestBytes ex_config = 10737418240"
  "gc_BandwidthRxMbps ex_config = 0"
  "gc_BandwidthTxMbps ex_config = 0"
  "gc_SingleThreaded ex_config = False"
  "gc_PortInjectEnv ex_config = []"
  "gc_ProbeMode ex_config = []"
  "gc_QueryPortOffset ex_config = 0"
  by (simp_all add: ex_config_def)

lemma ex_branch_simps [simp]:
  "sb_Id ex_branch = ''b1''"
  "sb_BranchName ex_branch = ''public''"
  "sb_LastBuildId ex_branch = 7"
  "sb_GameId ex_branch = ''g1''"
  "sb_Status ex_branch = Enable"
  "sb_MinReplicas ex_branch = 0"
  by (simp_all add: ex_branch_def)

lemma ex_instance_simps [simp]:
  "gi_ID ex_instance = ''i1''"
  "gi_GameID ex_instance = ''g1''"
  "gi_NodeAgentID ex_instance = None"
  "gi_Status ex_instance = StatusStopped"
  "gi_LastPendingTime ex_instance = 0"
  "gi_CreateTime ex_instance = 0"
  "gi_UpdateTime ex_instance = 0"
  "gi_GameBuildId ex_instance = ''build''"
  "gi_BranchName ex_instance = []"
  "gi_CacheBuildID ex_instance = []"
  "gi_Region ex_instance = []"
  "gi_Priority ex_instance = 100"
  "gi_ResourceReq ex_instance = None"
  "gi_ResourceOverride ex_instance = False"
  "gi_QueuedReason ex_instance = []"
  "gi_QueuedAt ex_instance = None"
  "gi_Cancelled ex_instance = False"
  "gi_FailReason ex_instance = []"
  "gi_Config ex_instance = []"
  "gi_SubscriptionID ex_instance = None"
  by (simp_all add: ex_instance_def)

lemma ex_req_simps [simp]:
  "CPUMilli ex_req = 1000"
  "MemoryBytes ex_req = 1073741824"
  "DiskBytes ex_req = 10737418240"
  "BandwidthRxMbps ex_req = 0"
  "BandwidthTxMbps ex_req = 0"
  by (simp_all add: ex_req_def)

lemma ex_mapping_simps [simp]:
  "pm_ID ex_mapping = ''m1''"
  "pm_InstanceId ex_mapping = ''i1''"
  "pm_NodeAgentId ex_mapping = ''a1''"
  "pm_HostPort ex_mapping = 50100"
  "pm_ContainerPort ex_mapping = 26900"
  "pm_Protocol ex_mapping = TCP"
  "pm_IsGamePort ex_mapping = False"
  by (simp_all add: ex_mapping_def)

lemma ex_db_simps [simp]:
  "t_nodes ex_db = [ex_node]"
  "t_agents ex_db = [ex_agent]"
  "t_instances ex_db = [ex_instance]"
  "t_queue ex_db = []"
  "t_ports ex_db = []"
  "t_creds ex_db = []"
  "t_games ex_db = [ex_game]"
  "t_configs ex_db = [ex_config]"
  "t_branches ex_db = [ex_branch]"
  "t_platform ex_db = []"
  "t_samples ex_db = []"
  "t_stats ex_db = []"
  "t_events ex_db = []"
  "db_fault ex_db c = None"
  by (simp_all add: ex_db_def)

lemma show_int_1: "show_int 1 = ''1''"
  by code_simp

lemma node_key_ex_node [simp]: "node_key ex_node = ''1''"
  by (simp add: node_key_def fmtID_def show_int_1)

end
