(* ===== verification/Reservation.thy ===== *)
theory Reservation
  imports Capacity Examples
begin

text \<open>
  The reservation transaction (\<open>repository/gorm/reservation_repo.go\<close>): under the
  lock of the node row the capacity check is repeated, the ports are checked,
  the reserved amounts are increased in SQL, the port mappings are inserted and
  the instance is bound.  The statements are a function of their own
  (\<open>reserve_body\<close>); that its error undoes what the earlier ones wrote is gorm's
  \<open>Transaction\<close>.  The reserved columns have the widths of the schema: \<open>INTEGER\<close> for CPU and bandwidth,
  \<open>BIGINT\<close> for memory and disk; PostgreSQL answers an overflow with an error.
\<close>

record ReserveTxRequest =
  rt_NodeID :: string
  rt_InstanceID :: string
  rt_NodeAgentID :: string
  rt_Req :: ResourceRequest
  rt_PortMappings :: "ContainerPortMapping list"
  rt_NewStatus :: InstanceStatus
  rt_UtilizationTarget :: rat

text \<open>Step 2: the repeated check of H3, in Go's \<open>int64\<close> arithmetic.\<close>

definition reserve_exceeds :: "Node \<Rightarrow> ResourceRequest \<Rightarrow> rat \<Rightarrow> bool" where
  "reserve_exceeds node req target \<longleftrightarrow>
    (let cpuCap = wrap64 (nd_CoreNum node * 1000);
         memCap = wrap64 (wrap64 (nd_MemorySize node * 1024) * 1024);
         diskCap = wrap64 (wrap64 (nd_StorageSize node * 1024) * 1024)
     in wrap64 (nd_CPUReservedMilli node + CPUMilli req) > ftrunc (fmul (f64 cpuCap) target) \<or>
        wrap64 (nd_MemoryReservedBytes node + MemoryBytes req) > ftrunc (fmul (f64 memCap) target) \<or>
        wrap64 (nd_DiskReservedBytes node + DiskBytes req) > ftrunc (fmul (f64 diskCap) target))"

text \<open>Step 3: the repeated check of H4.\<close>

definition port_taken :: "string \<Rightarrow> ContainerPortMapping \<Rightarrow> ContainerPortMapping list \<Rightarrow> bool" where
  "port_taken agent m rows \<longleftrightarrow>
     (\<exists>r \<in> set rows. pm_NodeAgentId r = agent \<and> pm_HostPort r = pm_HostPort m
                      \<and> pm_Protocol r = pm_Protocol m)"

text \<open>Step 4: the new reserved amounts, and whether the columns can hold them.\<close>

definition add_reserved :: "ResourceRequest \<Rightarrow> Node \<Rightarrow> Node" where
  "add_reserved req n = n\<lparr>
     nd_CPUReservedMilli := nd_CPUReservedMilli n + CPUMilli req,
     nd_MemoryReservedBytes := nd_MemoryReservedBytes n + MemoryBytes req,
     nd_DiskReservedBytes := nd_DiskReservedBytes n + DiskBytes req,
     nd_BandwidthRxReservedMbps := nd_BandwidthRxReservedMbps n + BandwidthRxMbps req,
     nd_BandwidthTxReservedMbps := nd_BandwidthTxReservedMbps n + BandwidthTxMbps req\<rparr>"

definition reserved_fits :: "Node \<Rightarrow> bool" where
  "reserved_fits n \<longleftrightarrow> in_i32 (nd_CPUReservedMilli n) \<and> in_i64 (nd_MemoryReservedBytes n) \<and>
     in_i64 (nd_DiskReservedBytes n) \<and> in_i32 (nd_BandwidthRxReservedMbps n) \<and>
     in_i32 (nd_BandwidthTxReservedMbps n)"

text \<open>Step 3 as a whole: one query for every mapping.\<close>

fun check_ports :: "string \<Rightarrow> ContainerPortMapping list \<Rightarrow> 'a db_scheme \<Rightarrow> 'a db_scheme \<times> gerr option" where
  "check_ports agent [] w = (w, None)"
| "check_ports agent (m # ms) w =
    (case db_fault w (Call ''ReserveCount'' [pm_ID m]) of
       Some t \<Rightarrow> (w, Some (DbErr t))
     | None \<Rightarrow> if port_taken agent m (t_ports w) then (w, Some ErrReservationConflict) else check_ports agent ms w)"

text \<open>Step 4 as a statement.\<close>

definition update_reserved :: "string \<Rightarrow> ResourceRequest \<Rightarrow> 'a db_scheme \<Rightarrow> 'a db_scheme \<times> gerr option" where
  "update_reserved k req w =
    (case db_fault w (Call ''ReserveNode'' [k]) of
       Some t \<Rightarrow> (w, Some (DbErr t))
     | None \<Rightarrow>
       if \<exists>n \<in> set (t_nodes w). node_key n = k \<and> \<not> reserved_fits (add_reserved req n)
       then (w, Some (DbErr ''ERROR: integer out of range (SQLSTATE 22003)''))
       else (w\<lparr>t_nodes := tbl_upd (\<lambda>n. node_key n = k) (add_reserved req) (t_nodes w)\<rparr>, None))"

text \<open>Step 5: the mappings one after the other; a failing insertion leaves the earlier ones in the table.\<close>

fun create_mappings :: "ContainerPortMapping list \<Rightarrow> 'a db_scheme \<Rightarrow> 'a db_scheme \<times> gerr option" where
  "create_mappings [] w = (w, None)"
| "create_mappings (m # ms) w =
    (case db_fault w (Call ''ReserveCreate'' [pm_ID m]) of
       Some t \<Rightarrow> (w, Some (DbErr t))
     | None \<Rightarrow>
       if pm_ID m \<in> set (map pm_ID (t_ports w)) then (w, Some (unique_violation ''game_container_port_mappings_pkey''))
       else create_mappings ms (w\<lparr>t_ports := t_ports w @ [m]\<rparr>))"

text \<open>Step 6: the binding of the instance.\<close>

definition bind_instance :: "time \<Rightarrow> ReserveTxRequest \<Rightarrow> GameInstance list \<Rightarrow> GameInstance list" where
  "bind_instance now req rows =
     tbl_upd (\<lambda>r. gi_ID r = rt_InstanceID req)
       (\<lambda>r. r\<lparr>gi_NodeAgentID := Some (rt_NodeAgentID req), gi_Status := rt_NewStatus req,
              gi_UpdateTime := now\<rparr>) rows"

definition update_bound :: "time \<Rightarrow> ReserveTxRequest \<Rightarrow> 'a db_scheme \<Rightarrow> 'a db_scheme \<times> gerr option" where
  "update_bound now req w =
    (case db_fault w (Call ''ReserveBind'' [rt_InstanceID req]) of
       Some t \<Rightarrow> (w, Some (DbErr t))
     | None \<Rightarrow>
       let insts = bind_instance now req (t_instances w) in
       if \<not> uq_subscription_single_active insts then (w, Some (unique_violation ''uq_subscription_single_active''))
       else (w\<lparr>t_instances := insts\<rparr>, None))"

text \<open>The function given to \<open>Transaction\<close>: its statements in order, the first error ends it.  What the
  earlier statements wrote is still there when it returns an error.\<close>

definition and_then :: "'w \<times> gerr option \<Rightarrow> ('w \<Rightarrow> 'w \<times> gerr option) \<Rightarrow> 'w \<times> gerr option" where
  "and_then r f = (case snd r of Some e \<Rightarrow> r | None \<Rightarrow> f (fst r))"

definition reserve_body :: "rat \<Rightarrow> time \<Rightarrow> ReserveTxRequest \<Rightarrow> 'a db_scheme \<Rightarrow> 'a db_scheme \<times> gerr option" where
  "reserve_body target now req w =
    (case tbl_find node_key (rt_NodeID req) (t_nodes w) of
       None \<Rightarrow> (w, Some ErrRecordNotFound)
     | Some node \<Rightarrow>
       if reserve_exceeds node (rt_Req req) target then (w, Some ErrReservationConflict)
       else and_then (and_then (and_then
              (check_ports (rt_NodeAgentID req) (rt_PortMappings req) w)
              (update_reserved (rt_NodeID req) (rt_Req req)))
              (create_mappings (rt_PortMappings req)))
              (update_bound now req))"

text \<open>gorm's \<open>Transaction\<close> (documented): the function runs on the data base; its error rolls back and is
  returned, without one the transaction is committed, and a commit that fails has no effect.\<close>

definition Transaction ::
  "string \<Rightarrow> ('a db_scheme \<Rightarrow> 'a db_scheme \<times> gerr option) \<Rightarrow> 'a db_scheme \<Rightarrow> 'a db_scheme \<times> gerr option" where
  "Transaction name f w =
    (case f w of
       (w', Some e) \<Rightarrow> (w, Some e)
     | (w', None) \<Rightarrow> (case db_fault w (Call ''Commit'' [name]) of Some t \<Rightarrow> (w, Some (DbErr t)) | None \<Rightarrow> (w', None)))"

definition reserve_tx :: "rat \<Rightarrow> time \<Rightarrow> ReserveTxRequest \<Rightarrow> 'a db_scheme \<Rightarrow> 'a db_scheme \<times> gerr option" where
  "reserve_tx target now req w =
    (case db_fault w (ReserveTx (rt_NodeID req)) of
       Some t \<Rightarrow> (w, Some (DbErr t))
     | None \<Rightarrow> Transaction (rt_NodeID req) (reserve_body target now req) w)"

definition TryReserve :: "time \<Rightarrow> ReserveTxRequest \<Rightarrow> 'a db_scheme \<Rightarrow> 'a db_scheme \<times> gerr option" where
  "TryReserve now req w =
    (let target = (if rt_UtilizationTarget req \<le> 0 \<or> rt_UtilizationTarget req > 1
                   then flit (8 / 10) else rt_UtilizationTarget req);
         (w', err) = reserve_tx target now req w
     in case err of
          Some e \<Rightarrow> if errors_is e ErrReservationConflict then (w', Some ErrReservationConflict)
                    else (w', Some e)
        | None \<Rightarrow> (w', None))"

text \<open>\<open>Release\<close>: \<open>GREATEST(reserved - amount, 0)\<close> in every column.\<close>

definition sub_reserved :: "ResourceRequest \<Rightarrow> Node \<Rightarrow> Node" where
  "sub_reserved req n = n\<lparr>
     nd_CPUReservedMilli := max (nd_CPUReservedMilli n - CPUMilli req) 0,
     nd_MemoryReservedBytes := max (nd_MemoryReservedBytes n - MemoryBytes req) 0,
     nd_DiskReservedBytes := max (nd_DiskReservedBytes n - DiskBytes req) 0,
     nd_BandwidthRxReservedMbps := max (nd_BandwidthRxReservedMbps n - BandwidthRxMbps req) 0,
     nd_BandwidthTxReservedMbps := max (nd_BandwidthTxReservedMbps n - BandwidthTxMbps req) 0\<rparr>"

definition sub_in_range :: "ResourceRequest \<Rightarrow> Node \<Rightarrow> bool" where
  "sub_in_range req n \<longleftrightarrow> in_i32 (nd_CPUReservedMilli n - CPUMilli req) \<and>
     in_i64 (nd_MemoryReservedBytes n - MemoryBytes req) \<and>
     in_i64 (nd_DiskReservedBytes n - DiskBytes req) \<and>
     in_i32 (nd_BandwidthRxReservedMbps n - BandwidthRxMbps req) \<and>
     in_i32 (nd_BandwidthTxReservedMbps n - BandwidthTxMbps req)"

definition Release :: "string \<Rightarrow> ResourceRequest \<Rightarrow> 'a db_scheme \<Rightarrow> 'a db_scheme \<times> gerr option" where
  "Release nodeID req w =
    (case db_fault w (ReleaseTx nodeID) of
       Some t \<Rightarrow> (w, Some (DbErr t))
     | None \<Rightarrow>
        if \<forall>n \<in> set (t_nodes w). node_key n = nodeID \<longrightarrow> sub_in_range req n
        then (w\<lparr>t_nodes := tbl_upd (\<lambda>n. node_key n = nodeID) (sub_reserved req) (t_nodes w)\<rparr>, None)
        else (w, Some (DbErr ''ERROR: integer out of range (SQLSTATE 22003)'')))"

section \<open>The rows an operation touches\<close>

lemma node_key_add_reserved [simp]: "node_key (add_reserved req n) = node_key n"
  by (simp add: node_key_def add_reserved_def)

lemma node_key_sub_reserved [simp]: "node_key (sub_reserved req n) = node_key n"
  by (simp add: node_key_def sub_reserved_def)

lemma and_then_None: "and_then r f = (w', None) \<longleftrightarrow> (\<exists>w1. r = (w1, None) \<and> f w1 = (w', None))"
  by (cases r) (auto simp: and_then_def split: option.splits)

lemma check_ports_None:
  "check_ports agent ms w = (w', None) \<Longrightarrow> w' = w \<and> (\<forall>m \<in> set ms. \<not> port_taken agent m (t_ports w))"
  by (induction ms) (auto split: option.splits if_splits)

lemma create_mappings_None:
  "create_mappings ms w = (w', None) \<Longrightarrow> w' = w\<lparr>t_ports := t_ports w @ ms\<rparr>"
proof (induction ms arbitrary: w)
  case (Cons m ms)
  then have "create_mappings ms (w\<lparr>t_ports := t_ports w @ [m]\<rparr>) = (w', None)"
    by (auto split: option.splits if_splits)
  from Cons.IH[OF this] show ?case by simp
qed simp

lemma create_mappings_keys:
  "create_mappings ms w = (w', None) \<Longrightarrow> distinct (map pm_ID (t_ports w)) \<Longrightarrow> distinct (map pm_ID (t_ports w'))"
proof (induction ms arbitrary: w)
  case (Cons m ms)
  then have m: "pm_ID m \<notin> pm_ID ` set (t_ports w)" and
    r: "create_mappings ms (w\<lparr>t_ports := t_ports w @ [m]\<rparr>) = (w', None)"
    by (auto split: option.splits if_splits)
  show ?case by (rule Cons.IH[OF r]) (use m Cons.prems(2) in auto)
qed simp

lemma TryReserve_tx:
  "TryReserve now req w =
    (let (w', err) = reserve_tx (normTarget (rt_UtilizationTarget req)) now req w
     in case err of
          Some e \<Rightarrow> if errors_is e ErrReservationConflict then (w', Some ErrReservationConflict)
                    else (w', Some e)
        | None \<Rightarrow> (w', None))"
  unfolding TryReserve_def normTarget_def defaultUtilizationTarget_def Let_def ..

lemma TryReserve_None:
  assumes "TryReserve now req w = (w', None)"
  shows "reserve_tx (normTarget (rt_UtilizationTarget req)) now req w = (w', None)"
  using assms by (simp add: TryReserve_tx split: prod.splits option.splits if_splits)

lemma Transaction_rollback: "Transaction n f w = (w', Some e) \<Longrightarrow> w' = w"
  by (auto simp: Transaction_def split: prod.splits option.splits)

lemma reserve_tx_rollback: "reserve_tx target now req w = (w', Some e) \<Longrightarrow> w' = w"
  by (auto simp: reserve_tx_def dest: Transaction_rollback split: option.splits)

lemma reserve_tx_None:
  assumes "reserve_tx target now req w = (w', None)"
  obtains node where "tbl_find node_key (rt_NodeID req) (t_nodes w) = Some node"
    "\<not> reserve_exceeds node (rt_Req req) target"
    "\<forall>m \<in> set (rt_PortMappings req). \<not> port_taken (rt_NodeAgentID req) m (t_ports w)"
    "reserved_fits (add_reserved (rt_Req req) node)"
    "uq_subscription_single_active (bind_instance now req (t_instances w))"
    "w' = w\<lparr>t_nodes := tbl_upd (\<lambda>n. node_key n = rt_NodeID req) (add_reserved (rt_Req req)) (t_nodes w),
            t_ports := t_ports w @ rt_PortMappings req, t_instances := bind_instance now req (t_instances w)\<rparr>"
proof -
  have "reserve_body target now req w = (w', None)"
    using assms by (auto simp: reserve_tx_def Transaction_def split: option.splits prod.splits)
  then obtain node w1 w2 w3 where
    n: "tbl_find node_key (rt_NodeID req) (t_nodes w) = Some node" "\<not> reserve_exceeds node (rt_Req req) target" and
    s: "check_ports (rt_NodeAgentID req) (rt_PortMappings req) w = (w1, None)"
      "update_reserved (rt_NodeID req) (rt_Req req) w1 = (w2, None)"
      "create_mappings (rt_PortMappings req) w2 = (w3, None)" "update_bound now req w3 = (w', None)"
    by (auto simp: reserve_body_def and_then_None split: option.splits if_splits)
  note c = check_ports_None[OF s(1)] and m = create_mappings_None[OF s(3)]
  from s(2) c have u: "w2 = w\<lparr>t_nodes := tbl_upd (\<lambda>n. node_key n = rt_NodeID req) (add_reserved (rt_Req req)) (t_nodes w)\<rparr>"
    "reserved_fits (add_reserved (rt_Req req) node)"
    using tbl_find_SomeD[OF n(1)] by (auto simp: update_reserved_def split: option.splits if_splits)
  from s(4) m u have "uq_subscription_single_active (bind_instance now req (t_instances w))"
    "w' = w3\<lparr>t_instances := bind_instance now req (t_instances w)\<rparr>"
    by (auto simp: update_bound_def Let_def split: option.splits if_splits)
  then show thesis using that n u m c by simp
qed

lemma TryReserve_rollback: "TryReserve now req w = (w', Some e) \<Longrightarrow> w' = w"
  by (auto simp: TryReserve_tx dest: reserve_tx_rollback split: prod.splits option.splits if_splits)

lemma TryReserve_cases:
  assumes "TryReserve now req w = (w', None)"
  obtains node ports where
    "tbl_find node_key (rt_NodeID req) (t_nodes w) = Some node"
    "\<not> reserve_exceeds node (rt_Req req) (normTarget (rt_UtilizationTarget req))"
    "\<And>m. m \<in> set (rt_PortMappings req) \<Longrightarrow> \<not> port_taken (rt_NodeAgentID req) m (t_ports w)"
    "reserved_fits (add_reserved (rt_Req req) node)"
    "ports = t_ports w @ rt_PortMappings req"
    "uq_subscription_single_active (bind_instance now req (t_instances w))"
    "w' = w\<lparr>t_nodes := tbl_upd (\<lambda>n. node_key n = rt_NodeID req) (add_reserved (rt_Req req)) (t_nodes w),
            t_ports := ports, t_instances := bind_instance now req (t_instances w)\<rparr>"
proof -
  obtain node where
    1: "tbl_find node_key (rt_NodeID req) (t_nodes w) = Some node" and
    2: "\<not> reserve_exceeds node (rt_Req req) (normTarget (rt_UtilizationTarget req))" and
    3: "\<forall>m \<in> set (rt_PortMappings req). \<not> port_taken (rt_NodeAgentID req) m (t_ports w)" and
    4: "reserved_fits (add_reserved (rt_Req req) node)" and
    5: "uq_subscription_single_active (bind_instance now req (t_instances w))" and
    6: "w' = w\<lparr>t_nodes := tbl_upd (\<lambda>n. node_key n = rt_NodeID req) (add_reserved (rt_Req req)) (t_nodes w),
            t_ports := t_ports w @ rt_PortMappings req, t_instances := bind_instance now req (t_instances w)\<rparr>"
    by (rule reserve_tx_None[OF TryReserve_None[OF assms]])
  show thesis by (rule that[OF 1 2 _ 4 refl 5 6]) (use 3 in auto)
qed

text \<open>C29: A reservation is all or nothing.  Its statements write one after the other - the node's amounts, the
  port mappings one by one, the row of the instance - and each can fail; either an error is answered
  and the data base is as it was, or none is and all of them are there: the locked node's amounts are
  raised by the request, every mapping of the plan is in the table, the instance has agent and status,
  and nothing else has changed.\<close>

theorem TryReserve_atomic:
  "case TryReserve now req w of
     (w', Some e) \<Rightarrow> w' = w
   | (w', None) \<Rightarrow>
       rt_NodeID req \<in> node_key ` set (t_nodes w) \<and>
       w' = w\<lparr>t_nodes := map (\<lambda>n. if node_key n = rt_NodeID req then add_reserved (rt_Req req) n else n) (t_nodes w),
              t_ports := t_ports w @ rt_PortMappings req,
              t_instances := map (\<lambda>i. if gi_ID i = rt_InstanceID req
                then i\<lparr>gi_NodeAgentID := Some (rt_NodeAgentID req), gi_Status := rt_NewStatus req, gi_UpdateTime := now\<rparr>
                else i) (t_instances w)\<rparr>"
proof (cases "TryReserve now req w")
  case (Pair w' err)
  show ?thesis
  proof (cases err)
    case None
    with Pair have "TryReserve now req w = (w', None)" by simp
    then obtain node where
      "tbl_find node_key (rt_NodeID req) (t_nodes w) = Some node"
      "w' = w\<lparr>t_nodes := tbl_upd (\<lambda>n. node_key n = rt_NodeID req) (add_reserved (rt_Req req)) (t_nodes w),
            t_ports := t_ports w @ rt_PortMappings req, t_instances := bind_instance now req (t_instances w)\<rparr>"
      by (auto elim!: TryReserve_cases)
    with tbl_find_SomeD[OF this(1)] Pair None show ?thesis by (force simp: bind_instance_def tbl_upd_def)
  qed (use Pair TryReserve_rollback in auto)
qed

section \<open>What a successful reservation guarantees\<close>

text \<open>The check of the transaction is the one of the capacity view.\<close>

lemma reserve_exceeds_iff:
  "reserve_exceeds node req (normTarget t) \<longleftrightarrow>
     wrap64 (nd_CPUReservedMilli node + CPUMilli req) > capacityLimit (cpuCapacityMilli node) t \<or>
     wrap64 (nd_MemoryReservedBytes node + MemoryBytes req) > capacityLimit (memoryCapacityBytes node) t \<or>
     wrap64 (nd_DiskReservedBytes node + DiskBytes req) > capacityLimit (diskCapacityBytes node) t"
  by (simp add: reserve_exceeds_def Let_def capacityLimit_norm cpuCapacityMilli_def
      memoryCapacityBytes_def diskCapacityBytes_def mebibyte_def wrap64_mult_left mult.assoc)

definition within_limits :: "rat \<Rightarrow> Node \<Rightarrow> bool" where
  "within_limits t n \<longleftrightarrow>
     nd_CPUReservedMilli n \<le> capacityLimit (cpuCapacityMilli n) t \<and>
     nd_MemoryReservedBytes n \<le> capacityLimit (memoryCapacityBytes n) t \<and>
     nd_DiskReservedBytes n \<le> capacityLimit (diskCapacityBytes n) t"

lemma within_limits_add_reserved:
  assumes "\<not> reserve_exceeds node req (normTarget t)" "reserved_fits (add_reserved req node)"
  shows "within_limits t (add_reserved req node)"
proof -
  have "in_i64 (nd_CPUReservedMilli node + CPUMilli req)"
    "in_i64 (nd_MemoryReservedBytes node + MemoryBytes req)"
    "in_i64 (nd_DiskReservedBytes node + DiskBytes req)"
    using assms(2) by (auto simp: reserved_fits_def add_reserved_def in_i32_in_i64)
  then show ?thesis using assms(1)
    by (simp add: reserve_exceeds_iff within_limits_def add_reserved_def wrap64_id
        cpuCapacityMilli_def memoryCapacityBytes_def diskCapacityBytes_def)
qed

lemma find_node_reserved:
  "tbl_find node_key k (tbl_upd (\<lambda>n. node_key n = k) (add_reserved req) rows) =
     map_option (add_reserved req) (tbl_find node_key k rows)"
  by (simp add: tbl_find_upd_key)

lemma reserved_node_within:
  assumes "TryReserve now req w = (w', None)"
  obtains node where "tbl_find node_key (rt_NodeID req) (t_nodes w) = Some node"
    "t_nodes w' = tbl_upd (\<lambda>n. node_key n = rt_NodeID req) (add_reserved (rt_Req req)) (t_nodes w)"
    "within_limits (rt_UtilizationTarget req) (add_reserved (rt_Req req) node)"
  using assms
proof (rule TryReserve_cases)
  fix node ports
  assume "tbl_find node_key (rt_NodeID req) (t_nodes w) = Some node"
    "\<not> reserve_exceeds node (rt_Req req) (normTarget (rt_UtilizationTarget req))"
    "reserved_fits (add_reserved (rt_Req req) node)"
    "w' = w\<lparr>t_nodes := tbl_upd (\<lambda>n. node_key n = rt_NodeID req) (add_reserved (rt_Req req)) (t_nodes w),
            t_ports := ports, t_instances := bind_instance now req (t_instances w)\<rparr>"
  then show thesis by (intro that[of node]) (auto intro: within_limits_add_reserved)
qed

text \<open>C2: a committed reservation never oversells: the node exists, its reserved amounts grew by
  exactly the request, and they are within the limit the utilization target allows, although the
  check and the column update use fixed-width integers.\<close>

theorem TryReserve_never_oversells:
  assumes "TryReserve now req w = (w', None)"
  shows "\<exists>n n'. NodeRepo_GetByID (rt_NodeID req) (w\<lparr>db_fault := \<lambda>_. None\<rparr>) = Inr n \<and>
     NodeRepo_GetByID (rt_NodeID req) (w'\<lparr>db_fault := \<lambda>_. None\<rparr>) = Inr n' \<and>
     n' = add_reserved (rt_Req req) n \<and> within_limits (rt_UtilizationTarget req) n'"
proof -
  from assms obtain node where
    n: "tbl_find node_key (rt_NodeID req) (t_nodes w) = Some node"
      "\<not> reserve_exceeds node (rt_Req req) (normTarget (rt_UtilizationTarget req))"
      "reserved_fits (add_reserved (rt_Req req) node)"
      "t_nodes w' = tbl_upd (\<lambda>n. node_key n = rt_NodeID req) (add_reserved (rt_Req req)) (t_nodes w)"
    by (auto elim!: TryReserve_cases)
  then show ?thesis using within_limits_add_reserved[OF n(2,3)]
    by (auto simp: NodeRepo_GetByID_def find_node_reserved)
qed

text \<open>No reservation of another node changes: the update is confined to the locked row.\<close>

lemma TryReserve_other_nodes:
  assumes "TryReserve now req w = (w', None)" "k \<noteq> rt_NodeID req"
  shows "tbl_find node_key k (t_nodes w') = tbl_find node_key k (t_nodes w)"
  using assms by (auto elim!: TryReserve_cases simp: tbl_find_upd_key)

section \<open>Ports stay exclusive\<close>

definition port_slot :: "ContainerPortMapping \<Rightarrow> string \<times> port \<times> ProtocolType" where
  "port_slot m = (pm_NodeAgentId m, pm_HostPort m, pm_Protocol m)"

definition ports_exclusive :: "ContainerPortMapping list \<Rightarrow> bool" where
  "ports_exclusive rows \<longleftrightarrow> distinct (map port_slot rows)"

lemma reserve_ports_exclusive:
  assumes "ports_exclusive (t_ports w)"
    and "ports_exclusive (rt_PortMappings req)"
    and "\<And>m. m \<in> set (rt_PortMappings req) \<Longrightarrow> pm_NodeAgentId m = rt_NodeAgentID req"
  shows "ports_exclusive (t_ports (fst (TryReserve now req w)))"
proof (cases "snd (TryReserve now req w)")
  case None
  then have "TryReserve now req w = (fst (TryReserve now req w), None)" by (metis prod.collapse)
  then show ?thesis
    by (rule TryReserve_cases)
       (use assms in \<open>auto simp: ports_exclusive_def port_slot_def port_taken_def image_iff\<close>)
next
  case (Some e)
  then show ?thesis using assms(1) TryReserve_rollback[of now req w] by (metis prod.collapse)
qed

text \<open>On every node agent, a host port of a protocol belongs to at most one mapping; a
  reservation whose plan uses each port once, on the chosen agent, keeps it so (the table has no
  unique index: the repeated check under the node lock is what guarantees it).\<close>

theorem TryReserve_ports_exclusive:
  assumes "ports_exclusive (t_ports w)"
    and "ports_exclusive (rt_PortMappings req)"
    and "\<And>m. m \<in> set (rt_PortMappings req) \<Longrightarrow> pm_NodeAgentId m = rt_NodeAgentID req"
  shows "ports_exclusive (t_ports (fst (TryReserve now req w)))"
  by (rule reserve_ports_exclusive[OF assms])

section \<open>Release\<close>

lemma sub_add_reserved:
  assumes "0 \<le> nd_CPUReservedMilli n" "0 \<le> nd_MemoryReservedBytes n" "0 \<le> nd_DiskReservedBytes n"
    "0 \<le> nd_BandwidthRxReservedMbps n" "0 \<le> nd_BandwidthTxReservedMbps n"
  shows "sub_reserved req (add_reserved req n) = n"
  using assms by (simp add: sub_reserved_def add_reserved_def)

definition reserved_nonneg :: "Node \<Rightarrow> bool" where
  "reserved_nonneg n \<longleftrightarrow> 0 \<le> nd_CPUReservedMilli n \<and> 0 \<le> nd_MemoryReservedBytes n \<and>
     0 \<le> nd_DiskReservedBytes n \<and> 0 \<le> nd_BandwidthRxReservedMbps n \<and> 0 \<le> nd_BandwidthTxReservedMbps n"

lemma sub_reserved_nonneg [simp]: "reserved_nonneg (sub_reserved req n)"
  by (simp add: reserved_nonneg_def sub_reserved_def)

lemma Release_None:
  "Release k req w = (w', None) \<Longrightarrow>
     w' = w\<lparr>t_nodes := tbl_upd (\<lambda>n. node_key n = k) (sub_reserved req) (t_nodes w)\<rparr>"
  by (auto simp: Release_def split: option.splits if_splits)

lemma Release_rollback: "Release k req w = (w', Some e) \<Longrightarrow> w' = w"
  by (auto simp: Release_def split: option.splits if_splits)

text \<open>C27: releasing what was just reserved gives every node its previous row back.\<close>

theorem Release_TryReserve_roundtrip:
  assumes "TryReserve now req w = (w1, None)"
    and "Release (rt_NodeID req) (rt_Req req) w1 = (w2, None)"
    and "list_all reserved_nonneg (t_nodes w)"
  shows "t_nodes w2 = t_nodes w"
proof -
  from assms(1) have n1:
    "t_nodes w1 = tbl_upd (\<lambda>n. node_key n = rt_NodeID req) (add_reserved (rt_Req req)) (t_nodes w)"
    by (auto elim!: TryReserve_cases)
  have "t_nodes w2 = tbl_upd (\<lambda>n. node_key n = rt_NodeID req) (sub_reserved (rt_Req req)) (t_nodes w1)"
    using Release_None[OF assms(2)] by simp
  also have "\<dots> = t_nodes w"
    unfolding n1 using assms(3)
    by (auto simp: tbl_upd_def list_all_iff reserved_nonneg_def intro!: map_idI sub_add_reserved)
  finally show ?thesis .
qed

lemma Release_nonneg:
  assumes "list_all reserved_nonneg (t_nodes w)"
  shows "list_all reserved_nonneg (t_nodes (fst (Release k req w)))"
  using assms by (auto simp: Release_def list_all_iff set_tbl_upd split: option.splits)

lemma TryReserve_nonneg:
  assumes "list_all reserved_nonneg (t_nodes w)"
    "0 \<le> CPUMilli (rt_Req req)" "0 \<le> MemoryBytes (rt_Req req)" "0 \<le> DiskBytes (rt_Req req)"
    "0 \<le> BandwidthRxMbps (rt_Req req)" "0 \<le> BandwidthTxMbps (rt_Req req)"
  shows "list_all reserved_nonneg (t_nodes (fst (TryReserve now req w)))"
proof (cases "snd (TryReserve now req w)")
  case None
  then have "TryReserve now req w = (fst (TryReserve now req w), None)" by (metis prod.collapse)
  then show ?thesis
    by (rule TryReserve_cases)
       (use assms in \<open>auto simp: list_all_iff set_tbl_upd reserved_nonneg_def add_reserved_def\<close>)
next
  case (Some e)
  then show ?thesis using assms(1) TryReserve_rollback[of now req w] by (metis prod.collapse)
qed

section \<open>The theorems on the example cluster\<close>

definition ex_reserve :: ReserveTxRequest where
  "ex_reserve = \<lparr> rt_NodeID = ''1'', rt_InstanceID = ''i1'', rt_NodeAgentID = ''a1'', rt_Req = ex_req,
     rt_PortMappings = [ex_mapping], rt_NewStatus = StatusPreparingBuild, rt_UtilizationTarget = 1 \<rparr>"

lemma ex_not_exceeds: "\<not> reserve_exceeds ex_node ex_req 1"
  using reserve_exceeds_iff[of ex_node ex_req 1]
  by (simp add: normTarget_def cpuCapacityMilli_def memoryCapacityBytes_def diskCapacityBytes_def
      mebibyte_def ex_node_def ex_req_def wrap64_id in_i64_def capacityLimit_one)

lemma ex_TryReserve: "TryReserve 0 ex_reserve ex_db =
   (ex_db\<lparr>t_nodes := [add_reserved ex_req ex_node], t_ports := [ex_mapping],
      t_instances := [ex_instance\<lparr>gi_NodeAgentID := Some ''a1'', gi_Status := StatusPreparingBuild,
                                   gi_UpdateTime := 0\<rparr>]\<rparr>, None)"
proof -
  have fits: "reserved_fits (add_reserved ex_req ex_node)"
    by (simp add: reserved_fits_def add_reserved_def ex_req_def ex_node_def in_i32_def in_i64_def)
  have uq: "uq_subscription_single_active (bind_instance 0 ex_reserve [ex_instance])"
    by (simp add: uq_subscription_single_active_def bind_instance_def tbl_upd_def)
  have bound: "bind_instance 0 ex_reserve [ex_instance] =
      [ex_instance\<lparr>gi_NodeAgentID := Some ''a1'', gi_Status := StatusPreparingBuild, gi_UpdateTime := 0\<rparr>]"
    by (simp add: bind_instance_def tbl_upd_def ex_reserve_def ex_instance_def)
  have "reserve_tx 1 0 ex_reserve ex_db =
     (ex_db\<lparr>t_nodes := [add_reserved ex_req ex_node], t_ports := [ex_mapping],
      t_instances := bind_instance 0 ex_reserve [ex_instance]\<rparr>, None)"
    using fits uq ex_not_exceeds
    by (simp add: reserve_tx_def Transaction_def reserve_body_def and_then_def update_reserved_def update_bound_def
        ex_db_def ex_reserve_def tbl_find_Cons port_taken_def tbl_upd_def Let_def)
  moreover have "normTarget (rt_UtilizationTarget ex_reserve) = 1"
    by (simp add: normTarget_def ex_reserve_def)
  ultimately show ?thesis by (simp only: TryReserve_tx bound) simp
qed

lemma ex_Release_in_range: "sub_in_range ex_req (add_reserved ex_req ex_node)"
  by (simp add: sub_in_range_def add_reserved_def ex_req_def ex_node_def in_i32_def in_i64_def)

text \<open>The second of two mappings with one key cannot be inserted: the statements alone leave the amounts of
  the node raised and the first mapping in the table, the reservation leaves nothing.\<close>

theorem TryReserve_atomic_witness:
  "let req = ex_reserve\<lparr>rt_PortMappings := [ex_mapping, ex_mapping]\<rparr> in
     t_nodes (fst (reserve_body 1 0 req ex_db)) = [add_reserved ex_req ex_node] \<and>
     t_ports (fst (reserve_body 1 0 req ex_db)) = [ex_mapping] \<and> fst (TryReserve 0 req ex_db) = ex_db"
proof -
  let ?req = "ex_reserve\<lparr>rt_PortMappings := [ex_mapping, ex_mapping]\<rparr>"
  have fits: "reserved_fits (add_reserved ex_req ex_node)"
    by (simp add: reserved_fits_def add_reserved_def ex_req_def ex_node_def in_i32_def in_i64_def)
  have b: "reserve_body 1 0 ?req ex_db =
      (ex_db\<lparr>t_nodes := [add_reserved ex_req ex_node], t_ports := [ex_mapping]\<rparr>,
       Some (unique_violation ''game_container_port_mappings_pkey''))"
    using fits ex_not_exceeds
    by (simp add: reserve_body_def and_then_def update_reserved_def ex_db_def ex_reserve_def tbl_find_Cons port_taken_def tbl_upd_def)
  have "normTarget (rt_UtilizationTarget ?req) = 1" by (simp add: normTarget_def ex_reserve_def)
  then have "snd (TryReserve 0 ?req ex_db) \<noteq> None"
    using b by (auto simp: TryReserve_tx reserve_tx_def Transaction_def ex_db_def split: prod.splits option.splits)
  with TryReserve_atomic[where now = 0 and req = ?req and w = ex_db] b show ?thesis
    by (auto simp: Let_def ex_db_def split: prod.splits option.splits)
qed

theorem TryReserve_never_oversells_witness:
  "\<exists>n n'. NodeRepo_GetByID ''1'' ex_db = Inr n \<and>
     NodeRepo_GetByID ''1'' (fst (TryReserve 0 ex_reserve ex_db)) = Inr n' \<and>
     n' = add_reserved ex_req n \<and> within_limits 1 n'"
  using TryReserve_never_oversells[OF ex_TryReserve]
  by (simp add: ex_TryReserve) (simp add: ex_reserve_def ex_db_def)

theorem TryReserve_ports_exclusive_witness:
  "ports_exclusive (t_ports (fst (TryReserve 0 ex_reserve ex_db)))"
  by (rule TryReserve_ports_exclusive)
     (auto simp: ports_exclusive_def ex_db_def ex_reserve_def ex_mapping_def)

theorem Release_TryReserve_roundtrip_witness:
  "t_nodes (fst (Release ''1'' ex_req (fst (TryReserve 0 ex_reserve ex_db)))) = [ex_node]"
proof -
  let ?w1 = "fst (TryReserve 0 ex_reserve ex_db)"
  have tr: "TryReserve 0 ex_reserve ex_db = (?w1, None)" by (simp add: ex_TryReserve)
  have rel: "Release (rt_NodeID ex_reserve) (rt_Req ex_reserve) ?w1 =
      (fst (Release ''1'' ex_req ?w1), None)"
    unfolding ex_TryReserve using ex_Release_in_range
    by (simp add: Release_def ex_reserve_def ex_db_def)
  have nn: "list_all reserved_nonneg (t_nodes ex_db)"
    by (simp add: ex_db_def reserved_nonneg_def ex_node_def)
  show ?thesis using Release_TryReserve_roundtrip[OF tr rel nn] by (simp add: ex_db_def)
qed

end
