(* ===== verification/Ports.thy ===== *)
theory Ports
  imports Reservation
begin

text \<open>
  The port mapper (\<open>biz/game_container_port_mapper.go\<close>): which host ports a node
  agent gives an instance.  A set of used ports is the list of its
  (protocol, port) pairs; the random identifiers of new mappings are a parameter
  \<open>gen\<close>, asked for the \<open>n\<close>-th identifier.  The loops over ports are \<open>loop_ports\<close>:
  \<open>for p := begin; C(p); p++ { if P(p) { return p } }\<close>; in every use \<open>C\<close> fails
  before the 16-bit counter could wrap.
\<close>

definition TCP_PORT_BEGIN :: nat where "TCP_PORT_BEGIN = 50100"
definition TCP_PORT_END :: nat where "TCP_PORT_END = 52000"
definition UDP_PORT_BEGIN :: nat where "UDP_PORT_BEGIN = 50100"
definition UDP_PORT_END :: nat where "UDP_PORT_END = 52000"

lemmas port_bounds = TCP_PORT_BEGIN_def TCP_PORT_END_def UDP_PORT_BEGIN_def UDP_PORT_END_def

section \<open>Loops over ports\<close>

function loop_ports :: "(port \<Rightarrow> bool) \<Rightarrow> (port \<Rightarrow> bool) \<Rightarrow> nat \<Rightarrow> port option" where
  "loop_ports C P p =
     (if p \<ge> 65536 \<or> \<not> C (of_nat p) then None
      else if P (of_nat p) then Some (of_nat p)
      else loop_ports C P (Suc p))"
  by pat_completeness auto
termination by (relation "measure (\<lambda>(C, P, p). 65536 - p)") auto

declare loop_ports.simps [simp del]

lemma unat_port_of_nat: "p < 65536 \<Longrightarrow> unat (of_nat p :: port) = p"
  by (simp add: unat_of_nat take_bit_eq_mod)

lemma port_of_nat_unat [simp]: "of_nat (unat (r :: port)) = r"
  by simp

lemma unat_port_less: "unat (r :: port) < 65536"
  using unsigned_less[of r] by simp

lemma port_eq_of_nat: "unat (r :: port) = p \<Longrightarrow> r = of_nat p"
  by (metis port_of_nat_unat)

lemma loop_ports_Some:
  "loop_ports C P p = Some q \<Longrightarrow> P q \<and> C q \<and> p \<le> unat q \<and> (\<forall>r. p \<le> unat r \<and> unat r < unat q \<longrightarrow> \<not> P r)"
proof (induction C P p rule: loop_ports.induct)
  case (1 C P p)
  from 1(2) have c: "p < 65536" "C (of_nat p)"
    by (subst (asm) loop_ports.simps, auto split: if_splits)+
  show ?case
  proof (cases "P (of_nat p)")
    case True
    then have "q = of_nat p" using 1(2) c by (subst (asm) loop_ports.simps) simp
    then show ?thesis using c True by (auto simp: unat_port_of_nat)
  next
    case False
    then have l: "loop_ports C P (Suc p) = Some q" using 1(2) c by (subst (asm) loop_ports.simps) simp
    have ih: "P q \<and> C q \<and> Suc p \<le> unat q \<and> (\<forall>r. Suc p \<le> unat r \<and> unat r < unat q \<longrightarrow> \<not> P r)"
      by (rule 1(1)) (use c False l in auto)
    have "\<not> P r" if "p \<le> unat r" "unat r < unat q" for r
    proof (cases "unat r = p")
      case True
      then have "r = of_nat p" by (rule port_eq_of_nat)
      then show ?thesis using False by simp
    next
      case False
      then show ?thesis using ih that by auto
    qed
    then show ?thesis using ih by auto
  qed
qed

lemma loop_ports_None:
  "loop_ports C P p = None \<Longrightarrow> (\<And>r. p \<le> unat r \<Longrightarrow> unat r \<le> unat q \<Longrightarrow> C r) \<Longrightarrow> p \<le> unat q \<Longrightarrow> \<not> P q"
proof (induction C P p rule: loop_ports.induct)
  case (1 C P p)
  have q: "unat q < 65536" by (rule unat_port_less)
  have p: "p < 65536" using q 1(4) by simp
  have c: "C (of_nat p)" using 1(3)[of "of_nat p"] 1(4) p by (simp add: unat_port_of_nat)
  have np: "\<not> P (of_nat p)" using 1(2) p c by (subst (asm) loop_ports.simps) (auto split: if_splits)
  have l: "loop_ports C P (Suc p) = None" using 1(2) p c np by (subst (asm) loop_ports.simps) simp
  show ?case
  proof (cases "unat q = p")
    case True
    then have "q = of_nat p" by (rule port_eq_of_nat)
    then show ?thesis using np by simp
  next
    case False
    show ?thesis
      by (rule 1(1)) (use p c np l 1(3,4) False in auto)
  qed
qed

section \<open>The used ports of a node agent\<close>

type_synonym used_ports = "(ProtocolType \<times> port) list"

definition portInUse :: "used_ports \<Rightarrow> ProtocolType \<Rightarrow> port \<Rightarrow> bool" where
  "portInUse used protocol p \<longleftrightarrow> (protocol, p) \<in> set used"

definition markUsed :: "used_ports \<Rightarrow> ProtocolType \<Rightarrow> port \<Rightarrow> used_ports" where
  "markUsed used protocol p = (protocol, p) # used"

definition usedHostPorts :: "ContainerPortMapping list \<Rightarrow> used_ports" where
  "usedHostPorts mappings = map (\<lambda>m. (pm_Protocol m, pm_HostPort m)) mappings"

section \<open>Allocation\<close>

definition err_no_free_port :: gerr where
  "err_no_free_port = Errorf ''no free host port available''"

definition allocateHostPort :: "bool \<Rightarrow> bool \<Rightarrow> used_ports \<Rightarrow> gerr + port" where
  "allocateHostPort needTCP needUDP used =
    (case (if needTCP \<and> \<not> needUDP
           then loop_ports (\<lambda>p. p \<le> of_nat TCP_PORT_END) (\<lambda>p. \<not> portInUse used TCP p) TCP_PORT_BEGIN
           else if needUDP \<and> \<not> needTCP
           then loop_ports (\<lambda>p. p \<le> of_nat UDP_PORT_END) (\<lambda>p. \<not> portInUse used UDP p) UDP_PORT_BEGIN
           else loop_ports (\<lambda>p. p \<le> of_nat TCP_PORT_END)
                  (\<lambda>p. \<not> portInUse used TCP p \<and> \<not> portInUse used UDP p) TCP_PORT_BEGIN) of
       Some p \<Rightarrow> Inr p
     | None \<Rightarrow> Inl err_no_free_port)"

text \<open>\<open>for i := uint16(0); i < n; i++\<close>\<close>

definition offsets :: "port \<Rightarrow> port list" where
  "offsets n = map of_nat [0..<unat n]"

definition block_free :: "used_ports \<Rightarrow> port \<Rightarrow> port \<Rightarrow> bool" where
  "block_free used start count \<longleftrightarrow>
     list_all (\<lambda>i. \<not> portInUse used TCP (start + i) \<and> \<not> portInUse used UDP (start + i)) (offsets count)"

definition allocateContiguousHostPorts :: "port \<Rightarrow> used_ports \<Rightarrow> gerr + port" where
  "allocateContiguousHostPorts count used =
    (if (of_nat TCP_PORT_END - of_nat TCP_PORT_BEGIN + 1 :: port) < count
     then Inl (Errorf ''port range too small for contiguous block'')
     else case loop_ports (\<lambda>start. start + count - 1 \<le> of_nat TCP_PORT_END)
                 (\<lambda>start. block_free used start count) TCP_PORT_BEGIN of
            Some start \<Rightarrow> Inr start
          | None \<Rightarrow> Inl (Errorf ''no free contiguous host ports available''))"

section \<open>Plans\<close>

text \<open>What a plan is made for: the instance, the node agent, the identifiers.\<close>

record plan_ctx =
  pc_instance :: string
  pc_agent :: string
  pc_gen :: "nat \<Rightarrow> string"

definition mk_mapping :: "plan_ctx \<Rightarrow> nat \<Rightarrow> port \<Rightarrow> port \<Rightarrow> ProtocolType \<Rightarrow> bool \<Rightarrow> ContainerPortMapping" where
  "mk_mapping c n host cont proto isgame =
    \<lparr> pm_ID = pc_gen c n, pm_InstanceId = pc_instance c, pm_NodeAgentId = pc_agent c,
      pm_HostPort = host, pm_ContainerPort = cont, pm_Protocol = proto, pm_IsGamePort = isgame \<rparr>"

text \<open>The protocols each container port needs, in the order the ports are first met.\<close>

type_synonym requirement = "port \<times> bool \<times> bool"

fun set_proto :: "ProtocolType \<Rightarrow> port \<Rightarrow> requirement \<Rightarrow> requirement" where
  "set_proto proto cp (q, t, u) =
     (if q = cp then (q, t \<or> proto = TCP, u \<or> proto = UDP) else (q, t, u))"

definition add_requirement :: "ProtocolType \<Rightarrow> port \<Rightarrow> requirement list \<Rightarrow> requirement list" where
  "add_requirement proto cp reqs =
    (let rs = (if cp \<in> fst ` set reqs then reqs else reqs @ [(cp, False, False)])
     in map (set_proto proto cp) rs)"

definition excerpt_requirements :: "GameContainerPortExcerpt \<Rightarrow> requirement list \<Rightarrow> requirement list" where
  "excerpt_requirements e reqs =
     fold (\<lambda>i. add_requirement (pe_Protocol e) (pe_BeginPort e + i)) (offsets (pe_ExcerptLength e)) reqs"

definition port_requirements :: "GameContainerPortExcerpt list \<Rightarrow> requirement list" where
  "port_requirements es = sort_key fst (fold excerpt_requirements es [])"

definition choose_host_port ::
  "GameContainerPortMode \<Rightarrow> string \<Rightarrow> used_ports \<Rightarrow> requirement \<Rightarrow> gerr + port" where
  "choose_host_port mode agent used r = (case r of (cp, tcp, udp) \<Rightarrow>
     if mode = PORT_MAPPING_MOD_HOST
     then (if (tcp \<and> portInUse used TCP cp) \<or> (udp \<and> portInUse used UDP cp)
           then Inl (Errorf (''host port '' @ show_nat (unat cp) @
                             '' already in use on node agent '' @ agent))
           else Inr cp)
     else (case allocateHostPort tcp udp used of
             Inl e \<Rightarrow> Inl (Wrapped (''allocate host port for container port '' @
                             show_nat (unat cp) @ '': '') e [])
           | Inr h \<Rightarrow> Inr h))"

fun nat_loop :: "GameContainerPortMode \<Rightarrow> plan_ctx \<Rightarrow> nat \<Rightarrow> used_ports \<Rightarrow> requirement list
    \<Rightarrow> gerr + ContainerPortMapping list" where
  "nat_loop mode c n used [] = Inr []"
| "nat_loop mode c n used ((cp, tcp, udp) # rs) =
    (case choose_host_port mode (pc_agent c) used (cp, tcp, udp) of
       Inl e \<Rightarrow> Inl e
     | Inr h \<Rightarrow>
        let used1 = (if tcp then markUsed used TCP h else used);
            used2 = (if udp then markUsed used1 UDP h else used1);
            ms1 = (if tcp then [mk_mapping c n h cp TCP False] else []);
            ms2 = (if udp then [mk_mapping c (n + length ms1) h cp UDP False] else [])
        in case nat_loop mode c (n + length ms1 + length ms2) used2 rs of
             Inl e \<Rightarrow> Inl e
           | Inr ms \<Rightarrow> Inr (ms1 @ ms2 @ ms))"

definition wrap_list_agent :: "string \<Rightarrow> gerr \<Rightarrow> gerr" where
  "wrap_list_agent agent e = Wrapped (''list port mappings of node agent '' @ agent @ '': '') e []"

definition planPortsNAT ::
  "plan_ctx \<Rightarrow> GameContainerConfig \<Rightarrow> 'a db_scheme \<Rightarrow> gerr + ContainerPortMapping list" where
  "planPortsNAT c config w =
    (case PortRepo_ListByNodeAgentId (pc_agent c) w of
       Inl e \<Rightarrow> Inl (wrap_list_agent (pc_agent c) e)
     | Inr usedByNode \<Rightarrow>
        nat_loop (gc_PortMode config) c 0 (usedHostPorts usedByNode)
          (port_requirements (gc_PortExcerpt config)))"

text \<open>Port injection: the first excerpt marked as game port gives the base.\<close>

definition game_base :: "GameContainerPortExcerpt list \<Rightarrow> port" where
  "game_base es = (case find pe_IsGamePort es of None \<Rightarrow> 0 | Some e \<Rightarrow> pe_BeginPort e)"

definition extend_block :: "port \<Rightarrow> GameContainerPortExcerpt \<Rightarrow> port \<Rightarrow> port" where
  "extend_block base e len =
    (if pe_BeginPort e \<ge> base
     then (let end_port = pe_BeginPort e + pe_ExcerptLength e
           in if end_port > base + len then end_port - base else len)
     else len)"

definition block_length :: "port \<Rightarrow> GameContainerPortExcerpt list \<Rightarrow> port" where
  "block_length base es = fold (extend_block base) es 1"

definition needs_proto :: "ProtocolType \<Rightarrow> port \<Rightarrow> GameContainerPortExcerpt list \<Rightarrow> bool" where
  "needs_proto proto cp es \<longleftrightarrow>
     (\<exists>e \<in> set es. pe_BeginPort e \<le> cp \<and> cp < pe_BeginPort e + pe_ExcerptLength e \<and> pe_Protocol e = proto)"

definition mark_block :: "port \<Rightarrow> port \<Rightarrow> used_ports \<Rightarrow> used_ports" where
  "mark_block hostBase len used =
     fold (\<lambda>i u. markUsed (markUsed u TCP (hostBase + i)) UDP (hostBase + i)) (offsets len) used"

text \<open>The identity mappings of the block; the TCP mapping of the base is marked.\<close>

definition block_pair ::
  "plan_ctx \<Rightarrow> GameContainerPortExcerpt list \<Rightarrow> port \<Rightarrow> port \<Rightarrow> nat \<Rightarrow> port \<Rightarrow> ContainerPortMapping list" where
  "block_pair c es base hostBase n i =
    (let cp = base + i; h = hostBase + i;
         ms1 = (if needs_proto TCP cp es then [mk_mapping c n h h TCP (cp = base)] else []);
         ms2 = (if needs_proto UDP cp es then [mk_mapping c (n + length ms1) h h UDP False] else [])
     in ms1 @ ms2)"

fun block_mappings :: "plan_ctx \<Rightarrow> GameContainerPortExcerpt list \<Rightarrow> port \<Rightarrow> port \<Rightarrow> nat \<Rightarrow> port list
    \<Rightarrow> ContainerPortMapping list" where
  "block_mappings c es base hostBase n [] = []"
| "block_mappings c es base hostBase n (i # is) =
    block_pair c es base hostBase n i @
    block_mappings c es base hostBase (n + length (block_pair c es base hostBase n i)) is"

fun extra_ports :: "plan_ctx \<Rightarrow> GameContainerPortExcerpt \<Rightarrow> nat \<Rightarrow> used_ports \<Rightarrow> port list
    \<Rightarrow> gerr + used_ports \<times> ContainerPortMapping list" where
  "extra_ports c e n used [] = Inr (used, [])"
| "extra_ports c e n used (i # is) =
    (let cp = pe_BeginPort e + i in
     case allocateHostPort (pe_Protocol e = TCP) (pe_Protocol e = UDP) used of
       Inl err \<Rightarrow> Inl (Wrapped (''allocate host port for container port '' @
                          show_nat (unat cp) @ '': '') err [])
     | Inr h \<Rightarrow>
        (case extra_ports c e (Suc n)
                (if pe_Protocol e = TCP then markUsed used TCP h else markUsed used UDP h) is of
           Inl err \<Rightarrow> Inl err
         | Inr (used', ms) \<Rightarrow> Inr (used', mk_mapping c n h cp (pe_Protocol e) False # ms)))"

fun mapPortExtraNAT :: "plan_ctx \<Rightarrow> port \<Rightarrow> nat \<Rightarrow> used_ports \<Rightarrow> GameContainerPortExcerpt list
    \<Rightarrow> gerr + ContainerPortMapping list" where
  "mapPortExtraNAT c base n used [] = Inr []"
| "mapPortExtraNAT c base n used (e # es) =
    (if pe_BeginPort e \<ge> base then mapPortExtraNAT c base n used es
     else case extra_ports c e n used (offsets (pe_ExcerptLength e)) of
            Inl err \<Rightarrow> Inl err
          | Inr (used', ms) \<Rightarrow>
             (case mapPortExtraNAT c base (n + length ms) used' es of
                Inl err \<Rightarrow> Inl err
              | Inr ms' \<Rightarrow> Inr (ms @ ms')))"

definition planPortsInjected ::
  "plan_ctx \<Rightarrow> GameContainerConfig \<Rightarrow> 'a db_scheme \<Rightarrow> gerr + ContainerPortMapping list" where
  "planPortsInjected c config w =
    (let es = gc_PortExcerpt config; base = game_base es in
     if base = 0 then Inl (Errorf ''inject_game_port config has no is_game_port excerpt'')
     else let len = block_length base es in
       case PortRepo_ListByNodeAgentId (pc_agent c) w of
         Inl e \<Rightarrow> Inl (wrap_list_agent (pc_agent c) e)
       | Inr usedByNode \<Rightarrow>
         (let used = usedHostPorts usedByNode in
          case allocateContiguousHostPorts len used of
            Inl e \<Rightarrow> Inl (Wrapped ''allocate contiguous host ports for game port block: '' e [])
          | Inr hostBase \<Rightarrow>
             let ms = block_mappings c es base hostBase 0 (offsets len) in
             (case mapPortExtraNAT c base (length ms) (mark_block hostBase len used) es of
                Inl e \<Rightarrow> Inl e
              | Inr extra \<Rightarrow> Inr (ms @ extra))))"

definition PlanPorts ::
  "plan_ctx \<Rightarrow> Game \<Rightarrow> 'a db_scheme \<Rightarrow> gerr + ContainerPortMapping list" where
  "PlanPorts c game w =
    (case ConfigRepo_GetByID (gm_ContainerConfigID game) w of
       Inl e \<Rightarrow> Inl (Wrapped (''load container config '' @ gm_ContainerConfigID game @ '': '') e [])
     | Inr config \<Rightarrow>
        if gc_InjectGamePort config \<and> gc_PortMode config = PORT_MAPPING_MOD_NAT
        then planPortsInjected c config w
        else planPortsNAT c config w)"

section \<open>Operations that write\<close>

definition wrap_list_instance :: "string \<Rightarrow> gerr \<Rightarrow> gerr" where
  "wrap_list_instance i e = Wrapped (''list port mappings of instance '' @ i @ '': '') e []"

definition releaseIfExists :: "string \<Rightarrow> 'a db_scheme \<Rightarrow> 'a db_scheme \<times> gerr option" where
  "releaseIfExists i w =
    (case PortRepo_ListByInstanceId i w of
       Inl e \<Rightarrow> (w, Some (wrap_list_instance i e))
     | Inr existing \<Rightarrow> if existing = [] then (w, None) else PortRepo_DeleteByInstanceId i w)"

fun save_mappings :: "ContainerPortMapping list \<Rightarrow> 'a db_scheme \<Rightarrow> 'a db_scheme \<times> gerr option" where
  "save_mappings [] w = (w, None)"
| "save_mappings (m # ms) w =
    (case PortRepo_Save m w of
       (w', Some e) \<Rightarrow> (w', Some (Wrapped ''save port mapping: '' e []))
     | (w', None) \<Rightarrow> save_mappings ms w')"

definition MapPort :: "plan_ctx \<Rightarrow> Game \<Rightarrow> 'a db_scheme
    \<Rightarrow> 'a db_scheme \<times> (gerr + ContainerPortMapping list)" where
  "MapPort c game w =
    (case releaseIfExists (pc_instance c) w of
       (w1, Some e) \<Rightarrow> (w1, Inl e)
     | (w1, None) \<Rightarrow>
       (case PlanPorts c game w1 of
          Inl e \<Rightarrow> (w1, Inl e)
        | Inr ms \<Rightarrow>
          (case save_mappings ms w1 of
             (w2, Some e) \<Rightarrow> (w2, Inl e)
           | (w2, None) \<Rightarrow> (w2, Inr ms))))"

definition ReleaseMapPortByInstanceId ::
  "string \<Rightarrow> 'a db_scheme \<Rightarrow> 'a db_scheme \<times> (gerr + ContainerPortMapping list)" where
  "ReleaseMapPortByInstanceId i w =
    (case PortRepo_ListByInstanceId i w of
       Inl e \<Rightarrow> (w, Inl (wrap_list_instance i e))
     | Inr mappings \<Rightarrow>
        if mappings = [] then (w, Inr [])
        else case PortRepo_DeleteByInstanceId i w of
          (w', Some e) \<Rightarrow> (w', Inl (Wrapped (''delete port mappings of instance '' @ i @ '': '') e []))
        | (w', None) \<Rightarrow> (w', Inr mappings))"

definition GetMapPortByNodeAgentId :: "string \<Rightarrow> 'a db_scheme \<Rightarrow> gerr + ContainerPortMapping list" where
  "GetMapPortByNodeAgentId a w =
    (case PortRepo_ListByNodeAgentId a w of
       Inl e \<Rightarrow> Inl (wrap_list_agent a e) | Inr ms \<Rightarrow> Inr ms)"

definition GetMapPortByInstanceId :: "string \<Rightarrow> 'a db_scheme \<Rightarrow> gerr + ContainerPortMapping list" where
  "GetMapPortByInstanceId i w =
    (case PortRepo_ListByInstanceId i w of
       Inl e \<Rightarrow> Inl (wrap_list_instance i e) | Inr ms \<Rightarrow> Inr ms)"

section \<open>Allocation is sound and complete\<close>

lemma port_le_end: "p \<le> (of_nat TCP_PORT_END :: port) \<longleftrightarrow> unat p \<le> TCP_PORT_END"
  by (simp add: word_le_nat_alt TCP_PORT_END_def)

lemma udp_bounds: "UDP_PORT_BEGIN = TCP_PORT_BEGIN" "UDP_PORT_END = TCP_PORT_END"
  by (simp_all add: port_bounds)

definition in_port_range :: "port \<Rightarrow> bool" where
  "in_port_range p \<longleftrightarrow> TCP_PORT_BEGIN \<le> unat p \<and> unat p \<le> TCP_PORT_END"

lemma allocateHostPort_sound:
  assumes "allocateHostPort t u used = Inr h"
  shows "in_port_range h" "t \<Longrightarrow> \<not> portInUse used TCP h" "u \<Longrightarrow> \<not> portInUse used UDP h"
  using assms unfolding allocateHostPort_def udp_bounds
  by (auto dest!: loop_ports_Some simp: port_le_end in_port_range_def split: option.splits if_splits)

text \<open>The allocation of a host port fails only when no port of the range is free in every
  protocol that is asked for.\<close>

theorem allocateHostPort_complete:
  assumes "allocateHostPort t u used = Inl e" and "t \<or> u" and "in_port_range p"
  shows "(t \<and> portInUse used TCP p) \<or> (u \<and> portInUse used UDP p)"
proof -
  have c: "\<And>r. TCP_PORT_BEGIN \<le> unat r \<Longrightarrow> unat r \<le> unat p \<Longrightarrow> r \<le> (of_nat TCP_PORT_END :: port)"
    using assms(3) by (simp add: port_le_end in_port_range_def)
  have b: "TCP_PORT_BEGIN \<le> unat p" using assms(3) by (simp add: in_port_range_def)
  note none = loop_ports_None[OF _ c b]
  consider "t" "u" | "t" "\<not> u" | "\<not> t" "u" using assms(2) by blast
  then show ?thesis
    by cases (use assms(1) in \<open>auto simp: allocateHostPort_def udp_bounds split: option.splits dest!: none\<close>)
qed

definition ex_full_tcp :: used_ports where
  "ex_full_tcp = map (\<lambda>p. (TCP, of_nat p)) [50100..<52001]"

lemma ex_full_tcp_used: "in_port_range p \<Longrightarrow> portInUse ex_full_tcp TCP p"
  unfolding portInUse_def ex_full_tcp_def set_map set_upt
  by (rule image_eqI[of _ _ "unat p"]) (simp_all add: in_port_range_def port_bounds)

theorem allocateHostPort_complete_witness: "portInUse ex_full_tcp TCP 50777"
proof -
  obtain e where "allocateHostPort True False ex_full_tcp = Inl e"
    using ex_full_tcp_used allocateHostPort_sound(1,2)[of True False ex_full_tcp]
    by (cases "allocateHostPort True False ex_full_tcp") auto
  then show ?thesis using allocateHostPort_complete[of True False ex_full_tcp e 50777]
    by (simp add: in_port_range_def port_bounds)
qed

section \<open>Sound plans\<close>

definition slot2 :: "ContainerPortMapping \<Rightarrow> ProtocolType \<times> port" where
  "slot2 m = (pm_Protocol m, pm_HostPort m)"

text \<open>A sound plan: for the right instance and agent, every slot once, none used before.\<close>

definition plan_ok :: "plan_ctx \<Rightarrow> (ProtocolType \<times> port) set \<Rightarrow> ContainerPortMapping list \<Rightarrow> bool" where
  "plan_ok c used ms \<longleftrightarrow> distinct (map slot2 ms) \<and> slot2 ` set ms \<inter> used = {} \<and>
     (\<forall>m \<in> set ms. pm_NodeAgentId m = pc_agent c \<and> pm_InstanceId m = pc_instance c)"

named_theorems plan_simps

lemma mk_mapping_simps [simp]:
  "pm_Protocol (mk_mapping c n h cp pr g) = pr" "pm_HostPort (mk_mapping c n h cp pr g) = h"
  "pm_ContainerPort (mk_mapping c n h cp pr g) = cp" "pm_IsGamePort (mk_mapping c n h cp pr g) = g"
  "pm_NodeAgentId (mk_mapping c n h cp pr g) = pc_agent c"
  "pm_InstanceId (mk_mapping c n h cp pr g) = pc_instance c"
  "slot2 (mk_mapping c n h cp pr g) = (pr, h)"
  by (simp_all add: mk_mapping_def slot2_def)

lemma plan_ok_Nil [simp]: "plan_ok c used []"
  by (simp add: plan_ok_def)

lemma plan_ok_append:
  assumes "plan_ok c used ms" "plan_ok c used' ms'" "used \<union> slot2 ` set ms \<subseteq> used'"
  shows "plan_ok c used (ms @ ms')"
  using assms unfolding plan_ok_def by auto blast

lemma plan_ok_mono: "plan_ok c used ms \<Longrightarrow> used' \<subseteq> used \<Longrightarrow> plan_ok c used' ms"
  unfolding plan_ok_def by blast

lemma choose_host_port_free:
  assumes "choose_host_port mode agent used (cp, t, u) = Inr h"
  shows "(t \<longrightarrow> (TCP, h) \<notin> set used) \<and> (u \<longrightarrow> (UDP, h) \<notin> set used)"
  using assms allocateHostPort_sound[of t u used]
  by (auto simp: choose_host_port_def portInUse_def split: if_splits sum.splits)

lemma nat_loop_ok:
  "nat_loop mode c n used rs = Inr ms \<Longrightarrow> plan_ok c (set used) ms"
proof (induction mode c n used rs arbitrary: ms rule: nat_loop.induct)
  case (2 mode c n used cp tcp udp rs)
  from 2(2) obtain h where h: "choose_host_port mode (pc_agent c) used (cp, tcp, udp) = Inr h"
    by (auto split: sum.splits)
  define used1 where "used1 = (if tcp then markUsed used TCP h else used)"
  define used2 where "used2 = (if udp then markUsed used1 UDP h else used1)"
  define ms1 where "ms1 = (if tcp then [mk_mapping c n h cp TCP False] else [])"
  define ms2 where "ms2 = (if udp then [mk_mapping c (n + length ms1) h cp UDP False] else [])"
  have "nat_loop mode c n used ((cp, tcp, udp) # rs) =
      (case nat_loop mode c (n + length ms1 + length ms2) used2 rs of
         Inl e \<Rightarrow> Inl e | Inr ms \<Rightarrow> Inr (ms1 @ ms2 @ ms))"
    using h by (simp only: nat_loop.simps sum.case Let_def used1_def used2_def ms1_def ms2_def)
  with 2(2) obtain ms' where
    r: "nat_loop mode c (n + length ms1 + length ms2) used2 rs = Inr ms'" and
    ms: "ms = (ms1 @ ms2) @ ms'"
    by (auto split: sum.splits)
  have ih: "plan_ok c (set used2) ms'"
    by (rule 2(1)[OF h used1_def used2_def ms1_def ms2_def r])
  have "plan_ok c (set used) (ms1 @ ms2)"
    using choose_host_port_free[OF h] by (auto simp: plan_ok_def ms1_def ms2_def)
  moreover have "set used \<union> slot2 ` set (ms1 @ ms2) \<subseteq> set used2"
    by (auto simp: used2_def used1_def ms1_def ms2_def markUsed_def)
  ultimately show ?case unfolding ms using ih by (metis plan_ok_append)
qed auto

lemma offsets_distinct: "distinct (offsets n)"
proof -
  have "inj_on (of_nat :: nat \<Rightarrow> port) {0..<unat n}"
  proof (rule inj_onI)
    fix a b :: nat
    assume ab: "a \<in> {0..<unat n}" "b \<in> {0..<unat n}" "(of_nat a :: port) = of_nat b"
    then have "a < 65536" "b < 65536" using unat_port_less[of n] by auto
    then show "a = b" using ab(3) unat_port_of_nat by metis
  qed
  then show ?thesis by (simp add: offsets_def distinct_map)
qed

lemma block_pair_mem:
  "m \<in> set (block_pair c es base h n i) \<Longrightarrow>
     pm_HostPort m = h + i \<and> pm_ContainerPort m = h + i \<and> needs_proto (pm_Protocol m) (base + i) es \<and>
     (pm_IsGamePort m \<longleftrightarrow> i = 0 \<and> pm_Protocol m = TCP)"
  by (auto simp: block_pair_def Let_def split: if_splits)

lemma block_pair_ok: "plan_ok c used (block_pair c es base h n i)
    \<longleftrightarrow> (needs_proto TCP (base + i) es \<longrightarrow> (TCP, h + i) \<notin> used) \<and>
        (needs_proto UDP (base + i) es \<longrightarrow> (UDP, h + i) \<notin> used)"
  by (auto simp: plan_ok_def block_pair_def Let_def)

lemma block_mappings_mem:
  "m \<in> set (block_mappings c es base h n is) \<Longrightarrow>
     \<exists>i \<in> set is. pm_HostPort m = h + i \<and> pm_ContainerPort m = h + i \<and>
       needs_proto (pm_Protocol m) (base + i) es \<and>
       (pm_IsGamePort m \<longleftrightarrow> i = 0 \<and> pm_Protocol m = TCP)"
  by (induction c es base h n "is" rule: block_mappings.induct) (auto dest: block_pair_mem)

lemma block_mappings_slots:
  "slot2 ` set (block_mappings c es base h n is) \<subseteq> {TCP, UDP} \<times> (\<lambda>i. h + i) ` set is"
proof
  fix x assume "x \<in> slot2 ` set (block_mappings c es base h n is)"
  then obtain m where m: "m \<in> set (block_mappings c es base h n is)" "x = slot2 m" by auto
  then show "x \<in> {TCP, UDP} \<times> (\<lambda>i. h + i) ` set is"
    using block_mappings_mem[OF m(1)] by (cases "pm_Protocol m") (auto simp: slot2_def)
qed

lemma block_mappings_ok:
  assumes "distinct is"
    and "\<And>i. i \<in> set is \<Longrightarrow> (TCP, h + i) \<notin> used \<and> (UDP, h + i) \<notin> used"
  shows "plan_ok c used (block_mappings c es base h n is)"
  using assms
proof (induction c es base h n "is" arbitrary: used rule: block_mappings.induct)
  case (2 c es base h n i "is")
  let ?pair = "block_pair c es base h n i"
  have head: "plan_ok c used ?pair" using 2(3)[of i] by (simp add: block_pair_ok)
  have tail: "plan_ok c (used \<union> {(TCP, h + i), (UDP, h + i)}) (block_mappings c es base h (n + length ?pair) is)"
    by (rule 2(1)) (use 2(2,3) in auto)
  have "slot2 m \<in> {(TCP, h + i), (UDP, h + i)}" if "m \<in> set ?pair" for m
    using block_pair_mem[OF that] by (cases "pm_Protocol m") (auto simp: slot2_def)
  then have "used \<union> slot2 ` set ?pair \<subseteq> used \<union> {(TCP, h + i), (UDP, h + i)}" by blast
  then show ?case using plan_ok_append[OF head tail] by simp
qed simp

lemma extra_ports_ok:
  "extra_ports c e n used is = Inr (used', ms) \<Longrightarrow>
     plan_ok c (set used) ms \<and> set used \<union> slot2 ` set ms \<subseteq> set used'"
proof (induction c e n used "is" arbitrary: used' ms rule: extra_ports.induct)
  case (2 c e n used i "is")
  from 2(2) obtain h where h: "allocateHostPort (pe_Protocol e = TCP) (pe_Protocol e = UDP) used = Inr h"
    by (auto simp: Let_def split: sum.splits)
  define used1 where "used1 = (if pe_Protocol e = TCP then markUsed used TCP h else markUsed used UDP h)"
  have "extra_ports c e n used (i # is) =
      (case extra_ports c e (Suc n) used1 is of
         Inl err \<Rightarrow> Inl err
       | Inr (used', ms) \<Rightarrow> Inr (used', mk_mapping c n h (pe_BeginPort e + i) (pe_Protocol e) False # ms))"
    using h by (simp only: extra_ports.simps sum.case Let_def used1_def)
  with 2(2) obtain ms1 where r: "extra_ports c e (Suc n) used1 is = Inr (used', ms1)" and
    ms: "ms = [mk_mapping c n h (pe_BeginPort e + i) (pe_Protocol e) False] @ ms1"
    by (auto split: sum.splits)
  have ih: "plan_ok c (set used1) ms1 \<and> set used1 \<union> slot2 ` set ms1 \<subseteq> set used'"
    by (rule 2(1)[OF refl h, folded used1_def, OF r])
  have head: "plan_ok c (set used) [mk_mapping c n h (pe_BeginPort e + i) (pe_Protocol e) False]"
    using allocateHostPort_sound(2,3)[OF h]
    by (cases "pe_Protocol e") (auto simp: plan_ok_def portInUse_def)
  have sub: "set used \<union> slot2 ` set [mk_mapping c n h (pe_BeginPort e + i) (pe_Protocol e) False] \<subseteq> set used1"
    by (cases "pe_Protocol e") (auto simp: used1_def markUsed_def)
  show ?case unfolding ms using plan_ok_append[OF head conjunct1[OF ih] sub] ih sub by auto
qed auto

lemma mapPortExtraNAT_ok:
  "mapPortExtraNAT c base n used es = Inr ms \<Longrightarrow> plan_ok c (set used) ms"
proof (induction c base n used es arbitrary: ms rule: mapPortExtraNAT.induct)
  case (2 c base n used e es)
  show ?case
  proof (cases "pe_BeginPort e \<ge> base")
    case True
    then show ?thesis using 2 by simp
  next
    case False
    from 2(3) False obtain used' ms1 ms2 where
      a: "extra_ports c e n used (offsets (pe_ExcerptLength e)) = Inr (used', ms1)" and
      b: "mapPortExtraNAT c base (n + length ms1) used' es = Inr ms2" and ms: "ms = ms1 @ ms2"
      by (auto split: sum.splits)
    have "plan_ok c (set used') ms2" by (rule 2(2)[OF False a refl b])
    then show ?thesis unfolding ms using extra_ports_ok[OF a] by (auto intro: plan_ok_append)
  qed
qed simp

lemma set_mark_block:
  "set (mark_block h len used) = set used \<union> {TCP, UDP} \<times> (\<lambda>i. h + i) ` set (offsets len)"
proof -
  have "set (fold (\<lambda>i u. markUsed (markUsed u TCP (h + i)) UDP (h + i)) is used) =
      set used \<union> {TCP, UDP} \<times> (\<lambda>i. h + i) ` set is" for "is"
    by (induction "is" arbitrary: used) (auto simp: markUsed_def)
  then show ?thesis by (simp add: mark_block_def)
qed

lemma allocateContiguous_free:
  "allocateContiguousHostPorts len used = Inr h \<Longrightarrow> block_free used h len"
  by (auto simp: allocateContiguousHostPorts_def split: if_splits option.splits dest: loop_ports_Some)

definition agent_slots :: "string \<Rightarrow> 'a db_scheme \<Rightarrow> (ProtocolType \<times> port) set" where
  "agent_slots a w = slot2 ` {m \<in> set (t_ports w). pm_NodeAgentId m = a}"

lemma set_usedHostPorts: "set (usedHostPorts (filter (\<lambda>m. pm_NodeAgentId m = a) (t_ports w))) = agent_slots a w"
  by (auto simp: usedHostPorts_def agent_slots_def slot2_def)

lemma planPortsNAT_ok: "planPortsNAT c config w = Inr ms \<Longrightarrow> plan_ok c (agent_slots (pc_agent c) w) ms"
  by (auto simp: planPortsNAT_def PortRepo_ListByNodeAgentId_def set_usedHostPorts
      split: sum.splits dest: nat_loop_ok)

lemma planPortsInjected_cases:
  assumes "planPortsInjected c config w = Inr ms"
  obtains h blk extra used len base where
    "base = game_base (gc_PortExcerpt config)" "base \<noteq> 0"
    "len = block_length base (gc_PortExcerpt config)"
    "set used = agent_slots (pc_agent c) w"
    "allocateContiguousHostPorts len used = Inr h"
    "blk = block_mappings c (gc_PortExcerpt config) base h 0 (offsets len)"
    "mapPortExtraNAT c base (length blk) (mark_block h len used) (gc_PortExcerpt config) = Inr extra"
    "ms = blk @ extra"
proof -
  let ?es = "gc_PortExcerpt config"
  let ?base = "game_base ?es"
  let ?len = "block_length ?base ?es"
  let ?used = "usedHostPorts (filter (\<lambda>m. pm_NodeAgentId m = pc_agent c) (t_ports w))"
  let ?blk = "\<lambda>h. block_mappings c ?es ?base h 0 (offsets ?len)"
  from assms obtain h extra where
    "?base \<noteq> 0" "allocateContiguousHostPorts ?len ?used = Inr h"
    "mapPortExtraNAT c ?base (length (?blk h)) (mark_block h ?len ?used) ?es = Inr extra"
    "ms = ?blk h @ extra"
    unfolding planPortsInjected_def
    by (auto simp: Let_def PortRepo_ListByNodeAgentId_def guard_call_def
        split: sum.splits if_splits option.splits)
  then show thesis by (intro that[OF refl _ refl set_usedHostPorts _ refl]) auto
qed

lemma planPortsInjected_ok:
  assumes "planPortsInjected c config w = Inr ms"
  shows "plan_ok c (agent_slots (pc_agent c) w) ms"
  using assms
proof (rule planPortsInjected_cases)
  fix h blk extra used len base
  assume a: "set used = agent_slots (pc_agent c) w" "allocateContiguousHostPorts len used = Inr h"
    "blk = block_mappings c (gc_PortExcerpt config) base h 0 (offsets len)"
    "mapPortExtraNAT c base (length blk) (mark_block h len used) (gc_PortExcerpt config) = Inr extra"
    "ms = blk @ extra"
  have fr: "\<And>i. i \<in> set (offsets len) \<Longrightarrow> (TCP, h + i) \<notin> set used \<and> (UDP, h + i) \<notin> set used"
    using allocateContiguous_free[OF a(2)] by (simp add: block_free_def list_all_iff portInUse_def)
  have b: "plan_ok c (set used) blk" unfolding a(3) by (rule block_mappings_ok[OF offsets_distinct fr])
  have "set used \<union> slot2 ` set blk \<subseteq> set (mark_block h len used)"
    unfolding set_mark_block a(3) using block_mappings_slots by blast
  then show ?thesis using plan_ok_append[OF b mapPortExtraNAT_ok[OF a(4)]] a(1,5) by simp
qed

lemma PlanPorts_ok: "PlanPorts c game w = Inr ms \<Longrightarrow> plan_ok c (agent_slots (pc_agent c) w) ms"
  by (auto simp: PlanPorts_def split: sum.splits if_splits dest: planPortsNAT_ok planPortsInjected_ok)

lemma PlanPorts_exclusive:
  assumes "PlanPorts c game w = Inr ms"
  shows "ports_exclusive ms \<and>
    (\<forall>m \<in> set ms. pm_NodeAgentId m = pc_agent c \<and> pm_InstanceId m = pc_instance c
                   \<and> \<not> port_taken (pc_agent c) m (t_ports w))"
proof -
  have ok: "plan_ok c (agent_slots (pc_agent c) w) ms" by (rule PlanPorts_ok[OF assms])
  have "port_slot m = (pc_agent c, pm_HostPort m, pm_Protocol m)" if "m \<in> set ms" for m
    using ok that by (simp add: plan_ok_def port_slot_def)
  then have "map port_slot ms = map (\<lambda>(p, h). (pc_agent c, h, p)) (map slot2 ms)"
    by (simp add: slot2_def)
  moreover have "distinct (map (\<lambda>(p, h). (pc_agent c, h, p)) (map slot2 ms))"
    using ok unfolding plan_ok_def distinct_map[of _ "map slot2 ms"] by (auto intro: inj_onI)
  ultimately have "ports_exclusive ms" by (simp only: ports_exclusive_def)
  moreover have "\<not> port_taken (pc_agent c) m (t_ports w)" if "m \<in> set ms" for m
    using ok that unfolding plan_ok_def agent_slots_def port_taken_def slot2_def by fastforce
  ultimately show ?thesis using ok by (auto simp: plan_ok_def)
qed

text \<open>C10: a port plan, in every port mode, is for the given instance and node agent, uses every
  host port of a protocol once, and none that the agent already has in use; so it passes the
  port check of the reservation transaction as long as nobody else takes a port in between.\<close>

theorem PlanPorts_sound:
  assumes "PlanPorts c game w = Inr ms"
  shows "ports_exclusive ms \<and>
    (\<forall>m \<in> set ms. pm_NodeAgentId m = pc_agent c \<and> pm_InstanceId m = pc_instance c
                   \<and> \<not> port_taken (pc_agent c) m (t_ports w))"
  by (rule PlanPorts_exclusive[OF assms])

end
