(* ===== verification/Port_Plans.thy ===== *)
theory Port_Plans
  imports Ports
begin

text \<open>
  What a port plan contains: the mappings of a NAT or HOST plan are exactly the
  declared ports, TCP and UDP of one container port share the host port, the
  injected block is an identity mapping; and what \<open>MapPort\<close> leaves in the table.
\<close>

section \<open>Requirements\<close>

fun req_proto :: "ProtocolType \<Rightarrow> requirement \<Rightarrow> bool" where
  "req_proto TCP (q, t, u) = t"
| "req_proto UDP (q, t, u) = u"

definition has_req :: "ProtocolType \<Rightarrow> port \<Rightarrow> requirement list \<Rightarrow> bool" where
  "has_req p cp rs \<longleftrightarrow> (\<exists>r \<in> set rs. fst r = cp \<and> req_proto p r)"

definition covered :: "ProtocolType \<Rightarrow> port \<Rightarrow> GameContainerPortExcerpt list \<Rightarrow> bool" where
  "covered p cp es \<longleftrightarrow>
     (\<exists>e \<in> set es. pe_Protocol e = p \<and> cp \<in> (\<lambda>i. pe_BeginPort e + i) ` set (offsets (pe_ExcerptLength e)))"

lemma has_req_Nil [simp]: "\<not> has_req p cp []"
  by (simp add: has_req_def)

lemma has_req_Cons [simp]: "has_req p cp (r # rs) \<longleftrightarrow> fst r = cp \<and> req_proto p r \<or> has_req p cp rs"
  by (auto simp: has_req_def)

lemma req_proto_iff: "req_proto p (q, t, u) \<longleftrightarrow> (if p = TCP then t else u)"
  by (cases p) auto

lemma fst_set_proto [simp]: "fst (set_proto proto cp r) = fst r"
  by (cases r) auto

lemma req_set_proto [simp]:
  "req_proto p (set_proto proto cp r) \<longleftrightarrow> req_proto p r \<or> (fst r = cp \<and> p = proto)"
  by (cases r; cases p; cases proto) auto

lemma add_requirement_fst:
  "map fst (add_requirement proto cp rs) = map fst (if cp \<in> fst ` set rs then rs else rs @ [(cp, False, False)])"
  by (simp add: add_requirement_def o_def)

lemma add_requirement_distinct:
  "distinct (map fst rs) \<Longrightarrow> distinct (map fst (add_requirement proto cp rs))"
  by (auto simp: add_requirement_fst)

lemma has_req_map:
  "has_req p q (map (set_proto proto cp) rs) \<longleftrightarrow>
     has_req p q rs \<or> (q = cp \<and> p = proto \<and> cp \<in> fst ` set rs)"
  by (auto simp: has_req_def)

lemma has_req_append [simp]: "has_req p q (rs @ rs') \<longleftrightarrow> has_req p q rs \<or> has_req p q rs'"
  by (auto simp: has_req_def)

lemma has_req_add:
  "has_req p q (add_requirement proto cp rs) \<longleftrightarrow> has_req p q rs \<or> (q = cp \<and> p = proto)"
proof (cases "cp \<in> fst ` set rs")
  case True
  then show ?thesis by (simp add: add_requirement_def has_req_map)
next
  case False
  have "\<not> req_proto p (cp, False, False)" by (cases p) auto
  then show ?thesis using False by (simp add: add_requirement_def has_req_map del: map_append)
qed

lemma fold_requirements:
  "has_req p q (fold (\<lambda>i. add_requirement proto (b + i)) is rs)
    \<longleftrightarrow> has_req p q rs \<or> (p = proto \<and> q \<in> (\<lambda>i. b + i) ` set is)"
  "distinct (map fst rs) \<Longrightarrow> distinct (map fst (fold (\<lambda>i. add_requirement proto (b + i)) is rs))"
  by (induction "is" arbitrary: rs) (auto simp: has_req_add add_requirement_distinct)

lemma fold_excerpts:
  "has_req p q (fold excerpt_requirements es rs) \<longleftrightarrow> has_req p q rs \<or> covered p q es"
  "distinct (map fst rs) \<Longrightarrow> distinct (map fst (fold excerpt_requirements es rs))"
  by (induction es arbitrary: rs)
     (auto simp: covered_def excerpt_requirements_def fold_requirements)

lemma has_req_sort [simp]: "has_req p q (sort_key f rs) \<longleftrightarrow> has_req p q rs"
  by (simp add: has_req_def)

lemma port_requirements_spec: "has_req p cp (port_requirements es) \<longleftrightarrow> covered p cp es"
  by (simp add: port_requirements_def fold_excerpts)

lemma distinct_sort_key: "distinct (map f xs) \<Longrightarrow> distinct (map f (sort_key g xs))"
  by (metis distinct_map distinct_sort set_sort)

lemma port_requirements_distinct: "distinct (map fst (port_requirements es))"
  by (simp add: port_requirements_def distinct_sort_key fold_excerpts)

lemma port_requirements_sorted: "sorted (map fst (port_requirements es))"
  by (simp add: port_requirements_def)

section \<open>The contents of a NAT or HOST plan\<close>

text \<open>\<open>f\<close> is the host port of each container port.\<close>

definition plan_shape :: "GameContainerPortMode \<Rightarrow> requirement list \<Rightarrow> (port \<Rightarrow> port)
    \<Rightarrow> ContainerPortMapping list \<Rightarrow> bool" where
  "plan_shape mode rs f ms \<longleftrightarrow>
     (\<forall>m \<in> set ms. pm_HostPort m = f (pm_ContainerPort m) \<and> \<not> pm_IsGamePort m
        \<and> has_req (pm_Protocol m) (pm_ContainerPort m) rs
        \<and> (if mode = PORT_MAPPING_MOD_HOST then pm_HostPort m = pm_ContainerPort m
           else in_port_range (pm_HostPort m))) \<and>
     (\<forall>p cp. has_req p cp rs \<longrightarrow> (\<exists>m \<in> set ms. pm_ContainerPort m = cp \<and> pm_Protocol m = p))"

lemma choose_host_port_mode:
  "choose_host_port mode agent used (cp, t, u) = Inr h \<Longrightarrow>
     if mode = PORT_MAPPING_MOD_HOST then h = cp else in_port_range h"
  by (auto simp: choose_host_port_def split: if_splits sum.splits dest: allocateHostPort_sound(1))

lemma plan_shape_Cons:
  assumes tail: "plan_shape mode rs f ms'" and cp: "cp \<notin> fst ` set rs"
    and h: "if mode = PORT_MAPPING_MOD_HOST then h = cp else in_port_range h"
    and ms1: "set ms1 = (if t then {mk_mapping c n1 h cp TCP False} else {})
                        \<union> (if u then {mk_mapping c n2 h cp UDP False} else {})"
  shows "plan_shape mode ((cp, t, u) # rs) (f(cp := h)) (ms1 @ ms')"
proof -
  have ne: "pm_ContainerPort m \<noteq> cp" if "m \<in> set ms'" for m
  proof -
    have "\<exists>r \<in> set rs. fst r = pm_ContainerPort m"
      using tail that by (auto simp: plan_shape_def has_req_def)
    then show ?thesis using cp by force
  qed
  have new: "has_req p q ((cp, t, u) # rs) \<Longrightarrow>
      \<exists>m \<in> set (ms1 @ ms'). pm_ContainerPort m = q \<and> pm_Protocol m = p" for p q
    using tail ms1 by (cases p) (auto simp: plan_shape_def split: if_splits)
  have old: "\<forall>m \<in> set ms'. pm_HostPort m = (f(cp := h)) (pm_ContainerPort m) \<and> \<not> pm_IsGamePort m
        \<and> has_req (pm_Protocol m) (pm_ContainerPort m) ((cp, t, u) # rs)
        \<and> (if mode = PORT_MAPPING_MOD_HOST then pm_HostPort m = pm_ContainerPort m
           else in_port_range (pm_HostPort m))"
    using tail ne unfolding plan_shape_def by (auto split: if_splits)
  have hd: "\<forall>m \<in> set ms1. pm_HostPort m = (f(cp := h)) (pm_ContainerPort m) \<and> \<not> pm_IsGamePort m
        \<and> has_req (pm_Protocol m) (pm_ContainerPort m) ((cp, t, u) # rs)
        \<and> (if mode = PORT_MAPPING_MOD_HOST then pm_HostPort m = pm_ContainerPort m
           else in_port_range (pm_HostPort m))"
    using h ms1 by (auto split: if_splits)
  show ?thesis unfolding plan_shape_def using old hd new by auto
qed

lemma nat_loop_shape:
  "nat_loop mode c n used rs = Inr ms \<Longrightarrow> distinct (map fst rs) \<Longrightarrow> \<exists>f. plan_shape mode rs f ms"
proof (induction mode c n used rs arbitrary: ms rule: nat_loop.induct)
  case (1 mode c n used)
  then show ?case by (auto simp: plan_shape_def)
next
  case (2 mode c n used cp tcp udp rs)
  from 2(2) obtain h where h: "choose_host_port mode (pc_agent c) used (cp, tcp, udp) = Inr h"
    by (auto split: sum.splits)
  define used1 where "used1 = (if tcp then markUsed used TCP h else used)"
  define used2 where "used2 = (if udp then markUsed used1 UDP h else used1)"
  define ms1 where "ms1 = (if tcp then [mk_mapping c n h cp TCP False] else [])"
  define ms2 where "ms2 = (if udp then [mk_mapping c (n + length ms1) h cp UDP False] else [])"
  have "nat_loop mode c n used ((cp, tcp, udp) # rs) =
      (case nat_loop mode c (n + length ms1 + length ms2) used2 rs of
         Inl e \<Rightarrow> Inl e | Inr ms \<Rightarrow> Inr (ms1 @ ms2 @ ms))"
    using h by (simp only: nat_loop.simps sum.case Let_def used1_def used2_def ms1_def ms2_def)
  with 2(2) obtain ms' where
    r: "nat_loop mode c (n + length ms1 + length ms2) used2 rs = Inr ms'" and
    ms: "ms = (ms1 @ ms2) @ ms'"
    by (auto split: sum.splits)
  obtain f where "plan_shape mode rs f ms'"
    using 2(1)[OF h used1_def used2_def ms1_def ms2_def r] 2(3) by auto
  then have "plan_shape mode ((cp, tcp, udp) # rs) (f(cp := h)) ((ms1 @ ms2) @ ms')"
    by (rule plan_shape_Cons[OF _ _ choose_host_port_mode[OF h],
          of _ _ _ _ tcp c n udp "n + length ms1"])
       (use 2(3) in \<open>auto simp: ms1_def ms2_def\<close>)
  then show ?case unfolding ms by blast
qed

lemma planPortsNAT_shape:
  assumes "planPortsNAT c config w = Inr ms"
  obtains f where "plan_shape (gc_PortMode config) (port_requirements (gc_PortExcerpt config)) f ms"
proof -
  from assms obtain used where
    "nat_loop (gc_PortMode config) c 0 used (port_requirements (gc_PortExcerpt config)) = Inr ms"
    by (auto simp: planPortsNAT_def split: sum.splits)
  then show thesis using nat_loop_shape[OF _ port_requirements_distinct] that by blast
qed

text \<open>A NAT or HOST plan maps exactly the declared container ports, each in exactly the
  declared protocols.\<close>

theorem planPortsNAT_covers:
  assumes "planPortsNAT c config w = Inr ms"
  shows "(\<exists>m \<in> set ms. pm_ContainerPort m = cp \<and> pm_Protocol m = p)
           = covered p cp (gc_PortExcerpt config)"
proof -
  obtain f where f: "plan_shape (gc_PortMode config) (port_requirements (gc_PortExcerpt config)) f ms"
    using planPortsNAT_shape[OF assms] .
  show ?thesis
    using f unfolding plan_shape_def port_requirements_spec by blast
qed

text \<open>TCP and UDP of the same container port get the same host port (the key rule of the
  mapper), which is the container port itself in HOST mode and a port of the range otherwise.\<close>

theorem planPortsNAT_shared_host_port:
  assumes "planPortsNAT c config w = Inr ms" and "m \<in> set ms" and "m' \<in> set ms"
    and "pm_ContainerPort m = pm_ContainerPort m'"
  shows "pm_HostPort m = pm_HostPort m' \<and>
    (if gc_PortMode config = PORT_MAPPING_MOD_HOST then pm_HostPort m = pm_ContainerPort m
     else in_port_range (pm_HostPort m))"
proof -
  obtain f where "plan_shape (gc_PortMode config) (port_requirements (gc_PortExcerpt config)) f ms"
    using planPortsNAT_shape[OF assms(1)] .
  then show ?thesis using assms(2-4) by (auto simp: plan_shape_def)
qed

section \<open>HOST mode and a leftover mapping\<close>

text \<open>In HOST mode a mapping of a declared port that is left in the table makes planning
  fail on that agent, also when the mapping belongs to the very instance being scheduled
  (the scheduler plans without releasing first).\<close>

theorem HOST_plan_blocked_by_leftover:
  assumes "gc_PortMode config = PORT_MAPPING_MOD_HOST"
    and "covered (pm_Protocol old) (pm_HostPort old) (gc_PortExcerpt config)"
    and "old \<in> set (t_ports w)" and "pm_NodeAgentId old = pc_agent c"
  shows "\<exists>e. planPortsNAT c config w = Inl e"
proof (cases "planPortsNAT c config w")
  case (Inr ms)
  obtain f where f: "plan_shape (gc_PortMode config) (port_requirements (gc_PortExcerpt config)) f ms"
    using planPortsNAT_shape[OF Inr] .
  then obtain m where m: "m \<in> set ms" "pm_ContainerPort m = pm_HostPort old"
      "pm_Protocol m = pm_Protocol old"
    using assms(2) unfolding plan_shape_def port_requirements_spec by blast
  then have "pm_HostPort m = pm_HostPort old" using f assms(1) by (auto simp: plan_shape_def)
  then have "slot2 m \<in> agent_slots (pc_agent c) w"
    using m assms(3,4) by (auto simp: slot2_def agent_slots_def image_iff)
  then have False using planPortsNAT_ok[OF Inr] m(1) by (auto simp: plan_ok_def)
  then show ?thesis ..
qed simp

section \<open>Port injection\<close>

lemma extra_ports_flag:
  "extra_ports c e n used is = Inr (used', ms) \<Longrightarrow> \<forall>m \<in> set ms. \<not> pm_IsGamePort m"
proof (induction c e n used "is" arbitrary: used' ms rule: extra_ports.induct)
  case (2 c e n used i "is")
  from 2(2) obtain h used1 ms1 where
    "allocateHostPort (pe_Protocol e = TCP) (pe_Protocol e = UDP) used = Inr h"
    "extra_ports c e (Suc n) (if pe_Protocol e = TCP then markUsed used TCP h else markUsed used UDP h) is
       = Inr (used1, ms1)"
    "ms = mk_mapping c n h (pe_BeginPort e + i) (pe_Protocol e) False # ms1"
    by (auto simp: Let_def split: sum.splits)
  then show ?case using 2(1)[OF refl] by auto
qed simp

lemma mapPortExtraNAT_flag:
  "mapPortExtraNAT c base n used es = Inr ms \<Longrightarrow> \<forall>m \<in> set ms. \<not> pm_IsGamePort m"
proof (induction c base n used es arbitrary: ms rule: mapPortExtraNAT.induct)
  case (2 c base n used e es)
  show ?case
  proof (cases "pe_BeginPort e \<ge> base")
    case True
    then show ?thesis using 2 by simp
  next
    case False
    from 2(3) False obtain used' ms1 ms2 where
      a: "extra_ports c e n used (offsets (pe_ExcerptLength e)) = Inr (used', ms1)" and
      b: "mapPortExtraNAT c base (n + length ms1) used' es = Inr ms2" and ms: "ms = ms1 @ ms2"
      by (auto split: sum.splits)
    show ?thesis unfolding ms using 2(2)[OF False a refl b] extra_ports_flag[OF a] by auto
  qed
qed simp

lemma injected_game_mapping:
  assumes "planPortsInjected c config w = Inr ms" "m \<in> set ms" "pm_IsGamePort m"
  shows "pm_Protocol m = TCP \<and> pm_ContainerPort m = pm_HostPort m \<and>
    needs_proto TCP (game_base (gc_PortExcerpt config)) (gc_PortExcerpt config)"
  using assms(1)
proof (rule planPortsInjected_cases)
  fix h blk extra used len base
  assume a: "base = game_base (gc_PortExcerpt config)"
    "blk = block_mappings c (gc_PortExcerpt config) base h 0 (offsets len)"
    "mapPortExtraNAT c base (length blk) (mark_block h len used) (gc_PortExcerpt config) = Inr extra"
    "ms = blk @ extra"
  then have "m \<in> set blk" using assms(2,3) mapPortExtraNAT_flag[OF a(3)] by auto
  then show ?thesis using assms(3) block_mappings_mem[of m c "gc_PortExcerpt config" base h 0 "offsets len"] a(1,2)
    by auto
qed

text \<open>The injected plan marks as game port only an identity TCP mapping of the base; a game
  whose main port is declared for UDP only therefore gets no marked mapping at all, and the
  consumers that look for the mark (the injected variable, the connect address) find none.\<close>

theorem injected_mark_needs_TCP:
  assumes "planPortsInjected c config w = Inr ms"
    and "\<not> needs_proto TCP (game_base (gc_PortExcerpt config)) (gc_PortExcerpt config)"
  shows "find pm_IsGamePort ms = None"
  using injected_game_mapping[OF assms(1)] assms(2) by (auto simp: find_None_iff)

section \<open>\<open>MapPort\<close>\<close>

lemma save_mappings_fresh:
  "save_mappings ms w = (w', None) \<Longrightarrow> distinct (map pm_ID ms) \<Longrightarrow>
     pm_ID ` set ms \<inter> pm_ID ` set (t_ports w) = {} \<Longrightarrow>
     t_ports w' = t_ports w @ ms"
proof (induction ms w arbitrary: w' rule: save_mappings.induct)
  case (2 m ms w)
  from 2(2) have a: "PortRepo_Save m w = (w\<lparr>t_ports := t_ports w @ [m]\<rparr>, None)"
    using 2(4) by (auto simp: PortRepo_Save_def guard_write_def tbl_put_def split: option.splits prod.splits)
  show ?case using 2(1)[OF a[symmetric] refl] 2(2,3,4) a by auto
qed simp

text \<open>After a successful \<open>MapPort\<close> the instance owns exactly the planned mappings, whatever it
  owned before, and the mappings of other instances are untouched.\<close>

theorem MapPort_replaces:
  assumes "MapPort c game w = (w', Inr ms)"
    and "distinct (map pm_ID ms)" and "pm_ID ` set ms \<inter> pm_ID ` set (t_ports w) = {}"
  shows "filter (\<lambda>m. pm_InstanceId m = pc_instance c) (t_ports w') = ms \<and>
    filter (\<lambda>m. pm_InstanceId m \<noteq> pc_instance c) (t_ports w')
      = filter (\<lambda>m. pm_InstanceId m \<noteq> pc_instance c) (t_ports w)"
proof -
  from assms(1) obtain w1 where r: "releaseIfExists (pc_instance c) w = (w1, None)"
    and p: "PlanPorts c game w1 = Inr ms" and s: "save_mappings ms w1 = (w', None)"
    by (auto simp: MapPort_def split: prod.splits option.splits sum.splits)
  have w1: "t_ports w1 = filter (\<lambda>m. pm_InstanceId m \<noteq> pc_instance c) (t_ports w)"
    using r by (auto simp: releaseIfExists_def PortRepo_ListByInstanceId_def PortRepo_DeleteByInstanceId_def
        guard_call_def guard_write_def tbl_del_def filter_empty_conv
        split: option.splits if_splits sum.splits intro!: filter_True[symmetric])
  have "t_ports w' = t_ports w1 @ ms"
    using save_mappings_fresh[OF s assms(2)] assms(3) by (auto simp: w1)
  moreover have "\<forall>m \<in> set ms. pm_InstanceId m = pc_instance c"
    using PlanPorts_ok[OF p] by (simp add: plan_ok_def)
  ultimately show ?thesis by (simp add: w1 filter_id_conv filter_empty_conv)
qed

section \<open>The theorems on the example cluster\<close>

definition ex_ctx :: plan_ctx where
  "ex_ctx = \<lparr> pc_instance = ''i1'', pc_agent = ''a1'', pc_gen = (\<lambda>n. CHR ''p'' # show_nat n) \<rparr>"

lemma allocateHostPort_first:
  assumes "t \<Longrightarrow> \<not> portInUse used TCP 50100" "u \<Longrightarrow> \<not> portInUse used UDP 50100" "t \<or> u"
  shows "allocateHostPort t u used = Inr 50100"
  using assms by (auto simp: allocateHostPort_def port_bounds loop_ports.simps[of _ _ 50100])

lemma ex_requirements: "port_requirements [ex_excerpt] = [(26900, True, False)]"
  by (simp add: port_requirements_def excerpt_requirements_def offsets_def ex_excerpt_def add_requirement_def)

lemma ex_planNAT: "planPortsNAT ex_ctx ex_config ex_db = Inr [mk_mapping ex_ctx 0 50100 26900 TCP False]"
  by (simp add: planPortsNAT_def PortRepo_ListByNodeAgentId_def guard_call_def
      ex_requirements choose_host_port_def allocateHostPort_first portInUse_def usedHostPorts_def)

lemma ex_PlanPorts: "PlanPorts ex_ctx ex_game ex_db = Inr [mk_mapping ex_ctx 0 50100 26900 TCP False]"
  using ex_planNAT
  by (simp add: PlanPorts_def ConfigRepo_GetByID_def guard_call_def tbl_find_Cons found_def)

definition ex_udp_config :: GameContainerConfig where
  "ex_udp_config = ex_config\<lparr>gc_InjectGamePort := True,
     gc_PortExcerpt := [ex_excerpt\<lparr>pe_Protocol := UDP\<rparr>]\<rparr>"

lemma ex_planInjected:
  "planPortsInjected ex_ctx ex_udp_config ex_db = Inr [mk_mapping ex_ctx 0 50100 50100 UDP False]"
  by (simp add: planPortsInjected_def PortRepo_ListByNodeAgentId_def guard_call_def ex_db_def
      ex_udp_config_def ex_config_def game_base_def ex_excerpt_def block_length_def extend_block_def
      Let_def allocateContiguousHostPorts_def port_bounds loop_ports.simps[of _ _ 50100] block_free_def
      offsets_def portInUse_def usedHostPorts_def block_pair_def needs_proto_def)

theorem PlanPorts_sound_witness:
  "ports_exclusive [mk_mapping ex_ctx 0 50100 26900 TCP False] \<and>
   \<not> port_taken ''a1'' (mk_mapping ex_ctx 0 50100 26900 TCP False) (t_ports ex_db)"
  using PlanPorts_sound[OF ex_PlanPorts] by (simp add: ex_ctx_def)

theorem planPortsNAT_covers_witness:
  "covered TCP 26900 [ex_excerpt] \<and> \<not> covered UDP 26900 [ex_excerpt]"
  using planPortsNAT_covers[OF ex_planNAT, of 26900 TCP] planPortsNAT_covers[OF ex_planNAT, of 26900 UDP]
  by (simp add: ex_config_def)

theorem planPortsNAT_shared_host_port_witness: "in_port_range 50100"
proof -
  have "mk_mapping ex_ctx 0 50100 26900 TCP False \<in> set [mk_mapping ex_ctx 0 50100 26900 TCP False]"
    by simp
  from planPortsNAT_shared_host_port[OF ex_planNAT this this refl]
  show ?thesis by (simp add: ex_config_def)
qed

theorem HOST_plan_blocked_by_leftover_witness:
  "\<exists>e. planPortsNAT ex_ctx (ex_config\<lparr>gc_PortMode := PORT_MAPPING_MOD_HOST\<rparr>)
     (ex_db\<lparr>t_ports := [mk_mapping ex_ctx 0 26900 26900 TCP False]\<rparr>) = Inl e"
  by (rule HOST_plan_blocked_by_leftover[of _ "mk_mapping ex_ctx 0 26900 26900 TCP False"])
     (simp_all add: ex_config_def covered_def ex_excerpt_def offsets_def ex_ctx_def)

theorem injected_mark_needs_TCP_witness:
  "find pm_IsGamePort [mk_mapping ex_ctx 0 50100 50100 UDP False] = None"
  by (rule injected_mark_needs_TCP[OF ex_planInjected])
     (simp add: ex_udp_config_def needs_proto_def ex_excerpt_def)

theorem MapPort_replaces_witness:
  "filter (\<lambda>m. pm_InstanceId m = ''i1'') (t_ports (fst (MapPort ex_ctx ex_game ex_db)))
     = [mk_mapping ex_ctx 0 50100 26900 TCP False]"
proof -
  have "MapPort ex_ctx ex_game ex_db =
      (ex_db\<lparr>t_ports := [mk_mapping ex_ctx 0 50100 26900 TCP False]\<rparr>,
       Inr [mk_mapping ex_ctx 0 50100 26900 TCP False])"
    using ex_PlanPorts
    by (simp add: MapPort_def releaseIfExists_def PortRepo_ListByInstanceId_def guard_call_def
        PortRepo_Save_def guard_write_def tbl_put_def)
  from MapPort_replaces[OF this] show ?thesis
    using \<open>MapPort ex_ctx ex_game ex_db = _\<close> by (simp add: ex_db_def ex_ctx_def)
qed

end
