(* ===== verification/Event_Bus.thy ===== *)
theory Event_Bus
  imports Examples Messages
begin

text \<open>
  The scheduler's event bus (\<open>biz/event_bus.go\<close>): a bounded buffer of the newest
  events and a bounded channel to the persistence loop, which writes batches to
  the table \<open>scheduler_events\<close>.  \<open>ctl\<close> extends the data base with the bus (\<open>None\<close>
  for a \<open>nil\<close> bus); the components that publish work on its extensions.
\<close>

section \<open>Events\<close>

definition EventInstanceScheduled :: string where "EventInstanceScheduled = ''instance_scheduled''"
definition EventInstanceQueued :: string where "EventInstanceQueued = ''instance_queued''"
definition EventInstanceScheduleFailed :: string where "EventInstanceScheduleFailed = ''instance_schedule_failed''"
definition EventInstanceQueueTimeout :: string where "EventInstanceQueueTimeout = ''instance_queue_timeout''"
definition EventInstanceQueuedCancelled :: string where "EventInstanceQueuedCancelled = ''instance_queued_cancelled''"
definition EventInstanceStopped :: string where "EventInstanceStopped = ''instance_stopped''"
definition EventInstanceFailed :: string where "EventInstanceFailed = ''instance_failed''"
definition EventNodePressureChanged :: string where "EventNodePressureChanged = ''node_pressure_changed''"
definition EventNodeHealthChanged :: string where "EventNodeHealthChanged = ''node_health_changed''"
definition EventReservationReleased :: string where "EventReservationReleased = ''reservation_released''"
definition EventCacheReady :: string where "EventCacheReady = ''cache_ready''"

record SchedulerEvent =
  ev_Type :: string
  ev_OccurredAt :: time
  ev_InstanceID :: string
  ev_NodeAgentID :: string
  ev_Detail :: string

text \<open>\<open>time.Time{}\<close>, 1 January of the year 1, in nanoseconds from the Unix epoch.\<close>

definition zero_time :: time where
  "zero_time = - 62135596800 * second"

record EventBus =
  eb_events :: "SchedulerEvent list"
  eb_capacity :: int
  eb_repo :: bool                       \<comment> \<open>a persistence back end is configured\<close>
  eb_persistCh :: "SchedulerEvent list" \<comment> \<open>contents of the channel, capacity 2048\<close>
  eb_pending :: "SchedulerEventRow list" \<comment> \<open>batch of the persistence loop\<close>
  eb_pruneAfter :: duration

definition persist_capacity :: nat where "persist_capacity = 2048"
definition persist_batch :: nat where "persist_batch = 64"

definition NewSchedulerEventBus :: "int \<Rightarrow> bool \<Rightarrow> EventBus" where
  "NewSchedulerEventBus capacity repo =
    \<lparr> eb_events = [], eb_capacity = (if capacity \<le> 0 then 1000 else capacity), eb_repo = repo,
      eb_persistCh = [], eb_pending = [], eb_pruneAfter = 7 * 24 * 60 * minute \<rparr>"

definition Publish :: "time \<Rightarrow> SchedulerEvent \<Rightarrow> EventBus \<Rightarrow> EventBus" where
  "Publish now e0 b =
    (let e = (if ev_OccurredAt e0 = zero_time then e0\<lparr>ev_OccurredAt := now\<rparr> else e0);
         evs = eb_events b @ [e];
         evs' = (if int (length evs) > eb_capacity b
                 then drop (nat (int (length evs) - eb_capacity b)) evs else evs);
         ch = (if eb_repo b \<and> length (eb_persistCh b) < persist_capacity
               then eb_persistCh b @ [e] else eb_persistCh b)
     in b\<lparr>eb_events := evs', eb_persistCh := ch\<rparr>)"

text \<open>\<open>Recent\<close>: newest first, filtered by type, at most \<open>limit\<close> when it is positive.\<close>

fun recent_loop :: "int \<Rightarrow> string \<Rightarrow> nat \<Rightarrow> SchedulerEvent list \<Rightarrow> SchedulerEvent list" where
  "recent_loop limit ty n [] = []"
| "recent_loop limit ty n (e # es) =
    (if ty \<noteq> [] \<and> ev_Type e \<noteq> ty then recent_loop limit ty n es
     else if limit > 0 \<and> int (Suc n) \<ge> limit then [e]
     else e # recent_loop limit ty (Suc n) es)"

definition Recent :: "int \<Rightarrow> string \<Rightarrow> EventBus \<Rightarrow> SchedulerEvent list" where
  "Recent limit ty b = recent_loop limit ty 0 (rev (eb_events b))"

definition Len :: "EventBus \<Rightarrow> int" where
  "Len b = int (length (eb_events b))"

section \<open>Persistence\<close>

text \<open>\<open>scheduler_event_repo.go\<close>.\<close>

definition EventRepo_AppendBatch :: "SchedulerEventRow list \<Rightarrow> 'a db_scheme \<Rightarrow> 'a db_scheme \<times> gerr option" where
  "EventRepo_AppendBatch rows w =
    (if rows = [] then (w, None)
     else guard_write w EventAppend (w\<lparr>t_events := t_events w @ rows\<rparr>))"

definition EventRepo_ListSince :: "time \<Rightarrow> string \<Rightarrow> int \<Rightarrow> 'a db_scheme \<Rightarrow> gerr + SchedulerEventRow list" where
  "EventRepo_ListSince since ty limit w =
    (let rows = filter (\<lambda>r. since \<le> se_OccurredAt r \<and> (ty = [] \<or> se_Type r = ty)) (t_events w);
         desc = rev (sort_key se_OccurredAt rows)
     in guard_call w EventList (Inr (if limit > 0 then take (nat limit) desc else desc)))"

definition EventRepo_PruneBefore :: "time \<Rightarrow> 'a db_scheme \<Rightarrow> 'a db_scheme \<times> (gerr + int)" where
  "EventRepo_PruneBefore before w =
    (case db_fault w EventPrune of
       Some t \<Rightarrow> (w, Inl (DbErr t))
     | None \<Rightarrow>
        let old = filter (\<lambda>r. se_OccurredAt r < before) (t_events w)
        in (w\<lparr>t_events := tbl_del (\<lambda>r. se_OccurredAt r < before) (t_events w)\<rparr>, Inr (int (length old))))"

definition EventRepo_Count :: "'a db_scheme \<Rightarrow> gerr + int" where
  "EventRepo_Count w = guard_call w EventCount (Inr (int (length (t_events w))))"

record ctl = db +
  ctl_bus :: "EventBus option"

definition event_row :: "time \<Rightarrow> SchedulerEvent \<Rightarrow> SchedulerEventRow" where
  "event_row now e = \<lparr> se_OccurredAt = ev_OccurredAt e, se_Type = ev_Type e,
     se_InstanceID = ev_InstanceID e, se_NodeAgentID = ev_NodeAgentID e, se_Detail = ev_Detail e,
     se_CreatedAt = now \<rparr>"

text \<open>The steps of the persistence loop: flush, receive one event, tick.\<close>

definition bus_flush :: "EventBus \<Rightarrow> 'a ctl_scheme \<Rightarrow> 'a ctl_scheme" where
  "bus_flush b w =
    (if eb_pending b = [] then w\<lparr>ctl_bus := Some b\<rparr>
     else (fst (EventRepo_AppendBatch (eb_pending b) w))\<lparr>ctl_bus := Some (b\<lparr>eb_pending := []\<rparr>)\<rparr>)"

definition bus_receive :: "time \<Rightarrow> 'a ctl_scheme \<Rightarrow> 'a ctl_scheme" where
  "bus_receive now w =
    (case ctl_bus w of
       None \<Rightarrow> w
     | Some b \<Rightarrow>
       if \<not> eb_repo b then w
       else (case eb_persistCh b of
           [] \<Rightarrow> w
         | e # es \<Rightarrow>
           let b' = b\<lparr>eb_persistCh := es, eb_pending := eb_pending b @ [event_row now e]\<rparr>
           in if length (eb_pending b') \<ge> persist_batch then bus_flush b' w
              else w\<lparr>ctl_bus := Some b'\<rparr>))"

definition bus_tick :: "time \<Rightarrow> 'a ctl_scheme \<Rightarrow> 'a ctl_scheme" where
  "bus_tick now w =
    (case ctl_bus w of
       None \<Rightarrow> w
     | Some b \<Rightarrow>
       if \<not> eb_repo b then w
       else fst (EventRepo_PruneBefore (now - eb_pruneAfter b) (bus_flush b w)))"

definition History :: "time \<Rightarrow> string \<Rightarrow> int \<Rightarrow> EventBus \<Rightarrow> 'a db_scheme \<Rightarrow> SchedulerEvent list" where
  "History since ty limit b w =
    (if \<not> eb_repo b then Recent limit ty b
     else case EventRepo_ListSince since ty limit w of
            Inl e \<Rightarrow> []
          | Inr rows \<Rightarrow> map (\<lambda>r. \<lparr> ev_Type = se_Type r, ev_OccurredAt = se_OccurredAt r,
                ev_InstanceID = se_InstanceID r, ev_NodeAgentID = se_NodeAgentID r,
                ev_Detail = se_Detail r \<rparr>) rows)"

definition DBCount :: "EventBus \<Rightarrow> 'a db_scheme \<Rightarrow> int \<times> bool" where
  "DBCount b w =
    (if \<not> eb_repo b then (Len b, False)
     else case EventRepo_Count w of Inl e \<Rightarrow> (Len b, False) | Inr n \<Rightarrow> (n, True))"

text \<open>\<open>eventBus.Publish(SchedulerEvent{...})\<close>, ignored when the bus is \<open>nil\<close>.\<close>

definition publish :: "time \<Rightarrow> string \<Rightarrow> string \<Rightarrow> string \<Rightarrow> string \<Rightarrow> 'a ctl_scheme \<Rightarrow> 'a ctl_scheme" where
  "publish now ty inst agent detail w =
    (case ctl_bus w of
       None \<Rightarrow> w
     | Some b \<Rightarrow> w\<lparr>ctl_bus := Some (Publish now
          \<lparr> ev_Type = ty, ev_OccurredAt = now, ev_InstanceID = inst, ev_NodeAgentID = agent,
            ev_Detail = detail \<rparr> b)\<rparr>)"

section \<open>What publishing leaves alone\<close>

lemma publish_frame [simp, frame_simps]:
  "t_nodes (publish now ty i a d w) = t_nodes w" "t_agents (publish now ty i a d w) = t_agents w"
  "t_instances (publish now ty i a d w) = t_instances w" "t_queue (publish now ty i a d w) = t_queue w"
  "t_ports (publish now ty i a d w) = t_ports w" "t_creds (publish now ty i a d w) = t_creds w"
  "t_games (publish now ty i a d w) = t_games w" "t_configs (publish now ty i a d w) = t_configs w"
  "t_branches (publish now ty i a d w) = t_branches w" "t_stats (publish now ty i a d w) = t_stats w"
  "t_samples (publish now ty i a d w) = t_samples w" "t_platform (publish now ty i a d w) = t_platform w"
  "db_fault (publish now ty i a d w) = db_fault w" "ctl.more (publish now ty i a d w) = ctl.more w"
  by (simp_all add: publish_def split: option.splits)

section \<open>The buffer\<close>

definition bus_ok :: "EventBus \<Rightarrow> bool" where
  "bus_ok b \<longleftrightarrow> 0 < eb_capacity b \<and> int (length (eb_events b)) \<le> eb_capacity b \<and>
     length (eb_persistCh b) \<le> persist_capacity \<and> length (eb_pending b) < persist_batch"

lemma New_bus_ok [simp]: "bus_ok (NewSchedulerEventBus c r)"
  by (simp add: bus_ok_def NewSchedulerEventBus_def persist_capacity_def persist_batch_def)

lemma Publish_ok: "bus_ok b \<Longrightarrow> bus_ok (Publish now e b)"
  by (auto simp: bus_ok_def Publish_def Let_def)

lemma bus_receive_ok:
  assumes "ctl_bus w = Some b" "bus_ok b"
  shows "\<exists>b'. ctl_bus (bus_receive now w) = Some b' \<and> bus_ok b'"
  using assms
  by (auto simp: bus_receive_def bus_ok_def bus_flush_def persist_batch_def Let_def split: list.splits)

fun publish_all :: "(time \<times> SchedulerEvent) list \<Rightarrow> EventBus \<Rightarrow> EventBus" where
  "publish_all [] b = b"
| "publish_all ((now, e) # es) b = publish_all es (Publish now e b)"

definition stamped :: "time \<Rightarrow> SchedulerEvent \<Rightarrow> SchedulerEvent" where
  "stamped now e = (if ev_OccurredAt e = zero_time then e\<lparr>ev_OccurredAt := now\<rparr> else e)"

definition newest :: "nat \<Rightarrow> 'e list \<Rightarrow> 'e list" where
  "newest n xs = drop (length xs - n) xs"

lemma newest_snoc: "newest n (newest n xs @ [x]) = newest n (xs @ [x])"
  by (cases "length xs \<le> n") (auto simp: newest_def Suc_diff_le)

lemma nat_int_minus: "nat (int a - int c) = a - c"
  by arith

lemma Publish_events:
  assumes "0 < eb_capacity b"
  shows "eb_events (Publish now e b) = newest (nat (eb_capacity b)) (eb_events b @ [stamped now e])"
proof -
  obtain c where c: "eb_capacity b = int c" using assms by (metis int_nat_eq less_imp_le)
  show ?thesis unfolding Publish_def Let_def c newest_def stamped_def nat_int_minus
    by (auto simp: c nat_int_minus not_less)
qed

lemma Publish_capacity [simp]: "eb_capacity (Publish now e b) = eb_capacity b"
  by (simp add: Publish_def Let_def)

lemma newest_append_newest: "newest n (newest n xs @ ys) = newest n (xs @ ys)"
proof (cases "length xs \<le> n")
  case True
  then show ?thesis by (simp add: newest_def)
next
  case False
  then have n: "n \<le> length xs" by simp
  have "drop (length ys) (drop (length xs - n) xs) = drop (length xs + length ys - n) xs"
    using n by (simp add: add.commute)
  moreover have "length ys - n = length xs + length ys - n - length xs" by arith
  ultimately show ?thesis using n by (simp add: newest_def)
qed

text \<open>The buffer holds exactly the newest \<open>capacity\<close> events that were published, in the order
  of publication: an overflow drops the oldest ones and nothing else.\<close>

theorem bus_keeps_newest:
  assumes "0 < eb_capacity b" "int (length (eb_events b)) \<le> eb_capacity b"
  shows "eb_events (publish_all es b) =
    newest (nat (eb_capacity b)) (eb_events b @ map (\<lambda>(now, e). stamped now e) es)"
  using assms
proof (induction es b rule: publish_all.induct)
  case (1 b)
  then show ?case by (simp add: newest_def nat_le_iff)
next
  case (2 now e es b)
  let ?n = "nat (eb_capacity b)"
  have ev: "eb_events (Publish now e b) = newest ?n (eb_events b @ [stamped now e])"
    by (rule Publish_events[OF 2(2)])
  have "int (length (eb_events (Publish now e b))) \<le> eb_capacity b"
    using 2(2) unfolding ev by (simp add: newest_def)
  then have "eb_events (publish_all es (Publish now e b)) =
      newest ?n (newest ?n (eb_events b @ [stamped now e]) @ map (\<lambda>(now, e). stamped now e) es)"
    using 2(1) 2(2) by (simp add: ev)
  then show ?case by (simp add: newest_append_newest)
qed

theorem bus_keeps_newest_witness:
  "eb_events (publish_all [(1, \<lparr>ev_Type = ''a'', ev_OccurredAt = 1, ev_InstanceID = [],
      ev_NodeAgentID = [], ev_Detail = []\<rparr>), (2, \<lparr>ev_Type = ''b'', ev_OccurredAt = 2,
      ev_InstanceID = [], ev_NodeAgentID = [], ev_Detail = []\<rparr>)] (NewSchedulerEventBus 1 False))
    = [\<lparr>ev_Type = ''b'', ev_OccurredAt = 2, ev_InstanceID = [], ev_NodeAgentID = [], ev_Detail = []\<rparr>]"
  by (subst bus_keeps_newest)
     (simp_all add: NewSchedulerEventBus_def newest_def stamped_def zero_time_def second_def)

section \<open>Queries\<close>

lemma recent_loop_spec:
  "recent_loop limit ty n es =
     (let sel = filter (\<lambda>e. ty = [] \<or> ev_Type e = ty) es
      in if limit > 0 then take (max 1 (nat limit - n)) sel else sel)"
proof (induction limit ty n es rule: recent_loop.induct)
  case (2 limit ty n e es)
  consider "ty \<noteq> [] \<and> ev_Type e \<noteq> ty" | "\<not> (ty \<noteq> [] \<and> ev_Type e \<noteq> ty)" "limit > 0 \<and> int (Suc n) \<ge> limit"
    | "\<not> (ty \<noteq> [] \<and> ev_Type e \<noteq> ty)" "\<not> (limit > 0 \<and> int (Suc n) \<ge> limit)" by blast
  then show ?case
  proof cases
    case 1
    then show ?thesis using 2(1) by (simp add: Let_def)
  next
    case 2
    then have "max 1 (nat limit - n) = 1" by arith
    then show ?thesis using 2 by (auto simp: Let_def)
  next
    case 3
    have "max 1 (nat limit - n) = Suc (max 1 (nat limit - Suc n))" if "limit > 0"
      using 3(2) that by arith
    then show ?thesis using 2(2)[OF 3] 3 by (auto simp: Let_def)
  qed
qed simp

lemma Recent_spec:
  "Recent limit ty b =
     (let sel = filter (\<lambda>e. ty = [] \<or> ev_Type e = ty) (rev (eb_events b))
      in if limit > 0 then take (nat limit) sel else sel)"
proof -
  have "max 1 (nat limit) = nat limit" if "limit > 0" using that by arith
  then show ?thesis by (simp add: Recent_def recent_loop_spec Let_def)
qed

end
