(* ===== verification/Cache_View.thy ===== *)
theory Cache_View
  imports Event_Bus
begin

text \<open>
  The snapshot of the game caches on the nodes (\<open>biz/node_cache_view.go\<close>), and the
  interface \<open>CacheStatusProvider\<close> (\<open>biz/candidate.go\<close>) through which the scheduler
  reads it: the locale \<open>cache_status_provider\<close>, interpreted on the snapshot.  The
  query of a node (\<open>CacheSnapshotFetcher.GetNodeCache\<close>, a remote call) is the
  parameter \<open>fetch\<close>.
\<close>

section \<open>Entries\<close>

datatype GameCacheStatus = GC_AVAILABLE | GC_DOWNLOADING | GC_REMOVED | GC_UNAVAILABLE

record GameCache =
  gca_BuildId :: string
  gca_Status :: GameCacheStatus
  gca_DownloadProgress :: rat
  gca_SizeBytes :: int
  gca_LastError :: string

record CacheEntry =
  ce_GameID :: string
  ce_Branch :: string
  ce_Available :: bool
  ce_Status :: string
  ce_BuildID :: string
  ce_DownloadProgress :: rat
  ce_SizeBytes :: int
  ce_LastError :: string

record CacheState =
  cs_Status :: string
  cs_Available :: bool
  cs_SizeBytes :: int

type_synonym snapshot = "(string \<times> (string \<times> CacheEntry) list) list"
type_synonym fetcher = "string \<Rightarrow> string \<Rightarrow> string \<Rightarrow> gerr + GameCache option"

definition cache_key :: "string \<Rightarrow> string \<Rightarrow> string" where
  "cache_key game branch = game @ '':'' @ branch"

definition fetchEntry :: "fetcher \<Rightarrow> string \<Rightarrow> string \<Rightarrow> string \<Rightarrow> CacheEntry" where
  "fetchEntry fetch agent game branch =
    (let entry = \<lparr> ce_GameID = game, ce_Branch = branch, ce_Available = False, ce_Status = ''missing'',
                   ce_BuildID = [], ce_DownloadProgress = 0, ce_SizeBytes = 0, ce_LastError = [] \<rparr>
     in case fetch agent game branch of
          Inl e \<Rightarrow> entry
        | Inr None \<Rightarrow> entry
        | Inr (Some gc) \<Rightarrow>
            (let entry' = entry\<lparr>ce_BuildID := gca_BuildId gc,
                   ce_DownloadProgress := gca_DownloadProgress gc,
                   ce_SizeBytes := gca_SizeBytes gc, ce_LastError := gca_LastError gc\<rparr>
             in case gca_Status gc of
                  GC_AVAILABLE \<Rightarrow> entry'\<lparr>ce_Available := True, ce_Status := ''available''\<rparr>
                | GC_DOWNLOADING \<Rightarrow> entry'\<lparr>ce_Status := ''downloading''\<rparr>
                | GC_REMOVED \<Rightarrow> entry'\<lparr>ce_Status := ''removed''\<rparr>
                | GC_UNAVAILABLE \<Rightarrow> entry'\<lparr>ce_Status := ''unavailable''\<rparr>))"

section \<open>Refresh\<close>

text \<open>The enabled branches of every game; a game whose branches cannot be read is skipped.\<close>

definition enabled_branches :: "Game list \<Rightarrow> 'a db_scheme \<Rightarrow> (string \<times> string) list" where
  "enabled_branches games w =
     concat (map (\<lambda>g. case BranchRepo_ListByGame (gm_ID g) w of
                         Inl e \<Rightarrow> []
                       | Inr bs \<Rightarrow> map (\<lambda>b. (gm_ID g, sb_BranchName b)) (filter (\<lambda>b. sb_Status b = Enable) bs))
                 games)"

definition node_entries :: "fetcher \<Rightarrow> string \<Rightarrow> (string \<times> string) list \<Rightarrow> (string \<times> CacheEntry) list" where
  "node_entries fetch agent bs =
     fold (\<lambda>(g, b). tbl_put fst (cache_key g b, fetchEntry fetch agent g b)) bs []"

definition build_snapshot :: "fetcher \<Rightarrow> string list \<Rightarrow> (string \<times> string) list \<Rightarrow> snapshot" where
  "build_snapshot fetch agents bs =
     fold (\<lambda>a. tbl_put fst (a, node_entries fetch a bs)) agents []"

text \<open>\<open>diff\<close>: has any entry become available?\<close>

definition diff :: "snapshot \<Rightarrow> snapshot \<Rightarrow> bool" where
  "diff old next' =
     list_ex (\<lambda>(agent, m). case tbl_find fst agent old of
         None \<Rightarrow> list_ex (\<lambda>(k, e). ce_Available e) m
       | Some (_, om) \<Rightarrow> list_ex (\<lambda>(k, e). ce_Available e \<and>
            (case tbl_find fst k om of None \<Rightarrow> True | Some (_, oe) \<Rightarrow> \<not> ce_Available oe)) m) next'"

text \<open>The result: the snapshot, the state, and whether the ready callback was called.\<close>

definition refreshOnce :: "time \<Rightarrow> fetcher \<Rightarrow> snapshot \<Rightarrow> 'a ctl_scheme \<Rightarrow> snapshot \<times> 'a ctl_scheme \<times> bool" where
  "refreshOnce now fetch snap w =
    (case AgentRepo_ListEnabledIDs w of
       Inl e \<Rightarrow> (snap, w, False)
     | Inr agents \<Rightarrow>
       (case GameRepo_ListAll w of
          Inl e \<Rightarrow> (snap, w, False)
        | Inr games \<Rightarrow>
            let next' = build_snapshot fetch agents (enabled_branches games w);
                changed = diff snap next'
            in if changed then (next', publish now EventCacheReady [] [] msg_cache_ready w, True)
               else (next', w, False)))"

section \<open>Queries\<close>

definition snap_entry :: "snapshot \<Rightarrow> string \<Rightarrow> string \<Rightarrow> string \<Rightarrow> CacheEntry option" where
  "snap_entry snap agent game branch =
    (case tbl_find fst agent snap of
       None \<Rightarrow> None
     | Some (_, m) \<Rightarrow> map_option snd (tbl_find fst (cache_key game branch) m))"

definition CacheAvailable :: "snapshot \<Rightarrow> string \<Rightarrow> string \<Rightarrow> string \<Rightarrow> bool" where
  "CacheAvailable snap agent game branch =
    (case snap_entry snap agent game branch of None \<Rightarrow> False | Some e \<Rightarrow> ce_Available e)"

definition CacheStateOf :: "snapshot \<Rightarrow> string \<Rightarrow> string \<Rightarrow> string \<Rightarrow> CacheState" where
  "CacheStateOf snap agent game branch =
    (case snap_entry snap agent game branch of
       None \<Rightarrow> \<lparr> cs_Status = ''missing'', cs_Available = False, cs_SizeBytes = 0 \<rparr>
     | Some e \<Rightarrow> \<lparr> cs_Status = ce_Status e, cs_Available = ce_Available e, cs_SizeBytes = ce_SizeBytes e \<rparr>)"

text \<open>Sums of \<open>uint64\<close> values wrap.\<close>

definition CacheDiskUsageBytes :: "snapshot \<Rightarrow> string \<Rightarrow> int \<times> int" where
  "CacheDiskUsageBytes snap agent =
    (case tbl_find fst agent snap of
       None \<Rightarrow> (0, 0)
     | Some (_, m) \<Rightarrow>
         fold (\<lambda>(k, e) (av, dl). if ce_Status e = ''downloading'' then (av, u64 (dl + ce_SizeBytes e))
                 else if ce_Available e then (u64 (av + ce_SizeBytes e), dl) else (av, dl)) m (0, 0))"

definition entry_size :: "string \<Rightarrow> (string \<times> CacheEntry) list \<Rightarrow> int option" where
  "entry_size k m = map_option (\<lambda>r. ce_SizeBytes (snd r)) (tbl_find fst k m)"

definition BranchSizeBytes :: "snapshot \<Rightarrow> string \<Rightarrow> string \<Rightarrow> int \<times> bool" where
  "BranchSizeBytes snap game branch =
    (let mx = fold (\<lambda>x mx. case entry_size (cache_key game branch) (snd x) of
                 None \<Rightarrow> mx
               | Some s \<Rightarrow> if s > mx then s else mx) snap 0
     in (mx, mx > 0))"

definition ListSnapshot :: "snapshot \<Rightarrow> (string \<times> CacheEntry list) list" where
  "ListSnapshot snap = map (\<lambda>(a, m). (a, map snd m)) snap"

section \<open>What the scheduler relies on\<close>

text \<open>
  The interface: an available cache has the status \<open>available\<close>, \<open>CacheAvailable\<close>
  agrees with \<open>CacheState\<close>, and a known branch size is positive and at least the
  size any node reports.
\<close>

record cache_provider =
  cap_state :: "string \<Rightarrow> string \<Rightarrow> string \<Rightarrow> CacheState"
  cap_usage :: "string \<Rightarrow> int \<times> int"
  cap_branch_size :: "string \<Rightarrow> string \<Rightarrow> int \<times> bool"

locale cache_status_provider =
  fixes prov :: cache_provider and available :: "string \<Rightarrow> string \<Rightarrow> string \<Rightarrow> bool"
  assumes state_available: "cs_Available (cap_state prov a g b) = available a g b"
    and available_status: "cs_Available (cap_state prov a g b) \<Longrightarrow> cs_Status (cap_state prov a g b) = ''available''"
    and known_positive: "snd (cap_branch_size prov g b) \<longleftrightarrow> 0 < fst (cap_branch_size prov g b)"
    and size_bound: "cs_SizeBytes (cap_state prov a g b) \<le> fst (cap_branch_size prov g b)"
begin

definition warm :: "string \<Rightarrow> string \<Rightarrow> string \<Rightarrow> bool" where
  "warm a g b \<longleftrightarrow> cs_Available (cap_state prov a g b) \<or> cs_Status (cap_state prov a g b) = ''downloading''"

lemma available_warm: "available a g b \<Longrightarrow> warm a g b"
  by (simp add: warm_def state_available)

lemma available_not_downloading: "available a g b \<Longrightarrow> cs_Status (cap_state prov a g b) \<noteq> ''downloading''"
  using available_status by (simp add: state_available)

lemma unknown_means_no_size: "\<not> snd (cap_branch_size prov g b) \<Longrightarrow> cs_SizeBytes (cap_state prov a g b) \<le> 0"
  using size_bound[of a g b] known_positive[of g b] by simp

end

definition view_provider :: "snapshot \<Rightarrow> cache_provider" where
  "view_provider snap = \<lparr> cap_state = CacheStateOf snap, cap_usage = CacheDiskUsageBytes snap,
     cap_branch_size = BranchSizeBytes snap \<rparr>"

text \<open>A snapshot as \<open>refreshOnce\<close> builds it: entries come from \<open>fetchEntry\<close>.\<close>

definition entry_ok :: "CacheEntry \<Rightarrow> bool" where
  "entry_ok e \<longleftrightarrow> (ce_Available e \<longleftrightarrow> ce_Status e = ''available'')"

definition snapshot_ok :: "snapshot \<Rightarrow> bool" where
  "snapshot_ok snap \<longleftrightarrow> (\<forall>(a, m) \<in> set snap. \<forall>(k, e) \<in> set m. entry_ok e)"

lemma fetchEntry_ok: "entry_ok (fetchEntry fetch a g b)"
  by (auto simp: fetchEntry_def entry_ok_def Let_def
      split: sum.split option.split GameCacheStatus.split)

lemma fold_invariant: "(\<And>x s. x \<in> set xs \<Longrightarrow> P s \<Longrightarrow> P (f x s)) \<Longrightarrow> P s \<Longrightarrow> P (fold f xs s)"
  by (induction xs arbitrary: s) auto

lemma node_entries_ok: "\<forall>(k, e) \<in> set (node_entries fetch a bs). entry_ok e"
  unfolding node_entries_def
proof (rule fold_invariant[where P = "\<lambda>m. \<forall>(k, e) \<in> set m. entry_ok e"], goal_cases)
  case (1 x s)
  then show ?case
    using set_tbl_put_subset[of fst "(cache_key (fst x) (snd x), fetchEntry fetch a (fst x) (snd x))" s]
    by (fastforce simp: fetchEntry_ok split: prod.splits)
qed simp

lemma build_snapshot_ok: "snapshot_ok (build_snapshot fetch agents bs)"
  unfolding build_snapshot_def
proof (rule fold_invariant[where P = snapshot_ok], goal_cases)
  case (1 x s)
  then show ?case
    using set_tbl_put_subset[of fst "(x, node_entries fetch x bs)" s] node_entries_ok[of fetch x bs]
    by (fastforce simp: snapshot_ok_def)
qed (simp add: snapshot_ok_def)

text \<open>Every snapshot the view ever holds is well formed: it starts empty and is replaced.\<close>

lemma refreshOnce_ok:
  "snapshot_ok snap \<Longrightarrow> refreshOnce now fetch snap w = (snap', w', woke) \<Longrightarrow> snapshot_ok snap'"
  by (auto simp: refreshOnce_def Let_def build_snapshot_ok split: sum.splits if_splits)

lemma snap_entry_mem:
  assumes "snap_entry snap a g b = Some e"
  shows "\<exists>m. (a, m) \<in> set snap \<and> tbl_find fst (cache_key g b) m = Some (cache_key g b, e)"
proof -
  obtain x m where x: "tbl_find fst a snap = Some (x, m)"
    using assms by (auto simp: snap_entry_def split: option.splits)
  obtain y where y: "tbl_find fst (cache_key g b) m = Some (y, e)"
    using assms x by (auto simp: snap_entry_def)
  show ?thesis using tbl_find_SomeD[OF x] tbl_find_SomeD[OF y] y by auto
qed

lemma fold_max_ge:
  fixes f :: "'b \<Rightarrow> int option"
  shows "mx \<le> fold (\<lambda>x mx. case f x of None \<Rightarrow> mx | Some s \<Rightarrow> if s > mx then s else mx) xs mx
    \<and> (\<forall>x \<in> set xs. \<forall>s. f x = Some s \<longrightarrow>
         s \<le> fold (\<lambda>x mx. case f x of None \<Rightarrow> mx | Some s \<Rightarrow> if s > mx then s else mx) xs mx)"
proof (induction xs arbitrary: mx)
  case (Cons x xs)
  let ?mx = "case f x of None \<Rightarrow> mx | Some s \<Rightarrow> if s > mx then s else mx"
  have "mx \<le> ?mx \<and> (\<forall>s. f x = Some s \<longrightarrow> s \<le> ?mx)" by (auto split: option.splits)
  then show ?case using Cons[of ?mx] by auto
qed simp

lemma BranchSize_ge:
  "0 \<le> fst (BranchSizeBytes snap g b)"
  "(a, m) \<in> set snap \<Longrightarrow> entry_size (cache_key g b) m = Some s \<Longrightarrow> s \<le> fst (BranchSizeBytes snap g b)"
  using fold_max_ge[where mx = 0 and xs = snap and f = "\<lambda>x. entry_size (cache_key g b) (snd x)"]
  by (auto simp: BranchSizeBytes_def Let_def)

lemma CacheState_size_le: "cs_SizeBytes (CacheStateOf snap a g b) \<le> fst (BranchSizeBytes snap g b)"
proof (cases "snap_entry snap a g b")
  case None
  then show ?thesis by (simp add: CacheStateOf_def BranchSize_ge(1))
next
  case (Some e)
  then obtain m where m: "(a, m) \<in> set snap"
      "tbl_find fst (cache_key g b) m = Some (cache_key g b, e)"
    using snap_entry_mem by blast
  have "ce_SizeBytes e \<le> fst (BranchSizeBytes snap g b)"
    by (rule BranchSize_ge(2)[OF m(1)]) (simp add: m(2) entry_size_def)
  then show ?thesis using Some by (simp add: CacheStateOf_def)
qed

lemma CacheState_available:
  assumes "snapshot_ok snap" "cs_Available (CacheStateOf snap a g b)"
  shows "cs_Status (CacheStateOf snap a g b) = ''available''"
proof -
  obtain e where e: "snap_entry snap a g b = Some e" "ce_Available e"
    using assms(2) by (auto simp: CacheStateOf_def split: option.splits)
  then obtain m where "(a, m) \<in> set snap" "(cache_key g b, e) \<in> set m"
    using snap_entry_mem[OF e(1)] tbl_find_SomeD by fast
  then have "entry_ok e" using assms(1) by (fastforce simp: snapshot_ok_def)
  then show ?thesis using e by (simp add: CacheStateOf_def entry_ok_def)
qed

interpretation view: cache_status_provider
  "view_provider (build_snapshot fetch agents bs)" "CacheAvailable (build_snapshot fetch agents bs)"
proof (unfold_locales, goal_cases)
  case (1 a g b)
  show ?case by (simp add: view_provider_def CacheStateOf_def CacheAvailable_def split: option.splits)
next
  case (2 a g b)
  then show ?case by (simp add: view_provider_def CacheState_available[OF build_snapshot_ok])
next
  case (3 g b)
  show ?case by (simp add: view_provider_def BranchSizeBytes_def Let_def)
next
  case (4 a g b)
  show ?case by (simp add: view_provider_def CacheState_size_le)
qed

section \<open>When the queue is woken\<close>

definition available_in :: "snapshot \<Rightarrow> string \<Rightarrow> string \<Rightarrow> bool" where
  "available_in snap agent k =
    (case tbl_find fst agent snap of
       None \<Rightarrow> False
     | Some (_, m) \<Rightarrow> (case tbl_find fst k m of None \<Rightarrow> False | Some (_, e) \<Rightarrow> ce_Available e))"

lemma diff_node:
  "(case tbl_find fst a old of
      None \<Rightarrow> list_ex (\<lambda>(k, e). ce_Available e) m
    | Some (_, om) \<Rightarrow> list_ex (\<lambda>(k, e). ce_Available e \<and>
         (case tbl_find fst k om of None \<Rightarrow> True | Some (_, oe) \<Rightarrow> \<not> ce_Available oe)) m)
   \<longleftrightarrow> (\<exists>(k, e) \<in> set m. ce_Available e \<and> \<not> available_in old a k)"
proof (cases "tbl_find fst a old")
  case None
  then show ?thesis by (simp add: available_in_def list_ex_iff)
next
  case (Some r)
  obtain x om where r: "r = (x, om)" by (cases r)
  have "(case tbl_find fst k om of None \<Rightarrow> True | Some (_, oe) \<Rightarrow> \<not> ce_Available oe)
      = (\<not> available_in old a k)" for k
    using Some r by (cases "tbl_find fst k om") (auto simp: available_in_def)
  then show ?thesis by (simp add: Some r list_ex_iff)
qed

lemma diff_iff:
  "diff old next' \<longleftrightarrow>
     (\<exists>(a, m) \<in> set next'. \<exists>(k, e) \<in> set m. ce_Available e \<and> \<not> available_in old a k)"
  unfolding diff_def diff_node by (simp only: list_ex_iff)

text \<open>A refresh calls the ready callback (which wakes the queue) exactly when some cache of
  the new snapshot is available and was not available in the snapshot it replaces.\<close>

theorem refresh_wakes_iff_new_cache:
  "snd (snd (refreshOnce now fetch snap w)) =
    ((\<exists>(a, m) \<in> set (fst (refreshOnce now fetch snap w)). \<exists>(k, e) \<in> set m.
        ce_Available e \<and> \<not> available_in snap a k)
     \<and> db_fault w AgentListEnabled = None \<and> db_fault w GameList = None)"
proof (cases "db_fault w AgentListEnabled = None \<and> db_fault w GameList = None")
  case True
  define new where "new = build_snapshot fetch (map na_ID (filter (\<lambda>a. na_Status a = Enabled) (t_agents w)))
      (enabled_branches (t_games w) w)"
  have "refreshOnce now fetch snap w =
      (if diff snap new then (new, publish now EventCacheReady [] [] msg_cache_ready w, True)
       else (new, w, False))"
    using True
    by (simp add: refreshOnce_def AgentRepo_ListEnabledIDs_def GameRepo_ListAll_def guard_call_def
        Let_def new_def)
  moreover have "diff snap new = (\<exists>(a, m) \<in> set new. \<exists>(k, e) \<in> set m.
      ce_Available e \<and> \<not> available_in snap a k)" by (rule diff_iff)
  ultimately show ?thesis using True by (cases "diff snap new") (simp_all only: if_True if_False fst_conv snd_conv simp_thms)
next
  case False
  then show ?thesis
    by (auto simp: refreshOnce_def AgentRepo_ListEnabledIDs_def GameRepo_ListAll_def guard_call_def
        split: option.splits)
qed

end
