(* ===== verification/Candidates.thy ===== *)
theory Candidates
  imports Port_Plans Cache_View
begin

text \<open>
  The candidate nodes of a scheduling attempt (\<open>biz/candidate.go\<close>), the score
  (\<open>biz/scoring.go\<close>) and the hard constraints (\<open>biz/constraint.go\<close>).  Floating
  point operations round as in theory Float64, without fused multiply-add.  A
  quotient by the capacity of a node only matters for nodes that pass the
  resource constraint, whose capacities are positive (\<open>eligible_positive_capacity\<close>).
\<close>

section \<open>Scores\<close>

definition clamp01 :: "rat \<Rightarrow> rat" where
  "clamp01 v = (if v < 0 then 0 else if v > 1 then 1 else v)"

record ScoreWeights =
  sw_Region :: rat
  sw_Bandwidth :: rat
  sw_Locality :: rat
  sw_History :: rat
  sw_Balance :: rat
  sw_Degraded :: rat
  sw_Frequency :: rat
  sw_Cache :: rat

definition DefaultScoreWeights :: ScoreWeights where
  "DefaultScoreWeights = \<lparr> sw_Region = 1, sw_Bandwidth = flit (8 / 10), sw_Locality = flit (5 / 10),
     sw_History = flit (6 / 10), sw_Balance = flit (7 / 10), sw_Degraded = 2, sw_Frequency = 0,
     sw_Cache = 2 \<rparr>"

record ScoreInput =
  si_RegionMatch :: bool
  si_LastNodeMatch :: bool
  si_Utilization :: rat
  si_HistoryUtil :: rat
  si_BandwidthRatio :: rat
  si_Degraded :: bool
  si_SingleThreaded :: bool
  si_CoreFrequencyGHz :: rat
  si_MinFreqGHz :: rat
  si_MaxFreqGHz :: rat
  si_CacheAffinity :: bool

text \<open>The map \<open>parts\<close>; a missing dimension counts 0.\<close>

definition score_parts :: "ScoreInput \<Rightarrow> (string \<times> rat) list" where
  "score_parts i =
    (if si_RegionMatch i then [(''region'', 1)] else []) @
    (if si_LastNodeMatch i then [(''locality'', 1)] else []) @
    [(''balance'', fsub 1 (clamp01 (si_Utilization i))),
     (''history'', fsub 1 (clamp01 (si_HistoryUtil i))),
     (''bandwidth'', clamp01 (si_BandwidthRatio i))] @
    (if si_CacheAffinity i then [(''cache'', 1)] else []) @
    (if si_Degraded i then [(''degraded'', - 1)] else []) @
    (if si_SingleThreaded i \<and> si_MaxFreqGHz i > si_MinFreqGHz i
     then [(''frequency'', fdiv (fsub (si_CoreFrequencyGHz i) (si_MinFreqGHz i))
                                (fsub (si_MaxFreqGHz i) (si_MinFreqGHz i)))] else [])"

definition part :: "string \<Rightarrow> (string \<times> rat) list \<Rightarrow> rat" where
  "part k ps = (case map_of ps k of None \<Rightarrow> 0 | Some v \<Rightarrow> v)"

definition ComputeScore :: "ScoreInput \<Rightarrow> ScoreWeights \<Rightarrow> rat \<times> (string \<times> rat) list" where
  "ComputeScore i w =
    (let ps = score_parts i in
     (fadd (fadd (fadd (fadd (fadd (fadd (fadd
        (fmul (sw_Region w) (part ''region'' ps))
        (fmul (sw_Bandwidth w) (part ''bandwidth'' ps)))
        (fmul (sw_Locality w) (part ''locality'' ps)))
        (fmul (sw_History w) (part ''history'' ps)))
        (fmul (sw_Balance w) (part ''balance'' ps)))
        (fmul (sw_Degraded w) (part ''degraded'' ps)))
        (fmul (sw_Frequency w) (part ''frequency'' ps)))
        (fmul (sw_Cache w) (part ''cache'' ps)), ps))"

section \<open>Candidates\<close>

record NodeCandidate =
  nc_Agent :: NodeAgent
  nc_Node :: Node
  nc_Capacity :: NodeCapacity
  nc_Excluded :: bool
  nc_Reasons :: "string list"
  nc_CacheState :: CacheState
  nc_Score :: rat
  nc_HistoryUtil :: rat
  nc_BandwidthRatio :: rat

definition bandwidthRatio :: "Node \<Rightarrow> rat \<Rightarrow> rat \<Rightarrow> rat" where
  "bandwidthRatio n rxP95 txP95 =
    (let rxLimit = f64 (nd_NetRxLimitMbps n); txLimit = f64 (nd_NetTxLimitMbps n) in
     if rxLimit \<le> 0 \<or> txLimit \<le> 0 then 0
     else let rx0 = f64 (nd_BandwidthRxReservedMbps n);
              rxUsed = (if rxP95 > rx0 then rxP95 else rx0);
              tx0 = f64 (nd_BandwidthTxReservedMbps n);
              txUsed = (if txP95 > tx0 then txP95 else tx0);
              rxRatio = fdiv (fsub rxLimit rxUsed) rxLimit;
              txRatio = fdiv (fsub txLimit txUsed) txLimit
          in if rxRatio < txRatio then clamp01 rxRatio else clamp01 txRatio)"

text \<open>The index \<open>int(float64(len-1) * 0.95)\<close> of the sorted values.\<close>

definition percentile95 :: "rat list \<Rightarrow> rat" where
  "percentile95 v =
    (if v = [] then 0
     else sort v ! nat (ftrunc (fmul (f64 (int (length v) - 1)) (flit (95 / 100)))))"

definition bandwidthP95 :: "NodeResourceSample list \<Rightarrow> rat \<times> rat" where
  "bandwidthP95 samples =
    (if samples = [] then (0, 0)
     else (percentile95 (map (\<lambda>s. fdiv (fmul (f64 (rs_NetRxBps s)) 8) 1000000) samples),
           percentile95 (map (\<lambda>s. fdiv (fmul (f64 (rs_NetTxBps s)) 8) 1000000) samples)))"

definition avgUtilization :: "NodeResourceSample list \<Rightarrow> Node \<Rightarrow> rat" where
  "avgUtilization samples node =
    (if samples = [] then 0
     else let cpuCap = f64 (cpuCapacityMilli node); memCap = f64 (memoryCapacityBytes node);
              cpuSum = fold (\<lambda>s a. fadd a (f64 (rs_CPUUsedMilli s))) samples 0;
              memSum = fold (\<lambda>s a. fadd a (f64 (rs_MemoryUsedBytes s))) samples 0;
              n = f64 (int (length samples));
              cpu = fdiv (fdiv cpuSum n) cpuCap;
              mem = fdiv (fdiv memSum n) memCap
          in if cpu > mem then cpu else mem)"

definition no_cache_state :: CacheState where
  "no_cache_state = \<lparr> cs_Status = [], cs_Available = False, cs_SizeBytes = 0 \<rparr>"

definition make_candidate :: "rat \<Rightarrow> time \<Rightarrow> NodeAgent \<Rightarrow> Node \<Rightarrow> 'a db_scheme \<Rightarrow> NodeCandidate" where
  "make_candidate target since agent node w =
    (let c = \<lparr> nc_Agent = agent, nc_Node = node, nc_Capacity = ComputeCapacity node target,
               nc_Excluded = False, nc_Reasons = [], nc_CacheState = no_cache_state, nc_Score = 0,
               nc_HistoryUtil = 0, nc_BandwidthRatio = 0 \<rparr>
     in case SampleRepo_ListSince (fmtID (nd_Id node)) since w of
          Inr (s # ss) \<Rightarrow>
            (let samples = s # ss; (rx, tx) = bandwidthP95 samples
             in c\<lparr>nc_HistoryUtil := avgUtilization samples node,
                  nc_BandwidthRatio := bandwidthRatio node rx tx\<rparr>)
        | _ \<Rightarrow> c\<lparr>nc_BandwidthRatio := bandwidthRatio node 0 0\<rparr>)"

lemma make_candidate_simps:
  "nc_Agent (make_candidate t s a n w) = a" "nc_Node (make_candidate t s a n w) = n"
  "nc_Capacity (make_candidate t s a n w) = ComputeCapacity n t"
  "nc_Excluded (make_candidate t s a n w) = False" "nc_Reasons (make_candidate t s a n w) = []"
  by (simp_all add: make_candidate_def Let_def split: sum.splits list.splits prod.splits)

definition loadCandidates :: "rat \<Rightarrow> duration \<Rightarrow> time \<Rightarrow> 'a db_scheme \<Rightarrow> gerr + NodeCandidate list" where
  "loadCandidates target window now w =
    (case AgentRepo_ListAll w of
       Inl e \<Rightarrow> Inl e
     | Inr agents \<Rightarrow>
       (case NodeRepo_ListAll w of
          Inl e \<Rightarrow> Inl e
        | Inr nodes \<Rightarrow>
            Inr (concat (map (\<lambda>agent. case tbl_find node_key (na_NodeId agent) nodes of
                    None \<Rightarrow> []
                  | Some node \<Rightarrow> [make_candidate target (now - window) agent node w]) agents))))"

section \<open>Hard constraints\<close>

text \<open>Each constraint answers the candidate, with the reason of an exclusion, and the verdict.\<close>

definition exclude :: "string list \<Rightarrow> NodeCandidate \<Rightarrow> NodeCandidate" where
  "exclude rs c = c\<lparr>nc_Excluded := True, nc_Reasons := nc_Reasons c @ rs\<rparr>"

definition constraintEnabled :: "NodeCandidate \<Rightarrow> NodeCandidate \<times> bool" where
  "constraintEnabled c =
    (if na_Status (nc_Agent c) \<noteq> Enabled then (exclude [msg_not_enabled] c, False) else (c, True))"

definition constraintHealth :: "duration \<Rightarrow> time \<Rightarrow> NodeCandidate \<Rightarrow> NodeCandidate \<times> bool" where
  "constraintHealth window now c =
    (if na_HealthStatus (nc_Agent c) \<in> {HealthHealthy, HealthDegraded}
     then (case na_LastHeartbeatAt (nc_Agent c) of
             None \<Rightarrow> (exclude [msg_no_heartbeat] c, False)
           | Some t \<Rightarrow> if now - t > window then (exclude [msg_stale_heartbeat] c, False) else (c, True))
     else (exclude [msg_unhealthy] c, False))"

definition constraintResources :: "ResourceRequest \<Rightarrow> NodeCandidate \<Rightarrow> NodeCandidate \<times> bool" where
  "constraintResources req c =
    (if ResourcesSatisfied (nc_Capacity c) req then (c, True)
     else (exclude (Shortages (nc_Capacity c) req) c, False))"

definition plan_ctx_for :: "(nat \<Rightarrow> string) \<Rightarrow> NodeAgent \<Rightarrow> GameInstance \<Rightarrow> plan_ctx" where
  "plan_ctx_for gen agent inst =
     \<lparr> pc_instance = gi_ID inst, pc_agent = na_ID agent, pc_gen = gen \<rparr>"

definition constraintPorts :: "(nat \<Rightarrow> string) \<Rightarrow> GameInstance \<Rightarrow> Game \<Rightarrow> 'a db_scheme
    \<Rightarrow> NodeCandidate \<Rightarrow> NodeCandidate \<times> bool" where
  "constraintPorts gen inst game w c =
    (case PlanPorts (plan_ctx_for gen (nc_Agent c) inst) game w of
       Inl e \<Rightarrow> (exclude [msg_ports @ error_text e] c, False)
     | Inr ms \<Rightarrow> (c, True))"

text \<open>\<open>uint64(x)\<close> of a float.\<close>

definition fu64 :: "rat \<Rightarrow> int" where
  "fu64 x = (if 0 \<le> x \<and> x < 2 ^ 64 then \<lfloor>x\<rfloor> else 2 ^ 63)"

definition cache_budget :: "int \<Rightarrow> rat \<Rightarrow> int \<times> int \<Rightarrow> int" where
  "cache_budget alloc ratio usage =
    (let used = u64 (fst usage + snd usage);
         buffer = fu64 (fmul (f64 alloc) ratio)
     in if alloc \<le> u64 (used + buffer) then 0 else u64 (u64 (alloc - used) - buffer))"

definition is_warm :: "CacheState \<Rightarrow> bool" where
  "is_warm st \<longleftrightarrow> cs_Available st \<or> cs_Status st = ''downloading''"

definition constraintCacheDisk :: "cache_provider \<Rightarrow> rat \<Rightarrow> string \<Rightarrow> string
    \<Rightarrow> NodeCandidate \<Rightarrow> NodeCandidate \<times> bool" where
  "constraintCacheDisk prov ratio game branch c =
    (if is_warm (nc_CacheState c) then (c, True)
     else let (needs, known) = cap_branch_size prov game branch in
       if \<not> known \<or> needs = 0 then (c, True)
       else let alloc = u64 (DiskAllocatableBytes (nc_Capacity c));
                budget = cache_budget alloc ratio (cap_usage prov (na_ID (nc_Agent c)))
            in if needs > budget
               then (exclude [msg_cache_disk1 @ show_int needs @ msg_cache_disk2 @ show_int budget
                              @ '' bytes''] c, False)
               else (c, True))"

fun pressureStatusName :: "NodePressureStatus \<Rightarrow> string" where
  "pressureStatusName PressureNormal = ''Normal''"
| "pressureStatusName PressureWarning = ''Warning''"
| "pressureStatusName PressureCritical = ''Critical''"

definition constraintPressure :: "NodeCandidate \<Rightarrow> NodeCandidate \<times> bool" where
  "constraintPressure c =
    (if nd_PressureStatus (nc_Node c) = PressureNormal then (c, True)
     else (exclude [msg_pressure1 @ pressureStatusName (nd_PressureStatus (nc_Node c)) @ msg_close_paren] c,
           False))"

text \<open>The settings of the scheduler (\<open>ResourceAwareScheduler\<close>), with its cache provider.\<close>

record sched_cfg =
  sc_weights :: ScoreWeights
  sc_utilizationTarget :: rat
  sc_regionForce :: bool
  sc_reservationRetry :: int
  sc_historyWindow :: duration
  sc_healthStaleWindow :: duration
  sc_cacheSpillWatermark :: rat
  sc_cacheUpdateBufferRatio :: rat
  sc_cacheProvider :: cache_provider
  sc_statRepo :: bool     \<comment> \<open>is there a statistics repository?\<close>

definition applyConstraints :: "sched_cfg \<Rightarrow> time \<Rightarrow> (nat \<Rightarrow> string) \<Rightarrow> GameInstance \<Rightarrow> Game
    \<Rightarrow> string \<Rightarrow> ResourceRequest \<Rightarrow> 'a db_scheme \<Rightarrow> NodeCandidate \<Rightarrow> NodeCandidate \<times> bool" where
  "applyConstraints cfg now gen inst game branch req w c0 =
    (let (c1, ok1) = constraintEnabled c0 in if \<not> ok1 then (c1, False) else
     let (c2, ok2) = constraintHealth (sc_healthStaleWindow cfg) now c1 in if \<not> ok2 then (c2, False) else
     let (c3, ok3) = constraintResources req c2 in if \<not> ok3 then (c3, False) else
     let (c4, ok4) = constraintPorts gen inst game w c3 in if \<not> ok4 then (c4, False) else
     let c5 = c4\<lparr>nc_CacheState :=
                   cap_state (sc_cacheProvider cfg) (na_ID (nc_Agent c4)) (gi_GameID inst) branch\<rparr> in
     if branch = [] then (exclude [msg_no_branch] c5, False) else
     let (c6, ok6) = constraintCacheDisk (sc_cacheProvider cfg) (sc_cacheUpdateBufferRatio cfg)
                       (gi_GameID inst) branch c5 in if \<not> ok6 then (c6, False) else
     constraintPressure c6)"

definition isResourceOnlyReasons :: "string list \<Rightarrow> bool" where
  "isResourceOnlyReasons reasons =
     list_all (\<lambda>r. \<not> (str_contains r key_not_enabled \<or> str_contains r key_health
                      \<or> str_contains r key_unresolved \<or> str_contains r key_branch)) reasons"

section \<open>Bounds\<close>

lemma clamp01_bounds: "0 \<le> clamp01 v \<and> clamp01 v \<le> 1"
  by (simp add: clamp01_def)

lemma clamp01_id: "0 \<le> v \<Longrightarrow> v \<le> 1 \<Longrightarrow> clamp01 v = v"
  by (simp add: clamp01_def)

lemma one_minus_clamp: "0 \<le> fsub 1 (clamp01 v) \<and> fsub 1 (clamp01 v) \<le> 1"
  using f64_round_nonneg[of "1 - clamp01 v"] f64_round_le_int[of "1 - clamp01 v" 1] clamp01_bounds[of v]
  by (simp add: fsub_def)

lemma bandwidthRatio_bounds: "0 \<le> bandwidthRatio n rx tx \<and> bandwidthRatio n rx tx \<le> 1"
  by (simp add: bandwidthRatio_def Let_def clamp01_bounds)

text \<open>The index of the percentile is inside the slice.\<close>

lemma flit_unit: "0 \<le> q \<Longrightarrow> q \<le> 1 \<Longrightarrow> 0 \<le> flit q \<and> flit q \<le> 1"
  using f64_round_nonneg[of q] f64_round_le_int[of q 1] by (simp add: flit_def)

lemma percentile_index:
  assumes "0 < n" "n \<le> 2 ^ 53"
  shows "nat (ftrunc (fmul (f64 (int n - 1)) (flit (95 / 100)))) < n"
proof -
  let ?t = "flit (95 / 100)"
  have t: "0 \<le> ?t" "?t \<le> 1" using flit_unit[of "95 / 100"] by auto
  have e: "f64 (int n - 1) = of_int (int n - 1)" using assms by (intro f64_exact) auto
  have "of_int (int n - 1) * ?t \<le> of_int (int n - 1) * 1"
    using t assms by (intro mult_left_mono) auto
  then have up: "fmul (f64 (int n - 1)) ?t \<le> of_int (int n - 1)"
    unfolding fmul_def e using assms by (intro f64_round_le_int) auto
  have lo: "0 \<le> fmul (f64 (int n - 1)) ?t" unfolding e using t assms by (intro fmul_nonneg) auto
  have "fmul (f64 (int n - 1)) ?t \<le> 2 ^ 53"
  proof -
    have "(of_int (int n - 1) :: rat) \<le> of_int (2 ^ 53)" using assms by (simp only: of_int_le_iff) simp
    then show ?thesis using up by simp
  qed
  then have "ftrunc (fmul (f64 (int n - 1)) ?t) = \<lfloor>fmul (f64 (int n - 1)) ?t\<rfloor>"
    using lo by (intro ftrunc_nonneg_floor) auto
  then show ?thesis using up lo assms by (simp add: nat_less_iff floor_less_iff)
qed

lemma percentile95_mem: "v \<noteq> [] \<Longrightarrow> length v \<le> 2 ^ 53 \<Longrightarrow> percentile95 v \<in> set v"
proof -
  assume v: "v \<noteq> []" "length v \<le> 2 ^ 53"
  then have "nat (ftrunc (fmul (f64 (int (length v) - 1)) (flit (95 / 100)))) < length (sort v)"
    using percentile_index[of "length v"] by simp
  then have "sort v ! nat (ftrunc (fmul (f64 (int (length v) - 1)) (flit (95 / 100)))) \<in> set (sort v)"
    by (rule nth_mem)
  then show ?thesis using v(1) by (simp add: percentile95_def)
qed

section \<open>What passing the constraints means\<close>

text \<open>The cold node's disk budget holds the branch, or its size is unknown, or the node is warm.\<close>

definition cache_fits :: "cache_provider \<Rightarrow> rat \<Rightarrow> string \<Rightarrow> string \<Rightarrow> NodeCandidate \<Rightarrow> bool" where
  "cache_fits prov ratio game branch c =
    (if is_warm (cap_state prov (na_ID (nc_Agent c)) game branch) then True
     else let (needs, known) = cap_branch_size prov game branch in
       if \<not> known \<or> needs = 0 then True
       else needs \<le> cache_budget (u64 (DiskAllocatableBytes (nc_Capacity c))) ratio
                      (cap_usage prov (na_ID (nc_Agent c))))"

definition heartbeat_fresh :: "duration \<Rightarrow> time \<Rightarrow> NodeAgent \<Rightarrow> bool" where
  "heartbeat_fresh window now a =
    (case na_LastHeartbeatAt a of None \<Rightarrow> False | Some t \<Rightarrow> now - t \<le> window)"

definition ports_plannable :: "(nat \<Rightarrow> string) \<Rightarrow> GameInstance \<Rightarrow> Game \<Rightarrow> 'a db_scheme \<Rightarrow> NodeAgent \<Rightarrow> bool" where
  "ports_plannable gen inst game w a =
    (case PlanPorts (plan_ctx_for gen a inst) game w of Inl e \<Rightarrow> False | Inr ms \<Rightarrow> True)"

definition eligible_for :: "sched_cfg \<Rightarrow> time \<Rightarrow> (nat \<Rightarrow> string) \<Rightarrow> GameInstance \<Rightarrow> Game \<Rightarrow> string
    \<Rightarrow> ResourceRequest \<Rightarrow> 'a db_scheme \<Rightarrow> NodeCandidate \<Rightarrow> bool" where
  "eligible_for cfg now gen inst game branch req w c \<longleftrightarrow>
     na_Status (nc_Agent c) = Enabled \<and>
     na_HealthStatus (nc_Agent c) \<in> {HealthHealthy, HealthDegraded} \<and>
     heartbeat_fresh (sc_healthStaleWindow cfg) now (nc_Agent c) \<and>
     ResourcesSatisfied (nc_Capacity c) req \<and>
     ports_plannable gen inst game w (nc_Agent c) \<and>
     branch \<noteq> [] \<and>
     cache_fits (sc_cacheProvider cfg) (sc_cacheUpdateBufferRatio cfg) (gi_GameID inst) branch c \<and>
     nd_PressureStatus (nc_Node c) = PressureNormal"

lemmas constraint_defs = constraintEnabled_def constraintHealth_def constraintResources_def
  constraintPorts_def constraintCacheDisk_def constraintPressure_def exclude_def

lemma eligible_iff:
  "snd (applyConstraints cfg now gen inst game branch req w c) =
   eligible_for cfg now gen inst game branch req w c"
  by (auto simp: applyConstraints_def constraint_defs eligible_for_def cache_fits_def
      heartbeat_fresh_def ports_plannable_def Let_def split: option.splits sum.splits prod.splits)

text \<open>C9: a node is offered to an instance exactly when its agent is enabled, healthy or degraded
  and recently heard of, its remaining allocatable resources cover the request, a port plan for the
  instance exists on it, the branch is known, a cold node has the disk for the download, and the
  node is not under pressure.\<close>

theorem applyConstraints_iff:
  "snd (applyConstraints cfg now gen inst game branch req w c) =
   eligible_for cfg now gen inst game branch req w c"
  by (rule eligible_iff)

lemma applyConstraints_True:
  "applyConstraints cfg now gen inst game branch req w c = (c', True) \<Longrightarrow>
   c' = c\<lparr>nc_CacheState := cap_state (sc_cacheProvider cfg) (na_ID (nc_Agent c)) (gi_GameID inst) branch\<rparr>"
  by (auto simp: applyConstraints_def constraint_defs Let_def
      split: option.splits sum.splits prod.splits if_splits)

lemma constraint_frame [frame_simps]:
  "nc_Agent (fst (constraintEnabled c)) = nc_Agent c"
  "nc_Node (fst (constraintEnabled c)) = nc_Node c"
  "nc_Capacity (fst (constraintEnabled c)) = nc_Capacity c"
  "nc_Agent (fst (constraintHealth win now c)) = nc_Agent c"
  "nc_Node (fst (constraintHealth win now c)) = nc_Node c"
  "nc_Capacity (fst (constraintHealth win now c)) = nc_Capacity c"
  "nc_Agent (fst (constraintResources req c)) = nc_Agent c"
  "nc_Node (fst (constraintResources req c)) = nc_Node c"
  "nc_Capacity (fst (constraintResources req c)) = nc_Capacity c"
  "nc_Agent (fst (constraintPorts gen inst game w c)) = nc_Agent c"
  "nc_Node (fst (constraintPorts gen inst game w c)) = nc_Node c"
  "nc_Capacity (fst (constraintPorts gen inst game w c)) = nc_Capacity c"
  "nc_Agent (fst (constraintCacheDisk prov ratio g b c)) = nc_Agent c"
  "nc_Node (fst (constraintCacheDisk prov ratio g b c)) = nc_Node c"
  "nc_Capacity (fst (constraintCacheDisk prov ratio g b c)) = nc_Capacity c"
  "nc_Agent (fst (constraintPressure c)) = nc_Agent c"
  "nc_Node (fst (constraintPressure c)) = nc_Node c"
  "nc_Capacity (fst (constraintPressure c)) = nc_Capacity c"
  by (simp_all add: constraint_defs Let_def split: option.splits sum.splits prod.splits)

lemma applyConstraints_frame:
  "nc_Agent (fst (applyConstraints cfg now gen inst game branch req w c)) = nc_Agent c \<and>
   nc_Node (fst (applyConstraints cfg now gen inst game branch req w c)) = nc_Node c \<and>
   nc_Capacity (fst (applyConstraints cfg now gen inst game branch req w c)) = nc_Capacity c"
  by (simp add: applyConstraints_def Let_def case_prod_beta constraint_frame exclude_def)

text \<open>The quotients by a node's capacity are only formed for positive capacities.\<close>

lemma eligible_positive_capacity:
  assumes "ResourcesSatisfied (ComputeCapacity n t) req"
    and "0 < CPUMilli req" "0 < MemoryBytes req"
    and "0 \<le> nd_CPUReservedMilli n" "0 \<le> nd_MemoryReservedBytes n"
    and "0 \<le> cpuCapacityMilli n" "cpuCapacityMilli n \<le> 2 ^ 53"
    and "0 \<le> memoryCapacityBytes n" "memoryCapacityBytes n \<le> 2 ^ 53"
    and "in_i64 (capacityLimit (cpuCapacityMilli n) t - nd_CPUReservedMilli n)"
    and "in_i64 (capacityLimit (memoryCapacityBytes n) t - nd_MemoryReservedBytes n)"
  shows "0 < cpuCapacityMilli n \<and> 0 < memoryCapacityBytes n"
  using assms capacityLimit_range[of "cpuCapacityMilli n" t] capacityLimit_range[of "memoryCapacityBytes n" t]
  by (auto simp: ResourcesSatisfied_def ComputeCapacity_def Let_def wrap64_id)

end
