(* ===== verification/Queueing.thy ===== *)
theory Queueing
  imports Examples Messages "HOL-Library.Multiset"
begin

text \<open>
  The waiting queue: \<open>biz/queue.go\<close> (\<open>QueueManager\<close>: enqueue, exponential backoff,
  timeout, cancel) and \<open>biz/queue_waker.go\<close> (\<open>QueueWaker\<close>: one round wakes the due
  rows in priority order and hands the instances to the dispatcher).  The
  dispatcher is known to the waker only through \<open>DispatchRequester\<close>, which is the
  locale \<open>dispatch_requester\<close> here; the dispatcher interprets it.
\<close>

section \<open>Dispatchable statuses (\<open>reconcile_dispatcher.go\<close>)\<close>

definition dispatchableStatuses :: "InstanceStatus list" where
  "dispatchableStatuses = [StatusPending, StatusScheduling, StatusQueued, StatusCacheWarming,
     StatusPreparingBuild, StatusRestoringSnapshot, StatusStarting, StatusStopping, StatusCleaning]"

definition isDispatchableStatus :: "InstanceStatus \<Rightarrow> bool" where
  "isDispatchableStatus s \<longleftrightarrow> s \<in> set dispatchableStatuses"

lemma isDispatchableStatus_iff [simp]:
  "isDispatchableStatus s \<longleftrightarrow> s \<notin> {StatusRunning, StatusStopped, Failed}"
  by (cases s) (auto simp: isDispatchableStatus_def dispatchableStatuses_def)

section \<open>The queue manager\<close>

record QueueManager =
  qm_backoffBase :: duration
  qm_backoffMax :: duration
  qm_timeout :: duration

definition NewQueueManager :: "duration \<Rightarrow> duration \<Rightarrow> duration \<Rightarrow> QueueManager" where
  "NewQueueManager base mx timeout =
    \<lparr> qm_backoffBase = (if base \<le> 0 then 15 * second else base),
      qm_backoffMax = (if mx \<le> 0 then 5 * minute else mx),
      qm_timeout = (if timeout \<le> 0 then 30 * minute else timeout) \<rparr>"

definition QM_Enqueue :: "QueueManager \<Rightarrow> time \<Rightarrow> GameInstance \<Rightarrow> string
    \<Rightarrow> 'a db_scheme \<Rightarrow> 'a db_scheme \<times> gerr option" where
  "QM_Enqueue qm now inst reason w =
    (let priority = (if gi_Priority inst \<le> 0 then 100 else gi_Priority inst)
     in QueueRepo_Enqueue
          \<lparr> sq_InstanceID = gi_ID inst, sq_Priority = priority, sq_Reason = reason, sq_Attempts = 0,
            sq_WakeAt = now + qm_backoffBase qm, sq_QueuedAt = now, sq_TimeoutAt = now + qm_timeout qm \<rparr> w)"

text \<open>\<open>backoff\<close>: the loop doubles an \<open>int64\<close> duration.\<close>

function backoff_loop :: "duration \<Rightarrow> int \<Rightarrow> int \<Rightarrow> duration \<Rightarrow> duration" where
  "backoff_loop mx n i d =
    (if i < n \<and> d < mx
     then let d' = wrap64 (d * 2) in if d' \<ge> mx then mx else backoff_loop mx n (i + 1) d'
     else if d > mx then mx else d)"
  by pat_completeness auto
termination by (relation "measure (\<lambda>(mx, n, i, d). nat (n - i))") auto

declare backoff_loop.simps [simp del]

definition backoff :: "QueueManager \<Rightarrow> int \<Rightarrow> duration" where
  "backoff qm n =
    (if n \<le> 1 then qm_backoffBase qm
     else backoff_loop (qm_backoffMax qm) n 1 (qm_backoffBase qm))"

text \<open>\<open>OnStillQueued\<close> answers whether the wait has timed out; \<open>now\<close> and \<open>now'\<close> are its
  two readings of the clock.\<close>

definition OnStillQueued :: "QueueManager \<Rightarrow> time \<Rightarrow> time \<Rightarrow> string \<Rightarrow> bool
    \<Rightarrow> 'a db_scheme \<Rightarrow> 'a db_scheme \<times> bool \<times> gerr option" where
  "OnStillQueued qm now now' i eventWake w =
    (case QueueRepo_Get i w of
       Inl e \<Rightarrow> (w, True, None)
     | Inr q \<Rightarrow>
        if now > sq_TimeoutAt q then (w, True, None)
        else let attempts = (if eventWake then 1 else sq_Attempts q + 1);
                 wakeAt = now' + backoff qm attempts;
                 (w', err) = QueueRepo_UpdateWake i wakeAt attempts w
             in (w', False, err))"

definition QM_Cancel :: "string \<Rightarrow> 'a db_scheme \<Rightarrow> 'a db_scheme \<times> gerr option" where
  "QM_Cancel i w = QueueRepo_Dequeue i w"

definition QM_Count :: "'a db_scheme \<Rightarrow> gerr + int" where
  "QM_Count w = QueueRepo_Count w"

definition QM_Get :: "string \<Rightarrow> 'a db_scheme \<Rightarrow> gerr + SchedulingQueue" where
  "QM_Get i w = QueueRepo_Get i w"

definition QM_TimeoutAt :: "QueueManager \<Rightarrow> time \<Rightarrow> time" where
  "QM_TimeoutAt qm now = now + qm_timeout qm"

section \<open>Backoff\<close>

lemma backoff_loop_closed:
  assumes "0 < d" "d \<le> mx" "mx \<le> 2 ^ 62"
  shows "backoff_loop mx n i d = min (d * 2 ^ nat (n - i)) mx"
  using assms
proof (induction mx n i d rule: backoff_loop.induct)
  case (1 mx n i d)
  show ?case
  proof (cases "i < n \<and> d < mx")
    case True
    have w: "wrap64 (d * 2) = d * 2" using True 1(2,4) by (intro wrap64_id) (auto simp: in_i64_def)
    have e: "nat (n - i) = Suc (nat (n - (i + 1)))" using True by arith
    show ?thesis
    proof (cases "d * 2 \<ge> mx")
      case big: True
      have "d * 2 * 1 \<le> d * 2 * 2 ^ nat (n - (i + 1))" using 1(2) by (intro mult_left_mono) auto
      then have "mx \<le> d * 2 ^ nat (n - i)" unfolding e using big by (simp add: mult.assoc)
      then show ?thesis using True big by (subst backoff_loop.simps) (simp add: w)
    next
      case False
      have "backoff_loop mx n (i + 1) (d * 2) = min (d * 2 * 2 ^ nat (n - (i + 1))) mx"
        using 1(1)[OF True w[symmetric]] False 1(2-4) by simp
      then show ?thesis using True False by (subst backoff_loop.simps) (simp add: w e mult.assoc)
    qed
  next
    case False
    have "d * 2 ^ nat (n - i) \<ge> d" using 1(2) by simp
    then show ?thesis using False 1(2,3) by (subst backoff_loop.simps) auto
  qed
qed

text \<open>The retry delay of the \<open>n\<close>-th attempt is \<open>min(base * 2^(n-1), max)\<close>: the int64
  doubling never overflows on the way, because the loop stops at the maximum.\<close>

theorem backoff_closed_form:
  assumes "0 < qm_backoffBase qm" "qm_backoffBase qm \<le> qm_backoffMax qm" "qm_backoffMax qm \<le> 2 ^ 62"
    and "1 \<le> n"
  shows "backoff qm n = min (qm_backoffBase qm * 2 ^ nat (n - 1)) (qm_backoffMax qm)"
proof (cases "n = 1")
  case True
  then show ?thesis using assms by (simp add: backoff_def)
next
  case False
  then show ?thesis using assms backoff_loop_closed[of "qm_backoffBase qm" "qm_backoffMax qm" n 1]
    by (simp add: backoff_def)
qed

theorem backoff_closed_form_witness:
  "backoff (NewQueueManager 0 0 0) 3 = 60 * second \<and> backoff (NewQueueManager 0 0 0) 9 = 5 * minute"
  using backoff_closed_form[of "NewQueueManager 0 0 0" 3] backoff_closed_form[of "NewQueueManager 0 0 0" 9]
  by (simp add: NewQueueManager_def second_def minute_def)

lemma backoff_bounds:
  assumes "0 < qm_backoffBase qm" "qm_backoffBase qm \<le> qm_backoffMax qm" "qm_backoffMax qm \<le> 2 ^ 62"
  shows "qm_backoffBase qm \<le> backoff qm n \<and> backoff qm n \<le> qm_backoffMax qm"
proof (cases "1 \<le> n")
  case True
  have "qm_backoffBase qm * 1 \<le> qm_backoffBase qm * 2 ^ nat (n - 1)"
    using assms by (intro mult_left_mono) auto
  then show ?thesis using assms backoff_closed_form[OF assms True] by simp
qed (use assms in \<open>simp add: backoff_def\<close>)

section \<open>Retry or timeout\<close>

lemma find_queue_UpdateWake:
  "tbl_find sq_InstanceID k (tbl_upd (\<lambda>q. sq_InstanceID q = i)
      (\<lambda>q. q\<lparr>sq_WakeAt := t, sq_Attempts := n\<rparr>) rows) =
   (if k = i then map_option (\<lambda>q. q\<lparr>sq_WakeAt := t, sq_Attempts := n\<rparr>) (tbl_find sq_InstanceID k rows)
    else tbl_find sq_InstanceID k rows)"
  by (rule tbl_find_upd_key) simp

text \<open>A retry that is still short of resources either reports the timeout and leaves the queue
  alone, or counts one more attempt and schedules the next wake-up after at least the base delay and
  at most the maximum, keeping the row's deadline.\<close>

theorem OnStillQueued_backs_off:
  assumes "QueueRepo_Get i w = Inr q" and "OnStillQueued qm now now' i False w = (w', False, None)"
    and "0 < qm_backoffBase qm" "qm_backoffBase qm \<le> qm_backoffMax qm" "qm_backoffMax qm \<le> 2 ^ 62"
  shows "now \<le> sq_TimeoutAt q \<and> (\<exists>q'. tbl_find sq_InstanceID i (t_queue w') = Some q' \<and>
    sq_Attempts q' = sq_Attempts q + 1 \<and> sq_TimeoutAt q' = sq_TimeoutAt q \<and>
    now' + qm_backoffBase qm \<le> sq_WakeAt q' \<and> sq_WakeAt q' \<le> now' + qm_backoffMax qm)"
proof -
  have t: "\<not> now > sq_TimeoutAt q" using assms(1,2) by (auto simp: OnStillQueued_def split: if_splits)
  have q: "tbl_find sq_InstanceID i (t_queue w) = Some q" using assms(1) by (simp add: QueueRepo_Get_def)
  have "w' = w\<lparr>t_queue := tbl_upd (\<lambda>q. sq_InstanceID q = i)
      (\<lambda>q'. q'\<lparr>sq_WakeAt := now' + backoff qm (sq_Attempts q + 1), sq_Attempts := sq_Attempts q + 1\<rparr>)
      (t_queue w)\<rparr>"
    using assms(1,2) t
    by (auto simp: OnStillQueued_def Let_def QueueRepo_UpdateWake_def guard_write_def
        split: option.splits)
  then show ?thesis using t q backoff_bounds[OF assms(3-5)]
    by (simp add: find_queue_UpdateWake)
qed

definition ex_row :: SchedulingQueue where
  "ex_row = \<lparr> sq_InstanceID = ''i1'', sq_Priority = 100, sq_Reason = [], sq_Attempts = 1,
     sq_WakeAt = 5, sq_QueuedAt = 0, sq_TimeoutAt = 1000 \<rparr>"

theorem OnStillQueued_backs_off_witness:
  "\<exists>q'. tbl_find sq_InstanceID ''i1''
      (t_queue (fst (OnStillQueued (NewQueueManager 0 0 0) 10 10 ''i1'' False (ex_db\<lparr>t_queue := [ex_row]\<rparr>)))) = Some q'
    \<and> sq_Attempts q' = 2"
proof -
  let ?w = "ex_db\<lparr>t_queue := [ex_row]\<rparr>"
  let ?r = "OnStillQueued (NewQueueManager 0 0 0) 10 10 ''i1'' False ?w"
  have g: "QueueRepo_Get ''i1'' ?w = Inr ex_row"
    by (simp add: QueueRepo_Get_def guard_call_def ex_row_def tbl_find_Cons found_def)
  have r: "?r = (fst ?r, False, None)"
    by (simp add: OnStillQueued_def g Let_def QueueRepo_UpdateWake_def guard_write_def)
       (simp add: ex_row_def)
  show ?thesis using OnStillQueued_backs_off[OF g r]
    by (auto simp: NewQueueManager_def second_def minute_def ex_row_def)
qed

section \<open>The waker\<close>

definition NewQueueWaker_maxPerRound :: "int \<Rightarrow> int" where
  "NewQueueWaker_maxPerRound n = (if n \<le> 0 then 50 else n)"

text \<open>\<open>Wake\<close>: the channel of capacity 1 either holds a pending event or not.\<close>

definition Wake :: "bool \<Rightarrow> bool" where
  "Wake pending_event = True"

fun wake_loop :: "(GameInstance \<Rightarrow> 'a db_scheme \<Rightarrow> 'a db_scheme \<times> gerr option) \<Rightarrow> int
    \<Rightarrow> string list \<Rightarrow> int \<Rightarrow> SchedulingQueue list \<Rightarrow> 'a db_scheme \<Rightarrow> 'a db_scheme \<times> int" where
  "wake_loop request mx seen woke [] w = (w, woke)"
| "wake_loop request mx seen woke (q # qs) w =
    (if woke \<ge> mx \<or> sq_InstanceID q \<in> set seen
     then wake_loop request mx seen woke qs w
     else let seen' = sq_InstanceID q # seen in
       case InstanceRepo_GetByID (sq_InstanceID q) w of
         Inl e \<Rightarrow> wake_loop request mx seen' woke qs (fst (QueueRepo_Dequeue (sq_InstanceID q) w))
       | Inr inst \<Rightarrow>
          if gi_Status inst \<noteq> StatusQueued
          then wake_loop request mx seen' woke qs (fst (QueueRepo_Dequeue (sq_InstanceID q) w))
          else wake_loop request mx seen' (woke + 1) qs (fst (request inst w)))"

definition wakeOnce :: "(GameInstance \<Rightarrow> 'a db_scheme \<Rightarrow> 'a db_scheme \<times> gerr option) \<Rightarrow> int
    \<Rightarrow> time \<Rightarrow> 'a db_scheme \<Rightarrow> 'a db_scheme" where
  "wakeOnce request mx now w =
    (case QueueRepo_ListDue now w of
       Inl e \<Rightarrow> w
     | Inr due \<Rightarrow> if due = [] then w else fst (wake_loop request mx [] 0 due w))"

text \<open>
  What the waker relies on: a dispatchable instance is accepted and added to the
  pending ones, and a request leaves the tables alone.
\<close>

locale dispatch_requester =
  fixes request :: "GameInstance \<Rightarrow> 'a db_scheme \<Rightarrow> 'a db_scheme \<times> gerr option"
    and pending :: "'a db_scheme \<Rightarrow> GameInstance multiset"
  assumes accepts: "isDispatchableStatus (gi_Status i) \<Longrightarrow> pending (fst (request i w)) = add_mset i (pending w)"
    and accepted: "isDispatchableStatus (gi_Status i) \<Longrightarrow> snd (request i w) = None"
    and keeps_queue: "t_queue (fst (request i w)) = t_queue w"
    and keeps_instances: "t_instances (fst (request i w)) = t_instances w"
    and keeps_fault: "db_fault (fst (request i w)) = db_fault w"
    and pending_queue: "pending (w\<lparr>t_queue := rows\<rparr>) = pending w"
begin

lemma dequeue_frame:
  "pending (fst (QueueRepo_Dequeue k w)) = pending w"
  "t_instances (fst (QueueRepo_Dequeue k w)) = t_instances w"
  "db_fault (fst (QueueRepo_Dequeue k w)) = db_fault w"
  "set (t_queue (fst (QueueRepo_Dequeue k w))) \<subseteq> set (t_queue w)"
  by (auto simp: QueueRepo_Dequeue_def fst_guard_write pending_queue)

lemma GetByID_cong:
  "t_instances w = t_instances w' \<Longrightarrow> db_fault w = db_fault w' \<Longrightarrow>
     InstanceRepo_GetByID k w = InstanceRepo_GetByID k w'"
  by (simp add: InstanceRepo_GetByID_def guard_call_def)

lemma wake_loop_frame:
  "t_instances (fst (wake_loop request mx seen woke qs w)) = t_instances w
   \<and> db_fault (fst (wake_loop request mx seen woke qs w)) = db_fault w
   \<and> set (t_queue (fst (wake_loop request mx seen woke qs w))) \<subseteq> set (t_queue w)"
proof (induction qs arbitrary: seen woke w)
  case (Cons q qs)
  show ?case
    using Cons.IH[of seen woke w]
      Cons.IH[of "sq_InstanceID q # seen" woke "fst (QueueRepo_Dequeue (sq_InstanceID q) w)"]
      Cons.IH[of "sq_InstanceID q # seen" "woke + 1" "fst (request inst w)" for inst]
      dequeue_frame[of "sq_InstanceID q" w]
    by (auto simp: Let_def keeps_queue keeps_instances keeps_fault split: sum.split)
qed simp

lemma wake_loop_pending:
  "\<exists>new. pending (fst (wake_loop request mx seen woke qs w)) = pending w + new \<and>
     (\<forall>i \<in># new. i \<in> set (t_instances w) \<and> gi_Status i = StatusQueued) \<and>
     int (size new) \<le> max 0 (mx - woke)"
proof (induction qs arbitrary: seen woke w)
  case Nil
  show ?case by (auto intro: exI[of _ "{#}"])
next
  case (Cons q qs)
  let ?k = "sq_InstanceID q"
  consider (skip) "woke \<ge> mx \<or> ?k \<in> set seen"
    | (gone) "\<not> (woke \<ge> mx \<or> ?k \<in> set seen)"
        "\<forall>inst. InstanceRepo_GetByID ?k w = Inr inst \<longrightarrow> gi_Status inst \<noteq> StatusQueued"
    | (wake) inst where "\<not> (woke \<ge> mx \<or> ?k \<in> set seen)"
        "InstanceRepo_GetByID ?k w = Inr inst" "gi_Status inst = StatusQueued"
    by blast
  then show ?case
  proof cases
    case skip
    then show ?thesis using Cons.IH[of seen woke w] by simp
  next
    case gone
    have "wake_loop request mx seen woke (q # qs) w =
        wake_loop request mx (?k # seen) woke qs (fst (QueueRepo_Dequeue ?k w))"
      using gone by (auto simp: Let_def split: sum.split)
    then show ?thesis using Cons.IH[of "?k # seen" woke "fst (QueueRepo_Dequeue ?k w)"]
      by (simp add: dequeue_frame)
  next
    case wake
    have step: "wake_loop request mx seen woke (q # qs) w =
        wake_loop request mx (?k # seen) (woke + 1) qs (fst (request inst w))"
      using wake by (simp add: Let_def)
    obtain new where new:
      "pending (fst (wake_loop request mx (?k # seen) (woke + 1) qs (fst (request inst w)))) =
         pending (fst (request inst w)) + new"
      "\<forall>i \<in># new. i \<in> set (t_instances w) \<and> gi_Status i = StatusQueued"
      "int (size new) \<le> max 0 (mx - (woke + 1))"
      using Cons.IH[of "?k # seen" "woke + 1" "fst (request inst w)"] by (auto simp: keeps_instances)
    have mem: "inst \<in> set (t_instances w)"
      using wake(2) by (auto simp: InstanceRepo_GetByID_def dest: tbl_find_SomeD)
    show ?thesis
      by (rule exI[of _ "add_mset inst new"])
         (use new mem wake in \<open>auto simp: step accepts\<close>)
  qed
qed

lemma wakeOnce_pending:
  "\<exists>new. pending (wakeOnce request mx now w) = pending w + new \<and>
     (\<forall>i \<in># new. i \<in> set (t_instances w) \<and> gi_Status i = StatusQueued) \<and>
     int (size new) \<le> max 0 mx"
  using wake_loop_pending[of mx "[]" 0]
  by (auto simp: wakeOnce_def split: sum.split intro: exI[of _ "{#}"])

lemma wakeOnce_frame:
  "t_instances (wakeOnce request mx now w) = t_instances w
   \<and> set (t_queue (wakeOnce request mx now w)) \<subseteq> set (t_queue w)"
  using wake_loop_frame[of mx "[]" 0] by (auto simp: wakeOnce_def split: sum.split)

text \<open>A due row whose instance cannot be read, or is not queued any more, is removed.\<close>

lemma wake_loop_removes:
  assumes "q \<in> set qs" "sq_InstanceID q \<notin> set seen" "woke + int (length qs) \<le> mx"
    and "\<forall>inst. InstanceRepo_GetByID (sq_InstanceID q) w = Inr inst \<longrightarrow> gi_Status inst \<noteq> StatusQueued"
    and "db_fault w (QueueDequeue (sq_InstanceID q)) = None"
  shows "sq_InstanceID q \<notin> sq_InstanceID ` set (t_queue (fst (wake_loop request mx seen woke qs w)))"
  using assms
proof (induction qs arbitrary: seen woke w)
  case (Cons p qs)
  let ?k = "sq_InstanceID p"
  have nw: "\<not> woke \<ge> mx" using Cons.prems(3) by simp
  show ?case
  proof (cases "?k = sq_InstanceID q")
    case True
    let ?w1 = "fst (QueueRepo_Dequeue ?k w)"
    have "wake_loop request mx seen woke (p # qs) w =
        wake_loop request mx (?k # seen) woke qs ?w1"
      using Cons.prems(2,4) True nw by (auto simp: Let_def split: sum.split)
    moreover have "sq_InstanceID q \<notin> sq_InstanceID ` set (t_queue ?w1)"
      using Cons.prems(5) True by (auto simp: QueueRepo_Dequeue_def fst_guard_write)
    ultimately show ?thesis
      using wake_loop_frame[of mx "?k # seen" woke qs ?w1] by auto
  next
    case False
    then have q: "q \<in> set qs" "sq_InstanceID q \<notin> set (?k # seen)" using Cons.prems(1,2) by auto
    have cong: "InstanceRepo_GetByID (sq_InstanceID q) w' = InstanceRepo_GetByID (sq_InstanceID q) w"
      if "t_instances w' = t_instances w" "db_fault w' = db_fault w" for w'
      using GetByID_cong that by blast
    have skip: "sq_InstanceID q \<notin> sq_InstanceID ` set (t_queue (fst (wake_loop request mx seen woke qs w)))"
      by (rule Cons.IH) (use Cons.prems q in auto)
    have deq: "sq_InstanceID q \<notin> sq_InstanceID `
        set (t_queue (fst (wake_loop request mx (?k # seen) woke qs (fst (QueueRepo_Dequeue ?k w)))))"
      by (rule Cons.IH) (use Cons.prems q cong[OF dequeue_frame(2,3)] dequeue_frame(3) in auto)
    have req: "sq_InstanceID q \<notin> sq_InstanceID `
        set (t_queue (fst (wake_loop request mx (?k # seen) (woke + 1) qs (fst (request inst w)))))" for inst
      by (rule Cons.IH) (use Cons.prems q cong[OF keeps_instances keeps_fault] keeps_fault in auto)
    show ?thesis using skip deq req by (auto simp: Let_def split: sum.split)
  qed
qed simp

lemma wakeOnce_removes:
  assumes "q \<in> set (t_queue w)" "sq_WakeAt q \<le> now" "int (length (t_queue w)) \<le> mx"
    and "\<forall>inst. InstanceRepo_GetByID (sq_InstanceID q) w = Inr inst \<longrightarrow> gi_Status inst \<noteq> StatusQueued"
    and "db_fault w (QueueDequeue (sq_InstanceID q)) = None" "db_fault w QueueListDue = None"
  shows "sq_InstanceID q \<notin> sq_InstanceID ` set (t_queue (wakeOnce request mx now w))"
proof -
  let ?due = "sort_key queue_order (filter (\<lambda>q. sq_WakeAt q \<le> now) (t_queue w))"
  have due: "QueueRepo_ListDue now w = Inr ?due"
    using assms(6) by (simp add: QueueRepo_ListDue_def)
  have q: "q \<in> set ?due" using assms(1,2) by simp
  then have ne: "?due \<noteq> []" by (metis empty_iff empty_set)
  have len: "0 + int (length ?due) \<le> mx"
    by (rule order_trans[OF _ assms(3)]) simp
  have "sq_InstanceID q \<notin> sq_InstanceID ` set (t_queue (fst (wake_loop request mx [] 0 ?due w)))"
    by (rule wake_loop_removes[OF q _ len assms(4,5)]) simp
  then show ?thesis using ne by (simp add: wakeOnce_def due)
qed

end

end
