(* ===== verification/Scheduler.thy ===== *)
theory Scheduler
  imports Candidates Queueing Event_Bus "HOL-Library.Product_Lexorder"
begin

text \<open>
  The resource aware scheduler (\<open>biz/scheduler.go\<close>, \<open>biz/scheduler_impl.go\<close>): an
  attempt loads the candidates, filters them by the hard constraints, picks the best
  by score, plans its ports and reserves it in one transaction; a lost race
  starts the next attempt.  What other goroutines and replicas do to the data base
  while an attempt runs is a parameter (\<open>en_before_load\<close>, \<open>en_before_reserve\<close>), and so
  are the clock and the generated identifiers of each attempt.  The audit log is
  left out.
\<close>

datatype ScheduleOutcome = OutcomeScheduled | OutcomeQueued | OutcomeFailed

fun outcome_String :: "ScheduleOutcome \<Rightarrow> string" where
  "outcome_String OutcomeScheduled = ''scheduled''"
| "outcome_String OutcomeQueued = ''queued''"
| "outcome_String OutcomeFailed = ''failed''"

datatype ScheduleFailCode = FailCodeNone | FailCodeNoNodeAgent | FailCodeNoGameCache
  | FailCodeRegionUnreachable | FailCodeConfigError | FailCodeResourceShortage
  | FailCodeQueueTimeout | FailCodeStaleReservation

record NodeExclusion =
  ne_NodeAgentID :: string
  ne_Reasons :: "string list"

record ScheduleResult =
  sr_Outcome :: ScheduleOutcome
  sr_NodeAgentID :: string
  sr_ReasonCode :: ScheduleFailCode
  sr_Reason :: string
  sr_Excluded :: "NodeExclusion list"
  sr_Score :: rat
  sr_Scores :: "(string \<times> rat) list"
  sr_ResourceReq :: ResourceRequest
  sr_CacheNeeded :: bool
  sr_BranchName :: string
  sr_BuildID :: string

definition zero_request :: ResourceRequest where
  "zero_request = \<lparr> CPUMilli = 0, MemoryBytes = 0, DiskBytes = 0, BandwidthRxMbps = 0, BandwidthTxMbps = 0 \<rparr>"

definition result_of :: "ScheduleOutcome \<Rightarrow> ScheduleFailCode \<Rightarrow> string \<Rightarrow> NodeExclusion list \<Rightarrow> ScheduleResult" where
  "result_of out code reason excl = \<lparr> sr_Outcome = out, sr_NodeAgentID = [], sr_ReasonCode = code,
     sr_Reason = reason, sr_Excluded = excl, sr_Score = 0, sr_Scores = [],
     sr_ResourceReq = zero_request, sr_CacheNeeded = False, sr_BranchName = [], sr_BuildID = [] \<rparr>"

definition failed_with :: "ScheduleFailCode \<Rightarrow> string \<Rightarrow> ScheduleResult" where
  "failed_with code reason = result_of OutcomeFailed code reason []"

text \<open>The state adds the in-memory counters \<open>attempts\<close>.\<close>

record sched = ctl +
  sch_attempts :: "(string \<times> int) list"

record 'w sched_env =
  en_now :: "nat \<Rightarrow> time"
  en_gen :: "nat \<Rightarrow> nat \<Rightarrow> string"
  en_before_load :: "nat \<Rightarrow> 'w \<Rightarrow> 'w"
  en_before_reserve :: "nat \<Rightarrow> 'w \<Rightarrow> 'w"

section \<open>Construction\<close>

definition NewResourceAwareScheduler :: "sched_cfg \<Rightarrow> sched_cfg" where
  "NewResourceAwareScheduler c =
    (let w = (if sc_weights c = \<lparr> sw_Region = 0, sw_Bandwidth = 0, sw_Locality = 0, sw_History = 0,
                  sw_Balance = 0, sw_Degraded = 0, sw_Frequency = 0, sw_Cache = 0 \<rparr>
              then DefaultScoreWeights else sc_weights c);
         t = sc_utilizationTarget c; m = sc_cacheSpillWatermark c
     in c\<lparr>sc_weights := w,
          sc_utilizationTarget := (if t \<le> 0 \<or> t > 1 then defaultUtilizationTarget else t),
          sc_reservationRetry := (if sc_reservationRetry c \<le> 0 then 3 else sc_reservationRetry c),
          sc_historyWindow := (if sc_historyWindow c \<le> 0 then 15 * minute else sc_historyWindow c),
          sc_healthStaleWindow := (if sc_healthStaleWindow c \<le> 0 then 30 * second else sc_healthStaleWindow c),
          sc_cacheSpillWatermark := (if m \<le> 0 \<or> m > 1 then flit (8 / 10) else m),
          sc_cacheUpdateBufferRatio :=
            (if sc_cacheUpdateBufferRatio c \<le> 0 then flit (15 / 100) else sc_cacheUpdateBufferRatio c)\<rparr>)"

section \<open>Request and branch\<close>

definition config_request :: "GameContainerConfig \<Rightarrow> ResourceRequest" where
  "config_request config = \<lparr> CPUMilli = gc_CPURequestMilli config, MemoryBytes = gc_MemoryRequestBytes config,
     DiskBytes = gc_DiskRequestBytes config, BandwidthRxMbps = gc_BandwidthRxMbps config,
     BandwidthTxMbps = gc_BandwidthTxMbps config \<rparr>"

definition override_request :: "ResourceRequest \<Rightarrow> ResourceRequest \<Rightarrow> ResourceRequest" where
  "override_request o' req = req\<lparr>
     CPUMilli := (if CPUMilli o' > 0 then CPUMilli o' else CPUMilli req),
     MemoryBytes := (if MemoryBytes o' > 0 then MemoryBytes o' else MemoryBytes req),
     DiskBytes := (if DiskBytes o' > 0 then DiskBytes o' else DiskBytes req),
     BandwidthRxMbps := (if BandwidthRxMbps o' > 0 then BandwidthRxMbps o' else BandwidthRxMbps req),
     BandwidthTxMbps := (if BandwidthTxMbps o' > 0 then BandwidthTxMbps o' else BandwidthTxMbps req)\<rparr>"

definition default_request :: "ResourceRequest \<Rightarrow> ResourceRequest" where
  "default_request req = req\<lparr>
     CPUMilli := (if CPUMilli req \<le> 0 then 1000 else CPUMilli req),
     MemoryBytes := (if MemoryBytes req \<le> 0 then 2 ^ 30 else MemoryBytes req),
     DiskBytes := (if DiskBytes req \<le> 0 then 10 * 2 ^ 30 else DiskBytes req)\<rparr>"

definition resolveRequest :: "GameInstance \<Rightarrow> GameContainerConfig \<Rightarrow> ResourceRequest" where
  "resolveRequest inst config =
     default_request
       (case gi_ResourceReq inst of
          Some o' \<Rightarrow> if gi_ResourceOverride inst then override_request o' (config_request config)
                     else config_request config
        | None \<Rightarrow> config_request config)"

definition steamPublicBranchName :: string where
  "steamPublicBranchName = ''public''"

fun branch_loop :: "string \<Rightarrow> SteamBranch list \<Rightarrow> string" where
  "branch_loop fallback [] = fallback"
| "branch_loop fallback (b # bs) =
    (if sb_Status b \<noteq> Enable then branch_loop fallback bs
     else if sb_BranchName b = steamPublicBranchName then sb_BranchName b
     else branch_loop (if fallback = [] then sb_BranchName b else fallback) bs)"

definition resolveBranch :: "GameInstance \<Rightarrow> 'a db_scheme \<Rightarrow> string" where
  "resolveBranch inst w =
    (case BranchRepo_ListByGame (gi_GameID inst) w of Inl e \<Rightarrow> [] | Inr bs \<Rightarrow> branch_loop [] bs)"

section \<open>Statistics\<close>

definition incr_attempt :: "string \<Rightarrow> (string \<times> int) list \<Rightarrow> (string \<times> int) list" where
  "incr_attempt k m =
    (case map_of m k of None \<Rightarrow> m @ [(k, 1)]
     | Some n \<Rightarrow> map (\<lambda>(k', v). if k' = k then (k', wrap64 (v + 1)) else (k', v)) m)"

text \<open>\<open>record\<close>: the counter in memory, then the one in the data base, whose error is logged.\<close>

definition record_outcome :: "sched_cfg \<Rightarrow> string \<Rightarrow> 'a sched_scheme \<Rightarrow> 'a sched_scheme" where
  "record_outcome cfg out w =
    (let w1 = w\<lparr>sch_attempts := incr_attempt out (sch_attempts w)\<rparr>
     in if sc_statRepo cfg then fst (StatRepo_Incr out w1) else w1)"

definition Stats :: "sched_cfg \<Rightarrow> 'a sched_scheme \<Rightarrow> (string \<times> int) list" where
  "Stats cfg w =
    (if sc_statRepo cfg
     then (case StatRepo_All w of Inr (x # xs) \<Rightarrow> x # xs | _ \<Rightarrow> sch_attempts w)
     else sch_attempts w)"

section \<open>Choice of the best node\<close>

definition utilizationOf :: "NodeCandidate \<Rightarrow> rat" where
  "utilizationOf c =
    (let cpuCap = f64 (cpuCapacityMilli (nc_Node c)) in
     if cpuCap \<le> 0 then 0
     else let reserved = f64 (nd_CPUReservedMilli (nc_Node c)); used = f64 (nd_CPUUsedMilli (nc_Node c))
          in if used > reserved then fdiv used cpuCap else fdiv reserved cpuCap)"

definition freq_step :: "NodeCandidate \<Rightarrow> rat \<times> rat \<Rightarrow> rat \<times> rat" where
  "freq_step c mm =
    (let f = nd_CoreFrequency (nc_Node c); (mn, mx) = mm
     in (if mn = 0 \<or> f < mn then f else mn, if f > mx then f else mx))"

definition freqRange :: "NodeCandidate list \<Rightarrow> rat \<times> rat" where
  "freqRange cs = fold freq_step cs (0, 0)"

definition score_input :: "sched_cfg \<Rightarrow> GameInstance \<Rightarrow> GameContainerConfig \<Rightarrow> rat \<times> rat \<Rightarrow> NodeCandidate \<Rightarrow> ScoreInput" where
  "score_input cfg inst config fr c =
    \<lparr> si_RegionMatch = (gi_Region inst \<noteq> [] \<and> nd_Location (nc_Node c) = gi_Region inst),
      si_LastNodeMatch = (gi_NodeAgentID inst = Some (na_ID (nc_Agent c))),
      si_Utilization = utilizationOf c,
      si_HistoryUtil = nc_HistoryUtil c,
      si_BandwidthRatio = nc_BandwidthRatio c,
      si_Degraded = (na_HealthStatus (nc_Agent c) = HealthDegraded),
      si_SingleThreaded = gc_SingleThreaded config,
      si_CoreFrequencyGHz = nd_CoreFrequency (nc_Node c),
      si_MinFreqGHz = fst fr,
      si_MaxFreqGHz = snd fr,
      si_CacheAffinity = (is_warm (nc_CacheState c) \<and> utilizationOf c \<le> sc_cacheSpillWatermark cfg) \<rparr>"

definition scored :: "sched_cfg \<Rightarrow> GameInstance \<Rightarrow> GameContainerConfig \<Rightarrow> rat \<times> rat \<Rightarrow> NodeCandidate \<Rightarrow> NodeCandidate" where
  "scored cfg inst config fr c =
     c\<lparr>nc_Score := fst (ComputeScore (score_input cfg inst config fr c) (sc_weights cfg))\<rparr>"

text \<open>The order of \<open>sort.SliceStable\<close>: higher score first, then the smaller identifier.\<close>

definition rank_key :: "NodeCandidate \<Rightarrow> rat \<times> string" where
  "rank_key c = (- nc_Score c, na_ID (nc_Agent c))"

definition pickBest :: "sched_cfg \<Rightarrow> GameInstance \<Rightarrow> GameContainerConfig \<Rightarrow> NodeCandidate list \<Rightarrow> NodeCandidate" where
  "pickBest cfg inst config eligible =
     hd (sort_key rank_key (map (scored cfg inst config (freqRange eligible)) eligible))"

section \<open>No candidate\<close>

definition hasRegionMatch :: "NodeCandidate list \<Rightarrow> string \<Rightarrow> bool" where
  "hasRegionMatch cs region \<longleftrightarrow> region = [] \<or> (\<exists>c \<in> set cs. nd_Location (nc_Node c) = region)"

definition buildExclusions :: "NodeCandidate list \<Rightarrow> NodeExclusion list" where
  "buildExclusions cs =
     map (\<lambda>c. \<lparr> ne_NodeAgentID = na_ID (nc_Agent c), ne_Reasons = nc_Reasons c \<rparr>) (filter nc_Excluded cs)"

definition classifyNoCandidate ::
  "sched_cfg \<Rightarrow> GameInstance \<Rightarrow> NodeCandidate list \<Rightarrow> bool \<Rightarrow> string \<Rightarrow> 'a sched_scheme
   \<Rightarrow> 'a sched_scheme \<times> ScheduleResult" where
  "classifyNoCandidate cfg inst cs allResourceOnly branch w =
    (let excl = buildExclusions cs in
     if cs = [] then
       (record_outcome cfg ''failed'' w, result_of OutcomeFailed FailCodeNoNodeAgent msg_no_agent excl)
     else if branch = [] then
       (record_outcome cfg ''failed'' w, result_of OutcomeFailed FailCodeNoGameCache msg_no_branch_any excl)
     else if sc_regionForce cfg \<and> \<not> hasRegionMatch cs (gi_Region inst) then
       (record_outcome cfg ''failed'' w,
        result_of OutcomeFailed FailCodeRegionUnreachable (msg_region1 @ gi_Region inst @ msg_region2) excl)
     else if allResourceOnly then
       (record_outcome cfg ''queued'' w, result_of OutcomeQueued FailCodeResourceShortage msg_shortage excl)
     else
       (record_outcome cfg ''failed'' w, result_of OutcomeFailed FailCodeNoGameCache msg_structural excl))"

section \<open>Schedule\<close>

text \<open>The verbs \<open>%.2f\<close> (the exact value rounded half to even) and \<open>%v\<close> of a Boolean.\<close>

definition show_2f :: "rat \<Rightarrow> string" where
  "show_2f x =
    (let n = nat (rhe (\<bar>x\<bar> * 100)); frac = n mod 100
     in (if x < 0 then ''-'' else []) @ show_nat (n div 100) @ ''.'' @
        [digit (frac div 10), digit (frac mod 10)])"

definition show_bool :: "bool \<Rightarrow> string" where
  "show_bool b = (if b then ''true'' else ''false'')"

text \<open>The filter: every candidate with its exclusion, the eligible ones, and whether the
  excluded ones are excluded for recoverable reasons only.\<close>

definition filter_step ::
  "sched_cfg \<Rightarrow> time \<Rightarrow> (nat \<Rightarrow> string) \<Rightarrow> GameInstance \<Rightarrow> Game \<Rightarrow> string \<Rightarrow> ResourceRequest
   \<Rightarrow> 'a db_scheme \<Rightarrow> NodeCandidate list \<Rightarrow> (NodeCandidate \<times> bool) list" where
  "filter_step cfg now gen inst game branch req w cs =
     map (applyConstraints cfg now gen inst game branch req w) cs"

definition eligible_of :: "(NodeCandidate \<times> bool) list \<Rightarrow> NodeCandidate list" where
  "eligible_of vs = map fst (filter snd vs)"

definition all_resource_only :: "(NodeCandidate \<times> bool) list \<Rightarrow> bool" where
  "all_resource_only vs = list_all (\<lambda>(c, ok). ok \<or> isResourceOnlyReasons (nc_Reasons c)) vs"

definition reserve_request ::
  "sched_cfg \<Rightarrow> GameInstance \<Rightarrow> NodeCandidate \<Rightarrow> ResourceRequest \<Rightarrow> ContainerPortMapping list \<Rightarrow> ReserveTxRequest" where
  "reserve_request cfg inst best req ms =
    \<lparr> rt_NodeID = node_key (nc_Node best), rt_InstanceID = gi_ID inst,
      rt_NodeAgentID = na_ID (nc_Agent best), rt_Req = req, rt_PortMappings = ms,
      rt_NewStatus = (if is_warm (nc_CacheState best) then StatusPreparingBuild else StatusCacheWarming),
      rt_UtilizationTarget = sc_utilizationTarget cfg \<rparr>"

definition scheduled_result ::
  "NodeCandidate \<Rightarrow> NodeCandidate list \<Rightarrow> ResourceRequest \<Rightarrow> string \<Rightarrow> int \<Rightarrow> ScheduleResult" where
  "scheduled_result best cs req branch build =
    \<lparr> sr_Outcome = OutcomeScheduled, sr_NodeAgentID = na_ID (nc_Agent best),
      sr_ReasonCode = FailCodeNone, sr_Reason = [], sr_Excluded = buildExclusions cs,
      sr_Score = nc_Score best, sr_Scores = [(''score'', nc_Score best)], sr_ResourceReq = req,
      sr_CacheNeeded = (\<not> is_warm (nc_CacheState best)), sr_BranchName = branch,
      sr_BuildID = show_int build \<rparr>"

text \<open>One pass of the retry loop: \<open>None\<close> is \<open>continue\<close>.\<close>

definition schedule_attempt ::
  "sched_cfg \<Rightarrow> ('a sched_scheme) sched_env \<Rightarrow> nat \<Rightarrow> GameInstance \<Rightarrow> Game \<Rightarrow> GameContainerConfig \<Rightarrow> string \<Rightarrow> int
   \<Rightarrow> ResourceRequest \<Rightarrow> 'a sched_scheme \<Rightarrow> 'a sched_scheme \<times> (gerr + ScheduleResult) option" where
  "schedule_attempt cfg env k inst game config branch build req w0 =
    (let w = en_before_load env k w0; now = en_now env k; gen = en_gen env k in
     case loadCandidates (sc_utilizationTarget cfg) (sc_historyWindow cfg) now w of
       Inl e \<Rightarrow> (w, Some (Inl e))
     | Inr cs \<Rightarrow>
       let vs = filter_step cfg now gen inst game branch req w cs;
           candidates = map fst vs; eligible = eligible_of vs
       in if eligible = [] then
            let (w1, res) = classifyNoCandidate cfg inst candidates (all_resource_only vs) branch w;
                w2 = publish now (if sr_Outcome res = OutcomeQueued then EventInstanceQueued
                                  else EventInstanceScheduleFailed) (gi_ID inst) [] (sr_Reason res) w1
            in (w2, Some (Inr res))
          else
            let best = pickBest cfg inst config eligible in
            case PlanPorts (plan_ctx_for gen (nc_Agent best) inst) game w of
              Inl e \<Rightarrow> (w, None)
            | Inr ms \<Rightarrow>
              let (w1, err) = TryReserve now (reserve_request cfg inst best req ms)
                                (en_before_reserve env k w)
              in case err of
                   Some e \<Rightarrow> if errors_is e ErrReservationConflict then (w1, None)
                             else (w1, Some (Inl e))
                 | None \<Rightarrow>
                   let w2 = record_outcome cfg ''scheduled'' w1;
                       w3 = publish now EventInstanceScheduled (gi_ID inst) (na_ID (nc_Agent best))
                              (''score='' @ show_2f (nc_Score best) @ '' cacheNeeded='' @
                               show_bool (\<not> is_warm (nc_CacheState best))) w2
                   in (w3, Some (Inr (scheduled_result best candidates req branch build))))"

fun schedule_loop ::
  "sched_cfg \<Rightarrow> ('a sched_scheme) sched_env \<Rightarrow> nat list \<Rightarrow> GameInstance \<Rightarrow> Game \<Rightarrow> GameContainerConfig \<Rightarrow> string \<Rightarrow> int
   \<Rightarrow> ResourceRequest \<Rightarrow> 'a sched_scheme \<Rightarrow> 'a sched_scheme \<times> (gerr + ScheduleResult)" where
  "schedule_loop cfg env [] inst game config branch build req w =
     (record_outcome cfg ''failed'' w, Inr (failed_with FailCodeResourceShortage msg_retry_limit))"
| "schedule_loop cfg env (k # ks) inst game config branch build req w =
    (case schedule_attempt cfg env k inst game config branch build req w of
       (w1, Some r) \<Rightarrow> (w1, r)
     | (w1, None) \<Rightarrow> schedule_loop cfg env ks inst game config branch build req w1)"

definition branch_build :: "GameInstance \<Rightarrow> string \<Rightarrow> 'a db_scheme \<Rightarrow> int" where
  "branch_build inst branch w =
    (if branch = [] then 0
     else case BranchRepo_GetByGameAndBranch (gi_GameID inst) branch w of
            Inl e \<Rightarrow> 0 | Inr b \<Rightarrow> sb_LastBuildId b)"

definition Schedule ::
  "sched_cfg \<Rightarrow> ('a sched_scheme) sched_env \<Rightarrow> GameInstance \<Rightarrow> 'a sched_scheme
   \<Rightarrow> 'a sched_scheme \<times> (gerr + ScheduleResult)" where
  "Schedule cfg env inst w =
    (case GameRepo_GetByID (gi_GameID inst) w of
       Inl e \<Rightarrow> (w, Inl (Wrapped ''load game: '' e []))
     | Inr game \<Rightarrow>
       (case ConfigRepo_GetByID (gm_ContainerConfigID game) w of
          Inl e \<Rightarrow> (w, Inl (Wrapped ''load container config: '' e []))
        | Inr config \<Rightarrow>
          let req = resolveRequest inst config in
          if gc_SingleThreaded config \<and> (CPUMilli req < 1000 \<or> CPUMilli req mod 1000 \<noteq> 0) then
            (publish (en_now env 0) EventInstanceScheduleFailed (gi_ID inst) [] msg_whole_core
               (record_outcome cfg ''failed'' w),
             Inr (failed_with FailCodeConfigError msg_whole_core))
          else let branch = resolveBranch inst w; build = branch_build inst branch w in
            if branch \<noteq> [] \<and> build = 0 then
              (record_outcome cfg ''failed'' w, Inr (failed_with FailCodeNoGameCache msg_no_buildid))
            else schedule_loop cfg env [0..<Suc (nat (sc_reservationRetry cfg))]
                   inst game config branch build req w))"

section \<open>Preview, cancellation, statistics\<close>

record PreviewNode =
  pn_NodeAgentID :: string
  pn_NodeID :: string
  pn_IP :: string
  pn_Location :: string
  pn_Eligible :: bool
  pn_Reasons :: "string list"
  pn_Score :: rat

record PreviewResult =
  pr_Outcome :: ScheduleOutcome
  pr_Reason :: string
  pr_Selected :: string
  pr_Nodes :: "PreviewNode list"

definition preview_node :: "NodeCandidate \<times> bool \<Rightarrow> PreviewNode" where
  "preview_node v = \<lparr> pn_NodeAgentID = na_ID (nc_Agent (fst v)), pn_NodeID = node_key (nc_Node (fst v)),
     pn_IP = nd_Ip (nc_Node (fst v)), pn_Location = nd_Location (nc_Node (fst v)),
     pn_Eligible = snd v, pn_Reasons = (if snd v then [] else nc_Reasons (fst v)), pn_Score = 0 \<rparr>"

definition Preview :: "sched_cfg \<Rightarrow> time \<Rightarrow> (nat \<Rightarrow> string) \<Rightarrow> GameInstance \<Rightarrow> 'a db_scheme \<Rightarrow> gerr + PreviewResult" where
  "Preview cfg now gen inst w =
    (case GameRepo_GetByID (gi_GameID inst) w of
       Inl e \<Rightarrow> Inl (Wrapped ''load game: '' e [])
     | Inr game \<Rightarrow>
       (case ConfigRepo_GetByID (gm_ContainerConfigID game) w of
          Inl e \<Rightarrow> Inl (Wrapped ''load container config: '' e [])
        | Inr config \<Rightarrow>
          let req = resolveRequest inst config; branch = resolveBranch inst w in
          (case loadCandidates (sc_utilizationTarget cfg) (sc_historyWindow cfg) now w of
             Inl e \<Rightarrow> Inl e
           | Inr cs \<Rightarrow>
             let vs = filter_step cfg now gen inst game branch req w cs;
                 eligible = eligible_of vs; nodes = map preview_node vs
             in if eligible = [] then
                  (if list_all (\<lambda>c. \<not> nc_Excluded c \<or> isResourceOnlyReasons (nc_Reasons c)) (map fst vs)
                   then Inr \<lparr> pr_Outcome = OutcomeQueued, pr_Reason = msg_preview_queue,
                              pr_Selected = [], pr_Nodes = nodes \<rparr>
                   else Inr \<lparr> pr_Outcome = OutcomeFailed, pr_Reason = msg_preview_fail,
                              pr_Selected = [], pr_Nodes = nodes \<rparr>)
                else let best = pickBest cfg inst config eligible in
                  Inr \<lparr> pr_Outcome = OutcomeScheduled, pr_Reason = [],
                        pr_Selected = na_ID (nc_Agent best),
                        pr_Nodes = map (\<lambda>n. if pn_NodeAgentID n = na_ID (nc_Agent best)
                                            then n\<lparr>pn_Score := nc_Score best\<rparr> else n) nodes \<rparr>)))"

definition CancelQueued :: "time \<Rightarrow> string \<Rightarrow> 'a ctl_scheme \<Rightarrow> 'a ctl_scheme \<times> gerr option" where
  "CancelQueued now ident w =
    (case InstanceRepo_GetByID ident w of
       Inl e \<Rightarrow> (w, Some e)
     | Inr inst \<Rightarrow>
       if gi_Status inst \<noteq> StatusQueued then (w, Some ErrNotQueued)
       else let (w1, err) = QM_Cancel ident w in
         case err of
           Some e \<Rightarrow> (w1, Some e)
         | None \<Rightarrow>
           let inst' = inst\<lparr>gi_Status := StatusStopped, gi_Cancelled := True, gi_QueuedReason := [],
                            gi_QueuedAt := None\<rparr>;
               w2 = publish now EventInstanceQueuedCancelled ident [] msg_user_cancel w1;
               (w3, _, err') = InstanceRepo_Save now inst' w2
           in (w3, err'))"

text \<open>\<open>QueueStats\<close>: the length of the queue and the text of an error.\<close>

definition QueueStats :: "'a db_scheme \<Rightarrow> int \<times> string option" where
  "QueueStats w = (case QM_Count w of Inl e \<Rightarrow> (0, Some (error_text e)) | Inr n \<Rightarrow> (n, None))"

end
