(* ===== verification/Scheduling.thy ===== *)
theory Scheduling
  imports Scheduler
begin

text \<open>
  What the scheduler guarantees: the bounds of its settings and requests, the choice of
  the best node, the exits of an attempt, and the invariants of the data base that
  survive every schedule, whatever others do in between as long as they keep
  them too (locale \<open>reservation_invariant\<close>, interpreted for the capacity limits and
  for the exclusive ports).
\<close>

section \<open>Settings and requests\<close>

lemma flit_pos_half: "1 / 2 \<le> q \<Longrightarrow> q \<le> 1 \<Longrightarrow> 0 < flit q \<and> flit q \<le> 1"
proof -
  assume q: "1 / 2 \<le> q" "q \<le> 1"
  have "f64_round (8 / 10) \<le> f64_round 1" by (rule f64_round_mono) simp
  have "f64_round (1 / 2) \<le> f64_round q" using q(1) by (rule f64_round_mono)
  moreover have "f64_round (1 / 2) = 1 / 2" by (rule f64_round_half)
  moreover have "f64_round q \<le> f64_round 1" using q(2) by (rule f64_round_mono)
  ultimately show ?thesis by (simp add: flit_def)
qed

text \<open>However it is configured, the scheduler runs with a utilization target and a spill
  watermark in (0, 1], a positive retry count, history window and staleness window.\<close>

theorem NewResourceAwareScheduler_sane:
  "0 < sc_utilizationTarget (NewResourceAwareScheduler c) \<and>
   sc_utilizationTarget (NewResourceAwareScheduler c) \<le> 1 \<and>
   0 < sc_cacheSpillWatermark (NewResourceAwareScheduler c) \<and>
   sc_cacheSpillWatermark (NewResourceAwareScheduler c) \<le> 1 \<and>
   0 < sc_reservationRetry (NewResourceAwareScheduler c) \<and>
   0 < sc_historyWindow (NewResourceAwareScheduler c) \<and>
   0 < sc_healthStaleWindow (NewResourceAwareScheduler c)"
  using defaultUtilizationTarget_bounds flit_pos_half[of "8 / 10"]
  by (simp add: NewResourceAwareScheduler_def Let_def minute_def second_def)

text \<open>The request of an instance always asks for some CPU, memory and disk, and a snapshot
  written back by an earlier scheduling (no override) never replaces the configured request.\<close>

theorem resolveRequest_positive:
  "0 < CPUMilli (resolveRequest inst config) \<and> 0 < MemoryBytes (resolveRequest inst config) \<and>
   0 < DiskBytes (resolveRequest inst config) \<and>
   resolveRequest (inst\<lparr>gi_ResourceReq := r, gi_ResourceOverride := False\<rparr>) config =
   default_request (config_request config)"
  by (simp add: resolveRequest_def default_request_def split: option.splits)

section \<open>The best node\<close>

lemma hd_sort_key_min:
  fixes f :: "'x \<Rightarrow> 'y::linorder"
  assumes "xs \<noteq> []"
  shows "hd (sort_key f xs) \<in> set xs \<and> (\<forall>x \<in> set xs. f (hd (sort_key f xs)) \<le> f x)"
proof -
  obtain y ys where s: "sort_key f xs = y # ys"
    using assms by (cases "sort_key f xs") (metis length_0_conv length_sort, simp)
  then have "set xs = insert y (set ys)" by (metis list.simps(15) set_sort)
  moreover have "\<forall>x \<in> set ys. f y \<le> f x"
    using sorted_sort_key[of f xs] s by (auto simp: sorted_wrt_map)
  ultimately show ?thesis using s by auto
qed

lemma pickBest_min:
  assumes "es \<noteq> []"
  shows "\<exists>c \<in> set es. pickBest cfg inst config es = scored cfg inst config (freqRange es) c"
    and "c \<in> set es \<Longrightarrow>
         rank_key (pickBest cfg inst config es) \<le> rank_key (scored cfg inst config (freqRange es) c)"
  using hd_sort_key_min[of "map (scored cfg inst config (freqRange es)) es" rank_key] assms
  by (auto simp: pickBest_def)

lemma scored_simps [simp]:
  "nc_Agent (scored cfg inst config fr c) = nc_Agent c" "nc_Node (scored cfg inst config fr c) = nc_Node c"
  "nc_CacheState (scored cfg inst config fr c) = nc_CacheState c"
  "nc_Capacity (scored cfg inst config fr c) = nc_Capacity c"
  by (simp_all add: scored_def)

text \<open>C11: the chosen node is one of the eligible ones, no eligible node has a higher score, and
  among those of the same score none has a smaller agent identifier.\<close>

theorem pickBest_optimal:
  assumes "es \<noteq> []" and "c \<in> set es"
  shows "nc_Agent (pickBest cfg inst config es) \<in> nc_Agent ` set es \<and>
    nc_Score (scored cfg inst config (freqRange es) c) \<le> nc_Score (pickBest cfg inst config es) \<and>
    (nc_Score (scored cfg inst config (freqRange es) c) = nc_Score (pickBest cfg inst config es) \<longrightarrow>
     na_ID (nc_Agent (pickBest cfg inst config es)) \<le> na_ID (nc_Agent c))"
proof -
  have "nc_Agent (pickBest cfg inst config es) \<in> nc_Agent ` set es"
    using pickBest_min(1)[OF assms(1), of cfg inst config] by force
  then show ?thesis using pickBest_min(2)[OF assms, of cfg inst config]
    by (auto simp: rank_key_def less_eq_prod_def)
qed

section \<open>The exits of an attempt\<close>

lemma record_outcome_frame [simp, frame_simps]:
  "t_nodes (record_outcome cfg x w) = t_nodes w" "t_agents (record_outcome cfg x w) = t_agents w"
  "t_instances (record_outcome cfg x w) = t_instances w" "t_queue (record_outcome cfg x w) = t_queue w"
  "t_ports (record_outcome cfg x w) = t_ports w" "t_creds (record_outcome cfg x w) = t_creds w"
  "t_games (record_outcome cfg x w) = t_games w" "t_configs (record_outcome cfg x w) = t_configs w"
  "t_branches (record_outcome cfg x w) = t_branches w" "t_platform (record_outcome cfg x w) = t_platform w"
  "t_samples (record_outcome cfg x w) = t_samples w" "t_events (record_outcome cfg x w) = t_events w"
  "ctl_bus (record_outcome cfg x w) = ctl_bus w" "sched.more (record_outcome cfg x w) = sched.more w"
  "db_fault (record_outcome cfg x w) = db_fault w"
  by (simp_all add: record_outcome_def Let_def StatRepo_Incr_def fst_guard_write)

lemma publish_more [simp, frame_simps]: "sched.more (publish now ty i a d w) = sched.more w"
  by (simp add: publish_def split: option.splits)

text \<open>What an attempt can do to the rows and the state other components rely on.\<close>

definition same_rows :: "'a sched_scheme \<Rightarrow> 'a sched_scheme \<Rightarrow> bool" where
  "same_rows w w' \<longleftrightarrow> t_nodes w' = t_nodes w \<and> t_agents w' = t_agents w \<and>
     t_instances w' = t_instances w \<and> t_queue w' = t_queue w \<and> t_ports w' = t_ports w \<and>
     t_creds w' = t_creds w \<and> sched.more w' = sched.more w \<and> db_fault w' = db_fault w"

lemma same_rows_refl [simp]: "same_rows w w" by (simp add: same_rows_def)

lemma same_rows_trans: "same_rows u v \<Longrightarrow> same_rows v w \<Longrightarrow> same_rows u w"
  by (simp add: same_rows_def)

lemma classify_frame [simp]:
  "same_rows w (fst (classifyNoCandidate cfg inst cs al branch w))"
  by (simp add: classifyNoCandidate_def Let_def same_rows_def)

lemma classify_not_scheduled:
  "sr_Outcome (snd (classifyNoCandidate cfg inst cs al branch w)) \<noteq> OutcomeScheduled"
  by (simp add: classifyNoCandidate_def Let_def result_of_def)

text \<open>The three ways an attempt ends.\<close>

lemma attempt_cases:
  assumes "schedule_attempt cfg env k inst game config branch build req w0 = (w', r)"
  obtains (unchanged) "same_rows (en_before_load env k w0) w'"
      "\<And>res. r = Some (Inr res) \<Longrightarrow> sr_Outcome res \<noteq> OutcomeScheduled"
  | (lost) "w' = en_before_reserve env k (en_before_load env k w0)"
      "\<And>res. r \<noteq> Some (Inr res)"
  | (reserved) c ms w1 cs where
      "loadCandidates (sc_utilizationTarget cfg) (sc_historyWindow cfg) (en_now env k)
         (en_before_load env k w0) = Inr cs"
      "c \<in> set (eligible_of (filter_step cfg (en_now env k) (en_gen env k) inst game branch req
                  (en_before_load env k w0) cs))"
      "PlanPorts (plan_ctx_for (en_gen env k) (nc_Agent c) inst) game (en_before_load env k w0) = Inr ms"
      "TryReserve (en_now env k) (reserve_request cfg inst c req ms)
         (en_before_reserve env k (en_before_load env k w0)) = (w1, None)"
      "same_rows w1 w'"
      "\<exists>res. r = Some (Inr res) \<and> sr_Outcome res = OutcomeScheduled \<and>
         sr_NodeAgentID res = na_ID (nc_Agent c) \<and> sr_ResourceReq res = req \<and>
         sr_CacheNeeded res = (\<not> is_warm (nc_CacheState c))"
proof -
  let ?w = "en_before_load env k w0" and ?now = "en_now env k" and ?gen = "en_gen env k"
  show thesis
  proof (cases "loadCandidates (sc_utilizationTarget cfg) (sc_historyWindow cfg) ?now ?w")
    case (Inl e)
    with assms show thesis by (intro unchanged) (auto simp: schedule_attempt_def Let_def)
  next
    case (Inr cs)
    let ?vs = "filter_step cfg ?now ?gen inst game branch req ?w cs"
    let ?es = "eligible_of ?vs"
    show thesis
    proof (cases "?es = []")
      case True
      let ?c = "classifyNoCandidate cfg inst (map fst ?vs) (all_resource_only ?vs) branch ?w"
      have "same_rows ?w w' \<and> r = Some (Inr (snd ?c))"
        using assms Inr True classify_frame[of ?w cfg inst "map fst ?vs" "all_resource_only ?vs" branch]
        by (auto simp: schedule_attempt_def Let_def same_rows_def split: prod.splits)
      then show thesis by (intro unchanged) (auto simp: classify_not_scheduled)
    next
      case False
      let ?b = "pickBest cfg inst config ?es"
      obtain c where c: "c \<in> set ?es" "?b = scored cfg inst config (freqRange ?es) c"
        using pickBest_min(1)[OF False, of cfg inst config] by blast
      show thesis
      proof (cases "PlanPorts (plan_ctx_for ?gen (nc_Agent ?b) inst) game ?w")
        case (Inl e)
        with assms Inr False show thesis
          by (intro unchanged) (auto simp: schedule_attempt_def Let_def)
      next
        case (Inr ms)
        note plan = this
        let ?req = "reserve_request cfg inst ?b req ms"
        have rq: "?req = reserve_request cfg inst c req ms"
          by (simp add: reserve_request_def c(2))
        obtain w1 err where t: "TryReserve ?now ?req (en_before_reserve env k ?w) = (w1, err)"
          by fastforce
        note facts = assms \<open>loadCandidates _ _ _ _ = Inr cs\<close> False plan t
        show thesis
        proof (cases err)
          case (Some e)
          then have "w1 = en_before_reserve env k ?w" using t TryReserve_rollback by metis
          with facts Some show thesis
            by (intro lost) (auto simp: schedule_attempt_def Let_def split: if_splits)
        next
          case None
          show thesis
          proof (rule reserved[OF \<open>loadCandidates _ _ _ _ = Inr cs\<close> c(1)])
            show "PlanPorts (plan_ctx_for ?gen (nc_Agent c) inst) game ?w = Inr ms"
              using plan c(2) by simp
            show "TryReserve ?now (reserve_request cfg inst c req ms) (en_before_reserve env k ?w) = (w1, None)"
              using t None rq by simp
            show "same_rows w1 w'"
              using facts None by (auto simp: schedule_attempt_def Let_def same_rows_def)
            show "\<exists>res. r = Some (Inr res) \<and> sr_Outcome res = OutcomeScheduled \<and>
               sr_NodeAgentID res = na_ID (nc_Agent c) \<and> sr_ResourceReq res = req \<and>
               sr_CacheNeeded res = (\<not> is_warm (nc_CacheState c))"
              using facts None c(2)
              by (auto simp: schedule_attempt_def Let_def scheduled_result_def)
          qed
        qed
      qed
    qed
  qed
qed

section \<open>What survives every schedule\<close>

text \<open>An invariant of the data base that a reservation with a sound port plan keeps, and that
  does not depend on counters and events.\<close>

locale reservation_invariant =
  fixes cfg :: sched_cfg and I :: "('a sched_scheme) \<Rightarrow> bool"
  assumes rows: "same_rows w w' \<Longrightarrow> I w \<Longrightarrow> I w'"
    and reserve: "I w \<Longrightarrow> ports_exclusive ms \<Longrightarrow> (\<And>m. m \<in> set ms \<Longrightarrow> pm_NodeAgentId m = na_ID (nc_Agent c))
      \<Longrightarrow> TryReserve now (reserve_request cfg inst c req ms) w = (w', None) \<Longrightarrow> I w'"
begin

definition env_keeps :: "('a sched_scheme) sched_env \<Rightarrow> bool" where
  "env_keeps env \<longleftrightarrow> (\<forall>k w. I w \<longrightarrow> I (en_before_load env k w) \<and> I (en_before_reserve env k w))"

lemma attempt_keeps:
  assumes "env_keeps env" "I w" "schedule_attempt cfg env k inst game config branch build req w = (w', r)"
  shows "I w'"
proof -
  have l: "I (en_before_load env k w)" "I (en_before_reserve env k (en_before_load env k w))"
    using assms(1,2) by (auto simp: env_keeps_def)
  from assms(3) show ?thesis
  proof (cases rule: attempt_cases)
    case unchanged
    then show ?thesis using rows l by blast
  next
    case lost
    then show ?thesis using l by simp
  next
    case (reserved c ms w1 cs)
    have "I w1"
      using PlanPorts_exclusive[OF reserved(3)]
      by (intro reserve[OF l(2) _ _ reserved(4)]) (auto simp: plan_ctx_for_def)
    then show ?thesis using rows reserved(5) by blast
  qed
qed

lemma loop_keeps:
  "env_keeps env \<Longrightarrow> I w \<Longrightarrow> I (fst (schedule_loop cfg env ks inst game config branch build req w))"
proof (induction ks arbitrary: w)
  case Nil
  then show ?case using rows[of w "record_outcome cfg ''failed'' w"] by (simp add: same_rows_def)
next
  case (Cons k ks)
  obtain w1 r where a: "schedule_attempt cfg env k inst game config branch build req w = (w1, r)"
    by fastforce
  then have "I w1" using attempt_keeps Cons.prems by blast
  then show ?case using Cons.IH[of w1] Cons.prems a by (cases r) simp_all
qed

lemma Schedule_keeps:
  assumes "env_keeps env" "I w"
  shows "I (fst (Schedule cfg env inst w))"
proof -
  have "I (record_outcome cfg x w)" "I (publish t ty i a d (record_outcome cfg x w))" for x t ty i a d
    using assms(2) by (auto intro: rows[rotated] simp: same_rows_def)
  then show ?thesis
    using assms loop_keeps[OF assms]
    by (auto simp: Schedule_def Let_def split: sum.splits)
qed

end

definition nodes_within :: "rat \<Rightarrow> 'a db_scheme \<Rightarrow> bool" where
  "nodes_within t w \<longleftrightarrow> list_all (within_limits t) (t_nodes w)"

lemma TryReserve_nodes_within:
  assumes "nodes_within (rt_UtilizationTarget req) w" "tbl_ok node_key (t_nodes w)"
    "TryReserve now req w = (w', None)"
  shows "nodes_within (rt_UtilizationTarget req) w' \<and> tbl_ok node_key (t_nodes w')"
  using assms(3)
proof (rule reserved_node_within)
  fix node
  assume n: "tbl_find node_key (rt_NodeID req) (t_nodes w) = Some node"
    "t_nodes w' = tbl_upd (\<lambda>n. node_key n = rt_NodeID req) (add_reserved (rt_Req req)) (t_nodes w)"
    "within_limits (rt_UtilizationTarget req) (add_reserved (rt_Req req) node)"
  have "n = node" if "n \<in> set (t_nodes w)" "node_key n = rt_NodeID req" for n
    using tbl_find_mem[OF assms(2) that(1)] n(1) that(2) by simp
  then show ?thesis
    using assms(1,2) n(2,3) by (auto simp: nodes_within_def list_all_iff set_tbl_upd tbl_ok_def tbl_upd_def o_def if_distrib cong: if_cong)
qed

interpretation limits: reservation_invariant cfg
  "\<lambda>w. nodes_within (sc_utilizationTarget cfg) w \<and> tbl_ok node_key (t_nodes w)" for cfg
proof (unfold_locales, goal_cases)
  case (1 w w')
  then show ?case by (simp add: same_rows_def nodes_within_def)
next
  case (2 w ms c now inst req w')
  then show ?case using TryReserve_nodes_within[of "reserve_request cfg inst c req ms" w now w']
    by (simp add: reserve_request_def)
qed

interpretation slots: reservation_invariant cfg "\<lambda>w. ports_exclusive (t_ports w)" for cfg
proof (unfold_locales, goal_cases)
  case (1 w w')
  then show ?case by (simp add: same_rows_def)
next
  case (2 w ms c now inst req w')
  then show ?case
    using reserve_ports_exclusive[of w "reserve_request cfg inst c req ms" now]
    by (simp add: reserve_request_def)
qed

text \<open>The state of a consistent cluster: no node oversold, no port mapped twice.\<close>

definition cluster_ok :: "rat \<Rightarrow> 'a db_scheme \<Rightarrow> bool" where
  "cluster_ok t w \<longleftrightarrow> nodes_within t w \<and> tbl_ok node_key (t_nodes w) \<and> ports_exclusive (t_ports w)"

interpretation cluster: reservation_invariant cfg "cluster_ok (sc_utilizationTarget cfg)" for cfg
proof (unfold_locales, goal_cases)
  case (1 w w')
  then show ?case by (simp add: same_rows_def cluster_ok_def nodes_within_def)
next
  case (2 w ms c now inst req w')
  then show ?case
    using limits.reserve[of cfg w ms c now inst req w'] slots.reserve[of w ms c now cfg inst req w']
    by (auto simp: cluster_ok_def)
qed

text \<open>Whatever other goroutines and replicas do to the data base while a schedule runs, as long
  as they keep the cluster consistent (no node oversold, no host port of a protocol mapped twice
  on an agent), the schedule keeps it consistent too, whatever its outcome, errors and lost races
  included.\<close>

theorem Schedule_keeps_cluster_ok:
  assumes "cluster_ok (sc_utilizationTarget cfg) w"
    and "\<And>k u. cluster_ok (sc_utilizationTarget cfg) u \<Longrightarrow>
           cluster_ok (sc_utilizationTarget cfg) (en_before_load env k u) \<and>
           cluster_ok (sc_utilizationTarget cfg) (en_before_reserve env k u)"
  shows "cluster_ok (sc_utilizationTarget cfg) (fst (Schedule cfg env inst w))"
  using assms by (intro cluster.Schedule_keeps) (auto simp: cluster.env_keeps_def)

section \<open>A schedule that succeeds\<close>

text \<open>The state before the attempt number \<open>k\<close>, after the attempts before it lost their race.\<close>

fun attempted ::
  "sched_cfg \<Rightarrow> ('a sched_scheme) sched_env \<Rightarrow> GameInstance \<Rightarrow> Game \<Rightarrow> GameContainerConfig \<Rightarrow> string \<Rightarrow> int
   \<Rightarrow> ResourceRequest \<Rightarrow> nat \<Rightarrow> 'a sched_scheme \<Rightarrow> 'a sched_scheme" where
  "attempted cfg env inst game config branch build req 0 w = w"
| "attempted cfg env inst game config branch build req (Suc k) w =
     fst (schedule_attempt cfg env k inst game config branch build req
       (attempted cfg env inst game config branch build req k w))"

lemma loop_scheduled:
  assumes "schedule_loop cfg env [j..<n] inst game config branch build req
      (attempted cfg env inst game config branch build req j w) = (w', Inr res)"
    and "sr_Outcome res = OutcomeScheduled"
  shows "\<exists>k < n. schedule_attempt cfg env k inst game config branch build req
      (attempted cfg env inst game config branch build req k w) = (w', Some (Inr res))"
  using assms(1)
proof (induction "n - j" arbitrary: j)
  case 0
  then show ?case using assms(2) by (auto simp: failed_with_def result_of_def)
next
  case (Suc d)
  then have j: "j < n" "[j..<n] = j # [Suc j..<n]" by (simp_all add: upt_conv_Cons)
  let ?at = "schedule_attempt cfg env j inst game config branch build req
      (attempted cfg env inst game config branch build req j w)"
  show ?case
  proof (cases "snd ?at")
    case None
    then have "schedule_loop cfg env [Suc j..<n] inst game config branch build req
        (attempted cfg env inst game config branch build req (Suc j) w) = (w', Inr res)"
      using Suc.prems j(2) by (auto split: prod.splits)
    then show ?thesis using Suc.hyps(1)[of "Suc j"] Suc.hyps(2) by simp
  next
    case (Some r)
    then have "?at = (w', Some (Inr res))" using Suc.prems j(2) by (cases ?at) simp
    then show ?thesis using j(1) by blast
  qed
qed

lemma Schedule_scheduled_at:
  assumes "Schedule cfg env inst w = (w', Inr res)" "sr_Outcome res = OutcomeScheduled"
  obtains k game config where
    "GameRepo_GetByID (gi_GameID inst) w = Inr game"
    "ConfigRepo_GetByID (gm_ContainerConfigID game) w = Inr config"
    "k \<le> nat (sc_reservationRetry cfg)"
    "schedule_attempt cfg env k inst game config (resolveBranch inst w)
       (branch_build inst (resolveBranch inst w) w) (resolveRequest inst config)
       (attempted cfg env inst game config (resolveBranch inst w) (branch_build inst (resolveBranch inst w) w)
         (resolveRequest inst config) k w) = (w', Some (Inr res))"
proof -
  from assms obtain game config where g:
    "GameRepo_GetByID (gi_GameID inst) w = Inr game"
    "ConfigRepo_GetByID (gm_ContainerConfigID game) w = Inr config" and
    l: "schedule_loop cfg env [0..<Suc (nat (sc_reservationRetry cfg))] inst game config (resolveBranch inst w)
       (branch_build inst (resolveBranch inst w) w) (resolveRequest inst config) w = (w', Inr res)"
    by (auto simp: Schedule_def Let_def failed_with_def result_of_def simp del: upt_Suc split: sum.splits if_splits)
  from loop_scheduled[where j = 0 and w = w, simplified attempted.simps, OF l assms(2)] that g show thesis
    by (metis less_Suc_eq_le)
qed

lemma Schedule_scheduled:
  assumes "Schedule cfg env inst w = (w', Inr res)" "sr_Outcome res = OutcomeScheduled"
  obtains k w0 game config where
    "schedule_attempt cfg env k inst game config (resolveBranch inst w)
       (branch_build inst (resolveBranch inst w) w) (resolveRequest inst config) w0 = (w', Some (Inr res))"
  using Schedule_scheduled_at[OF assms] by metis

lemma loadCandidates_mem:
  assumes "loadCandidates target window now w = Inr cs" "c \<in> set cs"
  obtains agent node where "agent \<in> set (t_agents w)" "tbl_find node_key (na_NodeId agent) (t_nodes w) = Some node"
    "c = make_candidate target (now - window) agent node w"
proof -
  have "\<exists>agent \<in> set (t_agents w). \<exists>node. tbl_find node_key (na_NodeId agent) (t_nodes w) = Some node \<and>
      c = make_candidate target (now - window) agent node w"
    using assms by (auto simp: loadCandidates_def AgentRepo_ListAll_def NodeRepo_ListAll_def split: sum.splits option.splits)
      (metis (no_types, lifting) option.case_eq_if option.collapse option.simps(5))
  then show thesis using that by blast
qed

lemma eligible_ofD:
  assumes "c \<in> set (eligible_of (filter_step cfg now gen inst game branch req w cs))"
  shows "\<exists>c0 \<in> set cs. eligible_for cfg now gen inst game branch req w c0 \<and>
    c = c0\<lparr>nc_CacheState := cap_state (sc_cacheProvider cfg) (na_ID (nc_Agent c0)) (gi_GameID inst) branch\<rparr>"
proof -
  let ?a = "applyConstraints cfg now gen inst game branch req w"
  from assms obtain c0 where c0: "c0 \<in> set cs" "snd (?a c0)" "c = fst (?a c0)"
    by (auto simp: eligible_of_def filter_step_def)
  then have "?a c0 = (c, True)" by (simp add: prod_eq_iff)
  from applyConstraints_True[OF this] c0 show ?thesis
    unfolding eligible_iff[symmetric] by blast
qed

text \<open>C3: When Schedule answers "scheduled", one of its attempts - at most as many as configured and one
  more - decided it on the rows it read itself: the candidate is built of an agent and of its node in
  the state that attempt read, these passed every hard constraint for the instance's request, and the
  answer names that agent.  The reservation is committed on the state as it was at that moment: the
  reserved amounts of the node are raised by the request and within its limits, no other node changes,
  and the row of the instance is bound to the agent, waiting for the cache exactly when the result says
  so.\<close>

theorem Schedule_scheduled_sound:
  fixes w :: "'a sched_scheme"
  assumes "Schedule cfg env inst w = (w', Inr res)" and "sr_Outcome res = OutcomeScheduled"
  shows "\<exists>k game config agent node. k \<le> nat (sc_reservationRetry cfg) \<and>
     GameRepo_GetByID (gi_GameID inst) w = Inr game \<and>
     ConfigRepo_GetByID (gm_ContainerConfigID game) w = Inr config \<and>
     sr_ResourceReq res = resolveRequest inst config \<and>
     (let u = en_before_load env k (attempted cfg env inst game config (resolveBranch inst w)
            (branch_build inst (resolveBranch inst w) w) (resolveRequest inst config) k w);
          v = en_before_reserve env k u
      in agent \<in> set (t_agents u) \<and> tbl_find node_key (na_NodeId agent) (t_nodes u) = Some node \<and>
         eligible_for cfg (en_now env k) (en_gen env k) inst game (resolveBranch inst w) (sr_ResourceReq res) u
           (make_candidate (sc_utilizationTarget cfg) (en_now env k - sc_historyWindow cfg) agent node u) \<and>
         sr_NodeAgentID res = na_ID agent \<and>
         t_nodes w' = map (\<lambda>n. if node_key n = na_NodeId agent then add_reserved (sr_ResourceReq res) n else n) (t_nodes v) \<and>
         (\<exists>n. tbl_find node_key (na_NodeId agent) (t_nodes w') = Some n \<and> within_limits (sc_utilizationTarget cfg) n)) \<and>
     (\<forall>g \<in> set (t_instances w'). gi_ID g = gi_ID inst \<longrightarrow>
        gi_NodeAgentID g = Some (sr_NodeAgentID res) \<and>
        gi_Status g = (if sr_CacheNeeded res then StatusCacheWarming else StatusPreparingBuild))"
proof -
  from Schedule_scheduled_at[OF assms] obtain k game config where
    g: "GameRepo_GetByID (gi_GameID inst) w = Inr game"
    "ConfigRepo_GetByID (gm_ContainerConfigID game) w = Inr config" "k \<le> nat (sc_reservationRetry cfg)" and
    at: "schedule_attempt cfg env k inst game config (resolveBranch inst w)
       (branch_build inst (resolveBranch inst w) w) (resolveRequest inst config)
       (attempted cfg env inst game config (resolveBranch inst w) (branch_build inst (resolveBranch inst w) w)
         (resolveRequest inst config) k w) = (w', Some (Inr res))" .
  let ?req = "resolveRequest inst config"
  define u where "u = en_before_load env k (attempted cfg env inst game config (resolveBranch inst w)
      (branch_build inst (resolveBranch inst w) w) ?req k w)"
  define v where "v = en_before_reserve env k u"
  from at show ?thesis
  proof (cases rule: attempt_cases)
    case (reserved c ms w1 cs)
    note r = reserved[folded u_def, folded v_def]
    from eligible_ofD[OF r(2)] obtain c0 where c0: "c0 \<in> set cs"
      "eligible_for cfg (en_now env k) (en_gen env k) inst game (resolveBranch inst w) ?req u c0"
      "nc_Agent c = nc_Agent c0" "nc_Node c = nc_Node c0" by fastforce
    obtain agent node where m: "agent \<in> set (t_agents u)" "tbl_find node_key (na_NodeId agent) (t_nodes u) = Some node"
      "c0 = make_candidate (sc_utilizationTarget cfg) (en_now env k - sc_historyWindow cfg) agent node u"
      by (rule loadCandidates_mem[OF r(1) c0(1)])
    have k: "node_key (nc_Node c) = na_NodeId agent" "nc_Agent c = agent"
      using tbl_find_SomeD[OF m(2)] m(3) c0(3,4) by (simp_all add: make_candidate_simps)
    have res: "sr_NodeAgentID res = na_ID agent" "sr_ResourceReq res = ?req"
      "sr_CacheNeeded res = (\<not> is_warm (nc_CacheState c))"
      using r(6) k(2) by auto
    have nodes: "t_nodes w' = tbl_upd (\<lambda>n. node_key n = na_NodeId agent) (add_reserved ?req) (t_nodes v)"
      and inst: "t_instances w' = bind_instance (en_now env k) (reserve_request cfg inst c ?req ms) (t_instances v)"
      using r(4,5) k(1) by (auto elim!: TryReserve_cases simp: same_rows_def reserve_request_def)
    have "\<exists>n. tbl_find node_key (na_NodeId agent) (t_nodes w') = Some n \<and> within_limits (sc_utilizationTarget cfg) n"
    proof (rule reserved_node_within[OF r(4)])
      fix n
      assume "tbl_find node_key (rt_NodeID (reserve_request cfg inst c ?req ms)) (t_nodes v) = Some n"
        "within_limits (rt_UtilizationTarget (reserve_request cfg inst c ?req ms))
           (add_reserved (rt_Req (reserve_request cfg inst c ?req ms)) n)"
      then show ?thesis using nodes k(1) by (simp add: reserve_request_def find_node_reserved)
    qed
    moreover have "\<forall>g \<in> set (t_instances w'). gi_ID g = gi_ID inst \<longrightarrow> gi_NodeAgentID g = Some (na_ID agent) \<and>
        gi_Status g = (if sr_CacheNeeded res then StatusCacheWarming else StatusPreparingBuild)"
      using res(3) k(2) by (auto simp: inst bind_instance_def set_tbl_upd reserve_request_def)
    ultimately show ?thesis using g res c0(2) m nodes
      by (intro exI[of _ k] exI[of _ game] exI[of _ config] exI[of _ agent] exI[of _ node])
         (simp add: Let_def tbl_upd_def flip: u_def v_def)
  next
    case unchanged
    then show ?thesis using unchanged(2)[OF refl] assms(2) by blast
  next
    case lost
    then show ?thesis by blast
  qed
qed

end
