(* ===== verification/Schedule_Exits.thy ===== *)
theory Schedule_Exits
  imports Scheduling
begin

text \<open>
  The exits of the scheduler when no node can take the instance, the dry run
  \<open>Preview\<close> compared with the real schedule, and the cancellation of a queued instance.
\<close>

section \<open>Which refusals are recoverable\<close>

lemma has_prefix_set: "has_prefix p s \<Longrightarrow> set p \<subseteq> set s"
  by (auto simp: has_prefix_iff)

lemma contains_set: "str_contains s p \<Longrightarrow> set p \<subseteq> set s"
  by (auto simp: str_contains_iff)

lemma show_nat_chars: "set (show_nat n) \<subseteq> digit ` {..<10}"
proof (induction n rule: show_nat.induct)
  case (1 n)
  then show ?case by (subst show_nat.simps) (auto simp: image_iff intro: bexI[of _ "n mod 10"] bexI[of _ n])
qed

lemma show_int_chars: "set (show_int i) \<subseteq> set ''-0123456789''"
proof -
  have "list_all (\<lambda>n. digit n \<in> set ''-0123456789'') [0..<10]" by code_simp
  then have "digit ` {..<10} \<subseteq> set ''-0123456789''" by (auto simp: list_all_iff)
  then have "set (show_nat n) \<subseteq> set ''-0123456789''" for n
    using show_nat_chars[of n] by (rule order_trans[rotated])
  moreover have "CHR ''-'' \<in> set ''-0123456789''" by simp
  moreover have "set (CHR ''-'' # s) = insert (CHR ''-'') (set s)" for s by simp
  ultimately show ?thesis by (simp only: show_int_def split: if_split) blast
qed

text \<open>A byte of every key that no shortage text contains.\<close>

lemma key_bytes:
  "CHR 0xE6 \<in> set key_not_enabled"
  "CHR 0xA5 \<in> set key_health"
  "CHR 0xE6 \<in> set key_unresolved"
  "CHR 0x88 \<in> set key_branch"
  by (simp_all add: key_not_enabled_def key_health_def key_unresolved_def key_branch_def)

lemma shortage_bytes:
  "{CHR 0xE6, CHR 0xA5, CHR 0x88} \<inter> (set msg_cpu_short \<union> set msg_mem_short \<union> set msg_disk_short \<union>
      set ''-0123456789'' \<union> set ''m bytes'') = {}"
  by (simp add: msg_cpu_short_def msg_mem_short_def msg_disk_short_def)

lemma shortage_text:
  assumes "r \<in> set (Shortages c req)" "p \<in> {key_not_enabled, key_health, key_unresolved, key_branch}"
  shows "\<not> str_contains r p"
proof
  assume "str_contains r p"
  then have sub: "set p \<subseteq> set r" by (rule contains_set)
  have d: "set (show_int i) \<subseteq> set ''-0123456789''" for i by (rule show_int_chars)
  obtain i m where "m \<in> {msg_cpu_short, msg_mem_short, msg_disk_short}"
    "r = m @ show_int i @ ''m'' \<or> r = m @ show_int i @ '' bytes''"
    using assms(1) by (auto simp: Shortages_def split: if_splits)
  then have "set r \<subseteq> set msg_cpu_short \<union> set msg_mem_short \<union> set msg_disk_short \<union>
      set ''-0123456789'' \<union> set ''m bytes''"
    using d[of i] by auto
  with sub have "set p \<subseteq> set msg_cpu_short \<union> set msg_mem_short \<union> set msg_disk_short \<union>
      set ''-0123456789'' \<union> set ''m bytes''" by blast
  then show False using assms(2) key_bytes shortage_bytes by blast
qed

lemma Shortages_recoverable: "isResourceOnlyReasons (Shortages c req)"
  using shortage_text by (auto simp: isResourceOnlyReasons_def list_all_iff)

lemma refusal_texts:
  "\<not> isResourceOnlyReasons [msg_not_enabled]" "\<not> isResourceOnlyReasons [msg_unhealthy]"
  "\<not> isResourceOnlyReasons [msg_no_heartbeat]" "isResourceOnlyReasons [msg_stale_heartbeat]"
  by (simp_all add: isResourceOnlyReasons_def msg_not_enabled_def msg_unhealthy_def msg_no_heartbeat_def
      msg_stale_heartbeat_def key_not_enabled_def key_health_def key_unresolved_def key_branch_def)

lemma refusal_recoverable:
  assumes "nc_Reasons c = []"
    and "na_Status (nc_Agent c) \<noteq> Enabled \<or>
      na_HealthStatus (nc_Agent c) \<notin> {HealthHealthy, HealthDegraded} \<or>
      \<not> heartbeat_fresh (sc_healthStaleWindow cfg) now (nc_Agent c) \<or>
      \<not> ResourcesSatisfied (nc_Capacity c) req"
  shows "isResourceOnlyReasons (nc_Reasons (fst (applyConstraints cfg now gen inst game branch req w c))) \<longleftrightarrow>
    na_Status (nc_Agent c) = Enabled \<and> na_HealthStatus (nc_Agent c) \<in> {HealthHealthy, HealthDegraded} \<and>
    na_LastHeartbeatAt (nc_Agent c) \<noteq> None"
proof -
  consider (disabled) "na_Status (nc_Agent c) \<noteq> Enabled"
    | (unhealthy) "na_Status (nc_Agent c) = Enabled" "na_HealthStatus (nc_Agent c) \<notin> {HealthHealthy, HealthDegraded}"
    | (silent) "na_Status (nc_Agent c) = Enabled" "na_HealthStatus (nc_Agent c) \<in> {HealthHealthy, HealthDegraded}"
        "na_LastHeartbeatAt (nc_Agent c) = None"
    | (stale) t where "na_Status (nc_Agent c) = Enabled" "na_HealthStatus (nc_Agent c) \<in> {HealthHealthy, HealthDegraded}"
        "na_LastHeartbeatAt (nc_Agent c) = Some t" "\<not> now - t \<le> sc_healthStaleWindow cfg"
    | (short) t where "na_Status (nc_Agent c) = Enabled" "na_HealthStatus (nc_Agent c) \<in> {HealthHealthy, HealthDegraded}"
        "na_LastHeartbeatAt (nc_Agent c) = Some t" "now - t \<le> sc_healthStaleWindow cfg"
        "\<not> ResourcesSatisfied (nc_Capacity c) req"
    using assms(2) by (cases "na_LastHeartbeatAt (nc_Agent c)") (auto simp: heartbeat_fresh_def)
  then show ?thesis
    using assms(1) refusal_texts Shortages_recoverable
    by cases (simp_all add: applyConstraints_def constraint_defs)
qed

text \<open>A node refused for its state or for its resources counts as recoverable (the instance is
  queued) exactly when its agent is enabled, not unhealthy and has been heard of at least once: an
  expired heartbeat and a request larger than the node can ever hold are recoverable, a disabled or
  unhealthy node is not.\<close>

theorem refusal_recoverable_iff:
  assumes "nc_Reasons c = []"
    and "na_Status (nc_Agent c) \<noteq> Enabled \<or>
      na_HealthStatus (nc_Agent c) \<notin> {HealthHealthy, HealthDegraded} \<or>
      \<not> heartbeat_fresh (sc_healthStaleWindow cfg) now (nc_Agent c) \<or>
      \<not> ResourcesSatisfied (nc_Capacity c) req"
  shows "isResourceOnlyReasons (nc_Reasons (fst (applyConstraints cfg now gen inst game branch req w c))) \<longleftrightarrow>
    na_Status (nc_Agent c) = Enabled \<and> na_HealthStatus (nc_Agent c) \<in> {HealthHealthy, HealthDegraded} \<and>
    na_LastHeartbeatAt (nc_Agent c) \<noteq> None"
  by (rule refusal_recoverable[OF assms])

section \<open>No node\<close>











section \<open>Forced regions\<close>

text \<open>The switch "force region" has no influence on an attempt that finds an eligible node: such
  an attempt places the instance in whatever region the best node is, also when the operator forces
  the region and the region has no eligible node.\<close>

theorem region_force_not_enforced:
  assumes "loadCandidates (sc_utilizationTarget cfg) (sc_historyWindow cfg) (en_now env k)
      (en_before_load env k w) = Inr cs"
    and "c \<in> set cs" "eligible_for cfg (en_now env k) (en_gen env k) inst game branch req
      (en_before_load env k w) c"
  shows "schedule_attempt (cfg\<lparr>sc_regionForce := True\<rparr>) env k inst game config branch build req w =
         schedule_attempt (cfg\<lparr>sc_regionForce := False\<rparr>) env k inst game config branch build req w"
proof -
  let ?w = "en_before_load env k w"
  have sel: "sc_cacheProvider (cfg\<lparr>sc_regionForce := b\<rparr>) = sc_cacheProvider cfg"
    "sc_cacheUpdateBufferRatio (cfg\<lparr>sc_regionForce := b\<rparr>) = sc_cacheUpdateBufferRatio cfg"
    "sc_healthStaleWindow (cfg\<lparr>sc_regionForce := b\<rparr>) = sc_healthStaleWindow cfg"
    "sc_weights (cfg\<lparr>sc_regionForce := b\<rparr>) = sc_weights cfg"
    "sc_cacheSpillWatermark (cfg\<lparr>sc_regionForce := b\<rparr>) = sc_cacheSpillWatermark cfg" for b
    by simp_all
  have ac: "applyConstraints (cfg\<lparr>sc_regionForce := b\<rparr>) now gen inst game branch req ?w =
            applyConstraints cfg now gen inst game branch req ?w" for b now gen
    unfolding applyConstraints_def sel ..
  have sc: "pickBest (cfg\<lparr>sc_regionForce := b\<rparr>) inst config = pickBest cfg inst config" for b
    unfolding pickBest_def scored_def score_input_def sel ..
  have ne: "eligible_of (filter_step cfg (en_now env k) (en_gen env k) inst game branch req ?w cs) \<noteq> []"
    using assms(2,3) by (auto simp: eligible_of_def filter_step_def eligible_iff filter_empty_conv)
  have fs: "filter_step (cfg\<lparr>sc_regionForce := b\<rparr>) now gen inst game branch req ?w =
            filter_step cfg now gen inst game branch req ?w" for b now gen
    by (rule ext) (simp add: filter_step_def ac)
  have rr: "reserve_request (cfg\<lparr>sc_regionForce := b\<rparr>) = reserve_request cfg" for b
    by (intro ext) (simp add: reserve_request_def)
  have rec: "record_outcome (cfg\<lparr>sc_regionForce := b\<rparr>) = record_outcome cfg" for b
    by (intro ext) (simp add: record_outcome_def)
  have win: "sc_utilizationTarget (cfg\<lparr>sc_regionForce := b\<rparr>) = sc_utilizationTarget cfg"
    "sc_historyWindow (cfg\<lparr>sc_regionForce := b\<rparr>) = sc_historyWindow cfg" for b
    by simp_all
  show ?thesis using ne
    unfolding schedule_attempt_def Let_def fs sc rr rec win assms(1) by simp
qed

section \<open>Preview\<close>

lemma classify_scheduledD:
  "classifyNoCandidate cfg inst cs al branch w = (w1, res) \<Longrightarrow> sr_Outcome res \<noteq> OutcomeScheduled"
  using classify_not_scheduled by (metis snd_conv)

text \<open>The dry run is right about the choice: when an attempt of the real schedule on the same
  data commits a reservation, Preview answers "scheduled" and names the same agent.\<close>

theorem Preview_predicts_choice:
  assumes "GameRepo_GetByID (gi_GameID inst) w = Inr game"
    and "ConfigRepo_GetByID (gm_ContainerConfigID game) w = Inr config"
    and "en_before_load env k w0 = w"
    and "schedule_attempt cfg env k inst game config (resolveBranch inst w) build
           (resolveRequest inst config) w0 = (w', Some (Inr res))"
    and "sr_Outcome res = OutcomeScheduled"
  shows "\<exists>p. Preview cfg (en_now env k) (en_gen env k) inst w = Inr p \<and>
    pr_Outcome p = OutcomeScheduled \<and> pr_Selected p = sr_NodeAgentID res"
proof -
  obtain cs where cs: "loadCandidates (sc_utilizationTarget cfg) (sc_historyWindow cfg) (en_now env k) w = Inr cs"
    using assms(3,4) by (cases "loadCandidates (sc_utilizationTarget cfg) (sc_historyWindow cfg) (en_now env k) w")
      (auto simp: schedule_attempt_def Let_def)
  let ?es = "eligible_of (filter_step cfg (en_now env k) (en_gen env k) inst game
               (resolveBranch inst w) (resolveRequest inst config) w cs)"
  have ne: "?es \<noteq> []"
    using assms(3-5) cs
    by (auto simp: schedule_attempt_def Let_def split: prod.splits dest: classify_scheduledD)
  have "sr_NodeAgentID res = na_ID (nc_Agent (pickBest cfg inst config ?es))"
    using assms(3-5) cs ne
    by (auto simp: schedule_attempt_def Let_def scheduled_result_def
        split: sum.splits prod.splits option.splits if_splits)
  then show ?thesis using assms(1,2) cs ne by (simp add: Preview_def Let_def)
qed

text \<open>The dry run and the schedule disagree on an empty cluster: without any node agent Preview
  announces "queued", the schedule fails the instance.\<close>

theorem Preview_empty_cluster:
  assumes "GameRepo_GetByID (gi_GameID inst) w = Inr game"
    and "ConfigRepo_GetByID (gm_ContainerConfigID game) w = Inr config"
    and "loadCandidates (sc_utilizationTarget cfg) (sc_historyWindow cfg) (en_now env 0) w = Inr []"
    and "en_before_load env 0 w = w"
  shows "\<exists>p. Preview cfg (en_now env 0) (en_gen env 0) inst w = Inr p \<and> pr_Outcome p = OutcomeQueued \<and>
    (\<exists>w' res. Schedule cfg env inst w = (w', Inr res) \<and> sr_Outcome res = OutcomeFailed)"
proof -
  have u: "[0..<Suc (nat (sc_reservationRetry cfg))] = 0 # [Suc 0..<Suc (nat (sc_reservationRetry cfg))]"
    by (simp add: upt_conv_Cons del: upt_Suc)
  have "\<exists>w' res. Schedule cfg env inst w = (w', Inr res) \<and> sr_Outcome res = OutcomeFailed"
    using assms unfolding Schedule_def u
    by (auto simp: Let_def schedule_attempt_def filter_step_def eligible_of_def classifyNoCandidate_def
        result_of_def failed_with_def)
  then show ?thesis using assms(1-3)
    by (simp add: Preview_def Let_def filter_step_def eligible_of_def)
qed

section \<open>Cancelling a queued instance\<close>

text \<open>Cancelling succeeds only for a queued instance; then its queue row is gone, its own row
  says stopped and cancelled, and no other instance changes.  On "not queued" nothing changes.\<close>

theorem CancelQueued_spec:
  assumes "CancelQueued now i w = (w', err)"
  shows "(err = None \<longrightarrow>
      (\<exists>g. InstanceRepo_GetByID i w = Inr g \<and> gi_Status g = StatusQueued) \<and>
      tbl_find sq_InstanceID i (t_queue w') = None \<and>
      (\<exists>g'. tbl_find gi_ID i (t_instances w') = Some g' \<and> gi_Status g' = StatusStopped \<and>
            gi_Cancelled g' \<and> gi_QueuedAt g' = None) \<and>
      (\<forall>j. j \<noteq> i \<longrightarrow> tbl_find gi_ID j (t_instances w') = tbl_find gi_ID j (t_instances w))) \<and>
    (err = Some ErrNotQueued \<longrightarrow> w' = w)"
proof (cases "InstanceRepo_GetByID i w")
  case (Inl e)
  then show ?thesis using assms by (auto simp: CancelQueued_def)
next
  case (Inr g)
  then have gid: "gi_ID g = i" using tbl_find_SomeD by (fastforce simp: InstanceRepo_GetByID_def)
  show ?thesis
  proof (cases "gi_Status g = StatusQueued")
    case False
    then show ?thesis using assms Inr by (auto simp: CancelQueued_def)
  next
    case True
    have d: "tbl_find sq_InstanceID j (tbl_del (\<lambda>q. sq_InstanceID q = j) rows) = None" for rows j
      by (auto simp: tbl_find_None_iff)
    show ?thesis using assms Inr True gid
      by (auto simp: CancelQueued_def QM_Cancel_def QueueRepo_Dequeue_def InstanceRepo_Save_def Let_def
          d table_simps guard_write_def unique_violation_def gorm_TranslateError_def split: option.splits if_splits)
  qed
qed

end
