(* ===== verification/Credentials.thy ===== *)
theory Credentials
  imports Messages Examples
begin

text \<open>
  The pool of external credentials (\<open>biz/credential_use_case.go\<close>,
  \<open>repository/gorm/credential_pool_repo.go\<close>).  A credential is taken by a conditional
  update of its row, so an allocation works on a list that may be stale: what others do to
  the data base before each update is the parameter \<open>intf\<close> of the allocation.
  The asset service's answer to \<open>ListGameBuilds\<close> is a parameter: the pools each
  build declares.  Texts are taken to be valid UTF-8.
\<close>

section \<open>Repository\<close>

definition CredRepo_ListByGame :: "string \<Rightarrow> string \<Rightarrow> 'a db_scheme \<Rightarrow> gerr + CredentialPool list" where
  "CredRepo_ListByGame game rtype w = guard_call w (CredList game)
     (Inr (sort_key (\<lambda>r. - cp_CreateTime r)
        (filter (\<lambda>r. cp_GameID r = game \<and> (rtype = [] \<or> cp_ResourceType r = rtype)) (t_creds w))))"

definition CredRepo_GetByID :: "string \<Rightarrow> 'a db_scheme \<Rightarrow> gerr + CredentialPool option" where
  "CredRepo_GetByID ident w = guard_call w (CredGet ident) (Inr (tbl_find cp_ID ident (t_creds w)))"

text \<open>\<open>Create\<close> inserts all rows in one statement: a duplicate key fails it as a whole.\<close>

definition CredRepo_Create :: "CredentialPool list \<Rightarrow> 'a db_scheme \<Rightarrow> 'a db_scheme \<times> gerr option" where
  "CredRepo_Create cs w =
    (if cs = [] then (w, None)
     else case db_fault w CredCreate of
            Some t \<Rightarrow> (w, Some (DbErr t))
          | None \<Rightarrow> if distinct (map cp_ID (t_creds w @ cs)) then (w\<lparr>t_creds := t_creds w @ cs\<rparr>, None)
                    else (w, Some (unique_violation ''credential_pool_pkey'')))"

definition CredRepo_Delete :: "string \<Rightarrow> 'a db_scheme \<Rightarrow> 'a db_scheme \<times> gerr option" where
  "CredRepo_Delete ident w = guard_write w (CredDelete ident)
     (w\<lparr>t_creds := tbl_del (\<lambda>r. cp_ID r = ident) (t_creds w)\<rparr>)"

text \<open>The Boolean result is \<open>RowsAffected > 0\<close>.\<close>

definition CredRepo_Acquire :: "time \<Rightarrow> string \<Rightarrow> string \<Rightarrow> 'a db_scheme \<Rightarrow> 'a db_scheme \<times> bool \<times> gerr option" where
  "CredRepo_Acquire now ident inst w =
    (case db_fault w (CredAcquire ident) of
       Some t \<Rightarrow> (w, False, Some (DbErr t))
     | None \<Rightarrow>
        let hit = (\<lambda>r. cp_ID r = ident \<and> cp_Status r = CredentialAvailable)
        in (w\<lparr>t_creds := tbl_upd hit (\<lambda>r. r\<lparr>cp_Status := CredentialInUse, cp_InstanceID := Some inst,
                cp_AllocatedAt := Some now, cp_ReleasedAt := None, cp_UpdateTime := now\<rparr>) (t_creds w)\<rparr>,
            list_ex hit (t_creds w), None))"

definition release_row :: "time \<Rightarrow> string \<Rightarrow> CredentialPool \<Rightarrow> CredentialPool" where
  "release_row now inst r = r\<lparr>cp_Status := CredentialAvailable, cp_InstanceID := None,
     cp_LastInstanceID := Some inst, cp_ReleasedAt := Some now, cp_UpdateTime := now\<rparr>"

definition CredRepo_Release :: "time \<Rightarrow> string \<Rightarrow> string \<Rightarrow> 'a db_scheme \<Rightarrow> 'a db_scheme \<times> bool \<times> gerr option" where
  "CredRepo_Release now ident inst w =
    (case db_fault w (CredRelease ident) of
       Some t \<Rightarrow> (w, False, Some (DbErr t))
     | None \<Rightarrow>
        let hit = (\<lambda>r. cp_ID r = ident \<and> cp_Status r = CredentialInUse \<and> cp_InstanceID r = Some inst)
        in (w\<lparr>t_creds := tbl_upd hit (release_row now inst) (t_creds w)\<rparr>, list_ex hit (t_creds w), None))"

definition CredRepo_ReleaseByInstance :: "time \<Rightarrow> string \<Rightarrow> 'a db_scheme \<Rightarrow> 'a db_scheme \<times> gerr option" where
  "CredRepo_ReleaseByInstance now inst w = guard_write w (CredReleaseInstance inst)
     (w\<lparr>t_creds := tbl_upd (\<lambda>r. cp_Status r = CredentialInUse \<and> cp_InstanceID r = Some inst)
        (release_row now inst) (t_creds w)\<rparr>)"

definition CredRepo_FindAllocatedByInstance ::
  "string \<Rightarrow> string \<Rightarrow> string \<Rightarrow> 'a db_scheme \<Rightarrow> gerr + CredentialPool list" where
  "CredRepo_FindAllocatedByInstance game rtype inst w = guard_call w (CredFind inst)
     (Inr (filter (\<lambda>r. cp_GameID r = game \<and> cp_ResourceType r = rtype \<and> cp_Status r = CredentialInUse
                       \<and> cp_InstanceID r = Some inst) (t_creds w)))"

definition CredRepo_MarkOrphan :: "string \<Rightarrow> 'a db_scheme \<Rightarrow> 'a db_scheme \<times> gerr option" where
  "CredRepo_MarkOrphan ident w = guard_write w (CredOrphanMark ident)
     (w\<lparr>t_creds := tbl_upd (\<lambda>r. cp_ID r = ident \<and> cp_Status r = CredentialInUse)
        (\<lambda>r. r\<lparr>cp_Status := CredentialOrphan\<rparr>) (t_creds w)\<rparr>)"

definition CredRepo_ForceRelease :: "time \<Rightarrow> string \<Rightarrow> 'a db_scheme \<Rightarrow> 'a db_scheme \<times> gerr option" where
  "CredRepo_ForceRelease now ident w = guard_write w (CredForce ident)
     (w\<lparr>t_creds := tbl_upd (\<lambda>r. cp_ID r = ident)
        (\<lambda>r. r\<lparr>cp_Status := CredentialAvailable, cp_InstanceID := None, cp_ReleasedAt := Some now,
               cp_UpdateTime := now\<rparr>) (t_creds w)\<rparr>)"

section \<open>Administration\<close>

definition derefStr :: "string option \<Rightarrow> string" where
  "derefStr p = (case p of None \<Rightarrow> [] | Some s \<Rightarrow> s)"

text \<open>The pools of all builds without duplicates and empty names, in the order of appearance.\<close>

fun collect_pools :: "string list \<Rightarrow> string list \<Rightarrow> string list" where
  "collect_pools out [] = out"
| "collect_pools out (p # ps) =
    (if p = [] \<or> p \<in> set out then collect_pools out ps else collect_pools (out @ [p]) ps)"

text \<open>\<open>client\<close> is \<open>None\<close> when there is no asset client.\<close>

definition DeclaredTypes :: "(gerr + string list list) option \<Rightarrow> gerr + string list" where
  "DeclaredTypes client =
    (case client of
       None \<Rightarrow> Inr []
     | Some (Inl e) \<Rightarrow> Inl e
     | Some (Inr builds) \<Rightarrow> Inr (collect_pools [] (concat builds)))"

definition is_blank :: "char \<Rightarrow> bool" where
  "is_blank c \<longleftrightarrow> c \<in> {CHR '' '', CHR 0x09, CHR 0x0D, CHR 0x0A}"

definition trimSpace :: "string \<Rightarrow> string" where
  "trimSpace s = rev (dropWhile is_blank (rev (dropWhile is_blank s)))"

text \<open>The verbs \<open>%q\<close> and \<open>%v\<close> for the text of an error (printable text).\<close>

definition go_quote :: "string \<Rightarrow> string" where
  "go_quote s = CHR 0x22 # concat (map (\<lambda>c. if c = CHR 0x22 \<or> c = CHR 0x5C then [CHR 0x5C, c] else [c]) s)
     @ [CHR 0x22]"

fun join_with :: "string \<Rightarrow> string list \<Rightarrow> string" where
  "join_with sep [] = []"
| "join_with sep [s] = s"
| "join_with sep (s # t # ss) = s @ sep @ join_with sep (t # ss)"

definition go_list :: "string list \<Rightarrow> string" where
  "go_list ss = ''['' @ join_with '' '' ss @ '']''"

definition new_credential :: "time \<Rightarrow> string \<Rightarrow> string \<Rightarrow> string \<Rightarrow> string \<Rightarrow> string \<Rightarrow> CredentialPool" where
  "new_credential now ident game rtype remark secret =
    \<lparr> cp_ID = ident, cp_GameID = game, cp_ResourceType = rtype, cp_Secret = secret,
      cp_Status = CredentialAvailable, cp_InstanceID = None, cp_LastInstanceID = None,
      cp_AllocatedAt = None, cp_ReleasedAt = None, cp_Remark = remark, cp_CreateTime = now,
      cp_UpdateTime = now \<rparr>"

definition Cred_Create ::
  "time \<Rightarrow> (nat \<Rightarrow> string) \<Rightarrow> (gerr + string list list) option \<Rightarrow> string \<Rightarrow> string \<Rightarrow> string list \<Rightarrow> string
   \<Rightarrow> 'a db_scheme \<Rightarrow> 'a db_scheme \<times> (gerr + nat)" where
  "Cred_Create now gen client game rtype secrets remark w =
    (case DeclaredTypes client of
       Inl e \<Rightarrow> (w, Inl e)
     | Inr declared \<Rightarrow>
       if rtype \<notin> set declared then
         (w, Inl (Errorf (if declared = [] then msg_no_declared
                          else msg_bad_type1 @ go_quote rtype @ msg_bad_type2 @ go_list declared @ msg_bad_type3)))
       else let ss = filter (\<lambda>s. s \<noteq> []) (map trimSpace secrets);
                creds = map (\<lambda>(k, s). new_credential now (gen k) game rtype remark s) (enumerate 0 ss)
         in if creds = [] then (w, Inl (Errorf ''no valid secrets provided''))
            else case CredRepo_Create creds w of
                   (w', Some e) \<Rightarrow> (w', Inl e)
                 | (w', None) \<Rightarrow> (w', Inr (length creds)))"

text \<open>The runes of a valid UTF-8 text: a continuation byte belongs to the rune before it.\<close>

definition is_continuation :: "char \<Rightarrow> bool" where
  "is_continuation c \<longleftrightarrow> 0x80 \<le> (of_char c :: nat) \<and> (of_char c :: nat) < 0xC0"

fun runes :: "string \<Rightarrow> string list" where
  "runes [] = []"
| "runes (c # s) = (case runes s of
     [] \<Rightarrow> [[c]]
   | r # rs \<Rightarrow> if is_continuation (hd r) then (c # r) # rs else [c] # r # rs)"

definition maskSecret :: "string \<Rightarrow> string" where
  "maskSecret s =
    (let rs = runes s; n = length rs in
     if n \<le> 10 then ''****'' else concat (take 6 rs) @ ''****'' @ concat (drop (n - 4) rs))"

record CredentialView =
  cv_ID :: string
  cv_GameID :: string
  cv_ResourceType :: string
  cv_SecretMasked :: string
  cv_Status :: string
  cv_InstanceID :: string
  cv_LastInstanceID :: string
  cv_AllocatedAt :: "time option"
  cv_ReleasedAt :: "time option"
  cv_Remark :: string
  cv_CreateTime :: time

definition Cred_List :: "string \<Rightarrow> string \<Rightarrow> 'a db_scheme \<Rightarrow> gerr + CredentialView list" where
  "Cred_List game rtype w =
    (case CredRepo_ListByGame game rtype w of
       Inl e \<Rightarrow> Inl e
     | Inr rows \<Rightarrow> Inr (map (\<lambda>r. \<lparr> cv_ID = cp_ID r, cv_GameID = cp_GameID r,
         cv_ResourceType = cp_ResourceType r, cv_SecretMasked = maskSecret (cp_Secret r),
         cv_Status = cp_Status r, cv_InstanceID = derefStr (cp_InstanceID r),
         cv_LastInstanceID = derefStr (cp_LastInstanceID r), cv_AllocatedAt = cp_AllocatedAt r,
         cv_ReleasedAt = cp_ReleasedAt r, cv_Remark = cp_Remark r, cv_CreateTime = cp_CreateTime r \<rparr>) rows))"

definition Cred_Delete :: "string \<Rightarrow> 'a db_scheme \<Rightarrow> 'a db_scheme \<times> gerr option" where
  "Cred_Delete ident w =
    (case CredRepo_GetByID ident w of
       Inl e \<Rightarrow> (w, Some e)
     | Inr None \<Rightarrow> (w, Some (Errorf ''credential not found''))
     | Inr (Some c) \<Rightarrow>
        if cp_Status c = CredentialInUse
        then (w, Some (Errorf ''credential is in use by an instance, cannot delete''))
        else CredRepo_Delete ident w)"

definition Cred_ForceRelease :: "time \<Rightarrow> string \<Rightarrow> 'a db_scheme \<Rightarrow> 'a db_scheme \<times> gerr option" where
  "Cred_ForceRelease now ident w =
    (case CredRepo_GetByID ident w of
       Inl e \<Rightarrow> (w, Some e)
     | Inr None \<Rightarrow> (w, Some (Errorf ''credential not found''))
     | Inr (Some c) \<Rightarrow> CredRepo_ForceRelease now ident w)"

section \<open>Allocation\<close>

text \<open>A loop over the listed rows: the first one that can be acquired; \<open>Inr None\<close> when none can.\<close>

fun acquire_first ::
  "time \<Rightarrow> ('a db_scheme \<Rightarrow> 'a db_scheme) \<Rightarrow> string \<Rightarrow> CredentialPool list \<Rightarrow> 'a db_scheme
   \<Rightarrow> 'a db_scheme \<times> (gerr + string option)" where
  "acquire_first now intf inst [] w = (w, Inr None)"
| "acquire_first now intf inst (r # rs) w =
    (case CredRepo_Acquire now (cp_ID r) inst (intf w) of
       (w1, ok, Some e) \<Rightarrow> (w1, Inl e)
     | (w1, ok, None) \<Rightarrow> if ok then (w1, Inr (Some (cp_Secret r))) else acquire_first now intf inst rs w1)"

definition AllocateForInstance ::
  "time \<Rightarrow> ('a db_scheme \<Rightarrow> 'a db_scheme) \<Rightarrow> string \<Rightarrow> string \<Rightarrow> string \<Rightarrow> 'a db_scheme
   \<Rightarrow> 'a db_scheme \<times> (gerr + string)" where
  "AllocateForInstance now intf game rtype inst w =
    (case CredRepo_FindAllocatedByInstance game rtype inst w of
       Inl e \<Rightarrow> (w, Inl e)
     | Inr (a # as) \<Rightarrow> (w, Inr (cp_Secret a))
     | Inr [] \<Rightarrow>
       (case CredRepo_ListByGame game rtype w of
          Inl e \<Rightarrow> (w, Inl e)
        | Inr rows \<Rightarrow>
          let free = filter (\<lambda>r. cp_Status r = CredentialAvailable) rows;
              own = filter (\<lambda>r. derefStr (cp_LastInstanceID r) = inst) free
          in case acquire_first now intf inst own w of
               (w1, Inl e) \<Rightarrow> (w1, Inl e)
             | (w1, Inr (Some s)) \<Rightarrow> (w1, Inr s)
             | (w1, Inr None) \<Rightarrow>
               (case acquire_first now intf inst free w1 of
                  (w2, Inl e) \<Rightarrow> (w2, Inl e)
                | (w2, Inr (Some s)) \<Rightarrow> (w2, Inr s)
                | (w2, Inr None) \<Rightarrow> (w2, Inl (Wrapped [] ErrCredentialPoolEmpty
                     ('' (game='' @ game @ '' pool='' @ rtype @ '')''))))))"

definition Cred_ReleaseByInstance :: "time \<Rightarrow> string \<Rightarrow> 'a db_scheme \<Rightarrow> 'a db_scheme \<times> gerr option" where
  "Cred_ReleaseByInstance now inst w = CredRepo_ReleaseByInstance now inst w"

section \<open>What an allocation guarantees\<close>

text \<open>\<open>labelled L w\<close>: a credential's identifier determines its game, pool and secret (they are
  never updated).\<close>

definition labelled :: "(string \<Rightarrow> string \<times> string \<times> string) \<Rightarrow> 'a db_scheme \<Rightarrow> bool" where
  "labelled L w \<longleftrightarrow> (\<forall>r \<in> set (t_creds w). L (cp_ID r) = (cp_GameID r, cp_ResourceType r, cp_Secret r))"

definition held_by :: "string \<Rightarrow> CredentialPool \<Rightarrow> bool" where
  "held_by inst r \<longleftrightarrow> cp_Status r = CredentialInUse \<and> cp_InstanceID r = Some inst"

definition in_pool :: "string \<Rightarrow> string \<Rightarrow> CredentialPool \<Rightarrow> bool" where
  "in_pool game rtype r \<longleftrightarrow> cp_GameID r = game \<and> (rtype = [] \<or> cp_ResourceType r = rtype)"

lemma labelled_Acquire: "labelled L w \<Longrightarrow> labelled L (fst (CredRepo_Acquire now k inst w))"
  by (auto simp: labelled_def CredRepo_Acquire_def Let_def set_tbl_upd split: option.splits)

definition take_row :: "time \<Rightarrow> string \<Rightarrow> CredentialPool \<Rightarrow> CredentialPool" where
  "take_row now inst r = r\<lparr>cp_Status := CredentialInUse, cp_InstanceID := Some inst,
     cp_AllocatedAt := Some now, cp_ReleasedAt := None, cp_UpdateTime := now\<rparr>"

lemma take_row_simps [simp]:
  "cp_ID (take_row now inst r) = cp_ID r" "cp_Secret (take_row now inst r) = cp_Secret r"
  "cp_GameID (take_row now inst r) = cp_GameID r" "cp_ResourceType (take_row now inst r) = cp_ResourceType r"
  "cp_Status (take_row now inst r) = CredentialInUse" "cp_InstanceID (take_row now inst r) = Some inst"
  by (simp_all add: take_row_def)

definition takeable :: "string \<Rightarrow> CredentialPool \<Rightarrow> bool" where
  "takeable k r \<longleftrightarrow> cp_ID r = k \<and> cp_Status r = CredentialAvailable"

lemma Acquire_eq:
  "CredRepo_Acquire now k inst w =
    (case db_fault w (CredAcquire k) of
       Some t \<Rightarrow> (w, False, Some (DbErr t))
     | None \<Rightarrow> (w\<lparr>t_creds := tbl_upd (takeable k) (take_row now inst) (t_creds w)\<rparr>,
               list_ex (takeable k) (t_creds w), None))"
  unfolding CredRepo_Acquire_def takeable_def take_row_def Let_def ..

lemma Acquire_True:
  assumes "CredRepo_Acquire now k inst w = (w', True, e)"
  shows "\<exists>r \<in> set (t_creds w'). cp_ID r = k \<and> held_by inst r"
proof -
  from assms obtain r where "r \<in> set (t_creds w)" "takeable k r"
    "t_creds w' = tbl_upd (takeable k) (take_row now inst) (t_creds w)"
    by (auto simp: Acquire_eq list_ex_iff split: option.splits)
  then have "take_row now inst r \<in> set (t_creds w')" by (force simp: set_tbl_upd)
  then show ?thesis using \<open>takeable k r\<close> by (intro bexI) (auto simp: held_by_def takeable_def)
qed

lemma acquire_first_Some:
  assumes "acquire_first now intf inst rs w = (w', r)" "labelled L w"
    "\<And>u. labelled L u \<Longrightarrow> labelled L (intf u)"
  shows "labelled L w' \<and> (\<forall>s. r = Inr (Some s) \<longrightarrow>
     (\<exists>x \<in> set rs. s = cp_Secret x \<and> (\<exists>y \<in> set (t_creds w'). cp_ID y = cp_ID x \<and> held_by inst y)))"
  using assms
proof (induction rs arbitrary: w)
  case Nil
  then show ?case by auto
next
  case (Cons x rs)
  obtain w1 ok e where a: "CredRepo_Acquire now (cp_ID x) inst (intf w) = (w1, ok, e)" by (metis prod_cases3)
  have l: "labelled L w1" using labelled_Acquire[of L "intf w" now "cp_ID x" inst] a Cons.prems(2,3) by simp
  show ?case
  proof (cases "e = None \<and> \<not> ok")
    case True
    then have "acquire_first now intf inst rs w1 = (w', r)" using Cons.prems(1) a by simp
    from Cons.IH[OF this l Cons.prems(3)] show ?thesis by fastforce
  next
    case False
    then show ?thesis using Cons.prems(1) a l Acquire_True[of now "cp_ID x" inst "intf w" w1 e]
      by (auto split: option.splits if_splits)
  qed
qed

text \<open>The two rounds of an allocation that finds nothing allocated yet.\<close>

lemma Allocate_cases:
  assumes "AllocateForInstance now intf game rtype inst w = (w', Inr s)"
  obtains (kept) a where "a \<in> set (t_creds w)" "held_by inst a" "cp_GameID a = game" "cp_ResourceType a = rtype"
      "s = cp_Secret a" "w' = w"
    | (taken) rows w1 cand where
      "CredRepo_FindAllocatedByInstance game rtype inst w = Inr []"
      "CredRepo_ListByGame game rtype w = Inr rows" "set cand \<subseteq> {r \<in> set rows. cp_Status r = CredentialAvailable}"
      "w1 = w \<or> (\<exists>cand'. set cand' \<subseteq> set rows \<and> acquire_first now intf inst cand' w = (w1, Inr None))"
      "acquire_first now intf inst cand w1 = (w', Inr (Some s))"
proof (cases "CredRepo_FindAllocatedByInstance game rtype inst w")
  case (Inl e)
  then show thesis using assms by (simp add: AllocateForInstance_def)
next
  case (Inr found)
  show thesis
  proof (cases found)
    case (Cons a as)
    then have "a \<in> set (t_creds w) \<and> held_by inst a \<and> cp_GameID a = game \<and> cp_ResourceType a = rtype"
      using Inr by (auto simp: CredRepo_FindAllocatedByInstance_def held_by_def dest!: filter_eq_ConsD)
    then show thesis using assms Inr Cons by (intro kept[of a]) (auto simp: AllocateForInstance_def)
  next
    case Nil
    then obtain rows where rows: "CredRepo_ListByGame game rtype w = Inr rows"
      using assms Inr by (auto simp: AllocateForInstance_def split: sum.splits)
    let ?free = "filter (\<lambda>r. cp_Status r = CredentialAvailable) rows"
    let ?own = "filter (\<lambda>r. derefStr (cp_LastInstanceID r) = inst) ?free"
    obtain w1 r1 where f1: "acquire_first now intf inst ?own w = (w1, r1)" by fastforce
    show thesis
    proof (cases "r1 = Inr None")
      case False
      then have "acquire_first now intf inst ?own w = (w', Inr (Some s))"
        using assms Inr Nil rows f1 by (auto simp: AllocateForInstance_def Let_def split: sum.splits option.splits)
      then show thesis using Inr Nil rows by (intro taken[of rows ?own w]) auto
    next
      case True
      then have "acquire_first now intf inst ?free w1 = (w', Inr (Some s))"
        using assms Inr Nil rows f1
        by (auto simp: AllocateForInstance_def Let_def split: sum.splits option.splits prod.splits)
      then show thesis using Inr Nil rows f1 True
        by (intro taken[of rows ?free w1]) (auto intro!: exI[of _ ?own])
    qed
  qed
qed

text \<open>C18: a successful allocation returns the secret of a credential of the right game and pool which,
  in the resulting data base, the instance itself holds, even though the rows are listed before
  they are taken and others may take, release or delete rows at any moment in between.\<close>

theorem AllocateForInstance_holds:
  assumes "AllocateForInstance now intf game rtype inst w = (w', Inr s)" and "labelled L w"
    and "\<And>u. labelled L u \<Longrightarrow> labelled L (intf u)"
  shows "\<exists>r \<in> set (t_creds w'). cp_Secret r = s \<and> held_by inst r \<and> in_pool game rtype r"
  using assms(1)
proof (cases rule: Allocate_cases)
  case (kept a)
  then show ?thesis by (auto simp: in_pool_def)
next
  case (taken rows w1 cand)
  have "labelled L w1"
    using taken(4) assms(2,3) acquire_first_Some[of now intf inst _ w w1 "Inr None" L] by blast
  from acquire_first_Some[OF taken(5) this assms(3)] obtain x y where
    xy: "labelled L w'" "x \<in> set cand" "s = cp_Secret x" "y \<in> set (t_creds w')" "cp_ID y = cp_ID x" "held_by inst y"
    by blast
  have "x \<in> set (t_creds w)" "in_pool game rtype x"
    using taken(2,3) xy(2) by (auto simp: CredRepo_ListByGame_def in_pool_def)
  then show ?thesis using xy assms(2) by (auto simp: labelled_def in_pool_def intro!: bexI[of _ y])
qed

text \<open>Without interference the loop changes nothing but the row it takes.\<close>

lemma tbl_upd_miss: "\<not> list_ex P rows \<Longrightarrow> tbl_upd P f rows = rows"
  by (rule tbl_upd_none) (auto simp: list_ex_iff)

lemma acquire_first_alone:
  assumes "acquire_first now (\<lambda>u. u) inst rs w = (w', Inr r)"
  shows "case r of None \<Rightarrow> w' = w | Some s \<Rightarrow> \<exists>x \<in> set rs. s = cp_Secret x \<and>
     list_ex (takeable (cp_ID x)) (t_creds w) \<and>
     w' = w\<lparr>t_creds := tbl_upd (takeable (cp_ID x)) (take_row now inst) (t_creds w)\<rparr>"
  using assms
proof (induction rs)
  case Nil
  then show ?case by auto
next
  case (Cons x rs)
  show ?case
  proof (cases "list_ex (takeable (cp_ID x)) (t_creds w)")
    case True
    then show ?thesis using Cons.prems by (auto simp: Acquire_eq split: option.splits)
  next
    case False
    then have "acquire_first now (\<lambda>u. u) inst rs w = (w', Inr r)"
      using Cons.prems by (auto simp: Acquire_eq tbl_upd_miss split: option.splits)
    from Cons.IH[OF this] show ?thesis by (auto split: option.splits)
  qed
qed

lemma take_found:
  assumes "tbl_ok cp_ID (t_creds w)" "x \<in> set (t_creds w)" "list_ex (takeable (cp_ID x)) (t_creds w)"
    and "y \<in> set (tbl_upd (takeable (cp_ID x)) (take_row now inst) (t_creds w))" "y \<notin> set (t_creds w)"
  shows "y = take_row now inst x"
proof -
  obtain r where r: "r \<in> set (t_creds w)" "takeable (cp_ID x) r" "y = take_row now inst r"
    using assms(4,5) by (auto simp: set_tbl_upd split: if_splits)
  then have "tbl_find cp_ID (cp_ID x) (t_creds w) = Some r"
    using tbl_find_mem[OF assms(1) r(1)] by (simp add: takeable_def)
  then show ?thesis using tbl_find_mem[OF assms(1,2)] r(3) by simp
qed

text \<open>An allocation is idempotent: repeating it, at any time, returns the same secret and changes
  nothing, so a restarted start phase never takes a second credential.\<close>

theorem AllocateForInstance_idempotent:
  assumes "AllocateForInstance now (\<lambda>u. u) game rtype inst w = (w', Inr s)"
    and "tbl_ok cp_ID (t_creds w)" and "rtype \<noteq> []"
  shows "AllocateForInstance now' intf game rtype inst w' = (w', Inr s)"
proof (cases "CredRepo_FindAllocatedByInstance game rtype inst w = Inr []")
  case False
  then show ?thesis using assms(1)
    by (auto simp: AllocateForInstance_def split: sum.splits list.splits)
next
  case True
  from assms(1) show ?thesis
  proof (cases rule: Allocate_cases)
    case (kept a)
    then show ?thesis using True
      by (auto simp: CredRepo_FindAllocatedByInstance_def filter_empty_conv held_by_def)
  next
    case (taken rows w1 cand)
    have w1: "w1 = w" using taken(4) acquire_first_alone[of now inst _ w w1 None] by auto
    then obtain x where x: "x \<in> set cand" "s = cp_Secret x" "list_ex (takeable (cp_ID x)) (t_creds w)"
      and w': "w' = w\<lparr>t_creds := tbl_upd (takeable (cp_ID x)) (take_row now inst) (t_creds w)\<rparr>"
      using acquire_first_alone[OF taken(5)] by auto
    have mem: "x \<in> set (t_creds w)" "cp_GameID x = game" "cp_ResourceType x = rtype" "takeable (cp_ID x) x"
      using taken(2,3) x(1) assms(3) by (auto simp: CredRepo_ListByGame_def takeable_def)
    let ?P = "\<lambda>r. cp_GameID r = game \<and> cp_ResourceType r = rtype \<and> cp_Status r = CredentialInUse \<and> cp_InstanceID r = Some inst"
    have none: "\<not> ?P r" if "r \<in> set (t_creds w)" for r
      using True that by (auto simp: CredRepo_FindAllocatedByInstance_def filter_empty_conv)
    have "take_row now inst x \<in> set (filter ?P (t_creds w'))"
      using mem by (auto simp: w' set_tbl_upd)
    moreover have "cp_Secret y = s" if y: "y \<in> set (filter ?P (t_creds w'))" for y
    proof -
      have "y \<notin> set (t_creds w)" using y none[of y] by auto
      moreover have "y \<in> set (tbl_upd (takeable (cp_ID x)) (take_row now inst) (t_creds w))"
        using y by (simp add: w')
      ultimately show ?thesis using take_found[OF assms(2) mem(1) x(3)] x(2) by fastforce
    qed
    ultimately obtain a as where "filter ?P (t_creds w') = a # as" "cp_Secret a = s"
      by (cases "filter ?P (t_creds w')") auto
    moreover have "db_fault w' (CredFind inst) = None"
      using True by (simp add: w' CredRepo_FindAllocatedByInstance_def)
    ultimately have "CredRepo_FindAllocatedByInstance game rtype inst w' = Inr (a # as)" "cp_Secret a = s"
      by (simp_all add: CredRepo_FindAllocatedByInstance_def)
    then show ?thesis by (simp add: AllocateForInstance_def)
  qed
qed

text \<open>Which credential a first allocation takes: when none of the pool's available credentials was
  last used by the instance, it is one recorded at the latest time, not at the earliest.\<close>

theorem AllocateForInstance_takes_newest:
  assumes "CredRepo_FindAllocatedByInstance game rtype inst w = Inr []"
    and "CredRepo_ListByGame game rtype w = Inr rows"
    and "\<forall>r \<in> set rows. db_fault w (CredAcquire (cp_ID r)) = None"
    and "\<forall>r \<in> set rows. cp_Status r = CredentialAvailable \<longrightarrow> derefStr (cp_LastInstanceID r) \<noteq> inst"
    and "r0 \<in> set rows" "cp_Status r0 = CredentialAvailable"
  shows "\<exists>r \<in> set rows. snd (AllocateForInstance now (\<lambda>u. u) game rtype inst w) = Inr (cp_Secret r) \<and>
     cp_Status r = CredentialAvailable \<and>
     (\<forall>r' \<in> set rows. cp_Status r' = CredentialAvailable \<longrightarrow> cp_CreateTime r' \<le> cp_CreateTime r)"
proof -
  let ?free = "filter (\<lambda>r. cp_Status r = CredentialAvailable) rows"
  have own: "filter (\<lambda>r. derefStr (cp_LastInstanceID r) = inst) ?free = []"
    using assms(4) by (auto simp: filter_empty_conv)
  obtain r rs where r: "?free = r # rs" using assms(5,6) by (cases ?free) (auto simp: filter_empty_conv)
  then have rm: "r \<in> set rows" "cp_Status r = CredentialAvailable" by (auto dest!: filter_eq_ConsD)
  have "sorted (map (\<lambda>r. - cp_CreateTime r) rows)"
    using assms(2) by (auto simp: CredRepo_ListByGame_def)
  then have "sorted (map (\<lambda>r. - cp_CreateTime r) ?free)" by (simp add: sorted_filter)
  then have newest: "cp_CreateTime r' \<le> cp_CreateTime r" if "r' \<in> set ?free" for r'
    using that r by auto
  have "r \<in> set (t_creds w)" using assms(2) rm by (auto simp: CredRepo_ListByGame_def)
  then have "list_ex (takeable (cp_ID r)) (t_creds w)" using rm by (auto simp: list_ex_iff takeable_def)
  then have "snd (AllocateForInstance now (\<lambda>u. u) game rtype inst w) = Inr (cp_Secret r)"
    using assms(1-3) own r rm by (simp add: AllocateForInstance_def Let_def Acquire_eq)
  then show ?thesis using rm newest by (intro bexI[of _ r]) auto
qed

section \<open>Release\<close>

lemma released_rows:
  assumes "Cred_ReleaseByInstance now inst w = (w', None)"
  shows "\<not> (\<exists>r \<in> set (t_creds w'). held_by inst r)"
  using assms
  by (auto simp: Cred_ReleaseByInstance_def CredRepo_ReleaseByInstance_def guard_write_def set_tbl_upd
      release_row_def held_by_def split: option.splits if_splits)

lemma ReleaseByInstance_frame [frame_simps]:
  "t_nodes (fst (Cred_ReleaseByInstance now inst w)) = t_nodes w"
  "t_instances (fst (Cred_ReleaseByInstance now inst w)) = t_instances w"
  "t_ports (fst (Cred_ReleaseByInstance now inst w)) = t_ports w"
  "t_queue (fst (Cred_ReleaseByInstance now inst w)) = t_queue w"
  "t_agents (fst (Cred_ReleaseByInstance now inst w)) = t_agents w"
  "db_fault (fst (Cred_ReleaseByInstance now inst w)) = db_fault w"
  by (simp_all add: Cred_ReleaseByInstance_def CredRepo_ReleaseByInstance_def fst_guard_write)

section \<open>A pool of two credentials\<close>

definition ex_cred :: "string \<Rightarrow> time \<Rightarrow> CredentialPool" where
  "ex_cred k t = new_credential t k ''g1'' ''token'' [] (''secret'' @ k)"

definition ex_pool :: db where
  "ex_pool = ex_db\<lparr>t_creds := [ex_cred ''k1'' 1, ex_cred ''k2'' 2]\<rparr>"

lemma ex_cred_simps [simp]:
  "cp_ID (ex_cred k t) = k" "cp_GameID (ex_cred k t) = ''g1''" "cp_ResourceType (ex_cred k t) = ''token''"
  "cp_Status (ex_cred k t) = CredentialAvailable" "cp_CreateTime (ex_cred k t) = t"
  "cp_InstanceID (ex_cred k t) = None" "cp_LastInstanceID (ex_cred k t) = None"
  "cp_Secret (ex_cred k t) = ''secret'' @ k"
  by (simp_all add: ex_cred_def new_credential_def)

lemma ex_pool_reads:
  "CredRepo_FindAllocatedByInstance ''g1'' ''token'' ''i1'' ex_pool = Inr []"
  "CredRepo_ListByGame ''g1'' ''token'' ex_pool = Inr [ex_cred ''k2'' 2, ex_cred ''k1'' 1]"
  "db_fault ex_pool = (\<lambda>_. None)" "t_creds ex_pool = [ex_cred ''k1'' 1, ex_cred ''k2'' 2]"
  by (simp_all add: CredRepo_FindAllocatedByInstance_def CredRepo_ListByGame_def ex_pool_def guard_call_def ex_db_def)

lemma ex_allocate: "\<exists>w'. AllocateForInstance 5 (\<lambda>u. u) ''g1'' ''token'' ''i1'' ex_pool = (w', Inr ''secretk2'')"
  by (simp add: AllocateForInstance_def ex_pool_reads derefStr_def Acquire_eq takeable_def)

theorem AllocateForInstance_takes_newest_witness:
  "snd (AllocateForInstance 5 (\<lambda>u. u) ''g1'' ''token'' ''i1'' ex_pool) = Inr ''secretk2''"
  using AllocateForInstance_takes_newest[OF ex_pool_reads(1,2), of "ex_cred ''k1'' 1" 5]
  by (auto simp: ex_pool_reads derefStr_def)

theorem AllocateForInstance_holds_witness:
  "\<exists>w'. \<exists>r \<in> set (t_creds w'). fst (AllocateForInstance 5 (\<lambda>u. u) ''g1'' ''token'' ''i1'' ex_pool) = w' \<and>
     cp_Secret r = ''secretk2'' \<and> held_by ''i1'' r"
proof -
  obtain w' where a: "AllocateForInstance 5 (\<lambda>u. u) ''g1'' ''token'' ''i1'' ex_pool = (w', Inr ''secretk2'')"
    using ex_allocate by blast
  have "labelled (\<lambda>k. (''g1'', ''token'', ''secret'' @ k)) ex_pool"
    by (simp add: labelled_def ex_pool_reads)
  from AllocateForInstance_holds[OF a this] show ?thesis using a by auto
qed

theorem AllocateForInstance_idempotent_witness:
  "snd (AllocateForInstance 9 (\<lambda>u. u) ''g1'' ''token'' ''i1''
     (fst (AllocateForInstance 5 (\<lambda>u. u) ''g1'' ''token'' ''i1'' ex_pool))) = Inr ''secretk2''"
proof -
  obtain w' where a: "AllocateForInstance 5 (\<lambda>u. u) ''g1'' ''token'' ''i1'' ex_pool = (w', Inr ''secretk2'')"
    using ex_allocate by blast
  have "tbl_ok cp_ID (t_creds ex_pool)" by (simp add: tbl_ok_def ex_pool_reads)
  from AllocateForInstance_idempotent[OF a this, of 9 "\<lambda>u. u"] show ?thesis by (simp add: a)
qed

end
