(* ===== verification/Runtime_Spec.thy ===== *)
theory Runtime_Spec
  imports Entities
begin

text \<open>
  The messages the dispatcher exchanges with the node agent and the asset service (the fields the
  controller reads or writes), and how it builds the runtime specification of an
  instance (\<open>buildInstanceRuntimeSpec\<close> and its helpers in \<open>reconcile_dispatcher.go\<close>).
\<close>

section \<open>Messages\<close>

record AssetGame =
  ag_Id :: string
  ag_Name :: string
  ag_AppId :: string

record CredentialSpec =
  cs_Key :: string
  cs_Pool :: string
  cs_Required :: bool

text \<open>\<open>adapter_metadata\<close> may be missing; the dispatcher reads its credential declarations.\<close>

record AssetGameBuild =
  ab_BuildId :: string
  ab_Game :: "AssetGame option"
  ab_Channel :: "string option"
  ab_AdapterVersion :: "string option"
  ab_UpstreamVersion :: "string option"
  ab_ArtifactUri :: "string option"
  ab_ArtifactImageName :: "string option"
  ab_ArtifactImageTag :: "string option"
  ab_Credentials :: "CredentialSpec list option"
  ab_SchemaJson :: string

record AgentGameBuild =
  nb_BuildId :: string
  nb_Game :: AssetGame
  nb_Channel :: "string option"
  nb_AdapterVersion :: "string option"
  nb_UpstreamVersion :: "string option"
  nb_ArtifactUri :: "string option"
  nb_ArtifactImageName :: "string option"
  nb_ArtifactImageTag :: "string option"

datatype PortMappingMod = MOD_NAT | MOD_HOST

datatype MappingProtocol = PROTOCOL_TCP | PROTOCOL_UDP

record PortMapEntry =
  pme_HostPort :: "32 word"
  pme_ContainerPort :: "32 word"
  pme_Protocol :: MappingProtocol

record PortMapping =
  pmp_Mode :: PortMappingMod
  pmp_Entries :: "PortMapEntry list"

text \<open>Maps of strings are association lists whose first entry of a key counts.\<close>

record InstanceRuntimeSpec =
  is_InstanceId :: string
  is_Build :: AgentGameBuild
  is_ContainerServerPath :: string
  is_PortMapping :: PortMapping
  is_Env :: "(string \<times> string) list"
  is_Config :: "(string \<times> string) list"
  is_Credentials :: "(string \<times> string) list"
  is_ProbeMode :: string
  is_QueryHostPort :: "32 word option"

section \<open>Construction\<close>

definition empty_asset_game :: AssetGame where
  "empty_asset_game = \<lparr> ag_Id = [], ag_Name = [], ag_AppId = [] \<rparr>"

definition mapGameBuild :: "AssetGameBuild \<Rightarrow> AgentGameBuild" where
  "mapGameBuild b = \<lparr> nb_BuildId = ab_BuildId b,
     nb_Game = (case ab_Game b of None \<Rightarrow> empty_asset_game | Some g \<Rightarrow> g),
     nb_Channel = ab_Channel b, nb_AdapterVersion = ab_AdapterVersion b,
     nb_UpstreamVersion = ab_UpstreamVersion b, nb_ArtifactUri = ab_ArtifactUri b,
     nb_ArtifactImageName = ab_ArtifactImageName b, nb_ArtifactImageTag = ab_ArtifactImageTag b \<rparr>"

definition mapPortMapping :: "GameContainerConfig \<Rightarrow> ContainerPortMapping list \<Rightarrow> PortMapping" where
  "mapPortMapping config ms =
    \<lparr> pmp_Mode = (if gc_PortMode config = PORT_MAPPING_MOD_HOST then MOD_HOST else MOD_NAT),
      pmp_Entries = map (\<lambda>m. \<lparr> pme_HostPort = ucast (pm_HostPort m), pme_ContainerPort = ucast (pm_ContainerPort m),
          pme_Protocol = (if pm_Protocol m = UDP then PROTOCOL_UDP else PROTOCOL_TCP) \<rparr>) ms \<rparr>"

definition probeModePtr :: "string \<Rightarrow> string" where
  "probeModePtr m = (if m = [] then ''script'' else m)"

definition resolveQueryHostPort :: "GameContainerConfig \<Rightarrow> ContainerPortMapping list \<Rightarrow> 32 word option" where
  "resolveQueryHostPort config ms =
    (if gc_ProbeMode config \<noteq> ''a2s'' then None
     else map_option (\<lambda>m. ucast (pm_HostPort m) + of_int (gc_QueryPortOffset config)) (find pm_IsGamePort ms))"

definition defaultPortInjectEnv :: string where
  "defaultPortInjectEnv = ''GAME_HOST_PORT''"

definition buildInstanceEnv :: "GameContainerConfig \<Rightarrow> ContainerPortMapping list \<Rightarrow> (string \<times> string) list" where
  "buildInstanceEnv config ms =
    (if \<not> gc_InjectGamePort config then []
     else let env = (if gc_PortInjectEnv config = [] then defaultPortInjectEnv else gc_PortInjectEnv config)
          in case find pm_IsGamePort ms of
               None \<Rightarrow> []
             | Some m \<Rightarrow> [(env, show_nat (unat (pm_HostPort m)))])"

definition buildInstanceRuntimeSpec ::
  "GameInstance \<Rightarrow> AssetGameBuild \<Rightarrow> GameContainerConfig \<Rightarrow> ContainerPortMapping list \<Rightarrow> InstanceRuntimeSpec" where
  "buildInstanceRuntimeSpec inst build config ms =
    \<lparr> is_InstanceId = gi_ID inst, is_Build = mapGameBuild build,
      is_ContainerServerPath = gc_ContainerServerPath config, is_PortMapping = mapPortMapping config ms,
      is_Env = buildInstanceEnv config ms, is_Config = gi_Config inst, is_Credentials = [],
      is_ProbeMode = probeModePtr (gc_ProbeMode config),
      is_QueryHostPort = resolveQueryHostPort config ms \<rparr>"

end
