(* ===== verification/Dispatcher.thy ===== *)
theory Dispatcher
  imports Schedule_Exits Credentials Runtime_Spec
begin

text \<open>
  The reconcile dispatcher (\<open>biz/reconcile_dispatcher.go\<close>): one consumer takes instances from
  its queue and advances them phase by phase; remote operations are started and then
  polled by goroutines.  The state adds the channel (capacity 100), the overflow
  buffer, the retry counters, the first times a running instance's node was seen
  offline, the pollers that run, and the pending wake event of the queue waker.

  An instance object is handed from the queue to the dispatcher to a poller and back; no
  other component keeps a reference to it, so the model passes it by value.  The answers
  of the remote services are a parameter (\<open>remote\<close>), as are the scheduler and the clock;
  a dispatch makes each call at most once.  \<open>now\<close> is one reading of the clock per operation.
\<close>

section \<open>State and environment\<close>

datatype op_phase = OnPrepareBuild | OnRestoreSnapshot | OnStartInstance | OnStopInstance | OnCleanInstance

datatype poller = PollOperation string GameInstance op_phase | PollCache GameInstance

record disp = sched +
  d_queue :: "GameInstance list"
  d_overflow :: "GameInstance list"
  d_retry :: "(string \<times> int) list"
  d_offline :: "(string \<times> time) list"
  d_pollers :: "poller list"
  d_wake :: bool

record remote =
  rm_connect :: "string \<Rightarrow> string \<Rightarrow> gerr option"
  rm_CacheGame :: "string \<Rightarrow> string \<Rightarrow> string \<Rightarrow> gerr option"
  rm_PrepareGameBuild :: "string \<Rightarrow> gerr + string"
  rm_GetLatestSnapshot :: "string \<Rightarrow> gerr + (string \<times> bool) option"
  rm_RestoreSnapshot :: "string \<Rightarrow> string \<Rightarrow> gerr + string"
  rm_GetGameBuild :: "string \<Rightarrow> gerr + AssetGameBuild option"
  rm_StartInstance :: "InstanceRuntimeSpec \<Rightarrow> gerr + string"
  rm_StopInstance :: "string \<Rightarrow> gerr + string"
  rm_CleanInstance :: "string \<Rightarrow> gerr + string"

text \<open>The dispatcher's collaborators and settings; a missing collaborator is \<open>nil\<close> in Go.\<close>

record 'w disp_cfg =
  dc_schedule :: "GameInstance \<Rightarrow> 'w \<Rightarrow> 'w \<times> (gerr + ScheduleResult)"
  dc_queueManager :: QueueManager
  dc_credentialUC :: bool
  dc_platformRepo :: bool
  dc_releasedHook :: bool
  dc_cred_intf :: "'w \<Rightarrow> 'w"
  dc_fencingTimeout :: duration

definition queue_capacity :: nat where "queue_capacity = 100"

definition OPERATION_RETRY_MAX :: int where "OPERATION_RETRY_MAX = 3"

definition cacheWarmTimeoutMin :: int where "cacheWarmTimeoutMin = 60"

text \<open>\<open>NewReconcileDispatcher\<close>: the defaults of the timeouts and the empty state.\<close>

definition rpc_timeout_of :: "duration \<Rightarrow> duration" where
  "rpc_timeout_of t = (if t \<le> 0 then 30 * second else t)"

definition fencing_timeout_of :: "duration \<Rightarrow> duration" where
  "fencing_timeout_of t = (if t \<le> 0 then 3 * minute else t)"

definition NewReconcileDispatcher :: "'a disp_scheme \<Rightarrow> 'a disp_scheme" where
  "NewReconcileDispatcher w = w\<lparr>d_queue := [], d_overflow := [], d_retry := [], d_offline := [],
     d_pollers := [], d_wake := False\<rparr>"

section \<open>The queue\<close>

definition RequestDispatch :: "GameInstance \<Rightarrow> 'a disp_scheme \<Rightarrow> 'a disp_scheme \<times> gerr option" where
  "RequestDispatch inst w =
    (if isDispatchableStatus (gi_Status inst)
     then if length (d_queue w) < queue_capacity then (w\<lparr>d_queue := d_queue w @ [inst]\<rparr>, None)
          else (w\<lparr>d_overflow := d_overflow w @ [inst]\<rparr>, None)
     else (w, Some (Errorf ''instance is not in a dispatchable state'')))"

text \<open>\<open>ForceDispatch\<close> sends to the channel: \<open>None\<close> means that the caller blocks.\<close>

definition ForceDispatch :: "GameInstance \<Rightarrow> 'a disp_scheme \<Rightarrow> 'a disp_scheme option" where
  "ForceDispatch inst w =
    (if length (d_queue w) < queue_capacity then Some (w\<lparr>d_queue := d_queue w @ [inst]\<rparr>) else None)"

definition QueueLen :: "'a disp_scheme \<Rightarrow> nat" where
  "QueueLen w = length (d_queue w) + length (d_overflow w)"

definition RetryCounts :: "'a disp_scheme \<Rightarrow> (string \<times> int) list" where
  "RetryCounts w = d_retry w"

text \<open>The next instance: \<open>None\<close> when both buffers are empty (the consumer blocks).\<close>

definition nextDispatchInstance :: "'a disp_scheme \<Rightarrow> 'a disp_scheme \<times> GameInstance option" where
  "nextDispatchInstance w =
    (case d_overflow w of
       i # is \<Rightarrow> (w\<lparr>d_overflow := is\<rparr>, Some i)
     | [] \<Rightarrow> (case d_queue w of
               i # is \<Rightarrow> (w\<lparr>d_queue := is\<rparr>, Some i)
             | [] \<Rightarrow> (w, None)))"

section \<open>Failure\<close>

definition releaseReservation :: "GameInstance \<Rightarrow> 'a db_scheme \<Rightarrow> 'a db_scheme" where
  "releaseReservation inst w =
    (case (gi_NodeAgentID inst, gi_ResourceReq inst) of
       (Some a, Some req) \<Rightarrow>
         (case AgentRepo_GetByID a w of Inl e \<Rightarrow> w | Inr agent \<Rightarrow> fst (Release (na_NodeId agent) req w))
     | _ \<Rightarrow> w)"

definition release_credentials :: "'w disp_cfg \<Rightarrow> time \<Rightarrow> string \<Rightarrow> 'a db_scheme \<Rightarrow> 'a db_scheme" where
  "release_credentials cfg now ident w =
    (if dc_credentialUC cfg then fst (Cred_ReleaseByInstance now ident w) else w)"

text \<open>The object and the state after \<open>FailedInstance\<close>.\<close>

definition failed_object :: "GameInstance \<Rightarrow> GameInstance" where
  "failed_object inst =
    (if gi_Status inst = StatusStopping \<or> gi_Status inst = StatusCleaning
     then inst\<lparr>gi_Status := Failed, gi_ResourceReq := None\<rparr>
     else inst\<lparr>gi_Status := Failed, gi_NodeAgentID := None\<rparr>)"

definition FailedInstance :: "'w disp_cfg \<Rightarrow> time \<Rightarrow> GameInstance \<Rightarrow> 'a disp_scheme \<Rightarrow> 'a disp_scheme" where
  "FailedInstance cfg now inst w =
    (let w1 = release_credentials cfg now (gi_ID inst) w;
         w2 = (if gi_NodeAgentID inst \<noteq> None \<and> gi_ResourceReq inst \<noteq> None \<and> gi_Status inst \<noteq> StatusScheduling
               then releaseReservation inst w1 else w1);
         inst' = failed_object inst;
         (w3, _, _) = InstanceRepo_Save now inst' w2
     in publish now EventInstanceFailed (gi_ID inst) (derefStr (gi_NodeAgentID inst')) (gi_FailReason inst') w3)"

definition failWithReason :: "'w disp_cfg \<Rightarrow> time \<Rightarrow> GameInstance \<Rightarrow> string \<Rightarrow> 'a disp_scheme \<Rightarrow> 'a disp_scheme" where
  "failWithReason cfg now inst reason w = FailedInstance cfg now (inst\<lparr>gi_FailReason := reason\<rparr>) w"

section \<open>Errors of remote calls\<close>

fun rpc_of :: "gerr \<Rightarrow> rpc_error option" where
  "rpc_of (RpcErr r) = Some r"
| "rpc_of (Wrapped p e s) = rpc_of e"
| "rpc_of e = None"

definition extractErrorDetail :: "gerr \<Rightarrow> error_detail option" where
  "extractErrorDetail e =
    (case rpc_of e of
       None \<Rightarrow> None
     | Some r \<Rightarrow> if re_status r = None then None
                 else (case re_details r of [] \<Rightarrow> None | d # ds \<Rightarrow> Some d))"

definition isRetryableRPCErr :: "gerr \<Rightarrow> bool" where
  "isRetryableRPCErr e =
    (case rpc_of e of
       None \<Rightarrow> False
     | Some r \<Rightarrow> re_ctx_deadline r \<or>
                 (case re_status r of None \<Rightarrow> False
                    | Some c \<Rightarrow> c \<in> {GUnavailable, GDeadlineExceeded, GAborted}))"

definition retry_count :: "string \<Rightarrow> 'a disp_scheme \<Rightarrow> int" where
  "retry_count ident w = (case map_of (d_retry w) ident of None \<Rightarrow> 0 | Some n \<Rightarrow> n)"

definition clearRetryCount :: "string \<Rightarrow> 'a disp_scheme \<Rightarrow> 'a disp_scheme" where
  "clearRetryCount ident w = w\<lparr>d_retry := tbl_del (\<lambda>p. fst p = ident) (d_retry w)\<rparr>"

definition retryOperation :: "GameInstance \<Rightarrow> 'a disp_scheme \<Rightarrow> 'a disp_scheme \<times> bool" where
  "retryOperation inst w =
    (let count = retry_count (gi_ID inst) w + 1 in
     if count > OPERATION_RETRY_MAX then (clearRetryCount (gi_ID inst) w, False)
     else (w\<lparr>d_retry := tbl_put fst (gi_ID inst, count) (d_retry w)\<rparr>, True))"

definition handleDispatchError ::
  "'w disp_cfg \<Rightarrow> time \<Rightarrow> GameInstance \<Rightarrow> gerr \<Rightarrow> string \<Rightarrow> 'a disp_scheme \<Rightarrow> 'a disp_scheme" where
  "handleDispatchError cfg now inst e opName w =
    (let retryable = (isRetryableRPCErr e \<or>
           (case extractErrorDetail e of None \<Rightarrow> False | Some d \<Rightarrow> ed_retryable d));
         (w1, again) = (if retryable then retryOperation inst w else (w, False));
         (w2, rejected) = (if again then RequestDispatch inst w1 else (w1, Some (Errorf [])))
     in if rejected = None then w2
        else FailedInstance cfg now (inst\<lparr>gi_FailReason := opName @ msg_failed_sep @ error_text e\<rparr>) w2)"

section \<open>Phases\<close>

definition start_poller :: "poller \<Rightarrow> 'a disp_scheme \<Rightarrow> 'a disp_scheme" where
  "start_poller p w = w\<lparr>d_pollers := d_pollers w @ [p]\<rparr>"

text \<open>The node agent, its node and the connection every remote phase begins with.\<close>

definition with_client ::
  "'w disp_cfg \<Rightarrow> remote \<Rightarrow> time \<Rightarrow> GameInstance \<Rightarrow> ('a disp_scheme \<Rightarrow> 'a disp_scheme) \<Rightarrow> 'a disp_scheme \<Rightarrow> 'a disp_scheme" where
  "with_client cfg rm now inst act w =
    (case gi_NodeAgentID inst of
       None \<Rightarrow> FailedInstance cfg now inst w
     | Some a \<Rightarrow>
       (case AgentRepo_GetByID a w of
          Inl e \<Rightarrow> FailedInstance cfg now inst w
        | Inr agent \<Rightarrow>
          (case NodeRepo_GetByID (na_NodeId agent) w of
             Inl e \<Rightarrow> FailedInstance cfg now inst w
           | Inr node \<Rightarrow>
             (case rm_connect rm a (nd_Ip node @ '':'' @ show_int (na_Port agent)) of
                Some e \<Rightarrow> FailedInstance cfg now inst w
              | None \<Rightarrow> act w))))"

text \<open>A remote call that starts an operation, and its poller.\<close>

definition start_operation ::
  "'w disp_cfg \<Rightarrow> time \<Rightarrow> GameInstance \<Rightarrow> string \<Rightarrow> gerr + string \<Rightarrow> op_phase \<Rightarrow> 'a disp_scheme \<Rightarrow> 'a disp_scheme" where
  "start_operation cfg now inst opName answer phase w =
    (case answer of
       Inl e \<Rightarrow> handleDispatchError cfg now inst e opName w
     | Inr op_id \<Rightarrow> start_poller (PollOperation op_id inst phase) w)"

text \<open>A change of status that is written and queued again.\<close>

definition move_on :: "time \<Rightarrow> GameInstance \<Rightarrow> InstanceStatus \<Rightarrow> 'a disp_scheme \<Rightarrow> 'a disp_scheme" where
  "move_on now inst st w =
    (let inst' = inst\<lparr>gi_Status := st\<rparr>;
         (w1, _) = InstanceRepo_UpdateStatus now inst' w
     in fst (RequestDispatch inst' w1))"

definition on_scheduled :: "'w disp_cfg \<Rightarrow> time \<Rightarrow> GameInstance \<Rightarrow> ScheduleResult \<Rightarrow> 'a disp_scheme \<Rightarrow> 'a disp_scheme" where
  "on_scheduled cfg now inst res w =
    (let w1 = (case QM_Get (gi_ID inst) w of Inl e \<Rightarrow> w | Inr q \<Rightarrow> fst (QM_Cancel (gi_ID inst) w));
         inst' = inst\<lparr>gi_NodeAgentID := Some (sr_NodeAgentID res), gi_BranchName := sr_BranchName res,
                      gi_CacheBuildID := sr_BuildID res,
                      gi_Status := (if sr_CacheNeeded res then StatusCacheWarming else StatusPreparingBuild),
                      gi_ResourceReq := Some (sr_ResourceReq res), gi_QueuedReason := [], gi_QueuedAt := None\<rparr>;
         (w2, inst'', _) = InstanceRepo_Save now inst' w1
     in fst (RequestDispatch inst'' w2))"

definition on_queued :: "'w disp_cfg \<Rightarrow> time \<Rightarrow> GameInstance \<Rightarrow> ScheduleResult \<Rightarrow> 'a disp_scheme \<Rightarrow> 'a disp_scheme" where
  "on_queued cfg now inst res w =
    (case QM_Get (gi_ID inst) w of
       Inl _ \<Rightarrow>
         (case QM_Enqueue (dc_queueManager cfg) now inst (sr_Reason res) w of
            (w1, Some e) \<Rightarrow> FailedInstance cfg now inst w1
          | (w1, None) \<Rightarrow>
             fst (InstanceRepo_Save now (inst\<lparr>gi_Status := StatusQueued, gi_QueuedReason := sr_Reason res,
                                             gi_QueuedAt := Some now\<rparr>) w1))
     | Inr q \<Rightarrow>
         (case OnStillQueued (dc_queueManager cfg) now now (gi_ID inst) False w of
            (w1, _, Some e) \<Rightarrow> FailedInstance cfg now inst w1
          | (w1, True, None) \<Rightarrow>
             let w2 = fst (QM_Cancel (gi_ID inst) w1);
                 w3 = fst (InstanceRepo_Save now (inst\<lparr>gi_Status := Failed, gi_QueuedReason := ''queue_timeout'',
                                                      gi_FailReason := msg_queue_timeout\<rparr>) w2)
             in publish now EventInstanceQueueTimeout (gi_ID inst) [] msg_queue_timeout_ev w3
          | (w1, False, None) \<Rightarrow>
             fst (InstanceRepo_UpdateStatus now (inst\<lparr>gi_Status := StatusQueued,
                                                     gi_QueuedReason := sr_Reason res\<rparr>) w1)))"

definition dispatch_scheduling :: "('a disp_scheme) disp_cfg \<Rightarrow> time \<Rightarrow> GameInstance \<Rightarrow> 'a disp_scheme \<Rightarrow> 'a disp_scheme" where
  "dispatch_scheduling cfg now inst w =
    (case dc_schedule cfg inst w of
       (w1, Inl e) \<Rightarrow> FailedInstance cfg now inst w1
     | (w1, Inr res) \<Rightarrow>
        (case sr_Outcome res of
           OutcomeScheduled \<Rightarrow> on_scheduled cfg now inst res w1
         | OutcomeQueued \<Rightarrow> on_queued cfg now inst res w1
         | OutcomeFailed \<Rightarrow> FailedInstance cfg now (inst\<lparr>gi_FailReason := sr_Reason res\<rparr>) w1))"

definition dispatch_cache_warming :: "'w disp_cfg \<Rightarrow> remote \<Rightarrow> time \<Rightarrow> GameInstance \<Rightarrow> 'a disp_scheme \<Rightarrow> 'a disp_scheme" where
  "dispatch_cache_warming cfg rm now inst w =
    (if gi_NodeAgentID inst = None then FailedInstance cfg now inst w
     else if gi_BranchName inst = [] then failWithReason cfg now inst msg_warm_no_branch w
     else with_client cfg rm now inst (\<lambda>w.
       case rm_CacheGame rm (gi_GameID inst) (gi_BranchName inst) (gi_CacheBuildID inst) of
         Some e \<Rightarrow> handleDispatchError cfg now inst e ''CacheGame'' w
       | None \<Rightarrow> start_poller (PollCache inst) w) w)"

definition dispatch_preparing :: "'w disp_cfg \<Rightarrow> remote \<Rightarrow> time \<Rightarrow> GameInstance \<Rightarrow> 'a disp_scheme \<Rightarrow> 'a disp_scheme" where
  "dispatch_preparing cfg rm now inst w =
     with_client cfg rm now inst
       (start_operation cfg now inst ''PrepareGameBuild'' (rm_PrepareGameBuild rm (gi_GameBuildId inst)) OnPrepareBuild) w"

text \<open>The latest snapshot, with whether it is completed; without one the instance is fresh.\<close>

definition dispatch_restoring :: "'w disp_cfg \<Rightarrow> remote \<Rightarrow> time \<Rightarrow> GameInstance \<Rightarrow> 'a disp_scheme \<Rightarrow> 'a disp_scheme" where
  "dispatch_restoring cfg rm now inst w =
     with_client cfg rm now inst (\<lambda>w.
       case rm_GetLatestSnapshot rm (gi_ID inst) of
         Inl e \<Rightarrow> FailedInstance cfg now inst w
       | Inr (Some (snap, True)) \<Rightarrow>
           start_operation cfg now inst ''RestoreSnapshot'' (rm_RestoreSnapshot rm (gi_ID inst) snap) OnRestoreSnapshot w
       | Inr _ \<Rightarrow> move_on now inst StatusStarting w) w"

definition mergedInstanceConfig :: "'w disp_cfg \<Rightarrow> GameInstance \<Rightarrow> 'a db_scheme \<Rightarrow> (string \<times> string) list option" where
  "mergedInstanceConfig cfg inst w =
    (if \<not> dc_platformRepo cfg then None
     else case PlatformRepo_GetByGame (gi_GameID inst) w of
            Inr (Some pc) \<Rightarrow>
              if gp_Config pc = [] then None
              else if gi_Config inst = [] then Some (gp_Config pc)
              else Some (fold (tbl_put fst) (gi_Config inst) (gp_Config pc))
          | _ \<Rightarrow> None)"

fun allocate_loop ::
  "'w disp_cfg \<Rightarrow> ('a db_scheme \<Rightarrow> 'a db_scheme) \<Rightarrow> time \<Rightarrow> GameInstance \<Rightarrow> CredentialSpec list \<Rightarrow> (string \<times> string) list \<Rightarrow> 'a db_scheme
   \<Rightarrow> 'a db_scheme \<times> (gerr + (string \<times> string) list)" where
  "allocate_loop cfg intf now inst [] out w = (w, Inr out)"
| "allocate_loop cfg intf now inst (s # ss) out w =
    (case AllocateForInstance now intf (gi_GameID inst) (cs_Pool s) (gi_ID inst) w of
       (w1, Inl e) \<Rightarrow>
          if cs_Required s
          then (w1, Inl (Wrapped (''allocate credential '' @ cs_Key s @ '' (pool='' @ cs_Pool s @ ''): '') e []))
          else allocate_loop cfg intf now inst ss out w1
     | (w1, Inr secret) \<Rightarrow> allocate_loop cfg intf now inst ss (tbl_put fst (cs_Key s, secret) out) w1)"

definition allocateCredentials ::
  "'w disp_cfg \<Rightarrow> ('a db_scheme \<Rightarrow> 'a db_scheme) \<Rightarrow> time \<Rightarrow> GameInstance \<Rightarrow> AssetGameBuild \<Rightarrow> 'a db_scheme
   \<Rightarrow> 'a db_scheme \<times> (gerr + (string \<times> string) list)" where
  "allocateCredentials cfg intf now inst build w =
    (if \<not> dc_credentialUC cfg then (w, Inr [])
     else case ab_Credentials build of
            None \<Rightarrow> (w, Inr [])
          | Some specs \<Rightarrow> allocate_loop cfg intf now inst specs [] w)"

definition runtime_spec ::
  "'w disp_cfg \<Rightarrow> GameInstance \<Rightarrow> AssetGameBuild \<Rightarrow> GameContainerConfig \<Rightarrow> ContainerPortMapping list \<Rightarrow> 'a db_scheme \<Rightarrow> InstanceRuntimeSpec" where
  "runtime_spec cfg inst build config ms w =
    (case mergedInstanceConfig cfg inst w of
       None \<Rightarrow> buildInstanceRuntimeSpec inst build config ms
     | Some merged \<Rightarrow> buildInstanceRuntimeSpec (inst\<lparr>gi_Config := merged\<rparr>) build config ms)"

definition start_with ::
  "('a disp_scheme) disp_cfg \<Rightarrow> remote \<Rightarrow> time \<Rightarrow> GameInstance \<Rightarrow> AssetGameBuild \<Rightarrow> GameContainerConfig
   \<Rightarrow> ContainerPortMapping list \<Rightarrow> 'a disp_scheme \<Rightarrow> 'a disp_scheme" where
  "start_with cfg rm now inst build config ms w =
    (let spec = runtime_spec cfg inst build config ms w in
     case allocateCredentials cfg (dc_cred_intf cfg) now inst build w of
       (w1, Inl e) \<Rightarrow> failWithReason cfg now inst (error_text e) w1
     | (w1, Inr creds) \<Rightarrow>
        start_operation cfg now inst ''StartInstance''
          (rm_StartInstance rm (spec\<lparr>is_Credentials := creds\<rparr>)) OnStartInstance w1)"

definition dispatch_starting :: "('a disp_scheme) disp_cfg \<Rightarrow> remote \<Rightarrow> time \<Rightarrow> GameInstance \<Rightarrow> 'a disp_scheme \<Rightarrow> 'a disp_scheme" where
  "dispatch_starting cfg rm now inst w =
     with_client cfg rm now inst (\<lambda>w.
       case rm_GetGameBuild rm (gi_GameBuildId inst) of
         Inl e \<Rightarrow> FailedInstance cfg now inst w
       | Inr None \<Rightarrow> FailedInstance cfg now inst w
       | Inr (Some build) \<Rightarrow>
          if ab_Game build = None then FailedInstance cfg now inst w
          else case GameRepo_GetByID (gi_GameID inst) w of
            Inl e \<Rightarrow> FailedInstance cfg now inst w
          | Inr game \<Rightarrow>
            (case ConfigRepo_GetByID (gm_ContainerConfigID game) w of
               Inl e \<Rightarrow> FailedInstance cfg now inst w
             | Inr config \<Rightarrow>
               (case GetMapPortByInstanceId (gi_ID inst) w of
                  Inl e \<Rightarrow> FailedInstance cfg now inst w
                | Inr ms \<Rightarrow> start_with cfg rm now inst build config ms w))) w"

definition dispatch_stopping :: "'w disp_cfg \<Rightarrow> remote \<Rightarrow> time \<Rightarrow> GameInstance \<Rightarrow> 'a disp_scheme \<Rightarrow> 'a disp_scheme" where
  "dispatch_stopping cfg rm now inst w =
     with_client cfg rm now inst
       (start_operation cfg now inst ''StopInstance'' (rm_StopInstance rm (gi_ID inst)) OnStopInstance) w"

definition dispatch_cleaning :: "'w disp_cfg \<Rightarrow> remote \<Rightarrow> time \<Rightarrow> GameInstance \<Rightarrow> 'a disp_scheme \<Rightarrow> 'a disp_scheme" where
  "dispatch_cleaning cfg rm now inst w =
     with_client cfg rm now inst
       (start_operation cfg now inst ''CleanInstance'' (rm_CleanInstance rm (gi_ID inst)) OnCleanInstance) w"

definition Dispatch :: "('a disp_scheme) disp_cfg \<Rightarrow> remote \<Rightarrow> time \<Rightarrow> GameInstance \<Rightarrow> 'a disp_scheme \<Rightarrow> 'a disp_scheme" where
  "Dispatch cfg rm now inst w =
    (case gi_Status inst of
       StatusPending \<Rightarrow> move_on now inst StatusScheduling w
     | StatusQueued \<Rightarrow> move_on now inst StatusScheduling w
     | StatusScheduling \<Rightarrow> dispatch_scheduling cfg now inst w
     | StatusCacheWarming \<Rightarrow> dispatch_cache_warming cfg rm now inst w
     | StatusPreparingBuild \<Rightarrow> dispatch_preparing cfg rm now inst w
     | StatusRestoringSnapshot \<Rightarrow> dispatch_restoring cfg rm now inst w
     | StatusStarting \<Rightarrow> dispatch_starting cfg rm now inst w
     | StatusStopping \<Rightarrow> dispatch_stopping cfg rm now inst w
     | StatusCleaning \<Rightarrow> dispatch_cleaning cfg rm now inst w
     | _ \<Rightarrow> fst (InstanceRepo_UpdateStatus now (inst\<lparr>gi_Status := Failed\<rparr>) w))"

definition NextDispatch :: "('a disp_scheme) disp_cfg \<Rightarrow> remote \<Rightarrow> time \<Rightarrow> 'a disp_scheme \<Rightarrow> 'a disp_scheme" where
  "NextDispatch cfg rm now w =
    (case nextDispatchInstance w of (w1, None) \<Rightarrow> w1 | (w1, Some inst) \<Rightarrow> Dispatch cfg rm now inst w1)"

end
