(* ===== verification/Pollers.thy ===== *)
theory Pollers
  imports Dispatcher
begin

text \<open>
  The goroutines of the dispatcher: the callbacks that advance an instance, the
  polling of an operation and of the node's cache, recovery after a restart, and the
  watch over running instances with its fencing.  A poller's answers are given as
  the list of the rounds up to its deadline; only the deciding round changes the
  state, so the state is the one at that moment.
\<close>

section \<open>Callbacks\<close>

definition onPrepareBuildSucceeded :: "GameInstance \<Rightarrow> 'a disp_scheme \<Rightarrow> 'a disp_scheme" where
  "onPrepareBuildSucceeded inst w = fst (RequestDispatch (inst\<lparr>gi_Status := StatusRestoringSnapshot\<rparr>) w)"

definition onCacheWarmReady :: "time \<Rightarrow> GameInstance \<Rightarrow> 'a disp_scheme \<Rightarrow> 'a disp_scheme" where
  "onCacheWarmReady now inst w =
    (if gi_Status inst \<noteq> StatusCacheWarming then w
     else let (w1, inst', _) = InstanceRepo_Save now (inst\<lparr>gi_Status := StatusPreparingBuild\<rparr>) w
          in fst (RequestDispatch inst' w1))"

definition onRestoreSnapshotSucceeded :: "time \<Rightarrow> GameInstance \<Rightarrow> 'a disp_scheme \<Rightarrow> 'a disp_scheme" where
  "onRestoreSnapshotSucceeded now inst w = move_on now inst StatusStarting w"

definition onStartInstanceSucceeded :: "time \<Rightarrow> GameInstance \<Rightarrow> 'a disp_scheme \<Rightarrow> 'a disp_scheme" where
  "onStartInstanceSucceeded now inst w =
     fst (InstanceRepo_UpdateStatus now (inst\<lparr>gi_Status := StatusRunning\<rparr>) w)"

definition onStopInstanceSucceeded :: "time \<Rightarrow> GameInstance \<Rightarrow> 'a disp_scheme \<Rightarrow> 'a disp_scheme" where
  "onStopInstanceSucceeded now inst w = move_on now inst StatusCleaning w"

definition onCleanInstanceSucceeded :: "'w disp_cfg \<Rightarrow> time \<Rightarrow> GameInstance \<Rightarrow> 'a disp_scheme \<Rightarrow> 'a disp_scheme" where
  "onCleanInstanceSucceeded cfg now inst w =
    (let w1 = release_credentials cfg now (gi_ID inst) w;
         w2 = releaseReservation inst w1;
         w3 = fst (InstanceRepo_Save now (inst\<lparr>gi_Status := StatusStopped, gi_NodeAgentID := None\<rparr>) w2);
         w4 = fst (ReleaseMapPortByInstanceId (gi_ID inst) w3);
         w5 = (if dc_releasedHook cfg then w4\<lparr>d_wake := Wake (d_wake w4)\<rparr> else w4)
     in publish now EventInstanceStopped (gi_ID inst) [] msg_stopped_ev w5)"

definition on_succeeded :: "'w disp_cfg \<Rightarrow> time \<Rightarrow> op_phase \<Rightarrow> GameInstance \<Rightarrow> 'a disp_scheme \<Rightarrow> 'a disp_scheme" where
  "on_succeeded cfg now ph inst w =
    (case ph of
       OnPrepareBuild \<Rightarrow> onPrepareBuildSucceeded inst w
     | OnRestoreSnapshot \<Rightarrow> onRestoreSnapshotSucceeded now inst w
     | OnStartInstance \<Rightarrow> onStartInstanceSucceeded now inst w
     | OnStopInstance \<Rightarrow> onStopInstanceSucceeded now inst w
     | OnCleanInstance \<Rightarrow> onCleanInstanceSucceeded cfg now inst w)"

section \<open>Polling an operation\<close>

datatype OperationStatus = OP_UNSPECIFIED | OP_PENDING | OP_RUNNING | OP_SUCCEEDED | OP_FAILED

record Operation =
  op_Status :: OperationStatus
  op_Error :: "error_detail option"

definition operation_failed :: "'w disp_cfg \<Rightarrow> time \<Rightarrow> GameInstance \<Rightarrow> error_detail option \<Rightarrow> 'a disp_scheme \<Rightarrow> 'a disp_scheme" where
  "operation_failed cfg now inst detail w =
    (case detail of
       None \<Rightarrow> FailedInstance cfg now inst w
     | Some d \<Rightarrow>
        let (w1, again) = (if ed_retryable d then retryOperation inst w else (w, False));
            (w2, rejected) = (if again then RequestDispatch inst w1 else (w1, Some (Errorf [])))
        in if rejected = None then w2 else FailedInstance cfg now inst w2)"

text \<open>The rounds of \<open>GetOperation\<close>; the empty list is the deadline of 3 minutes.\<close>

fun PollingResult ::
  "'w disp_cfg \<Rightarrow> time \<Rightarrow> GameInstance \<Rightarrow> op_phase \<Rightarrow> (gerr + Operation) list \<Rightarrow> 'a disp_scheme \<Rightarrow> 'a disp_scheme" where
  "PollingResult cfg now inst ph [] w = FailedInstance cfg now inst w"
| "PollingResult cfg now inst ph (a # as) w =
    (case a of
       Inl e \<Rightarrow> if isRetryableRPCErr e then PollingResult cfg now inst ph as w
                else FailedInstance cfg now inst w
     | Inr op \<Rightarrow>
        (case op_Status op of
           OP_FAILED \<Rightarrow> operation_failed cfg now inst (op_Error op) w
         | OP_SUCCEEDED \<Rightarrow> on_succeeded cfg now ph inst (clearRetryCount (gi_ID inst) w)
         | _ \<Rightarrow> PollingResult cfg now inst ph as w))"

section \<open>Polling the cache\<close>

text \<open>Rounding to single precision (\<open>p*100\<close> of a \<open>float32\<close>) and the verb \<open>%.0f\<close>.\<close>

definition f32_round :: "rat \<Rightarrow> rat" where
  "f32_round x = (if x = 0 then 0
     else let u = 2 powi (binade \<bar>x\<bar> - 23) in of_int (rhe (x / u)) * u)"

definition show_0f :: "rat \<Rightarrow> string" where
  "show_0f x = (if x < 0 then ''-'' else []) @ show_nat (nat (rhe \<bar>x\<bar>))"

definition isGameCacheNotFound :: "error_detail option \<Rightarrow> bool" where
  "isGameCacheNotFound d =
    (case d of None \<Rightarrow> False
     | Some e \<Rightarrow> ed_category e = ''ERROR_CATEGORY_NOT_FOUND'' \<or>
                 ed_code e = ''BUSINESS_ERROR_CODE_BUILD_CACHE_MISS'')"

definition unavailable_reason :: "GameCache \<Rightarrow> string" where
  "unavailable_reason gc =
    (if gca_LastError gc \<noteq> [] then msg_cache_dl_failed_p @ gca_LastError gc
     else if gca_DownloadProgress gc > 0
     then msg_cache_dl_failed @ msg_progress @ show_0f (f32_round (gca_DownloadProgress gc * 100)) @ ''%''
     else msg_cache_dl_failed)"

text \<open>A round: its time and the answer of \<open>GetCacheGame\<close>.  The second result is the list of the
  times at which \<open>CacheGame\<close> was sent again; such a call changes nothing in the controller.\<close>

fun pollCacheReady ::
  "'w disp_cfg \<Rightarrow> GameInstance \<Rightarrow> time \<Rightarrow> time \<Rightarrow> (time \<times> (gerr + GameCache option)) list
   \<Rightarrow> 'a disp_scheme \<Rightarrow> 'a disp_scheme \<times> time list" where
  "pollCacheReady cfg inst deadline lastReissue [] w =
     (FailedInstance cfg deadline (inst\<lparr>gi_FailReason := msg_warm_timeout1 @ show_int cacheWarmTimeoutMin @ msg_warm_timeout2\<rparr>) w, [])"
| "pollCacheReady cfg inst deadline lastReissue ((now, a) # as) w =
    (let again = now - lastReissue > 30 * second;
         reissue = (let (w', ts) = pollCacheReady cfg inst deadline now as w in (w', now # ts));
         wait = pollCacheReady cfg inst deadline lastReissue as w
     in case a of
          Inl e \<Rightarrow> if isGameCacheNotFound (extractErrorDetail e) \<and> again then reissue else wait
        | Inr None \<Rightarrow> wait
        | Inr (Some gc) \<Rightarrow>
           (case gca_Status gc of
              GC_AVAILABLE \<Rightarrow> (onCacheWarmReady now inst w, [])
            | GC_UNAVAILABLE \<Rightarrow>
                (FailedInstance cfg now (inst\<lparr>gi_FailReason := unavailable_reason gc\<rparr>) w, [])
            | GC_REMOVED \<Rightarrow> if again then reissue else wait
            | GC_DOWNLOADING \<Rightarrow> wait))"

section \<open>Recovery\<close>

fun request_all :: "GameInstance list \<Rightarrow> 'a disp_scheme \<Rightarrow> 'a disp_scheme" where
  "request_all [] w = w"
| "request_all (i # is) w = request_all is (fst (RequestDispatch i w))"

definition Recover :: "'a disp_scheme \<Rightarrow> 'a disp_scheme \<times> gerr option" where
  "Recover w =
    (case InstanceRepo_ListByStatuses dispatchableStatuses w of
       Inl e \<Rightarrow> (w, Some (Wrapped ''recover: list dispatchable instances: '' e []))
     | Inr is \<Rightarrow> (request_all is w, None))"

section \<open>Watching running instances\<close>

text \<open>\<open>time.Duration.String\<close>.\<close>

fun trim_zeros :: "string \<Rightarrow> string" where
  "trim_zeros s = rev (dropWhile (\<lambda>c. c = CHR ''0'') (rev s))"

fun digits_of :: "nat \<Rightarrow> nat \<Rightarrow> string" where
  "digits_of 0 v = []"
| "digits_of (Suc k) v = digits_of k (v div 10) @ [digit (v mod 10)]"

definition show_frac :: "nat \<Rightarrow> nat \<Rightarrow> string" where
  "show_frac prec v = (let ds = trim_zeros (digits_of prec v) in if ds = [] then [] else ''.'' @ ds)"

definition duration_String :: "duration \<Rightarrow> string" where
  "duration_String d =
    (let u = nat \<bar>d\<bar>; neg = (if d < 0 then ''-'' else []) in
     if u = 0 then ''0s''
     else if u < 1000 then neg @ show_nat u @ ''ns''
     else if u < 1000000 then neg @ show_nat (u div 1000) @ show_frac 3 (u mod 1000) @ [CHR 0xC2, CHR 0xB5, CHR ''s'']
     else if u < 1000000000 then neg @ show_nat (u div 1000000) @ show_frac 6 (u mod 1000000) @ ''ms''
     else let s = u div 1000000000; m = s div 60; h = m div 60 in
       neg @ (if h > 0 then show_nat h @ ''h'' else []) @
       (if m > 0 then show_nat (m mod 60) @ ''m'' else []) @
       show_nat (s mod 60) @ show_frac 9 (u mod 1000000000) @ ''s'')"

definition clearOffline :: "string \<Rightarrow> 'a disp_scheme \<Rightarrow> 'a disp_scheme" where
  "clearOffline ident w = w\<lparr>d_offline := tbl_del (\<lambda>p. fst p = ident) (d_offline w)\<rparr>"

definition markOfflineAndShouldFence :: "'w disp_cfg \<Rightarrow> time \<Rightarrow> string \<Rightarrow> 'a disp_scheme \<Rightarrow> 'a disp_scheme \<times> bool" where
  "markOfflineAndShouldFence cfg now ident w =
    (case map_of (d_offline w) ident of
       None \<Rightarrow> (w\<lparr>d_offline := d_offline w @ [(ident, now)]\<rparr>, False)
     | Some first \<Rightarrow> (w, now - first \<ge> dc_fencingTimeout cfg))"

text \<open>The answer of \<open>InspectInstance\<close>: whether the agent says "failed", and its reason.\<close>

type_synonym inspection = "gerr + (bool \<times> string) option"

definition fence_reason :: "'w disp_cfg \<Rightarrow> string" where
  "fence_reason cfg = msg_fence1 @ duration_String (dc_fencingTimeout cfg) @ msg_fence2"

definition watch_inspect ::
  "'w disp_cfg \<Rightarrow> time \<Rightarrow> GameInstance \<Rightarrow> NodeAgent \<Rightarrow> inspection \<Rightarrow> 'a disp_scheme \<Rightarrow> 'a disp_scheme" where
  "watch_inspect cfg now inst agent answer w =
    (case answer of
       Inl e \<Rightarrow>
         if \<not> na_Alive agent \<or> na_HealthStatus agent = HealthUnhealthy
         then (case markOfflineAndShouldFence cfg now (gi_ID inst) w of
                 (w1, False) \<Rightarrow> w1
               | (w1, True) \<Rightarrow> failWithReason cfg now inst (fence_reason cfg) (clearOffline (gi_ID inst) w1))
         else clearOffline (gi_ID inst) w
     | Inr r \<Rightarrow>
         let w1 = clearOffline (gi_ID inst) w in
         (case r of
            None \<Rightarrow> w1
          | Some (failed, reason) \<Rightarrow>
              if \<not> failed then w1
              else failWithReason cfg now inst (if reason = [] then msg_game_exit else reason) w1))"

definition watch_one ::
  "'w disp_cfg \<Rightarrow> remote \<Rightarrow> (string \<Rightarrow> inspection) \<Rightarrow> time \<Rightarrow> GameInstance \<Rightarrow> 'a disp_scheme \<Rightarrow> 'a disp_scheme" where
  "watch_one cfg rm inspect now inst w =
    (case gi_NodeAgentID inst of
       None \<Rightarrow> w
     | Some a \<Rightarrow>
       (case AgentRepo_GetByID a w of
          Inl e \<Rightarrow> w
        | Inr agent \<Rightarrow>
          (case NodeRepo_GetByID (na_NodeId agent) w of
             Inl e \<Rightarrow> w
           | Inr node \<Rightarrow>
             (case rm_connect rm a (nd_Ip node @ '':'' @ show_int (na_Port agent)) of
                Some e \<Rightarrow> w
              | None \<Rightarrow> watch_inspect cfg now inst agent (inspect (gi_ID inst)) w))))"

definition WatchRunningInstances ::
  "'w disp_cfg \<Rightarrow> remote \<Rightarrow> (string \<Rightarrow> inspection) \<Rightarrow> time \<Rightarrow> 'a disp_scheme \<Rightarrow> 'a disp_scheme" where
  "WatchRunningInstances cfg rm inspect now w =
    (case InstanceRepo_ListByStatuses [StatusRunning] w of
       Inl e \<Rightarrow> w
     | Inr is \<Rightarrow> fold (watch_one cfg rm inspect now) is w)"

end
