(* ===== verification/Pressure.thy ===== *)
theory Pressure
  imports Pollers
begin

text \<open>
  The pressure monitor of the nodes (\<open>biz/pressure_monitor.go\<close>): every round takes the peak
  utilization of the last samples of a node, counts the rounds above and below the
  thresholds and moves the node between normal, warning and critical.  The counters live in the
  monitor's memory, the status in the row of the node.  The verb \<open>%v\<close> of a threshold is the
  parameter \<open>show_v\<close>.  The lemmas relate the counters to the history of the peaks.
\<close>

section \<open>The monitor\<close>

text \<open>The statuses are ordered by their numbers.\<close>

fun pressure_code :: "NodePressureStatus \<Rightarrow> nat" where
  "pressure_code PressureNormal = 0"
| "pressure_code PressureWarning = 1"
| "pressure_code PressureCritical = 2"

instantiation NodePressureStatus :: linorder
begin

definition less_eq_NodePressureStatus :: "NodePressureStatus \<Rightarrow> NodePressureStatus \<Rightarrow> bool" where
  "less_eq_NodePressureStatus s t \<longleftrightarrow> pressure_code s \<le> pressure_code t"

definition less_NodePressureStatus :: "NodePressureStatus \<Rightarrow> NodePressureStatus \<Rightarrow> bool" where
  "less_NodePressureStatus s t \<longleftrightarrow> pressure_code s < pressure_code t"

instance
proof
  fix x y :: NodePressureStatus
  show "x \<le> y \<Longrightarrow> y \<le> x \<Longrightarrow> x = y"
    by (cases x; cases y) (simp_all add: less_eq_NodePressureStatus_def)
qed (auto simp: less_eq_NodePressureStatus_def less_NodePressureStatus_def)

end

record PressureMonitor =
  pr_warningPct :: rat
  pr_criticalPct :: rat
  pr_observePeriods :: int
  pr_recoverPeriods :: int
  pr_recentWindowN :: int
  pr_window :: duration
  pr_counts :: "(string \<times> int) list"
  pr_downs :: "(string \<times> int) list"

definition NewPressureMonitor :: "rat \<Rightarrow> rat \<Rightarrow> int \<Rightarrow> int \<Rightarrow> duration \<Rightarrow> PressureMonitor" where
  "NewPressureMonitor warn crit obs rec window =
    (let warn' = (if warn \<le> 0 \<or> warn > 100 then 85 else warn);
         crit' = (if crit \<le> warn' \<or> crit > 100 then 95 else crit);
         obs' = (if obs \<le> 0 then 3 else obs);
         rec' = (if rec \<le> 0 then 3 else rec)
     in \<lparr> pr_warningPct = warn', pr_criticalPct = crit', pr_observePeriods = obs',
          pr_recoverPeriods = rec', pr_recentWindowN = obs',
          pr_window = (if window \<le> 0 then 15 * minute else window), pr_counts = [], pr_downs = [] \<rparr>)"

definition lastNSamples :: "NodeResourceSample list \<Rightarrow> int \<Rightarrow> NodeResourceSample list" where
  "lastNSamples ss n = (if int (length ss) \<le> n then ss else drop (length ss - nat n) ss)"

text \<open>The largest ratio of the samples, 0 without a capacity.\<close>

definition peak :: "(NodeResourceSample \<Rightarrow> int) \<Rightarrow> int \<Rightarrow> NodeResourceSample list \<Rightarrow> rat" where
  "peak used cap ss =
    foldl (\<lambda>m s. if f64 cap > 0 \<and> fdiv (f64 (used s)) (f64 cap) > m then fdiv (f64 (used s)) (f64 cap) else m) 0 ss"

definition latestUtilization :: "NodeResourceSample list \<Rightarrow> Node \<Rightarrow> rat" where
  "latestUtilization ss node =
    (if ss = [] then 0
     else let cpuMax = peak rs_CPUUsedMilli (cpuCapacityMilli node) ss;
              memMax = peak rs_MemoryUsedBytes (memoryCapacityBytes node) ss
          in if cpuMax > memMax then fmul cpuMax 100 else fmul memMax 100)"

definition pressureStep ::
  "rat \<Rightarrow> NodePressureStatus \<Rightarrow> int \<Rightarrow> int \<Rightarrow> rat \<Rightarrow> rat \<Rightarrow> int \<Rightarrow> int \<Rightarrow> NodePressureStatus \<times> int \<times> int" where
  "pressureStep util status up down warn crit obs rec =
    (if util \<ge> crit
     then (if up + 1 \<ge> obs \<and> status \<noteq> PressureCritical then PressureCritical else status, up + 1, 0)
     else if util \<ge> warn
     then (if up + 1 \<ge> obs \<and> status \<noteq> PressureWarning then PressureWarning else status, up + 1, 0)
     else if status \<noteq> PressureNormal
     then if down + 1 \<ge> rec then (PressureNormal, 0, 0) else (status, 0, down + 1)
     else (status, 0, down))"

definition count_of :: "(string \<times> int) list \<Rightarrow> string \<Rightarrow> int" where
  "count_of m k = (case map_of m k of None \<Rightarrow> 0 | Some n \<Rightarrow> n)"

definition transition ::
  "(rat \<Rightarrow> string) \<Rightarrow> PressureMonitor \<Rightarrow> time \<Rightarrow> string \<Rightarrow> NodePressureStatus \<Rightarrow> rat \<Rightarrow> 'a ctl_scheme \<Rightarrow> 'a ctl_scheme" where
  "transition show_v m now nodeID status util w =
    (case NodeRepo_UpdatePressureStatus nodeID status w of
       (w1, Some e) \<Rightarrow> w1
     | (w1, None) \<Rightarrow> publish now EventNodePressureChanged [] nodeID
         (msg_pressure_to @ pressureStatusName status @ msg_pressure_recent @ show_int (pr_recentWindowN m) @
          msg_pressure_peak @ show_0f util @ msg_pressure_limits @ show_v (pr_warningPct m) @
          ''% Critical='' @ show_v (pr_criticalPct m) @ ''%'' @ msg_close_paren) w1)"

definition evaluateNode ::
  "(rat \<Rightarrow> string) \<Rightarrow> time \<Rightarrow> time \<Rightarrow> Node \<Rightarrow> PressureMonitor \<times> 'a ctl_scheme \<Rightarrow> PressureMonitor \<times> 'a ctl_scheme" where
  "evaluateNode show_v now since n s =
    (let (m, w) = s; nodeID = fmtID (nd_Id n) in
     case SampleRepo_ListSince nodeID since w of
       Inl e \<Rightarrow> (m, w)
     | Inr samples \<Rightarrow>
        if samples = [] then (m, w)
        else let util = latestUtilization (lastNSamples samples (pr_recentWindowN m)) n;
                 (status, up, down) = pressureStep util (nd_PressureStatus n) (count_of (pr_counts m) nodeID)
                    (count_of (pr_downs m) nodeID) (pr_warningPct m) (pr_criticalPct m)
                    (pr_observePeriods m) (pr_recoverPeriods m);
                 m1 = m\<lparr>pr_counts := tbl_put fst (nodeID, up) (pr_counts m),
                        pr_downs := tbl_put fst (nodeID, down) (pr_downs m)\<rparr>
             in (m1, if status \<noteq> nd_PressureStatus n then transition show_v m1 now nodeID status util w else w))"

definition pressure_reconcileOnce ::
  "(rat \<Rightarrow> string) \<Rightarrow> time \<Rightarrow> PressureMonitor \<times> 'a ctl_scheme \<Rightarrow> PressureMonitor \<times> 'a ctl_scheme" where
  "pressure_reconcileOnce show_v now s =
    (case NodeRepo_ListAll (snd s) of
       Inl e \<Rightarrow> s
     | Inr nodes \<Rightarrow> fold (evaluateNode show_v now (now - pr_window (fst s))) nodes s)"

section \<open>The counters and the history\<close>

text \<open>The rounds of one node: the status and the two counters after the peaks \<open>us\<close>, oldest first.\<close>

definition pressure_rounds :: "PressureMonitor \<Rightarrow> rat list \<Rightarrow> NodePressureStatus \<times> int \<times> int \<Rightarrow> NodePressureStatus \<times> int \<times> int" where
  "pressure_rounds m us s = fold (\<lambda>u (st, up, down). pressureStep u st up down (pr_warningPct m) (pr_criticalPct m)
     (pr_observePeriods m) (pr_recoverPeriods m)) us s"

text \<open>The status by the history alone, newest peak first: a peak is high when it reaches a threshold;
  after \<open>observePeriods\<close> high rounds in a row the status is the band of the peak, after
  \<open>recoverPeriods\<close> low rounds in a row it is normal, and in between it stays.\<close>

definition high :: "PressureMonitor \<Rightarrow> rat \<Rightarrow> bool" where
  "high m u \<longleftrightarrow> u \<ge> pr_criticalPct m \<or> u \<ge> pr_warningPct m"

definition band :: "PressureMonitor \<Rightarrow> rat \<Rightarrow> NodePressureStatus" where
  "band m u = (if u \<ge> pr_criticalPct m then PressureCritical else PressureWarning)"

fun by_history :: "PressureMonitor \<Rightarrow> rat list \<Rightarrow> NodePressureStatus" where
  "by_history m [] = PressureNormal"
| "by_history m (u # us) =
    (if high m u
     then if int (length (takeWhile (high m) (u # us))) \<ge> pr_observePeriods m then band m u else by_history m us
     else if int (length (takeWhile (\<lambda>v. \<not> high m v) (u # us))) \<ge> pr_recoverPeriods m then PressureNormal
     else by_history m us)"

lemma pressureStep_high:
  "high m u \<Longrightarrow> pressureStep u st up down (pr_warningPct m) (pr_criticalPct m) obs rec =
     (if up + 1 \<ge> obs then band m u else st, up + 1, 0)"
  by (auto simp: pressureStep_def high_def band_def)

lemma pressureStep_low:
  "\<not> high m u \<Longrightarrow> pressureStep u st up down (pr_warningPct m) (pr_criticalPct m) obs rec =
     (if st = PressureNormal then (PressureNormal, 0, down)
      else if down + 1 \<ge> rec then (PressureNormal, 0, 0) else (st, 0, down + 1))"
  by (auto simp: pressureStep_def high_def)

lemma rounds_snoc: "pressure_rounds m (us @ [u]) s = pressure_rounds m [u] (pressure_rounds m us s)"
  by (simp add: pressure_rounds_def)

lemma rounds_history:
  assumes "pressure_rounds m us (PressureNormal, 0, 0) = (st, up, down)"
  shows "st = by_history m (rev us) \<and> up = int (length (takeWhile (high m) (rev us))) \<and>
    (down = (if st = PressureNormal then 0 else int (length (takeWhile (\<lambda>v. \<not> high m v) (rev us)))))"
  using assms
proof (induction us arbitrary: st up down rule: rev_induct)
  case Nil
  then show ?case by (simp add: pressure_rounds_def)
next
  case (snoc u us)
  obtain st0 up0 down0 where r: "pressure_rounds m us (PressureNormal, 0, 0) = (st0, up0, down0)"
    by (metis prod_cases3)
  note ih = snoc.IH[OF r]
  have s: "pressureStep u st0 up0 down0 (pr_warningPct m) (pr_criticalPct m) (pr_observePeriods m)
      (pr_recoverPeriods m) = (st, up, down)"
    using snoc.prems r by (simp add: rounds_snoc) (simp add: pressure_rounds_def)
  show ?case
  proof (cases "high m u")
    case True
    then show ?thesis using s ih by (auto simp: pressureStep_high)
  next
    case False
    then show ?thesis using s ih
      by (auto simp: pressureStep_low split: if_splits)
  qed
qed

text \<open>C26: the monitor decides by the history of the peaks alone: however it is configured, after any
  rounds a node that started normal has the status the last peaks prescribe.  Once the rounds in a row
  above the warning threshold are enough, the status is the band of the newest peak, so a round in the
  other band changes it at once, in both directions.\<close>

theorem pressure_follows_history:
  "fst (pressure_rounds m us (PressureNormal, 0, 0)) = by_history m (rev us)"
  using rounds_history[of m us] by (metis prod.collapse)

text \<open>A round of the monitor on a node's row is a step of \<open>pressure_rounds\<close> on its status and counters.\<close>

definition judged :: "PressureMonitor \<Rightarrow> Node \<Rightarrow> NodePressureStatus \<times> int \<times> int" where
  "judged m n = (nd_PressureStatus n, count_of (pr_counts m) (node_key n), count_of (pr_downs m) (node_key n))"

lemma count_of_put [simp]: "count_of (tbl_put fst (k, v) m) k' = (if k' = k then v else count_of m k')"
  by (simp add: count_of_def map_of_tbl_put)

lemma evaluateNode_step:
  assumes "SampleRepo_ListSince (node_key n) since w = Inr samples" "samples \<noteq> []"
    and "tbl_find node_key (node_key n) (t_nodes w) = Some n" "db_fault w (NodeUpdate (node_key n)) = None"
    and "evaluateNode show_v now since n (m, w) = (m', w')"
  obtains n' where "tbl_find node_key (node_key n) (t_nodes w') = Some n'"
    and "judged m' n' = pressure_rounds m [latestUtilization (lastNSamples samples (pr_recentWindowN m)) n] (judged m n)"
proof -
  let ?u = "latestUtilization (lastNSamples samples (pr_recentWindowN m)) n"
  obtain st up down where s: "pressureStep ?u (nd_PressureStatus n) (count_of (pr_counts m) (node_key n))
      (count_of (pr_downs m) (node_key n)) (pr_warningPct m) (pr_criticalPct m) (pr_observePeriods m)
      (pr_recoverPeriods m) = (st, up, down)"
    by (metis prod_cases3)
  have m': "m' = m\<lparr>pr_counts := tbl_put fst (node_key n, up) (pr_counts m),
      pr_downs := tbl_put fst (node_key n, down) (pr_downs m)\<rparr>"
    and w': "w' = (if st \<noteq> nd_PressureStatus n then transition show_v m' now (node_key n) st ?u w else w)"
    using assms(1,2,5) s by (auto simp: evaluateNode_def node_key_def Let_def split: if_splits)
  have k: "node_key (n\<lparr>nd_PressureStatus := st\<rparr>) = node_key n" by (simp add: node_key_def)
  have "node_key (r\<lparr>nd_PressureStatus := st\<rparr>) = node_key r" for r by (simp add: node_key_def)
  then have "tbl_find node_key (node_key n) (t_nodes w') = Some (n\<lparr>nd_PressureStatus := st\<rparr>)"
    using assms(3,4) by (auto simp: w' transition_def NodeRepo_UpdatePressureStatus_def guard_write_def tbl_find_upd_key)
  moreover have "judged m' (n\<lparr>nd_PressureStatus := st\<rparr>) = pressure_rounds m [?u] (judged m n)"
    using s by (simp add: judged_def k m' pressure_rounds_def)
  ultimately show thesis by (rule that)
qed

section \<open>A single spike\<close>

lemma peak_mono_start: "foldl (\<lambda>m s. if Q \<and> f s > m then f s else m) (a::rat) ss \<ge> a"
proof (induction ss arbitrary: a)
  case (Cons s ss)
  have "a \<le> (if Q \<and> f s > a then f s else a)" by simp
  also have "\<dots> \<le> foldl (\<lambda>m s. if Q \<and> f s > m then f s else m) (if Q \<and> f s > a then f s else a) ss"
    by (rule Cons.IH)
  finally show ?case by simp
qed simp

lemma peak_member:
  assumes "s \<in> set ss"
  shows "foldl (\<lambda>m s. if Q \<and> f s > m then f s else m) a ss \<ge> (if Q then f s else (a::rat))"
  using assms
proof (induction ss arbitrary: a)
  case (Cons t ss)
  show ?case
  proof (cases "s = t")
    case True
    have "(if Q then f s else a) \<le> (if Q \<and> f t > a then f t else a)" using True by auto
    also have "\<dots> \<le> foldl (\<lambda>m s. if Q \<and> f s > m then f s else m) (if Q \<and> f t > a then f t else a) ss"
      by (rule peak_mono_start)
    finally show ?thesis by simp
  next
    case False
    then have "s \<in> set ss" using Cons.prems by simp
    from Cons.IH[OF this, of "if Q \<and> f t > a then f t else a"] show ?thesis
      by (cases Q) auto
  qed
qed simp

lemma peak_single_le: "s \<in> set ss \<Longrightarrow> peak used cap [s] \<le> peak used cap ss"
  unfolding peak_def
  using peak_member[of s ss "f64 cap > 0" "\<lambda>s. fdiv (f64 (used s)) (f64 cap)" 0]
    peak_mono_start[of 0 "f64 cap > 0" "\<lambda>s. fdiv (f64 (used s)) (f64 cap)" ss]
  by (auto split: if_splits)

lemma latestUtilization_max:
  "ss \<noteq> [] \<Longrightarrow> latestUtilization ss node =
     max (fmul (peak rs_CPUUsedMilli (cpuCapacityMilli node) ss) 100)
         (fmul (peak rs_MemoryUsedBytes (memoryCapacityBytes node) ss) 100)"
  using fmul_mono_left[of 100] by (auto simp: latestUtilization_def Let_def max_def not_less intro: antisym)

lemma latestUtilization_member:
  assumes "s \<in> set ss"
  shows "latestUtilization [s] node \<le> latestUtilization ss node"
proof -
  have "ss \<noteq> []" using assms by auto
  then show ?thesis using peak_single_le[OF assms] by (simp add: latestUtilization_max max.coboundedI1 max.coboundedI2 fmul_mono_left)
qed

lemma rounds_all_critical:
  assumes "\<And>u. u \<in> set us \<Longrightarrow> u \<ge> pr_criticalPct m"
  shows "fst (snd (pressure_rounds m us (st, up, down))) = up + int (length us) \<and>
    (us \<noteq> [] \<longrightarrow> up + int (length us) \<ge> pr_observePeriods m \<longrightarrow> fst (pressure_rounds m us (st, up, down)) = PressureCritical)"
  using assms
proof (induction us rule: rev_induct)
  case Nil
  then show ?case by (simp add: pressure_rounds_def)
next
  case (snoc u us)
  obtain st' up' down' where r: "pressure_rounds m us (st, up, down) = (st', up', down')" by (metis prod_cases3)
  have h: "high m u" "band m u = PressureCritical" using snoc.prems[of u] by (auto simp: high_def band_def)
  have "up' = up + int (length us)" using snoc r by auto
  then show ?case by (simp add: rounds_snoc r) (simp add: pressure_rounds_def pressureStep_high[OF h(1)] h(2))
qed

lemma lastNSamples_keeps:
  "int (length post) < n \<Longrightarrow> s \<in> set (lastNSamples (pre @ s # post) n)"
  by (auto simp: lastNSamples_def drop_append drop_Cons' not_le)

text \<open>One sample is enough to make a node critical: the peak of the observation window counts in
  each of the \<open>observePeriods\<close> rounds in which the sample is among the last ones, whatever the samples
  after it say, so the counter reaches its limit before the spike leaves the window.\<close>

theorem single_spike_escalates:
  assumes "pr_recentWindowN m = pr_observePeriods m" "0 < pr_observePeriods m"
    and "pr_criticalPct m \<le> latestUtilization [spike] node"
  shows "fst (pressure_rounds m (map (\<lambda>k. latestUtilization
            (lastNSamples (pre @ spike # take k later) (pr_recentWindowN m)) node)
          [0..<nat (pr_observePeriods m)]) (st, 0, down)) = PressureCritical"
proof -
  let ?us = "map (\<lambda>k. latestUtilization (lastNSamples (pre @ spike # take k later) (pr_recentWindowN m)) node)
      [0..<nat (pr_observePeriods m)]"
  have c: "u \<ge> pr_criticalPct m" if u: "u \<in> set ?us" for u
  proof -
    obtain k where k: "k < nat (pr_observePeriods m)"
      "u = latestUtilization (lastNSamples (pre @ spike # take k later) (pr_recentWindowN m)) node"
      using u by auto
    have "int (length (take k later)) < pr_recentWindowN m" using k(1) assms(1,2) by auto
    then show ?thesis
      using latestUtilization_member[OF lastNSamples_keeps] assms(3) k(2) order_trans by blast
  qed
  have "?us \<noteq> []" "int (length ?us) = pr_observePeriods m" using assms(2) by auto
  then show ?thesis using rounds_all_critical[of ?us m st 0 down, OF c] by linarith
qed

definition ex_spike_node :: Node where
  "ex_spike_node = ex_node\<lparr>nd_CoreNum := 1, nd_MemorySize := 1\<rparr>"

definition ex_sample :: "int \<Rightarrow> NodeResourceSample" where
  "ex_sample cpu = \<lparr> rs_ID = 0, rs_NodeID = ''1'', rs_SampledAt = 0, rs_CPUUsedMilli = cpu, rs_MemoryUsedBytes = 0,
     rs_DiskUsedBytes = 0, rs_NetRxBps = 0, rs_NetTxBps = 0 \<rparr>"

theorem single_spike_escalates_witness:
  "fst (pressure_rounds (NewPressureMonitor 85 95 3 3 0)
     (map (\<lambda>k. latestUtilization (lastNSamples ([ex_sample 10] @ ex_sample 1000 # take k [ex_sample 10, ex_sample 10]) 3)
        ex_spike_node) [0..<nat 3]) (PressureNormal, 0, 0)) = PressureCritical"
proof -
  let ?m = "NewPressureMonitor 85 95 3 3 0"
  have m: "pr_recentWindowN ?m = 3" "pr_observePeriods ?m = 3" "pr_criticalPct ?m = 95"
    by (simp_all add: NewPressureMonitor_def)
  have "latestUtilization [ex_sample 1000] ex_spike_node = 100"
    by (simp add: latestUtilization_def peak_def ex_sample_def ex_spike_node_def cpuCapacityMilli_def memoryCapacityBytes_def
        mebibyte_def f64_exact fdiv_def fmul_def f64_round_numeral wrap64_id in_i64_def)
  then show ?thesis
    using single_spike_escalates[of ?m "ex_sample 1000" ex_spike_node "[ex_sample 10]" "[ex_sample 10, ex_sample 10]"
        PressureNormal 0] by (simp only: m)
qed

end
