(* ===== verification/Adapter_Schema.thy ===== *)
theory Adapter_Schema
  imports Credentials Event_Bus
begin

text \<open>
  The configuration schema of a game's adapter and the validation of configurations
  (\<open>biz/adapter_schema.go\<close>), and the configuration of the platform's operator
  (\<open>biz/platform_config_use_case.go\<close>).  A configuration is the list of its entries in the
  order in which Go happens to iterate over the map.  The decoder of \<open>encoding/json\<close> is a
  parameter; the dictionary \<open>i18n\<close> of a schema, which no operation reads, is left out.
\<close>

section \<open>Schemas\<close>

record AdapterConfigSetting =
  cs_SettingKey :: string
  cs_Type :: string
  cs_Control :: string
  cs_Apply :: string
  cs_Render :: string
  cs_Default :: "string option"
  cs_Min :: "int option"
  cs_Max :: "int option"
  cs_EnumValues :: "string list"
  cs_Secret :: bool
  cs_LabelKey :: "string option"
  cs_DescriptionKey :: "string option"
  cs_GroupKey :: "string option"

record AdapterSchema =
  as_AdapterID :: string
  as_GameID :: string
  as_Settings :: "AdapterConfigSetting list"
  as_RenderFile :: "string option"

definition ParseAdapterSchema :: "(string \<Rightarrow> gerr + AdapterSchema) \<Rightarrow> string \<Rightarrow> gerr + AdapterSchema" where
  "ParseAdapterSchema decode text =
    (case decode text of
       Inl e \<Rightarrow> Inl (Wrapped msg_schema_parse e [])
     | Inr s \<Rightarrow> if as_AdapterID s = [] then Inl (Errorf msg_schema_no_id) else Inr s)"

text \<open>\<open>strconv.ParseInt(value, 10, 64)\<close>: an optional sign, digits, and the range of \<open>int64\<close>.\<close>

definition is_digit :: "char \<Rightarrow> bool" where
  "is_digit c \<longleftrightarrow> 48 \<le> (of_char c :: nat) \<and> (of_char c :: nat) \<le> 57"

definition parse_magnitude :: "string \<Rightarrow> nat option" where
  "parse_magnitude s = (if s = [] \<or> \<not> list_all is_digit s then None else Some (read_nat 0 s))"

definition ParseInt64 :: "string \<Rightarrow> int option" where
  "ParseInt64 s =
    (let neg = (s \<noteq> [] \<and> hd s = CHR ''-'');
         body = (if s \<noteq> [] \<and> (hd s = CHR ''-'' \<or> hd s = CHR ''+'') then tl s else s)
     in case parse_magnitude body of
          None \<Rightarrow> None
        | Some m \<Rightarrow> let n = (if neg then - int m else int m) in if in_i64 n then Some n else None)"

text \<open>The map from keys to settings: of two settings with one key the later one counts.\<close>

definition setting_of :: "AdapterSchema \<Rightarrow> string \<Rightarrow> AdapterConfigSetting option" where
  "setting_of s k = find (\<lambda>x. cs_SettingKey x = k) (rev (as_Settings s))"

definition validate_entry :: "AdapterSchema \<Rightarrow> string \<Rightarrow> string \<Rightarrow> gerr option" where
  "validate_entry schema key value =
    (case setting_of schema key of
       None \<Rightarrow> Some (Errorf (msg_unknown_key @ key))
     | Some st \<Rightarrow>
       if cs_Control st = ''locked'' then Some (Errorf (msg_item @ key @ msg_locked))
       else if cs_Type st = ''int'' then
         (case ParseInt64 value of
            None \<Rightarrow> Some (Errorf (msg_item @ key @ msg_need_int @ value))
          | Some n \<Rightarrow>
             (case cs_Min st of
                Some lo \<Rightarrow> if n < lo then Some (Errorf (msg_item @ key @ msg_below_min @ show_int lo))
                           else (case cs_Max st of
                                   Some hi \<Rightarrow> if n > hi then Some (Errorf (msg_item @ key @ msg_above_max @ show_int hi)) else None
                                 | None \<Rightarrow> None)
              | None \<Rightarrow> (case cs_Max st of
                           Some hi \<Rightarrow> if n > hi then Some (Errorf (msg_item @ key @ msg_above_max @ show_int hi)) else None
                         | None \<Rightarrow> None)))
       else if cs_Type st = ''bool'' then
         (if value \<noteq> ''true'' \<and> value \<noteq> ''false'' then Some (Errorf (msg_item @ key @ msg_need_bool @ value)) else None)
       else if cs_Type st = ''enum'' then
         (if value \<in> set (cs_EnumValues st) then None
          else Some (Errorf (msg_item @ key @ msg_bad_enum @ value @ msg_enum_options @ go_list (cs_EnumValues st) @ msg_close_paren)))
       else None)"

fun ValidateInstanceConfig :: "AdapterSchema \<Rightarrow> (string \<times> string) list \<Rightarrow> gerr option" where
  "ValidateInstanceConfig schema [] = None"
| "ValidateInstanceConfig schema ((k, v) # es) =
    (case validate_entry schema k v of Some e \<Rightarrow> Some e | None \<Rightarrow> ValidateInstanceConfig schema es)"

definition PlayerConfigSettings :: "AdapterSchema \<Rightarrow> AdapterConfigSetting list" where
  "PlayerConfigSettings s = filter (\<lambda>x. cs_Control x = ''player'') (as_Settings s)"

section \<open>The operator's configuration\<close>

abbreviation PlatformSave :: "string \<Rightarrow> dbcall" where "PlatformSave k \<equiv> Call ''PlatformSave'' [k]"

definition PlatformRepo_Save :: "GamePlatformConfig \<Rightarrow> 'a db_scheme \<Rightarrow> 'a db_scheme \<times> gerr option" where
  "PlatformRepo_Save c w = guard_write w (PlatformSave (gp_GameID c))
     (w\<lparr>t_platform := tbl_put gp_GameID c (t_platform w)\<rparr>)"

definition Platform_Get :: "string \<Rightarrow> 'a db_scheme \<Rightarrow> gerr + GamePlatformConfig" where
  "Platform_Get game w =
    (if game = [] then Inl (Errorf ''game_id is required'')
     else case PlatformRepo_GetByGame game w of
            Inl e \<Rightarrow> Inl e
          | Inr None \<Rightarrow> Inr \<lparr> gp_GameID = game, gp_Config = [], gp_Version = 0, gp_UpdatedBy = [], gp_UpdateTime = zero_time \<rparr>
          | Inr (Some c) \<Rightarrow> Inr c)"

text \<open>The newest build with a schema; \<open>builds\<close> is the answer of \<open>ListGameBuilds\<close> (the texts of the
  schemas in its order).\<close>

definition LoadGameConfigSchema ::
  "(string \<Rightarrow> gerr + AdapterSchema) \<Rightarrow> gerr + string list \<Rightarrow> string \<Rightarrow> gerr + AdapterSchema" where
  "LoadGameConfigSchema decode builds game =
    (case builds of
       Inl e \<Rightarrow> Inl e
     | Inr texts \<Rightarrow>
        (case find (\<lambda>t. t \<noteq> []) texts of
           None \<Rightarrow> Inl (Errorf (''game '' @ game @ '' has no build with config schema''))
         | Some t \<Rightarrow> ParseAdapterSchema decode t))"

definition Platform_Update ::
  "time \<Rightarrow> (string \<Rightarrow> gerr + AdapterSchema) \<Rightarrow> gerr + string list \<Rightarrow> string \<Rightarrow> (string \<times> string) list \<Rightarrow> string
   \<Rightarrow> 'a db_scheme \<Rightarrow> 'a db_scheme \<times> (gerr + GamePlatformConfig)" where
  "Platform_Update now decode builds game config operator w =
    (let save = (case PlatformRepo_GetByGame game w of
           Inl e \<Rightarrow> (w, Inl e)
         | Inr existing \<Rightarrow>
             let c = \<lparr> gp_GameID = game, gp_Config = config,
                       gp_Version = (case existing of None \<Rightarrow> 0 | Some x \<Rightarrow> gp_Version x + 1),
                       gp_UpdatedBy = operator, gp_UpdateTime = now \<rparr>
             in case PlatformRepo_Save c w of (w1, Some e) \<Rightarrow> (w1, Inl e) | (w1, None) \<Rightarrow> (w1, Inr c))
     in if game = [] then (w, Inl (Errorf ''game_id is required''))
        else if config = [] then save
        else case LoadGameConfigSchema decode builds game of
               Inl e \<Rightarrow> (w, Inl e)
             | Inr schema \<Rightarrow>
                 let platform = map cs_SettingKey (filter (\<lambda>x. cs_Control x = ''platform'') (as_Settings schema))
                 in case find (\<lambda>p. fst p \<notin> set platform) config of
                      Some p \<Rightarrow> (w, Inl (Errorf (msg_item @ fst p @ msg_not_platform)))
                    | None \<Rightarrow> save)"

section \<open>What validation accepts\<close>

text \<open>Reading back what \<open>strconv\<close> writes.\<close>

lemma is_digit_digit: "k < 10 \<Longrightarrow> is_digit (digit k)"
  by (simp add: is_digit_def of_char_digit)

lemma show_nat_digits: "list_all is_digit (show_nat n)"
proof (induction n rule: show_nat.induct)
  case (1 n)
  then show ?case
    by (subst show_nat.simps) (simp add: is_digit_digit)
qed

lemma is_digit_not_sign: "is_digit c \<Longrightarrow> c \<noteq> CHR ''-'' \<and> c \<noteq> CHR ''+''"
  by (auto simp: is_digit_def)

lemma ParseInt64_show_int: "in_i64 n \<Longrightarrow> ParseInt64 (show_int n) = Some n"
proof -
  assume n: "in_i64 n"
  have m: "parse_magnitude (show_nat k) = Some k" for k
    by (simp add: parse_magnitude_def show_nat_digits)
  show ?thesis
  proof (cases "n < 0")
    case True
    then show ?thesis using n by (simp add: ParseInt64_def show_int_def m)
  next
    case False
    obtain c s where cs: "show_nat (nat n) = c # s" by (metis list.exhaust show_nat_not_Nil)
    then have "is_digit c" using show_nat_digits[of "nat n"] by simp
    then show ?thesis using False n is_digit_not_sign[of c] m[of "nat n"]
      by (simp add: ParseInt64_def show_int_def cs)
  qed
qed

definition entry_ok :: "AdapterSchema \<Rightarrow> string \<times> string \<Rightarrow> bool" where
  "entry_ok schema e \<longleftrightarrow>
    (case setting_of schema (fst e) of
       None \<Rightarrow> False
     | Some st \<Rightarrow> cs_Control st \<noteq> ''locked'' \<and>
        (cs_Type st = ''int'' \<longrightarrow>
           (\<exists>n. ParseInt64 (snd e) = Some n \<and> (\<forall>lo. cs_Min st = Some lo \<longrightarrow> lo \<le> n) \<and>
                (\<forall>hi. cs_Max st = Some hi \<longrightarrow> n \<le> hi))) \<and>
        (cs_Type st = ''bool'' \<longrightarrow> snd e = ''true'' \<or> snd e = ''false'') \<and>
        (cs_Type st = ''enum'' \<longrightarrow> snd e \<in> set (cs_EnumValues st)))"

lemma validate_entry_iff: "validate_entry schema k v = None \<longleftrightarrow> entry_ok schema (k, v)"
  by (simp add: validate_entry_def entry_ok_def not_less split: option.split)

lemma Validate_all: "ValidateInstanceConfig schema es = None \<longleftrightarrow> list_all (entry_ok schema) es"
  by (induction schema es rule: ValidateInstanceConfig.induct)
     (auto simp: validate_entry_iff[symmetric] split: option.split)

text \<open>C30: a configuration is accepted exactly when every entry has a setting that is not locked and a
  value of its type and range; so acceptance does not depend on the order in which the map is
  iterated.\<close>

theorem ValidateInstanceConfig_iff:
  "(ValidateInstanceConfig schema es = None) = list_all (entry_ok schema) es \<and>
   (ValidateInstanceConfig schema (rev es) = None) = (ValidateInstanceConfig schema es = None)"
  by (simp add: Validate_all)

end
