(* ===== verification/Lifecycle.thy ===== *)
theory Lifecycle
  imports Pollers
begin

text \<open>
  The life of an instance as an abstract machine, and its refinement by the dispatcher.
  The abstract state of an object is its status, its retry counter and its place:
  waiting for the consumer, watched by a poller, or at rest in the data base.  Every
  dispatch and every poller moves its object by one step of the machine, touches no
  row of another instance and adds at most one object; the machine itself runs down a
  measure, so no object travels for ever.
\<close>

section \<open>The machine\<close>

fun next_status :: "InstanceStatus \<Rightarrow> InstanceStatus set" where
  "next_status StatusPending = {StatusScheduling}"
| "next_status StatusQueued = {StatusScheduling}"
| "next_status StatusScheduling = {StatusCacheWarming, StatusPreparingBuild, StatusQueued, Failed}"
| "next_status StatusCacheWarming = {StatusPreparingBuild, Failed}"
| "next_status StatusPreparingBuild = {StatusRestoringSnapshot, Failed}"
| "next_status StatusRestoringSnapshot = {StatusStarting, Failed}"
| "next_status StatusStarting = {StatusRunning, Failed}"
| "next_status StatusStopping = {StatusCleaning, Failed}"
| "next_status StatusCleaning = {StatusStopped, Failed}"
| "next_status StatusRunning = {Failed}"
| "next_status StatusStopped = {Failed}"
| "next_status Failed = {Failed}"

definition resting :: "InstanceStatus set" where
  "resting = {StatusQueued, StatusRunning, StatusStopped, Failed}"

definition remote_phase :: "InstanceStatus \<Rightarrow> bool" where
  "remote_phase s \<longleftrightarrow> s \<in> {StatusCacheWarming, StatusPreparingBuild, StatusRestoringSnapshot,
     StatusStarting, StatusStopping, StatusCleaning}"

datatype place = Waiting | Polled | AtRest

inductive lifecycle :: "InstanceStatus \<times> int \<times> place \<Rightarrow> InstanceStatus \<times> int \<times> place \<Rightarrow> bool" where
  advance: "l \<noteq> AtRest \<Longrightarrow> s' \<in> next_status s \<Longrightarrow> s' \<notin> resting \<Longrightarrow> r' \<in> {r, 0}
    \<Longrightarrow> lifecycle (s, r, l) (s', r', Waiting)"
| start: "remote_phase s \<Longrightarrow> lifecycle (s, r, Waiting) (s, r, Polled)"
| retry: "l \<noteq> AtRest \<Longrightarrow> remote_phase s \<Longrightarrow> r < OPERATION_RETRY_MAX
    \<Longrightarrow> lifecycle (s, r, l) (s, r + 1, Waiting)"
| rest: "l \<noteq> AtRest \<Longrightarrow> s' \<in> next_status s \<Longrightarrow> s' \<in> resting \<Longrightarrow> r' \<in> {r, 0}
    \<Longrightarrow> lifecycle (s, r, l) (s', r', AtRest)"

inductive_cases lifecycle_E: "lifecycle (s, r, l) (s', r', l')"
inductive_simps lifecycle_from_rest: "lifecycle (s, r, AtRest) x"

fun rank :: "InstanceStatus \<Rightarrow> nat" where
  "rank StatusPending = 7" | "rank StatusQueued = 7" | "rank StatusScheduling = 6"
| "rank StatusCacheWarming = 5" | "rank StatusPreparingBuild = 4" | "rank StatusRestoringSnapshot = 3"
| "rank StatusStarting = 2" | "rank StatusStopping = 2" | "rank StatusCleaning = 1"
| "rank StatusRunning = 0" | "rank StatusStopped = 0" | "rank Failed = 0"

definition work :: "InstanceStatus \<times> int \<times> place \<Rightarrow> nat" where
  "work x = (case x of (s, r, l) \<Rightarrow>
     if l = AtRest then 0
     else 8 * rank s + 2 * nat (OPERATION_RETRY_MAX - r) + (if l = Waiting then 1 else 0) + 1)"

definition counter_ok :: "InstanceStatus \<times> int \<times> place \<Rightarrow> bool" where
  "counter_ok x \<longleftrightarrow> 0 \<le> fst (snd x) \<and> fst (snd x) \<le> OPERATION_RETRY_MAX"

lemma lifecycle_counter: "lifecycle x y \<Longrightarrow> counter_ok x \<Longrightarrow> counter_ok y"
  by (induction rule: lifecycle.induct) (auto simp: counter_ok_def OPERATION_RETRY_MAX_def)

lemma rank_next: "s' \<in> next_status s \<Longrightarrow> s' \<notin> resting \<Longrightarrow> rank s' < rank s"
  by (cases s) (auto simp: resting_def)

lemma lifecycle_work: "lifecycle x y \<Longrightarrow> counter_ok x \<Longrightarrow> work y < work x"
proof (induction rule: lifecycle.induct)
  case (advance l s' s r' r)
  have "8 * rank s' + 8 \<le> 8 * rank s" using rank_next[OF advance(2,3)] by simp
  then show ?case using advance
    by (auto simp: work_def counter_ok_def OPERATION_RETRY_MAX_def)
qed (auto simp: work_def OPERATION_RETRY_MAX_def counter_ok_def)

lemma lifecycle_steps: "(lifecycle ^^ n) x y \<Longrightarrow> counter_ok x \<Longrightarrow> n + work y \<le> work x"
proof (induction n arbitrary: y)
  case (Suc n)
  then obtain z where z: "(lifecycle ^^ n) x z" "lifecycle z y" by auto
  have "counter_ok z" using z(1) Suc.prems(2)
    by (induction n arbitrary: z) (auto intro: lifecycle_counter)
  then show ?case using Suc.IH[OF z(1) Suc.prems(2)] lifecycle_work[OF z(2)] by simp
qed simp

lemma work_bound: "counter_ok x \<Longrightarrow> work x \<le> 64"
proof -
  assume c: "counter_ok x"
  obtain s r l where x: "x = (s, r, l)" by (cases x)
  have "rank s \<le> 7" by (cases s) auto
  moreover have "nat (OPERATION_RETRY_MAX - r) \<le> 3"
    using c by (auto simp: x counter_ok_def OPERATION_RETRY_MAX_def nat_le_iff)
  ultimately show ?thesis by (simp add: x work_def)
qed

section \<open>What an operation on an instance may change\<close>

definition waiting :: "'a disp_scheme \<Rightarrow> GameInstance multiset" where
  "waiting w = mset (d_queue w) + mset (d_overflow w)"

text \<open>The rows of other instances stay, in their order; the instance's own row keeps its
  subscription and either stays or has a status of \<open>S\<close>.\<close>

definition own_rows :: "GameInstance \<Rightarrow> InstanceStatus set \<Rightarrow> 'a db_scheme \<Rightarrow> 'a db_scheme \<Rightarrow> bool" where
  "own_rows i S w w' \<longleftrightarrow>
     filter (\<lambda>g. gi_ID g \<noteq> gi_ID i) (t_instances w') = filter (\<lambda>g. gi_ID g \<noteq> gi_ID i) (t_instances w) \<and>
     (\<forall>g \<in> set (t_instances w'). gi_ID g = gi_ID i \<longrightarrow> g \<in> set (t_instances w) \<or>
        gi_Status g \<in> S \<and> gi_SubscriptionID g \<in> insert (gi_SubscriptionID i)
          (gi_SubscriptionID ` {h \<in> set (t_instances w). gi_ID h = gi_ID i})) \<and>
     (tbl_ok gi_ID (t_instances w) \<longrightarrow> tbl_ok gi_ID (t_instances w'))"

lemma own_rows_same: "t_instances w' = t_instances w \<Longrightarrow> own_rows i S w w'"
  by (simp add: own_rows_def)

lemma own_rows_trans: "own_rows i S u v \<Longrightarrow> own_rows i S v w \<Longrightarrow> own_rows i S u w"
  unfolding own_rows_def by (intro conjI) (auto; fastforce)+

lemma filter_tbl_upd_other:
  "(\<And>g. P g \<Longrightarrow> \<not> Q g) \<Longrightarrow> (\<And>g. P g \<Longrightarrow> \<not> Q (f g)) \<Longrightarrow> filter Q (tbl_upd P f rows) = filter Q rows"
  by (induction rows) (auto simp: tbl_upd_def)

lemma filter_tbl_put_other:
  "key r = k \<Longrightarrow> filter (\<lambda>g. key g \<noteq> k) (tbl_put key r rows) = filter (\<lambda>g. key g \<noteq> k) rows"
  by (auto simp: tbl_put_def intro: filter_tbl_upd_other)

lemma own_rows_put:
  assumes "gi_ID j = gi_ID i" "gi_Status j \<in> S" "gi_SubscriptionID j = gi_SubscriptionID i"
  shows "own_rows i S w (w\<lparr>t_instances := tbl_put gi_ID j (t_instances w)\<rparr>)"
  using assms set_tbl_put_subset[of gi_ID j "t_instances w"]
  by (auto simp: own_rows_def filter_tbl_put_other tbl_ok_put)

lemma own_rows_upd:
  assumes "\<And>g. gi_ID (f g) = gi_ID g" "\<And>g. gi_SubscriptionID (f g) = gi_SubscriptionID g"
    and "\<And>g. gi_Status (f g) \<in> S"
  shows "own_rows i S w (w\<lparr>t_instances := tbl_upd (\<lambda>g. gi_ID g = gi_ID i) f (t_instances w)\<rparr>)"
  using assms
  by (auto simp: own_rows_def filter_tbl_upd_other tbl_ok_upd set_tbl_upd)

text \<open>Nothing stands in the way of writing the instance's row: no driver error, and no other
  instance of its subscription for the unique index.\<close>

definition slot_free :: "GameInstance \<Rightarrow> 'a db_scheme \<Rightarrow> bool" where
  "slot_free i w \<longleftrightarrow> tbl_ok gi_ID (t_instances w) \<and>
     uq_subscription_single_active (filter (\<lambda>g. gi_ID g \<noteq> gi_ID i) (t_instances w)) \<and>
     (\<forall>g \<in> set (t_instances w). gi_ID g = gi_ID i \<longrightarrow> gi_SubscriptionID g = gi_SubscriptionID i) \<and>
     (\<forall>g \<in> set (t_instances w). gi_ID g \<noteq> gi_ID i \<longrightarrow> gi_SubscriptionID i \<noteq> None \<longrightarrow>
        gi_SubscriptionID g \<noteq> gi_SubscriptionID i) \<and>
     db_fault w (InstSave (gi_ID i)) = None \<and> db_fault w (InstUpdateStatus (gi_ID i)) = None"

lemma slot_free_own_rows:
  assumes "own_rows i S w w'" "db_fault w' = db_fault w" "slot_free i w"
  shows "slot_free i w'"
proof -
  have "set (filter (\<lambda>g. gi_ID g \<noteq> gi_ID i) (t_instances w')) = set (filter (\<lambda>g. gi_ID g \<noteq> gi_ID i) (t_instances w))"
    using assms(1) by (simp add: own_rows_def)
  then have o: "g \<in> set (t_instances w') \<longleftrightarrow> g \<in> set (t_instances w)" if "gi_ID g \<noteq> gi_ID i" for g
    using that by auto
  have "gi_SubscriptionID g = gi_SubscriptionID i" if "g \<in> set (t_instances w')" "gi_ID g = gi_ID i" for g
    using assms(1,3) that by (fastforce simp: own_rows_def slot_free_def)
  then show ?thesis using assms o by (auto simp: slot_free_def own_rows_def)
qed

text \<open>With a unique key, a table with one changed row satisfies the index if its other rows do.\<close>

lemma uq_own:
  assumes "tbl_ok gi_ID rows" "uq_subscription_single_active (filter (\<lambda>g. gi_ID g \<noteq> k) rows)"
    and "\<And>g h. g \<in> set rows \<Longrightarrow> h \<in> set rows \<Longrightarrow> gi_ID g = k \<Longrightarrow> gi_ID h \<noteq> k
          \<Longrightarrow> gi_SubscriptionID g \<noteq> None \<Longrightarrow> gi_SubscriptionID h \<noteq> gi_SubscriptionID g"
  shows "uq_subscription_single_active rows"
  using assms
proof (induction rows)
  case (Cons r rows)
  have t: "tbl_ok gi_ID rows" using Cons.prems(1) by (simp add: tbl_ok_def)
  have ih: "uq_subscription_single_active rows"
    using Cons.prems by (intro Cons.IH[OF t]) (auto simp: uq_subscription_single_active_def split: if_splits)
  show ?case
  proof (cases "gi_ID r = k")
    case True
    have "gi_ID h \<noteq> k" if "h \<in> set rows" for h
      using Cons.prems(1) True that by (simp add: tbl_ok_def) (metis imageI)
    then show ?thesis using ih Cons.prems(3)[of r] True
      by (fastforce simp: uq_subscription_single_active_def in_active_index_def)
  next
    case False
    have "gi_SubscriptionID h \<noteq> gi_SubscriptionID r" if "h \<in> set rows" "in_active_index h" "in_active_index r" for h
    proof (cases "gi_ID h = k")
      case True
      then show ?thesis using Cons.prems(3)[of h r] that False by (auto simp: in_active_index_def)
    next
      case h: False
      let ?hs = "filter in_active_index (filter (\<lambda>g. gi_ID g \<noteq> k) rows)"
      have "gi_SubscriptionID r \<notin> gi_SubscriptionID ` set ?hs"
        using Cons.prems(2) that False by (simp add: uq_subscription_single_active_def)
      moreover have "h \<in> set ?hs" using that h by simp
      ultimately show ?thesis by (metis imageI)
    qed
    then show ?thesis using ih by (force simp: uq_subscription_single_active_def)
  qed
qed (simp add: uq_subscription_single_active_def)

end
