(* ===== verification/Dispatch_Effects.thy ===== *)
theory Dispatch_Effects
  imports Lifecycle
begin

text \<open>Which part of the state the operations the dispatcher calls write.\<close>

section \<open>The part an operation writes\<close>

lemma ReleaseByInstance_effect: "\<exists>X. fst (Cred_ReleaseByInstance now k w) = w\<lparr>t_creds := X\<rparr>"
  by (auto simp: Cred_ReleaseByInstance_def CredRepo_ReleaseByInstance_def fst_guard_write
      intro: exI[of _ "t_creds w"])

lemma release_credentials_effect: "\<exists>X. release_credentials cfg now k w = w\<lparr>t_creds := X\<rparr>"
  using ReleaseByInstance_effect[of now k w] by (auto simp: release_credentials_def intro: exI[of _ "t_creds w"])

lemma Dequeue_effect: "\<exists>X. fst (QM_Cancel k w) = w\<lparr>t_queue := X\<rparr>"
  by (auto simp: QM_Cancel_def QueueRepo_Dequeue_def fst_guard_write intro: exI[of _ "t_queue w"])

lemma Enqueue_effect: "\<exists>X. fst (QM_Enqueue qm now i r w) = w\<lparr>t_queue := X\<rparr>"
  by (auto simp: QM_Enqueue_def QueueRepo_Enqueue_def Let_def intro: exI[of _ "t_queue w"] split: option.split)

lemma OnStillQueued_effect: "\<exists>X. fst (OnStillQueued qm now now' k e w) = w\<lparr>t_queue := X\<rparr>"
  by (auto simp: OnStillQueued_def QueueRepo_UpdateWake_def guard_write_def Let_def
      intro: exI[of _ "t_queue w"] split: option.split sum.split)

lemma publish_effect: "\<exists>X. publish now ty i a d w = w\<lparr>ctl_bus := X\<rparr>"
  by (auto simp: publish_def intro: exI[of _ "ctl_bus w"] split: option.split)

lemma release_ports_effect:
  "fst (ReleaseMapPortByInstanceId k w) \<in> {w, w\<lparr>t_ports := tbl_del (\<lambda>m. pm_InstanceId m = k) (t_ports w)\<rparr>}"
  by (auto simp: ReleaseMapPortByInstanceId_def PortRepo_DeleteByInstanceId_def guard_write_def
      split: sum.split option.split)

lemma releaseReservation_effect: "\<exists>X. releaseReservation i w = w\<lparr>t_nodes := X\<rparr>"
  by (auto simp: releaseReservation_def Release_def intro: exI[of _ "t_nodes w"] split: option.split sum.split)

lemma releaseReservation_nodes:
  assumes "AgentRepo_GetByID a w = Inr agent" "gi_NodeAgentID i = Some a" "gi_ResourceReq i = Some r"
    and "db_fault w (ReleaseTx (na_NodeId agent)) = None" "list_all (sub_in_range r) (t_nodes w)"
  shows "releaseReservation i w =
    w\<lparr>t_nodes := tbl_upd (\<lambda>n. node_key n = na_NodeId agent) (sub_reserved r) (t_nodes w)\<rparr>"
  using assms by (simp add: releaseReservation_def Release_def list_all_iff)

lemma tbl_upd_twice:
  "(\<And>n. P (f n) = P n) \<Longrightarrow> tbl_upd P f (tbl_upd P f xs) = tbl_upd P (f \<circ> f) xs"
  by (simp add: tbl_upd_def)

text \<open>An interfering party of a credential allocation writes credentials only.\<close>

definition only_creds :: "'a db_scheme \<Rightarrow> 'a db_scheme \<Rightarrow> bool" where
  "only_creds w w' \<longleftrightarrow> (\<exists>X. w' = w\<lparr>t_creds := X\<rparr>)"

lemma only_creds_refl [simp]: "only_creds w w"
  unfolding only_creds_def by (rule exI[of _ "t_creds w"]) simp

lemma only_creds_trans: "only_creds u v \<Longrightarrow> only_creds v w \<Longrightarrow> only_creds u w"
  by (auto simp: only_creds_def)

lemma Acquire_effect: "only_creds w (fst (CredRepo_Acquire now c k w))"
proof (cases "db_fault w (CredAcquire c)")
  case None
  then show ?thesis by (auto simp: CredRepo_Acquire_def Let_def only_creds_def)
qed (simp add: CredRepo_Acquire_def)

lemma acquire_first_effect:
  assumes "\<And>u. only_creds u (intf u)"
  shows "only_creds w (fst (acquire_first now intf k rs w))"
proof (induction rs arbitrary: w)
  case (Cons r rs)
  obtain w1 ok e where a: "CredRepo_Acquire now (cp_ID r) k (intf w) = (w1, ok, e)"
    by (cases "CredRepo_Acquire now (cp_ID r) k (intf w)")
  have "only_creds w w1"
    using only_creds_trans[OF assms Acquire_effect[of "intf w" now "cp_ID r" k]] a by simp
  then show ?case using Cons.IH[of w1] a by (cases e) (auto intro: only_creds_trans)
qed simp

lemma Allocate_effect:
  assumes "\<And>u. only_creds u (intf u)"
  shows "only_creds w (fst (AllocateForInstance now intf g p k w))"
proof -
  have round: "only_creds u v" if "acquire_first now intf k cs u = (v, r)" for u v cs r
    using acquire_first_effect[OF assms, of u now k cs] that by simp
  have two: "only_creds w w2" if "acquire_first now intf k cs w = (w1, r)"
      "acquire_first now intf k cs' w1 = (w2, r')" for cs cs' w1 w2 r r'
    using only_creds_trans[OF round[OF that(1)] round[OF that(2)]] .
  show ?thesis
    by (simp add: AllocateForInstance_def Let_def split: sum.split option.split list.split prod.split)
       (use round two in blast)
qed

lemma allocate_loop_effect:
  assumes "\<And>u. only_creds u (intf u)"
  shows "only_creds w (fst (allocate_loop cfg intf now i ss out w))"
proof (induction ss arbitrary: out w)
  case (Cons s ss)
  obtain w1 r where a: "AllocateForInstance now intf (gi_GameID i) (cs_Pool s) (gi_ID i) w = (w1, r)"
    by fastforce
  have "only_creds w w1" using Allocate_effect[OF assms, of w now "gi_GameID i" "cs_Pool s" "gi_ID i"] a by simp
  then show ?case using Cons.IH[of w1 out] Cons.IH[of w1 "tbl_put fst (cs_Key s, x) out" for x] a
    by (cases r) (auto intro: only_creds_trans)
qed simp

lemma allocateCredentials_effect:
  assumes "\<And>u. only_creds u (intf u)"
  shows "only_creds w (fst (allocateCredentials cfg intf now i build w))"
  by (auto simp: allocateCredentials_def intro: allocate_loop_effect[OF assms] split: option.split)

end
