(* ===== verification/Dispatch_Invariant.thy ===== *)
theory Dispatch_Invariant
  imports Dispatch_Effects
begin

text \<open>
  The contract of an invariant of the dispatcher: what survives every elementary
  write survives every dispatch, poll, watch and recovery.  \<open>I\<close> is the invariant of the
  state and \<open>ok\<close> what holds of every object the dispatcher handles.  The scheduler and
  the interference with credential allocations are known through their contracts only.
\<close>

definition poller_object :: "poller \<Rightarrow> GameInstance" where
  "poller_object p = (case p of PollOperation k i ph \<Rightarrow> i | PollCache i \<Rightarrow> i)"

definition phase_status :: "op_phase \<Rightarrow> InstanceStatus" where
  "phase_status ph = (case ph of OnPrepareBuild \<Rightarrow> StatusPreparingBuild
     | OnRestoreSnapshot \<Rightarrow> StatusRestoringSnapshot | OnStartInstance \<Rightarrow> StatusStarting
     | OnStopInstance \<Rightarrow> StatusStopping | OnCleanInstance \<Rightarrow> StatusCleaning)"

text \<open>A poller watches the operation of the phase its object is in.\<close>

definition poller_ok :: "poller \<Rightarrow> bool" where
  "poller_ok p = (case p of PollOperation k i ph \<Rightarrow> gi_Status i = phase_status ph
     | PollCache i \<Rightarrow> gi_Status i = StatusCacheWarming)"

text \<open>How the dispatcher changes an object: never its identity, and a new resource request only
  from the scheduler.\<close>

definition same_object :: "GameInstance \<Rightarrow> GameInstance \<Rightarrow> bool" where
  "same_object i j \<longleftrightarrow> gi_ID j = gi_ID i \<and> gi_SubscriptionID j = gi_SubscriptionID i \<and>
     gi_ResourceReq j \<in> {gi_ResourceReq i, None}"

locale dispatch_invariant =
  fixes I :: "'a disp_scheme \<Rightarrow> bool" and ok :: "GameInstance \<Rightarrow> bool" and req_ok :: "ResourceRequest \<Rightarrow> bool"
  assumes creds: "I w \<Longrightarrow> I (w\<lparr>t_creds := X1\<rparr>)"
    and queue: "I w \<Longrightarrow> I (w\<lparr>t_queue := X2\<rparr>)"
    and bus: "I w \<Longrightarrow> I (w\<lparr>ctl_bus := X3\<rparr>)"
    and wake: "I w \<Longrightarrow> I (w\<lparr>d_wake := X4\<rparr>)"
    and offline: "I w \<Longrightarrow> I (w\<lparr>d_offline := X5\<rparr>)"
    and count: "I w \<Longrightarrow> 0 < n \<Longrightarrow> n \<le> OPERATION_RETRY_MAX \<Longrightarrow> I (w\<lparr>d_retry := tbl_put fst (k, n) (d_retry w)\<rparr>)"
    and uncount: "I w \<Longrightarrow> I (clearRetryCount k w)"
    and counted: "I w \<Longrightarrow> 0 \<le> retry_count k w"
    and put: "I w \<Longrightarrow> ok i \<Longrightarrow> I (w\<lparr>t_instances := tbl_put gi_ID i (t_instances w)\<rparr>)"
    and status: "I w \<Longrightarrow> I (w\<lparr>t_instances := tbl_upd (\<lambda>g. gi_ID g = k)
                     (\<lambda>g. g\<lparr>gi_Status := st, gi_UpdateTime := now\<rparr>) (t_instances w)\<rparr>)"
    and release: "I w \<Longrightarrow> ok i \<Longrightarrow> I (releaseReservation i w)"
    and drop_ports: "I w \<Longrightarrow> I (w\<lparr>t_ports := tbl_del (\<lambda>m. pm_InstanceId m = k) (t_ports w)\<rparr>)"
    and queued: "I w \<Longrightarrow> ok i \<Longrightarrow> isDispatchableStatus (gi_Status i) \<Longrightarrow> I (w\<lparr>d_queue := d_queue w @ [i]\<rparr>)"
    and overflowed: "I w \<Longrightarrow> ok i \<Longrightarrow> isDispatchableStatus (gi_Status i) \<Longrightarrow> I (w\<lparr>d_overflow := d_overflow w @ [i]\<rparr>)"
    and popped: "I w \<Longrightarrow> d_overflow w = i # is \<Longrightarrow> I (w\<lparr>d_overflow := is\<rparr>) \<and> ok i"
    and popped_queue: "I w \<Longrightarrow> d_queue w = i # is \<Longrightarrow> I (w\<lparr>d_queue := is\<rparr>) \<and> ok i"
    and polled: "I w \<Longrightarrow> ok (poller_object p) \<Longrightarrow> poller_ok p \<Longrightarrow> I (w\<lparr>d_pollers := d_pollers w @ [p]\<rparr>)"
    and poller: "I w \<Longrightarrow> p \<in> set (d_pollers w) \<Longrightarrow> I (w\<lparr>d_pollers := remove1 p (d_pollers w)\<rparr>) \<and> ok (poller_object p)"
    and row: "I w \<Longrightarrow> g \<in> set (t_instances w) \<Longrightarrow> ok g"
    and change: "ok i \<Longrightarrow> same_object i j \<Longrightarrow> ok j"
    and scheduled: "ok i \<Longrightarrow> req_ok r \<Longrightarrow> ok (i\<lparr>gi_ResourceReq := Some r\<rparr>)"
begin

lemma change_simps:
  assumes "ok i"
  shows "ok (i\<lparr>gi_Status := st\<rparr>)" "ok (i\<lparr>gi_FailReason := t\<rparr>)" "ok (i\<lparr>gi_UpdateTime := now\<rparr>)" "ok (failed_object i)"
    "ok (i\<lparr>gi_Status := st, gi_NodeAgentID := a\<rparr>)"
    "ok (i\<lparr>gi_Status := st, gi_QueuedReason := t\<rparr>)"
    "ok (i\<lparr>gi_Status := st, gi_QueuedReason := t, gi_QueuedAt := q\<rparr>)"
    "ok (i\<lparr>gi_Status := st, gi_QueuedReason := t, gi_FailReason := t'\<rparr>)"
  using assms by (auto intro!: change[OF assms] simp: same_object_def failed_object_def)

lemma save: "I w \<Longrightarrow> ok i \<Longrightarrow> I (fst (InstanceRepo_Save now i w))"
  using put[of w "i\<lparr>gi_UpdateTime := now\<rparr>"] change_simps(3)[of i now]
  by (simp add: InstanceRepo_Save_def Let_def split: option.split)

lemma saved:
  assumes "InstanceRepo_Save now i w = (w', j, e)" "I w" "ok i"
  shows "I w' \<and> ok j \<and> gi_Status j = gi_Status i"
  using save[OF assms(2,3), of now] change_simps(3)[OF assms(3), of now] assms(1)
  by (auto simp: InstanceRepo_Save_def Let_def split: option.splits if_splits)

lemma update_status: "I w \<Longrightarrow> I (fst (InstanceRepo_UpdateStatus now i w))"
  using status[where w = w and k = "gi_ID i" and st = "gi_Status i" and now = now]
  by (simp add: InstanceRepo_UpdateStatus_def Let_def split: option.split)

lemma request: "I w \<Longrightarrow> ok i \<Longrightarrow> I (fst (RequestDispatch i w))"
  by (auto simp: RequestDispatch_def intro: queued overflowed)

lemma only_creds: "I w \<Longrightarrow> only_creds w w' \<Longrightarrow> I w'"
  by (auto simp: only_creds_def intro: creds)

lemma cancel: "I w \<Longrightarrow> I (fst (QM_Cancel k w))"
  using Dequeue_effect[of k w] queue by auto

lemma published: "I w \<Longrightarrow> I (publish now ty a b d w)"
  using publish_effect[of now ty a b d w] bus by auto

lemma credentials: "I w \<Longrightarrow> I (release_credentials cfg now k w)"
  using release_credentials_effect[of cfg now k w] creds by auto

lemma FailedInstance: "I w \<Longrightarrow> ok i \<Longrightarrow> I (FailedInstance cfg now i w)"
  by (auto simp: FailedInstance_def Let_def credentials release change_simps split: prod.split
      dest!: saved intro: published)

lemma failWithReason: "I w \<Longrightarrow> ok i \<Longrightarrow> I (failWithReason cfg now i t w)"
  by (simp add: failWithReason_def FailedInstance change_simps)

lemma retry: "I w \<Longrightarrow> I (fst (retryOperation i w))"
  using counted[of w "gi_ID i"]
  by (auto simp: retryOperation_def Let_def intro!: uncount count)

lemma handleDispatchError: "I w \<Longrightarrow> ok i \<Longrightarrow> I (handleDispatchError cfg now i e op w)"
  using retry[of w i] request[of "fst (retryOperation i w)" i]
  by (auto simp: handleDispatchError_def Let_def change_simps split: prod.split intro!: FailedInstance)

lemma with_client: "(\<And>w. I w \<Longrightarrow> I (act w)) \<Longrightarrow> I w \<Longrightarrow> ok i \<Longrightarrow> I (with_client cfg rm now i act w)"
  by (auto simp: with_client_def FailedInstance split: option.split sum.split)

lemma start_operation:
  "I w \<Longrightarrow> ok i \<Longrightarrow> gi_Status i = phase_status ph \<Longrightarrow> I (start_operation cfg now i op answer ph w)"
  by (auto simp: start_operation_def handleDispatchError start_poller_def polled poller_object_def
      poller_ok_def split: sum.split)

lemma move_on: "I w \<Longrightarrow> ok i \<Longrightarrow> I (move_on now i st w)"
  using update_status[of w now "i\<lparr>gi_Status := st\<rparr>"]
  by (auto simp: move_on_def Let_def change_simps split: prod.split intro: request)

end

section \<open>Polling, recovery and watch\<close>

context dispatch_invariant begin

lemma on_succeeded:
  assumes "I w" "ok i"
  shows "I (on_succeeded cfg now ph i w)"
proof -
  have ports: "I (fst (ReleaseMapPortByInstanceId k u))" if "I u" for k u
    using release_ports_effect[of k u] drop_ports[OF that, of k] that by auto
  show ?thesis using assms
    by (auto simp: on_succeeded_def onPrepareBuildSucceeded_def onRestoreSnapshotSucceeded_def
        onStartInstanceSucceeded_def onStopInstanceSucceeded_def onCleanInstanceSucceeded_def Let_def
        intro!: request move_on update_status published wake ports save credentials release change_simps
        split: op_phase.split)
qed

lemma operation_failed: "I w \<Longrightarrow> ok i \<Longrightarrow> I (operation_failed cfg now i d w)"
  using retry[of w i] request[of "fst (retryOperation i w)" i]
  by (auto simp: operation_failed_def Let_def split: option.split prod.split intro!: FailedInstance)

lemma PollingResult: "I w \<Longrightarrow> ok i \<Longrightarrow> I (PollingResult cfg now i ph as w)"
  by (induction as)
     (auto simp: FailedInstance operation_failed on_succeeded uncount split: sum.split OperationStatus.split)

lemma onCacheWarmReady: "I w \<Longrightarrow> ok i \<Longrightarrow> I (onCacheWarmReady now i w)"
  by (auto simp: onCacheWarmReady_def Let_def change_simps split: prod.split dest!: saved intro!: request)

lemma pollCacheReady: "I w \<Longrightarrow> ok i \<Longrightarrow> I (fst (pollCacheReady cfg i dl rt as w))"
proof (induction as arbitrary: rt)
  case (Cons a as)
  have "I w1" if "pollCacheReady cfg i dl t as w = (w1, ts)" for t w1 ts
    using Cons.IH[OF Cons.prems, of t] that by simp
  then show ?case using Cons
    by (cases a) (auto simp: Let_def FailedInstance change_simps onCacheWarmReady
        split: sum.split option.split GameCacheStatus.split prod.split)
qed (simp add: FailedInstance change_simps)

lemma request_all: "I w \<Longrightarrow> (\<And>i. i \<in> set is \<Longrightarrow> ok i) \<Longrightarrow> I (request_all is w)"
  by (induction "is" arbitrary: w) (auto intro: request)

lemma Recover: "I w \<Longrightarrow> I (fst (Recover w))"
  using row[of w]
  by (auto simp: Recover_def InstanceRepo_ListByStatuses_def intro!: request_all split: sum.split)

lemma clear_offline: "I w \<Longrightarrow> I (clearOffline k w)"
  by (simp add: clearOffline_def offline)

lemma watch_inspect: "I w \<Longrightarrow> ok i \<Longrightarrow> I (watch_inspect cfg now i agent answer w)"
  by (auto simp: watch_inspect_def markOfflineAndShouldFence_def Let_def
      intro!: failWithReason clear_offline offline
      split: sum.split option.split prod.split bool.split)

lemma watch_one: "I w \<Longrightarrow> ok i \<Longrightarrow> I (watch_one cfg rm inspect now i w)"
  by (auto simp: watch_one_def watch_inspect split: option.split sum.split)

lemma WatchRunningInstances:
  assumes "I w"
  shows "I (WatchRunningInstances cfg rm inspect now w)"
proof -
  have "I (fold (watch_one cfg rm inspect now) is w)" if "\<And>i. i \<in> set is \<Longrightarrow> ok i" for "is"
    using assms that by (induction "is" arbitrary: w) (auto intro: watch_one)
  from this[of "filter (\<lambda>r. gi_Status r = StatusRunning) (t_instances w)"] show ?thesis
    using assms row[OF assms] by (auto simp: WatchRunningInstances_def InstanceRepo_ListByStatuses_def split: sum.split)
qed

end

section \<open>Dispatch\<close>

text \<open>The collaborators: the scheduler keeps the invariant and a scheduled instance gets a proper
  request; who interferes with a credential allocation writes credentials only.\<close>

locale dispatch_run = dispatch_invariant I ok req_ok
  for I :: "'a disp_scheme \<Rightarrow> bool" and ok :: "GameInstance \<Rightarrow> bool" and req_ok :: "ResourceRequest \<Rightarrow> bool" +
  fixes cfg :: "('a disp_scheme) disp_cfg"
  assumes schedule: "I w \<Longrightarrow> ok i \<Longrightarrow> dc_schedule cfg i w = (w', r) \<Longrightarrow> I w'"
    and schedule_req: "I w \<Longrightarrow> ok i \<Longrightarrow> dc_schedule cfg i w = (w', Inr res)
          \<Longrightarrow> sr_Outcome res = OutcomeScheduled \<Longrightarrow> req_ok (sr_ResourceReq res)"
    and interference: "only_creds u (dc_cred_intf cfg u)"
begin

lemma on_scheduled:
  assumes "I w" "ok i" "req_ok (sr_ResourceReq res)"
  shows "I (on_scheduled cfg now i res w)"
proof -
  have "ok (i\<lparr>gi_NodeAgentID := a, gi_BranchName := b, gi_CacheBuildID := c, gi_Status := st,
      gi_ResourceReq := Some (sr_ResourceReq res), gi_QueuedReason := t, gi_QueuedAt := q\<rparr>)" for a b c st t q
    using scheduled[OF assms(2,3)] by (rule change) (simp add: same_object_def)
  then show ?thesis using assms(1)
    by (auto simp: on_scheduled_def Let_def cancel split: prod.split sum.split dest!: saved intro!: request)
qed

lemma on_queued: "I w \<Longrightarrow> ok i \<Longrightarrow> I (on_queued cfg now i res w)"
  using Enqueue_effect[of "dc_queueManager cfg" now i "sr_Reason res" w]
    OnStillQueued_effect[of "dc_queueManager cfg" now now "gi_ID i" False w]
  by (auto simp: on_queued_def Let_def split: sum.split prod.split option.split bool.split
      intro!: FailedInstance save update_status published cancel queue change_simps)

lemma dispatch_scheduling: "I w \<Longrightarrow> ok i \<Longrightarrow> I (dispatch_scheduling cfg now i w)"
  by (auto simp: dispatch_scheduling_def split: prod.split sum.split ScheduleOutcome.split
      intro!: FailedInstance on_scheduled on_queued change_simps dest: schedule schedule_req)

lemma dispatch_remote:
  assumes "I w" "ok i"
  shows "gi_Status i = StatusCacheWarming \<Longrightarrow> I (dispatch_cache_warming cfg rm now i w)"
    and "gi_Status i = StatusPreparingBuild \<Longrightarrow> I (dispatch_preparing cfg rm now i w)"
    and "gi_Status i = StatusRestoringSnapshot \<Longrightarrow> I (dispatch_restoring cfg rm now i w)"
    and "gi_Status i = StatusStopping \<Longrightarrow> I (dispatch_stopping cfg rm now i w)"
    and "gi_Status i = StatusCleaning \<Longrightarrow> I (dispatch_cleaning cfg rm now i w)"
proof -
  show "gi_Status i = StatusCacheWarming \<Longrightarrow> I (dispatch_cache_warming cfg rm now i w)"
    using assms
    by (auto simp: dispatch_cache_warming_def start_poller_def poller_object_def poller_ok_def
        intro!: FailedInstance failWithReason with_client handleDispatchError polled split: option.split)
  show "gi_Status i = StatusRestoringSnapshot \<Longrightarrow> I (dispatch_restoring cfg rm now i w)"
    using assms
    by (auto simp: dispatch_restoring_def phase_status_def intro!: with_client FailedInstance start_operation move_on
        split: sum.split option.split bool.split)
qed (use assms in \<open>auto simp: dispatch_preparing_def dispatch_stopping_def dispatch_cleaning_def phase_status_def
       intro!: with_client start_operation\<close>)

lemma start_with:
  assumes "I w" "ok i" "gi_Status i = StatusStarting"
  shows "I (start_with cfg rm now i build config ms w)"
proof -
  obtain w1 r where a: "allocateCredentials cfg (dc_cred_intf cfg) now i build w = (w1, r)" by fastforce
  have "I w1" using only_creds[OF assms(1)] allocateCredentials_effect[OF interference, of w cfg now i build] a
    by simp
  then show ?thesis using assms(2,3) a
    by (auto simp: start_with_def Let_def phase_status_def intro!: failWithReason start_operation split: sum.split)
qed

lemma dispatch_starting: "I w \<Longrightarrow> ok i \<Longrightarrow> gi_Status i = StatusStarting \<Longrightarrow> I (dispatch_starting cfg rm now i w)"
  by (auto simp: dispatch_starting_def intro!: with_client FailedInstance start_with
      split: sum.split option.split)

lemma Dispatch: "I w \<Longrightarrow> ok i \<Longrightarrow> I (Dispatch cfg rm now i w)"
  by (cases "gi_Status i")
     (simp_all add: Dispatch_def move_on dispatch_scheduling dispatch_remote dispatch_starting update_status)

lemma NextDispatch: "I w \<Longrightarrow> I (NextDispatch cfg rm now w)"
  using popped[of w] popped_queue[of w]
  by (auto simp: NextDispatch_def nextDispatchInstance_def split: list.split intro: Dispatch)

end

end
