(* ===== verification/Dispatch_Safety.thy ===== *)
theory Dispatch_Safety
  imports Dispatch_Invariant
begin

text \<open>
  The invariant of the cluster as an instance of the contract of \<open>Dispatch_Invariant\<close>: no
  node oversold, no host port mapped twice, no object or row with a negative request,
  pollers that watch the phase of their object, and retry counters within their bound.
\<close>

section \<open>The invariant\<close>

definition req_nonneg :: "ResourceRequest \<Rightarrow> bool" where
  "req_nonneg r \<longleftrightarrow> 0 \<le> CPUMilli r \<and> 0 \<le> MemoryBytes r \<and> 0 \<le> DiskBytes r"

definition obj_ok :: "GameInstance \<Rightarrow> bool" where
  "obj_ok i \<longleftrightarrow> (case gi_ResourceReq i of None \<Rightarrow> True | Some r \<Rightarrow> req_nonneg r)"

definition node_sane :: "Node \<Rightarrow> bool" where
  "node_sane n \<longleftrightarrow> cpuCapacityMilli n \<in> {0..2 ^ 53} \<and> memoryCapacityBytes n \<in> {0..2 ^ 53} \<and>
     diskCapacityBytes n \<in> {0..2 ^ 53}"

definition tables_ok :: "rat \<Rightarrow> 'a db_scheme \<Rightarrow> bool" where
  "tables_ok t w \<longleftrightarrow> cluster_ok t w \<and> list_all node_sane (t_nodes w) \<and> list_all obj_ok (t_instances w)"

definition buffers_ok :: "'a disp_scheme \<Rightarrow> bool" where
  "buffers_ok w \<longleftrightarrow> list_all obj_ok (d_queue w) \<and> list_all obj_ok (d_overflow w) \<and>
     list_all (\<lambda>p. obj_ok (poller_object p) \<and> poller_ok p) (d_pollers w) \<and>
     list_all (\<lambda>x. 0 < snd x \<and> snd x \<le> OPERATION_RETRY_MAX) (d_retry w)"

definition disp_ok :: "rat \<Rightarrow> 'a disp_scheme \<Rightarrow> bool" where
  "disp_ok t w \<longleftrightarrow> tables_ok t w \<and> buffers_ok w"

lemma list_all_tbl_put: "list_all P rows \<Longrightarrow> P r \<Longrightarrow> list_all P (tbl_put key r rows)"
  using set_tbl_put_subset[of key r rows] by (fastforce simp: list_all_iff)

lemma list_all_tbl_upd: "list_all P rows \<Longrightarrow> (\<And>r. P r \<Longrightarrow> P (f r)) \<Longrightarrow> list_all P (tbl_upd Q f rows)"
  by (auto simp: list_all_iff set_tbl_upd)

lemma list_all_tbl_del: "list_all P rows \<Longrightarrow> list_all P (tbl_del Q rows)"
  by (auto simp: list_all_iff)

lemma ports_exclusive_del: "ports_exclusive ms \<Longrightarrow> ports_exclusive (tbl_del P ms)"
  unfolding ports_exclusive_def tbl_del_def by (rule distinct_map_filter)

lemma within_limits_sub:
  assumes "within_limits t n" "node_sane n" "req_nonneg r"
  shows "within_limits t (sub_reserved r n)"
proof -
  have "0 \<le> capacityLimit (cpuCapacityMilli n) t" "0 \<le> capacityLimit (memoryCapacityBytes n) t"
    "0 \<le> capacityLimit (diskCapacityBytes n) t"
    using assms(2) capacityLimit_range by (auto simp: node_sane_def)
  then show ?thesis using assms(1,3)
    by (simp add: within_limits_def sub_reserved_def req_nonneg_def cpuCapacityMilli_def
        memoryCapacityBytes_def diskCapacityBytes_def)
qed

lemma node_sane_reserved [simp]:
  "node_sane (sub_reserved r n) = node_sane n" "node_sane (add_reserved r n) = node_sane n"
  by (simp_all add: node_sane_def sub_reserved_def add_reserved_def cpuCapacityMilli_def
      memoryCapacityBytes_def diskCapacityBytes_def)

lemma Release_tables_ok:
  assumes "tables_ok t w" "req_nonneg r"
  shows "tables_ok t (fst (Release k r w))"
proof -
  have "tables_ok t (w\<lparr>t_nodes := tbl_upd (\<lambda>n. node_key n = k) (sub_reserved r) (t_nodes w)\<rparr>)"
    using assms(1) within_limits_sub[OF _ _ assms(2)]
    by (auto simp: tables_ok_def cluster_ok_def nodes_within_def list_all_iff set_tbl_upd intro!: tbl_ok_upd)
  then show ?thesis using assms(1) by (simp add: Release_def split: option.split)
qed

lemma releaseReservation_tables_ok:
  assumes "tables_ok t w" "obj_ok i"
  shows "tables_ok t (releaseReservation i w)"
proof (cases "gi_ResourceReq i")
  case (Some r)
  then have "req_nonneg r" using assms(2) by (simp add: obj_ok_def)
  then show ?thesis using assms(1) Some
    by (auto simp: releaseReservation_def Release_tables_ok split: option.split sum.split)
qed (use assms in \<open>simp add: releaseReservation_def split: option.split\<close>)

lemma releaseReservation_buffers [frame_simps]:
  "d_queue (releaseReservation i w) = d_queue w" "d_overflow (releaseReservation i w) = d_overflow w"
  "d_pollers (releaseReservation i w) = d_pollers w" "d_retry (releaseReservation i w) = d_retry w"
  "t_instances (releaseReservation i w) = t_instances w" "db_fault (releaseReservation i w) = db_fault w"
proof -
  obtain X where "releaseReservation i w = w\<lparr>t_nodes := X\<rparr>" using releaseReservation_effect by blast
  then show "d_queue (releaseReservation i w) = d_queue w" "d_overflow (releaseReservation i w) = d_overflow w"
    "d_pollers (releaseReservation i w) = d_pollers w" "d_retry (releaseReservation i w) = d_retry w"
    "t_instances (releaseReservation i w) = t_instances w" "db_fault (releaseReservation i w) = db_fault w"
    by simp_all
qed

lemma buffers_ok_cong:
  "d_queue w' = d_queue w \<Longrightarrow> d_overflow w' = d_overflow w \<Longrightarrow> d_pollers w' = d_pollers w
   \<Longrightarrow> d_retry w' = d_retry w \<Longrightarrow> buffers_ok w' = buffers_ok w"
  by (simp add: buffers_ok_def)

interpretation disp: dispatch_invariant "disp_ok t" obj_ok req_nonneg for t
proof (unfold_locales, goal_cases)
  case (6 w n k)
  then show ?case by (simp add: disp_ok_def tables_ok_def cluster_ok_def nodes_within_def buffers_ok_def list_all_tbl_put)
next
  case (7 w k)
  then show ?case
    by (simp add: disp_ok_def tables_ok_def cluster_ok_def nodes_within_def buffers_ok_def clearRetryCount_def list_all_tbl_del)
next
  case (8 w k)
  then show ?case
    by (fastforce simp: disp_ok_def buffers_ok_def retry_count_def list_all_iff dest: map_of_SomeD split: option.split)
next
  case (9 w i)
  then show ?case
    by (simp add: disp_ok_def tables_ok_def cluster_ok_def nodes_within_def buffers_ok_def list_all_tbl_put)
next
  case (10 w k st now)
  then show ?case
    by (auto simp: disp_ok_def tables_ok_def cluster_ok_def nodes_within_def buffers_ok_def obj_ok_def intro!: list_all_tbl_upd)
next
  case (11 w i)
  then show ?case
    by (simp add: disp_ok_def releaseReservation_tables_ok frame_simps cong: buffers_ok_cong)
next
  case (12 w k)
  then show ?case
    by (simp add: disp_ok_def tables_ok_def cluster_ok_def nodes_within_def buffers_ok_def ports_exclusive_del)
next
  case (18 w p)
  then show ?case
    by (auto simp: disp_ok_def tables_ok_def cluster_ok_def nodes_within_def buffers_ok_def list_all_iff
        dest: set_remove1_subset[THEN subsetD])
next
  case (19 w g)
  then show ?case by (simp add: disp_ok_def tables_ok_def list_all_iff)
next
  case (20 i j)
  then show ?case by (auto simp: obj_ok_def same_object_def)
next
  case (21 i r)
  then show ?case by (simp add: obj_ok_def)
qed (simp_all add: disp_ok_def tables_ok_def cluster_ok_def nodes_within_def buffers_ok_def)

section \<open>The scheduler as collaborator\<close>

lemma Schedule_request:
  assumes "Schedule cfg env i w = (w', Inr res)" "sr_Outcome res = OutcomeScheduled"
  shows "\<exists>config. sr_ResourceReq res = resolveRequest i config"
proof -
  from Schedule_scheduled[OF assms] obtain k w0 game config where
    "schedule_attempt cfg env k i game config (resolveBranch i w)
       (branch_build i (resolveBranch i w) w) (resolveRequest i config) w0 = (w', Some (Inr res))" .
  then show ?thesis
    by (cases rule: attempt_cases) (use assms(2) in auto)
qed

lemma resolveRequest_nonneg: "req_nonneg (resolveRequest i config)"
  by (simp add: req_nonneg_def resolveRequest_def default_request_def split: option.splits)

interpretation whole: reservation_invariant cfg "disp_ok (sc_utilizationTarget cfg)" for cfg
proof (unfold_locales, goal_cases)
  case (1 w w')
  have "sched.more w' = sched.more w" using 1(1) by (simp add: same_rows_def)
  then have "d_queue w' = d_queue w \<and> d_overflow w' = d_overflow w \<and> d_pollers w' = d_pollers w \<and> d_retry w' = d_retry w"
    by (cases w; cases w') simp
  then show ?case using 1
    by (simp add: disp_ok_def tables_ok_def cluster_ok_def nodes_within_def same_rows_def buffers_ok_def)
next
  case (2 w ms c now inst req w')
  have "cluster_ok (sc_utilizationTarget cfg) w'"
    using cluster.reserve[OF _ 2(2,3,4)] 2(1) by (simp add: disp_ok_def tables_ok_def)
  moreover have "list_all node_sane (t_nodes w') \<and> list_all obj_ok (t_instances w') \<and> buffers_ok w'"
    using 2(4)
  proof (rule TryReserve_cases)
    fix node ports
    assume "w' = w\<lparr>t_nodes := tbl_upd (\<lambda>n. node_key n = rt_NodeID (reserve_request cfg inst c req ms))
            (add_reserved (rt_Req (reserve_request cfg inst c req ms))) (t_nodes w), t_ports := ports,
            t_instances := bind_instance now (reserve_request cfg inst c req ms) (t_instances w)\<rparr>"
    then show ?thesis using 2(1)
      by (auto simp: disp_ok_def tables_ok_def buffers_ok_def bind_instance_def obj_ok_def intro!: list_all_tbl_upd)
  qed
  ultimately show ?case by (simp add: disp_ok_def tables_ok_def)
qed

text \<open>A dispatcher with the model's scheduler; others may write between its reads and its
  transaction as long as they keep the invariant.\<close>

definition with_scheduler :: "sched_cfg \<Rightarrow> ('a disp_scheme) sched_env \<Rightarrow> ('a disp_scheme) disp_cfg \<Rightarrow> ('a disp_scheme) disp_cfg" where
  "with_scheduler sc env cfg = cfg\<lparr>dc_schedule := Schedule sc env\<rparr>"

lemma with_scheduler_run:
  assumes "whole.env_keeps sc env" "\<And>u. only_creds u (dc_cred_intf cfg u)"
  shows "dispatch_run (disp_ok (sc_utilizationTarget sc)) obj_ok req_nonneg (with_scheduler sc env cfg)"
proof (unfold_locales, goal_cases)
  case (1 w i w' r)
  then show ?case using whole.Schedule_keeps[OF assms(1), of w i] by (simp add: with_scheduler_def)
next
  case (2 w i w' res)
  then show ?case using Schedule_request[of sc env i w w' res] resolveRequest_nonneg
    by (auto simp: with_scheduler_def)
next
  case (3 u)
  then show ?case using assms(2) by (simp add: with_scheduler_def)
qed

text \<open>Nobody interferes.\<close>

definition alone_env :: "time \<Rightarrow> (nat \<Rightarrow> nat \<Rightarrow> string) \<Rightarrow> 'w sched_env" where
  "alone_env now gen = \<lparr> en_now = (\<lambda>_. now), en_gen = gen, en_before_load = (\<lambda>_ w. w),
     en_before_reserve = (\<lambda>_ w. w) \<rparr>"

definition alone :: "sched_cfg \<Rightarrow> time \<Rightarrow> (nat \<Rightarrow> nat \<Rightarrow> string) \<Rightarrow> ('a disp_scheme) disp_cfg \<Rightarrow> ('a disp_scheme) disp_cfg" where
  "alone sc now gen cfg = with_scheduler sc (alone_env now gen) (cfg\<lparr>dc_cred_intf := (\<lambda>w. w)\<rparr>)"

lemma alone_keeps: "whole.env_keeps sc (alone_env now gen)"
  by (simp add: whole.env_keeps_def alone_env_def)

interpretation alone_run: dispatch_run "disp_ok (sc_utilizationTarget sc)" obj_ok req_nonneg "alone sc now gen cfg"
  for sc now gen cfg
  unfolding alone_def by (rule with_scheduler_run[OF alone_keeps]) simp

end
