(* ===== verification/Dispatching.thy ===== *)
theory Dispatching
  imports Dispatch_Safety
begin

text \<open>
  The dispatcher refines the machine of \<open>Lifecycle\<close>: a dispatch and a poll move their
  object by one step of it, hand it over at most once, leave the rows of other
  instances alone, and an object that leaves the dispatcher rests in the data base.
\<close>

section \<open>Quiet steps and the outcome of an operation\<close>

definition quiet :: "GameInstance \<Rightarrow> 'a disp_scheme \<Rightarrow> 'a disp_scheme \<Rightarrow> bool" where
  "quiet i w w' \<longleftrightarrow> own_rows i (next_status (gi_Status i)) w w' \<and> waiting w' = waiting w \<and>
     d_pollers w' = d_pollers w \<and> d_retry w' = d_retry w \<and> db_fault w' = db_fault w"

text \<open>Where the object is after the operation: with its new status in a buffer, with a poller of
  its phase, or in its row (when nothing stands in the way of writing it).\<close>

definition placed :: "GameInstance \<Rightarrow> 'a disp_scheme \<Rightarrow> 'a disp_scheme \<Rightarrow> InstanceStatus \<Rightarrow> place \<Rightarrow> bool" where
  "placed i w w' s' l' \<longleftrightarrow>
     (case l' of
        Waiting \<Rightarrow> d_pollers w' = d_pollers w \<and>
          (\<exists>j. waiting w' = add_mset j (waiting w) \<and> gi_ID j = gi_ID i \<and> gi_Status j = s')
      | Polled \<Rightarrow> waiting w' = waiting w \<and>
          (\<exists>p. d_pollers w' = d_pollers w @ [p] \<and> poller_ok p \<and> poller_object p = i)
      | AtRest \<Rightarrow> waiting w' = waiting w \<and> d_pollers w' = d_pollers w \<and>
          (slot_free i w \<longrightarrow> (\<forall>g \<in> set (t_instances w'). gi_ID g = gi_ID i \<longrightarrow> gi_Status g = s')))"

definition outcome :: "GameInstance \<Rightarrow> place \<Rightarrow> 'a disp_scheme \<Rightarrow> 'a disp_scheme \<Rightarrow> bool" where
  "outcome i l w w' \<longleftrightarrow> own_rows i (next_status (gi_Status i)) w w' \<and>
     (\<exists>s' l'. lifecycle (gi_Status i, retry_count (gi_ID i) w, l) (s', retry_count (gi_ID i) w', l') \<and>
        placed i w w' s' l')"

lemma quiet_refl [simp]: "quiet i w w"
  by (simp add: quiet_def own_rows_same)

lemma quiet_trans: "quiet i u v \<Longrightarrow> quiet i v w \<Longrightarrow> quiet i u w"
  by (auto simp: quiet_def intro: own_rows_trans)

lemma quiet_outcome: "quiet i w w1 \<Longrightarrow> outcome i l w1 w' \<Longrightarrow> outcome i l w w'"
proof -
  assume q: "quiet i w w1" and o: "outcome i l w1 w'"
  have "slot_free i w1" if "slot_free i w"
    using q that slot_free_own_rows by (auto simp: quiet_def)
  moreover have "retry_count k w1 = retry_count k w" for k
    using q by (simp add: quiet_def retry_count_def)
  ultimately show ?thesis using q o
    by (auto simp: outcome_def quiet_def placed_def intro: own_rows_trans split: place.splits)
qed

lemma quiet_same_instances:
  assumes "t_instances w' = t_instances w" "db_fault w' = db_fault w" "d_queue w' = d_queue w"
    "d_overflow w' = d_overflow w" "d_pollers w' = d_pollers w" "d_retry w' = d_retry w"
  shows "quiet i w w'"
  using assms by (simp add: quiet_def own_rows_same waiting_def)

lemma quiet_credentials: "quiet i w (release_credentials cfg now k w)"
  using release_credentials_effect[of cfg now k w] by (auto intro: quiet_same_instances)

lemma quiet_creds: "only_creds w w' \<Longrightarrow> quiet i w w'"
  by (auto simp: only_creds_def intro: quiet_same_instances)

lemma quiet_release: "quiet i w (releaseReservation j w)"
  by (rule quiet_same_instances) (simp_all add: frame_simps)

lemma quiet_publish: "quiet i w (publish now ty a b d w)"
  using publish_effect[of now ty a b d w] by (auto intro: quiet_same_instances)

lemma quiet_queue: "\<exists>X. w' = w\<lparr>t_queue := X\<rparr> \<Longrightarrow> quiet i w w'"
  by (auto intro: quiet_same_instances)

lemma quiet_ports: "quiet i w (fst (ReleaseMapPortByInstanceId k w))"
  using release_ports_effect[of k w] by (auto intro: quiet_same_instances)

section \<open>Writing the instance's row\<close>

definition same_identity :: "GameInstance \<Rightarrow> GameInstance \<Rightarrow> bool" where
  "same_identity i j \<longleftrightarrow> gi_ID j = gi_ID i \<and> gi_SubscriptionID j = gi_SubscriptionID i"

lemma own_rows_uq:
  assumes "own_rows i S w (w\<lparr>t_instances := rows\<rparr>)" "slot_free i w"
  shows "uq_subscription_single_active rows"
proof -
  have "slot_free i (w\<lparr>t_instances := rows\<rparr>)" using slot_free_own_rows[OF assms(1) _ assms(2)] by simp
  then show ?thesis by (intro uq_own[of rows "gi_ID i"]) (auto simp: slot_free_def)
qed

lemma quiet_save:
  assumes "same_identity i j" "gi_Status j \<in> next_status (gi_Status i)"
  shows "quiet i w (fst (InstanceRepo_Save now j w)) \<and>
    (slot_free i w \<longrightarrow> (\<forall>g \<in> set (t_instances (fst (InstanceRepo_Save now j w))).
        gi_ID g = gi_ID i \<longrightarrow> gi_Status g = gi_Status j))"
proof -
  let ?rows = "tbl_put gi_ID (j\<lparr>gi_UpdateTime := now\<rparr>) (t_instances w)"
  have o: "own_rows i (next_status (gi_Status i)) w (w\<lparr>t_instances := ?rows\<rparr>)"
    using assms by (intro own_rows_put) (auto simp: same_identity_def)
  have "gi_Status g = gi_Status j" if "g \<in> set ?rows" "gi_ID g = gi_ID i" "tbl_ok gi_ID (t_instances w)" for g
    using tbl_find_mem[OF tbl_ok_put[OF that(3)] that(1)] that(2) assms(1)
    by (auto simp: tbl_find_put same_identity_def)
  then show ?thesis
    using o own_rows_uq[OF o] assms(1)
    by (auto simp: InstanceRepo_Save_def Let_def quiet_def waiting_def own_rows_same slot_free_def same_identity_def
        split: option.split)
qed

lemma quiet_status:
  assumes "gi_ID j = gi_ID i" "gi_Status j \<in> next_status (gi_Status i)"
  shows "quiet i w (fst (InstanceRepo_UpdateStatus now j w)) \<and>
    (slot_free i w \<longrightarrow> (\<forall>g \<in> set (t_instances (fst (InstanceRepo_UpdateStatus now j w))).
        gi_ID g = gi_ID i \<longrightarrow> gi_Status g = gi_Status j))"
proof -
  let ?rows = "tbl_upd (\<lambda>g. gi_ID g = gi_ID i) (\<lambda>g. g\<lparr>gi_Status := gi_Status j, gi_UpdateTime := now\<rparr>) (t_instances w)"
  have o: "own_rows i (next_status (gi_Status i)) w (w\<lparr>t_instances := ?rows\<rparr>)"
    using assms by (intro own_rows_upd) auto
  have "gi_Status g = gi_Status j" if "g \<in> set ?rows" "gi_ID g = gi_ID i" for g
    using that by (auto simp: set_tbl_upd)
  then show ?thesis
    using o own_rows_uq[OF o] assms(1)
    by (auto simp: InstanceRepo_UpdateStatus_def Let_def quiet_def waiting_def own_rows_same slot_free_def
        split: option.split)
qed

lemma rest_outcome:
  assumes "quiet i w w'" "l \<noteq> AtRest" "s' \<in> next_status (gi_Status i)" "s' \<in> resting"
    and "slot_free i w \<Longrightarrow> \<forall>g \<in> set (t_instances w'). gi_ID g = gi_ID i \<longrightarrow> gi_Status g = s'"
  shows "outcome i l w w'"
proof -
  have "retry_count (gi_ID i) w' = retry_count (gi_ID i) w"
    using assms(1) by (simp add: quiet_def retry_count_def)
  then have "lifecycle (gi_Status i, retry_count (gi_ID i) w, l) (s', retry_count (gi_ID i) w', AtRest)"
    using assms by (auto intro: lifecycle.rest)
  moreover have "placed i w w' s' AtRest" using assms by (auto simp: placed_def quiet_def)
  ultimately show ?thesis using assms(1) by (auto simp: outcome_def quiet_def)
qed

lemma request_waiting:
  "isDispatchableStatus (gi_Status j) \<Longrightarrow> waiting (fst (RequestDispatch j w)) = add_mset j (waiting w) \<and>
     d_pollers (fst (RequestDispatch j w)) = d_pollers w \<and> t_instances (fst (RequestDispatch j w)) = t_instances w \<and>
     d_retry (fst (RequestDispatch j w)) = d_retry w \<and> snd (RequestDispatch j w) = None"
  by (simp add: RequestDispatch_def waiting_def)

text \<open>The dispatcher is what the queue waker hands its instances to.\<close>

interpretation reconciler: dispatch_requester RequestDispatch waiting
  by unfold_locales (auto simp: RequestDispatch_def waiting_def)

section \<open>The outcome of each operation\<close>

lemma advance_outcome:
  assumes "quiet i w w1" "l \<noteq> AtRest" "gi_ID j = gi_ID i" "gi_Status j \<in> next_status (gi_Status i)"
    and "gi_Status j \<notin> resting"
  shows "outcome i l w (fst (RequestDispatch j w1))"
proof -
  have d: "isDispatchableStatus (gi_Status j)" using assms(5) by (cases "gi_Status j") (auto simp: resting_def)
  note r = request_waiting[OF d, of w1]
  have "retry_count (gi_ID i) (fst (RequestDispatch j w1)) = retry_count (gi_ID i) w"
    using r assms(1) by (simp add: quiet_def retry_count_def)
  then have "lifecycle (gi_Status i, retry_count (gi_ID i) w, l)
      (gi_Status j, retry_count (gi_ID i) (fst (RequestDispatch j w1)), Waiting)"
    using assms by (auto intro: lifecycle.advance)
  moreover have "placed i w (fst (RequestDispatch j w1)) (gi_Status j) Waiting"
    using r assms(1,3) by (auto simp: placed_def quiet_def)
  moreover have "own_rows i (next_status (gi_Status i)) w (fst (RequestDispatch j w1))"
    using assms(1) r by (auto simp: quiet_def intro: own_rows_trans[OF _ own_rows_same])
  ultimately show ?thesis by (auto simp: outcome_def)
qed

lemma quiet_save_step:
  "quiet i w u \<Longrightarrow> same_identity i j \<Longrightarrow> gi_Status j \<in> next_status (gi_Status i)
   \<Longrightarrow> quiet i w (fst (InstanceRepo_Save now j u))"
  using quiet_save quiet_trans by blast

lemma failed_object_same: "same_identity i i' \<Longrightarrow> same_identity i (failed_object i')"
  by (auto simp: same_identity_def failed_object_def)

lemma FailedInstance_quiet:
  assumes "same_identity i i'" "Failed \<in> next_status (gi_Status i)"
  shows "quiet i w (FailedInstance cfg now i' w) \<and>
    (slot_free i w \<longrightarrow> (\<forall>g \<in> set (t_instances (FailedInstance cfg now i' w)).
        gi_ID g = gi_ID i \<longrightarrow> gi_Status g = Failed))"
proof -
  define w1 where "w1 = release_credentials cfg now (gi_ID i') w"
  define w2 where "w2 = (if gi_NodeAgentID i' \<noteq> None \<and> gi_ResourceReq i' \<noteq> None \<and> gi_Status i' \<noteq> StatusScheduling
    then releaseReservation i' w1 else w1)"
  let ?w3 = "fst (InstanceRepo_Save now (failed_object i') w2)"
  have "quiet i w w1" unfolding w1_def by (rule quiet_credentials)
  then have q: "quiet i w w2" unfolding w2_def by (simp add: quiet_trans[OF _ quiet_release])
  have f: "gi_Status (failed_object i') = Failed" by (simp add: failed_object_def)
  note save = quiet_save[OF failed_object_same[OF assms(1)], unfolded f, OF assms(2), of w2 now]
  have e: "FailedInstance cfg now i' w = publish now EventInstanceFailed (gi_ID i')
      (derefStr (gi_NodeAgentID (failed_object i'))) (gi_FailReason (failed_object i')) ?w3"
    by (simp add: FailedInstance_def Let_def w1_def w2_def split: prod.split)
  have "slot_free i w2" if "slot_free i w"
    using q that slot_free_own_rows by (auto simp: quiet_def)
  moreover have "quiet i w ?w3" using quiet_trans[OF q] save by blast
  ultimately show ?thesis unfolding e publish_frame
    using quiet_trans[OF _ quiet_publish] save by blast
qed

lemma failed_outcome:
  assumes "same_identity i i'" "Failed \<in> next_status (gi_Status i)" "l \<noteq> AtRest"
  shows "outcome i l w (FailedInstance cfg now i' w)"
  using FailedInstance_quiet[OF assms(1,2), of w cfg now] assms
  by (intro rest_outcome[of _ _ _ _ Failed]) (auto simp: resting_def)

lemma failWithReason_outcome:
  "Failed \<in> next_status (gi_Status i) \<Longrightarrow> l \<noteq> AtRest \<Longrightarrow> outcome i l w (failWithReason cfg now i t w)"
  unfolding failWithReason_def by (rule failed_outcome) (auto simp: same_identity_def)

lemma move_on_outcome:
  assumes "st \<in> next_status (gi_Status i)" "st \<notin> resting" "l \<noteq> AtRest"
  shows "outcome i l w (move_on now i st w)"
  using quiet_status[of "i\<lparr>gi_Status := st\<rparr>" i w now] assms
  by (auto simp: move_on_def Let_def split: prod.split intro!: advance_outcome)

lemma retry_outcome:
  assumes "retryOperation i w = (w1, True)" "remote_phase (gi_Status i)" "l \<noteq> AtRest"
  shows "outcome i l w (fst (RequestDispatch i w1)) \<and> snd (RequestDispatch i w1) = None"
proof -
  have c: "retry_count (gi_ID i) w < OPERATION_RETRY_MAX" and
    w1: "w1 = w\<lparr>d_retry := tbl_put fst (gi_ID i, retry_count (gi_ID i) w + 1) (d_retry w)\<rparr>"
    using assms(1) by (auto simp: retryOperation_def Let_def split: if_splits)
  have d: "isDispatchableStatus (gi_Status i)"
    using assms(2) by (auto simp: remote_phase_def)
  note r = request_waiting[OF d, of w1]
  have m: "map_of (tbl_put fst (k, n) xs) k = Some n" for k :: string and n :: int and xs
  proof -
    have t: "map_of ys k = map_option snd (tbl_find fst k ys)" for ys :: "(string \<times> int) list"
      by (induction ys) (auto simp: table_simps)
    show ?thesis by (simp add: t tbl_find_put)
  qed
  have "retry_count (gi_ID i) (fst (RequestDispatch i w1)) = retry_count (gi_ID i) w + 1"
    using r w1 by (simp add: retry_count_def m)
  then have "lifecycle (gi_Status i, retry_count (gi_ID i) w, l)
      (gi_Status i, retry_count (gi_ID i) (fst (RequestDispatch i w1)), Waiting)"
    using assms c by (auto intro: lifecycle.retry)
  moreover have "placed i w (fst (RequestDispatch i w1)) (gi_Status i) Waiting"
    using r w1 by (auto simp: placed_def waiting_def)
  ultimately show ?thesis using r w1 by (auto simp: outcome_def own_rows_same)
qed

text \<open>A failed retry clears the counter before the instance fails.\<close>

lemma map_of_tbl_del: "map_of (tbl_del (\<lambda>p. fst p = k) xs) k = None"
  by (induction xs) (auto simp: tbl_del_def)

lemma cleared_rest:
  assumes "quiet i (clearRetryCount (gi_ID i) w) w'" "l \<noteq> AtRest" "s' \<in> next_status (gi_Status i)" "s' \<in> resting"
    and "slot_free i w \<Longrightarrow> \<forall>g \<in> set (t_instances w'). gi_ID g = gi_ID i \<longrightarrow> gi_Status g = s'"
  shows "outcome i l w w'"
proof -
  have "retry_count (gi_ID i) w' = 0"
    using assms(1) by (simp add: quiet_def retry_count_def clearRetryCount_def map_of_tbl_del)
  then have "lifecycle (gi_Status i, retry_count (gi_ID i) w, l) (s', retry_count (gi_ID i) w', AtRest)"
    using assms by (auto intro: lifecycle.rest)
  moreover have "placed i w w' s' AtRest"
    using assms by (auto simp: placed_def quiet_def clearRetryCount_def waiting_def)
  moreover have "own_rows i (next_status (gi_Status i)) w w'"
    using assms(1) own_rows_trans[OF own_rows_same[of "clearRetryCount (gi_ID i) w" w]]
    by (simp add: quiet_def clearRetryCount_def)
  ultimately show ?thesis by (auto simp: outcome_def)
qed

lemma slot_free_clear [simp]: "slot_free i (clearRetryCount k w) = slot_free i w"
  by (simp add: slot_free_def clearRetryCount_def)

lemma gave_up_outcome:
  assumes "retryOperation i w = (w1, False)" "same_identity i i'" "Failed \<in> next_status (gi_Status i)" "l \<noteq> AtRest"
  shows "outcome i l w (FailedInstance cfg now i' w1)"
proof -
  have w1: "w1 = clearRetryCount (gi_ID i) w"
    using assms(1) by (auto simp: retryOperation_def Let_def split: if_splits)
  show ?thesis
    using FailedInstance_quiet[OF assms(2,3), of w1 cfg now] assms(4)
    unfolding w1 by (intro cleared_rest[of _ _ _ _ Failed]) (auto simp: resting_def assms(3))
qed

lemma handleDispatchError_outcome:
  assumes "remote_phase (gi_Status i)" "l \<noteq> AtRest"
  shows "outcome i l w (handleDispatchError cfg now i e op w)"
proof -
  have f: "Failed \<in> next_status (gi_Status i)" using assms(1) by (auto simp: remote_phase_def)
  let ?j = "i\<lparr>gi_FailReason := op @ msg_failed_sep @ error_text e\<rparr>"
  have j: "same_identity i ?j" by (simp add: same_identity_def)
  obtain w1 again where r: "retryOperation i w = (w1, again)" by fastforce
  obtain w2 rej where q: "RequestDispatch i w1 = (w2, rej)" by fastforce
  show ?thesis
  proof (cases again)
    case True
    then have "outcome i l w w2" "rej = None" using retry_outcome[of i w w1 l] assms r q by auto
    then show ?thesis using failed_outcome[OF j f assms(2), where cfg = cfg and w = w] r q True
      by (simp add: handleDispatchError_def Let_def)
  next
    case False
    then show ?thesis
      using failed_outcome[OF j f assms(2), where cfg = cfg and w = w] gave_up_outcome[OF _ j f assms(2), where cfg = cfg and w = w] r
      by (simp add: handleDispatchError_def Let_def)
  qed
qed

lemma start_poller_outcome:
  assumes "poller_ok p" "poller_object p = i" "remote_phase (gi_Status i)"
  shows "outcome i Waiting w (start_poller p w)"
proof -
  have "lifecycle (gi_Status i, retry_count (gi_ID i) w, Waiting)
      (gi_Status i, retry_count (gi_ID i) (start_poller p w), Polled)"
    using assms(3) by (simp add: start_poller_def retry_count_def lifecycle.start)
  moreover have "placed i w (start_poller p w) (gi_Status i) Polled"
    using assms by (simp add: placed_def start_poller_def waiting_def)
  ultimately show ?thesis by (auto simp: outcome_def start_poller_def own_rows_same)
qed

lemma start_operation_outcome:
  assumes "gi_Status i = phase_status ph"
  shows "outcome i Waiting w (start_operation cfg now i op answer ph w)"
proof -
  have "remote_phase (gi_Status i)"
    using assms by (cases ph) (auto simp: phase_status_def remote_phase_def)
  then show ?thesis using assms
    by (auto simp: start_operation_def poller_ok_def poller_object_def split: sum.split
        intro!: handleDispatchError_outcome start_poller_outcome)
qed

lemma with_client_outcome:
  assumes "\<And>w. outcome i l w (act w)" "Failed \<in> next_status (gi_Status i)" "l \<noteq> AtRest"
  shows "outcome i l w (with_client cfg rm now i act w)"
  using assms by (auto simp: with_client_def same_identity_def split: option.split sum.split intro!: failed_outcome)

section \<open>A dispatch\<close>

text \<open>The collaborators: a schedule of an instance changes no other instance and no buffer.\<close>

locale lifecycle_run =
  fixes cfg :: "('a disp_scheme) disp_cfg"
  assumes schedule_quiet: "gi_Status i = StatusScheduling \<Longrightarrow> quiet i w (fst (dc_schedule cfg i w))"
    and interference: "only_creds u (dc_cred_intf cfg u)"
begin

lemma on_scheduled_outcome:
  assumes "gi_Status i = StatusScheduling"
  shows "outcome i Waiting w (on_scheduled cfg now i res w)"
proof -
  define w1 where "w1 = (case QM_Get (gi_ID i) w of Inl e \<Rightarrow> w | Inr q \<Rightarrow> fst (QM_Cancel (gi_ID i) w))"
  define j where "j = i\<lparr>gi_NodeAgentID := Some (sr_NodeAgentID res), gi_BranchName := sr_BranchName res,
     gi_CacheBuildID := sr_BuildID res,
     gi_Status := (if sr_CacheNeeded res then StatusCacheWarming else StatusPreparingBuild),
     gi_ResourceReq := Some (sr_ResourceReq res), gi_QueuedReason := [], gi_QueuedAt := None\<rparr>"
  have q: "quiet i w w1"
    unfolding w1_def by (auto split: sum.split intro: quiet_queue[OF Dequeue_effect])
  have j: "same_identity i j" "gi_Status j \<in> next_status (gi_Status i)" "gi_Status j \<notin> resting"
    by (auto simp: j_def same_identity_def assms resting_def)
  obtain w2 j' e where s: "InstanceRepo_Save now j w1 = (w2, j', e)" by (cases "InstanceRepo_Save now j w1")
  have j': "j' = j\<lparr>gi_UpdateTime := now\<rparr>"
    using s by (auto simp: InstanceRepo_Save_def Let_def split: option.splits if_splits)
  have "quiet i w w2" using quiet_save_step[OF q j(1,2), of now] s by simp
  then have "outcome i Waiting w (fst (RequestDispatch j' w2))"
    by (rule advance_outcome) (use j in \<open>auto simp: j' same_identity_def\<close>)
  then show ?thesis using s by (simp add: on_scheduled_def Let_def w1_def[symmetric] j_def[symmetric])
qed

lemma saved_rest_outcome:
  assumes "quiet i w u" "same_identity i j" "gi_Status j \<in> next_status (gi_Status i)" "gi_Status j \<in> resting" "l \<noteq> AtRest"
  shows "outcome i l w (fst (InstanceRepo_Save now j u))"
    and "outcome i l w (publish now ty a b d (fst (InstanceRepo_Save now j u)))"
proof -
  have "slot_free i u" if "slot_free i w"
    using assms(1) that slot_free_own_rows by (auto simp: quiet_def)
  then have r: "slot_free i w \<Longrightarrow> \<forall>g \<in> set (t_instances (fst (InstanceRepo_Save now j u))).
      gi_ID g = gi_ID i \<longrightarrow> gi_Status g = gi_Status j"
    using quiet_save[OF assms(2,3), of u now] by blast
  note q = quiet_save_step[OF assms(1,2,3), of now]
  show "outcome i l w (fst (InstanceRepo_Save now j u))"
    by (rule rest_outcome[OF q assms(5,3,4) r])
  show "outcome i l w (publish now ty a b d (fst (InstanceRepo_Save now j u)))"
    by (rule rest_outcome[OF quiet_trans[OF q quiet_publish] assms(5,3,4)]) (use r in simp)
qed

lemma on_queued_outcome:
  assumes s: "gi_Status i = StatusScheduling"
  shows "outcome i Waiting w (on_queued cfg now i res w)"
proof (cases "QM_Get (gi_ID i) w")
  case (Inl e)
  obtain w1 err where q: "QM_Enqueue (dc_queueManager cfg) now i (sr_Reason res) w = (w1, err)" by fastforce
  have "quiet i w (fst (QM_Enqueue (dc_queueManager cfg) now i (sr_Reason res) w))"
    by (rule quiet_queue[OF Enqueue_effect])
  then have w1: "quiet i w w1" by (simp add: q)
  show ?thesis
  proof (cases err)
    case None
    show ?thesis using Inl q None saved_rest_outcome(1)[OF w1] s
      by (auto simp: on_queued_def same_identity_def resting_def)
  next
    case (Some e')
    have "outcome i Waiting w1 (FailedInstance cfg now i w1)"
      by (rule failed_outcome) (auto simp: same_identity_def s)
    then show ?thesis using Inl q Some quiet_outcome[OF w1] by (simp add: on_queued_def)
  qed
next
  case (Inr row)
  obtain w1 b err where q: "OnStillQueued (dc_queueManager cfg) now now (gi_ID i) False w = (w1, b, err)"
    by (cases "OnStillQueued (dc_queueManager cfg) now now (gi_ID i) False w")
  have "quiet i w (fst (OnStillQueued (dc_queueManager cfg) now now (gi_ID i) False w))"
    by (rule quiet_queue[OF OnStillQueued_effect])
  then have w1: "quiet i w w1" by (simp add: q)
  have w2: "quiet i w (fst (QM_Cancel (gi_ID i) w1))"
    by (rule quiet_trans[OF w1 quiet_queue[OF Dequeue_effect]])
  show ?thesis
  proof (cases err)
    case None
    let ?j = "i\<lparr>gi_Status := StatusQueued, gi_QueuedReason := sr_Reason res\<rparr>"
    note u = quiet_status[of ?j i w1 now]
    have f: "slot_free i w1" if "slot_free i w"
      using w1 that slot_free_own_rows by (auto simp: quiet_def)
    have "outcome i Waiting w (fst (InstanceRepo_UpdateStatus now ?j w1))"
      using u s f quiet_trans[OF w1]
      by (intro rest_outcome[of _ _ _ _ StatusQueued]) (auto simp: resting_def)
    moreover have "outcome i Waiting w (publish now EventInstanceQueueTimeout (gi_ID i) [] msg_queue_timeout_ev
        (fst (InstanceRepo_Save now (i\<lparr>gi_Status := Failed, gi_QueuedReason := ''queue_timeout'',
           gi_FailReason := msg_queue_timeout\<rparr>) (fst (QM_Cancel (gi_ID i) w1)))))"
      by (rule saved_rest_outcome(2)[OF w2]) (auto simp: same_identity_def resting_def s)
    ultimately show ?thesis using Inr q None by (simp add: on_queued_def Let_def split: bool.split)
  next
    case (Some e')
    have "outcome i Waiting w1 (FailedInstance cfg now i w1)"
      by (rule failed_outcome) (auto simp: same_identity_def s)
    then show ?thesis using Inr q Some quiet_outcome[OF w1] by (simp add: on_queued_def split: bool.split)
  qed
qed

lemma dispatch_scheduling_outcome:
  assumes "gi_Status i = StatusScheduling"
  shows "outcome i Waiting w (dispatch_scheduling cfg now i w)"
proof -
  obtain w1 r where r: "dc_schedule cfg i w = (w1, r)" by fastforce
  have q: "quiet i w w1" using schedule_quiet[OF assms, of w] r by simp
  have f: "outcome i Waiting w1 (FailedInstance cfg now (i\<lparr>gi_FailReason := t\<rparr>) w1)"
    "outcome i Waiting w1 (FailedInstance cfg now i w1)" for t
    by (rule failed_outcome; simp add: same_identity_def assms)+
  show ?thesis using r
    by (auto simp: dispatch_scheduling_def split: sum.split ScheduleOutcome.split
        intro!: quiet_outcome[OF q] f on_scheduled_outcome[OF assms] on_queued_outcome[OF assms])
qed

lemma dispatch_starting_outcome:
  assumes "gi_Status i = StatusStarting"
  shows "outcome i Waiting w (dispatch_starting cfg rm now i w)"
proof -
  have f: "outcome i Waiting u (FailedInstance cfg now i u)" for u
    by (rule failed_outcome) (auto simp: same_identity_def assms)
  have st: "outcome i Waiting u (start_with cfg rm now i build config ms u)" for build config ms u
  proof -
    obtain w1 r where a: "allocateCredentials cfg (dc_cred_intf cfg) now i build u = (w1, r)" by fastforce
    have "quiet i u w1"
      using quiet_creds[OF allocateCredentials_effect[OF interference, of u cfg now i build], of i] a by simp
    then show ?thesis using a assms
      by (auto simp: start_with_def Let_def phase_status_def split: sum.split
          intro!: quiet_outcome[of i u w1] failWithReason_outcome start_operation_outcome)
  qed
  show ?thesis unfolding dispatch_starting_def
    by (rule with_client_outcome) (auto simp: assms f st split: sum.split option.split)
qed

lemma dispatch_warming_outcome:
  assumes "gi_Status i = StatusCacheWarming"
  shows "outcome i Waiting w (dispatch_cache_warming cfg rm now i w)"
proof -
  have r: "remote_phase (gi_Status i)" "Failed \<in> next_status (gi_Status i)"
    by (simp_all add: assms remote_phase_def)
  have "outcome i Waiting u (case c of Some e \<Rightarrow> handleDispatchError cfg now i e ''CacheGame'' u
      | None \<Rightarrow> start_poller (PollCache i) u)" for u c
    by (auto intro!: handleDispatchError_outcome[OF r(1)] start_poller_outcome
        simp: poller_ok_def poller_object_def remote_phase_def assms split: option.split)
  then show ?thesis
    by (auto simp: dispatch_cache_warming_def r same_identity_def
        intro!: failed_outcome failWithReason_outcome with_client_outcome)
qed

lemma dispatch_restoring_outcome:
  assumes "gi_Status i = StatusRestoringSnapshot"
  shows "outcome i Waiting w (dispatch_restoring cfg rm now i w)"
proof -
  have "outcome i Waiting u (case r of Inl e \<Rightarrow> FailedInstance cfg now i u
       | Inr (Some (snap, True)) \<Rightarrow>
           start_operation cfg now i ''RestoreSnapshot'' (rm_RestoreSnapshot rm (gi_ID i) snap) OnRestoreSnapshot u
       | Inr _ \<Rightarrow> move_on now i StatusStarting u)" for u and r :: "gerr + (string \<times> bool) option"
    by (auto simp: assms same_identity_def resting_def phase_status_def split: sum.split option.split bool.split
        intro!: failed_outcome move_on_outcome start_operation_outcome)
  then show ?thesis unfolding dispatch_restoring_def
    by (intro with_client_outcome) (auto simp: assms)
qed

lemma Dispatch_outcome: "outcome i Waiting w (Dispatch cfg rm now i w)"
proof -
  have f: "outcome i Waiting w (fst (InstanceRepo_UpdateStatus now (i\<lparr>gi_Status := Failed\<rparr>) w))"
    if "Failed \<in> next_status (gi_Status i)"
    using quiet_status[of "i\<lparr>gi_Status := Failed\<rparr>" i w now] that
    by (intro rest_outcome[of _ _ _ _ Failed]) (auto simp: resting_def)
  show ?thesis
    by (cases "gi_Status i")
       (auto simp: Dispatch_def dispatch_scheduling_outcome dispatch_starting_outcome dispatch_warming_outcome
         dispatch_restoring_outcome dispatch_preparing_def dispatch_stopping_def dispatch_cleaning_def
         resting_def phase_status_def
         intro!: move_on_outcome with_client_outcome start_operation_outcome f)
qed

end

end
