(* ===== verification/Dispatch_Refinement.thy ===== *)
theory Dispatch_Refinement
  imports Dispatching
begin

text \<open>
  The refinement completed: the pollers, the model's scheduler as the collaborator of
  \<open>lifecycle_run\<close>, the theorems, and the bound on the journey of an object.
\<close>

section \<open>A poll\<close>

lemma outcome_cleared:
  assumes "outcome i Polled (clearRetryCount (gi_ID i) w) w'"
    and "d_retry w' = d_retry (clearRetryCount (gi_ID i) w)"
  shows "outcome i Polled w w'"
proof -
  let ?k = "gi_ID i"
  have z: "retry_count ?k (clearRetryCount ?k w) = 0" "retry_count ?k w' = 0"
    using assms(2) by (simp_all add: retry_count_def clearRetryCount_def map_of_tbl_del)
  obtain s' l' where l: "lifecycle (gi_Status i, 0, Polled) (s', 0, l')" and
    p: "placed i (clearRetryCount ?k w) w' s' l'" and
    o: "own_rows i (next_status (gi_Status i)) (clearRetryCount ?k w) w'"
    using assms(1) z by (auto simp: outcome_def)
  from l have "lifecycle (gi_Status i, retry_count ?k w, Polled) (s', 0, l')"
    by (cases rule: lifecycle_E) (auto intro: lifecycle.intros)
  moreover have "placed i w w' s' l'"
    using p by (auto simp: placed_def clearRetryCount_def waiting_def slot_free_def split: place.splits)
  moreover have "own_rows i (next_status (gi_Status i)) w w'"
    by (rule own_rows_trans[OF own_rows_same o]) (simp add: clearRetryCount_def)
  ultimately show ?thesis using z by (auto simp: outcome_def)
qed

lemma Save_retry: "d_retry (fst (InstanceRepo_Save now i w)) = d_retry w"
  by (simp add: InstanceRepo_Save_def Let_def split: option.split)

lemma UpdateStatus_retry: "d_retry (fst (InstanceRepo_UpdateStatus now i w)) = d_retry w"
  by (simp add: InstanceRepo_UpdateStatus_def Let_def split: option.split)

lemma RequestDispatch_retry: "d_retry (fst (RequestDispatch i w)) = d_retry w"
  by (simp add: RequestDispatch_def)

lemma quiet_retry: "quiet i w w' \<Longrightarrow> d_retry w' = d_retry w"
  by (simp add: quiet_def)

lemmas quiet_retry_simps = quiet_retry[OF quiet_credentials] quiet_retry[OF quiet_release]
  quiet_retry[OF quiet_publish] quiet_retry[OF quiet_ports]

lemma on_succeeded_retry: "d_retry (on_succeeded cfg now ph i w) = d_retry w"
  by (auto simp: on_succeeded_def onPrepareBuildSucceeded_def onRestoreSnapshotSucceeded_def move_on_def
      onStartInstanceSucceeded_def onStopInstanceSucceeded_def onCleanInstanceSucceeded_def Let_def
      RequestDispatch_retry UpdateStatus_retry Save_retry quiet_retry_simps split: op_phase.split prod.split)
     (metis UpdateStatus_retry fst_conv)+

lemma quiet_wake: "quiet i w (w\<lparr>d_wake := b\<rparr>)"
  by (rule quiet_same_instances) simp_all

lemma onClean_outcome:
  assumes s: "gi_Status i = StatusCleaning" and l: "l \<noteq> AtRest"
  shows "outcome i l w (onCleanInstanceSucceeded cfg now i w)"
proof -
  let ?j = "i\<lparr>gi_Status := StatusStopped, gi_NodeAgentID := None\<rparr>"
  define w2 where "w2 = releaseReservation i (release_credentials cfg now (gi_ID i) w)"
  define w4 where "w4 = fst (ReleaseMapPortByInstanceId (gi_ID i) (fst (InstanceRepo_Save now ?j w2)))"
  define w5 where "w5 = (if dc_releasedHook cfg then w4\<lparr>d_wake := Wake (d_wake w4)\<rparr> else w4)"
  have q2: "quiet i w w2"
    unfolding w2_def by (rule quiet_trans[OF quiet_credentials quiet_release])
  have j: "same_identity i ?j" "gi_Status ?j \<in> next_status (gi_Status i)"
    by (auto simp: same_identity_def s)
  note q3 = quiet_save_step[OF q2 j, of now]
  have q4: "quiet i (fst (InstanceRepo_Save now ?j w2)) w4" unfolding w4_def by (rule quiet_ports)
  have q5: "quiet i w4 w5" unfolding w5_def by (simp add: quiet_wake)
  have "quiet i w (publish now EventInstanceStopped (gi_ID i) [] msg_stopped_ev w5)"
    by (rule quiet_trans[OF quiet_trans[OF quiet_trans[OF q3 q4] q5] quiet_publish])
  moreover have "t_instances w5 = t_instances (fst (InstanceRepo_Save now ?j w2))"
    using release_ports_effect[of "gi_ID i" "fst (InstanceRepo_Save now ?j w2)"]
    by (auto simp: w5_def w4_def)
  moreover have "slot_free i w2" if "slot_free i w"
    using q2 that slot_free_own_rows by (auto simp: quiet_def)
  ultimately have "outcome i l w (publish now EventInstanceStopped (gi_ID i) [] msg_stopped_ev w5)"
    using quiet_save[OF j, of w2 now] l
    by (intro rest_outcome[of _ _ _ _ StatusStopped]) (auto simp: resting_def s)
  then show ?thesis
    by (cases "dc_releasedHook cfg")
       (simp_all add: onCleanInstanceSucceeded_def Let_def w2_def[symmetric] w4_def[symmetric] w5_def)
qed

lemma on_succeeded_outcome:
  assumes "gi_Status i = phase_status ph" "l \<noteq> AtRest"
  shows "outcome i l w (on_succeeded cfg now ph i w)"
proof (cases ph)
  case OnPrepareBuild
  then show ?thesis using assms
    by (auto simp: on_succeeded_def onPrepareBuildSucceeded_def phase_status_def resting_def
        intro!: advance_outcome[of i w w])
next
  case OnStartInstance
  let ?w = "fst (InstanceRepo_UpdateStatus now (i\<lparr>gi_Status := StatusRunning\<rparr>) w)"
  have n: "StatusRunning \<in> next_status (gi_Status i)"
    using assms OnStartInstance by (simp add: phase_status_def)
  note q = quiet_status[of "i\<lparr>gi_Status := StatusRunning\<rparr>" i w now, simplified, OF n]
  have "outcome i l w ?w"
    by (rule rest_outcome[OF conjunct1[OF q] assms(2) n]) (use q in \<open>simp_all add: resting_def\<close>)
  then show ?thesis using OnStartInstance by (simp add: on_succeeded_def onStartInstanceSucceeded_def)
next
  case OnCleanInstance
  then show ?thesis using assms by (simp add: on_succeeded_def phase_status_def onClean_outcome)
qed (use assms in \<open>auto simp: on_succeeded_def onRestoreSnapshotSucceeded_def onStopInstanceSucceeded_def
       phase_status_def resting_def intro!: move_on_outcome\<close>)

lemma phase_remote:
  "gi_Status i = phase_status ph \<Longrightarrow> remote_phase (gi_Status i) \<and> Failed \<in> next_status (gi_Status i)"
  by (cases ph) (auto simp: phase_status_def remote_phase_def)

lemma operation_failed_outcome:
  assumes "gi_Status i = phase_status ph" "l \<noteq> AtRest"
  shows "outcome i l w (operation_failed cfg now i d w)"
proof -
  note r = phase_remote[OF assms(1)]
  have i: "same_identity i i" by (simp add: same_identity_def)
  note f = failed_outcome[OF i conjunct2[OF r] assms(2)]
  show ?thesis
  proof (cases d)
    case None
    then show ?thesis using f by (simp add: operation_failed_def)
  next
    case (Some e)
    obtain w1 again where t: "retryOperation i w = (w1, again)" by fastforce
    obtain w2 rej where q: "RequestDispatch i w1 = (w2, rej)" by fastforce
    show ?thesis
      using Some t q f[where cfg = cfg and w = w] retry_outcome[of i w w1 l] gave_up_outcome[of i w w1 i l cfg now] i r assms(2)
      by (cases again) (auto simp: operation_failed_def Let_def)
  qed
qed

lemma PollingResult_outcome:
  assumes "gi_Status i = phase_status ph"
  shows "outcome i Polled w (PollingResult cfg now i ph as w)"
proof (induction as)
  case Nil
  show ?case using failed_outcome[of i i Polled] phase_remote[OF assms] by (simp add: same_identity_def)
next
  case (Cons a as)
  have f: "outcome i Polled w (FailedInstance cfg now i w)"
    using phase_remote[OF assms] by (auto intro: failed_outcome simp: same_identity_def)
  have s: "outcome i Polled w (on_succeeded cfg now ph i (clearRetryCount (gi_ID i) w))"
    by (rule outcome_cleared[OF on_succeeded_outcome[OF assms]]) (simp_all add: on_succeeded_retry)
  show ?case using Cons.IH f s operation_failed_outcome[OF assms, of Polled w cfg now]
    by (auto split: sum.split OperationStatus.split)
qed

lemma pollCacheReady_outcome:
  assumes "gi_Status i = StatusCacheWarming"
  shows "outcome i Polled w (fst (pollCacheReady cfg i dl rt as w))"
proof (induction as arbitrary: rt)
  case Nil
  show ?case using assms by (auto intro!: failed_outcome simp: same_identity_def)
next
  case (Cons a as)
  obtain now r where a: "a = (now, r)" by fastforce
  have ih: "outcome i Polled w w1" if "pollCacheReady cfg i dl t as w = (w1, ts)" for t w1 ts
    using Cons.IH[of t] that by simp
  have f: "outcome i Polled w (FailedInstance cfg now (i\<lparr>gi_FailReason := x\<rparr>) w)" for x
    using assms by (auto intro!: failed_outcome simp: same_identity_def)
  let ?j = "i\<lparr>gi_Status := StatusPreparingBuild\<rparr>"
  obtain w1 j e where s: "InstanceRepo_Save now ?j w = (w1, j, e)" by (cases "InstanceRepo_Save now ?j w")
  have "quiet i w w1" "j = ?j\<lparr>gi_UpdateTime := now\<rparr>"
    using quiet_save[of i ?j w now] s assms
    by (auto simp: same_identity_def InstanceRepo_Save_def Let_def split: option.splits if_splits)
  then have "outcome i Polled w (onCacheWarmReady now i w)"
    using assms s by (auto simp: onCacheWarmReady_def resting_def intro!: advance_outcome)
  then show ?case using ih f Cons.IH
    by (auto simp: a Let_def split: sum.split option.split GameCacheStatus.split prod.split)
qed

section \<open>The model's scheduler\<close>

lemma same_rows_quiet: "same_rows w w' \<Longrightarrow> quiet i w w'"
proof -
  assume s: "same_rows w w'"
  then have "sched.more w' = sched.more w" by (simp add: same_rows_def)
  then have "d_queue w' = d_queue w \<and> d_overflow w' = d_overflow w \<and> d_pollers w' = d_pollers w \<and> d_retry w' = d_retry w"
    by (cases w; cases w') simp
  then show ?thesis using s by (intro quiet_same_instances) (auto simp: same_rows_def)
qed

lemma attempt_quiet:
  assumes "schedule_attempt cfg (alone_env now gen) k i game config branch build req w = (w', r)"
    and "gi_Status i = StatusScheduling"
  shows "quiet i w w'"
  using assms(1)
proof (cases rule: attempt_cases)
  case unchanged
  then show ?thesis using same_rows_quiet by (simp add: alone_env_def)
next
  case lost
  then show ?thesis by (simp add: alone_env_def)
next
  case (reserved c ms w1 cs)
  have "quiet i w w1" using reserved(4)
  proof (rule TryReserve_cases)
    fix node ports
    let ?req = "reserve_request cfg i c req ms"
    assume w1: "w1 = en_before_reserve (alone_env now gen) k (en_before_load (alone_env now gen) k w)
       \<lparr>t_nodes := tbl_upd (\<lambda>n. node_key n = rt_NodeID ?req) (add_reserved (rt_Req ?req))
           (t_nodes (en_before_reserve (alone_env now gen) k (en_before_load (alone_env now gen) k w))),
        t_ports := ports,
        t_instances := bind_instance (en_now (alone_env now gen) k) ?req
           (t_instances (en_before_reserve (alone_env now gen) k (en_before_load (alone_env now gen) k w)))\<rparr>"
    let ?f = "\<lambda>r. r\<lparr>gi_NodeAgentID := Some (rt_NodeAgentID ?req), gi_Status := rt_NewStatus ?req, gi_UpdateTime := now\<rparr>"
    have "own_rows i (next_status (gi_Status i)) w
        (w\<lparr>t_instances := tbl_upd (\<lambda>g. gi_ID g = gi_ID i) ?f (t_instances w)\<rparr>)"
      by (rule own_rows_upd) (auto simp: assms(2) reserve_request_def)
    then show ?thesis
      by (simp add: w1 quiet_def own_rows_def waiting_def alone_env_def bind_instance_def reserve_request_def)
  qed
  then show ?thesis using quiet_trans same_rows_quiet reserved(5) by blast
qed

lemma loop_quiet:
  assumes "gi_Status i = StatusScheduling"
  shows "quiet i w (fst (schedule_loop cfg (alone_env now gen) ks i game config branch build req w))"
proof (induction ks arbitrary: w)
  case Nil
  show ?case by (auto intro: same_rows_quiet simp: same_rows_def)
next
  case (Cons k ks)
  obtain w1 r where a: "schedule_attempt cfg (alone_env now gen) k i game config branch build req w = (w1, r)"
    by fastforce
  have "quiet i w w1" by (rule attempt_quiet[OF a assms])
  then show ?case using Cons.IH[of w1] a by (cases r) (auto intro: quiet_trans)
qed

lemma Schedule_quiet:
  assumes "gi_Status i = StatusScheduling"
  shows "quiet i w (fst (Schedule cfg (alone_env now gen) i w))"
proof -
  have "quiet i w (record_outcome cfg x w)" "quiet i w (publish t ty a b d (record_outcome cfg x w))" for x t ty a b d
    by (auto intro: same_rows_quiet simp: same_rows_def)
  then show ?thesis using loop_quiet[OF assms]
    by (auto simp: Schedule_def Let_def split: sum.split)
qed

interpretation alone_life: lifecycle_run "alone sc now gen cfg" for sc now gen cfg
  by unfold_locales (simp_all add: alone_def with_scheduler_def Schedule_quiet)

end
