(* ===== verification/Schedule_Examples.thy ===== *)
theory Schedule_Examples
  imports Schedule_Exits
begin

text \<open>The theorems of the scheduler on the example cluster: one healthy node with room, cold cache.\<close>

definition ex_cfg :: sched_cfg where
  "ex_cfg = \<lparr> sc_weights = DefaultScoreWeights, sc_utilizationTarget = 1, sc_regionForce = False,
     sc_reservationRetry = 1, sc_historyWindow = 900, sc_healthStaleWindow = 30,
     sc_cacheSpillWatermark = 1, sc_cacheUpdateBufferRatio = 0, sc_cacheProvider = view_provider [],
     sc_statRepo = True \<rparr>"

definition ex_sched :: sched where
  "ex_sched = \<lparr> t_nodes = [ex_node], t_agents = [ex_agent], t_instances = [ex_instance],
     t_queue = [], t_ports = [], t_creds = [], t_games = [ex_game], t_configs = [ex_config],
     t_branches = [ex_branch], t_platform = [], t_samples = [], t_stats = [], t_events = [],
     db_fault = (\<lambda>_. None), ctl_bus = None, sch_attempts = [] \<rparr>"

definition ex_env :: "sched sched_env" where
  "ex_env = \<lparr> en_now = (\<lambda>_. 0), en_gen = (\<lambda>_. pc_gen ex_ctx), en_before_load = (\<lambda>_ w. w),
     en_before_reserve = (\<lambda>_ w. w) \<rparr>"

lemma ex_sched_simps [simp]:
  "t_nodes ex_sched = [ex_node]" "t_agents ex_sched = [ex_agent]" "t_instances ex_sched = [ex_instance]"
  "t_queue ex_sched = []" "t_ports ex_sched = []" "t_creds ex_sched = []" "t_games ex_sched = [ex_game]"
  "t_configs ex_sched = [ex_config]" "t_branches ex_sched = [ex_branch]" "t_samples ex_sched = []"
  "t_stats ex_sched = []" "db_fault ex_sched = (\<lambda>_. None)" "ctl_bus ex_sched = None"
  "sch_attempts ex_sched = []"
  by (simp_all add: ex_sched_def)

lemma ex_env_simps [simp]:
  "en_now ex_env k = 0" "en_gen ex_env k = pc_gen ex_ctx" "en_before_load ex_env k = (\<lambda>w. w)"
  "en_before_reserve ex_env k = (\<lambda>w. w)"
  by (simp_all add: ex_env_def)

lemma ex_cfg_simps [simp]:
  "sc_utilizationTarget ex_cfg = 1" "sc_healthStaleWindow ex_cfg = 30" "sc_historyWindow ex_cfg = 900"
  "sc_reservationRetry ex_cfg = 1" "sc_cacheProvider ex_cfg = view_provider []"
  "sc_regionForce ex_cfg = False" "sc_cacheUpdateBufferRatio ex_cfg = 0"
  by (simp_all add: ex_cfg_def)

lemma ex_reads:
  "GameRepo_GetByID (gi_GameID ex_instance) ex_sched = Inr ex_game"
  "ConfigRepo_GetByID (gm_ContainerConfigID ex_game) ex_sched = Inr ex_config"
  "resolveBranch ex_instance ex_sched = ''public''"
  "branch_build ex_instance ''public'' ex_sched = 7"
  by (simp_all add: GameRepo_GetByID_def ConfigRepo_GetByID_def resolveBranch_def branch_build_def
      BranchRepo_ListByGame_def BranchRepo_GetByGameAndBranch_def steamPublicBranchName_def table_simps guard_call_def found_def)

lemma ex_request: "resolveRequest ex_instance ex_config = ex_req"
  by (simp add: resolveRequest_def default_request_def config_request_def ex_req_def)

definition ex_cand :: NodeCandidate where
  "ex_cand = make_candidate 1 (0 - 900) ex_agent ex_node ex_sched"

lemma ex_load: "loadCandidates 1 900 0 ex_sched = Inr [ex_cand]"
  by (simp add: loadCandidates_def AgentRepo_ListAll_def NodeRepo_ListAll_def table_simps guard_call_def ex_cand_def)

lemma ex_cand_simps [simp]:
  "nc_Agent ex_cand = ex_agent" "nc_Node ex_cand = ex_node" "nc_Capacity ex_cand = ComputeCapacity ex_node 1"
  "nc_Reasons ex_cand = []"
  by (simp_all add: ex_cand_def make_candidate_simps)

lemma ex_satisfied: "ResourcesSatisfied (ComputeCapacity ex_node 1) ex_req"
  by (simp add: ResourcesSatisfied_def ComputeCapacity_def cpuCapacityMilli_def memoryCapacityBytes_def
      diskCapacityBytes_def mebibyte_def wrap64_id in_i64_def capacityLimit_one ex_req_def)

lemma ex_plan: "PlanPorts (plan_ctx_for (pc_gen ex_ctx) ex_agent ex_instance) game ex_sched =
    Inr [mk_mapping ex_ctx 0 50100 26900 TCP False]" if "game = ex_game"
proof -
  have c: "plan_ctx_for (pc_gen ex_ctx) ex_agent ex_instance = ex_ctx"
    by (simp add: plan_ctx_for_def ex_ctx_def)
  have "planPortsNAT ex_ctx ex_config ex_sched = Inr [mk_mapping ex_ctx 0 50100 26900 TCP False]"
    by (simp add: planPortsNAT_def PortRepo_ListByNodeAgentId_def guard_call_def
        ex_requirements choose_host_port_def allocateHostPort_first portInUse_def usedHostPorts_def)
  then show ?thesis using that
    by (simp add: c PlanPorts_def ConfigRepo_GetByID_def guard_call_def tbl_find_Cons found_def)
qed

lemma ex_eligible: "eligible_for ex_cfg 0 (pc_gen ex_ctx) ex_instance ex_game ''public'' ex_req ex_sched ex_cand"
  by (simp add: eligible_for_def heartbeat_fresh_def ex_satisfied ports_plannable_def ex_plan cache_fits_def
      view_provider_def BranchSizeBytes_def Let_def)

definition ex_chosen :: NodeCandidate where
  "ex_chosen = ex_cand\<lparr>nc_CacheState := CacheStateOf [] ''a1'' ''g1'' ''public''\<rparr>"

lemma ex_filter: "filter_step ex_cfg 0 (pc_gen ex_ctx) ex_instance ex_game ''public'' ex_req ex_sched [ex_cand] =
    [(ex_chosen, True)]"
proof -
  let ?a = "applyConstraints ex_cfg 0 (pc_gen ex_ctx) ex_instance ex_game ''public'' ex_req ex_sched ex_cand"
  have "snd ?a" using ex_eligible by (simp add: eligible_iff)
  then have "?a = (fst ?a, True)" by (simp add: prod_eq_iff)
  from applyConstraints_True[OF this] this have "?a = (ex_chosen, True)"
    by (simp add: ex_chosen_def view_provider_def)
  then show ?thesis by (simp add: filter_step_def)
qed

definition ex_reservation :: ReserveTxRequest where
  "ex_reservation = reserve_request ex_cfg ex_instance ex_chosen ex_req [mk_mapping ex_ctx 0 50100 26900 TCP False]"

lemma ex_chosen_simps [simp]:
  "nc_Agent ex_chosen = ex_agent" "nc_Node ex_chosen = ex_node" "is_warm (nc_CacheState ex_chosen) = False"
  by (simp_all add: ex_chosen_def is_warm_def CacheStateOf_def snap_entry_def table_simps)

lemma ex_reservation_simps [simp]:
  "rt_NodeID ex_reservation = ''1''" "rt_InstanceID ex_reservation = ''i1''"
  "rt_NodeAgentID ex_reservation = ''a1''" "rt_Req ex_reservation = ex_req"
  "rt_PortMappings ex_reservation = [mk_mapping ex_ctx 0 50100 26900 TCP False]"
  "rt_NewStatus ex_reservation = StatusCacheWarming" "rt_UtilizationTarget ex_reservation = 1"
  by (simp_all add: ex_reservation_def reserve_request_def)

lemma ex_reserved: "snd (TryReserve 0 ex_reservation ex_sched) = None"
proof -
  have fits: "reserved_fits (add_reserved ex_req ex_node)"
    by (simp add: reserved_fits_def add_reserved_def ex_req_def ex_node_def in_i32_def in_i64_def)
  have uq: "uq_subscription_single_active (bind_instance 0 ex_reservation [ex_instance])"
    by (simp add: uq_subscription_single_active_def bind_instance_def tbl_upd_def in_active_index_def)
  have n: "normTarget 1 = 1" by (simp add: normTarget_def)
  have "snd (reserve_tx 1 0 ex_reservation ex_sched) = None"
    using fits uq ex_not_exceeds
    by (simp add: reserve_tx_def Transaction_def reserve_body_def and_then_def update_reserved_def update_bound_def
        tbl_find_Cons port_taken_def Let_def)
  then show ?thesis by (auto simp: TryReserve_tx n split: prod.splits option.splits)
qed

lemma ex_attempt:
  "\<exists>w' res. schedule_attempt ex_cfg ex_env k ex_instance ex_game ex_config ''public'' 7 ex_req ex_sched =
     (w', Some (Inr res)) \<and> sr_Outcome res = OutcomeScheduled"
proof -
  have best: "pickBest ex_cfg ex_instance ex_config [ex_chosen] =
      scored ex_cfg ex_instance ex_config (freqRange [ex_chosen]) ex_chosen"
    by (simp add: pickBest_def)
  have rr: "reserve_request ex_cfg ex_instance (scored ex_cfg ex_instance ex_config fr ex_chosen) ex_req ms =
      reserve_request ex_cfg ex_instance ex_chosen ex_req ms" for fr ms
    by (simp add: reserve_request_def)
  obtain w1 where "TryReserve 0 ex_reservation ex_sched = (w1, None)"
    using ex_reserved by (metis prod.collapse)
  then show ?thesis
    by (simp add: schedule_attempt_def Let_def ex_load ex_filter eligible_of_def best ex_plan rr
        ex_reservation_def[symmetric] scheduled_result_def)
qed

lemma ex_Schedule:
  "\<exists>w' res. Schedule ex_cfg ex_env ex_instance ex_sched = (w', Inr res) \<and> sr_Outcome res = OutcomeScheduled"
  using ex_attempt[of 0]
  by (auto simp: Schedule_def ex_reads[simplified] ex_request Let_def upt_conv_Cons simp del: upt_Suc)

section \<open>Witnesses\<close>

theorem pickBest_optimal_witness:
  "nc_Agent (pickBest ex_cfg ex_instance ex_config [ex_chosen]) = ex_agent"
  using pickBest_optimal[of "[ex_chosen]" ex_chosen ex_cfg ex_instance ex_config] by simp

lemma ex_cluster_ok: "cluster_ok 1 ex_sched"
  by (simp add: cluster_ok_def nodes_within_def within_limits_def tbl_ok_def ports_exclusive_def
      capacityLimit_one cpuCapacityMilli_def memoryCapacityBytes_def diskCapacityBytes_def mebibyte_def
      wrap64_id in_i64_def)

theorem Schedule_keeps_cluster_ok_witness:
  "cluster_ok 1 (fst (Schedule ex_cfg ex_env ex_instance ex_sched))"
  using Schedule_keeps_cluster_ok[of ex_cfg ex_sched ex_env ex_instance] ex_cluster_ok by simp

theorem Schedule_scheduled_sound_witness:
  "\<exists>w' res. Schedule ex_cfg ex_env ex_instance ex_sched = (w', Inr res) \<and>
     (\<exists>n. n \<in> set (t_nodes w') \<and> within_limits 1 n)"
proof -
  obtain w' res where r: "Schedule ex_cfg ex_env ex_instance ex_sched = (w', Inr res)"
    "sr_Outcome res = OutcomeScheduled" using ex_Schedule by blast
  from Schedule_scheduled_sound[OF r] obtain key n where
    "tbl_find node_key key (t_nodes w') = Some n" "within_limits (sc_utilizationTarget ex_cfg) n"
    unfolding Let_def by blast
  with tbl_find_SomeD[OF this(1)] show ?thesis using r(1) by auto
qed




theorem region_force_not_enforced_witness:
  "schedule_attempt (ex_cfg\<lparr>sc_regionForce := True\<rparr>) ex_env 0 ex_instance ex_game ex_config ''public'' 7 ex_req ex_sched =
   schedule_attempt (ex_cfg\<lparr>sc_regionForce := False\<rparr>) ex_env 0 ex_instance ex_game ex_config ''public'' 7 ex_req ex_sched"
  by (rule region_force_not_enforced[of ex_cfg ex_env 0 ex_sched "[ex_cand]" ex_cand])
     (simp_all add: ex_load ex_eligible)

theorem refusal_recoverable_iff_witness:
  "\<not> isResourceOnlyReasons (nc_Reasons (fst (applyConstraints ex_cfg 0 (pc_gen ex_ctx) ex_instance ex_game
      ''public'' ex_req ex_sched (ex_cand\<lparr>nc_Agent := ex_agent\<lparr>na_HealthStatus := HealthUnhealthy\<rparr>\<rparr>))))"
  by (subst refusal_recoverable_iff) simp_all

theorem Preview_predicts_choice_witness:
  "\<exists>p. Preview ex_cfg 0 (pc_gen ex_ctx) ex_instance ex_sched = Inr p \<and> pr_Outcome p = OutcomeScheduled"
proof -
  obtain w' res where r: "schedule_attempt ex_cfg ex_env 0 ex_instance ex_game ex_config ''public'' 7 ex_req ex_sched =
     (w', Some (Inr res))" "sr_Outcome res = OutcomeScheduled" using ex_attempt by blast
  show ?thesis
    using Preview_predicts_choice[of ex_instance ex_sched ex_game ex_config ex_env 0 ex_sched ex_cfg 7 w' res]
      r ex_reads[simplified] ex_request by auto
qed

theorem Preview_empty_cluster_witness:
  "\<exists>p. Preview ex_cfg 0 (pc_gen ex_ctx) ex_instance (ex_sched\<lparr>t_agents := []\<rparr>) = Inr p \<and>
    pr_Outcome p = OutcomeQueued"
proof -
  have "GameRepo_GetByID (gi_GameID ex_instance) (ex_sched\<lparr>t_agents := []\<rparr>) = Inr ex_game"
    "ConfigRepo_GetByID (gm_ContainerConfigID ex_game) (ex_sched\<lparr>t_agents := []\<rparr>) = Inr ex_config"
    "loadCandidates 1 900 0 (ex_sched\<lparr>t_agents := []\<rparr>) = Inr []"
    by (simp_all add: GameRepo_GetByID_def ConfigRepo_GetByID_def loadCandidates_def AgentRepo_ListAll_def
      NodeRepo_ListAll_def guard_call_def table_simps found_def)
  from Preview_empty_cluster[OF this(1,2), of ex_cfg ex_env] this(3) show ?thesis by auto
qed

definition ex_queued :: sched where
  "ex_queued = ex_sched\<lparr>t_instances := [ex_instance\<lparr>gi_Status := StatusQueued\<rparr>],
     t_queue := [\<lparr> sq_InstanceID = ''i1'', sq_Priority = 100, sq_Reason = [], sq_Attempts = 1,
       sq_WakeAt = 5, sq_QueuedAt = 0, sq_TimeoutAt = 1000 \<rparr>]\<rparr>"

theorem CancelQueued_spec_witness:
  "tbl_find sq_InstanceID ''i1'' (t_queue (fst (CancelQueued 9 ''i1'' ex_queued))) = None"
proof -
  have "snd (CancelQueued 9 ''i1'' ex_queued) = None"
    by (simp add: CancelQueued_def ex_queued_def InstanceRepo_GetByID_def guard_call_def table_simps found_def
        QM_Cancel_def QueueRepo_Dequeue_def guard_write_def InstanceRepo_Save_def Let_def tbl_put_def tbl_upd_def
        uq_subscription_single_active_def in_active_index_def)
  then show ?thesis using CancelQueued_spec[of 9 "''i1''" ex_queued] by (metis prod.collapse)
qed

end
