(* ===== verification/Dispatch_Properties.thy ===== *)
theory Dispatch_Properties
  imports Dispatch_Refinement Schedule_Examples
begin

text \<open>The properties of the dispatcher and its pollers, with an example state.\<close>

section \<open>An example\<close>

definition ex_disp :: disp where
  "ex_disp = \<lparr> t_nodes = [ex_node], t_agents = [ex_agent], t_instances = [ex_instance],
     t_queue = [], t_ports = [], t_creds = [], t_games = [ex_game], t_configs = [ex_config],
     t_branches = [ex_branch], t_platform = [], t_samples = [], t_stats = [], t_events = [],
     db_fault = (\<lambda>_. None), ctl_bus = None, sch_attempts = [], d_queue = [], d_overflow = [], d_retry = [],
     d_offline = [], d_pollers = [], d_wake = False \<rparr>"

lemma ex_disp_simps [simp]:
  "t_nodes ex_disp = [ex_node]" "t_instances ex_disp = [ex_instance]" "t_queue ex_disp = []" "t_creds ex_disp = []"
  "db_fault ex_disp = (\<lambda>_. None)" "ctl_bus ex_disp = None" "d_queue ex_disp = []" "d_overflow ex_disp = []"
  "d_retry ex_disp = []" "d_offline ex_disp = []" "d_pollers ex_disp = []" "t_agents ex_disp = [ex_agent]"
  "t_ports ex_disp = []"
  by (simp_all add: ex_disp_def)

definition ex_dcfg :: "disp disp_cfg" where
  "ex_dcfg = \<lparr> dc_schedule = (\<lambda>i w. (w, Inl (Errorf []))), dc_queueManager = NewQueueManager 0 0 0,
     dc_credentialUC = True, dc_platformRepo = False, dc_releasedHook = False, dc_cred_intf = (\<lambda>w. w),
     dc_fencingTimeout = 180 \<rparr>"

definition ex_remote :: remote where
  "ex_remote = \<lparr> rm_connect = (\<lambda>a addr. None), rm_CacheGame = (\<lambda>g b c. None),
     rm_PrepareGameBuild = (\<lambda>b. Inr ''op''), rm_GetLatestSnapshot = (\<lambda>i. Inr None),
     rm_RestoreSnapshot = (\<lambda>i s. Inr ''op''), rm_GetGameBuild = (\<lambda>b. Inr None),
     rm_StartInstance = (\<lambda>s. Inr ''op''), rm_StopInstance = (\<lambda>i. Inr ''op''),
     rm_CleanInstance = (\<lambda>i. Inr ''op'') \<rparr>"

lemma ex_Dispatch_pending:
  "Dispatch cfg rm 5 (ex_instance\<lparr>gi_Status := StatusPending\<rparr>) ex_disp =
     ex_disp\<lparr>t_instances := [ex_instance\<lparr>gi_Status := StatusScheduling, gi_UpdateTime := 5\<rparr>],
             d_queue := [ex_instance\<lparr>gi_Status := StatusScheduling\<rparr>]\<rparr>"
  by (simp add: Dispatch_def move_on_def InstanceRepo_UpdateStatus_def tbl_upd_def RequestDispatch_def
      queue_capacity_def uq_subscription_single_active_def in_active_index_def Let_def)

lemma ex_slot_free [simp]: "slot_free (ex_instance\<lparr>gi_Status := st\<rparr>) ex_disp"
  by (simp add: slot_free_def tbl_ok_def uq_subscription_single_active_def)

section \<open>Refinement, liveness, termination\<close>

text \<open>C4: a dispatch refines the life cycle of an instance: it moves the object by one step of the
  machine (an allowed next status, the start of its remote operation, a counted retry, or a resting
  status), hands it over at most once, and changes no row of another instance.\<close>

theorem Dispatch_refines_lifecycle: "outcome i Waiting w (Dispatch (alone sc now gen cfg) rm t i w)"
  by (rule alone_life.Dispatch_outcome)

text \<open>C12: so does a poller of an operation, whatever it is answered until its deadline.\<close>

theorem PollingResult_refines_lifecycle:
  assumes "gi_Status i = phase_status ph"
  shows "outcome i Polled w (PollingResult cfg now i ph as w)"
  by (rule PollingResult_outcome[OF assms])

theorem PollingResult_refines_lifecycle_witness:
  "outcome (ex_instance\<lparr>gi_Status := StatusStopping\<rparr>) Polled ex_disp
     (PollingResult ex_dcfg 5 (ex_instance\<lparr>gi_Status := StatusStopping\<rparr>) OnStopInstance
        [Inr \<lparr>op_Status = OP_SUCCEEDED, op_Error = None\<rparr>] ex_disp)"
  by (rule PollingResult_refines_lifecycle) (simp add: phase_status_def)

text \<open>C5: no dispatch loses an instance while its scheduler runs undisturbed: the object is queued again with its
  identity, or watched by a new poller; or neither happens, and then its row rests (queued, running, stopped
  or failed) if the data base takes the write: no fault on it, and no other instance of its subscription in
  the table.  Where that condition fails the error is dropped and nobody is left to go on with the row.\<close>

theorem Dispatch_loses_no_instance:
  assumes "w' = Dispatch (alone sc now gen cfg) rm t i w"
  shows "(\<exists>j. waiting w' = add_mset j (waiting w) \<and> gi_ID j = gi_ID i \<and> d_pollers w' = d_pollers w) \<or>
    (\<exists>p. d_pollers w' = d_pollers w @ [p] \<and> poller_object p = i \<and> waiting w' = waiting w) \<or>
    (waiting w' = waiting w \<and> d_pollers w' = d_pollers w \<and>
     (slot_free i w \<longrightarrow> (\<forall>g \<in> set (t_instances w'). gi_ID g = gi_ID i \<longrightarrow>
        gi_Status g \<in> {StatusQueued, StatusRunning, StatusStopped, Failed})))"
proof -
  have "outcome i Waiting w w'" unfolding assms by (rule alone_life.Dispatch_outcome)
  then obtain s' l' where l: "lifecycle (gi_Status i, retry_count (gi_ID i) w, Waiting) (s', retry_count (gi_ID i) w', l')"
    and p: "placed i w w' s' l'" by (auto simp: outcome_def)
  from l have "l' = AtRest \<Longrightarrow> s' \<in> resting" by (cases rule: lifecycle_E) auto
  then show ?thesis using p
    by (cases l') (auto simp: placed_def resting_def same_identity_def)
qed

theorem Dispatch_loses_no_instance_witness:
  "\<exists>w'. w' = Dispatch (alone ex_cfg 0 (\<lambda>_ _. []) ex_dcfg) ex_remote 5 (ex_instance\<lparr>gi_Status := StatusPending\<rparr>) ex_disp \<and>
    (\<exists>j. waiting w' = {#j#} \<and> gi_ID j = ''i1'')"
proof -
  let ?i = "ex_instance\<lparr>gi_Status := StatusPending\<rparr>"
  let ?w = "Dispatch (alone ex_cfg 0 (\<lambda>_ _. []) ex_dcfg) ex_remote 5 ?i ex_disp"
  note w = ex_Dispatch_pending[of "alone ex_cfg 0 (\<lambda>_ _. []) ex_dcfg" ex_remote]
  show ?thesis using Dispatch_loses_no_instance[OF refl, where sc = ex_cfg and now = 0
      and gen = "\<lambda>_ _. []" and cfg = ex_dcfg and rm = ex_remote and t = 5 and i = ?i and w = ex_disp]
    unfolding w by (simp add: waiting_def)
qed

text \<open>How an object comes from one hand to the next: where it landed, and the retry counter it left.\<close>

definition landed :: "'a disp_scheme \<Rightarrow> 'a disp_scheme \<Rightarrow> GameInstance \<Rightarrow> place \<Rightarrow> bool" where
  "landed w w' j l \<longleftrightarrow> (l = Waiting \<and> waiting w' = add_mset j (waiting w)) \<or>
     (l = Polled \<and> (\<exists>p. d_pollers w' = d_pollers w @ [p] \<and> poller_object p = j))"

inductive hop :: "sched_cfg \<Rightarrow> GameInstance \<times> int \<times> place \<Rightarrow> GameInstance \<times> int \<times> place \<Rightarrow> bool" for sc where
  dispatched: "w' = Dispatch (alone sc now gen cfg) rm t i (w :: disp) \<Longrightarrow> landed w w' j l
    \<Longrightarrow> hop sc (i, retry_count (gi_ID i) w, Waiting) (j, retry_count (gi_ID i) w', l)"
| polled: "gi_Status i = phase_status ph \<Longrightarrow> w' = PollingResult (cfg :: disp disp_cfg) t i ph as (w :: disp)
    \<Longrightarrow> landed w w' j l \<Longrightarrow> hop sc (i, retry_count (gi_ID i) w, Polled) (j, retry_count (gi_ID i) w', l)"
| cached: "gi_Status i = StatusCacheWarming \<Longrightarrow> w' = fst (pollCacheReady (cfg :: disp disp_cfg) i dl rt as (w :: disp))
    \<Longrightarrow> landed w w' j l \<Longrightarrow> hop sc (i, retry_count (gi_ID i) w, Polled) (j, retry_count (gi_ID i) w', l)"

lemma landed_outcome:
  assumes "outcome i k w w'" "landed w w' j l"
  shows "lifecycle (gi_Status i, retry_count (gi_ID i) w, k) (gi_Status j, retry_count (gi_ID i) w', l)"
proof -
  obtain s' l' where l: "lifecycle (gi_Status i, retry_count (gi_ID i) w, k) (s', retry_count (gi_ID i) w', l')"
    and p: "placed i w w' s' l'" using assms(1) by (auto simp: outcome_def)
  have "l' = Polled \<Longrightarrow> s' = gi_Status i" using l by (cases rule: lifecycle_E) auto
  then have "s' = gi_Status j \<and> l' = l"
    using p assms(2) by (cases l') (auto simp: placed_def landed_def)
  then show ?thesis using l by simp
qed

lemma hop_lifecycle:
  "hop sc x y \<Longrightarrow> lifecycle (gi_Status (fst x), snd x) (gi_Status (fst y), snd y)"
proof (induction rule: hop.induct)
  case (dispatched w' now gen cfg rm t i w j l)
  then show ?case using landed_outcome[OF alone_life.Dispatch_outcome] by fastforce
next
  case (polled i ph w' cfg t as w j l)
  then show ?case using landed_outcome[OF PollingResult_outcome] by fastforce
next
  case (cached i w' cfg dl rt as w j l)
  then show ?case using landed_outcome[OF pollCacheReady_outcome] by fastforce
qed

lemma hops_lifecycle:
  "(hop sc ^^ n) x y \<Longrightarrow> (lifecycle ^^ n) (gi_Status (fst x), snd x) (gi_Status (fst y), snd y)"
proof (induction n arbitrary: y)
  case (Suc n)
  then show ?case using hop_lifecycle by (metis relpowp_Suc_E relpowp_Suc_I)
qed simp

text \<open>C6: no object travels for ever: from hand to hand (dispatches, pollers, retries, whatever the
  remote services answer and whatever happens to other instances in between) it is passed on at
  most 64 times before it rests.\<close>

theorem journey_bounded:
  assumes "(hop sc ^^ n) (i, r, l) y" and "0 \<le> r" "r \<le> OPERATION_RETRY_MAX"
  shows "n \<le> 64"
proof -
  have c: "counter_ok (gi_Status i, r, l)" using assms(2,3) by (simp add: counter_ok_def)
  show ?thesis
    using lifecycle_steps[OF hops_lifecycle[OF assms(1)]] work_bound c by fastforce
qed

theorem journey_bounded_witness:
  "\<exists>y. (hop ex_cfg ^^ 1) (ex_instance\<lparr>gi_Status := StatusPending\<rparr>, 0, Waiting) y \<and> (1 :: nat) \<le> 64"
proof -
  let ?i = "ex_instance\<lparr>gi_Status := StatusPending\<rparr>"
  let ?w = "Dispatch (alone ex_cfg 0 (\<lambda>_ _. []) ex_dcfg) ex_remote 5 ?i ex_disp"
  note w = ex_Dispatch_pending[of "alone ex_cfg 0 (\<lambda>_ _. []) ex_dcfg" ex_remote]
  have "landed ex_disp ?w (ex_instance\<lparr>gi_Status := StatusScheduling\<rparr>) Waiting"
    unfolding w by (simp add: landed_def waiting_def)
  from hop.dispatched[OF refl this] have h:
    "(hop ex_cfg ^^ 1) (?i, 0, Waiting) (ex_instance\<lparr>gi_Status := StatusScheduling\<rparr>, 0, Waiting)"
    unfolding w by (simp add: retry_count_def eq_OO)
  show ?thesis using journey_bounded[OF h] h by (auto simp: OPERATION_RETRY_MAX_def)
qed

section \<open>Failure\<close>

lemma FailedInstance_nodes:
  "t_nodes (FailedInstance cfg now i w) =
     t_nodes (if gi_NodeAgentID i \<noteq> None \<and> gi_ResourceReq i \<noteq> None \<and> gi_Status i \<noteq> StatusScheduling
              then releaseReservation i (release_credentials cfg now (gi_ID i) w) else w)"
proof -
  define u where "u = (if gi_NodeAgentID i \<noteq> None \<and> gi_ResourceReq i \<noteq> None \<and> gi_Status i \<noteq> StatusScheduling
    then releaseReservation i (release_credentials cfg now (gi_ID i) w) else release_credentials cfg now (gi_ID i) w)"
  have "FailedInstance cfg now i w = publish now EventInstanceFailed (gi_ID i)
      (derefStr (gi_NodeAgentID (failed_object i))) (gi_FailReason (failed_object i))
      (fst (InstanceRepo_Save now (failed_object i) u))"
    by (simp add: FailedInstance_def Let_def u_def split: prod.split)
  moreover have "t_nodes (fst (InstanceRepo_Save now (failed_object i) u)) = t_nodes u"
    by (simp add: InstanceRepo_Save_def Let_def split: option.split)
  moreover have "t_nodes (release_credentials cfg now (gi_ID i) w) = t_nodes w"
    using release_credentials_effect[of cfg now "gi_ID i" w] by auto
  ultimately show ?thesis by (simp add: u_def)
qed

lemma FailedInstance_frame:
  fixes w :: "'a disp_scheme"
  assumes "\<forall>c. db_fault w c = None"
  shows "t_agents (FailedInstance cfg now i w) = t_agents w" and "\<forall>c. db_fault (FailedInstance cfg now i w) c = None"
    and "InstanceRepo_GetByID (gi_ID i) (FailedInstance cfg now i w) =
      (if uq_subscription_single_active (tbl_put gi_ID (failed_object i\<lparr>gi_UpdateTime := now\<rparr>) (t_instances w))
       then Inr (failed_object i\<lparr>gi_UpdateTime := now\<rparr>) else InstanceRepo_GetByID (gi_ID i) w)"
proof -
  obtain X where c: "release_credentials cfg now (gi_ID i) w = w\<lparr>t_creds := X\<rparr>" using release_credentials_effect by blast
  obtain Y where "releaseReservation i (w\<lparr>t_creds := X\<rparr>) = w\<lparr>t_creds := X, t_nodes := Y\<rparr>"
    using releaseReservation_effect by blast
  then obtain Z where z: "FailedInstance cfg now i w = publish now EventInstanceFailed (gi_ID i)
      (derefStr (gi_NodeAgentID (failed_object i))) (gi_FailReason (failed_object i))
      (fst (InstanceRepo_Save now (failed_object i) (w\<lparr>t_creds := X, t_nodes := Z\<rparr>)))"
  proof (cases "gi_NodeAgentID i \<noteq> None \<and> gi_ResourceReq i \<noteq> None \<and> gi_Status i \<noteq> StatusScheduling")
    case True
    then show ?thesis using c that[of Y] \<open>releaseReservation i _ = _\<close> by (simp add: FailedInstance_def Let_def split_def)
  next
    case False
    then show ?thesis using c that[of "t_nodes w"] by (auto simp: FailedInstance_def Let_def split_def)
  qed
  have k: "gi_ID (failed_object i) = gi_ID i" by (simp add: failed_object_def)
  show "t_agents (FailedInstance cfg now i w) = t_agents w" "\<forall>c. db_fault (FailedInstance cfg now i w) c = None"
    "InstanceRepo_GetByID (gi_ID i) (FailedInstance cfg now i w) =
      (if uq_subscription_single_active (tbl_put gi_ID (failed_object i\<lparr>gi_UpdateTime := now\<rparr>) (t_instances w))
       then Inr (failed_object i\<lparr>gi_UpdateTime := now\<rparr>) else InstanceRepo_GetByID (gi_ID i) w)"
    using assms by (auto simp: z InstanceRepo_Save_def Let_def InstanceRepo_GetByID_def guard_call_def found_def tbl_find_put k)
qed

lemma FailedInstance_releases:
  assumes "\<forall>c. db_fault w c = None" "gi_NodeAgentID i = Some a" "gi_ResourceReq i = Some r"
    and "AgentRepo_GetByID a w = Inr agent" "list_all (sub_in_range r) (t_nodes w)"
  shows "t_nodes (FailedInstance cfg now i w) =
    (if gi_Status i = StatusScheduling then t_nodes w
     else tbl_upd (\<lambda>n. node_key n = na_NodeId agent) (sub_reserved r) (t_nodes w))"
proof -
  obtain X where c: "release_credentials cfg now (gi_ID i) w = w\<lparr>t_creds := X\<rparr>" using release_credentials_effect by blast
  have "AgentRepo_GetByID a (w\<lparr>t_creds := X\<rparr>) = Inr agent"
    using assms(1,4) by (simp add: AgentRepo_GetByID_def guard_call_def)
  from releaseReservation_nodes[OF this assms(2,3)] show ?thesis
    using assms(1-3,5) by (simp add: FailedInstance_nodes c)
qed

text \<open>C19: failing an instance gives its reservation back, unless it fails in scheduling, where it holds none;
  and the object and the row a failure leaves have lost the agent or the request, so failing either of them
  again changes no node.  The row is saved where the unique index admits it; otherwise it stays as it was.
  The once is that of the object: a second copy of the instance, read before the failure, is released again.\<close>

theorem FailedInstance_releases_once:
  fixes w :: "'a disp_scheme"
  assumes "\<forall>c. db_fault w c = None" "gi_NodeAgentID i = Some a" "gi_ResourceReq i = Some r"
    and "AgentRepo_GetByID a w = Inr agent"
    and "list_all (sub_in_range r) (t_nodes w)" "list_all (sub_in_range r \<circ> sub_reserved r) (t_nodes w)"
  shows "let w1 = FailedInstance cfg now i w; saved = failed_object i\<lparr>gi_UpdateTime := now\<rparr>;
             given_back = (\<lambda>f. if gi_Status i = StatusScheduling then t_nodes w
               else tbl_upd (\<lambda>n. node_key n = na_NodeId agent) f (t_nodes w))
         in t_nodes w1 = given_back (sub_reserved r) \<and>
            InstanceRepo_GetByID (gi_ID i) w1 =
              (if uq_subscription_single_active (tbl_put gi_ID saved (t_instances w)) then Inr saved
               else InstanceRepo_GetByID (gi_ID i) w) \<and>
            t_nodes (FailedInstance cfg' now' (failed_object i) w1) = t_nodes w1 \<and>
            t_nodes (FailedInstance cfg' now' saved w1) = t_nodes w1 \<and>
            t_nodes (FailedInstance cfg' now' i w1) = given_back (sub_reserved r \<circ> sub_reserved r)"
proof -
  let ?w1 = "FailedInstance cfg now i w"
  note f = FailedInstance_frame[OF assms(1), where cfg = cfg and now = now and i = i]
  have n1: "t_nodes ?w1 = (if gi_Status i = StatusScheduling then t_nodes w
      else tbl_upd (\<lambda>n. node_key n = na_NodeId agent) (sub_reserved r) (t_nodes w))"
    by (rule FailedInstance_releases[OF assms(1-5)])
  have again: "t_nodes (FailedInstance cfg' now' j u) = t_nodes u"
    if "j = failed_object i \<or> j = failed_object i\<lparr>gi_UpdateTime := now\<rparr>" for j and u :: "'a disp_scheme"
    using that by (auto simp: FailedInstance_nodes failed_object_def)
  have ag: "AgentRepo_GetByID a ?w1 = Inr agent"
    using assms(1,4) f(1,2) by (simp add: AgentRepo_GetByID_def guard_call_def)
  have "list_all (sub_in_range r) (t_nodes ?w1)"
    using assms(5,6) by (auto simp: n1 list_all_iff set_tbl_upd)
  from FailedInstance_releases[OF f(2) assms(2,3) ag this]
  have "t_nodes (FailedInstance cfg' now' i ?w1) = (if gi_Status i = StatusScheduling then t_nodes w
      else tbl_upd (\<lambda>n. node_key n = na_NodeId agent) (sub_reserved r \<circ> sub_reserved r) (t_nodes w))"
    by (auto simp: n1 tbl_upd_twice)
  then show ?thesis using n1 f(3) again by (simp add: Let_def)
qed

theorem FailedInstance_releases_once_witness:
  "let i = ex_instance\<lparr>gi_Status := StatusStarting, gi_NodeAgentID := Some ''a1'', gi_ResourceReq := Some ex_req\<rparr>;
       w1 = FailedInstance ex_dcfg 15 i (ex_disp\<lparr>t_nodes := [ex_node\<lparr>nd_CPUReservedMilli := 1000\<rparr>]\<rparr>)
   in t_nodes w1 = [ex_node] \<and> t_nodes (FailedInstance ex_dcfg 20 (failed_object i\<lparr>gi_UpdateTime := 15\<rparr>) w1) = [ex_node]"
proof -
  let ?i = "ex_instance\<lparr>gi_Status := StatusStarting, gi_NodeAgentID := Some ''a1'', gi_ResourceReq := Some ex_req\<rparr>"
  let ?w = "ex_disp\<lparr>t_nodes := [ex_node\<lparr>nd_CPUReservedMilli := 1000\<rparr>]\<rparr>"
  have a: "AgentRepo_GetByID ''a1'' ?w = Inr ex_agent"
    by (simp add: AgentRepo_GetByID_def guard_call_def found_def table_simps)
  have n: "tbl_upd (\<lambda>n. node_key n = ''1'') (sub_reserved ex_req) [ex_node\<lparr>nd_CPUReservedMilli := 1000\<rparr>] = [ex_node]"
  proof -
    have "node_key (ex_node\<lparr>nd_CPUReservedMilli := 1000\<rparr>) = ''1''" using node_key_ex_node by (simp add: node_key_def)
    then show ?thesis by (simp add: tbl_upd_def) (simp add: sub_reserved_def ex_node_def ex_req_def)
  qed
  have r: "list_all (sub_in_range ex_req) [ex_node\<lparr>nd_CPUReservedMilli := 1000\<rparr>]"
    "list_all (sub_in_range ex_req \<circ> sub_reserved ex_req) [ex_node\<lparr>nd_CPUReservedMilli := 1000\<rparr>]"
    by (simp_all add: sub_in_range_def sub_reserved_def in_i32_def in_i64_def ex_node_def ex_req_def)
  show ?thesis
    using FailedInstance_releases_once[of ?w ?i "''a1''" ex_req ex_agent ex_dcfg 15 ex_dcfg 20] a r
    by (simp add: Let_def n)
qed

text \<open>A forced dispatch of a running instance marks it failed but gives nothing back: the
  reservation, the credentials and the port mappings of the instance stay.\<close>

theorem forced_dispatch_leaks:
  assumes "gi_Status i = StatusRunning" and "ForceDispatch i w = Some w1" and "w' = Dispatch cfg rm now i w"
  shows "t_nodes w' = t_nodes w \<and> t_creds w' = t_creds w \<and> t_ports w' = t_ports w \<and>
    (slot_free i w \<longrightarrow> (\<forall>g \<in> set (t_instances w'). gi_ID g = gi_ID i \<longrightarrow> gi_Status g = Failed))"
proof -
  have w': "w' = fst (InstanceRepo_UpdateStatus now (i\<lparr>gi_Status := Failed\<rparr>) w)"
    using assms(1,3) by (simp add: Dispatch_def)
  show ?thesis unfolding w'
    using quiet_status[of "i\<lparr>gi_Status := Failed\<rparr>" i w now] assms(1)
    by (auto simp: InstanceRepo_UpdateStatus_def Let_def split: option.splits)
qed

theorem forced_dispatch_leaks_witness:
  "\<exists>w1. ForceDispatch (ex_instance\<lparr>gi_Status := StatusRunning\<rparr>) ex_disp = Some w1 \<and>
    gi_Status ` {g \<in> set (t_instances (Dispatch ex_dcfg ex_remote 5 (ex_instance\<lparr>gi_Status := StatusRunning\<rparr>) ex_disp)).
       gi_ID g = ''i1''} \<subseteq> {Failed}"
proof -
  let ?i = "ex_instance\<lparr>gi_Status := StatusRunning\<rparr>"
  have f: "ForceDispatch ?i ex_disp = Some (ex_disp\<lparr>d_queue := [?i]\<rparr>)"
    by (simp add: ForceDispatch_def queue_capacity_def)
  show ?thesis
    using forced_dispatch_leaks[OF _ f refl, of ex_dcfg ex_remote 5] f by auto
qed

section \<open>The unique index and cache warming\<close>

lemma distinct_map_filter_same:
  "distinct (map f (filter P xs)) \<Longrightarrow> x \<in> set xs \<Longrightarrow> y \<in> set xs \<Longrightarrow> P x \<Longrightarrow> P y \<Longrightarrow> f x = f y \<Longrightarrow> x = y"
  by (auto simp: distinct_map inj_on_def)

text \<open>When the cache of an instance is ready while another instance of its subscription is in the
  unique index, the status cannot be written (the index excludes cache warming, so it only notices
  now); the error is dropped and the object goes on with a status its row does not have.\<close>

theorem cache_ready_hits_index:
  assumes "gi_Status i = StatusCacheWarming" "gi_SubscriptionID i = Some s"
    and "g \<in> set (t_instances w)" "gi_ID g \<noteq> gi_ID i" "gi_SubscriptionID g = Some s" "in_active_index g"
  shows "t_instances (onCacheWarmReady now i w) = t_instances w \<and>
    (\<exists>j. waiting (onCacheWarmReady now i w) = add_mset j (waiting w) \<and> gi_ID j = gi_ID i \<and>
         gi_Status j = StatusPreparingBuild)"
proof -
  let ?j = "i\<lparr>gi_Status := StatusPreparingBuild, gi_UpdateTime := now\<rparr>"
  let ?rows = "tbl_put gi_ID ?j (t_instances w)"
  have j: "in_active_index ?j"
    using assms(2) by (simp add: in_active_index_def index_excluded_codes_def)
  have "?j \<in> set ?rows" "g \<in> set ?rows"
    using assms(3,4) by (auto simp: tbl_put_def set_tbl_upd image_iff)
  then have u: "\<not> uq_subscription_single_active ?rows"
    using distinct_map_filter_same[of gi_SubscriptionID in_active_index ?rows ?j g] j assms(2,4,5,6)
    by (auto simp: uq_subscription_single_active_def)
  then have "\<exists>e. InstanceRepo_Save now (i\<lparr>gi_Status := StatusPreparingBuild\<rparr>) w = (w, ?j, Some e)"
    by (simp add: InstanceRepo_Save_def Let_def split: option.split)
  then show ?thesis using request_waiting[of ?j w] assms(1)
    by (auto simp: onCacheWarmReady_def)
qed

theorem cache_ready_hits_index_witness:
  "\<exists>j. waiting (onCacheWarmReady 5 (ex_instance\<lparr>gi_Status := StatusCacheWarming, gi_SubscriptionID := Some ''s''\<rparr>)
        (ex_disp\<lparr>t_instances := [ex_instance\<lparr>gi_ID := ''i2'', gi_Status := StatusRunning, gi_SubscriptionID := Some ''s''\<rparr>]\<rparr>))
      = {#j#} \<and> gi_Status j = StatusPreparingBuild"
proof -
  let ?g = "ex_instance\<lparr>gi_ID := ''i2'', gi_Status := StatusRunning, gi_SubscriptionID := Some ''s''\<rparr>"
  have g: "?g \<in> set (t_instances (ex_disp\<lparr>t_instances := [?g]\<rparr>))" by simp
  show ?thesis
    using cache_ready_hits_index[OF _ _ g, of "ex_instance\<lparr>gi_Status := StatusCacheWarming, gi_SubscriptionID := Some ''s''\<rparr>" "''s''" 5]
    by (auto simp: waiting_def in_active_index_def index_excluded_codes_def)
qed

section \<open>Start: the declared credentials\<close>

lemma allocate_loop_keys:
  "allocate_loop cfg intf now i ss out w = (w', Inr res) \<Longrightarrow>
     (\<forall>k. map_of out k \<noteq> None \<longrightarrow> map_of res k \<noteq> None) \<and>
     (\<forall>s \<in> set ss. cs_Required s \<longrightarrow> map_of res (cs_Key s) \<noteq> None)"
proof (induction ss arbitrary: out w)
  case (Cons s ss)
  obtain w1 r where a: "AllocateForInstance now intf (gi_GameID i) (cs_Pool s) (gi_ID i) w = (w1, r)" by fastforce
  show ?case
  proof (cases r)
    case (Inl e)
    then have "\<not> cs_Required s" "allocate_loop cfg intf now i ss out w1 = (w', Inr res)"
      using Cons.prems a by (auto split: if_splits)
    then show ?thesis using Cons.IH by simp
  next
    case (Inr x)
    then have "allocate_loop cfg intf now i ss (tbl_put fst (cs_Key s, x) out) w1 = (w', Inr res)"
      using Cons.prems a by simp
    from Cons.IH[OF this] show ?thesis by (auto simp: map_of_tbl_put split: if_splits)
  qed
qed simp

text \<open>The credentials sent with a start contain every credential the build declares as required:
  an instance is never started without one.\<close>

theorem required_credentials_injected:
  assumes "allocateCredentials cfg intf now i build w = (w', Inr creds)" and "dc_credentialUC cfg"
    and "ab_Credentials build = Some specs" "s \<in> set specs" "cs_Required s"
  shows "\<exists>secret. map_of creds (cs_Key s) = Some secret"
  using assms allocate_loop_keys[of cfg intf now i specs "[]" w w' creds]
  by (auto simp: allocateCredentials_def)

definition ex_build :: AssetGameBuild where
  "ex_build = \<lparr> ab_BuildId = ''b'', ab_Game = None, ab_Channel = None, ab_AdapterVersion = None,
     ab_UpstreamVersion = None, ab_ArtifactUri = None, ab_ArtifactImageName = None, ab_ArtifactImageTag = None,
     ab_Credentials = Some [\<lparr> cs_Key = ''tok'', cs_Pool = ''token'', cs_Required = True \<rparr>], ab_SchemaJson = [] \<rparr>"

theorem required_credentials_injected_witness:
  "\<exists>w' creds. allocateCredentials ex_dcfg (\<lambda>u. u) 5 ex_instance ex_build ex_pool = (w', Inr creds) \<and>
     (\<exists>secret. map_of creds ''tok'' = Some secret)"
proof -
  obtain w1 where a: "AllocateForInstance 5 (\<lambda>u. u) ''g1'' ''token'' ''i1'' ex_pool = (w1, Inr ''secretk2'')"
    using ex_allocate by blast
  have r: "allocateCredentials ex_dcfg (\<lambda>u. u) 5 ex_instance ex_build ex_pool = (w1, Inr [(''tok'', ''secretk2'')])"
    using a by (simp add: allocateCredentials_def ex_build_def ex_dcfg_def ex_instance_def tbl_put_def)
  show ?thesis
    using required_credentials_injected[OF r, of "[\<lparr> cs_Key = ''tok'', cs_Pool = ''token'', cs_Required = True \<rparr>]"
        "\<lparr> cs_Key = ''tok'', cs_Pool = ''token'', cs_Required = True \<rparr>"] r
    by (auto simp: ex_dcfg_def ex_build_def)
qed

end
