(* ===== verification/Instances.thy ===== *)
theory Instances
  imports Adapter_Schema Dispatch_Properties
begin

text \<open>
  The use cases on game instances (\<open>biz/game_instance_use_case.go\<close>): creation, start, stop,
  retry, forced dispatch, deletion, cancellation, configuration and connection
  information.  The asset service is a parameter; \<open>now\<close> is the reading of the clock, the
  identifier of a new instance a parameter too.  Between the check of the subscription's
  slot and the write other requests may run: \<open>meanwhile\<close>.
\<close>

section \<open>Creation and configuration\<close>

record CreateInstanceOptions =
  co_GameBuildID :: string
  co_Region :: string
  co_Priority :: int
  co_Resources :: "ResourceRequest option"
  co_Config :: "(string \<times> string) list"
  co_SubscriptionID :: "string option"

datatype VersionSelector = Selector_BuildId string | Selector_Channel string

definition resolveBuild ::
  "(string \<Rightarrow> VersionSelector \<Rightarrow> gerr + AssetGameBuild option) \<Rightarrow> string \<Rightarrow> string \<Rightarrow> gerr + AssetGameBuild" where
  "resolveBuild asset game buildID =
    (case asset game (if buildID \<noteq> [] then Selector_BuildId buildID else Selector_Channel steamPublicBranchName) of
       Inl e \<Rightarrow> Inl e
     | Inr None \<Rightarrow> Inl (Errorf ''asset_service returned empty game build'')
     | Inr (Some b) \<Rightarrow>
        (case ab_Game b of
           Some g \<Rightarrow> if ag_Id g = game then Inr b
                     else Inl (Errorf (''game build '' @ go_quote (ab_BuildId b) @ '' does not belong to game '' @ go_quote game))
         | None \<Rightarrow> Inl (Errorf (''game build '' @ go_quote (ab_BuildId b) @ '' does not belong to game '' @ go_quote game))))"

definition CreateGameInstance ::
  "time \<Rightarrow> string \<Rightarrow> (string \<Rightarrow> gerr + AdapterSchema) \<Rightarrow> (string \<Rightarrow> VersionSelector \<Rightarrow> gerr + AssetGameBuild option)
   \<Rightarrow> string \<Rightarrow> CreateInstanceOptions \<Rightarrow> 'a db_scheme \<Rightarrow> 'a db_scheme \<times> (gerr + GameInstance)" where
  "CreateGameInstance now ident decode asset game opts w =
    (if game = [] then (w, Inl (Errorf ''game_id is required''))
     else case resolveBuild asset game (co_GameBuildID opts) of
       Inl e \<Rightarrow> (w, Inl e)
     | Inr build \<Rightarrow>
        let rejected = (if co_Config opts = [] then None
              else if ab_SchemaJson build = []
              then Some (Errorf (msg_no_schema1 @ game @ msg_no_schema2 @ ab_BuildId build @ msg_no_schema3))
              else case ParseAdapterSchema decode (ab_SchemaJson build) of
                     Inl e \<Rightarrow> Some e | Inr schema \<Rightarrow> ValidateInstanceConfig schema (co_Config opts));
            inst = \<lparr> gi_ID = ident, gi_GameID = game, gi_NodeAgentID = None, gi_Status = StatusStopped,
              gi_LastPendingTime = zero_time, gi_CreateTime = now, gi_UpdateTime = now,
              gi_GameBuildId = ab_BuildId build, gi_BranchName = [], gi_CacheBuildID = [], gi_Region = co_Region opts,
              gi_Priority = (if co_Priority opts \<le> 0 then 100 else co_Priority opts),
              gi_ResourceReq = co_Resources opts, gi_ResourceOverride = (co_Resources opts \<noteq> None),
              gi_QueuedReason = [], gi_QueuedAt = None, gi_Cancelled = False, gi_FailReason = [],
              gi_Config = co_Config opts, gi_SubscriptionID = co_SubscriptionID opts \<rparr>
        in case rejected of
             Some e \<Rightarrow> (w, Inl e)
           | None \<Rightarrow> (case InstanceRepo_Save now inst w of
                        (w1, i, Some e) \<Rightarrow> (w1, Inl e)
                      | (w1, i, None) \<Rightarrow> (w1, Inr i)))"

definition UpdateInstanceConfig ::
  "time \<Rightarrow> (string \<Rightarrow> gerr + AdapterSchema) \<Rightarrow> (string \<Rightarrow> VersionSelector \<Rightarrow> gerr + AssetGameBuild option)
   \<Rightarrow> string \<Rightarrow> (string \<times> string) list \<Rightarrow> 'a db_scheme \<Rightarrow> 'a db_scheme \<times> (gerr + GameInstance)" where
  "UpdateInstanceConfig now decode asset ident config w =
    (case InstanceRepo_GetByID ident w of
       Inl e \<Rightarrow> (w, Inl e)
     | Inr inst \<Rightarrow>
        let rejected = (if config = [] then None
              else case resolveBuild asset (gi_GameID inst) (gi_GameBuildId inst) of
                     Inl e \<Rightarrow> Some e
                   | Inr build \<Rightarrow>
                      if ab_SchemaJson build = [] then Some (Errorf msg_no_schema_upd)
                      else case ParseAdapterSchema decode (ab_SchemaJson build) of
                             Inl e \<Rightarrow> Some e | Inr schema \<Rightarrow> ValidateInstanceConfig schema config)
        in case rejected of
             Some e \<Rightarrow> (w, Inl e)
           | None \<Rightarrow> (case InstanceRepo_Save now (inst\<lparr>gi_Config := config, gi_UpdateTime := now\<rparr>) w of
                        (w1, i, Some e) \<Rightarrow> (w1, Inl e)
                      | (w1, i, None) \<Rightarrow> (w1, Inr i)))"

section \<open>Start, retry, stop\<close>

definition checkSubscriptionSlot :: "GameInstance \<Rightarrow> 'a db_scheme \<Rightarrow> gerr option" where
  "checkSubscriptionSlot inst w =
    (case gi_SubscriptionID inst of
       None \<Rightarrow> None
     | Some s \<Rightarrow>
       if s = [] then None
       else case InstanceRepo_ListActiveBySubscription s w of
              Inl e \<Rightarrow> Some e
            | Inr active \<Rightarrow>
               (case find (\<lambda>a. gi_ID a \<noteq> gi_ID inst) active of
                  None \<Rightarrow> None
                | Some a \<Rightarrow> Some (Wrapped [] ErrSubscriptionConflict ('': '' @ gi_ID a @ msg_conflict1 @
                    status_String (gi_Status a) @ msg_conflict2 @ gi_GameID a @ msg_conflict3))))"

definition mapSaveConflict :: "gerr \<Rightarrow> gerr" where
  "mapSaveConflict e =
    (if errors_is e ErrDuplicatedKey then Wrapped [] ErrSubscriptionConflict msg_concurrent else e)"

text \<open>The common part of start and retry once the status is checked.\<close>

definition to_pending ::
  "time \<Rightarrow> ('a disp_scheme \<Rightarrow> 'a disp_scheme) \<Rightarrow> GameInstance \<Rightarrow> 'a disp_scheme \<Rightarrow> 'a disp_scheme \<times> (gerr + GameInstance)" where
  "to_pending now meanwhile inst w =
    (case checkSubscriptionSlot inst w of
       Some e \<Rightarrow> (w, Inl e)
     | None \<Rightarrow>
        (case InstanceRepo_Save now (inst\<lparr>gi_Status := StatusPending, gi_FailReason := [], gi_LastPendingTime := now\<rparr>)
                (meanwhile w) of
           (w1, i, Some e) \<Rightarrow> (w1, Inl (mapSaveConflict e))
         | (w1, i, None) \<Rightarrow> (w1, Inr i)))"

definition StartGameInstance ::
  "time \<Rightarrow> ('a disp_scheme \<Rightarrow> 'a disp_scheme) \<Rightarrow> string \<Rightarrow> 'a disp_scheme \<Rightarrow> 'a disp_scheme \<times> gerr option" where
  "StartGameInstance now meanwhile ident w =
    (case InstanceRepo_GetByID ident w of
       Inl e \<Rightarrow> (w, Some e)
     | Inr inst \<Rightarrow>
        if gi_Status inst \<noteq> StatusStopped \<and> gi_Status inst \<noteq> Failed
        then (w, Some (Errorf (msg_bad_status @ status_String (gi_Status inst))))
        else if IsStopFailure inst then (w, Some (Wrapped [] ErrStopFailure msg_stop_unfinished_start))
        else case to_pending now meanwhile inst w of
               (w1, Inl e) \<Rightarrow> (w1, Some e)
             | (w1, Inr i) \<Rightarrow> (fst (RequestDispatch i w1), None))"

definition RetryGameInstance ::
  "time \<Rightarrow> ('a disp_scheme \<Rightarrow> 'a disp_scheme) \<Rightarrow> string \<Rightarrow> 'a disp_scheme \<Rightarrow> 'a disp_scheme \<times> gerr option" where
  "RetryGameInstance now meanwhile ident w =
    (case InstanceRepo_GetByID ident w of
       Inl e \<Rightarrow> (w, Some e)
     | Inr inst \<Rightarrow>
        if gi_Status inst \<noteq> Failed
        then (w, Some (Errorf (msg_bad_status @ status_String (gi_Status inst) @ msg_retry_only)))
        else if IsStopFailure inst then (w, Some (Wrapped [] ErrStopFailure msg_stop_unfinished_retry))
        else case to_pending now meanwhile inst w of
               (w1, Inl e) \<Rightarrow> (w1, Some e)
             | (w1, Inr i) \<Rightarrow> RequestDispatch i w1)"

definition StopGameInstance :: "time \<Rightarrow> string \<Rightarrow> 'a disp_scheme \<Rightarrow> 'a disp_scheme \<times> gerr option" where
  "StopGameInstance now ident w =
    (case InstanceRepo_GetByID ident w of
       Inl e \<Rightarrow> (w, Some e)
     | Inr inst \<Rightarrow>
        if gi_Status inst \<noteq> StatusRunning \<and> \<not> IsStopFailure inst
        then (w, Some (Errorf (msg_bad_status @ status_String (gi_Status inst) @ msg_stop_only)))
        else let inst' = inst\<lparr>gi_Status := StatusStopping\<rparr> in
          (case InstanceRepo_UpdateStatus now inst' w of
             (w1, Some e) \<Rightarrow> (w1, Some e)
           | (w1, None) \<Rightarrow> (fst (RequestDispatch inst' w1), None)))"

section \<open>The other operations\<close>

definition GetGameInstance :: "string \<Rightarrow> 'a db_scheme \<Rightarrow> gerr + GameInstance" where
  "GetGameInstance ident w = InstanceRepo_GetByID ident w"

definition ListGameInstances :: "InstanceStatus option \<Rightarrow> string \<Rightarrow> 'a db_scheme \<Rightarrow> gerr + GameInstance list" where
  "ListGameInstances st sub w =
    (if sub \<noteq> [] then InstanceRepo_ListBySubscription sub w
     else case st of Some s \<Rightarrow> InstanceRepo_ListByStatuses [s] w | None \<Rightarrow> InstanceRepo_ListAll w)"

text \<open>\<open>None\<close> when the caller blocks on the full channel.\<close>

definition UC_ForceDispatch :: "string \<Rightarrow> 'a disp_scheme \<Rightarrow> ('a disp_scheme \<times> gerr option) option" where
  "UC_ForceDispatch ident w =
    (case InstanceRepo_GetByID ident w of
       Inl e \<Rightarrow> Some (w, Some e)
     | Inr inst \<Rightarrow> map_option (\<lambda>w1. (w1, None)) (ForceDispatch inst w))"

definition DeleteGameInstance :: "string \<Rightarrow> 'a db_scheme \<Rightarrow> 'a db_scheme \<times> gerr option" where
  "DeleteGameInstance ident w =
    (let finish = (\<lambda>w. case PortRepo_DeleteByInstanceId ident w of
           (w1, Some e) \<Rightarrow> (w1, Some (Wrapped ''delete instance port mappings: '' e []))
         | (w1, None) \<Rightarrow> InstanceRepo_Delete ident w1)
     in case InstanceRepo_GetByID ident w of
          Inl e \<Rightarrow> (w, Some e)
        | Inr inst \<Rightarrow>
           if gi_Status inst = StatusQueued
           then (case QM_Cancel ident w of
                   (w1, Some e) \<Rightarrow> (w1, Some (Wrapped ''cancel queue: '' e []))
                 | (w1, None) \<Rightarrow> finish w1)
           else if isDispatchableStatus (gi_Status inst)
           then (w, Some (Errorf (''instance is in dispatchable state '' @ status_String (gi_Status inst) @ '', stop it first'')))
           else finish w)"

definition CancelGameInstance :: "time \<Rightarrow> string \<Rightarrow> 'a ctl_scheme \<Rightarrow> 'a ctl_scheme \<times> gerr option" where
  "CancelGameInstance now ident w = CancelQueued now ident w"

definition GetInstancePorts :: "string \<Rightarrow> 'a db_scheme \<Rightarrow> gerr + ContainerPortMapping list" where
  "GetInstancePorts ident w = PortRepo_ListByInstanceId ident w"

section \<open>Connection information\<close>

record InstanceConnectInfo =
  ci_NodeIP :: string
  ci_GameHostPort :: port
  ci_GamePort :: port
  ci_Protocol :: string
  ci_HostPort :: port
  ci_ContainerPort :: port

definition connectInfoFromMapping :: "string \<Rightarrow> port \<Rightarrow> ContainerPortMapping \<Rightarrow> InstanceConnectInfo" where
  "connectInfoFromMapping ip game_port m =
    \<lparr> ci_NodeIP = ip, ci_GameHostPort = pm_HostPort m, ci_GamePort = game_port,
      ci_Protocol = (if pm_Protocol m = UDP then ''udp'' else ''tcp''),
      ci_HostPort = pm_HostPort m, ci_ContainerPort = pm_ContainerPort m \<rparr>"

definition game_port_of :: "GameContainerConfig \<Rightarrow> port" where
  "game_port_of config =
    (let p = (case find pe_IsGamePort (gc_PortExcerpt config) of None \<Rightarrow> 0 | Some e \<Rightarrow> pe_BeginPort e)
     in if p = 0 then (case gc_PortExcerpt config of [] \<Rightarrow> 0 | e # es \<Rightarrow> pe_BeginPort e) else p)"

definition pick_mapping :: "port \<Rightarrow> ContainerPortMapping list \<Rightarrow> ContainerPortMapping option" where
  "pick_mapping game_port ms =
    (case find pm_IsGamePort ms of
       Some m \<Rightarrow> Some m
     | None \<Rightarrow> find (\<lambda>m. pm_ContainerPort m = game_port) ms)"

definition GetInstanceConnectInfo :: "string \<Rightarrow> 'a db_scheme \<Rightarrow> gerr + InstanceConnectInfo" where
  "GetInstanceConnectInfo ident w =
    (case InstanceRepo_GetByID ident w of Inl e \<Rightarrow> Inl e | Inr inst \<Rightarrow>
     (case gi_NodeAgentID inst of None \<Rightarrow> Inl (Errorf ''instance has no node agent assigned'') | Some a \<Rightarrow>
     (case AgentRepo_GetByID a w of Inl e \<Rightarrow> Inl (Wrapped ''load node agent: '' e []) | Inr agent \<Rightarrow>
     (case NodeRepo_GetByID (na_NodeId agent) w of Inl e \<Rightarrow> Inl (Wrapped ''load node: '' e []) | Inr node \<Rightarrow>
     (case GameRepo_GetByID (gi_GameID inst) w of Inl e \<Rightarrow> Inl (Wrapped ''load game: '' e []) | Inr game \<Rightarrow>
     (case ConfigRepo_GetByID (gm_ContainerConfigID game) w of
        Inl e \<Rightarrow> Inl (Wrapped ''load container config: '' e []) | Inr config \<Rightarrow>
      let game_port = game_port_of config in
      if game_port = 0 then Inl (Errorf ''container config declares no game port'')
      else case PortRepo_ListByInstanceId ident w of
             Inl e \<Rightarrow> Inl (Wrapped ''list port mappings: '' e [])
           | Inr ms \<Rightarrow>
              (case pick_mapping game_port ms of
                 Some m \<Rightarrow> Inr (connectInfoFromMapping (nd_Ip node) game_port m)
               | None \<Rightarrow> Inl (Errorf (''no port mapping found for game port '' @ show_nat (unat game_port))))))))))"

section \<open>Advancing by hand\<close>

text \<open>\<open>AdvanceGameInstance\<close> (\<open>game_instance_advance_usecase.go\<close>); \<open>main.go\<close> builds it and drops it.\<close>

definition AdvanceGameInstance ::
  "(GameInstance \<Rightarrow> 'a db_scheme \<Rightarrow> 'a db_scheme \<times> (gerr + ScheduleResult)) \<Rightarrow> time \<Rightarrow> GameInstance \<Rightarrow> 'a db_scheme
   \<Rightarrow> 'a db_scheme \<times> GameInstance \<times> gerr option" where
  "AdvanceGameInstance schedule now inst w =
    (let step = (\<lambda>st. (fst (InstanceRepo_UpdateStatus now (inst\<lparr>gi_Status := st\<rparr>) w), inst\<lparr>gi_Status := st\<rparr>, None))
     in case gi_Status inst of
          StatusPending \<Rightarrow> step StatusScheduling
        | StatusScheduling \<Rightarrow>
            (case schedule inst w of
               (w1, Inl e) \<Rightarrow> (w1, inst, Some e)
             | (w1, Inr res) \<Rightarrow>
                if sr_Outcome res \<noteq> OutcomeScheduled
                then (w1, inst, Some (Errorf (''schedule failed: '' @ sr_Reason res)))
                else let (w2, i, e) = InstanceRepo_Save now (inst\<lparr>gi_NodeAgentID := Some (sr_NodeAgentID res),
                           gi_ResourceReq := Some (sr_ResourceReq res), gi_Status := StatusPreparingBuild\<rparr>) w1
                     in (w2, i, None))
        | StatusPreparingBuild \<Rightarrow> step StatusRestoringSnapshot
        | StatusRestoringSnapshot \<Rightarrow> step StatusStarting
        | StatusStarting \<Rightarrow> step StatusRunning
        | StatusStopping \<Rightarrow> step StatusCleaning
        | StatusCleaning \<Rightarrow> step StatusStopped
        | _ \<Rightarrow> (w, inst, Some (Errorf ''cannot advance from current status'')))"

section \<open>Properties\<close>

lemma tbl_put_mem: "key r \<in> set (map key rows) \<Longrightarrow> r \<in> set (tbl_put key r rows)"
  by (auto simp: tbl_put_def set_tbl_upd image_iff)

lemma tbl_put_in: "r \<in> set (tbl_put key r rows)"
  by (auto simp: tbl_put_def set_tbl_upd image_iff)

lemma Save_None:
  "InstanceRepo_Save now i w = (w', j, None) \<Longrightarrow>
     j = i\<lparr>gi_UpdateTime := now\<rparr> \<and> w' = w\<lparr>t_instances := tbl_put gi_ID j (t_instances w)\<rparr> \<and>
     uq_subscription_single_active (t_instances w')"
  by (auto simp: InstanceRepo_Save_def Let_def split: option.splits if_splits)

text \<open>C23: a start that succeeds, whatever other requests do between its check and its write, has put
  the instance in the queue as pending, and no other instance of its subscription is in the unique
  index: of two concurrent starts at most one succeeds.\<close>

theorem StartGameInstance_success:
  assumes "StartGameInstance now meanwhile ident w = (w', None)"
  shows "\<exists>i. gi_ID i = ident \<and> gi_Status i = StatusPending \<and> i \<in> set (t_instances w') \<and>
    waiting w' = add_mset i (waiting (meanwhile w)) \<and>
    (\<forall>g \<in> set (t_instances w'). gi_SubscriptionID i \<noteq> None \<longrightarrow> g \<noteq> i \<longrightarrow>
       gi_SubscriptionID g = gi_SubscriptionID i \<longrightarrow> \<not> in_active_index g)"
proof -
  from assms obtain inst where g: "InstanceRepo_GetByID ident w = Inr inst"
    by (auto simp: StartGameInstance_def split: sum.splits)
  then have id: "gi_ID inst = ident" by (auto simp: InstanceRepo_GetByID_def dest: tbl_find_SomeD)
  from assms g obtain w1 i where p: "to_pending now meanwhile inst w = (w1, Inr i)"
    and w': "w' = fst (RequestDispatch i w1)"
    by (auto simp: StartGameInstance_def split: if_splits prod.splits sum.splits)
  from p have s: "InstanceRepo_Save now (inst\<lparr>gi_Status := StatusPending, gi_FailReason := [], gi_LastPendingTime := now\<rparr>)
      (meanwhile w) = (w1, i, None)"
    by (auto simp: to_pending_def split: option.splits prod.splits)
  note sv = Save_None[OF s]
  have st: "gi_Status i = StatusPending" "gi_ID i = ident" using sv id by auto
  have r: "waiting w' = add_mset i (waiting w1)" "t_instances w' = t_instances w1"
    using request_waiting[of i w1] st(1) w' by auto
  have "i \<in> set (t_instances w1)" using sv tbl_put_in[of i gi_ID] by auto
  moreover have "waiting w1 = waiting (meanwhile w)" using sv by (auto simp: waiting_def)
  moreover have "\<not> in_active_index g" if "g \<in> set (t_instances w1)" "gi_SubscriptionID i \<noteq> None" "g \<noteq> i"
      "gi_SubscriptionID g = gi_SubscriptionID i" for g
  proof
    assume "in_active_index g"
    moreover have "in_active_index i" using st that(2) by (simp add: in_active_index_def index_excluded_codes_def)
    moreover have "distinct (map gi_SubscriptionID (filter in_active_index (t_instances w1)))"
      using sv unfolding uq_subscription_single_active_def by blast
    ultimately show False
      using distinct_map_filter_same[of gi_SubscriptionID in_active_index "t_instances w1" g i] that(1,3,4) \<open>i \<in> _\<close>
      by blast
  qed
  ultimately show ?thesis using st r by (intro exI[of _ i]) auto
qed

lemma ex_Start:
  "StartGameInstance 5 (\<lambda>u. u) ''i1'' ex_disp =
     (ex_disp\<lparr>t_instances := [ex_instance\<lparr>gi_Status := StatusPending, gi_LastPendingTime := 5, gi_UpdateTime := 5\<rparr>],
              d_queue := [ex_instance\<lparr>gi_Status := StatusPending, gi_LastPendingTime := 5, gi_UpdateTime := 5\<rparr>]\<rparr>, None)"
proof -
  have g: "InstanceRepo_GetByID ''i1'' ex_disp = Inr ex_instance"
    by (simp add: InstanceRepo_GetByID_def guard_call_def found_def table_simps)
  show ?thesis
    by (simp add: StartGameInstance_def g to_pending_def checkSubscriptionSlot_def IsStopFailure_def
        InstanceRepo_Save_def Let_def tbl_put_def tbl_upd_def uq_subscription_single_active_def in_active_index_def
        RequestDispatch_def queue_capacity_def)
qed

theorem StartGameInstance_success_witness:
  "\<exists>i. gi_Status i = StatusPending \<and> waiting (fst (StartGameInstance 5 (\<lambda>u. u) ''i1'' ex_disp)) = {#i#}"
proof -
  have s: "StartGameInstance 5 (\<lambda>u. u) ''i1'' ex_disp = (fst (StartGameInstance 5 (\<lambda>u. u) ''i1'' ex_disp), None)"
    by (simp add: ex_Start)
  show ?thesis using StartGameInstance_success[OF s] by (auto simp: waiting_def)
qed

text \<open>C40: a failed instance blocks its whole subscription: the check of a start lets another instance of
  the subscription pass (failed is not active), but the unique index counts it (it excludes the number
  of cache warming instead), so the start fails, and with the driver's error instead of the conflict
  the user should see.\<close>

theorem failed_instance_blocks_subscription:
  assumes "InstanceRepo_GetByID ident w = Inr inst" "gi_Status inst = StatusStopped"
    and "gi_SubscriptionID inst = Some s" "g \<in> set (t_instances w)" "gi_ID g \<noteq> ident"
    and "gi_SubscriptionID g = Some s" "gi_Status g = Failed"
    and "db_fault w (InstSave ident) = None" "checkSubscriptionSlot inst w = None"
  shows "StartGameInstance now (\<lambda>u. u) ident w = (w, Some (unique_violation ''uq_subscription_single_active'')) \<and>
    \<not> errors_is (unique_violation ''uq_subscription_single_active'') ErrSubscriptionConflict"
proof -
  let ?j = "inst\<lparr>gi_Status := StatusPending, gi_FailReason := [], gi_LastPendingTime := now, gi_UpdateTime := now\<rparr>"
  let ?rows = "tbl_put gi_ID ?j (t_instances w)"
  have id: "gi_ID inst = ident"
    using assms(1) by (auto simp: InstanceRepo_GetByID_def dest: tbl_find_SomeD)
  have j: "?j \<in> set ?rows" by (rule tbl_put_in)
  have g: "g \<in> set ?rows" using assms(4,5) id by (auto simp: tbl_put_def set_tbl_upd image_iff)
  have "in_active_index ?j" "in_active_index g"
    using assms(3,6,7) by (auto simp: in_active_index_def index_excluded_codes_def)
  then have "\<not> uq_subscription_single_active ?rows"
    using distinct_map_filter_same[of gi_SubscriptionID in_active_index ?rows ?j g] j g assms(3,5,6) id
    by (auto simp: uq_subscription_single_active_def)
  then have "InstanceRepo_Save now (inst\<lparr>gi_Status := StatusPending, gi_FailReason := [], gi_LastPendingTime := now\<rparr>) w =
      (w, ?j, Some (unique_violation ''uq_subscription_single_active''))"
    using assms(8) id by (simp add: InstanceRepo_Save_def Let_def)
  then have "to_pending now (\<lambda>u. u) inst w = (w, Inl (unique_violation ''uq_subscription_single_active''))"
    using assms(9) by (simp add: to_pending_def mapSaveConflict_def unique_violation_def gorm_TranslateError_def)
  then show ?thesis
    using assms(1,2) by (simp add: StartGameInstance_def IsStopFailure_def unique_violation_def gorm_TranslateError_def)
qed

definition ex_blocked :: disp where
  "ex_blocked = ex_disp\<lparr>t_instances := [ex_instance\<lparr>gi_SubscriptionID := Some ''s''\<rparr>,
     ex_instance\<lparr>gi_ID := ''i2'', gi_Status := Failed, gi_SubscriptionID := Some ''s''\<rparr>]\<rparr>"

theorem failed_instance_blocks_subscription_witness:
  "snd (StartGameInstance 5 (\<lambda>u. u) ''i1'' ex_blocked) = Some (unique_violation ''uq_subscription_single_active'')"
proof -
  have "InstanceRepo_GetByID ''i1'' ex_blocked = Inr (ex_instance\<lparr>gi_SubscriptionID := Some ''s''\<rparr>)"
    by (simp add: InstanceRepo_GetByID_def guard_call_def found_def table_simps ex_blocked_def)
  moreover have "checkSubscriptionSlot (ex_instance\<lparr>gi_SubscriptionID := Some ''s''\<rparr>) ex_blocked = None"
    by (simp add: checkSubscriptionSlot_def InstanceRepo_ListActiveBySubscription_def guard_call_def ex_blocked_def)
  ultimately show ?thesis
    using failed_instance_blocks_subscription[of "''i1''" ex_blocked "ex_instance\<lparr>gi_SubscriptionID := Some ''s''\<rparr>" "''s''"
        "ex_instance\<lparr>gi_ID := ''i2'', gi_Status := Failed, gi_SubscriptionID := Some ''s''\<rparr>" 5]
    by (simp add: ex_blocked_def)
qed

text \<open>A running instance can be deleted: the row and its port mappings go, the reservation of its
  node and its credentials stay taken, and nothing stops the container.\<close>

theorem Delete_running_leaks:
  assumes "InstanceRepo_GetByID ident w = Inr inst" "gi_Status inst = StatusRunning"
    and "\<forall>c. db_fault w c = None" "ident \<notin> sq_InstanceID ` set (t_queue w)"
  shows "\<exists>w'. DeleteGameInstance ident w = (w', None) \<and> ident \<notin> gi_ID ` set (t_instances w') \<and>
    t_nodes w' = t_nodes w \<and> t_creds w' = t_creds w"
  using assms
  by (auto simp: DeleteGameInstance_def PortRepo_DeleteByInstanceId_def guard_write_def InstanceRepo_Delete_def)

theorem Delete_running_leaks_witness:
  "\<exists>w'. DeleteGameInstance ''i1'' (ex_disp\<lparr>t_instances := [ex_instance\<lparr>gi_Status := StatusRunning\<rparr>]\<rparr>) = (w', None) \<and>
    ''i1'' \<notin> gi_ID ` set (t_instances w')"
proof -
  let ?w = "ex_disp\<lparr>t_instances := [ex_instance\<lparr>gi_Status := StatusRunning\<rparr>]\<rparr>"
  have g: "InstanceRepo_GetByID ''i1'' ?w = Inr (ex_instance\<lparr>gi_Status := StatusRunning\<rparr>)"
    by (simp add: InstanceRepo_GetByID_def guard_call_def found_def table_simps)
  show ?thesis using Delete_running_leaks[OF g] by auto
qed

lemma find_mem: "find P xs = Some x \<Longrightarrow> x \<in> set xs \<and> P x"
  by (auto simp: find_Some_iff)

lemma pick_mapping_sound:
  "pick_mapping p ms = Some m \<Longrightarrow> m \<in> set ms \<and> (pm_IsGamePort m \<or> pm_ContainerPort m = p)"
  by (auto simp: pick_mapping_def dest: find_mem split: option.splits)

text \<open>The connection information names the node the instance is bound to, and the host port of one
  of the instance's own mappings: the marked one if there is one, else one of the game port.\<close>

theorem GetInstanceConnectInfo_sound:
  assumes "GetInstanceConnectInfo ident w = Inr ci"
  shows "\<exists>inst a agent node m. InstanceRepo_GetByID ident w = Inr inst \<and> gi_NodeAgentID inst = Some a \<and>
    AgentRepo_GetByID a w = Inr agent \<and> NodeRepo_GetByID (na_NodeId agent) w = Inr node \<and>
    ci_NodeIP ci = nd_Ip node \<and> m \<in> set (t_ports w) \<and> pm_InstanceId m = ident \<and>
    ci_GameHostPort ci = pm_HostPort m \<and> (pm_IsGamePort m \<or> pm_ContainerPort m = ci_GamePort ci) \<and> ci_GamePort ci \<noteq> 0"
proof -
  obtain inst a agent node config ms m where
    g: "InstanceRepo_GetByID ident w = Inr inst" "gi_NodeAgentID inst = Some a" "AgentRepo_GetByID a w = Inr agent"
      "NodeRepo_GetByID (na_NodeId agent) w = Inr node" and
    p: "game_port_of config \<noteq> 0" "PortRepo_ListByInstanceId ident w = Inr ms"
      "pick_mapping (game_port_of config) ms = Some m" and
    ci: "ci = connectInfoFromMapping (nd_Ip node) (game_port_of config) m"
    using assms by (auto simp: GetInstanceConnectInfo_def Let_def split: sum.splits option.splits if_splits)
  have "m \<in> set ms" "pm_IsGamePort m \<or> pm_ContainerPort m = game_port_of config"
    using pick_mapping_sound[OF p(3)] by auto
  then show ?thesis using g p ci
    by (auto simp: PortRepo_ListByInstanceId_def connectInfoFromMapping_def)
qed

end
