(* ===== verification/Health.thy ===== *)
theory Health
  imports Pressure Instances
begin

text \<open>
  The health monitor of the node agents (\<open>biz/node_agent_health_monitor.go\<close>) and the cache
  of the instances' runtime statistics it fills (\<open>biz/runtime_stats_registry.go\<close>).  A probe's
  answer is a parameter; percentages are finite single precision numbers, which are
  rationals here.  The lemmas show the debouncing of failures, the bounds of the recorded
  usage and the scope of a node's report.
\<close>

section \<open>Runtime statistics\<close>

record InstanceRuntimeStat =
  ir_InstanceID :: string
  ir_PlayerCount :: "32 word"
  ir_MaxPlayers :: "32 word"
  ir_Healthy :: bool
  ir_ProbeMode :: string
  ir_ProbeError :: string
  ir_SampledAt :: string

record RuntimeStatsRegistry =
  rr_stats :: "(string \<times> InstanceRuntimeStat) list"
  rr_nodes :: "(string \<times> string list) list"

definition NewRuntimeStatsRegistry :: RuntimeStatsRegistry where
  "NewRuntimeStatsRegistry = \<lparr> rr_stats = [], rr_nodes = [] \<rparr>"

definition UpdateForNode :: "string \<Rightarrow> InstanceRuntimeStat list \<Rightarrow> RuntimeStatsRegistry \<Rightarrow> RuntimeStatsRegistry" where
  "UpdateForNode node stats r =
    (let ids = map ir_InstanceID stats;
         stored = fold (\<lambda>s m. tbl_put fst (ir_InstanceID s, s) m) stats (rr_stats r);
         gone = filter (\<lambda>k. k \<notin> set ids) (case map_of (rr_nodes r) node of None \<Rightarrow> [] | Some prev \<Rightarrow> prev)
     in r\<lparr>rr_stats := tbl_del (\<lambda>p. fst p \<in> set gone) stored, rr_nodes := tbl_put fst (node, ids) (rr_nodes r)\<rparr>)"

definition Registry_Get :: "string \<Rightarrow> RuntimeStatsRegistry \<Rightarrow> InstanceRuntimeStat option" where
  "Registry_Get ident r = map_of (rr_stats r) ident"

section \<open>The monitor\<close>

record NodeHeartbeat =
  hb_CpuUsagePct :: rat
  hb_MemoryUsagePct :: rat
  hb_DiskUsagePct :: rat
  hb_NetRxBps :: int
  hb_NetTxBps :: int
  hb_InstanceRuntime :: "InstanceRuntimeStat list"

text \<open>The answer to a probe: no client, no answer, or a response (which may be \<open>nil\<close>) with an
  optional heartbeat and the agent's version.\<close>

datatype probe = ProbeNoClient gerr | ProbeFailed gerr | ProbeAnswered "(NodeHeartbeat option \<times> string) option"

record HealthMonitor =
  hm_failThreshold :: int
  hm_degradedPct :: rat
  hm_failCounts :: "(string \<times> int) list"
  hm_runtimeStats :: "RuntimeStatsRegistry option"

definition NewNodeAgentHealthMonitor :: "int \<Rightarrow> rat \<Rightarrow> HealthMonitor" where
  "NewNodeAgentHealthMonitor threshold degraded =
    \<lparr> hm_failThreshold = (if threshold \<le> 0 then 2 else threshold),
      hm_degradedPct = (if degraded \<le> 0 \<or> degraded > 100 then 85 else degraded),
      hm_failCounts = [], hm_runtimeStats = None \<rparr>"

definition SetRuntimeStatsRegistry :: "RuntimeStatsRegistry option \<Rightarrow> HealthMonitor \<Rightarrow> HealthMonitor" where
  "SetRuntimeStatsRegistry reg m = m\<lparr>hm_runtimeStats := reg\<rparr>"

fun healthStatusName :: "NodeAgentHealthStatus \<Rightarrow> string" where
  "healthStatusName HealthHealthy = ''healthy''"
| "healthStatusName HealthDegraded = ''degraded''"
| "healthStatusName HealthUnhealthy = ''unhealthy''"
| "healthStatusName HealthUnknown = ''unknown''"

definition publishHealthChange :: "time \<Rightarrow> string \<Rightarrow> NodeAgentHealthStatus \<Rightarrow> 'a ctl_scheme \<Rightarrow> 'a ctl_scheme" where
  "publishHealthChange now a s w = publish now EventNodeHealthChanged [] a (msg_health_to @ healthStatusName s) w"

definition mark :: "time \<Rightarrow> string \<Rightarrow> bool \<Rightarrow> 'a ctl_scheme \<Rightarrow> 'a ctl_scheme" where
  "mark now a alive w = fst (AgentRepo_UpdateHealth a alive now w)"

definition markUnhealthy :: "time \<Rightarrow> string \<Rightarrow> 'a ctl_scheme \<Rightarrow> 'a ctl_scheme" where
  "markUnhealthy now a w =
     publishHealthChange now a HealthUnhealthy (fst (AgentRepo_UpdateHealthStatus a HealthUnhealthy (mark now a False w)))"

text \<open>\<open>int64(float64(capacity) * float64(pct) / 100)\<close>.\<close>

definition used_of :: "int \<Rightarrow> rat \<Rightarrow> int" where
  "used_of capacity pct = ftrunc (fdiv (fmul (f64 capacity) pct) 100)"

definition usage_of :: "Node \<Rightarrow> NodeHeartbeat \<Rightarrow> NodeDynamicUsage" where
  "usage_of node hb =
    \<lparr> du_CPUUsedMilli = used_of (cpuCapacityMilli node) (hb_CpuUsagePct hb),
      du_MemoryUsedBytes = used_of (memoryCapacityBytes node) (hb_MemoryUsagePct hb),
      du_DiskUsedBytes = used_of (diskCapacityBytes node) (hb_DiskUsagePct hb),
      du_NetRxBps = wrap64 (hb_NetRxBps hb), du_NetTxBps = wrap64 (hb_NetTxBps hb) \<rparr>"

definition heartbeat_status :: "HealthMonitor \<Rightarrow> NodeHeartbeat option \<Rightarrow> NodeAgentHealthStatus" where
  "heartbeat_status m hb =
    (case hb of
       None \<Rightarrow> HealthHealthy
     | Some h \<Rightarrow> if hb_CpuUsagePct h \<ge> hm_degradedPct m \<or> hb_MemoryUsagePct h \<ge> hm_degradedPct m \<or>
                    hb_DiskUsagePct h \<ge> hm_degradedPct m then HealthDegraded else HealthHealthy)"

definition applyHeartbeat ::
  "int \<Rightarrow> time \<Rightarrow> NodeAgent \<Rightarrow> Node \<Rightarrow> NodeHeartbeat option \<Rightarrow> HealthMonitor \<times> 'a ctl_scheme \<Rightarrow> HealthMonitor \<times> 'a ctl_scheme" where
  "applyHeartbeat ident now agent node hb s =
    (let (m, w) = s;
         status = heartbeat_status m hb;
         w1 = (case AgentRepo_UpdateHealthStatus (na_ID agent) status w of
                 (w', Some e) \<Rightarrow> w'
               | (w', None) \<Rightarrow> if status \<noteq> na_HealthStatus agent then publishHealthChange now (na_ID agent) status w' else w')
     in case hb of
          None \<Rightarrow> (m, w1)
        | Some h \<Rightarrow>
           let m1 = m\<lparr>hm_runtimeStats := map_option (UpdateForNode (na_ID agent) (hb_InstanceRuntime h)) (hm_runtimeStats m)\<rparr>;
               u = usage_of node h;
               w2 = fst (NodeRepo_UpdateDynamicUsage (na_NodeId agent) u now w1);
               sample = \<lparr> rs_ID = 0, rs_NodeID = na_NodeId agent, rs_SampledAt = now,
                  rs_CPUUsedMilli = du_CPUUsedMilli u, rs_MemoryUsedBytes = du_MemoryUsedBytes u,
                  rs_DiskUsedBytes = du_DiskUsedBytes u, rs_NetRxBps = du_NetRxBps u, rs_NetTxBps = du_NetTxBps u \<rparr>
           in (m1, fst (SampleRepo_Append ident sample w2)))"

definition probeAgent ::
  "(string \<Rightarrow> string \<Rightarrow> probe) \<Rightarrow> (string \<Rightarrow> int) \<Rightarrow> time \<Rightarrow> string \<Rightarrow> HealthMonitor \<times> 'a ctl_scheme \<Rightarrow> HealthMonitor \<times> 'a ctl_scheme" where
  "probeAgent probe gen now a s =
    (let (m, w) = s in
     case AgentRepo_GetByID a w of
       Inl e \<Rightarrow> s
     | Inr agent \<Rightarrow>
      (case NodeRepo_GetByID (na_NodeId agent) w of
         Inl e \<Rightarrow> s
       | Inr node \<Rightarrow>
        (case probe a (nd_Ip node @ '':'' @ show_int (na_Port agent)) of
           ProbeNoClient e \<Rightarrow> (m, markUnhealthy now a w)
         | ProbeFailed e \<Rightarrow>
             let k = count_of (hm_failCounts m) a + 1;
                 m1 = m\<lparr>hm_failCounts := tbl_put fst (a, k) (hm_failCounts m)\<rparr>
             in (m1, if k \<ge> hm_failThreshold m then markUnhealthy now a w else w)
         | ProbeAnswered resp \<Rightarrow>
             let m1 = m\<lparr>hm_failCounts := tbl_put fst (a, 0) (hm_failCounts m)\<rparr>;
                 w1 = mark now a True w
             in (case resp of
                   None \<Rightarrow> (m1, w1)
                 | Some (hb, v) \<Rightarrow>
                    let (m2, w2) = applyHeartbeat (gen a) now agent node hb (m1, w1)
                    in (m2, if v \<noteq> [] \<and> v \<noteq> na_AgentVersion agent
                            then fst (AgentRepo_UpdateAgentVersion a v w2) else w2)))))"

definition probeOnce ::
  "(string \<Rightarrow> string \<Rightarrow> probe) \<Rightarrow> (string \<Rightarrow> int) \<Rightarrow> time \<Rightarrow> HealthMonitor \<times> 'a ctl_scheme \<Rightarrow> HealthMonitor \<times> 'a ctl_scheme" where
  "probeOnce probe gen now s =
    (case AgentRepo_ListEnabledIDs (snd s) of
       Inl e \<Rightarrow> s
     | Inr ids \<Rightarrow> fold (probeAgent probe gen now) ids s)"

section \<open>Failures are debounced\<close>

lemma mark_agents:
  "t_agents (mark now a alive w) = (if db_fault w (AgentUpdate a) = None
     then tbl_upd (\<lambda>g. na_ID g = a) (\<lambda>g. g\<lparr>na_Alive := alive, na_LastHeartbeatAt := Some now\<rparr>) (t_agents w) else t_agents w)"
  "t_nodes (mark now a alive w) = t_nodes w" "db_fault (mark now a alive w) = db_fault w"
  by (simp_all add: mark_def AgentRepo_UpdateHealth_def fst_guard_write)

lemma markUnhealthy_agent:
  assumes "AgentRepo_GetByID a w = Inr agent" "db_fault w (AgentUpdate a) = None"
  shows "AgentRepo_GetByID a (markUnhealthy now a w) =
    Inr (agent\<lparr>na_Alive := False, na_LastHeartbeatAt := Some now, na_HealthStatus := HealthUnhealthy\<rparr>)"
  using assms
  by (simp add: markUnhealthy_def publishHealthChange_def AgentRepo_GetByID_def guard_call_def found_def
      AgentRepo_UpdateHealthStatus_def fst_guard_write mark_agents tbl_find_upd_key split: option.splits)

lemma probe_failed:
  assumes "AgentRepo_GetByID a w = Inr agent" "NodeRepo_GetByID (na_NodeId agent) w = Inr node"
    and "probe a (nd_Ip node @ '':'' @ show_int (na_Port agent)) = ProbeFailed e"
  shows "probeAgent probe gen now a (m, w) =
    (m\<lparr>hm_failCounts := tbl_put fst (a, count_of (hm_failCounts m) a + 1) (hm_failCounts m)\<rparr>,
     if count_of (hm_failCounts m) a + 1 \<ge> hm_failThreshold m then markUnhealthy now a w else w)"
  using assms by (simp add: probeAgent_def Let_def)

lemma probes_below_threshold:
  assumes "AgentRepo_GetByID a w = Inr agent" "NodeRepo_GetByID (na_NodeId agent) w = Inr node"
    and "probe a (nd_Ip node @ '':'' @ show_int (na_Port agent)) = ProbeFailed e"
    and "count_of (hm_failCounts m) a + int (length ts) < hm_failThreshold m"
  shows "snd (fold (\<lambda>t. probeAgent probe gen t a) ts (m, w)) = w \<and>
    hm_failThreshold (fst (fold (\<lambda>t. probeAgent probe gen t a) ts (m, w))) = hm_failThreshold m \<and>
    count_of (hm_failCounts (fst (fold (\<lambda>t. probeAgent probe gen t a) ts (m, w)))) a =
      count_of (hm_failCounts m) a + int (length ts)"
  using assms(4)
proof (induction ts arbitrary: m)
  case (Cons t ts)
  let ?m = "m\<lparr>hm_failCounts := tbl_put fst (a, count_of (hm_failCounts m) a + 1) (hm_failCounts m)\<rparr>"
  have "probeAgent probe gen t a (m, w) = (?m, w)" using probe_failed[where probe = probe and a = a, OF assms(1-3)] Cons.prems by simp
  moreover have "count_of (hm_failCounts ?m) a + int (length ts) < hm_failThreshold ?m" using Cons.prems by simp
  ultimately show ?case using Cons.IH[of ?m] by simp
qed simp

text \<open>A failing agent is left alone until the threshold: after fewer failed probes in a row nothing is
  written; the probe that reaches the threshold marks the agent unhealthy, and stamps the time of that
  failure as its last heartbeat, although no heartbeat came.\<close>

theorem probe_failures_debounced:
  assumes "AgentRepo_GetByID a w = Inr agent" "NodeRepo_GetByID (na_NodeId agent) w = Inr node"
    and "probe a (nd_Ip node @ '':'' @ show_int (na_Port agent)) = ProbeFailed e"
    and "count_of (hm_failCounts m) a = 0" "int (length ts) + 1 = hm_failThreshold m"
    and "db_fault w (AgentUpdate a) = None"
  shows "snd (fold (\<lambda>t. probeAgent probe gen t a) ts (m, w)) = w \<and>
    AgentRepo_GetByID a (snd (fold (\<lambda>t. probeAgent probe gen t a) (ts @ [now]) (m, w))) =
      Inr (agent\<lparr>na_Alive := False, na_LastHeartbeatAt := Some now, na_HealthStatus := HealthUnhealthy\<rparr>)"
proof -
  obtain m' w' where f: "fold (\<lambda>t. probeAgent probe gen t a) ts (m, w) = (m', w')" by fastforce
  have b: "w' = w \<and> hm_failThreshold m' = hm_failThreshold m \<and> count_of (hm_failCounts m') a = int (length ts)"
    using probes_below_threshold[where probe = probe and a = a, OF assms(1-3), of m ts gen] assms(4,5) f by simp
  have "AgentRepo_GetByID a (snd (probeAgent probe gen now a (m', w))) =
      Inr (agent\<lparr>na_Alive := False, na_LastHeartbeatAt := Some now, na_HealthStatus := HealthUnhealthy\<rparr>)"
    using probe_failed[where probe = probe and a = a, OF assms(1-3), of gen now m'] b assms(5) markUnhealthy_agent[OF assms(1,6)] by simp
  then show ?thesis using f b by simp
qed

theorem probe_failures_debounced_witness:
  "AgentRepo_GetByID ''a1'' (snd (fold (\<lambda>t. probeAgent (\<lambda>a addr. ProbeFailed ErrCanceled) (\<lambda>a. 1) t ''a1'') ([10] @ [20])
     (NewNodeAgentHealthMonitor 2 85, ex_disp))) =
   Inr (ex_agent\<lparr>na_Alive := False, na_LastHeartbeatAt := Some 20, na_HealthStatus := HealthUnhealthy\<rparr>)"
proof -
  have "AgentRepo_GetByID ''a1'' ex_disp = Inr ex_agent" "NodeRepo_GetByID (na_NodeId ex_agent) ex_disp = Inr ex_node"
    by (simp_all add: AgentRepo_GetByID_def NodeRepo_GetByID_def guard_call_def found_def table_simps)
  from probe_failures_debounced[where probe = "\<lambda>a addr. ProbeFailed ErrCanceled" and e = ErrCanceled, OF this,
      of "NewNodeAgentHealthMonitor 2 85" "[10]" "\<lambda>a. 1" 20] show ?thesis
    by (simp add: NewNodeAgentHealthMonitor_def count_of_def)
qed

section \<open>The recorded usage\<close>

lemma used_of_bounds:
  assumes "0 \<le> c" "100 * c \<le> 2 ^ 53" "0 \<le> p" "p \<le> 100"
  shows "used_of c p \<in> {0..c}"
proof -
  have c: "f64 c = of_int c" using assms(1,2) by (simp add: f64_exact)
  have "fmul (of_int c) p \<le> fmul (of_int c) 100" using assms by (intro fmul_mono_right) auto
  also have "\<dots> = of_int (c * 100)" using assms(1,2) f64_round_int[of "c * 100"] by (simp add: fmul_def)
  finally have m: "fmul (of_int c) p \<le> of_int (c * 100)" .
  have m0: "0 \<le> fmul (of_int c) p" using assms by (intro fmul_nonneg) auto
  let ?x = "fdiv (fmul (f64 c) p) 100"
  have "fmul (of_int c) p / 100 \<le> of_int c" using m by simp
  then have x: "?x \<le> of_int c" unfolding fdiv_def c using assms(1,2) by (intro f64_round_le_int) auto
  have x0: "0 \<le> ?x" unfolding c using m0 by (intro fdiv_nonneg) auto
  have "(of_int c :: rat) < 2 ^ 63"
  proof -
    have "c < 2 ^ 63" using assms(1,2) by simp
    then have "(of_int c :: rat) < of_int (2 ^ 63)" by (simp only: of_int_less_iff)
    then show ?thesis by simp
  qed
  then have "used_of c p = \<lfloor>?x\<rfloor>" unfolding used_of_def using x x0 by (intro ftrunc_nonneg_floor) auto
  moreover have "0 \<le> \<lfloor>?x\<rfloor>" "\<lfloor>?x\<rfloor> \<le> c" using x0 x by (simp, linarith)
  ultimately show ?thesis by simp
qed

text \<open>What a heartbeat records lies between zero and the capacity of the node, for every percentage from
  0 to 100 and every capacity up to 2^53 / 100 units: the conversion through floating point neither
  exceeds the capacity nor becomes negative.\<close>

theorem heartbeat_usage_bounds:
  assumes "{hb_CpuUsagePct hb, hb_MemoryUsagePct hb, hb_DiskUsagePct hb} \<subseteq> {0..100}"
    and "{100 * cpuCapacityMilli n, 100 * memoryCapacityBytes n, 100 * diskCapacityBytes n} \<subseteq> {0..2 ^ 53}"
  shows "du_CPUUsedMilli (usage_of n hb) \<in> {0..cpuCapacityMilli n} \<and>
    du_MemoryUsedBytes (usage_of n hb) \<in> {0..memoryCapacityBytes n} \<and>
    du_DiskUsedBytes (usage_of n hb) \<in> {0..diskCapacityBytes n}"
proof -
  have "used_of (cpuCapacityMilli n) (hb_CpuUsagePct hb) \<in> {0..cpuCapacityMilli n}"
    "used_of (memoryCapacityBytes n) (hb_MemoryUsagePct hb) \<in> {0..memoryCapacityBytes n}"
    "used_of (diskCapacityBytes n) (hb_DiskUsagePct hb) \<in> {0..diskCapacityBytes n}"
    using assms by (intro used_of_bounds; simp)+
  then show ?thesis by (simp add: usage_of_def)
qed

theorem heartbeat_usage_bounds_witness:
  "du_CPUUsedMilli (usage_of ex_node \<lparr> hb_CpuUsagePct = 100, hb_MemoryUsagePct = 1 / 4, hb_DiskUsagePct = 0,
     hb_NetRxBps = 0, hb_NetTxBps = 0, hb_InstanceRuntime = [] \<rparr>) \<in> {0..8000}"
  using heartbeat_usage_bounds[of "\<lparr> hb_CpuUsagePct = 100, hb_MemoryUsagePct = 1 / 4, hb_DiskUsagePct = 0,
     hb_NetRxBps = 0, hb_NetTxBps = 0, hb_InstanceRuntime = [] \<rparr>" ex_node]
  by (simp add: cpuCapacityMilli_def memoryCapacityBytes_def diskCapacityBytes_def mebibyte_def wrap64_id in_i64_def)

section \<open>The scope of a report\<close>

lemma find_app: "find P (xs @ ys) = (case find P xs of None \<Rightarrow> find P ys | Some x \<Rightarrow> Some x)"
  by (induction xs) auto

lemma map_of_fold_put:
  "map_of (fold (\<lambda>s. tbl_put fst (key s, s)) ss m) k =
     (case find (\<lambda>s. key s = k) (rev ss) of Some s \<Rightarrow> Some s | None \<Rightarrow> map_of m k)"
  by (induction ss arbitrary: m) (auto simp: map_of_tbl_put find_app split: option.splits)

lemma map_of_tbl_del_keys: "map_of (tbl_del (\<lambda>p. fst p \<in> A) m) k = (if k \<in> A then None else map_of m k)"
  by (induction m) (auto simp: tbl_del_def)

text \<open>After a node's report the registry answers with the newest statistics of every reported instance,
  with none for an instance that only the node's previous report had, and as before for all others.
  The scope is the instance, not the node: a report that drops an instance also removes what another
  node has reported for it since.\<close>

theorem UpdateForNode_scope:
  "Registry_Get k (UpdateForNode node stats r) =
     (if k \<in> ir_InstanceID ` set stats then find (\<lambda>s. ir_InstanceID s = k) (rev stats)
      else if \<exists>prev. map_of (rr_nodes r) node = Some prev \<and> k \<in> set prev then None
      else Registry_Get k r)"
proof -
  let ?prev = "case map_of (rr_nodes r) node of None \<Rightarrow> [] | Some prev \<Rightarrow> prev"
  have n: "find (\<lambda>s. ir_InstanceID s = k) (rev stats) = None \<longleftrightarrow> k \<notin> ir_InstanceID ` set stats"
    by (auto simp: find_None_iff)
  have "Registry_Get k (UpdateForNode node stats r) =
      (if k \<in> set (filter (\<lambda>k. k \<notin> set (map ir_InstanceID stats)) ?prev) then None
       else case find (\<lambda>s. ir_InstanceID s = k) (rev stats) of Some s \<Rightarrow> Some s | None \<Rightarrow> map_of (rr_stats r) k)"
    by (simp add: Registry_Get_def UpdateForNode_def Let_def map_of_tbl_del_keys map_of_fold_put del: set_filter)
  then show ?thesis using n by (auto simp: Registry_Get_def split: option.splits)
qed

end
