(* ===== verification/Agent_Update.thy ===== *)
theory Agent_Update
  imports Health
begin

text \<open>
  Updating node agents: the release list (\<open>biz/agent_release_use_case.go\<close>,
  \<open>gorm/agent_release_repo.go\<close>), the orchestration of an update
  (\<open>biz/node_agent_update_orchestrator.go\<close>) and the reconciler that ends updates left
  behind (\<open>biz/node_agent_update_reconciler.go\<close>).  The table of releases is an argument of its
  own.  The agent's answer and what happens to the data base between two polls are
  parameters; the commands an update sends are returned, so the guards can be stated.
\<close>

section \<open>Releases\<close>

record AgentRelease =
  ar_ID :: string
  ar_Version :: string
  ar_OS :: string
  ar_Arch :: string
  ar_SHA256 :: string
  ar_SizeBytes :: int
  ar_Bucket :: string
  ar_StorageKey :: string
  ar_Note :: string
  ar_CreatedBy :: string
  ar_CreatedAt :: time

type_synonym releases = "AgentRelease list"

definition ReleaseRepo_Save :: "AgentRelease \<Rightarrow> releases \<Rightarrow> 'a db_scheme \<Rightarrow> releases \<times> gerr option" where
  "ReleaseRepo_Save r rs w =
    (case db_fault w (Call ''ReleaseSave'' [ar_ID r]) of
       Some t \<Rightarrow> (rs, Some (DbErr t)) | None \<Rightarrow> (tbl_put ar_ID r rs, None))"

definition ReleaseRepo_GetByID :: "string \<Rightarrow> releases \<Rightarrow> 'a db_scheme \<Rightarrow> gerr + AgentRelease" where
  "ReleaseRepo_GetByID ident rs w = guard_call w (Call ''ReleaseGet'' [ident]) (found (tbl_find ar_ID ident rs))"

definition ReleaseRepo_ListAll :: "releases \<Rightarrow> 'a db_scheme \<Rightarrow> gerr + releases" where
  "ReleaseRepo_ListAll rs w = guard_call w (Call ''ReleaseList'' []) (Inr (rev (sort_key ar_CreatedAt rs)))"

definition ReleaseRepo_GetByVersionOSArch ::
  "string \<Rightarrow> string \<Rightarrow> string \<Rightarrow> releases \<Rightarrow> 'a db_scheme \<Rightarrow> gerr + AgentRelease" where
  "ReleaseRepo_GetByVersionOSArch v os arch rs w = guard_call w (Call ''ReleaseGetBy'' [v, os, arch])
     (found (find (\<lambda>r. ar_Version r = v \<and> ar_OS r = os \<and> ar_Arch r = arch) rs))"

text \<open>The pattern \<open>^v[0-9]+\.[0-9]+\.[0-9]+(-[A-Za-z0-9.]+)?$\<close>.\<close>

definition is_alnum :: "char \<Rightarrow> bool" where
  "is_alnum c \<longleftrightarrow> is_digit c \<or> (let n = of_char c :: nat in 65 \<le> n \<and> n \<le> 90 \<or> 97 \<le> n \<and> n \<le> 122)"

definition suffix_ok :: "string \<Rightarrow> bool" where
  "suffix_ok s \<longleftrightarrow> s = [] \<or> (hd s = CHR ''-'' \<and> tl s \<noteq> [] \<and> list_all (\<lambda>c. is_alnum c \<or> c = CHR ''.'') (tl s))"

fun parts_ok :: "nat \<Rightarrow> string \<Rightarrow> bool" where
  "parts_ok 0 s = (takeWhile is_digit s \<noteq> [] \<and> suffix_ok (dropWhile is_digit s))"
| "parts_ok (Suc k) s =
    (takeWhile is_digit s \<noteq> [] \<and>
     (case dropWhile is_digit s of [] \<Rightarrow> False | c # r \<Rightarrow> c = CHR ''.'' \<and> parts_ok k r))"

definition version_ok :: "string \<Rightarrow> bool" where
  "version_ok s \<longleftrightarrow> (case s of [] \<Rightarrow> False | c # r \<Rightarrow> c = CHR ''v'' \<and> parts_ok 2 r)"

record RegisterParams =
  rp_Version :: string
  rp_OS :: string
  rp_Arch :: string
  rp_Note :: string
  rp_ByUser :: string

datatype read_end = ReadMore | ReadEOF | ReadErr gerr

record upload_resp =
  ur_Sha256 :: string
  ur_SizeBytes :: int
  ur_Bucket :: string
  ur_ObjectKey :: string

text \<open>The loop over the body: a result of \<open>Read\<close> is the bytes and how it ended; \<open>send\<close> answers the message
  of the given number.  The second result is the chunks sent.\<close>

fun upload_loop :: "(nat \<Rightarrow> gerr option) \<Rightarrow> nat \<Rightarrow> (string \<times> read_end) list \<Rightarrow> gerr option \<times> string list" where
  "upload_loop send n [] = (None, [])"
| "upload_loop send n ((bytes, e) # rs) =
    (if bytes \<noteq> [] \<and> send n \<noteq> None then (Some (Wrapped ''send release chunk: '' (the (send n)) []), [])
     else let (n', out) = (if bytes \<noteq> [] then (Suc n, [bytes]) else (n, [])) in
       (case e of
          ReadEOF \<Rightarrow> (None, out)
        | ReadErr err \<Rightarrow> (Some (Wrapped ''read upload body: '' err []), out)
        | ReadMore \<Rightarrow> let (r, out') = upload_loop send n' rs in (r, out @ out')))"

text \<open>\<open>canon\<close> stands for \<open>strings.ToLower(strings.TrimSpace(s))\<close> with its Unicode tables.\<close>

definition Register ::
  "(string \<Rightarrow> string) \<Rightarrow> gerr option \<Rightarrow> gerr option \<Rightarrow> (nat \<Rightarrow> gerr option) \<Rightarrow> (string list \<Rightarrow> gerr + upload_resp) \<Rightarrow> string \<Rightarrow> time
   \<Rightarrow> RegisterParams \<Rightarrow> (string \<times> read_end) list option \<Rightarrow> releases \<Rightarrow> 'a db_scheme \<Rightarrow> releases \<times> (gerr + AgentRelease)" where
  "Register canon open_err head_err send recv ident now p body rs w =
    (if \<not> version_ok (rp_Version p) then (rs, Inl (Errorf ''invalid version (expect vX.Y.Z)''))
     else let os = canon (rp_OS p); arch = canon (rp_Arch p) in
     if os \<notin> {''linux'', ''windows''} \<or> arch \<notin> {''amd64'', ''arm64''} then (rs, Inl (Errorf msg_rel_target))
     else case body of
       None \<Rightarrow> (rs, Inl (Errorf ''release body is required''))
     | Some reads \<Rightarrow>
      (case ReleaseRepo_GetByVersionOSArch (rp_Version p) os arch rs w of
         Inr old \<Rightarrow> (rs, Inl (Errorf (''release '' @ rp_Version p @ '' '' @ os @ ''/'' @ arch @ msg_rel_exists @
                       ar_ID old @ msg_rel_exists2)))
       | Inl e \<Rightarrow>
         if \<not> errors_is e ErrRecordNotFound then (rs, Inl e)
         else case open_err of
           Some e \<Rightarrow> (rs, Inl (Wrapped ''open release upload: '' e []))
         | None \<Rightarrow>
          (case head_err of
            Some e \<Rightarrow> (rs, Inl (Wrapped ''send release header: '' e []))
          | None \<Rightarrow>
            (case upload_loop send 0 reads of
               (Some e, out) \<Rightarrow> (rs, Inl e)
             | (None, out) \<Rightarrow>
               (case recv out of
                  Inl e \<Rightarrow> (rs, Inl (Wrapped msg_rel_recv e []))
                | Inr resp \<Rightarrow>
                  let r = \<lparr> ar_ID = ident, ar_Version = rp_Version p, ar_OS = os, ar_Arch = arch,
                            ar_SHA256 = ur_Sha256 resp, ar_SizeBytes = wrap64 (ur_SizeBytes resp),
                            ar_Bucket = ur_Bucket resp, ar_StorageKey = ur_ObjectKey resp, ar_Note = rp_Note p,
                            ar_CreatedBy = rp_ByUser p, ar_CreatedAt = now \<rparr>
                  in if ar_SHA256 r = [] \<or> ar_StorageKey r = [] then (rs, Inl (Errorf msg_rel_missing))
                     else case ReleaseRepo_Save r rs w of
                            (rs', Some e) \<Rightarrow> (rs', Inl e)
                          | (rs', None) \<Rightarrow> (rs', Inr r))))))"

definition Release_List :: "releases \<Rightarrow> 'a db_scheme \<Rightarrow> gerr + releases" where
  "Release_List rs w = ReleaseRepo_ListAll rs w"

definition Release_Get :: "string \<Rightarrow> releases \<Rightarrow> 'a db_scheme \<Rightarrow> gerr + AgentRelease" where
  "Release_Get ident rs w =
    (case ReleaseRepo_GetByID ident rs w of
       Inl e \<Rightarrow> Inl (if errors_is e ErrRecordNotFound then Errorf ''release not found'' else e)
     | Inr r \<Rightarrow> Inr r)"

section \<open>The orchestration of an update\<close>

record NodeAgentUpdateTarget =
  ut_AgentID :: string
  ut_ReleaseID :: string

record NodeAgentUpdateResult =
  up_AgentID :: string
  up_OK :: bool
  up_Skipped :: bool
  up_Reason :: string
  up_TargetVer :: string
  up_CurrentVer :: string

text \<open>\<open>UpdateNodeAgentRequest\<close> and the answer's state and message.\<close>

record UpdateNodeAgentRequest =
  uq_Version :: string
  uq_Sha256 :: string
  uq_SizeBytes :: int
  uq_Bucket :: string
  uq_ObjectKey :: string

definition isActiveInstanceStatus :: "InstanceStatus \<Rightarrow> bool" where
  "isActiveInstanceStatus s \<longleftrightarrow> s \<in> {StatusPending, StatusScheduling, StatusPreparingBuild, StatusRestoringSnapshot,
     StatusStarting, StatusRunning, StatusStopping, StatusCleaning, StatusQueued, StatusCacheWarming}"

definition StateIdle :: string where "StateIdle = ''idle''"
definition StateDownloading :: string where "StateDownloading = ''downloading''"
definition StateRebooting :: string where "StateRebooting = ''rebooting''"
definition StateUpdated :: string where "StateUpdated = ''updated''"
definition StateFailed :: string where "StateFailed = ''failed''"

definition update_result :: "string \<Rightarrow> bool \<Rightarrow> bool \<Rightarrow> string \<Rightarrow> string \<Rightarrow> string \<Rightarrow> NodeAgentUpdateResult" where
  "update_result a ok skipped current target reason =
    \<lparr> up_AgentID = a, up_OK = ok, up_Skipped = skipped, up_Reason = reason, up_TargetVer = target, up_CurrentVer = current \<rparr>"

definition activeInstancesOnAgent :: "string \<Rightarrow> 'a db_scheme \<Rightarrow> gerr + string list" where
  "activeInstancesOnAgent a w =
    (case InstanceRepo_ListAll w of
       Inl e \<Rightarrow> Inl e
     | Inr is \<Rightarrow> Inr (map gi_ID (filter (\<lambda>i. gi_NodeAgentID i = Some a \<and> isActiveInstanceStatus (gi_Status i)) is)))"

definition update_fail :: "time \<Rightarrow> string \<Rightarrow> string \<Rightarrow> string \<Rightarrow> 'a db_scheme \<Rightarrow> 'a db_scheme" where
  "update_fail now a target reason w = fst (AgentRepo_UpdateUpdateState now a StateFailed target reason w)"

text \<open>The polls until the deadline: before each one others change the data base.\<close>

fun await_version ::
  "string \<Rightarrow> string \<Rightarrow> (time \<times> ('a db_scheme \<Rightarrow> 'a db_scheme)) list \<Rightarrow> time \<Rightarrow> 'a db_scheme \<Rightarrow> 'a db_scheme \<times> NodeAgentUpdateResult" where
  "await_version a version [] end w =
     (update_fail end a version msg_upd_timeout w, update_result a False False [] version msg_upd_timeout)"
| "await_version a version ((now, others) # polls) end w =
    (let w1 = others w in
     case AgentRepo_GetByID a w1 of
       Inl e \<Rightarrow> await_version a version polls end w1
     | Inr cur \<Rightarrow>
        if na_AgentVersion cur = version
        then (fst (AgentRepo_UpdateUpdateState now a StateUpdated version [] w1),
              update_result a True False version version msg_upd_done)
        else await_version a version polls end w1)"

text \<open>From the command on: the state is already \<open>downloading\<close>.\<close>

definition send_update ::
  "(string \<Rightarrow> string \<Rightarrow> gerr option) \<Rightarrow> (UpdateNodeAgentRequest \<Rightarrow> gerr + (string \<times> string) option)
   \<Rightarrow> time \<Rightarrow> (time \<times> ('a db_scheme \<Rightarrow> 'a db_scheme)) list \<Rightarrow> time \<Rightarrow> NodeAgent \<Rightarrow> AgentRelease \<Rightarrow> 'a db_scheme
   \<Rightarrow> 'a db_scheme \<times> NodeAgentUpdateResult \<times> UpdateNodeAgentRequest list" where
  "send_update connect call now polls end agent release w =
    (let a = na_ID agent; v = ar_Version release;
         failed = (\<lambda>reason. (update_fail now a v reason w, update_result a False False [] v reason)) in
     case NodeRepo_GetByID (na_NodeId agent) w of
       Inl e \<Rightarrow> (let (w1, r) = failed (''load node: '' @ error_text e) in (w1, r, []))
     | Inr node \<Rightarrow>
      (case connect a (nd_Ip node @ '':'' @ show_int (na_Port agent)) of
         Some e \<Rightarrow> (let (w1, r) = failed (''connect node_agent: '' @ error_text e) in (w1, r, []))
       | None \<Rightarrow>
          let req = \<lparr> uq_Version = v, uq_Sha256 = ar_SHA256 release, uq_SizeBytes = ar_SizeBytes release,
                      uq_Bucket = ar_Bucket release, uq_ObjectKey = ar_StorageKey release \<rparr> in
          (case call req of
             Inl e \<Rightarrow> (let (w1, r) = failed (msg_upd_send @ error_text e) in (w1, r, [req]))
           | Inr None \<Rightarrow> (let (w1, r) = failed msg_upd_rejected in (w1, r, [req]))
           | Inr (Some (state, msg)) \<Rightarrow>
               if state = StateFailed then (let (w1, r) = failed msg in (w1, r, [req]))
               else let w1 = fst (AgentRepo_UpdateUpdateState now a StateRebooting v [] w);
                        (w2, r) = await_version a v polls end w1
                    in (w2, r, [req]))))"

definition updateOne ::
  "(string \<Rightarrow> string \<Rightarrow> gerr option) \<Rightarrow> (UpdateNodeAgentRequest \<Rightarrow> gerr + (string \<times> string) option)
   \<Rightarrow> time \<Rightarrow> (time \<times> ('a db_scheme \<Rightarrow> 'a db_scheme)) list \<Rightarrow> time \<Rightarrow> releases \<Rightarrow> NodeAgentUpdateTarget \<Rightarrow> 'a db_scheme
   \<Rightarrow> 'a db_scheme \<times> NodeAgentUpdateResult \<times> UpdateNodeAgentRequest list" where
  "updateOne connect call now polls end rs t w =
    (let a = ut_AgentID t in
     case AgentRepo_GetByID a w of
       Inl e \<Rightarrow> (w, update_result a False False [] []
                   (if errors_is e ErrRecordNotFound then msg_upd_no_agent else ''load node_agent: '' @ error_text e), [])
     | Inr agent \<Rightarrow>
      (case ReleaseRepo_GetByID (ut_ReleaseID t) rs w of
         Inl e \<Rightarrow> (w, update_result a False False (na_AgentVersion agent) [] (msg_upd_no_release @ ut_ReleaseID t), [])
       | Inr release \<Rightarrow>
          let cur = na_AgentVersion agent; v = ar_Version release;
              skip = (\<lambda>ok reason. (w, update_result a ok True cur v reason, [])) in
          if \<not> na_Alive agent then skip False msg_upd_lost
          else if na_UpdateState agent \<notin> {[], StateIdle, StateUpdated, StateFailed}
          then skip False (msg_upd_busy @ na_UpdateState agent @ msg_close_paren)
          else if cur = v then skip True msg_upd_latest
          else case activeInstancesOnAgent a w of
            Inl e \<Rightarrow> (w, update_result a False False cur v (msg_upd_check @ error_text e), [])
          | Inr [] \<Rightarrow>
             (case AgentRepo_UpdateUpdateState now a StateDownloading v [] w of
                (w1, Some e) \<Rightarrow> (w1, update_result a False False [] [] (msg_upd_save @ error_text e), [])
              | (w1, None) \<Rightarrow> send_update connect call now polls end agent release w1)
          | Inr (i # is) \<Rightarrow>
              skip False (msg_upd_active1 @ show_int (int (length (i # is))) @ msg_upd_active2 @ i @ msg_upd_active3)))"

text \<open>A batch, one agent after the other; each has its own answers and polls.\<close>

fun Update ::
  "(string \<Rightarrow> string \<Rightarrow> gerr option) \<Rightarrow> (string \<Rightarrow> UpdateNodeAgentRequest \<Rightarrow> gerr + (string \<times> string) option)
   \<Rightarrow> (nat \<Rightarrow> time) \<Rightarrow> (nat \<Rightarrow> (time \<times> ('a db_scheme \<Rightarrow> 'a db_scheme)) list) \<Rightarrow> (nat \<Rightarrow> time) \<Rightarrow> nat \<Rightarrow> releases
   \<Rightarrow> NodeAgentUpdateTarget list \<Rightarrow> 'a db_scheme \<Rightarrow> 'a db_scheme \<times> NodeAgentUpdateResult list" where
  "Update connect call now polls end k rs [] w = (w, [])"
| "Update connect call now polls end k rs (t # ts) w =
    (let (w1, r, sent) = updateOne connect (call (ut_AgentID t)) (now k) (polls k) (end k) rs t w;
         (w2, out) = Update connect call now polls end (Suc k) rs ts w1
     in (w2, r # out))"

section \<open>The reconciler\<close>

definition resolveStaleUpdateState :: "NodeAgent \<Rightarrow> time \<Rightarrow> duration \<Rightarrow> (string \<times> string) option" where
  "resolveStaleUpdateState a now wait =
    (if na_UpdateState a \<noteq> StateDownloading \<and> na_UpdateState a \<noteq> StateRebooting then None
     else if na_TargetVersion a \<noteq> [] \<and> na_AgentVersion a = na_TargetVersion a then Some (StateUpdated, [])
     else (case na_LastUpdateAt a of
             None \<Rightarrow> None
           | Some t \<Rightarrow> if now - t > wait then Some (StateFailed, msg_upd_stale) else None))"

definition reconcile_agent :: "duration \<Rightarrow> time \<Rightarrow> NodeAgent \<Rightarrow> 'a db_scheme \<Rightarrow> 'a db_scheme" where
  "reconcile_agent wait now a w =
    (case resolveStaleUpdateState a now wait of
       None \<Rightarrow> w
     | Some (st, reason) \<Rightarrow>
        if st = StateUpdated then fst (AgentRepo_UpdateUpdateState now (na_ID a) StateUpdated (na_TargetVersion a) [] w)
        else fst (AgentRepo_UpdateUpdateState now (na_ID a) StateFailed (na_TargetVersion a) reason w))"

definition update_ReconcileOnce :: "duration \<Rightarrow> time \<Rightarrow> 'a db_scheme \<Rightarrow> 'a db_scheme \<times> gerr option" where
  "update_ReconcileOnce wait now w =
    (case AgentRepo_ListAll w of
       Inl e \<Rightarrow> (w, Some e)
     | Inr as \<Rightarrow> (fold (reconcile_agent wait now) as w, None))"

section \<open>When a command is sent\<close>

text \<open>C21: an agent is told to update only if it is alive, no update of it is under way, its version differs
  from the release, and no instance bound to it is active; the command carries the release's version,
  hash and object, and nothing is sent twice.\<close>

theorem updateOne_guarded:
  assumes "updateOne connect call now polls end rs t w = (w', r, sent)" "sent \<noteq> []"
  shows "\<exists>agent release. AgentRepo_GetByID (ut_AgentID t) w = Inr agent \<and>
    ReleaseRepo_GetByID (ut_ReleaseID t) rs w = Inr release \<and> na_Alive agent \<and>
    na_UpdateState agent \<in> {[], StateIdle, StateUpdated, StateFailed} \<and> na_AgentVersion agent \<noteq> ar_Version release \<and>
    filter (\<lambda>i. gi_NodeAgentID i = Some (ut_AgentID t) \<and> IsActive (gi_Status i)) (t_instances w) = [] \<and>
    sent = [\<lparr> uq_Version = ar_Version release, uq_Sha256 = ar_SHA256 release, uq_SizeBytes = ar_SizeBytes release,
              uq_Bucket = ar_Bucket release, uq_ObjectKey = ar_StorageKey release \<rparr>]"
proof -
  have act: "isActiveInstanceStatus s \<longleftrightarrow> IsActive s" for s
    by (cases s) (simp_all add: isActiveInstanceStatus_def IsActive_def)
  obtain agent release w1 where g: "AgentRepo_GetByID (ut_AgentID t) w = Inr agent"
      "ReleaseRepo_GetByID (ut_ReleaseID t) rs w = Inr release" "na_Alive agent"
      "na_UpdateState agent \<in> {[], StateIdle, StateUpdated, StateFailed}" "na_AgentVersion agent \<noteq> ar_Version release"
      "activeInstancesOnAgent (ut_AgentID t) w = Inr []"
      "send_update connect call now polls end agent release w1 = (w', r, sent)"
    using assms by (auto simp: updateOne_def Let_def split: sum.splits if_splits list.splits prod.splits option.splits)
  have "filter (\<lambda>i. gi_NodeAgentID i = Some (ut_AgentID t) \<and> IsActive (gi_Status i)) (t_instances w) = []"
    using g(6) by (auto simp: activeInstancesOnAgent_def InstanceRepo_ListAll_def act filter_empty_conv split: sum.splits)
  moreover have "sent = [\<lparr> uq_Version = ar_Version release, uq_Sha256 = ar_SHA256 release, uq_SizeBytes = ar_SizeBytes release,
              uq_Bucket = ar_Bucket release, uq_ObjectKey = ar_StorageKey release \<rparr>]"
    using g(7) assms(2) by (auto simp: send_update_def Let_def split: sum.splits option.splits if_splits prod.splits)
  ultimately show ?thesis using g by blast
qed

section \<open>No update stays under way\<close>

lemma fold_upd_map:
  assumes "\<And>r x. key (g r x) = key x" "tbl_ok key (ps @ ys)"
  shows "fold (\<lambda>r. tbl_upd (\<lambda>x. key x = key r) (g r)) ys (ps @ ys) = ps @ map (\<lambda>r. g r r) ys"
  using assms(2)
proof (induction ys arbitrary: ps)
  case (Cons y ys)
  have n: "tbl_upd (\<lambda>x. key x = key y) (g y) zs = zs" if "key y \<notin> key ` set zs" for zs
    using that by (intro tbl_upd_none) (metis imageI)
  have "key y \<notin> key ` set ps" "key y \<notin> key ` set ys" using Cons.prems by (auto simp: tbl_ok_def)
  then have u: "tbl_upd (\<lambda>x. key x = key y) (g y) (ps @ y # ys) = (ps @ [g y y]) @ ys"
    using n[of ps] n[of ys] by (simp add: tbl_upd_def)
  have "tbl_ok key ((ps @ [g y y]) @ ys)" using Cons.prems assms(1) by (simp add: tbl_ok_def)
  then show ?case using Cons.IH[of "ps @ [g y y]"] by (simp only: u fold.simps comp_apply) simp
qed simp

definition resolved :: "duration \<Rightarrow> time \<Rightarrow> NodeAgent \<Rightarrow> NodeAgent" where
  "resolved wait now a =
    (case resolveStaleUpdateState a now wait of
       None \<Rightarrow> a
     | Some (st, reason) \<Rightarrow> a\<lparr>na_UpdateState := st, na_LastUpdateErr := reason, na_LastUpdateAt := Some now\<rparr>)"

lemma states_distinct [simp]:
  "StateUpdated \<noteq> StateDownloading" "StateUpdated \<noteq> StateRebooting" "StateFailed \<noteq> StateDownloading"
  "StateFailed \<noteq> StateRebooting" "StateFailed \<noteq> StateUpdated"
  by (simp_all add: StateUpdated_def StateDownloading_def StateRebooting_def StateFailed_def)

lemma resolved_rests: "resolveStaleUpdateState (resolved wait now a) now' wait' = None
    \<or> resolved wait now a = a \<and> resolveStaleUpdateState a now wait = None"
  by (auto simp: resolved_def resolveStaleUpdateState_def split: option.splits if_splits)

lemma reconcile_agent_upd:
  "db_fault w (AgentUpdate (na_ID a)) = None \<Longrightarrow>
   reconcile_agent wait now a w = w\<lparr>t_agents := tbl_upd (\<lambda>x. na_ID x = na_ID a)
     (\<lambda>x. case resolveStaleUpdateState a now wait of
        None \<Rightarrow> x
      | Some (st, reason) \<Rightarrow> x\<lparr>na_UpdateState := st, na_TargetVersion := na_TargetVersion a,
           na_LastUpdateErr := reason, na_LastUpdateAt := Some now\<rparr>) (t_agents w)\<rparr>"
proof (cases "resolveStaleUpdateState a now wait")
  case None
  then show ?thesis by (simp add: reconcile_agent_def tbl_upd_def)
next
  case (Some r)
  moreover have "r \<in> {(StateUpdated, []), (StateFailed, msg_upd_stale)}"
    using Some by (auto simp: resolveStaleUpdateState_def split: if_splits option.splits)
  ultimately show "db_fault w (AgentUpdate (na_ID a)) = None \<Longrightarrow> ?thesis"
    by (auto simp: reconcile_agent_def AgentRepo_UpdateUpdateState_def guard_write_def)
qed

lemma ReconcileOnce_resolves:
  assumes "\<And>c. db_fault w c = None" "tbl_ok na_ID (t_agents w)"
  shows "update_ReconcileOnce wait now w = (w\<lparr>t_agents := map (resolved wait now) (t_agents w)\<rparr>, None)"
proof -
  let ?g = "\<lambda>a x. case resolveStaleUpdateState a now wait of
        None \<Rightarrow> x
      | Some (st, reason) \<Rightarrow> x\<lparr>na_UpdateState := st, na_TargetVersion := na_TargetVersion a,
           na_LastUpdateErr := reason, na_LastUpdateAt := Some now\<rparr>"
  have k: "na_ID (?g a x) = na_ID x" for a and x :: NodeAgent by (simp split: option.split prod.split)
  have f: "fold (reconcile_agent wait now) as (w\<lparr>t_agents := xs\<rparr>) =
      w\<lparr>t_agents := fold (\<lambda>a. tbl_upd (\<lambda>x. na_ID x = na_ID a) (?g a)) as xs\<rparr>" for as xs
    using assms(1) by (induction as arbitrary: xs) (simp_all add: reconcile_agent_upd)
  have "?g a a = resolved wait now a" for a by (simp add: resolved_def split: option.split prod.split)
  then have "fold (reconcile_agent wait now) (t_agents w) w = w\<lparr>t_agents := map (resolved wait now) (t_agents w)\<rparr>"
    using f[of "t_agents w" "t_agents w"] fold_upd_map[where key = na_ID and g = ?g and ps = "[]" and ys = "t_agents w", OF k] assms(2)
    by simp
  then show ?thesis using assms(1) by (simp add: update_ReconcileOnce_def AgentRepo_ListAll_def guard_call_def)
qed

text \<open>C32: a round of the reconciler decides every agent's update and nothing else: an agent without an
  update under way keeps its row; one that runs its target version becomes updated; one whose last change
  of state is longer ago than the timeout becomes failed, with the reason; any other (still in time, or
  without a recorded change) keeps its row.  No other table and no other column changes, and the same round
  again changes nothing.\<close>

theorem reconciler_ends_updates:
  assumes "\<forall>c. db_fault w c = None" "tbl_ok na_ID (t_agents w)"
  shows "\<exists>as. update_ReconcileOnce wait now w = (w\<lparr>t_agents := as\<rparr>, None) \<and>
    update_ReconcileOnce wait now (w\<lparr>t_agents := as\<rparr>) = (w\<lparr>t_agents := as\<rparr>, None) \<and>
    list_all2 (\<lambda>a b.
      b = (if na_UpdateState a \<notin> {''downloading'', ''rebooting''} then a
           else if na_TargetVersion a \<noteq> [] \<and> na_AgentVersion a = na_TargetVersion a
             then a\<lparr>na_UpdateState := ''updated'', na_LastUpdateErr := [], na_LastUpdateAt := Some now\<rparr>
           else if \<exists>t. na_LastUpdateAt a = Some t \<and> wait < now - t
             then a\<lparr>na_UpdateState := ''failed'', na_LastUpdateErr := msg_upd_stale, na_LastUpdateAt := Some now\<rparr>
           else a)) (t_agents w) as"
proof -
  let ?r = "resolved wait now"
  have s: "?r a = (if na_UpdateState a \<notin> {''downloading'', ''rebooting''} then a
           else if na_TargetVersion a \<noteq> [] \<and> na_AgentVersion a = na_TargetVersion a
             then a\<lparr>na_UpdateState := ''updated'', na_LastUpdateErr := [], na_LastUpdateAt := Some now\<rparr>
           else if \<exists>t. na_LastUpdateAt a = Some t \<and> wait < now - t
             then a\<lparr>na_UpdateState := ''failed'', na_LastUpdateErr := msg_upd_stale, na_LastUpdateAt := Some now\<rparr>
           else a)" for a
    by (simp add: resolved_def resolveStaleUpdateState_def StateUpdated_def StateFailed_def StateDownloading_def
        StateRebooting_def split: option.split)
  have "?r (?r a) = ?r a" for a
    using resolved_rests[of wait now a now wait] by (auto simp: resolved_def[of wait now "?r a"])
  moreover have "na_ID (?r a) = na_ID a" for a by (simp add: resolved_def split: option.split prod.split)
  ultimately have "update_ReconcileOnce wait now (w\<lparr>t_agents := map ?r (t_agents w)\<rparr>) = (w\<lparr>t_agents := map ?r (t_agents w)\<rparr>, None)"
    using ReconcileOnce_resolves[of "w\<lparr>t_agents := map ?r (t_agents w)\<rparr>" wait now] assms by (simp add: tbl_ok_def comp_def)
  moreover have "update_ReconcileOnce wait now w = (w\<lparr>t_agents := map ?r (t_agents w)\<rparr>, None)"
    using ReconcileOnce_resolves assms by blast
  ultimately show ?thesis
    by (intro exI[of _ "map ?r (t_agents w)"]) (simp add: list_all2_map2 s list.rel_refl)
qed

definition ex_updating :: NodeAgent where
  "ex_updating = ex_agent\<lparr>na_UpdateState := StateRebooting, na_TargetVersion := ''v2.0.0'', na_LastUpdateAt := Some 10\<rparr>"

theorem reconciler_ends_updates_witness:
  "t_agents (fst (update_ReconcileOnce 120 200 (ex_disp\<lparr>t_agents := [ex_updating]\<rparr>))) =
    [ex_updating\<lparr>na_UpdateState := StateFailed, na_LastUpdateErr := msg_upd_stale, na_LastUpdateAt := Some 200\<rparr>]"
proof -
  let ?w = "ex_disp\<lparr>t_agents := [ex_updating]\<rparr>"
  show ?thesis using reconciler_ends_updates[of ?w 120 200]
    by (auto simp: tbl_ok_def list_all2_Cons1 ex_updating_def ex_agent_def StateRebooting_def StateFailed_def)
qed

theorem updateOne_guarded_witness:
  "\<exists>agent. AgentRepo_GetByID ''a1'' ex_disp = Inr agent \<and> na_Alive agent"
proof -
  let ?rel = "\<lparr> ar_ID = ''r1'', ar_Version = ''v2.0.0'', ar_OS = ''linux'', ar_Arch = ''amd64'', ar_SHA256 = ''x'',
    ar_SizeBytes = 1, ar_Bucket = ''b'', ar_StorageKey = ''k'', ar_Note = [], ar_CreatedBy = [], ar_CreatedAt = 0 \<rparr>"
  let ?t = "\<lparr> ut_AgentID = ''a1'', ut_ReleaseID = ''r1'' \<rparr>"
  let ?u = "updateOne (\<lambda>a addr. None) (\<lambda>r. Inl ErrCanceled) 5 [] 9 [?rel] ?t ex_disp"
  have a: "AgentRepo_GetByID ''a1'' ex_disp = Inr ex_agent" "NodeRepo_GetByID ''1'' (ex_disp\<lparr>t_agents := X\<rparr>) = Inr ex_node" for X
    by (simp_all add: AgentRepo_GetByID_def NodeRepo_GetByID_def guard_call_def found_def table_simps)
  have "snd (snd ?u) \<noteq> []"
    by (simp add: updateOne_def Let_def a ReleaseRepo_GetByID_def guard_call_def found_def table_simps StateIdle_def
        activeInstancesOnAgent_def InstanceRepo_ListAll_def AgentRepo_UpdateUpdateState_def guard_write_def send_update_def)
  then show ?thesis
    using updateOne_guarded[of "\<lambda>a addr. None" "\<lambda>r. Inl ErrCanceled" 5 "[]" 9 "[?rel]" ?t ex_disp "fst ?u" "fst (snd ?u)" "snd (snd ?u)"]
    by auto
qed

end
