(* ===== verification/Admin.thy ===== *)
theory Admin
  imports Agent_Update
begin

text \<open>
  The administrators' operations: nodes (\<open>biz/node_use_case.go\<close>), node agents
  (\<open>biz/node_agent_use_case.go\<close>), games (\<open>biz/game_use_case.go\<close>) and container
  configurations (\<open>biz/game_container_config_use_case.go\<close>), with the writes of their
  repositories.  Node and agent edits read a row, change some fields and write the whole row
  back; what others commit in between (\<open>meanwhile\<close>) is a parameter.
\<close>

section \<open>Nodes\<close>

record NodeUpdate =
  nu_IP :: "string option"
  nu_CoreNum :: "int option"
  nu_CoreFrequency :: "rat option"
  nu_MemorySize :: "int option"
  nu_StorageSize :: "int option"
  nu_Location :: "string option"
  nu_ServiceProvider :: "string option"
  nu_NetRxLimitMbps :: "int option"
  nu_NetTxLimitMbps :: "int option"

definition zero_node :: "int \<Rightarrow> string \<Rightarrow> Node" where
  "zero_node ident ip = \<lparr> nd_Id = ident, nd_Ip = ip, nd_CoreNum = 0, nd_CoreFrequency = 0, nd_MemorySize = 0,
     nd_StorageSize = 0, nd_Location = [], nd_ServiceProvider = [], nd_CPUUsedMilli = 0, nd_MemoryUsedBytes = 0,
     nd_DiskUsedBytes = 0, nd_NetRxBps = 0, nd_NetTxBps = 0, nd_UsageReportedAt = None, nd_CPUReservedMilli = 0,
     nd_MemoryReservedBytes = 0, nd_DiskReservedBytes = 0, nd_PressureStatus = PressureNormal, nd_NetRxLimitMbps = 0,
     nd_NetTxLimitMbps = 0, nd_BandwidthRxReservedMbps = 0, nd_BandwidthTxReservedMbps = 0 \<rparr>"

text \<open>A node without an identifier is inserted with the next one of the sequence, \<open>ident\<close>.\<close>

definition CreateNode :: "int \<Rightarrow> string \<Rightarrow> 'a db_scheme \<Rightarrow> 'a db_scheme \<times> (gerr + Node)" where
  "CreateNode ident ip w =
    (case NodeRepo_Save (zero_node ident ip) w of
       (w1, Some e) \<Rightarrow> (w1, Inl e) | (w1, None) \<Rightarrow> (w1, Inr (zero_node ident ip)))"

definition ListNodes :: "'a db_scheme \<Rightarrow> gerr + Node list" where
  "ListNodes w = NodeRepo_ListAll w"

definition GetNode :: "string \<Rightarrow> 'a db_scheme \<Rightarrow> gerr + Node" where
  "GetNode ident w = (if ident = [] then Inl (Errorf ''id is required'') else NodeRepo_GetByID ident w)"

definition given :: "'b option \<Rightarrow> 'b \<Rightarrow> 'b" where
  "given new old = (case new of None \<Rightarrow> old | Some x \<Rightarrow> x)"

definition edited_node :: "NodeUpdate \<Rightarrow> Node \<Rightarrow> Node" where
  "edited_node u n = n\<lparr>nd_Ip := given (nu_IP u) (nd_Ip n), nd_CoreNum := given (nu_CoreNum u) (nd_CoreNum n),
     nd_CoreFrequency := given (nu_CoreFrequency u) (nd_CoreFrequency n),
     nd_MemorySize := given (nu_MemorySize u) (nd_MemorySize n),
     nd_StorageSize := given (nu_StorageSize u) (nd_StorageSize n),
     nd_Location := given (nu_Location u) (nd_Location n),
     nd_ServiceProvider := given (nu_ServiceProvider u) (nd_ServiceProvider n),
     nd_NetRxLimitMbps := given (nu_NetRxLimitMbps u) (nd_NetRxLimitMbps n),
     nd_NetTxLimitMbps := given (nu_NetTxLimitMbps u) (nd_NetTxLimitMbps n)\<rparr>"

definition UpdateNode ::
  "('a db_scheme \<Rightarrow> 'a db_scheme) \<Rightarrow> string \<Rightarrow> NodeUpdate \<Rightarrow> 'a db_scheme \<Rightarrow> 'a db_scheme \<times> (gerr + Node)" where
  "UpdateNode meanwhile ident u w =
    (case NodeRepo_GetByID ident w of
       Inl e \<Rightarrow> (w, Inl e)
     | Inr node \<Rightarrow>
        (case NodeRepo_Save (edited_node u node) (meanwhile w) of
           (w1, Some e) \<Rightarrow> (w1, Inl e)
         | (w1, None) \<Rightarrow> (w1, Inr (edited_node u node))))"

definition DeleteNode :: "string \<Rightarrow> 'a db_scheme \<Rightarrow> 'a db_scheme \<times> gerr option" where
  "DeleteNode ident w =
    (case NodeRepo_GetByID ident w of
       Inl e \<Rightarrow> (w, Some e)
     | Inr node \<Rightarrow>
        (case AgentRepo_ListAll w of
           Inl e \<Rightarrow> (w, Some e)
         | Inr as \<Rightarrow>
            (case find (\<lambda>a. na_NodeId a = ident) as of
               Some a \<Rightarrow> (w, Some (Errorf (msg_node_ref1 @ ident @ msg_node_ref2 @ na_ID a @ msg_node_ref3)))
             | None \<Rightarrow> NodeRepo_Delete ident w)))"

section \<open>Node agents\<close>

definition CreateNodeAgent :: "string \<Rightarrow> string \<Rightarrow> int \<Rightarrow> 'a db_scheme \<Rightarrow> 'a db_scheme \<times> (gerr + NodeAgent)" where
  "CreateNodeAgent name nodeID port w =
    (let agent = \<lparr> na_ID = name, na_NodeId = nodeID, na_Port = (if port \<le> 0 then 9090 else port), na_Status = Enabled,
                   na_Alive = False, na_LastHeartbeatAt = None, na_HealthStatus = HealthUnknown, na_AgentVersion = [],
                   na_UpdateState = [], na_TargetVersion = [], na_LastUpdateAt = None, na_LastUpdateErr = [] \<rparr>
     in case AgentRepo_Save agent w of (w1, Some e) \<Rightarrow> (w1, Inl e) | (w1, None) \<Rightarrow> (w1, Inr agent))"

definition Agent_GetNode :: "NodeAgent \<Rightarrow> 'a db_scheme \<Rightarrow> gerr + Node" where
  "Agent_GetNode agent w = NodeRepo_GetByID (na_NodeId agent) w"

definition ListNodeAgents :: "'a db_scheme \<Rightarrow> gerr + NodeAgent list" where
  "ListNodeAgents w = AgentRepo_ListAll w"

definition SetEnabled ::
  "('a db_scheme \<Rightarrow> 'a db_scheme) \<Rightarrow> string \<Rightarrow> bool \<Rightarrow> 'a db_scheme \<Rightarrow> 'a db_scheme \<times> (gerr + NodeAgent)" where
  "SetEnabled meanwhile ident enabled w =
    (case AgentRepo_GetByID ident w of
       Inl e \<Rightarrow> (w, Inl e)
     | Inr agent \<Rightarrow>
        let agent' = agent\<lparr>na_Status := (if enabled then Enabled else Disabled)\<rparr> in
        (case AgentRepo_Save agent' (meanwhile w) of
           (w1, Some e) \<Rightarrow> (w1, Inl e) | (w1, None) \<Rightarrow> (w1, Inr agent')))"

record NodeAgentHealth =
  nh_ID :: string
  nh_NodeId :: string
  nh_Port :: int
  nh_Addr :: string
  nh_Status :: string
  nh_Alive :: bool
  nh_LastHeartbeatAt :: "time option"

definition ListNodeAgentHealth :: "'a db_scheme \<Rightarrow> gerr + NodeAgentHealth list" where
  "ListNodeAgentHealth w =
    (case AgentRepo_ListAll w of
       Inl e \<Rightarrow> Inl e
     | Inr as \<Rightarrow> Inr (map (\<lambda>a. \<lparr> nh_ID = na_ID a, nh_NodeId = na_NodeId a, nh_Port = na_Port a,
          nh_Addr = (if na_NodeId a = [] then [] else
                     case NodeRepo_GetByID (na_NodeId a) w of
                       Inl e \<Rightarrow> [] | Inr node \<Rightarrow> nd_Ip node @ '':'' @ show_int (na_Port a)),
          nh_Status = (if na_Status a = Enabled then ''enabled'' else ''disabled''),
          nh_Alive = na_Alive a, nh_LastHeartbeatAt = na_LastHeartbeatAt a \<rparr>) as))"

section \<open>Games\<close>

definition GameRepo_Save :: "Game \<Rightarrow> 'a db_scheme \<Rightarrow> 'a db_scheme \<times> gerr option" where
  "GameRepo_Save g w = guard_write w (Call ''GameSave'' [gm_ID g]) (w\<lparr>t_games := tbl_put gm_ID g (t_games w)\<rparr>)"

definition GameRepo_Delete :: "string \<Rightarrow> 'a db_scheme \<Rightarrow> 'a db_scheme \<times> gerr option" where
  "GameRepo_Delete ident w = guard_write w (Call ''GameDelete'' [ident])
     (w\<lparr>t_games := tbl_del (\<lambda>g. gm_ID g = ident) (t_games w)\<rparr>)"

text \<open>The port excerpts are a table of their own, joined into the configuration: saving a configuration
  does not change them, deleting it deletes them first.\<close>

definition ConfigRepo_Save :: "GameContainerConfig \<Rightarrow> 'a db_scheme \<Rightarrow> 'a db_scheme \<times> gerr option" where
  "ConfigRepo_Save c w = guard_write w (Call ''ConfigSave'' [gc_ID c])
     (w\<lparr>t_configs := tbl_upd (\<lambda>r. gc_ID r = gc_ID c) (\<lambda>r. c\<lparr>gc_PortExcerpt := gc_PortExcerpt r\<rparr>) (t_configs w)\<rparr>)"

definition ConfigRepo_Delete :: "string \<Rightarrow> 'a db_scheme \<Rightarrow> 'a db_scheme \<times> gerr option" where
  "ConfigRepo_Delete ident w =
    (case db_fault w (Call ''ExcerptDelete'' [ident]) of
       Some t \<Rightarrow> (w, Some (DbErr t))
     | None \<Rightarrow>
        let w1 = w\<lparr>t_configs := tbl_upd (\<lambda>r. gc_ID r = ident) (\<lambda>r. r\<lparr>gc_PortExcerpt := []\<rparr>) (t_configs w)\<rparr>
        in guard_write w1 (Call ''ConfigDelete'' [ident]) (w1\<lparr>t_configs := tbl_del (\<lambda>r. gc_ID r = ident) (t_configs w1)\<rparr>))"

definition ConfigRepo_ReplacePortExcerpts ::
  "(nat \<Rightarrow> nat) \<Rightarrow> string \<Rightarrow> GameContainerPortExcerpt list \<Rightarrow> 'a db_scheme \<Rightarrow> 'a db_scheme \<times> gerr option" where
  "ConfigRepo_ReplacePortExcerpts gen ident es w = guard_write w (Call ''ExcerptReplace'' [ident])
     (w\<lparr>t_configs := tbl_upd (\<lambda>r. gc_ID r = ident)
        (\<lambda>r. r\<lparr>gc_PortExcerpt := map (\<lambda>k. (es ! k)\<lparr>pe_ID := gen k, pe_GameContainerConfigID := ident\<rparr>) [0..<length es]\<rparr>)
        (t_configs w)\<rparr>)"

text \<open>The asset service's answers are parameters.\<close>

definition CreateGame :: "(Game \<Rightarrow> gerr option) \<Rightarrow> string \<Rightarrow> string \<Rightarrow> 'a db_scheme \<Rightarrow> 'a db_scheme \<times> (gerr + Game)" where
  "CreateGame remote name appID w =
    (if name = [] then (w, Inl (Errorf ''name is required''))
     else let game = \<lparr> gm_ID = appID, gm_Name = name, gm_AppId = appID, gm_ContainerConfigID = [] \<rparr> in
       (case remote game of
          Some e \<Rightarrow> (w, Inl e)
        | None \<Rightarrow>
           (case GameRepo_Save game w of
              (w1, Some e) \<Rightarrow> (w1, Inl (Wrapped ''save game locally: '' e []))
            | (w1, None) \<Rightarrow> (w1, Inr game))))"

definition GetGame :: "string \<Rightarrow> 'a db_scheme \<Rightarrow> gerr + Game" where
  "GetGame ident w = (if ident = [] then Inl (Errorf ''id is required'') else GameRepo_GetByID ident w)"

definition UpdateGame ::
  "(string \<Rightarrow> string \<Rightarrow> string \<Rightarrow> gerr option) \<Rightarrow> string \<Rightarrow> string \<Rightarrow> string \<Rightarrow> 'a db_scheme \<Rightarrow> 'a db_scheme \<times> (gerr + Game)" where
  "UpdateGame remote ident name appID w =
    (if ident = [] then (w, Inl (Errorf ''id is required''))
     else if name = [] then (w, Inl (Errorf ''name is required''))
     else case remote ident name appID of
       Some e \<Rightarrow> (w, Inl e)
     | None \<Rightarrow>
        (case GameRepo_GetByID ident w of
           Inl e \<Rightarrow> (w, Inl (Wrapped ''get game locally: '' e []))
         | Inr g \<Rightarrow>
            let g' = g\<lparr>gm_Name := name, gm_AppId := appID\<rparr> in
            (case GameRepo_Save g' w of
               (w1, Some e) \<Rightarrow> (w1, Inl (Wrapped ''save game locally: '' e []))
             | (w1, None) \<Rightarrow> (w1, Inr g'))))"

fun delete_instances :: "GameInstance list \<Rightarrow> 'a db_scheme \<Rightarrow> 'a db_scheme \<times> gerr option" where
  "delete_instances [] w = (w, None)"
| "delete_instances (i # is) w =
    (case PortRepo_DeleteByInstanceId (gi_ID i) w of
       (w1, Some e) \<Rightarrow> (w1, Some (Wrapped (''delete port mappings of instance '' @ gi_ID i @ '': '') e []))
     | (w1, None) \<Rightarrow>
        (case InstanceRepo_Delete (gi_ID i) w1 of
           (w2, Some e) \<Rightarrow> (w2, Some (Wrapped (''delete instance '' @ gi_ID i @ '': '') e []))
         | (w2, None) \<Rightarrow> delete_instances is w2))"

definition delete_config :: "string \<Rightarrow> 'a db_scheme \<Rightarrow> 'a db_scheme \<times> gerr option" where
  "delete_config ident w =
    (case GameRepo_GetByID ident w of
       Inl e \<Rightarrow> (w, None)
     | Inr game \<Rightarrow>
        if gm_ContainerConfigID game = [] then (w, None)
        else case GameRepo_ListAll w of
          Inl e \<Rightarrow> (w, None)
        | Inr all \<Rightarrow>
           if \<exists>g \<in> set all. gm_ID g \<noteq> ident \<and> gm_ContainerConfigID g = gm_ContainerConfigID game then (w, None)
           else (case ConfigRepo_Delete (gm_ContainerConfigID game) w of
                   (w1, Some e) \<Rightarrow> (w1, Some (Wrapped ''delete container config: '' e []))
                 | (w1, None) \<Rightarrow> (w1, None)))"

text \<open>\<open>remote\<close> is the asset service's answer; not found is no error (\<open>status.FromError\<close> looks through
  the wrapping of the client).\<close>

definition remote_gone :: "gerr option \<Rightarrow> bool" where
  "remote_gone remote =
    (case remote of None \<Rightarrow> True
     | Some e \<Rightarrow> (case rpc_of e of None \<Rightarrow> False | Some r \<Rightarrow> re_status r = Some GNotFound))"

definition DeleteGame :: "gerr option \<Rightarrow> string \<Rightarrow> 'a db_scheme \<Rightarrow> 'a db_scheme \<times> gerr option" where
  "DeleteGame remote ident w =
    (if ident = [] then (w, Some (Errorf ''id is required''))
     else case InstanceRepo_ListByGame ident w of
       Inl e \<Rightarrow> (w, Some (Wrapped ''list game instances: '' e []))
     | Inr is \<Rightarrow>
      (case find (\<lambda>i. gi_Status i \<noteq> StatusStopped \<and> gi_Status i \<noteq> Failed) is of
         Some i \<Rightarrow> (w, Some (Errorf (msg_game_active1 @ status_String (gi_Status i) @ msg_game_active2 @ gi_ID i @ msg_game_active3)))
       | None \<Rightarrow>
        (case delete_instances is w of
           (w1, Some e) \<Rightarrow> (w1, Some e)
         | (w1, None) \<Rightarrow>
            if \<not> remote_gone remote then (w1, remote)
            else (case BranchRepo_DeleteByGame ident w1 of
               (w2, Some e) \<Rightarrow> (w2, Some (Wrapped ''delete steam branches locally: '' e []))
             | (w2, None) \<Rightarrow>
                (case delete_config ident w2 of
                   (w3, Some e) \<Rightarrow> (w3, Some e)
                 | (w3, None) \<Rightarrow>
                    (case GameRepo_Delete ident w3 of
                       (w4, Some e) \<Rightarrow> (w4, Some (Wrapped ''delete game locally: '' e []))
                     | (w4, None) \<Rightarrow> (w4, None)))))))"

definition ListGames :: "'a db_scheme \<Rightarrow> gerr + Game list" where
  "ListGames w = GameRepo_ListAll w"

section \<open>Container configurations\<close>

definition configIDByGame :: "string \<Rightarrow> 'a db_scheme \<Rightarrow> gerr + string" where
  "configIDByGame game w =
    (case GameRepo_GetByID game w of
       Inl e \<Rightarrow> Inl e
     | Inr g \<Rightarrow> if gm_ContainerConfigID g = [] then Inl (Errorf (''game '' @ game @ msg_no_container))
                else Inr (gm_ContainerConfigID g))"

definition GetConfig :: "string \<Rightarrow> 'a db_scheme \<Rightarrow> gerr + GameContainerConfig" where
  "GetConfig game w = (case configIDByGame game w of Inl e \<Rightarrow> Inl e | Inr c \<Rightarrow> ConfigRepo_GetByID c w)"

record PortExcerptInput =
  xi_Protocol :: ProtocolType
  xi_BeginPort :: port
  xi_ExcerptLength :: port
  xi_IsGamePort :: bool

record ContainerConfigUpdate =
  cu_ContainerServerPath :: "string option"
  cu_PortMode :: "GameContainerPortMode option"
  cu_InjectGamePort :: "bool option"
  cu_CPURequestMilli :: "int option"
  cu_MemoryRequestBytes :: "int option"
  cu_DiskRequestBytes :: "int option"
  cu_BandwidthRxMbps :: "int option"
  cu_BandwidthTxMbps :: "int option"
  cu_SingleThreaded :: "bool option"
  cu_PortExcerpts :: "PortExcerptInput list option"
  cu_ProbeMode :: "string option"
  cu_QueryPortOffset :: "int option"

definition edited_config :: "ContainerConfigUpdate \<Rightarrow> GameContainerConfig \<Rightarrow> GameContainerConfig" where
  "edited_config u c = c\<lparr>gc_ContainerServerPath := given (cu_ContainerServerPath u) (gc_ContainerServerPath c),
     gc_PortMode := given (cu_PortMode u) (gc_PortMode c), gc_InjectGamePort := given (cu_InjectGamePort u) (gc_InjectGamePort c),
     gc_CPURequestMilli := given (cu_CPURequestMilli u) (gc_CPURequestMilli c),
     gc_MemoryRequestBytes := given (cu_MemoryRequestBytes u) (gc_MemoryRequestBytes c),
     gc_DiskRequestBytes := given (cu_DiskRequestBytes u) (gc_DiskRequestBytes c),
     gc_BandwidthRxMbps := given (cu_BandwidthRxMbps u) (gc_BandwidthRxMbps c),
     gc_BandwidthTxMbps := given (cu_BandwidthTxMbps u) (gc_BandwidthTxMbps c),
     gc_SingleThreaded := given (cu_SingleThreaded u) (gc_SingleThreaded c),
     gc_ProbeMode := given (cu_ProbeMode u) (gc_ProbeMode c),
     gc_QueryPortOffset := given (cu_QueryPortOffset u) (gc_QueryPortOffset c)\<rparr>"

definition excerpt_of :: "PortExcerptInput \<Rightarrow> GameContainerPortExcerpt" where
  "excerpt_of e = \<lparr> pe_ID = 0, pe_GameContainerConfigID = [], pe_Protocol = xi_Protocol e, pe_BeginPort = xi_BeginPort e,
     pe_ExcerptLength = xi_ExcerptLength e, pe_IsGamePort = xi_IsGamePort e \<rparr>"

definition UpdateConfig ::
  "(nat \<Rightarrow> nat) \<Rightarrow> string \<Rightarrow> ContainerConfigUpdate \<Rightarrow> 'a db_scheme \<Rightarrow> 'a db_scheme \<times> (gerr + GameContainerConfig)" where
  "UpdateConfig gen game u w =
    (case configIDByGame game w of
       Inl e \<Rightarrow> (w, Inl e)
     | Inr ident \<Rightarrow>
      (case ConfigRepo_GetByID ident w of
         Inl e \<Rightarrow> (w, Inl e)
       | Inr config \<Rightarrow>
        (case ConfigRepo_Save (edited_config u config) w of
           (w1, Some e) \<Rightarrow> (w1, Inl e)
         | (w1, None) \<Rightarrow>
            (case cu_PortExcerpts u of
               None \<Rightarrow> (w1, ConfigRepo_GetByID (gc_ID config) w1)
             | Some es \<Rightarrow>
                (case ConfigRepo_ReplacePortExcerpts gen (gc_ID config) (map excerpt_of es) w1 of
                   (w2, Some e) \<Rightarrow> (w2, Inl e)
                 | (w2, None) \<Rightarrow> (w2, ConfigRepo_GetByID (gc_ID config) w2))))))"

section \<open>Edits and concurrent writes\<close>

lemma edited_node_fields [simp]:
  "node_key (edited_node u n) = node_key n" "nd_Id (edited_node u n) = nd_Id n"
  "nd_CPUReservedMilli (edited_node u n) = nd_CPUReservedMilli n"
  "nd_MemoryReservedBytes (edited_node u n) = nd_MemoryReservedBytes n"
  "nd_DiskReservedBytes (edited_node u n) = nd_DiskReservedBytes n"
  by (simp_all add: edited_node_def node_key_def)

text \<open>An edit of a node loses a reservation that commits meanwhile: the edit writes back the whole row it
  read, reserved amounts included, so the instance stays bound to the node and the node's row says that
  nothing was reserved for it.\<close>

theorem UpdateNode_loses_reservation:
  assumes "TryReserve now req w = (w1, None)" "NodeRepo_GetByID (rt_NodeID req) w = Inr n"
    and "\<forall>c. db_fault w c = None"
  shows "NodeRepo_GetByID (rt_NodeID req) w1 = Inr (add_reserved (rt_Req req) n) \<and>
    (\<exists>w'. UpdateNode (\<lambda>_. w1) (rt_NodeID req) u w = (w', Inr (edited_node u n)) \<and>
       NodeRepo_GetByID (rt_NodeID req) w' = Inr (edited_node u n) \<and>
       nd_CPUReservedMilli (edited_node u n) = nd_CPUReservedMilli n \<and> t_instances w' = t_instances w1)"
proof -
  have f: "tbl_find node_key (rt_NodeID req) (t_nodes w) = Some n" and k: "node_key n = rt_NodeID req"
    using assms(2) by (auto simp: NodeRepo_GetByID_def dest: tbl_find_SomeD)
  obtain ports insts where w1: "w1 = w\<lparr>t_nodes := tbl_upd (\<lambda>n. node_key n = rt_NodeID req) (add_reserved (rt_Req req)) (t_nodes w),
      t_ports := ports, t_instances := insts\<rparr>"
    using assms(1) by (auto elim!: TryReserve_cases)
  have "tbl_find node_key (rt_NodeID req) (t_nodes w1) = Some (add_reserved (rt_Req req) n)"
    using f by (simp add: w1 tbl_find_upd_key)
  moreover have "db_fault w1 = db_fault w" by (simp add: w1)
  ultimately show ?thesis using assms(2,3) k
    by (auto simp: UpdateNode_def NodeRepo_Save_def guard_write_def NodeRepo_GetByID_def guard_call_def found_def tbl_find_put)
qed

definition no_update :: NodeUpdate where
  "no_update = \<lparr> nu_IP = None, nu_CoreNum = None, nu_CoreFrequency = None, nu_MemorySize = None, nu_StorageSize = None,
     nu_Location = None, nu_ServiceProvider = None, nu_NetRxLimitMbps = None, nu_NetTxLimitMbps = None \<rparr>"

theorem UpdateNode_loses_reservation_witness:
  "\<exists>w'. UpdateNode (\<lambda>_. fst (TryReserve 0 ex_reserve ex_db)) ''1'' (no_update\<lparr>nu_Location := Some ''us''\<rparr>) ex_db =
       (w', Inr (edited_node (no_update\<lparr>nu_Location := Some ''us''\<rparr>) ex_node)) \<and>
     nd_CPUReservedMilli (edited_node (no_update\<lparr>nu_Location := Some ''us''\<rparr>) ex_node) = 0"
proof -
  have t: "TryReserve 0 ex_reserve ex_db = (fst (TryReserve 0 ex_reserve ex_db), None)" by (simp add: ex_TryReserve)
  have "rt_NodeID ex_reserve = ''1''" by (simp add: ex_reserve_def)
  moreover have "NodeRepo_GetByID ''1'' ex_db = Inr ex_node" "\<forall>c. db_fault ex_db c = None"
    by (simp_all add: NodeRepo_GetByID_def guard_call_def found_def ex_db_def table_simps)
  ultimately show ?thesis
    using UpdateNode_loses_reservation[OF t, of ex_node "no_update\<lparr>nu_Location := Some ''us''\<rparr>"] by auto
qed

section \<open>Deleting a game\<close>

lemma delete_instances_rows:
  "delete_instances is w = (w', None) \<Longrightarrow>
     w' = w\<lparr>t_instances := tbl_del (\<lambda>g. gi_ID g \<in> gi_ID ` set is) (t_instances w),
            t_ports := tbl_del (\<lambda>m. pm_InstanceId m \<in> gi_ID ` set is) (t_ports w)\<rparr>"
proof (induction "is" arbitrary: w)
  case Nil
  then show ?case by (simp add: tbl_del_def)
next
  case (Cons i "is")
  obtain w1 w2 where d: "PortRepo_DeleteByInstanceId (gi_ID i) w = (w1, None)"
      "InstanceRepo_Delete (gi_ID i) w1 = (w2, None)" "delete_instances is w2 = (w', None)"
    using Cons.prems by (auto split: prod.splits option.splits)
  have w1: "w1 = w\<lparr>t_ports := tbl_del (\<lambda>m. pm_InstanceId m = gi_ID i) (t_ports w)\<rparr>"
    using d(1) by (auto simp: PortRepo_DeleteByInstanceId_def guard_write_def split: option.splits)
  have w2: "w2 = w1\<lparr>t_instances := tbl_del (\<lambda>g. gi_ID g = gi_ID i) (t_instances w1)\<rparr>"
    using d(2) by (auto simp: InstanceRepo_Delete_def split: option.splits if_splits)
  show ?case unfolding Cons.IH[OF d(3)] by (simp add: w1 w2 tbl_del_def conj_commute)
qed

text \<open>The configuration a deletion of the game \<open>ident\<close> takes with it: that of the game's row, if no other game has it
  and both reads of the games succeed.\<close>

definition orphan_config :: "string \<Rightarrow> 'a db_scheme \<Rightarrow> GameContainerConfig \<Rightarrow> bool" where
  "orphan_config ident w c \<longleftrightarrow> gc_ID c \<noteq> [] \<and>
     (\<exists>g. GameRepo_GetByID ident w = Inr g \<and> gm_ContainerConfigID g = gc_ID c) \<and> (\<exists>gs. GameRepo_ListAll w = Inr gs) \<and>
     \<not> (\<exists>h \<in> set (t_games w). gm_ID h \<noteq> ident \<and> gm_ContainerConfigID h = gc_ID c)"

lemma delete_config_rows:
  assumes "delete_config ident w = (w', None)"
  shows "w' = w\<lparr>t_configs := filter (\<lambda>c. \<not> orphan_config ident w c) (t_configs w)\<rparr>"
proof -
  have same: "w' = w \<Longrightarrow> (\<And>c. \<not> orphan_config ident w c) \<Longrightarrow> ?thesis" by simp
  have del: "tbl_del (\<lambda>r. gc_ID r = k) (tbl_upd (\<lambda>r. gc_ID r = k) (\<lambda>r. r\<lparr>gc_PortExcerpt := []\<rparr>) cs) =
      filter (\<lambda>c. gc_ID c \<noteq> k) cs" for k cs
    by (induction cs) (auto simp: tbl_del_def tbl_upd_def)
  show ?thesis
  proof (cases "GameRepo_GetByID ident w")
    case (Inl e)
    then show ?thesis using assms by (intro same) (auto simp: delete_config_def orphan_config_def)
  next
    case get: (Inr game)
    show ?thesis
    proof (cases "gm_ContainerConfigID game \<noteq> [] \<and> (\<exists>gs. GameRepo_ListAll w = Inr gs) \<and>
        \<not> (\<exists>h \<in> set (t_games w). gm_ID h \<noteq> ident \<and> gm_ContainerConfigID h = gm_ContainerConfigID game)")
      case True
      then have all: "GameRepo_ListAll w = Inr (t_games w)"
        by (auto simp: GameRepo_ListAll_def guard_call_def split: option.splits)
      have "ConfigRepo_Delete (gm_ContainerConfigID game) w = (w', None)"
        using assms get all True by (auto simp: delete_config_def split: prod.splits option.splits if_splits)
      then have "w' = w\<lparr>t_configs := filter (\<lambda>c. gc_ID c \<noteq> gm_ContainerConfigID game) (t_configs w)\<rparr>"
        by (auto simp: ConfigRepo_Delete_def guard_write_def Let_def del split: option.splits)
      moreover have "orphan_config ident w c \<longleftrightarrow> gc_ID c = gm_ContainerConfigID game" for c
        using get True by (auto simp: orphan_config_def)
      ultimately show ?thesis by simp
    next
      case False
      have "w' = w"
        using assms get False by (auto simp: delete_config_def GameRepo_ListAll_def guard_call_def split: option.splits if_splits sum.splits)
      moreover have "\<not> orphan_config ident w c" for c using get False by (auto simp: orphan_config_def)
      ultimately show ?thesis by (rule same)
    qed
  qed
qed

text \<open>C31: a game that could be deleted had only stopped and failed instances, and exactly what belongs to it is
  gone: its instances, their port mappings, its branches, its row, and its container configuration unless
  another game has the same.  Every other row of these five tables, and every other table (nodes, agents,
  queue, credentials, platform configuration, statistics, events), is as before.\<close>

theorem DeleteGame_removes_exactly:
  assumes "DeleteGame remote ident w = (w', None)" "tbl_ok gi_ID (t_instances w)"
  shows "gi_Status ` set (filter (\<lambda>g. gi_GameID g = ident) (t_instances w)) \<subseteq> {StatusStopped, Failed} \<and>
    w' = w\<lparr>
      t_instances := filter (\<lambda>g. gi_GameID g \<noteq> ident) (t_instances w),
      t_ports := filter (\<lambda>m. \<not> (\<exists>g \<in> set (t_instances w). gi_GameID g = ident \<and> pm_InstanceId m = gi_ID g)) (t_ports w),
      t_branches := filter (\<lambda>b. sb_GameId b \<noteq> ident) (t_branches w),
      t_games := filter (\<lambda>g. gm_ID g \<noteq> ident) (t_games w),
      t_configs := filter (\<lambda>c. \<not> orphan_config ident w c) (t_configs w)\<rparr>"
proof -
  obtain "is" w1 w2 w3 where d: "InstanceRepo_ListByGame ident w = Inr is"
      "find (\<lambda>i. gi_Status i \<noteq> StatusStopped \<and> gi_Status i \<noteq> Failed) is = None"
      "delete_instances is w = (w1, None)" "BranchRepo_DeleteByGame ident w1 = (w2, None)"
      "delete_config ident w2 = (w3, None)" "GameRepo_Delete ident w3 = (w', None)"
    using assms(1) by (auto simp: DeleteGame_def remote_gone_def split: sum.splits option.splits prod.splits if_splits)
  have rows: "set is = set (filter (\<lambda>g. gi_GameID g = ident) (t_instances w))"
    using d(1) by (auto simp: InstanceRepo_ListByGame_def)
  have w1: "w1 = w\<lparr>t_instances := filter (\<lambda>g. gi_GameID g \<noteq> ident) (t_instances w),
      t_ports := filter (\<lambda>m. \<not> (\<exists>g \<in> set (t_instances w). gi_GameID g = ident \<and> pm_InstanceId m = gi_ID g)) (t_ports w)\<rparr>"
  proof -
    have "gi_ID g \<in> gi_ID ` set is \<longleftrightarrow> gi_GameID g = ident" if "g \<in> set (t_instances w)" for g
      using assms(2) that unfolding rows by (auto simp: tbl_ok_def distinct_map inj_on_def)
    then have "filter (\<lambda>g. gi_ID g \<notin> gi_ID ` set is) (t_instances w) = filter (\<lambda>g. gi_GameID g \<noteq> ident) (t_instances w)"
      by (auto intro!: filter_cong)
    moreover have "filter (\<lambda>m. pm_InstanceId m \<notin> gi_ID ` set is) (t_ports w) =
        filter (\<lambda>m. \<not> (\<exists>g \<in> set (t_instances w). gi_GameID g = ident \<and> pm_InstanceId m = gi_ID g)) (t_ports w)"
      unfolding rows by (auto intro!: filter_cong)
    ultimately show ?thesis using delete_instances_rows[OF d(3)] by (simp add: tbl_del_def)
  qed
  have w2: "w2 = w1\<lparr>t_branches := tbl_del (\<lambda>r. sb_GameId r = ident) (t_branches w1)\<rparr>"
    and w': "w' = w3\<lparr>t_games := tbl_del (\<lambda>g. gm_ID g = ident) (t_games w3)\<rparr>"
    using d(4,6) by (auto simp: BranchRepo_DeleteByGame_def GameRepo_Delete_def guard_write_def split: option.splits)
  have "orphan_config ident w2 = orphan_config ident w"
    by (simp add: orphan_config_def fun_eq_iff w1 w2 GameRepo_GetByID_def GameRepo_ListAll_def guard_call_def)
  then have w3: "w3 = w2\<lparr>t_configs := filter (\<lambda>c. \<not> orphan_config ident w c) (t_configs w2)\<rparr>"
    using delete_config_rows[OF d(5)] by simp
  have "gi_Status ` set (filter (\<lambda>g. gi_GameID g = ident) (t_instances w)) \<subseteq> {StatusStopped, Failed}"
    using d(2) unfolding rows[symmetric] by (auto simp: find_None_iff)
  then show ?thesis by (simp add: w' w3 w2 w1 tbl_del_def)
qed

theorem DeleteGame_removes_exactly_witness:
  "\<exists>w'. DeleteGame None ''g1'' ex_disp = (w', None) \<and> t_instances w' = []"
proof -
  obtain w' where w': "DeleteGame None ''g1'' ex_disp = (w', None)"
    by (simp add: DeleteGame_def remote_gone_def InstanceRepo_ListByGame_def guard_call_def PortRepo_DeleteByInstanceId_def guard_write_def
        InstanceRepo_Delete_def BranchRepo_DeleteByGame_def delete_config_def GameRepo_GetByID_def found_def
        GameRepo_ListAll_def ConfigRepo_Delete_def GameRepo_Delete_def ex_disp_def table_simps Let_def)
  have "tbl_ok gi_ID (t_instances ex_disp)" by (simp add: tbl_ok_def)
  from DeleteGame_removes_exactly[OF w' this] w' show ?thesis by auto
qed

end
