(* ===== verification/Cache_Manager.thy ===== *)
theory Cache_Manager
  imports Admin
begin

text \<open>
  The game cache manager (\<open>biz/game_cache_manager.go\<close>): it records the branches of a game,
  looks at the caches of the node agents, and brings them in line with the branches and the
  instances that run from them.  The agents are a parameter: functions on a state \<open>'s\<close> of their own
  that the manager threads through its calls.  Every command it sends is logged with its
  outcome, so what is removed and downloaded can be stated.  The order in which a Go map is
  walked is a parameter (\<open>order\<close>).
\<close>

section \<open>State\<close>

datatype cache_cmd = SendCacheGame string string string string | SendRemoveCache string string string

record 's agents =
  ag_connect :: "string \<Rightarrow> string \<Rightarrow> gerr option"
  ag_get :: "string \<Rightarrow> string \<Rightarrow> string \<Rightarrow> 's \<Rightarrow> 's \<times> (gerr + GameCache option)"
  ag_cache :: "string \<Rightarrow> string \<Rightarrow> string \<Rightarrow> string \<Rightarrow> 's \<Rightarrow> 's \<times> gerr option"
  ag_remove :: "string \<Rightarrow> string \<Rightarrow> string \<Rightarrow> 's \<Rightarrow> 's \<times> gerr option"

record 's manager =
  cm_agents :: 's
  cm_log :: "(cache_cmd \<times> bool) list"
  cm_cooldown :: "(string \<times> time) list"

definition cacheDeleteCooldown :: duration where "cacheDeleteCooldown = 10 * minute"

definition steamBranchID :: "string \<Rightarrow> string \<Rightarrow> string" where
  "steamBranchID game branch = game @ '':'' @ branch"

definition deleteCooledDown :: "time \<Rightarrow> string \<Rightarrow> string \<Rightarrow> 's manager \<Rightarrow> bool" where
  "deleteCooledDown now game branch m =
    (case map_of (cm_cooldown m) (game @ '':'' @ branch) of
       None \<Rightarrow> False | Some latest \<Rightarrow> now - latest < cacheDeleteCooldown)"

definition markDeleted :: "time \<Rightarrow> string \<Rightarrow> string \<Rightarrow> 's manager \<Rightarrow> 's manager" where
  "markDeleted now game branch m = m\<lparr>cm_cooldown := tbl_put fst (game @ '':'' @ branch, now) (cm_cooldown m)\<rparr>"

section \<open>Branches\<close>

record remote_branch =
  rb_Name :: string
  rb_BuildId :: int
  rb_Description :: "string option"

fun record_branches :: "string \<Rightarrow> time \<Rightarrow> remote_branch list \<Rightarrow> 'a db_scheme \<Rightarrow> 'a db_scheme \<times> gerr option" where
  "record_branches game now [] w = (w, None)"
| "record_branches game now (b # bs) w =
    (let desc = (case rb_Description b of None \<Rightarrow> [] | Some d \<Rightarrow> d) in
     case BranchRepo_GetByGameAndBranch game (rb_Name b) w of
       Inr existing \<Rightarrow>
         (case BranchRepo_Save (existing\<lparr>sb_LastBuildId := rb_BuildId b, sb_Description := desc, sb_UpdateTime := now\<rparr>) w of
            (w1, Some e) \<Rightarrow> (w1, Some (Wrapped (''update steam branch '' @ rb_Name b @ '': '') e []))
          | (w1, None) \<Rightarrow> record_branches game now bs w1)
     | Inl e \<Rightarrow>
         if errors_is e ErrRecordNotFound
         then (case BranchRepo_Save \<lparr> sb_Id = steamBranchID game (rb_Name b), sb_BranchName = rb_Name b,
                   sb_LastBuildId = rb_BuildId b, sb_GameId = game,
                   sb_Status = (if rb_Name b = steamPublicBranchName then Enable else Disable), sb_MinReplicas = 0,
                   sb_Description = desc, sb_CreateTime = now, sb_UpdateTime = now \<rparr> w of
                 (w1, Some e) \<Rightarrow> (w1, Some (Wrapped (''save steam branch '' @ rb_Name b @ '': '') e []))
               | (w1, None) \<Rightarrow> record_branches game now bs w1)
         else (w, Some (Wrapped (''get steam branch '' @ rb_Name b @ '': '') e [])))"

fun abandon_branches :: "string set \<Rightarrow> time \<Rightarrow> SteamBranch list \<Rightarrow> 'a db_scheme \<Rightarrow> 'a db_scheme \<times> gerr option" where
  "abandon_branches names now [] w = (w, None)"
| "abandon_branches names now (lb # lbs) w =
    (if sb_Status lb = Abandoned \<or> sb_BranchName lb \<in> names then abandon_branches names now lbs w
     else case BranchRepo_Save (lb\<lparr>sb_Status := Abandoned, sb_UpdateTime := now\<rparr>) w of
       (w1, Some e) \<Rightarrow> (w1, Some (Wrapped (''abandon steam branch '' @ sb_BranchName lb @ '': '') e []))
     | (w1, None) \<Rightarrow> abandon_branches names now lbs w1)"

text \<open>The answer of \<open>ListSteamBranches\<close> may hold \<open>nil\<close> entries, which are skipped.\<close>

definition SyncAndRecordBranch ::
  "(string \<Rightarrow> gerr + remote_branch option list) \<Rightarrow> time \<Rightarrow> string \<Rightarrow> 'a db_scheme \<Rightarrow> 'a db_scheme \<times> gerr option" where
  "SyncAndRecordBranch remote now game w =
    (if game = [] then (w, Some (Errorf ''game_id is required''))
     else case remote game of
       Inl e \<Rightarrow> (w, Some (Wrapped ''list steam branches from asset_service: '' e []))
     | Inr answer \<Rightarrow>
        let bs = List.map_filter id answer in
        (case record_branches game now bs w of
           (w1, Some e) \<Rightarrow> (w1, Some e)
         | (w1, None) \<Rightarrow>
            (case BranchRepo_ListByGame game w1 of
               Inl e \<Rightarrow> (w1, Some (Wrapped ''list local steam branches: '' e []))
             | Inr local \<Rightarrow> abandon_branches (rb_Name ` set bs) now local w1)))"

definition ListNodeBranches :: "string \<Rightarrow> 'a db_scheme \<Rightarrow> gerr + SteamBranch list" where
  "ListNodeBranches game w = (if game = [] then Inl (Errorf ''game_id is required'') else BranchRepo_ListByGame game w)"

definition SetBranchMinReplicas :: "time \<Rightarrow> string \<Rightarrow> string \<Rightarrow> int \<Rightarrow> 'a db_scheme \<Rightarrow> 'a db_scheme \<times> gerr option" where
  "SetBranchMinReplicas now game branch n w =
    (if n < 0 then (w, Some (Errorf ''min_replicas must be >= 0''))
     else case BranchRepo_GetByGameAndBranch game branch w of
       Inl e \<Rightarrow> (w, Some e)
     | Inr b \<Rightarrow>
        (case BranchRepo_Save (b\<lparr>sb_MinReplicas := n, sb_UpdateTime := now\<rparr>) w of
           (w1, Some e) \<Rightarrow> (w1, Some (Wrapped ''update branch min_replicas: '' e []))
         | (w1, None) \<Rightarrow> (w1, None)))"

section \<open>One agent\<close>

text \<open>The client of an agent: its row, its node's row, the connection.\<close>

definition agent_client :: "'s agents \<Rightarrow> string \<Rightarrow> 'a db_scheme \<Rightarrow> gerr option" where
  "agent_client ag a w =
    (case AgentRepo_GetByID a w of
       Inl e \<Rightarrow> Some (Wrapped (''get node_agent '' @ a @ '': '') e [])
     | Inr agent \<Rightarrow>
      (case NodeRepo_GetByID (na_NodeId agent) w of
         Inl e \<Rightarrow> Some (Wrapped (''get node '' @ na_NodeId agent @ '': '') e [])
       | Inr node \<Rightarrow>
        (case ag_connect ag a (nd_Ip node @ '':'' @ show_int (na_Port agent)) of
           Some e \<Rightarrow> Some (Wrapped (''get node_agent client '' @ a @ '': '') e [])
         | None \<Rightarrow> None)))"

definition GetNodeCache ::
  "'s agents \<Rightarrow> 'a db_scheme \<Rightarrow> string \<Rightarrow> string \<Rightarrow> string \<Rightarrow> 's manager \<Rightarrow> 's manager \<times> (gerr + GameCache option)" where
  "GetNodeCache ag w a game branch m =
    (if a = [] then (m, Inl (Errorf ''node_agent_id is required''))
     else if game = [] \<or> branch = [] then (m, Inl (Errorf ''game_id and branch_name are required''))
     else case agent_client ag a w of
       Some e \<Rightarrow> (m, Inl e)
     | None \<Rightarrow>
        (let (s, r) = ag_get ag a game branch (cm_agents m); m1 = m\<lparr>cm_agents := s\<rparr> in
         case r of
           Inl e \<Rightarrow> if isGameCacheNotFound (extractErrorDetail e) then (m1, Inr None)
                    else (m1, Inl (Wrapped (''get cache game from node_agent '' @ a @ '': '') e []))
         | Inr None \<Rightarrow> (m1, Inl (Errorf ''node_agent returned empty game cache''))
         | Inr (Some gc) \<Rightarrow> (m1, Inr (Some gc))))"

definition manager_CacheAvailable ::
  "'s agents \<Rightarrow> 'a db_scheme \<Rightarrow> string \<Rightarrow> string \<Rightarrow> string \<Rightarrow> 's manager \<Rightarrow> 's manager \<times> (gerr + bool)" where
  "manager_CacheAvailable ag w a game branch m =
    (case GetNodeCache ag w a game branch m of
       (m1, Inl e) \<Rightarrow> (m1, Inl e)
     | (m1, Inr None) \<Rightarrow> (m1, Inr False)
     | (m1, Inr (Some gc)) \<Rightarrow> (m1, Inr (gca_Status gc = GC_AVAILABLE)))"

definition triggerDownload ::
  "'s agents \<Rightarrow> string \<Rightarrow> string \<Rightarrow> string \<Rightarrow> int \<Rightarrow> 's manager \<Rightarrow> 's manager \<times> gerr option" where
  "triggerDownload ag a game branch latest m =
    (let (s, r) = ag_cache ag a game branch (show_int latest) (cm_agents m);
         m1 = m\<lparr>cm_agents := s, cm_log := cm_log m @ [(SendCacheGame a game branch (show_int latest), r = None)]\<rparr>
     in (m1, map_option (\<lambda>e. Wrapped (''cache game on node_agent '' @ a @ '': '') e []) r))"

text \<open>\<open>strconv.ParseUint(s, 10, 64)\<close>.\<close>

definition ParseUint64 :: "string \<Rightarrow> int option" where
  "ParseUint64 s = (case parse_magnitude s of None \<Rightarrow> None | Some n \<Rightarrow> if n < 2 ^ 64 then Some (int n) else None)"

text \<open>What \<open>CheckAndUpdate\<close> decides for the cache an agent reports.\<close>

datatype check = CheckDownload | CheckReady | CheckError gerr

definition newer_error :: "int \<Rightarrow> int \<Rightarrow> gerr" where
  "newer_error have latest = Errorf (''node game cache build_id '' @ show_int have @ '' is newer than latest '' @ show_int latest)"

definition check_cache :: "int \<Rightarrow> GameCache \<Rightarrow> check" where
  "check_cache latest gc =
    (if gca_Status gc = GC_DOWNLOADING then CheckReady
     else if gca_Status gc = GC_UNAVAILABLE then CheckError (Errorf ''node game cache is unavailable'')
     else case ParseUint64 (gca_BuildId gc) of
       None \<Rightarrow> CheckDownload
     | Some have \<Rightarrow>
        if gca_Status gc = GC_AVAILABLE
        then if have < latest then CheckDownload else if have = latest then CheckReady else CheckError (newer_error have latest)
        else if have \<le> latest then CheckDownload else CheckError (newer_error have latest))"

definition CheckAndUpdate ::
  "'s agents \<Rightarrow> 'a db_scheme \<Rightarrow> string \<Rightarrow> string \<Rightarrow> int \<Rightarrow> string \<Rightarrow> 's manager \<Rightarrow> 's manager \<times> gerr option" where
  "CheckAndUpdate ag w game branch latest a m =
    (if game = [] \<or> branch = [] then (m, Some (Errorf ''game_id and branch_name are required''))
     else if a = [] then (m, Some (Errorf ''node_agent_id is required''))
     else case agent_client ag a w of
       Some e \<Rightarrow> (m, Some e)
     | None \<Rightarrow>
        (let (s, r) = ag_get ag a game branch (cm_agents m); m1 = m\<lparr>cm_agents := s\<rparr> in
         case r of
           Inl e \<Rightarrow> if isGameCacheNotFound (extractErrorDetail e) then triggerDownload ag a game branch latest m1
                    else (m1, Some (Wrapped (''get cache game from node_agent '' @ a @ '': '') e []))
         | Inr None \<Rightarrow> (m1, Some (Errorf ''node_agent returned empty game cache''))
         | Inr (Some gc) \<Rightarrow>
            (case check_cache latest gc of
               CheckDownload \<Rightarrow> triggerDownload ag a game branch latest m1
             | CheckReady \<Rightarrow> (m1, None)
             | CheckError e \<Rightarrow> (m1, Some e))))"

definition UpdateBranchCache ::
  "'s agents \<Rightarrow> 'a db_scheme \<Rightarrow> string \<Rightarrow> string \<Rightarrow> string \<Rightarrow> 's manager \<Rightarrow> 's manager \<times> gerr option" where
  "UpdateBranchCache ag w game branch a m =
    (case BranchRepo_GetByGameAndBranch game branch w of
       Inl e \<Rightarrow> (m, Some e)
     | Inr b \<Rightarrow> CheckAndUpdate ag w game branch (sb_LastBuildId b) a m)"

definition RemoveBranchCache ::
  "'s agents \<Rightarrow> 'a db_scheme \<Rightarrow> string \<Rightarrow> string \<Rightarrow> string \<Rightarrow> 's manager \<Rightarrow> 's manager \<times> gerr option" where
  "RemoveBranchCache ag w game branch a m =
    (if a = [] then (m, Some (Errorf ''node_agent_id is required''))
     else if game = [] \<or> branch = [] then (m, Some (Errorf ''game_id and branch_name are required''))
     else case GetNodeCache ag w a game branch m of
       (m1, Inl e) \<Rightarrow> (m1, Some e)
     | (m1, Inr None) \<Rightarrow> (m1, None)
     | (m1, Inr (Some gc)) \<Rightarrow>
        (case agent_client ag a w of
           Some e \<Rightarrow> (m1, Some e)
         | None \<Rightarrow>
            (let (s, r) = ag_remove ag a game branch (cm_agents m1);
                 m2 = m1\<lparr>cm_agents := s, cm_log := cm_log m1 @ [(SendRemoveCache a game branch, r = None)]\<rparr>
             in (m2, map_option (\<lambda>e. Wrapped (''remove cache on node_agent '' @ a @ '': '') e []) r))))"

section \<open>One branch\<close>

definition instanceActiveStatus :: "InstanceStatus \<Rightarrow> bool" where
  "instanceActiveStatus s \<longleftrightarrow> s \<in> {StatusCacheWarming, StatusPreparingBuild, StatusRestoringSnapshot, StatusStarting,
     StatusRunning, StatusStopping, StatusCleaning}"

text \<open>The agents that carry instances of a branch, without repetition; none when the query fails.\<close>

definition servingNodesByBranch :: "string \<Rightarrow> string \<Rightarrow> 'a db_scheme \<Rightarrow> string list" where
  "servingNodesByBranch game branch w =
    (case InstanceRepo_ListByGame game w of
       Inl e \<Rightarrow> []
     | Inr is \<Rightarrow> remdups (List.map_filter (\<lambda>i.
          if gi_BranchName i \<noteq> [] \<and> gi_BranchName i = branch \<and> instanceActiveStatus (gi_Status i)
          then gi_NodeAgentID i else None) is))"

text \<open>The states found: available, downloading; an agent with a removed or unusable cache has no entry.\<close>

fun node_states ::
  "'s agents \<Rightarrow> 'a db_scheme \<Rightarrow> string \<Rightarrow> string \<Rightarrow> string list \<Rightarrow> 's manager \<Rightarrow> 's manager \<times> (string \<times> bool \<times> bool) list" where
  "node_states ag w game branch [] m = (m, [])"
| "node_states ag w game branch (a # as) m =
    (let (m1, r) = GetNodeCache ag w a game branch m;
         (m2, rest) = node_states ag w game branch as m1
     in (m2, (case r of
                Inl e \<Rightarrow> [(a, False, False)]
              | Inr None \<Rightarrow> [(a, False, False)]
              | Inr (Some gc) \<Rightarrow> (case gca_Status gc of
                   GC_AVAILABLE \<Rightarrow> [(a, True, False)] | GC_DOWNLOADING \<Rightarrow> [(a, False, True)] | _ \<Rightarrow> [])) @ rest))"

fun delete_loop ::
  "'s agents \<Rightarrow> 'a db_scheme \<Rightarrow> time \<Rightarrow> string \<Rightarrow> string \<Rightarrow> string list \<Rightarrow> int \<Rightarrow> (string \<times> bool \<times> bool) list \<Rightarrow> int
   \<Rightarrow> 's manager \<Rightarrow> 's manager \<times> string list" where
  "delete_loop ag w now game branch serving keep [] avail m = (m, [])"
| "delete_loop ag w now game branch serving keep ((a, av, dl) # sts) avail m =
    (if avail \<le> keep then (m, [])
     else if \<not> av \<or> a \<in> set serving then delete_loop ag w now game branch serving keep sts avail m
     else case RemoveBranchCache ag w game branch a m of
       (m1, Some e) \<Rightarrow> delete_loop ag w now game branch serving keep sts avail m1
     | (m1, None) \<Rightarrow>
        (let (m2, ds) = delete_loop ag w now game branch serving keep sts (avail - 1) (markDeleted now game branch m1)
         in (m2, a # ds)))"

fun refresh_loop ::
  "'s agents \<Rightarrow> 'a db_scheme \<Rightarrow> string \<Rightarrow> SteamBranch \<Rightarrow> string list \<Rightarrow> string list \<Rightarrow> (string \<times> bool \<times> bool) list
   \<Rightarrow> 's manager \<Rightarrow> 's manager" where
  "refresh_loop ag w game branch serving deleted [] m = m"
| "refresh_loop ag w game branch serving deleted ((a, av, dl) # sts) m =
    refresh_loop ag w game branch serving deleted sts
      (if a \<in> set deleted \<or> \<not> (a \<in> set serving \<or> av) then m
       else fst (CheckAndUpdate ag w game (sb_BranchName branch) (sb_LastBuildId branch) a m))"

definition mustClient :: "'s agents \<Rightarrow> string \<Rightarrow> 'a db_scheme \<Rightarrow> bool" where
  "mustClient ag a w \<longleftrightarrow> agent_client ag a w = None"

fun preheat_loop ::
  "'s agents \<Rightarrow> 'a db_scheme \<Rightarrow> string \<Rightarrow> SteamBranch \<Rightarrow> string list \<Rightarrow> (string \<times> bool \<times> bool) list \<Rightarrow> int
   \<Rightarrow> 's manager \<Rightarrow> 's manager" where
  "preheat_loop ag w game branch deleted [] kept m = m"
| "preheat_loop ag w game branch deleted ((a, av, dl) # sts) kept m =
    (if kept \<ge> sb_MinReplicas branch then m
     else if a \<in> set deleted \<or> av \<or> dl \<or> \<not> mustClient ag a w then preheat_loop ag w game branch deleted sts kept m
     else case triggerDownload ag a game (sb_BranchName branch) (sb_LastBuildId branch) m of
       (m1, Some e) \<Rightarrow> preheat_loop ag w game branch deleted sts kept m1
     | (m1, None) \<Rightarrow> preheat_loop ag w game branch deleted sts (kept + 1) m1)"

definition present :: "(string \<times> bool \<times> bool) list \<Rightarrow> int" where
  "present sts = int (length (filter (\<lambda>(a, av, dl). av \<or> dl) sts))"

definition keep_target :: "SteamBranch \<Rightarrow> string list \<Rightarrow> int" where
  "keep_target branch serving = max (sb_MinReplicas branch) (int (length serving))"

definition reconcileBranch ::
  "'s agents \<Rightarrow> (nat \<Rightarrow> (string \<times> bool \<times> bool) list \<Rightarrow> (string \<times> bool \<times> bool) list) \<Rightarrow> 'a db_scheme \<Rightarrow> time \<Rightarrow> string
   \<Rightarrow> SteamBranch \<Rightarrow> string list \<Rightarrow> string list \<Rightarrow> 's manager \<Rightarrow> 's manager" where
  "reconcileBranch ag order w now game branch ids serving m =
    (let (m1, sts) = node_states ag w game (sb_BranchName branch) ids m;
         keep = keep_target branch serving;
         (m2, deleted) = (if \<not> deleteCooledDown now game (sb_BranchName branch) m1 \<and> present sts > keep
            then delete_loop ag w now game (sb_BranchName branch) serving keep (order 0 sts) (present sts) m1 else (m1, []));
         m3 = refresh_loop ag w game branch serving deleted (order 1 sts) m2;
         kept = present (filter (\<lambda>(a, r). a \<notin> set deleted) sts)
     in if sb_MinReplicas branch > 0 \<and> kept < sb_MinReplicas branch
        then preheat_loop ag w game branch deleted (order 2 sts) kept m3 else m3)"

section \<open>One round\<close>

fun remove_everywhere ::
  "'s agents \<Rightarrow> 'a db_scheme \<Rightarrow> string \<Rightarrow> string \<Rightarrow> string list \<Rightarrow> 's manager \<Rightarrow> 's manager" where
  "remove_everywhere ag w game branch [] m = m"
| "remove_everywhere ag w game branch (a # as) m =
    remove_everywhere ag w game branch as (fst (RemoveBranchCache ag w game branch a m))"

fun reconcile_branches ::
  "'s agents \<Rightarrow> (nat \<Rightarrow> (string \<times> bool \<times> bool) list \<Rightarrow> (string \<times> bool \<times> bool) list) \<Rightarrow> 'a db_scheme \<Rightarrow> time \<Rightarrow> string
   \<Rightarrow> string list \<Rightarrow> (string \<Rightarrow> string list) \<Rightarrow> SteamBranch list \<Rightarrow> 's manager \<Rightarrow> 's manager" where
  "reconcile_branches ag order w now game ids serving [] m = m"
| "reconcile_branches ag order w now game ids serving (b # bs) m =
    reconcile_branches ag order w now game ids serving bs
      (if sb_Status b \<noteq> Enable then remove_everywhere ag w game (sb_BranchName b) ids m
       else reconcileBranch ag order w now game b ids (serving (sb_BranchName b)) m)"

fun reconcile_games ::
  "'s agents \<Rightarrow> (string \<Rightarrow> gerr + remote_branch option list) \<Rightarrow> (nat \<Rightarrow> (string \<times> bool \<times> bool) list \<Rightarrow> (string \<times> bool \<times> bool) list)
   \<Rightarrow> time \<Rightarrow> string list \<Rightarrow> Game list \<Rightarrow> 's manager \<times> 'a db_scheme \<Rightarrow> 's manager \<times> 'a db_scheme" where
  "reconcile_games ag remote order now ids [] s = s"
| "reconcile_games ag remote order now ids (g # gs) (m, w) =
    reconcile_games ag remote order now ids gs
      (case SyncAndRecordBranch remote now (gm_ID g) w of
         (w1, Some e) \<Rightarrow> (m, w1)
       | (w1, None) \<Rightarrow>
          (case BranchRepo_ListByGame (gm_ID g) w1 of
             Inl e \<Rightarrow> (m, w1)
           | Inr bs \<Rightarrow> (reconcile_branches ag order w1 now (gm_ID g) ids
                          (\<lambda>b. servingNodesByBranch (gm_ID g) b w1) bs m, w1)))"

definition cache_reconcileOnce ::
  "'s agents \<Rightarrow> (string \<Rightarrow> gerr + remote_branch option list) \<Rightarrow> (nat \<Rightarrow> (string \<times> bool \<times> bool) list \<Rightarrow> (string \<times> bool \<times> bool) list)
   \<Rightarrow> time \<Rightarrow> 's manager \<times> 'a db_scheme \<Rightarrow> 's manager \<times> 'a db_scheme" where
  "cache_reconcileOnce ag remote order now s =
    (case AgentRepo_ListEnabledIDs (snd s) of
       Inl e \<Rightarrow> s
     | Inr ids \<Rightarrow>
        if ids = [] then s
        else case GameRepo_ListAll (snd s) of
          Inl e \<Rightarrow> s
        | Inr games \<Rightarrow> reconcile_games ag remote order now ids games s)"

section \<open>The commands of a round\<close>

definition removals :: "(cache_cmd \<times> bool) list \<Rightarrow> (string \<times> bool) list" where
  "removals cmds = List.map_filter (\<lambda>(c, ok). case c of SendRemoveCache a g b \<Rightarrow> Some (a, ok) | _ \<Rightarrow> None) cmds"

lemma removals_simps [simp]:
  "removals [] = []" "removals (xs @ ys) = removals xs @ removals ys"
  "removals [(SendCacheGame a g b v, ok)] = []" "removals [(SendRemoveCache a g b, ok)] = [(a, ok)]"
  by (simp_all add: removals_def List.map_filter_def)










definition ex_agents :: "GameCache \<Rightarrow> unit agents" where
  "ex_agents gc = \<lparr> ag_connect = (\<lambda>a addr. None), ag_get = (\<lambda>a g b s. (s, Inr (Some gc))),
     ag_cache = (\<lambda>a g b v s. (s, None)), ag_remove = (\<lambda>a g b s. (s, None)) \<rparr>"

definition ex_cache :: GameCache where
  "ex_cache = \<lparr> gca_BuildId = ''7'', gca_Status = GC_AVAILABLE, gca_DownloadProgress = 0, gca_SizeBytes = 0, gca_LastError = [] \<rparr>"

definition ex_manager :: "unit manager" where
  "ex_manager = \<lparr> cm_agents = (), cm_log = [], cm_cooldown = [] \<rparr>"

lemma ex_client: "agent_client (ex_agents gc) ''a1'' ex_disp = None"
  by (simp add: agent_client_def AgentRepo_GetByID_def NodeRepo_GetByID_def guard_call_def found_def table_simps ex_agents_def)



text \<open>An agent whose cache has been removed, or has become unusable, is left out of the reconciliation: no
  command is sent to it although instances of the branch run on it and the branch asks for replicas, while
  the same cache asks for a download when it is checked by hand.\<close>

theorem removed_cache_not_restored:
  assumes "agent_client ag a w = None" "a \<noteq> []" "game \<noteq> []" "sb_BranchName branch \<noteq> []"
    and "ag_get ag a game (sb_BranchName branch) = (\<lambda>s. (s, Inr (Some gc)))" "gca_Status gc = GC_REMOVED"
    and "order = (\<lambda>k sts. sts)" "ParseUint64 (gca_BuildId gc) = Some v" "v \<le> sb_LastBuildId branch"
  shows "cm_log (reconcileBranch ag order w now game branch [a] [a] m) = cm_log m \<and>
    CheckAndUpdate ag w game (sb_BranchName branch) (sb_LastBuildId branch) a m =
      triggerDownload ag a game (sb_BranchName branch) (sb_LastBuildId branch) m"
proof -
  have "node_states ag w game (sb_BranchName branch) [a] m = (m, [])"
    using assms(1-6) by (simp add: GetNodeCache_def)
  then have "cm_log (reconcileBranch ag order w now game branch [a] [a] m) = cm_log m"
    using assms(7) by (simp add: reconcileBranch_def Let_def present_def)
  moreover have "check_cache (sb_LastBuildId branch) gc = CheckDownload"
    using assms(6,8,9) by (simp add: check_cache_def)
  ultimately show ?thesis using assms(1-5) by (simp add: CheckAndUpdate_def)
qed

theorem removed_cache_not_restored_witness:
  "cm_log (reconcileBranch (ex_agents (ex_cache\<lparr>gca_Status := GC_REMOVED\<rparr>)) (\<lambda>k sts. sts) ex_disp 5 ''g1''
     (ex_branch\<lparr>sb_MinReplicas := 1\<rparr>) [''a1''] [''a1''] ex_manager) = []"
proof -
  have v: "ParseUint64 (gca_BuildId (ex_cache\<lparr>gca_Status := GC_REMOVED\<rparr>)) = Some 7"
    by (simp add: ParseUint64_def parse_magnitude_def is_digit_def ex_cache_def)
  have b: "sb_BranchName (ex_branch\<lparr>sb_MinReplicas := 1\<rparr>) = ''public''" "sb_LastBuildId (ex_branch\<lparr>sb_MinReplicas := 1\<rparr>) = 7"
    by (simp_all add: ex_branch_def)
  show ?thesis
    using removed_cache_not_restored[OF ex_client[of "ex_cache\<lparr>gca_Status := GC_REMOVED\<rparr>"], of "''g1''" "ex_branch\<lparr>sb_MinReplicas := 1\<rparr>"
        "ex_cache\<lparr>gca_Status := GC_REMOVED\<rparr>" "\<lambda>k sts. sts" 7 5 ex_manager] v b
    by (auto simp: ex_agents_def ex_manager_def)
qed

end
