(* ===== verification/Stale_Reaper.thy ===== *)
theory Stale_Reaper
  imports Instances
begin

text \<open>
  The sentinel of instances that are stuck in an intermediate state
  (\<open>biz/stale_reservation_reaper.go\<close>): it gives the reservation back and writes the row
  as failed.  Unlike \<open>FailedInstance\<close> it leaves the agent and the request in the row, and
  it releases neither ports nor credentials.
\<close>

definition reaper_timeout_of :: "duration \<Rightarrow> duration" where
  "reaper_timeout_of t = (if t \<le> 0 then 10 * minute else t)"

definition reaped :: "GameInstance \<Rightarrow> GameInstance" where
  "reaped i = i\<lparr>gi_Status := Failed, gi_FailReason := msg_stale_fail\<rparr>"

definition reap_one :: "duration \<Rightarrow> time \<Rightarrow> GameInstance \<Rightarrow> 'a ctl_scheme \<Rightarrow> 'a ctl_scheme" where
  "reap_one timeout now inst w =
    (if now - gi_UpdateTime inst < timeout then w
     else let w1 =
        (case (gi_NodeAgentID inst, gi_ResourceReq inst) of
           (Some a, Some req) \<Rightarrow>
             (case AgentRepo_GetByID a w of
                Inl e \<Rightarrow> w
              | Inr agent \<Rightarrow>
                 (case Release (na_NodeId agent) req w of
                    (w', Some e) \<Rightarrow> w'
                  | (w', None) \<Rightarrow> publish now EventReservationReleased (gi_ID inst) a msg_stale_release w'))
         | _ \<Rightarrow> w)
      in fst (InstanceRepo_Save now (reaped inst) w1))"

definition reaper_reconcileOnce :: "duration \<Rightarrow> time \<Rightarrow> 'a ctl_scheme \<Rightarrow> 'a ctl_scheme" where
  "reaper_reconcileOnce timeout now w =
    (case InstanceRepo_ListByStatuses [StatusPreparingBuild, StatusRestoringSnapshot, StatusStarting] w of
       Inl e \<Rightarrow> w
     | Inr is \<Rightarrow> fold (reap_one timeout now) is w)"

section \<open>What a round does\<close>

lemma reap_one_release:
  "reap_one timeout now i w =
     (if now - gi_UpdateTime i < timeout then w
      else fst (InstanceRepo_Save now (reaped i)
        (case gi_NodeAgentID i of None \<Rightarrow> w | Some a \<Rightarrow>
           (if gi_ResourceReq i \<noteq> None \<and> (\<exists>agent. AgentRepo_GetByID a w = Inr agent \<and>
                 snd (Release (na_NodeId agent) (the (gi_ResourceReq i)) w) = None)
            then publish now EventReservationReleased (gi_ID i) a msg_stale_release (releaseReservation i w)
            else releaseReservation i w))))"
  by (auto simp: reap_one_def releaseReservation_def Let_def split: option.split sum.split prod.split)

text \<open>The sentinel keeps every invariant of the dispatcher's contract.\<close>

context dispatch_invariant begin

lemma reap_one: "I w \<Longrightarrow> ok i \<Longrightarrow> I (reap_one timeout now i w)"
  by (auto simp: reap_one_release reaped_def release change_simps split: option.split intro!: save published)

lemma reaper_reconcileOnce:
  assumes "I w"
  shows "I (reaper_reconcileOnce timeout now w)"
proof -
  have k: "I (fold (reap_one timeout now) is w)" if "\<And>i. i \<in> set is \<Longrightarrow> ok i" for "is"
    using assms that by (induction "is" arbitrary: w) (auto intro: reap_one)
  then show ?thesis using assms row[OF assms]
    by (auto simp: reaper_reconcileOnce_def InstanceRepo_ListByStatuses_def intro!: k split: sum.split)
qed

end

lemma onClean_nodes:
  "t_nodes (onCleanInstanceSucceeded cfg now i w) = t_nodes (releaseReservation i (release_credentials cfg now (gi_ID i) w))"
proof -
  have p: "t_nodes (fst (ReleaseMapPortByInstanceId k u)) = t_nodes u" for k and u :: "'a disp_scheme"
    using release_ports_effect[of k u] by auto
  show ?thesis
    by (simp add: onCleanInstanceSucceeded_def Let_def p InstanceRepo_Save_def split: option.split)
qed

text \<open>The reservation of a reaped instance is given back twice.  The sentinel releases it but leaves
  agent and request in the failed row; such a row counts as a stop failure, so start and retry refuse
  it and the user must stop the instance, and the end of that stop releases the same amounts again, now
  from what other instances hold on the node.\<close>

theorem reaped_reservation_released_twice:
  assumes "timeout \<le> now - gi_UpdateTime i" "gi_NodeAgentID i = Some a" "gi_ResourceReq i = Some r"
    and "AgentRepo_GetByID a w = Inr agent" "\<forall>c. db_fault w c = None"
    and "list_all (sub_in_range r) (t_nodes w)" "list_all (sub_in_range r \<circ> sub_reserved r) (t_nodes w)"
    and "uq_subscription_single_active (tbl_put gi_ID (reaped i\<lparr>gi_UpdateTime := now\<rparr>) (t_instances w))"
  shows "\<exists>j. InstanceRepo_GetByID (gi_ID i) (reap_one timeout now i w) = Inr j \<and> IsStopFailure j \<and>
    t_nodes (reap_one timeout now i w) = tbl_upd (\<lambda>n. node_key n = na_NodeId agent) (sub_reserved r) (t_nodes w) \<and>
    t_nodes (onCleanInstanceSucceeded cfg later (j\<lparr>gi_Status := StatusCleaning\<rparr>) (reap_one timeout now i w)) =
      tbl_upd (\<lambda>n. node_key n = na_NodeId agent) (sub_reserved r \<circ> sub_reserved r) (t_nodes w)"
proof -
  let ?P = "\<lambda>n. node_key n = na_NodeId agent"
  define w1 where "w1 = w\<lparr>t_nodes := tbl_upd ?P (sub_reserved r) (t_nodes w)\<rparr>"
  define w2 where "w2 = publish now EventReservationReleased (gi_ID i) a msg_stale_release w1"
  define j where "j = reaped i\<lparr>gi_UpdateTime := now\<rparr>"
  define w3 where "w3 = w2\<lparr>t_instances := tbl_put gi_ID j (t_instances w)\<rparr>"
  have rel: "Release (na_NodeId agent) r w = (w1, None)"
    using assms(5,6) by (simp add: Release_def w1_def list_all_iff)
  have f: "db_fault w2 = db_fault w" "t_agents w2 = t_agents w" "t_instances w2 = t_instances w" "t_nodes w2 = t_nodes w1"
    by (simp_all add: w2_def w1_def)
  have r1: "reap_one timeout now i w = w3"
    using assms(1-5,8) rel
    by (simp add: reap_one_def Let_def InstanceRepo_Save_def f w3_def j_def reaped_def flip: w2_def)
  have row: "InstanceRepo_GetByID (gi_ID i) w3 = Inr j"
    using assms(5) by (simp add: InstanceRepo_GetByID_def guard_call_def found_def tbl_find_put w3_def f j_def reaped_def)
  have stop: "IsStopFailure j" using assms(2) by (simp add: IsStopFailure_def j_def reaped_def)
  have n3: "t_nodes w3 = tbl_upd ?P (sub_reserved r) (t_nodes w)" by (simp add: w3_def f w1_def)
  obtain X where c: "release_credentials cfg later (gi_ID j) w3 = w3\<lparr>t_creds := X\<rparr>"
    using release_credentials_effect by blast
  have ag: "AgentRepo_GetByID a (w3\<lparr>t_creds := X\<rparr>) = Inr agent"
    using assms(4,5) by (simp add: AgentRepo_GetByID_def guard_call_def w3_def f)
  have rg: "list_all (sub_in_range r) (t_nodes (w3\<lparr>t_creds := X\<rparr>))"
    using assms(6,7) by (auto simp: n3 list_all_iff set_tbl_upd)
  have "releaseReservation (j\<lparr>gi_Status := StatusCleaning\<rparr>) (w3\<lparr>t_creds := X\<rparr>) =
      w3\<lparr>t_creds := X, t_nodes := tbl_upd ?P (sub_reserved r) (t_nodes w3)\<rparr>"
    using releaseReservation_nodes[OF ag _ _ _ rg] assms(2,3,5) by (simp add: j_def reaped_def w3_def f)
  then have "t_nodes (onCleanInstanceSucceeded cfg later (j\<lparr>gi_Status := StatusCleaning\<rparr>) w3) =
      tbl_upd ?P (sub_reserved r) (tbl_upd ?P (sub_reserved r) (t_nodes w))"
    by (simp add: onClean_nodes c n3)
  then show ?thesis using row stop n3 by (auto simp: r1 tbl_upd_twice)
qed

text \<open>Two instances hold one core each; after the first is reaped and stopped, none is reserved.\<close>

theorem reaped_reservation_released_twice_witness:
  "\<exists>j. t_nodes (onCleanInstanceSucceeded ex_dcfg 20 (j\<lparr>gi_Status := StatusCleaning\<rparr>)
     (reap_one 10 15 (ex_instance\<lparr>gi_Status := StatusStarting, gi_NodeAgentID := Some ''a1'', gi_ResourceReq := Some ex_req\<rparr>)
       (ex_disp\<lparr>t_nodes := [ex_node\<lparr>nd_CPUReservedMilli := 2000\<rparr>]\<rparr>))) = [ex_node]"
proof -
  let ?i = "ex_instance\<lparr>gi_Status := StatusStarting, gi_NodeAgentID := Some ''a1'', gi_ResourceReq := Some ex_req\<rparr>"
  let ?w = "ex_disp\<lparr>t_nodes := [ex_node\<lparr>nd_CPUReservedMilli := 2000\<rparr>]\<rparr>"
  have a: "AgentRepo_GetByID ''a1'' ?w = Inr ex_agent"
    by (simp add: AgentRepo_GetByID_def guard_call_def found_def table_simps)
  have n: "tbl_upd (\<lambda>n. node_key n = ''1'') (sub_reserved ex_req \<circ> sub_reserved ex_req) [ex_node\<lparr>nd_CPUReservedMilli := 2000\<rparr>] = [ex_node]"
  proof -
    have "node_key (ex_node\<lparr>nd_CPUReservedMilli := 2000\<rparr>) = ''1''" using node_key_ex_node by (simp add: node_key_def)
    then show ?thesis by (simp add: tbl_upd_def) (simp add: sub_reserved_def ex_node_def ex_req_def)
  qed
  have r: "list_all (sub_in_range ex_req) [ex_node\<lparr>nd_CPUReservedMilli := 2000\<rparr>]"
    "list_all (sub_in_range ex_req \<circ> sub_reserved ex_req) [ex_node\<lparr>nd_CPUReservedMilli := 2000\<rparr>]"
    by (simp_all add: sub_in_range_def sub_reserved_def in_i32_def in_i64_def ex_node_def ex_req_def)
  have u: "uq_subscription_single_active (tbl_put gi_ID (reaped ?i\<lparr>gi_UpdateTime := 15\<rparr>) (t_instances ?w))"
    by (simp add: tbl_put_def tbl_upd_def uq_subscription_single_active_def reaped_def)
  obtain j where "t_nodes (onCleanInstanceSucceeded ex_dcfg 20 (j\<lparr>gi_Status := StatusCleaning\<rparr>) (reap_one 10 15 ?i ?w)) =
      tbl_upd (\<lambda>n. node_key n = ''1'') (sub_reserved ex_req \<circ> sub_reserved ex_req) (t_nodes ?w)"
    using reaped_reservation_released_twice[of 10 15 ?i "''a1''" ex_req ?w ex_agent ex_dcfg 20] a r u by auto
  then show ?thesis by (intro exI[of _ j]) (simp add: n del: o_apply)
qed

end
