(* ===== verification/System.thy ===== *)
theory System
  imports Cache_Manager Stale_Reaper
begin

text \<open>
  The controller as a whole: one step relation over the data base and the dispatcher's memory in which
  every component takes its turns - the dispatcher and its pollers, the watch, a restart, the queue
  waker, the users' operations, the monitors, the reaper, the event bus, the update of agents and the
  administrators.  What others do while a schedule or a start is under way are again steps of the
  system.  The memories of the pressure and the health monitor are any memory, which allows more than
  the program does.  Left out is the edit of a node (\<open>UpdateNode\<close>): it may lower the capacity below
  what is reserved, and it writes back what it read (\<open>Admin\<close>).  The theorem: whatever the components do and in whatever order, no node is
  oversold, no host port is used twice, and the dispatcher's buffers are well-formed.
\<close>

section \<open>The steps\<close>

definition finish_poller ::
  "('a disp_scheme) disp_cfg \<Rightarrow> time \<Rightarrow> (gerr + Operation) list \<Rightarrow> time \<Rightarrow> time \<Rightarrow> (time \<times> (gerr + GameCache option)) list \<Rightarrow> poller
   \<Rightarrow> 'a disp_scheme \<Rightarrow> 'a disp_scheme" where
  "finish_poller cfg now answers deadline lastReissue looks p w =
    (let w1 = w\<lparr>d_pollers := remove1 p (d_pollers w)\<rparr> in
     case p of
       PollOperation k i ph \<Rightarrow> PollingResult cfg now i ph answers w1
     | PollCache i \<Rightarrow> fst (pollCacheReady cfg i deadline lastReissue looks w1))"

text \<open>A node added by the administrator has the next number of the sequence, and no resources yet; the request
  of a new instance is not negative (the program does not check it).\<close>

inductive step :: "sched_cfg \<Rightarrow> 'a disp_scheme \<Rightarrow> 'a disp_scheme \<Rightarrow> bool" for sc where
  dispatch: "(\<And>k u. (step sc)\<^sup>*\<^sup>* u (en_before_load env k u)) \<Longrightarrow> (\<And>k u. (step sc)\<^sup>*\<^sup>* u (en_before_reserve env k u))
     \<Longrightarrow> (\<And>u. only_creds u (dc_cred_intf cfg u)) \<Longrightarrow> step sc w (NextDispatch (with_scheduler sc env cfg) rm now w)"
| polled: "p \<in> set (d_pollers w) \<Longrightarrow> step sc w (finish_poller cfg now answers deadline reissue looks p w)"
| watch: "step sc w (WatchRunningInstances (cfg :: ('a disp_scheme) disp_cfg) rm inspect now w)"
| restart: "step sc w (fst (Recover (NewReconcileDispatcher w)))"
| recovered: "step sc w (fst (Recover w))"
| wake: "step sc w (wakeOnce RequestDispatch n now w)"
| create: "(case co_Resources opts of None \<Rightarrow> True | Some r \<Rightarrow> req_nonneg r)
     \<Longrightarrow> step sc w (fst (CreateGameInstance now ident decode asset game opts w))"
| configure: "step sc w (fst (UpdateInstanceConfig now decode asset ident config w))"
| start: "(\<And>u. (step sc)\<^sup>*\<^sup>* u (meanwhile u)) \<Longrightarrow> step sc w (fst (StartGameInstance now meanwhile ident w))"
| retry: "(\<And>u. (step sc)\<^sup>*\<^sup>* u (meanwhile u)) \<Longrightarrow> step sc w (fst (RetryGameInstance now meanwhile ident w))"
| stop: "step sc w (fst (StopGameInstance now ident w))"
| cancel: "step sc w (fst (CancelGameInstance now ident w))"
| force: "UC_ForceDispatch ident w = Some (w', e) \<Longrightarrow> step sc w w'"
| delete: "step sc w (fst (DeleteGameInstance ident w))"
| reap: "step sc w (reaper_reconcileOnce timeout now w)"
| pressure: "step sc w (snd (pressure_reconcileOnce show_v now (m, w)))"
| health: "step sc w (snd (probeOnce probe gen now (h, w)))"
| end_updates: "step sc w (fst (update_ReconcileOnce wait now w))"
| update: "(\<And>r u. r \<in> set polls \<Longrightarrow> (step sc)\<^sup>*\<^sup>* u (snd r u))
     \<Longrightarrow> step sc w (fst (updateOne connect call now polls until rs target w))"
| persist: "step sc w (bus_receive now w)"
| tick: "step sc w (bus_tick now w)"
| branches: "step sc w (fst (SyncAndRecordBranch remote now game w))"
| replicas: "step sc w (fst (SetBranchMinReplicas now game branch n w))"
| add_node: "fmtID ident \<notin> set (map node_key (t_nodes w)) \<Longrightarrow> step sc w (fst (CreateNode ident ip w))"
| add_agent: "step sc w (fst (CreateNodeAgent name node port w))"
| enable: "(\<And>u. (step sc)\<^sup>*\<^sup>* u (meanwhile u)) \<Longrightarrow> step sc w (fst (SetEnabled meanwhile ident on w))"
| drop_node: "step sc w (fst (DeleteNode ident w))"
| add_game: "step sc w (fst (CreateGame register name app w))"
| edit_game: "step sc w (fst (UpdateGame register' ident name app w))"
| drop_game: "step sc w (fst (DeleteGame answer ident w))"
| edit_config: "step sc w (fst (UpdateConfig fresh game u w))"
| edit_platform: "step sc w (fst (Platform_Update now decode builds game config operator w))"
| credentials: "only_creds w w' \<Longrightarrow> step sc w w'"

section \<open>What keeps the invariant\<close>

lemma disp_ok_frame [simp]:
  "disp_ok t (w\<lparr>t_agents := A\<rparr>) = disp_ok t w" "disp_ok t (w\<lparr>t_queue := Q\<rparr>) = disp_ok t w"
  "disp_ok t (w\<lparr>t_creds := C\<rparr>) = disp_ok t w" "disp_ok t (w\<lparr>t_games := G\<rparr>) = disp_ok t w"
  "disp_ok t (w\<lparr>t_configs := F\<rparr>) = disp_ok t w" "disp_ok t (w\<lparr>t_branches := B\<rparr>) = disp_ok t w"
  "disp_ok t (w\<lparr>t_platform := P\<rparr>) = disp_ok t w" "disp_ok t (w\<lparr>t_samples := S\<rparr>) = disp_ok t w"
  "disp_ok t (w\<lparr>t_stats := T\<rparr>) = disp_ok t w" "disp_ok t (w\<lparr>t_events := E\<rparr>) = disp_ok t w"
  "disp_ok t (w\<lparr>ctl_bus := X\<rparr>) = disp_ok t w" "disp_ok t (w\<lparr>d_offline := Y\<rparr>) = disp_ok t w"
  "disp_ok t (w\<lparr>d_wake := Z\<rparr>) = disp_ok t w"
  by (simp_all add: disp_ok_def tables_ok_def cluster_ok_def nodes_within_def buffers_ok_def)

lemma disp_ok_publish [simp]: "disp_ok t (publish now ty a b d w) = disp_ok t w"
  using publish_effect[of now ty a b d w] by auto

lemma guard_write_ok: "disp_ok t w \<Longrightarrow> disp_ok t w' \<Longrightarrow> disp_ok t (fst (guard_write w c w'))"
  by (simp add: fst_guard_write)

text \<open>Writes of a node that keep its reserved amounts and its capacity.\<close>

definition same_amounts :: "Node \<Rightarrow> Node \<Rightarrow> bool" where
  "same_amounts n n' \<longleftrightarrow> node_key n' = node_key n \<and> nd_CPUReservedMilli n' = nd_CPUReservedMilli n \<and>
     nd_MemoryReservedBytes n' = nd_MemoryReservedBytes n \<and> nd_DiskReservedBytes n' = nd_DiskReservedBytes n \<and>
     cpuCapacityMilli n' = cpuCapacityMilli n \<and> memoryCapacityBytes n' = memoryCapacityBytes n \<and>
     diskCapacityBytes n' = diskCapacityBytes n"

lemma disp_ok_nodes_upd:
  assumes "disp_ok t w" "\<And>n. same_amounts n (f n)"
  shows "disp_ok t (w\<lparr>t_nodes := tbl_upd P f (t_nodes w)\<rparr>)"
proof -
  have "within_limits t (f n) = within_limits t n" "node_sane (f n) = node_sane n" "node_key (f n) = node_key n" for n
    using assms(2)[of n] by (simp_all add: same_amounts_def within_limits_def node_sane_def)
  then show ?thesis using assms(1)
    by (auto simp: disp_ok_def tables_ok_def cluster_ok_def nodes_within_def buffers_ok_def
        intro!: list_all_tbl_upd tbl_ok_upd)
qed

lemma disp_ok_nodes_del: "disp_ok t w \<Longrightarrow> disp_ok t (w\<lparr>t_nodes := tbl_del P (t_nodes w)\<rparr>)"
  by (simp add: disp_ok_def tables_ok_def cluster_ok_def nodes_within_def buffers_ok_def list_all_tbl_del tbl_ok_del)

lemma disp_ok_instances_del: "disp_ok t w \<Longrightarrow> disp_ok t (w\<lparr>t_instances := tbl_del P (t_instances w)\<rparr>)"
  by (simp add: disp_ok_def tables_ok_def cluster_ok_def nodes_within_def buffers_ok_def list_all_tbl_del)

lemma disp_ok_ports_del: "disp_ok t w \<Longrightarrow> disp_ok t (w\<lparr>t_ports := tbl_del P (t_ports w)\<rparr>)"
  by (simp add: disp_ok_def tables_ok_def cluster_ok_def nodes_within_def buffers_ok_def ports_exclusive_del)

text \<open>Operations that write agents only.\<close>

lemma agent_writes_ok:
  assumes "disp_ok t w"
  shows "disp_ok t (fst (AgentRepo_UpdateHealth a alive now w))" "disp_ok t (fst (AgentRepo_UpdateHealthStatus a s w))"
    "disp_ok t (fst (AgentRepo_UpdateAgentVersion a v w))" "disp_ok t (fst (AgentRepo_UpdateUpdateState now a st v msg w))"
    "disp_ok t (fst (AgentRepo_Save agent w))"
  using assms
  by (simp_all add: AgentRepo_UpdateHealth_def AgentRepo_UpdateHealthStatus_def AgentRepo_UpdateAgentVersion_def
      AgentRepo_UpdateUpdateState_def AgentRepo_Save_def guard_write_ok)

lemma found_obj_ok: "disp_ok t w \<Longrightarrow> InstanceRepo_GetByID ident w = Inr i \<Longrightarrow> obj_ok i"
  using disp.row[of t w i] by (auto simp: InstanceRepo_GetByID_def dest: tbl_find_SomeD)

lemma obj_ok_cong: "obj_ok i \<Longrightarrow> gi_ResourceReq j = gi_ResourceReq i \<Longrightarrow> obj_ok j"
  by (simp add: obj_ok_def)

lemma fold_keeps: "P x \<Longrightarrow> (\<And>y x. P x \<Longrightarrow> P (f y x)) \<Longrightarrow> P (fold f ys x)"
  by (induction ys arbitrary: x) auto

section \<open>The users' operations\<close>

lemma Create_ok:
  assumes "disp_ok t w" "case co_Resources opts of None \<Rightarrow> True | Some r \<Rightarrow> req_nonneg r"
  shows "disp_ok t (fst (CreateGameInstance now ident decode asset game opts w))"
  using assms disp.saved[of now _ w _ _ _ t]
  by (auto simp: CreateGameInstance_def Let_def obj_ok_def split: sum.split option.splits prod.split)

lemma Configure_ok: "disp_ok t w \<Longrightarrow> disp_ok t (fst (UpdateInstanceConfig now decode asset ident config w))"
  using disp.saved[of now _ w _ _ _ t] found_obj_ok[of t w ident]
  by (auto simp: UpdateInstanceConfig_def Let_def obj_ok_def split: sum.split option.splits prod.split)

lemma to_pending_ok:
  assumes "disp_ok t w" "obj_ok i" "\<And>u. disp_ok t u \<Longrightarrow> disp_ok t (meanwhile u)" "to_pending now meanwhile i w = (w', r)"
  shows "disp_ok t w' \<and> (\<forall>j. r = Inr j \<longrightarrow> obj_ok j)"
proof -
  have o: "obj_ok (i\<lparr>gi_Status := StatusPending, gi_FailReason := [], gi_LastPendingTime := now\<rparr>)"
    using assms(2) by (simp add: obj_ok_def)
  show ?thesis using assms(1,4)
    by (auto simp: to_pending_def split: option.splits prod.splits
        dest!: disp.saved[where now = now, OF _ assms(3)[OF assms(1)] o])
qed

lemma Start_ok:
  assumes "disp_ok t w" "\<And>u. disp_ok t u \<Longrightarrow> disp_ok t (meanwhile u)"
  shows "disp_ok t (fst (StartGameInstance now meanwhile ident w))" "disp_ok t (fst (RetryGameInstance now meanwhile ident w))"
proof -
  have p: "disp_ok t w1 \<and> (\<forall>j. r = Inr j \<longrightarrow> obj_ok j)"
    if "to_pending now meanwhile i w = (w1, r)" "InstanceRepo_GetByID ident w = Inr i" for i w1 r
    using to_pending_ok[OF assms(1) found_obj_ok[OF assms(1) that(2)] assms(2) that(1)] .
  show "disp_ok t (fst (StartGameInstance now meanwhile ident w))" "disp_ok t (fst (RetryGameInstance now meanwhile ident w))"
    using assms(1) by (auto simp: StartGameInstance_def RetryGameInstance_def disp.request split: sum.split prod.split dest!: p)
qed

lemma Stop_ok: "disp_ok t w \<Longrightarrow> disp_ok t (fst (StopGameInstance now ident w))"
proof -
  assume w: "disp_ok t w"
  have "disp_ok t w1" if "InstanceRepo_UpdateStatus now i w = (w1, e)" for i w1 e
    using disp.update_status[OF w, of now i] that by simp
  then show ?thesis using w found_obj_ok[OF w, of ident]
    by (auto simp: StopGameInstance_def Let_def disp.request disp.change_simps split: sum.split prod.split option.split)
qed

lemma QM_Cancel_ok: "QM_Cancel ident w = (w', e) \<Longrightarrow> disp_ok t w \<Longrightarrow> disp_ok t w'"
  using disp.cancel[of t w ident] by simp

lemma Save_ok: "InstanceRepo_Save now j w = (w', k, e) \<Longrightarrow> disp_ok t w \<Longrightarrow> obj_ok j \<Longrightarrow> disp_ok t w'"
  using disp.saved by blast

lemma Cancel_ok:
  assumes "disp_ok t w"
  shows "disp_ok t (fst (CancelGameInstance now ident w))"
  unfolding CancelGameInstance_def CancelQueued_def Let_def
  using assms found_obj_ok[OF assms, of ident]
  by (auto split: sum.split prod.split option.split dest!: QM_Cancel_ok[OF _ assms] elim!: Save_ok intro: obj_ok_cong)

lemma Force_ok:
  assumes "UC_ForceDispatch ident w = Some (w', e)" "disp_ok t w"
  shows "disp_ok t w'"
  using assms found_obj_ok[OF assms(2), of ident]
  by (auto simp: UC_ForceDispatch_def ForceDispatch_def disp_ok_def tables_ok_def cluster_ok_def nodes_within_def
      buffers_ok_def split: sum.splits if_splits)

lemma Repo_Delete_ok: "disp_ok t w \<Longrightarrow> disp_ok t (fst (InstanceRepo_Delete ident w))"
  by (simp add: InstanceRepo_Delete_def disp_ok_instances_del split: option.split)

lemma Ports_Delete_ok: "disp_ok t w \<Longrightarrow> disp_ok t (fst (PortRepo_DeleteByInstanceId ident w))"
  by (simp add: PortRepo_DeleteByInstanceId_def guard_write_ok disp_ok_ports_del)

lemma Delete_ok:
  assumes "disp_ok t w"
  shows "disp_ok t (fst (DeleteGameInstance ident w))"
proof -
  define finish :: "'a disp_scheme \<Rightarrow> _" where "finish = (\<lambda>w. case PortRepo_DeleteByInstanceId ident w of
           (w1, Some e) \<Rightarrow> (w1, Some (Wrapped ''delete instance port mappings: '' e []))
         | (w1, None) \<Rightarrow> InstanceRepo_Delete ident w1)"
  have f: "disp_ok t (fst (finish u))" if "disp_ok t u" for u
    using Ports_Delete_ok[OF that, of ident] by (auto simp: finish_def Repo_Delete_ok split: prod.split option.split)
  show ?thesis unfolding DeleteGameInstance_def finish_def[symmetric] Let_def
    using assms by (auto simp: f split: sum.split prod.split option.split dest!: QM_Cancel_ok[OF _ assms])
qed

section \<open>The other components\<close>

lemma wake_loop_ok: "disp_ok t w \<Longrightarrow> disp_ok t (fst (wake_loop RequestDispatch mx seen woke qs w))"
proof (induction qs arbitrary: seen woke w)
  case (Cons q qs)
  have "disp_ok t (fst (QueueRepo_Dequeue k w))" for k
    using disp.cancel[OF Cons.prems, of k] by (simp add: QM_Cancel_def)
  moreover have "disp_ok t (fst (RequestDispatch i w))" if "InstanceRepo_GetByID k w = Inr i" for k i
    using disp.request[OF Cons.prems found_obj_ok[OF Cons.prems that]] .
  ultimately show ?case using Cons by (auto simp: Let_def split: sum.split)
qed simp

lemma wakeOnce_ok: "disp_ok t w \<Longrightarrow> disp_ok t (wakeOnce RequestDispatch n now w)"
  by (simp add: wakeOnce_def wake_loop_ok split: sum.split)

lemma restarted_ok: "disp_ok t w \<Longrightarrow> disp_ok t (NewReconcileDispatcher w)"
  by (simp add: NewReconcileDispatcher_def disp_ok_def tables_ok_def cluster_ok_def nodes_within_def buffers_ok_def)

lemma request_all_ok: "disp_ok t w \<Longrightarrow> list_all obj_ok is \<Longrightarrow> disp_ok t (request_all is w)"
  by (induction "is" arbitrary: w) (auto intro: disp.request)

lemma Recover_ok: "disp_ok t w \<Longrightarrow> disp_ok t (fst (Recover w))"
  using disp.row[of t w]
  by (auto simp: Recover_def InstanceRepo_ListByStatuses_def list_all_iff intro!: request_all_ok split: sum.split)

lemma transition_ok:
  assumes "disp_ok t w"
  shows "disp_ok t (transition show_v m now k s util w)"
proof -
  have "disp_ok t (fst (NodeRepo_UpdatePressureStatus k s w))"
    unfolding NodeRepo_UpdatePressureStatus_def using assms
    by (intro guard_write_ok disp_ok_nodes_upd) (simp_all add: same_amounts_def node_key_def cpuCapacityMilli_def
        memoryCapacityBytes_def diskCapacityBytes_def)
  then show ?thesis by (auto simp: transition_def split: prod.split option.split)
qed

lemma pressure_ok:
  fixes w :: "'a disp_scheme"
  shows "disp_ok t w \<Longrightarrow> disp_ok t (snd (pressure_reconcileOnce show_v now (m, w)))"
proof -
  assume w: "disp_ok t w"
  have "disp_ok t (snd (evaluateNode show_v now since n x))" if "disp_ok t (snd x)"
    for since n and x :: "PressureMonitor \<times> 'a disp_scheme"
    using that by (auto simp: evaluateNode_def Let_def transition_ok split: prod.split sum.split)
  then have "disp_ok t (snd (fold (evaluateNode show_v now since) ns x))" if "disp_ok t (snd x)"
    for since ns and x :: "PressureMonitor \<times> 'a disp_scheme"
    using that by (intro fold_keeps[where P = "\<lambda>x. disp_ok t (snd x)"])
  then show ?thesis using w by (simp add: pressure_reconcileOnce_def split: sum.split)
qed

lemma mark_ok: "disp_ok t w \<Longrightarrow> disp_ok t (mark now a alive w)"
  by (simp add: mark_def agent_writes_ok)

lemma markUnhealthy_ok: "disp_ok t w \<Longrightarrow> disp_ok t (markUnhealthy now a w)"
  by (simp add: markUnhealthy_def publishHealthChange_def mark_ok agent_writes_ok)

lemma usage_ok: "disp_ok t w \<Longrightarrow> disp_ok t (fst (NodeRepo_UpdateDynamicUsage k u now w))"
  unfolding NodeRepo_UpdateDynamicUsage_def
  by (intro guard_write_ok disp_ok_nodes_upd) (simp_all add: same_amounts_def node_key_def cpuCapacityMilli_def
      memoryCapacityBytes_def diskCapacityBytes_def)

lemma heartbeat_ok:
  assumes "disp_ok t (snd x)"
  shows "disp_ok t (snd (applyHeartbeat k now agent node hb x))"
proof -
  obtain m w where x: "x = (m, w)" by fastforce
  have s: "disp_ok t (fst (SampleRepo_Append k sm u)) = disp_ok t u" for sm and u :: "'a disp_scheme"
    by (simp add: SampleRepo_Append_def guard_write_def split: option.split)
  obtain w1 e where h: "AgentRepo_UpdateHealthStatus (na_ID agent) (heartbeat_status m hb) w = (w1, e)" by fastforce
  then have "disp_ok t w1" using agent_writes_ok(2)[of t w] assms x by (metis fst_conv snd_conv)
  then show ?thesis using x h
    by (auto simp: applyHeartbeat_def Let_def s usage_ok publishHealthChange_def split: option.split)
qed

lemma heartbeat_step:
  "applyHeartbeat k now agent node hb (m, mark now a True w) = (m', w') \<Longrightarrow> disp_ok t w \<Longrightarrow> disp_ok t w'"
  using heartbeat_ok[where x = "(m, mark now a True w)" and t = t and k = k and now = now and agent = agent
      and node = node and hb = hb]
  by (simp add: mark_ok)

lemma health_ok:
  fixes w :: "'a disp_scheme"
  shows "disp_ok t w \<Longrightarrow> disp_ok t (snd (probeOnce probe gen now (h, w)))"
proof -
  assume w: "disp_ok t w"
  have "disp_ok t (snd (probeAgent probe gen now a x))" if "disp_ok t (snd x)"
    for a and x :: "HealthMonitor \<times> 'a disp_scheme"
    using that
    by (auto simp: probeAgent_def Let_def markUnhealthy_ok agent_writes_ok mark_ok
        split: prod.split sum.split probe.split option.split dest!: heartbeat_step)
  then have "disp_ok t (snd (fold (probeAgent probe gen now) as x))" if "disp_ok t (snd x)"
    for as and x :: "HealthMonitor \<times> 'a disp_scheme"
    using that by (intro fold_keeps[where P = "\<lambda>x. disp_ok t (snd x)"])
  then show ?thesis using w by (simp add: probeOnce_def split: sum.split)
qed

lemma reconciler_ok:
  fixes w :: "'a disp_scheme"
  shows "disp_ok t w \<Longrightarrow> disp_ok t (fst (update_ReconcileOnce wait now w))"
proof -
  assume w: "disp_ok t w"
  have "disp_ok t (reconcile_agent wait now a u)" if "disp_ok t u" for a and u :: "'a disp_scheme"
    using that by (auto simp: reconcile_agent_def agent_writes_ok split: option.split)
  then have "disp_ok t (fold (reconcile_agent wait now) as w)" for as
    using w by (intro fold_keeps[where P = "disp_ok t"])
  then show ?thesis using w by (simp add: update_ReconcileOnce_def split: sum.split)
qed

lemma await_ok:
  "disp_ok t w \<Longrightarrow> (\<And>r u. r \<in> set polls \<Longrightarrow> disp_ok t u \<Longrightarrow> disp_ok t (snd r u))
   \<Longrightarrow> disp_ok t (fst (await_version a v polls until w))"
proof (induction polls arbitrary: w)
  case (Cons r polls)
  obtain now others where r: "r = (now, others)" by fastforce
  have "disp_ok t (others w)" using Cons.prems(1) Cons.prems(2)[of r w] r by simp
  then show ?case using Cons.IH[of "others w"] Cons.prems(2) r
    by (auto simp: Let_def agent_writes_ok split: sum.split)
qed (simp add: update_fail_def agent_writes_ok)

lemma send_update_ok:
  assumes "disp_ok t w" "\<And>r u. r \<in> set polls \<Longrightarrow> disp_ok t u \<Longrightarrow> disp_ok t (snd r u)"
  shows "disp_ok t (fst (send_update connect call now polls until agent release w))"
proof -
  have f: "disp_ok t (update_fail now a v m w)" for a v m using assms(1) by (simp add: update_fail_def agent_writes_ok)
  have "disp_ok t w2" if "await_version a v polls until (fst (AgentRepo_UpdateUpdateState now a st v m w)) = (w2, r)"
    for a v st m w2 r
    using await_ok[OF agent_writes_ok(4)[OF assms(1)] assms(2), where polls = polls] that by (metis fst_conv)
  then show ?thesis using f
    by (auto simp: send_update_def Let_def split: sum.split option.split prod.split)
qed

lemma updateOne_ok:
  assumes "disp_ok t w" "\<And>r u. r \<in> set polls \<Longrightarrow> disp_ok t u \<Longrightarrow> disp_ok t (snd r u)"
  shows "disp_ok t (fst (updateOne connect call now polls until rs target w))"
proof -
  have "disp_ok t w1" if "AgentRepo_UpdateUpdateState now a st v m w = (w1, e)" for a st v m w1 e
    using agent_writes_ok(4)[OF assms(1)] that by (metis fst_conv)
  moreover have "disp_ok t (fst (send_update connect call now polls until agent release u))" if "disp_ok t u" for agent release u
    using send_update_ok[OF that assms(2)] by simp
  ultimately show ?thesis using assms(1)
    by (auto simp: updateOne_def Let_def split: sum.split option.split prod.split list.split)
qed

lemma bus_ok': "disp_ok t w \<Longrightarrow> disp_ok t (bus_receive now w)" "disp_ok t w \<Longrightarrow> disp_ok t (bus_tick now w)"
  by (auto simp: bus_receive_def bus_tick_def bus_flush_def EventRepo_AppendBatch_def EventRepo_PruneBefore_def
      guard_write_def Let_def split: option.split list.split)

section \<open>The administrators\<close>

lemma record_branches_ok: "disp_ok t w \<Longrightarrow> disp_ok t (fst (record_branches game now bs w))"
proof (induction bs arbitrary: w)
  case (Cons b bs)
  then show ?case
    by (auto simp: Let_def BranchRepo_Save_def guard_write_def split: sum.split option.split prod.split)
qed simp

lemma abandon_branches_ok: "disp_ok t w \<Longrightarrow> disp_ok t (fst (abandon_branches names now bs w))"
  by (induction bs arbitrary: w) (auto simp: BranchRepo_Save_def guard_write_def split: option.split)

lemma Sync_ok: "disp_ok t w \<Longrightarrow> disp_ok t (fst (SyncAndRecordBranch remote now game w))"
  using record_branches_ok[of t w game now]
  by (auto simp: SyncAndRecordBranch_def Let_def split: sum.split prod.split option.split)
     (metis fst_conv abandon_branches_ok)+

lemma Replicas_ok: "disp_ok t w \<Longrightarrow> disp_ok t (fst (SetBranchMinReplicas now game branch n w))"
  by (simp add: SetBranchMinReplicas_def BranchRepo_Save_def guard_write_def split: sum.split option.split)

lemma CreateNode_ok:
  assumes "disp_ok t w" "fmtID ident \<notin> set (map node_key (t_nodes w))"
  shows "disp_ok t (fst (CreateNode ident ip w))"
proof -
  let ?n = "zero_node ident ip"
  have "within_limits t ?n" "node_sane ?n"
    using capacityLimit_range[of 0 t]
    by (simp_all add: zero_node_def within_limits_def node_sane_def cpuCapacityMilli_def memoryCapacityBytes_def
        diskCapacityBytes_def wrap64_id in_i64_def)
  then have "disp_ok t (w\<lparr>t_nodes := tbl_put node_key ?n (t_nodes w)\<rparr>)"
    using assms(1) by (simp add: disp_ok_def tables_ok_def cluster_ok_def nodes_within_def buffers_ok_def
        list_all_tbl_put tbl_ok_put)
  then show ?thesis using assms(1)
    by (auto simp: CreateNode_def NodeRepo_Save_def guard_write_def split: option.split)
qed

lemma DeleteNode_ok: "disp_ok t w \<Longrightarrow> disp_ok t (fst (DeleteNode ident w))"
  by (simp add: DeleteNode_def NodeRepo_Delete_def guard_write_ok disp_ok_nodes_del split: sum.split option.split)

lemma CreateNodeAgent_ok: "disp_ok t w \<Longrightarrow> disp_ok t (fst (CreateNodeAgent name node port w))"
  using agent_writes_ok(5)[of t w]
  by (auto simp: CreateNodeAgent_def Let_def split: prod.split option.split) (metis fst_conv)+

lemma SetEnabled_ok:
  assumes "disp_ok t w" "\<And>u. disp_ok t u \<Longrightarrow> disp_ok t (meanwhile u)"
  shows "disp_ok t (fst (SetEnabled meanwhile ident on w))"
  using assms(1) agent_writes_ok(5)[OF assms(2)[OF assms(1)]]
  by (auto simp: SetEnabled_def Let_def split: sum.split prod.split option.split) (metis fst_conv)+

lemma games_ok:
  assumes "disp_ok t w"
  shows "disp_ok t (fst (CreateGame register name app w))" "disp_ok t (fst (UpdateGame register' ident name app w))"
    "disp_ok t (fst (UpdateConfig fresh game u w))"
    "disp_ok t (fst (Platform_Update now decode builds game config operator w))"
  using assms
  by (auto simp: CreateGame_def UpdateGame_def GameRepo_Save_def UpdateConfig_def ConfigRepo_Save_def
      ConfigRepo_ReplacePortExcerpts_def Platform_Update_def PlatformRepo_Save_def guard_write_def Let_def
      split: sum.split option.split)

lemma delete_instances_ok: "disp_ok t w \<Longrightarrow> disp_ok t (fst (delete_instances is w))"
proof (induction "is" arbitrary: w)
  case (Cons i "is")
  have p: "disp_ok t w1" if "PortRepo_DeleteByInstanceId (gi_ID i) w = (w1, e)" for w1 e
    using Ports_Delete_ok[OF Cons.prems] that by (metis fst_conv)
  have r: "disp_ok t w2" if "InstanceRepo_Delete (gi_ID i) w1 = (w2, e)" "disp_ok t w1" for w1 w2 e
    using Repo_Delete_ok[OF that(2)] that(1) by (metis fst_conv)
  show ?case using Cons.IH by (auto split: prod.split option.split dest!: p r)
qed simp

lemma DeleteGame_ok:
  assumes "disp_ok t w"
  shows "disp_ok t (fst (DeleteGame answer ident w))"
proof -
  have d: "disp_ok t w1" if "delete_instances is w = (w1, e)" for "is" w1 e
    using delete_instances_ok[OF assms] that by (metis fst_conv)
  have c: "disp_ok t w1" if "delete_config ident u = (w1, e)" "disp_ok t u" for u w1 e
    using that by (auto simp: delete_config_def ConfigRepo_Delete_def guard_write_def Let_def
        split: sum.splits if_splits option.splits)
  show ?thesis unfolding DeleteGame_def using assms
    by (auto simp: BranchRepo_DeleteByGame_def GameRepo_Delete_def guard_write_def
        split: sum.split option.split prod.split dest!: d elim!: c)
qed

section \<open>The invariant of the system\<close>

lemma meanwhile_ok: "(\<lambda>x y. step sc x y \<and> (P x \<longrightarrow> P y))\<^sup>*\<^sup>* u v \<Longrightarrow> P u \<Longrightarrow> P v"
  by (induction rule: rtranclp_induct) auto

lemma finish_poller_ok:
  assumes "disp_ok t w" "p \<in> set (d_pollers w)"
  shows "disp_ok t (finish_poller cfg now answers deadline reissue looks p w)"
  using disp.poller[OF assms]
  by (auto simp: finish_poller_def Let_def poller_object_def disp.PollingResult disp.pollCacheReady split: poller.split)

lemma watch_ok: "disp_ok t w \<Longrightarrow> disp_ok t (WatchRunningInstances cfg rm inspect now w)"
  by (rule disp.WatchRunningInstances)

lemma step_ok: "step sc w w' \<Longrightarrow> disp_ok (sc_utilizationTarget sc) w \<Longrightarrow> disp_ok (sc_utilizationTarget sc) w'"
proof (induction rule: step.induct)
  case (dispatch env cfg w rm now)
  have "whole.env_keeps sc env"
    using meanwhile_ok[where P = "disp_ok (sc_utilizationTarget sc)", OF dispatch.IH(1)]
      meanwhile_ok[where P = "disp_ok (sc_utilizationTarget sc)", OF dispatch.IH(2)]
    by (simp add: whole.env_keeps_def)
  from with_scheduler_run[OF this dispatch.hyps] show ?case
    using dispatch.prems by (rule dispatch_run.NextDispatch)
next
  case (start meanwhile now ident w)
  then show ?case using meanwhile_ok[where P = "disp_ok (sc_utilizationTarget sc)", OF start.IH] by (intro Start_ok)
next
  case (retry meanwhile now ident w)
  then show ?case using meanwhile_ok[where P = "disp_ok (sc_utilizationTarget sc)", OF retry.IH] by (intro Start_ok)
next
  case (enable meanwhile ident on w)
  then show ?case using meanwhile_ok[where P = "disp_ok (sc_utilizationTarget sc)", OF enable.IH] by (intro SetEnabled_ok)
next
  case (update polls connect call now until rs target w)
  then show ?case using meanwhile_ok[where P = "disp_ok (sc_utilizationTarget sc)", OF update.IH] by (intro updateOne_ok)
next
  case (force ident w w' e)
  show ?case by (rule Force_ok[OF force])
next
  case (credentials w w')
  show ?case by (rule disp.only_creds[OF credentials(2,1)])
qed (simp_all add: finish_poller_ok watch_ok restarted_ok Recover_ok wakeOnce_ok Create_ok Configure_ok Stop_ok Cancel_ok
      Delete_ok disp.reaper_reconcileOnce pressure_ok health_ok reconciler_ok bus_ok' Sync_ok Replicas_ok
      CreateNode_ok CreateNodeAgent_ok DeleteNode_ok games_ok DeleteGame_ok)

text \<open>C1: whatever the components of the controller do, the edit of a node apart, one after the other and with others' steps between
  the reads and the writes of a schedule, a start or an update: from a state in which no node is
  oversold, no host port is mapped twice and the dispatcher's buffers are well-formed, only such
  states are reached.\<close>

theorem system_safe:
  assumes "(step sc)\<^sup>*\<^sup>* w w'" "disp_ok (sc_utilizationTarget sc) w"
  shows "disp_ok (sc_utilizationTarget sc) w'"
  using assms by (induction rule: rtranclp_induct) (auto intro: step_ok)

lemma ex_disp_ok: "disp_ok 1 (ex_disp\<lparr>d_queue := [ex_instance]\<rparr>)"
  by (simp add: disp_ok_def tables_ok_def buffers_ok_def cluster_ok_def nodes_within_def within_limits_def tbl_ok_def
      ports_exclusive_def obj_ok_def node_sane_def capacityLimit_one cpuCapacityMilli_def memoryCapacityBytes_def
      diskCapacityBytes_def mebibyte_def wrap64_id in_i64_def)

theorem system_safe_witness:
  "disp_ok 1 (fst (Recover (NewReconcileDispatcher
     (NextDispatch (with_scheduler ex_cfg (alone_env 0 (\<lambda>_ _. [])) (ex_dcfg\<lparr>dc_cred_intf := (\<lambda>w. w)\<rparr>)) ex_remote 5
        (ex_disp\<lparr>d_queue := [ex_instance]\<rparr>)))))"
proof -
  let ?w = "ex_disp\<lparr>d_queue := [ex_instance]\<rparr>"
  let ?d = "NextDispatch (with_scheduler ex_cfg (alone_env 0 (\<lambda>_ _. [])) (ex_dcfg\<lparr>dc_cred_intf := (\<lambda>w. w)\<rparr>)) ex_remote 5 ?w"
  have "step ex_cfg ?w ?d" by (rule step.dispatch) (simp_all add: alone_env_def)
  then have "(step ex_cfg)\<^sup>*\<^sup>* ?w (fst (Recover (NewReconcileDispatcher ?d)))"
    using step.restart[of ex_cfg ?d] by (meson r_into_rtranclp rtranclp.rtrancl_into_rtrancl)
  from system_safe[OF this] show ?thesis using ex_disp_ok by simp
qed

end
