(* ===== verification/Watch_Properties.thy ===== *)
theory Watch_Properties
  imports Dispatch_Properties
begin

text \<open>Recovery after a restart, the queue waker on the dispatcher's queue, and the fencing of
  instances on unreachable nodes.\<close>

section \<open>Recovery\<close>

lemma request_all_waiting:
  "\<forall>i \<in> set is. isDispatchableStatus (gi_Status i) \<Longrightarrow> waiting (request_all is w) = waiting w + mset is"
proof (induction "is" arbitrary: w)
  case (Cons i "is")
  then show ?case using request_waiting[of i w] by simp
qed simp

text \<open>After a restart exactly the instances that have not reached a resting state wait in the
  queue, each once, and so do the queued ones.\<close>

theorem Recover_resumes_unfinished:
  assumes "db_fault w InstList = None"
  shows "waiting (fst (Recover (NewReconcileDispatcher w))) =
    mset (filter (\<lambda>i. gi_Status i \<notin> {StatusRunning, StatusStopped, Failed}) (t_instances w))"
proof -
  have m: "InstanceRepo_ListByStatuses dispatchableStatuses (NewReconcileDispatcher w) =
      Inr (filter (\<lambda>i. isDispatchableStatus (gi_Status i)) (t_instances w))"
    using assms by (simp add: InstanceRepo_ListByStatuses_def NewReconcileDispatcher_def
        isDispatchableStatus_def del: isDispatchableStatus_iff)
  have "waiting (NewReconcileDispatcher w) = {#}" by (simp add: waiting_def NewReconcileDispatcher_def)
  then show ?thesis
    using request_all_waiting[of "filter (\<lambda>i. isDispatchableStatus (gi_Status i)) (t_instances w)" "NewReconcileDispatcher w"]
    by (simp add: Recover_def m)
qed

theorem Recover_resumes_unfinished_witness:
  "waiting (fst (Recover (NewReconcileDispatcher (ex_disp\<lparr>t_instances := [ex_instance\<lparr>gi_Status := StatusStarting\<rparr>, ex_instance]\<rparr>)))) =
     {#ex_instance\<lparr>gi_Status := StatusStarting\<rparr>#}"
  by (subst Recover_resumes_unfinished) (simp_all add: ex_instance_def)

section \<open>The waker and the dispatcher\<close>

text \<open>A round of the waker adds to the dispatcher's queue only instances whose row says queued, at
  most as many as a round allows, and writes no instance row.\<close>

theorem wakeOnce_hands_over:
  "\<exists>new. waiting (wakeOnce RequestDispatch mx now w) = waiting w + new \<and>
     set_mset new \<subseteq> {i \<in> set (t_instances w). gi_Status i = StatusQueued} \<and> int (size new) \<le> max 0 mx \<and>
     t_instances (wakeOnce RequestDispatch mx now w) = t_instances w"
  using reconciler.wakeOnce_pending[of mx now w] reconciler.wakeOnce_frame[of mx now w] by blast

text \<open>When the instance of a due row cannot be read, for whatever reason (a driver error is
  enough), the row is removed from the waiting queue although the instance still says queued:
  no later round will wake it.\<close>

theorem wakeOnce_forgets_on_read_error:
  assumes "q \<in> set (t_queue w)" "sq_WakeAt q \<le> now" "int (length (t_queue w)) \<le> mx"
    and "db_fault w (InstGet (sq_InstanceID q)) = Some err"
    and "db_fault w (QueueDequeue (sq_InstanceID q)) = None" "db_fault w QueueListDue = None"
  shows "sq_InstanceID q \<notin> sq_InstanceID ` set (t_queue (wakeOnce RequestDispatch mx now w)) \<and>
    t_instances (wakeOnce RequestDispatch mx now w) = t_instances w"
  using reconciler.wakeOnce_removes[of q w now mx] reconciler.wakeOnce_frame[of mx now w] assms
  by (simp add: InstanceRepo_GetByID_def)

theorem wakeOnce_forgets_on_read_error_witness:
  "''i1'' \<notin> sq_InstanceID ` set (t_queue (wakeOnce RequestDispatch 50 10
      (ex_disp\<lparr>t_queue := [ex_row], db_fault := (\<lambda>c. if c = InstGet ''i1'' then Some ''timeout'' else None)\<rparr>)))"
  using wakeOnce_forgets_on_read_error[of ex_row
      "ex_disp\<lparr>t_queue := [ex_row], db_fault := (\<lambda>c. if c = InstGet ''i1'' then Some ''timeout'' else None)\<rparr>" 10 50 "''timeout''"]
  by (simp add: ex_row_def)

section \<open>Fencing\<close>

lemma map_of_tbl_del_other: "map_of (tbl_del (\<lambda>p. fst p = k') xs) k = (if k = k' then None else map_of xs k)"
  by (induction xs) (auto simp: tbl_del_def)

definition unreachable_agent :: "NodeAgent \<Rightarrow> bool" where
  "unreachable_agent a \<longleftrightarrow> \<not> na_Alive a \<or> na_HealthStatus a = HealthUnhealthy"

text \<open>The rounds of the watch that see one instance.\<close>

definition watch_rounds ::
  "'w disp_cfg \<Rightarrow> GameInstance \<Rightarrow> (time \<times> NodeAgent \<times> inspection) list \<Rightarrow> 'a disp_scheme \<Rightarrow> 'a disp_scheme" where
  "watch_rounds cfg i rs w = fold (\<lambda>(now, agent, answer). watch_inspect cfg now i agent answer) rs w"

lemma short_round:
  assumes "\<forall>r. answer \<noteq> Inr (Some (True, r))"
    and "case map_of (d_offline w) (gi_ID i) of None \<Rightarrow> True | Some first \<Rightarrow> now - first < dc_fencingTimeout cfg"
  shows "\<exists>X. watch_inspect cfg now i agent answer w = w\<lparr>d_offline := X\<rparr> \<and>
     map_of X (gi_ID i) \<in> {None, Some now, map_of (d_offline w) (gi_ID i)}"
proof -
  have clear: "\<exists>X. clearOffline (gi_ID i) w = w\<lparr>d_offline := X\<rparr> \<and> map_of X (gi_ID i) = None"
    by (rule exI[of _ "tbl_del (\<lambda>p. fst p = gi_ID i) (d_offline w)"]) (simp add: clearOffline_def map_of_tbl_del)
  have same: "\<exists>X. w = w\<lparr>d_offline := X\<rparr> \<and> map_of X (gi_ID i) = map_of (d_offline w) (gi_ID i)"
    by (rule exI[of _ "d_offline w"]) simp
  have mark: "\<exists>X. w\<lparr>d_offline := d_offline w @ [(gi_ID i, now)]\<rparr> = w\<lparr>d_offline := X\<rparr> \<and> map_of X (gi_ID i) = Some now"
    if "map_of (d_offline w) (gi_ID i) = None"
    by (rule exI[of _ "d_offline w @ [(gi_ID i, now)]"]) (simp add: that map_add_def)
  have "watch_inspect cfg now i agent answer w = clearOffline (gi_ID i) w \<or>
      watch_inspect cfg now i agent answer w = w \<or>
      map_of (d_offline w) (gi_ID i) = None \<and>
      watch_inspect cfg now i agent answer w = w\<lparr>d_offline := d_offline w @ [(gi_ID i, now)]\<rparr>"
  proof (cases answer)
    case (Inl e)
    then show ?thesis using assms(2)
      by (cases "map_of (d_offline w) (gi_ID i)") (simp_all add: watch_inspect_def markOfflineAndShouldFence_def)
  next
    case (Inr r)
    then show ?thesis using assms(1) by (cases r) (auto simp: watch_inspect_def)
  qed
  then show ?thesis
  proof (elim disjE conjE)
    assume "watch_inspect cfg now i agent answer w = clearOffline (gi_ID i) w"
    then show ?thesis using clear by auto
  next
    assume "watch_inspect cfg now i agent answer w = w"
    then show ?thesis using same by auto
  next
    assume n: "map_of (d_offline w) (gi_ID i) = None"
      "watch_inspect cfg now i agent answer w = w\<lparr>d_offline := d_offline w @ [(gi_ID i, now)]\<rparr>"
    obtain X where "w\<lparr>d_offline := d_offline w @ [(gi_ID i, now)]\<rparr> = w\<lparr>d_offline := X\<rparr>" "map_of X (gi_ID i) = Some now"
      using mark[OF n(1)] by blast
    then show ?thesis unfolding n(2) by blast
  qed
qed

lemma short_rounds:
  assumes "\<forall>(t, ag, ans) \<in> set rs. \<forall>r. ans \<noteq> Inr (Some (True, r))"
    and "\<forall>(t, ag, ans) \<in> set rs. \<forall>t' \<in> T. t - t' < dc_fencingTimeout cfg" "fst ` set rs \<subseteq> T"
    and "map_of (d_offline w) (gi_ID i) \<in> insert None (Some ` T)"
  shows "\<exists>X. watch_rounds cfg i rs w = w\<lparr>d_offline := X\<rparr>"
  using assms
proof (induction rs arbitrary: w)
  case Nil
  show ?case by (simp add: watch_rounds_def) (metis (no_types) disp.surjective disp.update_convs(4))
next
  case (Cons r rs)
  obtain t ag ans where r: "r = (t, ag, ans)" by (cases r)
  have m: "case map_of (d_offline w) (gi_ID i) of None \<Rightarrow> True | Some first \<Rightarrow> t - first < dc_fencingTimeout cfg"
    using Cons.prems(2,4) by (auto simp: r split: option.split)
  have nf: "\<forall>x. ans \<noteq> Inr (Some (True, x))" using Cons.prems(1) by (auto simp: r)
  obtain X where X: "watch_inspect cfg t i ag ans w = w\<lparr>d_offline := X\<rparr>"
    "map_of X (gi_ID i) \<in> {None, Some t, map_of (d_offline w) (gi_ID i)}"
    using short_round[OF nf m, of ag] by blast
  have "map_of (d_offline (w\<lparr>d_offline := X\<rparr>)) (gi_ID i) \<in> insert None (Some ` T)"
    using X(2) Cons.prems(3,4) by (auto simp: r)
  from Cons.IH[OF _ _ _ this] Cons.prems obtain Y where
    "watch_rounds cfg i rs (w\<lparr>d_offline := X\<rparr>) = (w\<lparr>d_offline := X\<rparr>)\<lparr>d_offline := Y\<rparr>" by auto
  then show ?case by (auto simp: watch_rounds_def r X(1))
qed

text \<open>An outage shorter than the fencing timeout harms nobody: as long as all rounds of the watch
  lie within it and the agent does not report a failure, the rounds change nothing but the mark.\<close>

theorem short_outage_never_fences:
  assumes "map_of (d_offline w) (gi_ID i) = None"
    and "\<forall>(t, ag, ans) \<in> set rs. \<forall>t' \<in> fst ` set rs. t - t' < dc_fencingTimeout cfg"
    and "\<forall>(t, ag, ans) \<in> set rs. \<forall>r. ans \<noteq> Inr (Some (True, r))"
  shows "\<exists>X. watch_rounds cfg i rs w = w\<lparr>d_offline := X\<rparr>"
  by (rule short_rounds[OF assms(3,2)]) (use assms(1) in auto)

theorem short_outage_never_fences_witness:
  "\<exists>X. watch_rounds ex_dcfg ex_instance [(0, ex_agent\<lparr>na_Alive := False\<rparr>, Inl (Errorf [])),
      (170, ex_agent\<lparr>na_Alive := False\<rparr>, Inl (Errorf [])), (179, ex_agent, Inr None)] ex_disp = ex_disp\<lparr>d_offline := X\<rparr>"
  by (rule short_outage_never_fences) (auto simp: ex_dcfg_def)

lemma outage_round:
  assumes "unreachable_agent ag" "map_of (d_offline w) (gi_ID i) = Some first"
  shows "watch_inspect cfg now i ag (Inl e) w =
    (if now - first \<ge> dc_fencingTimeout cfg
     then failWithReason cfg now i (fence_reason cfg) (clearOffline (gi_ID i) w) else w)"
  using assms by (auto simp: watch_inspect_def markOfflineAndShouldFence_def unreachable_agent_def)

text \<open>An outage that lasts fences: after a first round that finds the node unreachable and any
  later ones within the timeout, the first round past the timeout fails the instance (as far as the
  data base accepts the write).\<close>

theorem long_outage_fences:
  assumes "map_of (d_offline w) (gi_ID i) = None" and "slot_free i w" "Failed \<in> next_status (gi_Status i)"
    and "\<forall>(t, ag, ans) \<in> set ((t0, ag0, Inl e0) # rs). unreachable_agent ag \<and> t - t0 < dc_fencingTimeout cfg \<and> ans = Inl e0"
    and "unreachable_agent ag1" "t1 - t0 \<ge> dc_fencingTimeout cfg"
    and "w' = watch_rounds cfg i ((t0, ag0, Inl e0) # rs @ [(t1, ag1, Inl e0)]) w"
  shows "\<forall>g \<in> set (t_instances w'). gi_ID g = gi_ID i \<longrightarrow> gi_Status g = Failed"
proof -
  let ?w1 = "w\<lparr>d_offline := d_offline w @ [(gi_ID i, t0)]\<rparr>"
  have m: "map_of (d_offline ?w1) (gi_ID i) = Some t0"
    using assms(1) by (auto simp: map_add_def split: option.split)
  have r1: "watch_inspect cfg t0 i ag0 (Inl e0) w = ?w1"
    using assms(1,4) by (auto simp: watch_inspect_def markOfflineAndShouldFence_def unreachable_agent_def)
  have rs: "watch_rounds cfg i rs ?w1 = ?w1"
    using assms(4)
  proof (induction rs)
    case (Cons r rs)
    obtain t ag where r: "r = (t, ag, Inl e0)" using Cons.prems by (cases r) auto
    have "watch_inspect cfg t i ag (Inl e0) ?w1 = ?w1"
      using outage_round[OF _ m, of ag cfg t e0] Cons.prems by (auto simp: r)
    then show ?case using Cons by (simp add: watch_rounds_def r)
  qed (simp add: watch_rounds_def)
  have "w' = failWithReason cfg t1 i (fence_reason cfg) (clearOffline (gi_ID i) ?w1)"
    using rs r1 outage_round[OF assms(5) m, of cfg t1 e0] assms(6,7) by (simp add: watch_rounds_def)
  moreover have "slot_free i (clearOffline (gi_ID i) ?w1)"
    using assms(2) by (simp add: slot_free_def clearOffline_def)
  moreover have "same_identity i (i\<lparr>gi_FailReason := fence_reason cfg\<rparr>)" by (simp add: same_identity_def)
  ultimately show ?thesis
    using FailedInstance_quiet[OF _ assms(3)] unfolding failWithReason_def by blast
qed

theorem long_outage_fences_witness:
  "gi_Status ` {g \<in> set (t_instances (watch_rounds ex_dcfg (ex_instance\<lparr>gi_Status := StatusRunning\<rparr>)
      [(0, ex_agent\<lparr>na_Alive := False\<rparr>, Inl (Errorf [])), (30, ex_agent\<lparr>na_Alive := False\<rparr>, Inl (Errorf [])),
       (181, ex_agent\<lparr>na_Alive := False\<rparr>, Inl (Errorf []))] ex_disp)). gi_ID g = ''i1''} \<subseteq> {Failed}"
  using long_outage_fences[of ex_disp "ex_instance\<lparr>gi_Status := StatusRunning\<rparr>" 0 "ex_agent\<lparr>na_Alive := False\<rparr>" "Errorf []"
      "[(30, ex_agent\<lparr>na_Alive := False\<rparr>, Inl (Errorf []))]" ex_dcfg "ex_agent\<lparr>na_Alive := False\<rparr>" 181, OF _ _ _ _ _ _ refl]
  by (auto simp: unreachable_agent_def ex_dcfg_def)

text \<open>What a watch of one instance does to the marks of others: nothing.\<close>

lemma FailedInstance_offline: "d_offline (FailedInstance cfg now i w) = d_offline w"
proof -
  have r: "d_offline (release_credentials cfg now k u) = d_offline u" for k and u :: "'a disp_scheme"
    using release_credentials_effect[of cfg now k u] by auto
  have l: "d_offline (releaseReservation j u) = d_offline u" for j and u :: "'a disp_scheme"
    using releaseReservation_effect[of j u] by auto
  have s: "d_offline (fst (InstanceRepo_Save now j u)) = d_offline u" for j and u :: "'a disp_scheme"
    by (simp add: InstanceRepo_Save_def Let_def split: option.split)
  have p: "d_offline (publish t ty a b d u) = d_offline u" for t ty a b d and u :: "'a disp_scheme"
    using publish_effect[of t ty a b d u] by auto
  have "FailedInstance cfg now i w = publish now EventInstanceFailed (gi_ID i)
      (derefStr (gi_NodeAgentID (failed_object i))) (gi_FailReason (failed_object i))
      (fst (InstanceRepo_Save now (failed_object i)
        (if gi_NodeAgentID i \<noteq> None \<and> gi_ResourceReq i \<noteq> None \<and> gi_Status i \<noteq> StatusScheduling
         then releaseReservation i (release_credentials cfg now (gi_ID i) w) else release_credentials cfg now (gi_ID i) w)))"
    by (simp add: FailedInstance_def Let_def split: prod.split)
  then show ?thesis by (simp add: p s l r)
qed

lemma watch_inspect_other:
  assumes "gi_ID j \<noteq> k"
  shows "map_of (d_offline (watch_inspect cfg t j ag answer w)) k = map_of (d_offline w) k"
proof -
  have c: "map_of (d_offline (clearOffline (gi_ID j) u)) k = map_of (d_offline u) k" for u :: "'a disp_scheme"
    using assms by (simp add: clearOffline_def map_of_tbl_del_other)
  have f: "d_offline (failWithReason cfg t j r u) = d_offline u" for r and u :: "'a disp_scheme"
    by (simp add: failWithReason_def FailedInstance_offline)
  have m: "map_of (d_offline (fst (markOfflineAndShouldFence cfg t (gi_ID j) w))) k = map_of (d_offline w) k"
    using assms by (simp add: markOfflineAndShouldFence_def map_add_def split: option.split)
  obtain w1 b where w1: "markOfflineAndShouldFence cfg t (gi_ID j) w = (w1, b)" by fastforce
  show ?thesis
    using m by (simp add: watch_inspect_def Let_def c f w1 split: sum.split option.split bool.split)
qed

lemma watch_one_other:
  "gi_ID j \<noteq> k \<Longrightarrow> map_of (d_offline (watch_one cfg rm ins t j w)) k = map_of (d_offline w) k"
  by (simp add: watch_one_def watch_inspect_other split: option.split sum.split)

lemma watch_all_other:
  "k \<notin> gi_ID ` set is \<Longrightarrow> map_of (d_offline (fold (watch_one cfg rm ins t) is w)) k = map_of (d_offline w) k"
proof (induction "is" arbitrary: w)
  case (Cons j "is")
  then have "gi_ID j \<noteq> k" "k \<notin> gi_ID ` set is" by auto
  then show ?case using Cons.IH[of "watch_one cfg rm ins t j w"] by (simp add: watch_one_other)
qed simp

text \<open>A mark outlives the run it was made in: the watch does not look at an instance that is not
  running, so its mark stays, and the first unreachable round after it runs again fences at once,
  without an outage of the length of the timeout.\<close>

theorem stale_mark_fences_at_once:
  assumes "map_of (d_offline w) (gi_ID i) = Some first"
    and "\<forall>g \<in> set (t_instances w). gi_ID g = gi_ID i \<longrightarrow> gi_Status g \<noteq> StatusRunning"
    and "unreachable_agent ag" "now - first \<ge> dc_fencingTimeout cfg"
    and "w' = WatchRunningInstances cfg rm ins t w"
  shows "watch_inspect cfg now i ag (Inl e) w' =
    failWithReason cfg now i (fence_reason cfg) (clearOffline (gi_ID i) w')"
proof -
  have "gi_ID i \<notin> gi_ID ` set (filter (\<lambda>r. gi_Status r = StatusRunning) (t_instances w))"
    using assms(2) by auto
  then have "map_of (d_offline w') (gi_ID i) = Some first"
    using assms(1,5) watch_all_other[where cfg = cfg and w = w and k = "gi_ID i"]
    by (auto simp: WatchRunningInstances_def InstanceRepo_ListByStatuses_def split: sum.splits)
  then show ?thesis using assms(4) by (simp add: outage_round[OF assms(3)])
qed

theorem stale_mark_fences_at_once_witness:
  "watch_inspect ex_dcfg 1000 ex_instance (ex_agent\<lparr>na_Alive := False\<rparr>) (Inl (Errorf []))
      (WatchRunningInstances ex_dcfg ex_remote (\<lambda>_. Inr None) 500 (ex_disp\<lparr>d_offline := [(''i1'', 0)]\<rparr>)) =
    failWithReason ex_dcfg 1000 ex_instance (fence_reason ex_dcfg) (clearOffline (gi_ID ex_instance)
      (WatchRunningInstances ex_dcfg ex_remote (\<lambda>_. Inr None) 500 (ex_disp\<lparr>d_offline := [(''i1'', 0)]\<rparr>)))"
  by (rule stale_mark_fences_at_once[OF _ _ _ _ refl, of _ _ 0]) (auto simp: unreachable_agent_def ex_dcfg_def)

end
