(* ===== verification/Platform_Data.thy ===== *)
theory Platform_Data
  imports Database Messages
begin

text \<open>
  The platform service (\<open>platform-service\<close>), the users' side of the cluster: its rows
  (\<open>internal/entity\<close>), its errors, and its repositories (\<open>internal/repository/gorm\<close>)
  over the tables of its own data base, with the constraints of its migrations.  Times are
  nanoseconds, configurations (Go maps) association lists.
\<close>

section \<open>Errors\<close>

text \<open>The sentinels of gorm, of the use cases and of the controller's client; a driver's or an HTTP error is its text.\<close>

datatype perr =
    PNotFound
  | ErrPlanNotFound
  | ErrSubscriptionNotFound
  | CtlNotFound
  | CtlConflict
  | PDbErr string
  | PErrorf string
  | PWrapped string perr string

fun perr_text :: "perr \<Rightarrow> string" where
  "perr_text PNotFound = ''record not found''"
| "perr_text ErrPlanNotFound = ''plan not found''"
| "perr_text ErrSubscriptionNotFound = ''subscription not found''"
| "perr_text CtlNotFound = ''controller: not found''"
| "perr_text CtlConflict = ''controller: conflict''"
| "perr_text (PDbErr t) = t"
| "perr_text (PErrorf t) = t"
| "perr_text (PWrapped p e s) = p @ perr_text e @ s"

fun perr_is :: "perr \<Rightarrow> perr \<Rightarrow> bool" where
  "perr_is (PWrapped p e s) t = (PWrapped p e s = t \<or> perr_is e t)"
| "perr_is e t = (e = t)"

section \<open>Rows\<close>

type_synonym config_map = "(string \<times> string) list"

datatype UserRole = RoleUser | RoleAdmin
datatype UserStatus = UserStatusActive | UserStatusDisabled

record User =
  us_ID :: string
  us_Username :: string
  us_PasswordHash :: string
  us_Role :: UserRole
  us_Status :: UserStatus
  us_CreateTime :: time
  us_UpdateTime :: time

datatype OrderStatus = OrderStatusCreated | OrderStatusPaid | OrderStatusCancelled | OrderStatusRefunded
  | OrderStatusProvisioned | OrderStatusGameRemoved

fun order_code :: "OrderStatus \<Rightarrow> int" where
  "order_code OrderStatusCreated = 0"
| "order_code OrderStatusPaid = 1"
| "order_code OrderStatusCancelled = 2"
| "order_code OrderStatusRefunded = 3"
| "order_code OrderStatusProvisioned = 4"
| "order_code OrderStatusGameRemoved = 5"

record Order =
  or_ID :: string
  or_UserID :: string
  or_GameID :: string
  or_InstanceID :: string
  or_Amount :: int
  or_Status :: OrderStatus
  or_Config :: config_map
  or_CreateTime :: time
  or_UpdateTime :: time

record PlanBasketItem =
  bi_GameID :: string
  bi_Config :: config_map

record ServerPlan =
  sp_ID :: string
  sp_DisplayName :: string
  sp_Description :: string
  sp_PriceCents :: int
  sp_DurationHours :: int
  sp_ResourceCPUMilli :: int
  sp_ResourceMemoryBytes :: int
  sp_ResourceDiskBytes :: int
  sp_MaxInstances :: int
  sp_Basket :: "PlanBasketItem list"
  sp_Enabled :: bool
  sp_CreateTime :: time
  sp_UpdateTime :: time

datatype SubscriptionStatus = SubscriptionActive | SubscriptionExpired | SubscriptionCancelled | SubscriptionSuspended

fun sub_status_text :: "SubscriptionStatus \<Rightarrow> string" where
  "sub_status_text SubscriptionActive = ''active''"
| "sub_status_text SubscriptionExpired = ''expired''"
| "sub_status_text SubscriptionCancelled = ''cancelled''"
| "sub_status_text SubscriptionSuspended = ''suspended''"

record Subscription =
  su_ID :: string
  su_UserID :: string
  su_PlanID :: string
  su_Status :: SubscriptionStatus
  su_ExpiresAt :: "time option"
  su_BasketSnapshot :: "PlanBasketItem list"
  su_MaxInstances :: int
  su_CreateTime :: time
  su_UpdateTime :: time

record GameProfile =
  pf_GameID :: string
  pf_DisplayName :: string
  pf_IconURL :: string
  pf_AccentColor :: string
  pf_Description :: string
  pf_Enabled :: bool
  pf_SortOrder :: int
  pf_UpdateTime :: time

section \<open>The data base\<close>

record pdb =
  p_users :: "User list"
  p_orders :: "Order list"
  p_profiles :: "GameProfile list"
  p_plans :: "ServerPlan list"
  p_subs :: "Subscription list"
  p_fault :: "dbcall \<Rightarrow> string option"

definition pguard :: "'a pdb_scheme \<Rightarrow> dbcall \<Rightarrow> (perr + 'r) \<Rightarrow> perr + 'r" where
  "pguard w c r = (case p_fault w c of Some t \<Rightarrow> Inl (PDbErr t) | None \<Rightarrow> r)"

definition pguard_write :: "'a pdb_scheme \<Rightarrow> dbcall \<Rightarrow> 'a pdb_scheme \<Rightarrow> 'a pdb_scheme \<times> perr option" where
  "pguard_write w c w' = (case p_fault w c of Some t \<Rightarrow> (w, Some (PDbErr t)) | None \<Rightarrow> (w', None))"

text \<open>\<open>First\<close>: a missing row is \<open>gorm.ErrRecordNotFound\<close>.\<close>

definition pfound :: "'r option \<Rightarrow> perr + 'r" where
  "pfound r = (case r of None \<Rightarrow> Inl PNotFound | Some x \<Rightarrow> Inr x)"

text \<open>What the driver answers when a constraint of the schema is violated, or an integer does not fit its
  column of 32 bits; the exact text is the driver's.\<close>

definition p_unique :: "string \<Rightarrow> perr" where
  "p_unique name = PDbErr (''ERROR: duplicate key value violates unique constraint '' @ name @ '' (SQLSTATE 23505)'')"

definition p_foreign :: "string \<Rightarrow> perr" where
  "p_foreign name = PDbErr (''ERROR: violates foreign key constraint '' @ name @ '' (SQLSTATE 23503)'')"

definition p_range :: perr where
  "p_range = PDbErr ''value out of range for int4''"

lemma pguard_Inr [simp]: "pguard w c r = Inr x \<longleftrightarrow> p_fault w c = None \<and> r = Inr x"
  by (auto simp: pguard_def split: option.split)

lemma pfound_Inr [simp]: "pfound r = Inr x \<longleftrightarrow> r = Some x"
  by (auto simp: pfound_def split: option.split)

lemma pguard_write_cases:
  "pguard_write w c w' = (u, e) \<longleftrightarrow> (e = None \<and> u = w' \<and> p_fault w c = None) \<or>
     (\<exists>t. e = Some (PDbErr t) \<and> u = w \<and> p_fault w c = Some t)"
  by (auto simp: pguard_write_def split: option.split)

section \<open>Users\<close>

definition UserRepo_Save :: "User \<Rightarrow> 'a pdb_scheme \<Rightarrow> 'a pdb_scheme \<times> perr option" where
  "UserRepo_Save u w =
    (if \<exists>v \<in> set (p_users w). us_Username v = us_Username u \<and> us_ID v \<noteq> us_ID u then (w, Some (p_unique ''users_username_key''))
     else pguard_write w (Call ''UserSave'' [us_ID u]) (w\<lparr>p_users := tbl_put us_ID u (p_users w)\<rparr>))"

definition UserRepo_GetByID :: "string \<Rightarrow> 'a pdb_scheme \<Rightarrow> perr + User" where
  "UserRepo_GetByID k w = pguard w (Call ''UserGet'' [k]) (pfound (tbl_find us_ID k (p_users w)))"

definition UserRepo_GetByUsername :: "string \<Rightarrow> 'a pdb_scheme \<Rightarrow> perr + User" where
  "UserRepo_GetByUsername n w = pguard w (Call ''UserName'' [n]) (pfound (find (\<lambda>u. us_Username u = n) (p_users w)))"

definition UserRepo_ListAll :: "'a pdb_scheme \<Rightarrow> perr + User list" where
  "UserRepo_ListAll w = pguard w (Call ''UserList'' []) (Inr (sort_key us_CreateTime (p_users w)))"

section \<open>Orders\<close>

definition OrderRepo_Save :: "Order \<Rightarrow> 'a pdb_scheme \<Rightarrow> 'a pdb_scheme \<times> perr option" where
  "OrderRepo_Save r w =
    (if or_UserID r \<notin> us_ID ` set (p_users w) then (w, Some (p_foreign ''orders_user_id_fkey''))
     else pguard_write w (Call ''OrderSave'' [or_ID r]) (w\<lparr>p_orders := tbl_put or_ID r (p_orders w)\<rparr>))"

definition OrderRepo_GetByID :: "string \<Rightarrow> 'a pdb_scheme \<Rightarrow> perr + Order" where
  "OrderRepo_GetByID k w = pguard w (Call ''OrderGet'' [k]) (pfound (tbl_find or_ID k (p_orders w)))"

definition list_orders :: "dbcall \<Rightarrow> (Order \<Rightarrow> bool) \<Rightarrow> 'a pdb_scheme \<Rightarrow> perr + Order list" where
  "list_orders c P w = pguard w c (Inr (sort_key or_CreateTime (filter P (p_orders w))))"

definition OrderRepo_ListByUser :: "string \<Rightarrow> 'a pdb_scheme \<Rightarrow> perr + Order list" where
  "OrderRepo_ListByUser u = list_orders (Call ''OrderListUser'' [u]) (\<lambda>r. or_UserID r = u)"

definition OrderRepo_ListByGame :: "string \<Rightarrow> 'a pdb_scheme \<Rightarrow> perr + Order list" where
  "OrderRepo_ListByGame g = list_orders (Call ''OrderListGame'' [g]) (\<lambda>r. or_GameID r = g)"

definition OrderRepo_ListByUserAndGame :: "string \<Rightarrow> string \<Rightarrow> 'a pdb_scheme \<Rightarrow> perr + Order list" where
  "OrderRepo_ListByUserAndGame u g = list_orders (Call ''OrderListBoth'' [u, g]) (\<lambda>r. or_UserID r = u \<and> or_GameID r = g)"

definition OrderRepo_ListAll :: "'a pdb_scheme \<Rightarrow> perr + Order list" where
  "OrderRepo_ListAll = list_orders (Call ''OrderList'' []) (\<lambda>r. True)"

definition OrderRepo_MarkGameRemoved :: "string \<Rightarrow> 'a pdb_scheme \<Rightarrow> 'a pdb_scheme \<times> perr option" where
  "OrderRepo_MarkGameRemoved g w = pguard_write w (Call ''OrderRemoved'' [g])
     (w\<lparr>p_orders := tbl_upd (\<lambda>r. or_GameID r = g \<and> or_Status r \<in> {OrderStatusCreated, OrderStatusPaid, OrderStatusProvisioned})
        (\<lambda>r. r\<lparr>or_Status := OrderStatusGameRemoved\<rparr>) (p_orders w)\<rparr>)"

section \<open>Game profiles\<close>

definition ProfileRepo_Save :: "GameProfile \<Rightarrow> 'a pdb_scheme \<Rightarrow> 'a pdb_scheme \<times> perr option" where
  "ProfileRepo_Save p w = pguard_write w (Call ''ProfileSave'' [pf_GameID p]) (w\<lparr>p_profiles := tbl_put pf_GameID p (p_profiles w)\<rparr>)"

definition ProfileRepo_GetByID :: "string \<Rightarrow> 'a pdb_scheme \<Rightarrow> perr + GameProfile" where
  "ProfileRepo_GetByID k w = pguard w (Call ''ProfileGet'' [k]) (pfound (tbl_find pf_GameID k (p_profiles w)))"

definition ProfileRepo_ListAll :: "'a pdb_scheme \<Rightarrow> perr + GameProfile list" where
  "ProfileRepo_ListAll w = pguard w (Call ''ProfileList'' []) (Inr (sort_key pf_SortOrder (p_profiles w)))"

definition ProfileRepo_ListEnabled :: "'a pdb_scheme \<Rightarrow> perr + GameProfile list" where
  "ProfileRepo_ListEnabled w = pguard w (Call ''ProfileListEnabled'' [])
     (Inr (sort_key pf_SortOrder (filter pf_Enabled (p_profiles w))))"

definition ProfileRepo_Delete :: "string \<Rightarrow> 'a pdb_scheme \<Rightarrow> 'a pdb_scheme \<times> perr option" where
  "ProfileRepo_Delete k w = pguard_write w (Call ''ProfileDelete'' [k]) (w\<lparr>p_profiles := tbl_del (\<lambda>p. pf_GameID p = k) (p_profiles w)\<rparr>)"

section \<open>Plans\<close>

definition PlanRepo_Save :: "ServerPlan \<Rightarrow> 'a pdb_scheme \<Rightarrow> 'a pdb_scheme \<times> perr option" where
  "PlanRepo_Save p w =
    (if \<not> (in_i32 (sp_DurationHours p) \<and> in_i32 (sp_ResourceCPUMilli p) \<and> in_i32 (sp_MaxInstances p)) then (w, Some p_range)
     else pguard_write w (Call ''PlanSave'' [sp_ID p]) (w\<lparr>p_plans := tbl_put sp_ID p (p_plans w)\<rparr>))"

definition PlanRepo_GetByID :: "string \<Rightarrow> 'a pdb_scheme \<Rightarrow> perr + ServerPlan" where
  "PlanRepo_GetByID k w = pguard w (Call ''PlanGet'' [k]) (pfound (tbl_find sp_ID k (p_plans w)))"

definition PlanRepo_ListAll :: "'a pdb_scheme \<Rightarrow> perr + ServerPlan list" where
  "PlanRepo_ListAll w = pguard w (Call ''PlanList'' []) (Inr (sort_key sp_CreateTime (p_plans w)))"

definition PlanRepo_ListEnabled :: "'a pdb_scheme \<Rightarrow> perr + ServerPlan list" where
  "PlanRepo_ListEnabled w = pguard w (Call ''PlanListEnabled'' []) (Inr (sort_key sp_CreateTime (filter sp_Enabled (p_plans w))))"

definition PlanRepo_Delete :: "string \<Rightarrow> 'a pdb_scheme \<Rightarrow> 'a pdb_scheme \<times> perr option" where
  "PlanRepo_Delete k w =
    (if k \<in> sp_ID ` set (p_plans w) \<and> k \<in> su_PlanID ` set (p_subs w) then (w, Some (p_foreign ''subscriptions_plan_id_fkey''))
     else pguard_write w (Call ''PlanDelete'' [k]) (w\<lparr>p_plans := tbl_del (\<lambda>p. sp_ID p = k) (p_plans w)\<rparr>))"

section \<open>Subscriptions\<close>

definition SubRepo_Save :: "Subscription \<Rightarrow> 'a pdb_scheme \<Rightarrow> 'a pdb_scheme \<times> perr option" where
  "SubRepo_Save s w =
    (if su_UserID s \<notin> us_ID ` set (p_users w) then (w, Some (p_foreign ''subscriptions_user_id_fkey''))
     else if su_PlanID s \<notin> sp_ID ` set (p_plans w) then (w, Some (p_foreign ''subscriptions_plan_id_fkey''))
     else if \<not> in_i32 (su_MaxInstances s) then (w, Some p_range)
     else pguard_write w (Call ''SubSave'' [su_ID s]) (w\<lparr>p_subs := tbl_put su_ID s (p_subs w)\<rparr>))"

definition SubRepo_GetByID :: "string \<Rightarrow> 'a pdb_scheme \<Rightarrow> perr + Subscription" where
  "SubRepo_GetByID k w = pguard w (Call ''SubGet'' [k]) (pfound (tbl_find su_ID k (p_subs w)))"

definition SubRepo_ListByUser :: "string \<Rightarrow> 'a pdb_scheme \<Rightarrow> perr + Subscription list" where
  "SubRepo_ListByUser u w = pguard w (Call ''SubListUser'' [u]) (Inr (sort_key su_CreateTime (filter (\<lambda>s. su_UserID s = u) (p_subs w))))"

definition SubRepo_ListByPlan :: "string \<Rightarrow> 'a pdb_scheme \<Rightarrow> perr + Subscription list" where
  "SubRepo_ListByPlan p w = pguard w (Call ''SubListPlan'' [p]) (Inr (sort_key su_CreateTime (filter (\<lambda>s. su_PlanID s = p) (p_subs w))))"

definition SubRepo_ListAll :: "'a pdb_scheme \<Rightarrow> perr + Subscription list" where
  "SubRepo_ListAll w = pguard w (Call ''SubList'' []) (Inr (sort_key su_CreateTime (p_subs w)))"

definition overdue :: "time \<Rightarrow> Subscription \<Rightarrow> bool" where
  "overdue now s \<longleftrightarrow> su_Status s = SubscriptionActive \<and> (case su_ExpiresAt s of None \<Rightarrow> False | Some t \<Rightarrow> t < now)"

text \<open>No \<open>ORDER BY\<close>: the rows come in the order of the table.\<close>

definition SubRepo_ListOverdue :: "time \<Rightarrow> 'a pdb_scheme \<Rightarrow> perr + Subscription list" where
  "SubRepo_ListOverdue now w = pguard w (Call ''SubOverdue'' []) (Inr (filter (overdue now) (p_subs w)))"

lemmas platform_repo_defs = UserRepo_Save_def OrderRepo_Save_def PlanRepo_Save_def SubRepo_Save_def
  ProfileRepo_Save_def PlanRepo_Delete_def ProfileRepo_Delete_def OrderRepo_MarkGameRemoved_def

lemma SubRepo_Save_None:
  "SubRepo_Save s w = (w', None) \<longleftrightarrow> w' = w\<lparr>p_subs := tbl_put su_ID s (p_subs w)\<rparr> \<and> p_fault w (Call ''SubSave'' [su_ID s]) = None \<and>
     su_UserID s \<in> us_ID ` set (p_users w) \<and> su_PlanID s \<in> sp_ID ` set (p_plans w) \<and> in_i32 (su_MaxInstances s)"
  by (auto simp: SubRepo_Save_def pguard_write_cases)

lemma SubRepo_Save_Some: "SubRepo_Save s w = (w', Some e) \<Longrightarrow> w' = w"
  by (auto simp: SubRepo_Save_def pguard_write_cases split: if_splits)

end
