(* ===== verification/Http.thy ===== *)
theory Http
  imports Prelude
begin

text \<open>
  What the HTTP handlers of both services answer: \<open>c.JSON(code, body)\<close>, where the body of an
  error is one text and any other body has its own type.
\<close>

datatype 'b reply = Failure int string | Success int 'b

text \<open>The answer to a body that does not decode.\<close>

definition bad_body :: "string \<Rightarrow> 'b reply" where
  "bad_body t = Failure 400 (''invalid request body: '' @ t)"

fun reply_map :: "('b \<Rightarrow> 'c) \<Rightarrow> 'b reply \<Rightarrow> 'c reply" where
  "reply_map f (Failure c t) = Failure c t"
| "reply_map f (Success c b) = Success c (f b)"

end
