(* ===== verification/Platform_Users.thy ===== *)
theory Platform_Users
  imports Platform_Data Http
begin

text \<open>
  Users and their authentication: the use case (\<open>biz/user_use_case.go\<close>), the tokens
  (\<open>auth/token.go\<close>), the middlewares (\<open>handler/middleware.go\<close>) and the handlers of
  \<open>handler/auth_handler.go\<close> and \<open>handler/user_handler.go\<close> of the platform service.
  The password hashing and the JSON web tokens are libraries and parameters;
  a handler is a function of the decoded request (\<open>Inl\<close>: the binding's error text).
\<close>

section \<open>The use case\<close>

text \<open>\<open>hash\<close> is one call of \<open>bcrypt.GenerateFromPassword\<close> (salt included), \<open>verify\<close> is
  \<open>bcrypt.CompareHashAndPassword\<close>, \<open>ident\<close> what \<open>newEntityID\<close> drew.\<close>

definition new_user :: "time \<Rightarrow> string \<Rightarrow> string \<Rightarrow> string \<Rightarrow> UserRole \<Rightarrow> User" where
  "new_user now ident name h role = \<lparr> us_ID = ident, us_Username = name, us_PasswordHash = h, us_Role = role,
     us_Status = UserStatusActive, us_CreateTime = now, us_UpdateTime = now \<rparr>"

definition save_user :: "User \<Rightarrow> 'a pdb_scheme \<Rightarrow> 'a pdb_scheme \<times> (perr + User)" where
  "save_user u w = (case UserRepo_Save u w of (w1, Some e) \<Rightarrow> (w1, Inl e) | (w1, None) \<Rightarrow> (w1, Inr u))"

definition CreateUser ::
  "time \<Rightarrow> string \<Rightarrow> (string \<Rightarrow> perr + string) \<Rightarrow> string \<Rightarrow> string \<Rightarrow> 'a pdb_scheme \<Rightarrow> 'a pdb_scheme \<times> (perr + User)" where
  "CreateUser now ident hash name pw w =
    (if name = [] then (w, Inl (PErrorf ''username is required''))
     else if length pw < 6 then (w, Inl (PErrorf ''password must be at least 6 characters''))
     else case UserRepo_GetByUsername name w of
       Inr u \<Rightarrow> (w, Inl (PErrorf ''username already exists''))
     | Inl e0 \<Rightarrow>
        (case hash pw of
           Inl e \<Rightarrow> (w, Inl (PWrapped ''hash password: '' e []))
         | Inr h \<Rightarrow> save_user (new_user now ident name h RoleUser) w))"

definition GetUserByName :: "string \<Rightarrow> 'a pdb_scheme \<Rightarrow> perr + User" where
  "GetUserByName name w = UserRepo_GetByUsername name w"

definition CreateAdmin ::
  "time \<Rightarrow> string \<Rightarrow> (string \<Rightarrow> perr + string) \<Rightarrow> string \<Rightarrow> string \<Rightarrow> 'a pdb_scheme \<Rightarrow> 'a pdb_scheme \<times> (perr + User)" where
  "CreateAdmin now ident hash name pw w =
    (case hash (if pw = [] then ''admin123'' else pw) of
       Inl e \<Rightarrow> (w, Inl (PWrapped ''hash password: '' e []))
     | Inr h \<Rightarrow> save_user (new_user now ident name h RoleAdmin) w)"

definition GetUser :: "string \<Rightarrow> 'a pdb_scheme \<Rightarrow> perr + User" where
  "GetUser k w = (if k = [] then Inl (PErrorf ''id is required'') else UserRepo_GetByID k w)"

definition ListUsers :: "'a pdb_scheme \<Rightarrow> perr + User list" where
  "ListUsers w = UserRepo_ListAll w"

definition SetRole :: "time \<Rightarrow> string \<Rightarrow> UserRole \<Rightarrow> 'a pdb_scheme \<Rightarrow> 'a pdb_scheme \<times> (perr + User)" where
  "SetRole now k role w =
    (case UserRepo_GetByID k w of
       Inl e \<Rightarrow> (w, Inl e)
     | Inr u \<Rightarrow> save_user (u\<lparr>us_Role := role, us_UpdateTime := now\<rparr>) w)"

definition SetStatus :: "time \<Rightarrow> string \<Rightarrow> UserStatus \<Rightarrow> 'a pdb_scheme \<Rightarrow> 'a pdb_scheme \<times> (perr + User)" where
  "SetStatus now k st w =
    (case UserRepo_GetByID k w of
       Inl e \<Rightarrow> (w, Inl e)
     | Inr u \<Rightarrow> save_user (u\<lparr>us_Status := st, us_UpdateTime := now\<rparr>) w)"

definition VerifyPassword :: "(string \<Rightarrow> string \<Rightarrow> bool) \<Rightarrow> string \<Rightarrow> string \<Rightarrow> 'a pdb_scheme \<Rightarrow> perr + User" where
  "VerifyPassword verify name pw w =
    (case UserRepo_GetByUsername name w of
       Inl e \<Rightarrow> Inl (PErrorf ''invalid username or password'')
     | Inr u \<Rightarrow> if verify (us_PasswordHash u) pw then Inr u else Inl (PErrorf ''invalid username or password''))"

text \<open>The administrator of the configuration, at the start of \<open>main\<close>; the result of the creation is only logged.\<close>

definition seed_admin ::
  "time \<Rightarrow> string \<Rightarrow> (string \<Rightarrow> perr + string) \<Rightarrow> string \<Rightarrow> string \<Rightarrow> 'a pdb_scheme \<Rightarrow> 'a pdb_scheme" where
  "seed_admin now ident hash name pw w =
    (if name = [] then w
     else case GetUserByName name w of
       Inr u \<Rightarrow> w
     | Inl e \<Rightarrow> if perr_is e PNotFound then fst (CreateAdmin now ident hash name pw w) else w)"

section \<open>Tokens\<close>

record Claims =
  cl_UserID :: string
  cl_Role :: int
  cl_TokenType :: string
  cl_IssuedAt :: time
  cl_ExpiresAt :: time

record TokenManager =
  tm_secret :: string
  tm_accessTTL :: time
  tm_refreshTTL :: time

datatype signing_method = SigningMethodHMAC string | OtherMethod string

text \<open>The library of the tokens: the precision of its dates, \<open>SignedString\<close>, and \<open>ParseWithClaims\<close>
  at a time with the callback that gives the key for the method of the token's header.\<close>

record jwt_lib =
  jw_NumericDate :: "time \<Rightarrow> time"
  jw_Sign :: "signing_method \<Rightarrow> string \<Rightarrow> Claims \<Rightarrow> perr + string"
  jw_Parse :: "time \<Rightarrow> string \<Rightarrow> (signing_method \<Rightarrow> perr + string) \<Rightarrow> perr + (Claims \<times> bool)"

definition token_sign :: "jwt_lib \<Rightarrow> TokenManager \<Rightarrow> Claims \<Rightarrow> perr + string" where
  "token_sign J tm c = jw_Sign J (SigningMethodHMAC ''HS256'') (tm_secret tm) c"

definition token_claims :: "jwt_lib \<Rightarrow> time \<Rightarrow> time \<Rightarrow> string \<Rightarrow> int \<Rightarrow> string \<Rightarrow> Claims" where
  "token_claims J now ttl uid role typ = \<lparr> cl_UserID = uid, cl_Role = role, cl_TokenType = typ,
     cl_IssuedAt = jw_NumericDate J now, cl_ExpiresAt = jw_NumericDate J (now + ttl) \<rparr>"

definition token_Issue :: "jwt_lib \<Rightarrow> TokenManager \<Rightarrow> time \<Rightarrow> string \<Rightarrow> int \<Rightarrow> perr + (string \<times> string)" where
  "token_Issue J tm now uid role =
    (case token_sign J tm (token_claims J now (tm_accessTTL tm) uid role ''access'') of
       Inl e \<Rightarrow> Inl e
     | Inr access \<Rightarrow>
        (case token_sign J tm (token_claims J now (tm_refreshTTL tm) uid role ''refresh'') of
           Inl e \<Rightarrow> Inl e
         | Inr refresh \<Rightarrow> Inr (access, refresh)))"

definition token_key :: "TokenManager \<Rightarrow> signing_method \<Rightarrow> perr + string" where
  "token_key tm m = (case m of SigningMethodHMAC alg \<Rightarrow> Inr (tm_secret tm) | OtherMethod alg \<Rightarrow> Inl (PErrorf ''unexpected signing method''))"

definition token_Parse :: "jwt_lib \<Rightarrow> TokenManager \<Rightarrow> time \<Rightarrow> string \<Rightarrow> perr + Claims" where
  "token_Parse J tm now s =
    (case jw_Parse J now s (token_key tm) of
       Inl e \<Rightarrow> Inl e
     | Inr (c, valid) \<Rightarrow> if valid then Inr c else Inl (PErrorf ''invalid token''))"

section \<open>Middlewares\<close>

text \<open>\<open>AuthRequired\<close>: \<open>None\<close> when the chain goes on, with the user and the role of the token in the context.\<close>

definition authenticate :: "jwt_lib \<Rightarrow> TokenManager \<Rightarrow> time \<Rightarrow> string \<Rightarrow> string + (string \<times> int)" where
  "authenticate J tm now header =
    (if \<not> has_prefix ''Bearer '' header then Inl ''missing bearer token''
     else case token_Parse J tm now (drop 7 header) of
       Inl e \<Rightarrow> Inl ''invalid or expired token''
     | Inr c \<Rightarrow> if cl_TokenType c \<noteq> ''access'' then Inl ''invalid or expired token'' else Inr (cl_UserID c, cl_Role c))"

definition AuthRequired ::
  "jwt_lib \<Rightarrow> TokenManager \<Rightarrow> time \<Rightarrow> string \<Rightarrow> (string \<Rightarrow> int \<Rightarrow> 'w \<Rightarrow> 'w \<times> 'b reply) \<Rightarrow> 'w \<Rightarrow> 'w \<times> 'b reply" where
  "AuthRequired J tm now header k w =
    (case authenticate J tm now header of Inl t \<Rightarrow> (w, Failure 401 t) | Inr (uid, role) \<Rightarrow> k uid role w)"

definition isAdmin :: "int \<Rightarrow> bool" where
  "isAdmin role \<longleftrightarrow> role = 1"

definition RequireAdmin :: "(string \<Rightarrow> int \<Rightarrow> 'w \<Rightarrow> 'w \<times> 'b reply) \<Rightarrow> string \<Rightarrow> int \<Rightarrow> 'w \<Rightarrow> 'w \<times> 'b reply" where
  "RequireAdmin k uid role w = (if isAdmin role then k uid role w else (w, Failure 403 ''admin permission required''))"

section \<open>Handlers\<close>

definition role_code :: "UserRole \<Rightarrow> int" where
  "role_code r = (case r of RoleUser \<Rightarrow> 0 | RoleAdmin \<Rightarrow> 1)"

definition role_of :: "int \<Rightarrow> UserRole option" where
  "role_of c = (if c = 0 then Some RoleUser else if c = 1 then Some RoleAdmin else None)"

definition ustatus_of :: "int \<Rightarrow> UserStatus option" where
  "ustatus_of c = (if c = 0 then Some UserStatusActive else if c = 1 then Some UserStatusDisabled else None)"

definition no_hash :: "User \<Rightarrow> User" where
  "no_hash u = u\<lparr>us_PasswordHash := []\<rparr>"

record login_reply =
  lr_access :: string
  lr_refresh :: string
  lr_id :: string
  lr_username :: string
  lr_role :: int

definition Handle_Login ::
  "jwt_lib \<Rightarrow> TokenManager \<Rightarrow> (string \<Rightarrow> string \<Rightarrow> bool) \<Rightarrow> time \<Rightarrow> string + (string \<times> string) \<Rightarrow> 'a pdb_scheme \<Rightarrow> login_reply reply" where
  "Handle_Login J tm verify now body w =
    (case body of
       Inl t \<Rightarrow> bad_body t
     | Inr (name, pw) \<Rightarrow>
        (case VerifyPassword verify name pw w of
           Inl e \<Rightarrow> Failure 401 ''invalid username or password''
         | Inr u \<Rightarrow>
            (case token_Issue J tm now (us_ID u) (role_code (us_Role u)) of
               Inl e \<Rightarrow> Failure 500 (perr_text e)
             | Inr (a, r) \<Rightarrow> Success 200 \<lparr> lr_access = a, lr_refresh = r, lr_id = us_ID u,
                 lr_username = us_Username u, lr_role = role_code (us_Role u) \<rparr>)))"

text \<open>The end of every handler that answers one user; only some name the missing user.\<close>

definition user_reply :: "int \<Rightarrow> (string \<Rightarrow> string) \<Rightarrow> 'w \<times> (perr + User) \<Rightarrow> 'w \<times> User reply" where
  "user_reply code missing r =
    (case r of
       (w, Inl e) \<Rightarrow> (w, if perr_is e PNotFound then Failure 404 (missing (perr_text e)) else Failure 500 (perr_text e))
     | (w, Inr u) \<Rightarrow> (w, Success code (no_hash u)))"

definition Handle_CreateUser ::
  "time \<Rightarrow> string \<Rightarrow> (string \<Rightarrow> perr + string) \<Rightarrow> string + (string \<times> string) \<Rightarrow> 'a pdb_scheme \<Rightarrow> 'a pdb_scheme \<times> User reply" where
  "Handle_CreateUser now ident hash body w =
    (case body of
       Inl t \<Rightarrow> (w, bad_body t)
     | Inr (name, pw) \<Rightarrow> user_reply 201 (\<lambda>t. t) (CreateUser now ident hash name pw w))"

definition Handle_ListUsers :: "'a pdb_scheme \<Rightarrow> User list reply" where
  "Handle_ListUsers w =
    (case ListUsers w of Inl e \<Rightarrow> Failure 500 (perr_text e) | Inr us \<Rightarrow> Success 200 (map no_hash us))"

definition Handle_GetMe :: "string \<Rightarrow> 'a pdb_scheme \<Rightarrow> User reply" where
  "Handle_GetMe uid w =
    (case GetUser uid w of Inl e \<Rightarrow> Failure 500 (perr_text e) | Inr u \<Rightarrow> Success 200 (no_hash u))"

definition Handle_GetUser :: "string \<Rightarrow> string \<Rightarrow> int \<Rightarrow> 'a pdb_scheme \<Rightarrow> User reply" where
  "Handle_GetUser k uid role w =
    (if \<not> isAdmin role \<and> k \<noteq> uid then Failure 403 ''cannot view other users''
     else snd (user_reply 200 (\<lambda>t. ''user not found'') (w, GetUser k w)))"

definition Handle_SetUserRole ::
  "time \<Rightarrow> string \<Rightarrow> string + int \<Rightarrow> string \<Rightarrow> int \<Rightarrow> 'a pdb_scheme \<Rightarrow> 'a pdb_scheme \<times> User reply" where
  "Handle_SetUserRole now k body uid role w =
    (if k = uid then (w, Failure 400 ''cannot change your own role'')
     else case body of
       Inl t \<Rightarrow> (w, bad_body t)
     | Inr c \<Rightarrow>
        (case role_of c of
           None \<Rightarrow> (w, Failure 400 ''invalid role'')
         | Some r \<Rightarrow> user_reply 200 (\<lambda>t. ''user not found'') (SetRole now k r w)))"

definition Handle_SetUserStatus ::
  "time \<Rightarrow> string \<Rightarrow> string + int \<Rightarrow> string \<Rightarrow> int \<Rightarrow> 'a pdb_scheme \<Rightarrow> 'a pdb_scheme \<times> User reply" where
  "Handle_SetUserStatus now k body uid role w =
    (if k = uid then (w, Failure 400 ''cannot change your own status'')
     else case body of
       Inl t \<Rightarrow> (w, bad_body t)
     | Inr c \<Rightarrow>
        (case ustatus_of c of
           None \<Rightarrow> (w, Failure 400 ''invalid status'')
         | Some st \<Rightarrow> user_reply 200 (\<lambda>t. ''user not found'') (SetStatus now k st w)))"

section \<open>Routes\<close>

text \<open>The requests of \<open>/api/users\<close> and \<open>/api/auth\<close> that can write, each with the middlewares
  \<open>RegisterRoutes\<close> puts before its handler; a request carries its time, its header and its body.\<close>

datatype user_request =
    PostUser string "string \<Rightarrow> perr + string" "string + (string \<times> string)"
  | PatchRole string string "string + int"
  | PatchStatus string string "string + int"

fun user_route :: "jwt_lib \<Rightarrow> TokenManager \<Rightarrow> time \<Rightarrow> user_request \<Rightarrow> 'a pdb_scheme \<Rightarrow> 'a pdb_scheme \<times> User reply" where
  "user_route J tm now (PostUser ident hash body) w = Handle_CreateUser now ident hash body w"
| "user_route J tm now (PatchRole header k body) w =
     AuthRequired J tm now header (RequireAdmin (Handle_SetUserRole now k body)) w"
| "user_route J tm now (PatchStatus header k body) w =
     AuthRequired J tm now header (RequireAdmin (Handle_SetUserStatus now k body)) w"

fun user_routes :: "jwt_lib \<Rightarrow> TokenManager \<Rightarrow> (time \<times> user_request) list \<Rightarrow> 'a pdb_scheme \<Rightarrow> 'a pdb_scheme" where
  "user_routes J tm [] w = w"
| "user_routes J tm ((now, r) # rs) w = user_routes J tm rs (fst (user_route J tm now r w))"

fun request_header :: "user_request \<Rightarrow> string" where
  "request_header (PostUser ident hash body) = []"
| "request_header (PatchRole header k body) = header"
| "request_header (PatchStatus header k body) = header"

section \<open>The table of users\<close>

lemmas user_defs = save_user_def CreateUser_def CreateAdmin_def SetRole_def SetStatus_def Handle_CreateUser_def
  Handle_SetUserRole_def Handle_SetUserStatus_def user_reply_def seed_admin_def

definition users_ok :: "'a pdb_scheme \<Rightarrow> bool" where
  "users_ok w \<longleftrightarrow> tbl_ok us_ID (p_users w) \<and> distinct (map us_Username (p_users w))"

lemma set_tbl_put: "set (tbl_put key r rows) = insert r {x \<in> set rows. key x \<noteq> key r}"
  by (auto simp: tbl_put_def tbl_upd_def image_iff split: if_splits)

lemma distinct_map_tbl_put:
  assumes "distinct (map f rows)" "\<And>x. x \<in> set rows \<Longrightarrow> f x = f r \<Longrightarrow> key x = key r" "tbl_ok key rows"
  shows "distinct (map f (tbl_put key r rows))"
proof (cases "key r \<in> set (map key rows)")
  case False
  have "f r \<notin> f ` set rows"
  proof
    assume "f r \<in> f ` set rows"
    then obtain x where "x \<in> set rows" "f x = f r" by auto
    then have "key r \<in> key ` set rows" using assms(2)[of x] by (metis imageI)
    then show False using False by simp
  qed
  then show ?thesis using False assms(1) by (simp add: tbl_put_def)
next
  case True
  have "distinct (map f (tbl_upd (\<lambda>x. key x = key r) (\<lambda>_. r) rows))"
    using assms by (induction rows) (auto simp: tbl_upd_def tbl_ok_def image_iff split: if_splits)
  then show ?thesis using True by (simp add: tbl_put_def)
qed

lemma UserRepo_Save_cases:
  "UserRepo_Save u w = (w', e) \<Longrightarrow> w' = w \<or> e = None \<and> w' = w\<lparr>p_users := tbl_put us_ID u (p_users w)\<rparr> \<and>
     (\<forall>v \<in> set (p_users w). us_Username v = us_Username u \<longrightarrow> us_ID v = us_ID u)"
  by (auto simp: UserRepo_Save_def pguard_write_cases split: if_splits)

lemma save_user_cases:
  "save_user u w = (w', r) \<Longrightarrow> w' = w \<or> r = Inr u \<and> w' = w\<lparr>p_users := tbl_put us_ID u (p_users w)\<rparr> \<and>
     (\<forall>v \<in> set (p_users w). us_Username v = us_Username u \<longrightarrow> us_ID v = us_ID u)"
  by (auto simp: save_user_def dest!: UserRepo_Save_cases split: prod.splits option.splits)

lemma UserRepo_GetByID_mem: "UserRepo_GetByID k w = Inr u \<Longrightarrow> u \<in> set (p_users w) \<and> us_ID u = k"
  by (auto simp: UserRepo_GetByID_def dest: tbl_find_SomeD)

lemma UserRepo_GetByUsername_mem: "UserRepo_GetByUsername n w = Inr u \<Longrightarrow> u \<in> set (p_users w) \<and> us_Username u = n"
  by (auto simp: UserRepo_GetByUsername_def find_Some_iff)

lemma save_user_ok:
  assumes "users_ok w"
  shows "users_ok (fst (save_user u w))"
proof -
  obtain w' r where s: "save_user u w = (w', r)" by (cases "save_user u w")
  from save_user_cases[OF s] show ?thesis
  proof
    assume "w' = w"
    then show ?thesis using assms s by simp
  next
    assume h: "r = Inr u \<and> w' = w\<lparr>p_users := tbl_put us_ID u (p_users w)\<rparr> \<and>
      (\<forall>v \<in> set (p_users w). us_Username v = us_Username u \<longrightarrow> us_ID v = us_ID u)"
    then have "distinct (map us_Username (tbl_put us_ID u (p_users w)))"
      using assms by (intro distinct_map_tbl_put) (auto simp: users_ok_def)
    moreover have "tbl_ok us_ID (tbl_put us_ID u (p_users w))"
      using assms unfolding tbl_ok_def by (intro distinct_map_tbl_put) (auto simp: users_ok_def tbl_ok_def)
    ultimately show ?thesis using h s by (simp add: users_ok_def)
  qed
qed

text \<open>Every writing handler ends in at most one \<open>save_user\<close>.\<close>

lemma CreateUser_cases: "fst (CreateUser now ident hash name pw w) = w \<or>
    (\<exists>h. fst (CreateUser now ident hash name pw w) = fst (save_user (new_user now ident name h RoleUser) w))"
  by (auto simp: CreateUser_def split: sum.splits)

lemma SetRole_cases: "fst (SetRole now k role w) = w \<or>
    (\<exists>u \<in> set (p_users w). us_ID u = k \<and> fst (SetRole now k role w) = fst (save_user (u\<lparr>us_Role := role, us_UpdateTime := now\<rparr>) w))"
  by (auto simp: SetRole_def dest: UserRepo_GetByID_mem split: sum.splits)

lemma SetStatus_cases: "fst (SetStatus now k st w) = w \<or>
    (\<exists>u \<in> set (p_users w). us_ID u = k \<and> fst (SetStatus now k st w) = fst (save_user (u\<lparr>us_Status := st, us_UpdateTime := now\<rparr>) w))"
  by (auto simp: SetStatus_def dest: UserRepo_GetByID_mem split: sum.splits)

lemma fst_user_reply [simp]: "fst (user_reply c f r) = fst r"
  by (cases r) (auto simp: user_reply_def split: sum.splits)

lemma Handle_SetUserRole_cases:
  "fst (Handle_SetUserRole now k body uid role w) = w \<or>
     k \<noteq> uid \<and> (\<exists>r. fst (Handle_SetUserRole now k body uid role w) = fst (SetRole now k r w))"
  by (auto simp: Handle_SetUserRole_def split: sum.splits option.splits)

lemma Handle_SetUserStatus_cases:
  "fst (Handle_SetUserStatus now k body uid role w) = w \<or>
     k \<noteq> uid \<and> (\<exists>r. fst (Handle_SetUserStatus now k body uid role w) = fst (SetStatus now k r w))"
  by (auto simp: Handle_SetUserStatus_def split: sum.splits option.splits)

definition admin_token :: "jwt_lib \<Rightarrow> TokenManager \<Rightarrow> time \<Rightarrow> string \<Rightarrow> bool" where
  "admin_token J tm now header = (case authenticate J tm now header of Inl t \<Rightarrow> False | Inr (uid, role) \<Rightarrow> isAdmin role)"

lemma admin_route_refused:
  "\<not> admin_token J tm now header \<Longrightarrow> fst (AuthRequired J tm now header (RequireAdmin k) w) = w"
  by (auto simp: admin_token_def AuthRequired_def RequireAdmin_def split: sum.splits)

lemma admin_route_cases:
  "fst (AuthRequired J tm now header (RequireAdmin k) w) = w \<or>
     (\<exists>uid role. authenticate J tm now header = Inr (uid, role) \<and> isAdmin role \<and>
        fst (AuthRequired J tm now header (RequireAdmin k) w) = fst (k uid role w))"
  by (auto simp: AuthRequired_def RequireAdmin_def split: sum.splits)

lemma user_route_ok: "users_ok w \<Longrightarrow> users_ok (fst (user_route J tm now r w))"
proof (cases r)
  case (PostUser ident hash body)
  assume "users_ok w"
  then show ?thesis using PostUser CreateUser_cases[of now ident hash _ _ w]
    by (auto simp: Handle_CreateUser_def save_user_ok split: sum.splits) (metis save_user_ok)
next
  case (PatchRole header k body)
  assume "users_ok w"
  then show ?thesis using PatchRole admin_route_cases[of J tm now header "Handle_SetUserRole now k body" w]
      Handle_SetUserRole_cases[of now k body _ _ w] SetRole_cases[of now k _ w]
    by simp (metis save_user_ok)
next
  case (PatchStatus header k body)
  assume "users_ok w"
  then show ?thesis using PatchStatus admin_route_cases[of J tm now header "Handle_SetUserStatus now k body" w]
      Handle_SetUserStatus_cases[of now k body _ _ w] SetStatus_cases[of now k _ w]
    by simp (metis save_user_ok)
qed

lemma user_routes_ok: "users_ok w \<Longrightarrow> users_ok (user_routes J tm rs w)"
  by (induction J tm rs w rule: user_routes.induct) (auto simp: user_route_ok)

lemma seed_admin_ok: "users_ok w \<Longrightarrow> users_ok (seed_admin now ident hash name pw w)"
  by (auto simp: seed_admin_def CreateAdmin_def save_user_ok split: sum.splits)

section \<open>Who is an administrator\<close>

definition admin_ids :: "'a pdb_scheme \<Rightarrow> string set" where
  "admin_ids w = us_ID ` {u \<in> set (p_users w). us_Role u = RoleAdmin}"

fun drawn_ids :: "(time \<times> user_request) list \<Rightarrow> string set" where
  "drawn_ids [] = {}"
| "drawn_ids ((now, PostUser ident hash body) # rs) = insert ident (drawn_ids rs)"
| "drawn_ids ((now, PatchRole header k body) # rs) = drawn_ids rs"
| "drawn_ids ((now, PatchStatus header k body) # rs) = drawn_ids rs"

lemma register_frame:
  assumes "w' = fst (Handle_CreateUser now ident hash body w)"
  shows "admin_ids w' \<subseteq> admin_ids w" "{u \<in> set (p_users w). us_ID u \<noteq> ident} \<subseteq> set (p_users w')"
proof -
  consider "w' = w" | name h where "w' = fst (save_user (new_user now ident name h RoleUser) w)"
    using assms CreateUser_cases[of now ident hash _ _ w] by (auto simp: Handle_CreateUser_def split: sum.splits) metis
  then have "w' = w \<or> (\<exists>name h. w' = w\<lparr>p_users := tbl_put us_ID (new_user now ident name h RoleUser) (p_users w)\<rparr>)"
  proof cases
    case 2
    then show ?thesis using save_user_cases[of "new_user now ident name h RoleUser" w] by (metis prod.collapse)
  qed simp
  then show "admin_ids w' \<subseteq> admin_ids w" "{u \<in> set (p_users w). us_ID u \<noteq> ident} \<subseteq> set (p_users w')"
    by (auto simp: admin_ids_def set_tbl_put new_user_def)
qed

lemma user_routes_frame:
  "list_all (\<lambda>(now, r). \<not> admin_token J tm now (request_header r)) rs \<Longrightarrow>
     admin_ids (user_routes J tm rs w) \<subseteq> admin_ids w \<and>
     {u \<in> set (p_users w). us_ID u \<notin> drawn_ids rs} \<subseteq> set (p_users (user_routes J tm rs w))"
proof (induction J tm rs w rule: user_routes.induct)
  case (2 J tm now r rs w)
  show ?case
  proof (cases r)
    case (PostUser ident hash body)
    then show ?thesis using 2 register_frame[where now=now and ident=ident and hash=hash and body=body and w=w, OF refl] by fastforce
  next
    case (PatchRole header k body)
    then show ?thesis using 2 by (simp add: admin_route_refused)
  next
    case (PatchStatus header k body)
    then show ?thesis using 2 by (simp add: admin_route_refused)
  qed
qed simp

section \<open>Properties\<close>

text \<open>C14: No request without the token of an administrator makes an administrator: over any sequence of
  registrations and changes of roles or states none of which carries such a token, the
  administrators stay among those there were, and a row whose identifier no registration
  drew stays as it is (its role, state and password included).\<close>

theorem no_privilege_escalation:
  assumes "list_all (\<lambda>(now, r). \<not> admin_token J tm now (request_header r)) rs"
  shows "admin_ids (user_routes J tm rs w) \<subseteq> admin_ids w \<and>
    {u \<in> set (p_users w). us_ID u \<notin> drawn_ids rs} \<subseteq> set (p_users (user_routes J tm rs w))"
  by (rule user_routes_frame[OF assms])

text \<open>What the library of the tokens documents: a signed token parses back to its claims, with the key
  it was signed with and before its expiry, and is an error otherwise.\<close>

definition jwt_contract :: "jwt_lib \<Rightarrow> bool" where
  "jwt_contract J \<longleftrightarrow> (\<forall>m k c s now f. jw_Sign J m k c = Inr s \<longrightarrow>
     (if f m = Inr k \<and> now < cl_ExpiresAt c then jw_Parse J now s f = Inr (c, True) else \<exists>e. jw_Parse J now s f = Inl e))"

lemma token_sign_Parse:
  assumes "jwt_contract J" "token_sign J tm c = Inr s"
  shows "if now < cl_ExpiresAt c then token_Parse J tm now s = Inr c else \<exists>e. token_Parse J tm now s = Inl e"
proof -
  have f: "token_key tm (SigningMethodHMAC ''HS256'') = Inr (tm_secret tm)"
    by (simp add: token_key_def)
  have "if token_key tm (SigningMethodHMAC ''HS256'') = Inr (tm_secret tm) \<and> now < cl_ExpiresAt c
      then jw_Parse J now s (token_key tm) = Inr (c, True) else \<exists>e. jw_Parse J now s (token_key tm) = Inl e"
    using assms unfolding jwt_contract_def token_sign_def by blast
  then show ?thesis using f by (auto simp: token_Parse_def split: if_splits)
qed

lemma authenticate_signed:
  assumes "jwt_contract J" "token_sign J tm c = Inr s"
  shows "authenticate J tm now (''Bearer '' @ s) =
    (if now < cl_ExpiresAt c \<and> cl_TokenType c = ''access'' then Inr (cl_UserID c, cl_Role c)
     else Inl ''invalid or expired token'')"
  using token_sign_Parse[OF assms, of now]
  by (auto simp: authenticate_def split: if_splits)

lemma Handle_Login_Success:
  "Handle_Login J tm verify now body w = Success code l \<longleftrightarrow> code = 200 \<and> (\<exists>name pw u. body = Inr (name, pw) \<and>
     VerifyPassword verify name pw w = Inr u \<and> token_Issue J tm now (us_ID u) (role_code (us_Role u)) = Inr (lr_access l, lr_refresh l) \<and>
     lr_id l = us_ID u \<and> lr_username l = us_Username u \<and> lr_role l = role_code (us_Role u))"
  by (auto simp: Handle_Login_def bad_body_def split: sum.splits)

lemma VerifyPassword_Inr:
  "VerifyPassword verify name pw w = Inr u \<longleftrightarrow> UserRepo_GetByUsername name w = Inr u \<and> verify (us_PasswordHash u) pw"
  by (auto simp: VerifyPassword_def split: sum.splits)

lemma token_Issue_Inr:
  "token_Issue J tm now uid role = Inr (a, r) \<longleftrightarrow> token_sign J tm (token_claims J now (tm_accessTTL tm) uid role ''access'') = Inr a \<and>
     token_sign J tm (token_claims J now (tm_refreshTTL tm) uid role ''refresh'') = Inr r"
  by (auto simp: token_Issue_def split: sum.splits)

text \<open>C24: What a login gives and what the middleware reads: the access token of a login authenticates as the
  user the name and password belong to, with the role of that moment, until it expires and not
  after; the refresh token never authenticates a request.\<close>

theorem login_token_roundtrip:
  assumes "jwt_contract J" "Handle_Login J tm verify now body w = Success code l"
  shows "authenticate J tm t (''Bearer '' @ lr_access l) =
      (if t < jw_NumericDate J (now + tm_accessTTL tm) then Inr (lr_id l, lr_role l) else Inl ''invalid or expired token'') \<and>
    authenticate J tm t (''Bearer '' @ lr_refresh l) = Inl ''invalid or expired token'' \<and>
    (\<exists>name pw u. body = Inr (name, pw) \<and> u \<in> set (p_users w) \<and> us_Username u = name \<and> verify (us_PasswordHash u) pw \<and>
       lr_id l = us_ID u \<and> lr_role l = role_code (us_Role u))"
proof -
  obtain name pw u where u: "body = Inr (name, pw)" "UserRepo_GetByUsername name w = Inr u" "verify (us_PasswordHash u) pw"
    "token_Issue J tm now (us_ID u) (role_code (us_Role u)) = Inr (lr_access l, lr_refresh l)"
    "lr_id l = us_ID u" "lr_role l = role_code (us_Role u)"
    using assms(2) by (auto simp: Handle_Login_Success VerifyPassword_Inr)
  note signed = u(4)[unfolded token_Issue_Inr]
  show ?thesis
    using authenticate_signed[OF assms(1) conjunct1[OF signed], of t] authenticate_signed[OF assms(1) conjunct2[OF signed], of t]
      UserRepo_GetByUsername_mem[OF u(2)] u by (auto simp: token_claims_def)
qed

text \<open>Disabling a user changes nothing for him: no check reads the state.  After a disabling that
  succeeded, the same name and password log in, and the token they give is accepted until it expires.\<close>

theorem disabled_user_keeps_access:
  assumes "users_ok w" "jwt_contract J" "SetStatus now k UserStatusDisabled w = (w', Inr u)"
    and "verify (us_PasswordHash u) pw" "p_fault w (Call ''UserName'' [us_Username u]) = None"
    and "token_Issue J tm t (us_ID u) (role_code (us_Role u)) = Inr (a, r)"
    and "t' < jw_NumericDate J (t + tm_accessTTL tm)"
  shows "u \<in> set (p_users w') \<and> us_Status u = UserStatusDisabled \<and>
    (\<exists>l. Handle_Login J tm verify t (Inr (us_Username u, pw)) w' = Success 200 l \<and>
       authenticate J tm t' (''Bearer '' @ lr_access l) = Inr (k, role_code (us_Role u)))"
proof -
  obtain v where v: "UserRepo_GetByID k w = Inr v" "save_user (v\<lparr>us_Status := UserStatusDisabled, us_UpdateTime := now\<rparr>) w = (w', Inr u)"
    using assms(3) by (auto simp: SetStatus_def split: sum.splits)
  have u: "u = v\<lparr>us_Status := UserStatusDisabled, us_UpdateTime := now\<rparr>" "us_ID u = k"
    and w': "w' = w\<lparr>p_users := tbl_put us_ID u (p_users w)\<rparr>"
    using v UserRepo_GetByID_mem[OF v(1)]
    by (auto simp: save_user_def UserRepo_Save_def pguard_write_cases split: prod.splits option.splits if_splits)
  have mem: "u \<in> set (p_users w')" using w' by (simp add: set_tbl_put)
  have "users_ok w'" using save_user_ok[OF assms(1)] v(2) by (metis fst_conv)
  then have "tbl_find us_Username (us_Username u) (p_users w') = Some u"
    using mem by (intro tbl_find_mem) (auto simp: users_ok_def tbl_ok_def)
  then have name: "UserRepo_GetByUsername (us_Username u) w' = Inr u"
    using assms(5) w' by (simp add: UserRepo_GetByUsername_def tbl_find_def)
  have log: "Handle_Login J tm verify t (Inr (us_Username u, pw)) w' =
      Success 200 \<lparr>lr_access = a, lr_refresh = r, lr_id = us_ID u, lr_username = us_Username u, lr_role = role_code (us_Role u)\<rparr>"
    using name assms(4,6) by (auto simp: Handle_Login_def VerifyPassword_def)
  have "token_sign J tm (token_claims J t (tm_accessTTL tm) (us_ID u) (role_code (us_Role u)) ''access'') = Inr a"
    using assms(6) by (simp add: token_Issue_Inr)
  from authenticate_signed[OF assms(2) this, of t'] show ?thesis
    using mem u log assms(7) by (auto simp: token_claims_def)
qed

section \<open>Examples\<close>

definition ex_pdb :: pdb where
  "ex_pdb = \<lparr> p_users = [\<lparr> us_ID = ''u1'', us_Username = ''ann'', us_PasswordHash = ''h:secret'', us_Role = RoleUser,
       us_Status = UserStatusActive, us_CreateTime = 0, us_UpdateTime = 0 \<rparr>],
     p_orders = [], p_profiles = [], p_plans = [], p_subs = [], p_fault = (\<lambda>c. None) \<rparr>"

definition ex_verify :: "string \<Rightarrow> string \<Rightarrow> bool" where
  "ex_verify h pw \<longleftrightarrow> h = ''h:'' @ pw"

definition ex_tm :: TokenManager where
  "ex_tm = \<lparr> tm_secret = ''key'', tm_accessTTL = 60 * second, tm_refreshTTL = 3600 * second \<rparr>"

definition ex_claims :: "string \<Rightarrow> Claims" where
  "ex_claims typ = \<lparr> cl_UserID = ''u1'', cl_Role = 0, cl_TokenType = typ, cl_IssuedAt = 0,
     cl_ExpiresAt = (if typ = ''access'' then 60 * second else 3600 * second) \<rparr>"

text \<open>A library that signs these two tokens only.\<close>

definition ex_jwt :: jwt_lib where
  "ex_jwt = \<lparr> jw_NumericDate = (\<lambda>t. t),
     jw_Sign = (\<lambda>m k c. if m = SigningMethodHMAC ''HS256'' \<and> k = ''key'' \<and> (c = ex_claims ''access'' \<or> c = ex_claims ''refresh'')
       then Inr (cl_TokenType c) else Inl (PErrorf ''unsupported'')),
     jw_Parse = (\<lambda>now s f. case f (SigningMethodHMAC ''HS256'') of Inl e \<Rightarrow> Inl e
       | Inr k \<Rightarrow> if k = ''key'' \<and> (s = ''access'' \<or> s = ''refresh'') \<and> now < cl_ExpiresAt (ex_claims s) then Inr (ex_claims s, True)
           else Inl (PErrorf ''token is malformed'')) \<rparr>"

lemma ex_jwt_contract: "jwt_contract ex_jwt"
  by (auto simp: jwt_contract_def ex_jwt_def ex_claims_def split: sum.splits if_splits)

lemma ex_issue: "token_Issue ex_jwt ex_tm 0 ''u1'' 0 = Inr (''access'', ''refresh'')"
  by (simp add: token_Issue_def token_sign_def token_claims_def ex_jwt_def ex_tm_def ex_claims_def)

lemma ex_ttl: "5 < jw_NumericDate ex_jwt (0 + tm_accessTTL ex_tm)"
  by (simp add: ex_jwt_def ex_tm_def second_def)

lemma ex_pdb_users_ok: "users_ok ex_pdb"
  by (simp add: users_ok_def ex_pdb_def tbl_ok_def)

theorem no_privilege_escalation_witness:
  "admin_ids (user_routes ex_jwt ex_tm [(0, PatchRole ''Bearer x'' ''u1'' (Inr 1)), (1, PostUser ''u2'' Inr (Inr (''bob'', ''secret'')))] ex_pdb)
     \<subseteq> admin_ids ex_pdb"
  using no_privilege_escalation[of ex_jwt ex_tm "[(0, PatchRole ''Bearer x'' ''u1'' (Inr 1)), (1, PostUser ''u2'' Inr (Inr (''bob'', ''secret'')))]" ex_pdb]
  by (simp add: admin_token_def authenticate_def token_Parse_def token_key_def ex_jwt_def ex_tm_def)

lemma ex_login: "Handle_Login ex_jwt ex_tm ex_verify 0 (Inr (''ann'', ''secret'')) ex_pdb =
  Success 200 \<lparr>lr_access = ''access'', lr_refresh = ''refresh'', lr_id = ''u1'', lr_username = ''ann'', lr_role = 0\<rparr>"
  using ex_issue
  by (simp add: Handle_Login_def VerifyPassword_def UserRepo_GetByUsername_def pguard_def pfound_def ex_pdb_def ex_verify_def role_code_def)

theorem login_token_roundtrip_witness:
  "authenticate ex_jwt ex_tm 5 (''Bearer '' @ ''access'') = Inr (''u1'', 0)"
  using login_token_roundtrip[OF ex_jwt_contract ex_login, of 5] ex_ttl by simp

lemma ex_disable: "SetStatus 3 ''u1'' UserStatusDisabled ex_pdb = (ex_pdb\<lparr>p_users := [(hd (p_users ex_pdb))\<lparr>us_Status := UserStatusDisabled, us_UpdateTime := 3\<rparr>]\<rparr>,
    Inr ((hd (p_users ex_pdb))\<lparr>us_Status := UserStatusDisabled, us_UpdateTime := 3\<rparr>))"
  by (simp add: SetStatus_def UserRepo_GetByID_def pguard_def pfound_def save_user_def UserRepo_Save_def pguard_write_def
      ex_pdb_def table_simps tbl_put_def tbl_upd_def)

theorem disabled_user_keeps_access_witness:
  "\<exists>l. Handle_Login ex_jwt ex_tm ex_verify 0 (Inr (''ann'', ''secret'')) (fst (SetStatus 3 ''u1'' UserStatusDisabled ex_pdb)) = Success 200 l"
  using disabled_user_keeps_access[OF ex_pdb_users_ok ex_jwt_contract ex_disable, of ex_verify "''secret''" ex_tm 0 "''access''" "''refresh''" 5]
    ex_issue ex_disable ex_ttl
  by (auto simp: ex_pdb_def ex_verify_def role_code_def)

end
