(* ===== verification/Platform_Messages.thy ===== *)
theory Platform_Messages
  imports Prelude
begin

text \<open>
  The texts of the platform service that are not plain ASCII, as UTF-8 bytes.
\<close>

text \<open>subscription_use_case.go checkActive\<close>

definition msg_only_active :: string where
  "msg_only_active =
     [CHR 0xEF, CHR 0xBC, CHR 0x88, CHR 0xE4, CHR 0xBB, CHR 0x85] @
     '' active '' @
     [CHR 0xE5, CHR 0x8F, CHR 0xAF, CHR 0xE7, CHR 0x94, CHR 0xA8, CHR 0xEF, CHR 0xBC, CHR 0x89]"

text \<open>subscription_use_case.go CreateInstance\<close>

definition msg_quota1 :: string where
  "msg_quota1 =
     [CHR 0xE8, CHR 0xAE, CHR 0xA2, CHR 0xE9, CHR 0x98, CHR 0x85, CHR 0xE5, CHR 0xAE, CHR 0x9E,
      CHR 0xE4, CHR 0xBE, CHR 0x8B, CHR 0xE6, CHR 0x95, CHR 0xB0, CHR 0xE5, CHR 0xB7, CHR 0xB2,
      CHR 0xE8, CHR 0xBE, CHR 0xBE, CHR 0xE4, CHR 0xB8, CHR 0x8A, CHR 0xE9, CHR 0x99, CHR 0x90] @
     '' ''"

text \<open>subscription_use_case.go CreateInstance\<close>

definition msg_quota2 :: string where
  "msg_quota2 =
     [CHR 0xEF, CHR 0xBC, CHR 0x8C, CHR 0xE8, CHR 0xAF, CHR 0xB7, CHR 0xE5, CHR 0x85, CHR 0x88,
      CHR 0xE5, CHR 0x88, CHR 0xA0, CHR 0xE9, CHR 0x99, CHR 0xA4, CHR 0xE4, CHR 0xB8, CHR 0x8D,
      CHR 0xE5, CHR 0x86, CHR 0x8D, CHR 0xE4, CHR 0xBD, CHR 0xBF, CHR 0xE7, CHR 0x94, CHR 0xA8,
      CHR 0xE7, CHR 0x9A, CHR 0x84, CHR 0xE5, CHR 0xAE, CHR 0x9E, CHR 0xE4, CHR 0xBE, CHR 0x8B]"

text \<open>order_handler.go, game_catalog_handler.go\<close>

definition msg_controller_error :: string where
  "msg_controller_error =
     ''controller '' @
     [CHR 0xE4, CHR 0xB8, CHR 0x8D, CHR 0xE5, CHR 0x8F, CHR 0xAF, CHR 0xE8, CHR 0xBE, CHR 0xBE,
      CHR 0xE6, CHR 0x88, CHR 0x96, CHR 0xE8, CHR 0xBF, CHR 0x94, CHR 0xE5, CHR 0x9B, CHR 0x9E,
      CHR 0xE9, CHR 0x94, CHR 0x99, CHR 0xE8, CHR 0xAF, CHR 0xAF] @
     '': ''"

end
