(* ===== verification/Platform_Plans.thy ===== *)
theory Platform_Plans
  imports Platform_Users Platform_Messages Credentials
begin

text \<open>
  Plans and subscriptions: \<open>biz/plan_use_case.go\<close> and \<open>biz/subscription_use_case.go\<close> of the
  platform service.  The controller is reached through the Go interface
  \<open>SubscriptionController\<close>, here the record \<open>ctl_api\<close> of functions on a state of any type.
  Where an operation reads a row, calls the controller and then saves the row, other
  requests may run before the save: \<open>meanwhile\<close>.  One operation reads the clock once.
\<close>

section \<open>The controller as the use cases see it\<close>

record PInstance =
  pi_ID :: string
  pi_GameID :: string
  pi_NodeAgentID :: "string option"
  pi_Status :: string
  pi_GameBuildId :: string
  pi_FailReason :: string
  pi_SubscriptionID :: "string option"

record PRuntime =
  pr_InstanceID :: string
  pr_Running :: bool
  pr_PlayerCount :: "32 word"
  pr_MaxPlayers :: "32 word"
  pr_Healthy :: bool
  pr_ProbeMode :: string
  pr_ProbeError :: string
  pr_SampledAt :: string

text \<open>Create takes the game, the build, the subscription and the configuration.\<close>

record 's ctl_api =
  ca_Create :: "string \<Rightarrow> string \<Rightarrow> string \<Rightarrow> config_map \<Rightarrow> 's \<Rightarrow> 's \<times> (perr + PInstance)"
  ca_Get :: "string \<Rightarrow> 's \<Rightarrow> perr + PInstance"
  ca_Start :: "string \<Rightarrow> 's \<Rightarrow> 's \<times> perr option"
  ca_Stop :: "string \<Rightarrow> 's \<Rightarrow> 's \<times> perr option"
  ca_List :: "string \<Rightarrow> 's \<Rightarrow> perr + PInstance list"
  ca_Runtime :: "string \<Rightarrow> 's \<Rightarrow> perr + PRuntime"

record 's plat = pdb +
  pl_ctl :: 's

section \<open>Plans\<close>

fun validate_basket :: "nat \<Rightarrow> string set \<Rightarrow> PlanBasketItem list \<Rightarrow> perr option" where
  "validate_basket i seen [] = None"
| "validate_basket i seen (item # items) =
    (if bi_GameID item = [] then Some (PErrorf (''basket['' @ show_nat i @ ''].game_id is required''))
     else if bi_GameID item \<in> seen then Some (PErrorf (''basket contains duplicate game_id '' @ go_quote (bi_GameID item)))
     else validate_basket (i + 1) (insert (bi_GameID item) seen) items)"

definition validatePlan :: "ServerPlan option \<Rightarrow> perr option" where
  "validatePlan plan =
    (case plan of
       None \<Rightarrow> Some (PErrorf ''plan is required'')
     | Some p \<Rightarrow>
        if sp_DisplayName p = [] then Some (PErrorf ''display_name is required'')
        else if sp_PriceCents p < 0 then Some (PErrorf ''price_cents must be non-negative'')
        else if sp_DurationHours p < 0 then Some (PErrorf ''duration_hours must be non-negative'')
        else if sp_MaxInstances p < 0 then Some (PErrorf ''max_instances must be non-negative'')
        else if sp_Basket p = [] then Some (PErrorf ''basket must contain at least one game'')
        else validate_basket 0 {} (sp_Basket p))"

definition CreatePlan :: "time \<Rightarrow> string \<Rightarrow> ServerPlan option \<Rightarrow> 'a pdb_scheme \<Rightarrow> 'a pdb_scheme \<times> (perr + ServerPlan)" where
  "CreatePlan now ident plan w =
    (case validatePlan plan of
       Some e \<Rightarrow> (w, Inl e)
     | None \<Rightarrow>
        let p = (the plan)\<lparr>sp_ID := ident, sp_Enabled := True, sp_CreateTime := now, sp_UpdateTime := now\<rparr>
        in case PlanRepo_Save p w of (w1, Some e) \<Rightarrow> (w1, Inl e) | (w1, None) \<Rightarrow> (w1, Inr p))"

definition GetPlan :: "string \<Rightarrow> 'a pdb_scheme \<Rightarrow> perr + ServerPlan" where
  "GetPlan k w =
    (if k = [] then Inl (PErrorf ''plan id is required'')
     else case PlanRepo_GetByID k w of
       Inl e \<Rightarrow> Inl (if perr_is e PNotFound then ErrPlanNotFound else e)
     | Inr p \<Rightarrow> Inr p)"

text \<open>\<open>basket\<close> is the slice of the updates (\<open>None\<close>: nil, keep the plan's own).\<close>

definition merge_plan :: "ServerPlan \<Rightarrow> PlanBasketItem list option \<Rightarrow> bool option \<Rightarrow> ServerPlan \<Rightarrow> ServerPlan" where
  "merge_plan u basket enabled p = p\<lparr>
     sp_DisplayName := (if sp_DisplayName u = [] then sp_DisplayName p else sp_DisplayName u),
     sp_Description := sp_Description u, sp_PriceCents := sp_PriceCents u, sp_DurationHours := sp_DurationHours u,
     sp_ResourceCPUMilli := sp_ResourceCPUMilli u, sp_ResourceMemoryBytes := sp_ResourceMemoryBytes u,
     sp_ResourceDiskBytes := sp_ResourceDiskBytes u, sp_MaxInstances := sp_MaxInstances u,
     sp_Basket := (case basket of None \<Rightarrow> sp_Basket p | Some b \<Rightarrow> b),
     sp_Enabled := (case enabled of None \<Rightarrow> sp_Enabled p | Some b \<Rightarrow> b)\<rparr>"

definition UpdatePlan ::
  "time \<Rightarrow> string \<Rightarrow> ServerPlan \<Rightarrow> PlanBasketItem list option \<Rightarrow> bool option \<Rightarrow> 'a pdb_scheme \<Rightarrow> 'a pdb_scheme \<times> (perr + ServerPlan)" where
  "UpdatePlan now k updates basket enabled w =
    (case GetPlan k w of
       Inl e \<Rightarrow> (w, Inl e)
     | Inr p0 \<Rightarrow>
        let p = merge_plan updates basket enabled p0 in
        (case validatePlan (Some p) of
           Some e \<Rightarrow> (w, Inl e)
         | None \<Rightarrow> (case PlanRepo_Save (p\<lparr>sp_UpdateTime := now\<rparr>) w of
                     (w1, Some e) \<Rightarrow> (w1, Inl e)
                   | (w1, None) \<Rightarrow> (w1, Inr (p\<lparr>sp_UpdateTime := now\<rparr>)))))"

definition DeletePlan :: "time \<Rightarrow> string \<Rightarrow> 'a pdb_scheme \<Rightarrow> 'a pdb_scheme \<times> perr option" where
  "DeletePlan now k w =
    (if k = [] then (w, Some (PErrorf ''plan id is required''))
     else case SubRepo_ListByPlan k w of
       Inl e \<Rightarrow> (w, Some e)
     | Inr subs \<Rightarrow>
        if subs \<noteq> [] then
          (case GetPlan k w of
             Inl e \<Rightarrow> (w, Some e)
           | Inr p \<Rightarrow> PlanRepo_Save (p\<lparr>sp_Enabled := False, sp_UpdateTime := now\<rparr>) w)
        else PlanRepo_Delete k w)"

definition ListPlans :: "bool \<Rightarrow> 'a pdb_scheme \<Rightarrow> perr + ServerPlan list" where
  "ListPlans includeDisabled w = (if includeDisabled then PlanRepo_ListAll w else PlanRepo_ListEnabled w)"

section \<open>Subscriptions\<close>

text \<open>\<open>time.Duration(hours) * time.Hour\<close> is a product of 64 bits.\<close>

definition hours_duration :: "int \<Rightarrow> time" where
  "hours_duration h = wrap64 (h * (3600 * second))"

definition save_sub :: "Subscription \<Rightarrow> 'a pdb_scheme \<Rightarrow> 'a pdb_scheme \<times> (perr + Subscription)" where
  "save_sub s w = (case SubRepo_Save s w of (w1, Some e) \<Rightarrow> (w1, Inl e) | (w1, None) \<Rightarrow> (w1, Inr s))"

definition new_subscription :: "time \<Rightarrow> string \<Rightarrow> string \<Rightarrow> ServerPlan \<Rightarrow> Subscription" where
  "new_subscription now ident uid p = \<lparr> su_ID = ident, su_UserID = uid, su_PlanID = sp_ID p, su_Status = SubscriptionActive,
     su_ExpiresAt = (if sp_DurationHours p > 0 then Some (now + hours_duration (sp_DurationHours p)) else None),
     su_BasketSnapshot = sp_Basket p, su_MaxInstances = sp_MaxInstances p, su_CreateTime = now, su_UpdateTime = now \<rparr>"

definition Purchase :: "time \<Rightarrow> string \<Rightarrow> string \<Rightarrow> string \<Rightarrow> 'a pdb_scheme \<Rightarrow> 'a pdb_scheme \<times> (perr + Subscription)" where
  "Purchase now ident uid plan w =
    (if uid = [] then (w, Inl (PErrorf ''user_id is required''))
     else case GetPlan plan w of
       Inl e \<Rightarrow> (w, Inl (if perr_is e ErrPlanNotFound then ErrPlanNotFound else e))
     | Inr p \<Rightarrow>
        if \<not> sp_Enabled p then (w, Inl (PErrorf ''plan is disabled''))
        else save_sub (new_subscription now ident uid p) w)"

definition ListSubscriptions :: "string \<Rightarrow> 'a pdb_scheme \<Rightarrow> perr + Subscription list" where
  "ListSubscriptions uid w = (if uid \<noteq> [] then SubRepo_ListByUser uid w else SubRepo_ListAll w)"

definition ListEnabledPlans :: "'a pdb_scheme \<Rightarrow> perr + ServerPlan list" where
  "ListEnabledPlans w = ListPlans False w"

definition GetSubscription :: "string \<Rightarrow> 'a pdb_scheme \<Rightarrow> perr + Subscription" where
  "GetSubscription k w =
    (if k = [] then Inl (PErrorf ''subscription id is required'')
     else case SubRepo_GetByID k w of
       Inl e \<Rightarrow> Inl (if perr_is e PNotFound then ErrSubscriptionNotFound else e)
     | Inr s \<Rightarrow> Inr s)"

definition ownSubscription :: "string \<Rightarrow> string \<Rightarrow> 'a pdb_scheme \<Rightarrow> perr + Subscription" where
  "ownSubscription uid k w =
    (case GetSubscription k w of
       Inl e \<Rightarrow> Inl e
     | Inr s \<Rightarrow> if uid \<noteq> [] \<and> su_UserID s \<noteq> uid then Inl (PErrorf ''subscription does not belong to this user'') else Inr s)"

text \<open>The first error is kept, every other instance is still tried.\<close>

fun stop_each :: "'s ctl_api \<Rightarrow> PInstance list \<Rightarrow> 's \<Rightarrow> 's \<times> perr option" where
  "stop_each api [] s = (s, None)"
| "stop_each api (i # is) s =
    (if pi_Status i = ''stopped'' \<or> pi_Status i = ''failed'' then stop_each api is s
     else case ca_Stop api (pi_ID i) s of
       (s1, e) \<Rightarrow> (case stop_each api is s1 of (s2, e2) \<Rightarrow> (s2, case e of Some x \<Rightarrow> Some x | None \<Rightarrow> e2)))"

definition stopActiveInstances :: "'s ctl_api \<Rightarrow> Subscription \<Rightarrow> ('s, 'a) plat_scheme \<Rightarrow> ('s, 'a) plat_scheme \<times> perr option" where
  "stopActiveInstances api sub w =
    (case ca_List api (su_ID sub) (pl_ctl w) of
       Inl e \<Rightarrow> (w, Some e)
     | Inr is \<Rightarrow> (case stop_each api is (pl_ctl w) of (s1, e) \<Rightarrow> (w\<lparr>pl_ctl := s1\<rparr>, e)))"

text \<open>The common part of suspending and cancelling: the instances are stopped, then the row is saved as it was
  read, with its new state.\<close>

definition stop_and_save ::
  "'s ctl_api \<Rightarrow> time \<Rightarrow> (('s, 'a) plat_scheme \<Rightarrow> ('s, 'a) plat_scheme) \<Rightarrow> SubscriptionStatus \<Rightarrow> Subscription
   \<Rightarrow> ('s, 'a) plat_scheme \<Rightarrow> ('s, 'a) plat_scheme \<times> (perr + Subscription)" where
  "stop_and_save api now meanwhile st sub w =
    (case stopActiveInstances api sub w of
       (w1, Some e) \<Rightarrow> (w1, Inl (PWrapped ''stop active instances: '' e []))
     | (w1, None) \<Rightarrow> save_sub (sub\<lparr>su_Status := st, su_UpdateTime := now\<rparr>) (meanwhile w1))"

definition Suspend ::
  "'s ctl_api \<Rightarrow> time \<Rightarrow> (('s, 'a) plat_scheme \<Rightarrow> ('s, 'a) plat_scheme) \<Rightarrow> string
   \<Rightarrow> ('s, 'a) plat_scheme \<Rightarrow> ('s, 'a) plat_scheme \<times> (perr + Subscription)" where
  "Suspend api now meanwhile k w =
    (case GetSubscription k w of
       Inl e \<Rightarrow> (w, Inl e)
     | Inr sub \<Rightarrow>
        if su_Status sub \<noteq> SubscriptionActive then (w, Inl (PErrorf ''only active subscription can be suspended''))
        else stop_and_save api now meanwhile SubscriptionSuspended sub w)"

definition Unsuspend ::
  "time \<Rightarrow> ('a pdb_scheme \<Rightarrow> 'a pdb_scheme) \<Rightarrow> string \<Rightarrow> 'a pdb_scheme \<Rightarrow> 'a pdb_scheme \<times> (perr + Subscription)" where
  "Unsuspend now meanwhile k w =
    (case GetSubscription k w of
       Inl e \<Rightarrow> (w, Inl e)
     | Inr sub \<Rightarrow>
        if su_Status sub \<noteq> SubscriptionSuspended then (w, Inl (PErrorf ''only suspended subscription can be unsuspended''))
        else save_sub (sub\<lparr>su_Status := SubscriptionActive, su_UpdateTime := now\<rparr>) (meanwhile w))"

definition Cancel ::
  "'s ctl_api \<Rightarrow> time \<Rightarrow> (('s, 'a) plat_scheme \<Rightarrow> ('s, 'a) plat_scheme) \<Rightarrow> string \<Rightarrow> string
   \<Rightarrow> ('s, 'a) plat_scheme \<Rightarrow> ('s, 'a) plat_scheme \<times> (perr + Subscription)" where
  "Cancel api now meanwhile uid k w =
    (case ownSubscription uid k w of
       Inl e \<Rightarrow> (w, Inl e)
     | Inr sub \<Rightarrow>
        if su_Status sub \<noteq> SubscriptionActive \<and> su_Status sub \<noteq> SubscriptionSuspended
        then (w, Inl (PErrorf ''only active/suspended subscription can be cancelled''))
        else stop_and_save api now meanwhile SubscriptionCancelled sub w)"

definition renewed :: "time \<Rightarrow> ServerPlan \<Rightarrow> Subscription \<Rightarrow> Subscription" where
  "renewed now p sub =
    (let base = (case su_ExpiresAt sub of None \<Rightarrow> now | Some t \<Rightarrow> if now < t then t else now)
     in sub\<lparr>su_ExpiresAt := Some (base + hours_duration (sp_DurationHours p)), su_Status := SubscriptionActive, su_UpdateTime := now\<rparr>)"

definition Renew ::
  "time \<Rightarrow> ('a pdb_scheme \<Rightarrow> 'a pdb_scheme) \<Rightarrow> string \<Rightarrow> string \<Rightarrow> 'a pdb_scheme \<Rightarrow> 'a pdb_scheme \<times> (perr + Subscription)" where
  "Renew now meanwhile uid k w =
    (case ownSubscription uid k w of
       Inl e \<Rightarrow> (w, Inl e)
     | Inr sub \<Rightarrow>
        if su_Status sub \<noteq> SubscriptionActive \<and> su_Status sub \<noteq> SubscriptionExpired
        then (w, Inl (PErrorf ''only active/expired subscription can be renewed''))
        else (case GetPlan (su_PlanID sub) w of
           Inl e \<Rightarrow> (w, Inl (PWrapped ''load plan: '' e []))
         | Inr p \<Rightarrow>
            if sp_DurationHours p \<le> 0 then (w, Inl (PErrorf ''plan has no duration, cannot renew''))
            else save_sub (renewed now p sub) (meanwhile w)))"

text \<open>The sweep: the rows are read once, before the first instance is stopped; \<open>meanwhile\<close> runs before the
  save of the subscription it is applied to.\<close>

fun expire_each ::
  "'s ctl_api \<Rightarrow> time \<Rightarrow> (Subscription \<Rightarrow> ('s, 'a) plat_scheme \<Rightarrow> ('s, 'a) plat_scheme) \<Rightarrow> nat \<Rightarrow> Subscription list
   \<Rightarrow> ('s, 'a) plat_scheme \<Rightarrow> ('s, 'a) plat_scheme \<times> nat \<times> perr option" where
  "expire_each api now meanwhile n [] w = (w, n, None)"
| "expire_each api now meanwhile n (sub # subs) w =
    (case stopActiveInstances api sub w of
       (w1, Some e) \<Rightarrow> (w1, n, Some (PWrapped (''subscription '' @ su_ID sub @ '': '') e []))
     | (w1, None) \<Rightarrow>
        (case SubRepo_Save (sub\<lparr>su_Status := SubscriptionExpired, su_UpdateTime := now\<rparr>) (meanwhile sub w1) of
           (w2, Some e) \<Rightarrow> (w2, n, Some (PWrapped (''mark expired '' @ su_ID sub @ '': '') e []))
         | (w2, None) \<Rightarrow> expire_each api now meanwhile (n + 1) subs w2))"

definition ExpireOverdue ::
  "'s ctl_api \<Rightarrow> time \<Rightarrow> (Subscription \<Rightarrow> ('s, 'a) plat_scheme \<Rightarrow> ('s, 'a) plat_scheme)
   \<Rightarrow> ('s, 'a) plat_scheme \<Rightarrow> ('s, 'a) plat_scheme \<times> nat \<times> perr option" where
  "ExpireOverdue api now meanwhile w =
    (case SubRepo_ListOverdue now w of
       Inl e \<Rightarrow> (w, 0, Some e)
     | Inr subs \<Rightarrow> expire_each api now meanwhile 0 subs w)"

section \<open>Instances of a subscription\<close>

definition presetForGame :: "Subscription \<Rightarrow> string \<Rightarrow> PlanBasketItem option" where
  "presetForGame sub game = find (\<lambda>b. bi_GameID b = game) (su_BasketSnapshot sub)"

definition checkActive :: "time \<Rightarrow> Subscription \<Rightarrow> perr option" where
  "checkActive now sub =
    (if su_Status sub \<noteq> SubscriptionActive
     then Some (PErrorf (''subscription is '' @ sub_status_text (su_Status sub) @ msg_only_active))
     else case su_ExpiresAt sub of
       None \<Rightarrow> None
     | Some t \<Rightarrow> if t < now then Some (PErrorf ''subscription has expired'') else None)"

definition verifyInstanceOwnership ::
  "'s ctl_api \<Rightarrow> time \<Rightarrow> string \<Rightarrow> string \<Rightarrow> string \<Rightarrow> ('s, 'a) plat_scheme \<Rightarrow> perr + Subscription" where
  "verifyInstanceOwnership api now uid k inst w =
    (case ownSubscription uid k w of
       Inl e \<Rightarrow> Inl e
     | Inr sub \<Rightarrow>
        (case checkActive now sub of
           Some e \<Rightarrow> Inl e
         | None \<Rightarrow>
            (case ca_Get api inst (pl_ctl w) of
               Inl e \<Rightarrow> Inl (PWrapped ''load instance: '' e [])
             | Inr i \<Rightarrow>
                if pi_SubscriptionID i \<noteq> Some k then Inl (PErrorf ''instance does not belong to this subscription'')
                else if presetForGame sub (pi_GameID i) = None
                then Inl (PErrorf (''instance game '' @ pi_GameID i @ '' is not in subscription basket''))
                else Inr sub)))"

text \<open>The copy of a Go map into another, entry by entry.\<close>

definition merge_config :: "config_map \<Rightarrow> config_map \<Rightarrow> config_map" where
  "merge_config preset config = config @ filter (\<lambda>(k, v). k \<notin> fst ` set config) preset"

definition CreateInstance ::
  "'s ctl_api \<Rightarrow> time \<Rightarrow> string \<Rightarrow> string \<Rightarrow> string \<Rightarrow> config_map
   \<Rightarrow> ('s, 'a) plat_scheme \<Rightarrow> ('s, 'a) plat_scheme \<times> (perr + PInstance)" where
  "CreateInstance api now uid k game config w =
    (case ownSubscription uid k w of
       Inl e \<Rightarrow> (w, Inl e)
     | Inr sub \<Rightarrow>
        (case checkActive now sub of
           Some e \<Rightarrow> (w, Inl e)
         | None \<Rightarrow>
            if game = [] then (w, Inl (PErrorf ''game_id is required''))
            else (case presetForGame sub game of
               None \<Rightarrow> (w, Inl (PErrorf (''game '' @ game @ '' is not in subscription basket'')))
             | Some preset \<Rightarrow>
                let rejected =
                  (if su_MaxInstances sub > 0 then
                     (case ca_List api (su_ID sub) (pl_ctl w) of
                        Inl e \<Rightarrow> Some (PWrapped ''list subscription instances: '' e [])
                      | Inr is \<Rightarrow> if int (length is) \<ge> su_MaxInstances sub
                          then Some (PErrorf (msg_quota1 @ show_int (su_MaxInstances sub) @ msg_quota2)) else None)
                   else None)
                in case rejected of
                     Some e \<Rightarrow> (w, Inl e)
                   | None \<Rightarrow> (case ca_Create api game [] k (merge_config (bi_Config preset) config) (pl_ctl w) of
                               (s1, r) \<Rightarrow> (w\<lparr>pl_ctl := s1\<rparr>, r)))))"

definition ctl_call :: "('s \<Rightarrow> 's \<times> 'r) \<Rightarrow> ('s, 'a) plat_scheme \<Rightarrow> ('s, 'a) plat_scheme \<times> 'r" where
  "ctl_call f w = (case f (pl_ctl w) of (s1, r) \<Rightarrow> (w\<lparr>pl_ctl := s1\<rparr>, r))"

definition StartInstance ::
  "'s ctl_api \<Rightarrow> time \<Rightarrow> string \<Rightarrow> string \<Rightarrow> string \<Rightarrow> ('s, 'a) plat_scheme \<Rightarrow> ('s, 'a) plat_scheme \<times> perr option" where
  "StartInstance api now uid k inst w =
    (case verifyInstanceOwnership api now uid k inst w of
       Inl e \<Rightarrow> (w, Some e)
     | Inr sub \<Rightarrow> ctl_call (ca_Start api inst) w)"

definition instance_of_subscription :: "'s ctl_api \<Rightarrow> string \<Rightarrow> string \<Rightarrow> string \<Rightarrow> ('s, 'a) plat_scheme \<Rightarrow> perr option" where
  "instance_of_subscription api uid k inst w =
    (case ownSubscription uid k w of
       Inl e \<Rightarrow> Some e
     | Inr sub \<Rightarrow>
        (case ca_Get api inst (pl_ctl w) of
           Inl e \<Rightarrow> Some (PWrapped ''load instance: '' e [])
         | Inr i \<Rightarrow> if pi_SubscriptionID i \<noteq> Some k then Some (PErrorf ''instance does not belong to this subscription'') else None))"

definition StopInstance ::
  "'s ctl_api \<Rightarrow> string \<Rightarrow> string \<Rightarrow> string \<Rightarrow> ('s, 'a) plat_scheme \<Rightarrow> ('s, 'a) plat_scheme \<times> perr option" where
  "StopInstance api uid k inst w =
    (case instance_of_subscription api uid k inst w of
       Some e \<Rightarrow> (w, Some e)
     | None \<Rightarrow> ctl_call (ca_Stop api inst) w)"

definition ListInstances :: "'s ctl_api \<Rightarrow> string \<Rightarrow> string \<Rightarrow> ('s, 'a) plat_scheme \<Rightarrow> perr + PInstance list" where
  "ListInstances api uid k w =
    (case ownSubscription uid k w of Inl e \<Rightarrow> Inl e | Inr sub \<Rightarrow> ca_List api k (pl_ctl w))"

definition GetInstanceRuntime :: "'s ctl_api \<Rightarrow> string \<Rightarrow> string \<Rightarrow> string \<Rightarrow> ('s, 'a) plat_scheme \<Rightarrow> perr + PRuntime" where
  "GetInstanceRuntime api uid k inst w =
    (case instance_of_subscription api uid k inst w of
       Some e \<Rightarrow> Inl e
     | None \<Rightarrow> ca_Runtime api inst (pl_ctl w))"

end
