(* ===== verification/Platform_Handlers.thy ===== *)
theory Platform_Handlers
  imports Platform_Plans Event_Bus
begin

text \<open>
  The platform's HTTP interface to plans and subscriptions: \<open>handler/subscription_handler.go\<close>
  (the user's own, under \<open>/api/me\<close>) and \<open>handler/admin_plan_handler.go\<close> (the administrators',
  under \<open>/api/admin\<close>), with the middlewares their routes put first.  A handler runs here without
  other requests between the reads and the write of its use case.
\<close>

section \<open>The user's subscriptions\<close>

definition subError :: "perr \<Rightarrow> 'b reply" where
  "subError e =
    (if perr_is e ErrSubscriptionNotFound then Failure 404 ''subscription not found''
     else if perr_is e CtlConflict then Failure 409 (perr_text e)
     else if perr_is e CtlNotFound then Failure 404 (perr_text e)
     else Failure 400 (perr_text e))"

text \<open>The end of a handler: the error map, or the status and the body.\<close>

definition answer :: "(perr \<Rightarrow> 'b reply) \<Rightarrow> int \<Rightarrow> perr + 'b \<Rightarrow> 'b reply" where
  "answer err code r = (case r of Inl e \<Rightarrow> err e | Inr b \<Rightarrow> Success code b)"

definition said :: "string \<Rightarrow> perr option \<Rightarrow> perr + string" where
  "said m r = (case r of Some e \<Rightarrow> Inl e | None \<Rightarrow> Inr m)"

definition internal :: "perr \<Rightarrow> 'b reply" where
  "internal e = Failure 500 (perr_text e)"

definition Handle_ListMine :: "string \<Rightarrow> 'a pdb_scheme \<Rightarrow> Subscription list reply" where
  "Handle_ListMine uid w = answer internal 200 (ListSubscriptions uid w)"

definition Handle_Purchase ::
  "time \<Rightarrow> string \<Rightarrow> string + string \<Rightarrow> string \<Rightarrow> 'a pdb_scheme \<Rightarrow> 'a pdb_scheme \<times> Subscription reply" where
  "Handle_Purchase now ident body uid w =
    (case body of
       Inl t \<Rightarrow> (w, bad_body t)
     | Inr plan \<Rightarrow>
        if plan = [] then (w, Failure 400 ''plan_id is required'')
        else map_prod id (answer (\<lambda>e. if perr_is e ErrPlanNotFound then Failure 404 ''plan not found'' else Failure 400 (perr_text e)) 201)
               (Purchase now ident uid plan w))"

definition Handle_MyPlans :: "'a pdb_scheme \<Rightarrow> ServerPlan list reply" where
  "Handle_MyPlans w = answer internal 200 (ListEnabledPlans w)"

definition Handle_Renew :: "time \<Rightarrow> string \<Rightarrow> string \<Rightarrow> 'a pdb_scheme \<Rightarrow> 'a pdb_scheme \<times> Subscription reply" where
  "Handle_Renew now k uid w = map_prod id (answer subError 200) (Renew now (\<lambda>w. w) uid k w)"

definition Handle_Cancel ::
  "'s ctl_api \<Rightarrow> time \<Rightarrow> string \<Rightarrow> string \<Rightarrow> ('s, 'a) plat_scheme \<Rightarrow> ('s, 'a) plat_scheme \<times> Subscription reply" where
  "Handle_Cancel api now k uid w = map_prod id (answer subError 200) (Cancel api now (\<lambda>w. w) uid k w)"

definition Handle_ListInstances :: "'s ctl_api \<Rightarrow> string \<Rightarrow> string \<Rightarrow> ('s, 'a) plat_scheme \<Rightarrow> PInstance list reply" where
  "Handle_ListInstances api k uid w = answer subError 200 (ListInstances api uid k w)"

definition Handle_CreateInstance ::
  "'s ctl_api \<Rightarrow> time \<Rightarrow> string \<Rightarrow> string + (string \<times> config_map) \<Rightarrow> string
   \<Rightarrow> ('s, 'a) plat_scheme \<Rightarrow> ('s, 'a) plat_scheme \<times> PInstance reply" where
  "Handle_CreateInstance api now k body uid w =
    (case body of
       Inl t \<Rightarrow> (w, bad_body t)
     | Inr (game, config) \<Rightarrow> map_prod id (answer subError 201) (CreateInstance api now uid k game config w))"

definition Handle_StartInstance ::
  "'s ctl_api \<Rightarrow> time \<Rightarrow> string \<Rightarrow> string \<Rightarrow> string \<Rightarrow> ('s, 'a) plat_scheme \<Rightarrow> ('s, 'a) plat_scheme \<times> string reply" where
  "Handle_StartInstance api now k inst uid w =
    map_prod id (\<lambda>r. answer subError 200 (said ''started'' r)) (StartInstance api now uid k inst w)"

definition Handle_StopInstance ::
  "'s ctl_api \<Rightarrow> string \<Rightarrow> string \<Rightarrow> string \<Rightarrow> ('s, 'a) plat_scheme \<Rightarrow> ('s, 'a) plat_scheme \<times> string reply" where
  "Handle_StopInstance api k inst uid w =
    map_prod id (\<lambda>r. answer subError 200 (said ''stopping'' r)) (StopInstance api uid k inst w)"

definition Handle_GetRuntime :: "'s ctl_api \<Rightarrow> string \<Rightarrow> string \<Rightarrow> string \<Rightarrow> ('s, 'a) plat_scheme \<Rightarrow> PRuntime reply" where
  "Handle_GetRuntime api k inst uid w = answer subError 200 (GetInstanceRuntime api uid k inst w)"

section \<open>The administrators' plans and subscriptions\<close>

text \<open>\<open>pq_Basket\<close> and \<open>pq_Enabled\<close> are \<open>None\<close> when the body does not have them.\<close>

record planRequest =
  pq_DisplayName :: string
  pq_Description :: string
  pq_PriceCents :: int
  pq_DurationHours :: int
  pq_ResourceCPUMilli :: int
  pq_ResourceMemoryBytes :: int
  pq_ResourceDiskBytes :: int
  pq_MaxInstances :: int
  pq_Basket :: "PlanBasketItem list option"
  pq_Enabled :: "bool option"

definition toEntity :: "planRequest \<Rightarrow> ServerPlan" where
  "toEntity r = \<lparr> sp_ID = [], sp_DisplayName = pq_DisplayName r, sp_Description = pq_Description r,
     sp_PriceCents = pq_PriceCents r, sp_DurationHours = pq_DurationHours r, sp_ResourceCPUMilli = pq_ResourceCPUMilli r,
     sp_ResourceMemoryBytes = pq_ResourceMemoryBytes r, sp_ResourceDiskBytes = pq_ResourceDiskBytes r,
     sp_MaxInstances = pq_MaxInstances r, sp_Basket = (case pq_Basket r of None \<Rightarrow> [] | Some b \<Rightarrow> b),
     sp_Enabled = False, sp_CreateTime = zero_time, sp_UpdateTime = zero_time \<rparr>"

definition planBadRequest :: "perr \<Rightarrow> 'b reply" where
  "planBadRequest e = Failure 400 (perr_text e)"

definition plan_error :: "perr \<Rightarrow> 'b reply" where
  "plan_error e = (if perr_is e ErrPlanNotFound then Failure 404 ''plan not found'' else planBadRequest e)"

definition sub_admin_error :: "perr \<Rightarrow> 'b reply" where
  "sub_admin_error e = (if perr_is e ErrSubscriptionNotFound then Failure 404 ''subscription not found'' else planBadRequest e)"

definition Handle_ListPlans :: "'a pdb_scheme \<Rightarrow> ServerPlan list reply" where
  "Handle_ListPlans w = answer planBadRequest 200 (ListPlans True w)"

definition Handle_CreatePlan ::
  "time \<Rightarrow> string \<Rightarrow> string + planRequest \<Rightarrow> 'a pdb_scheme \<Rightarrow> 'a pdb_scheme \<times> ServerPlan reply" where
  "Handle_CreatePlan now ident body w =
    (case body of
       Inl t \<Rightarrow> (w, bad_body t)
     | Inr r \<Rightarrow> map_prod id (answer planBadRequest 201) (CreatePlan now ident (Some (toEntity r)) w))"

definition Handle_GetPlan :: "string \<Rightarrow> 'a pdb_scheme \<Rightarrow> ServerPlan reply" where
  "Handle_GetPlan k w = answer plan_error 200 (GetPlan k w)"

definition Handle_UpdatePlan ::
  "time \<Rightarrow> string \<Rightarrow> string + planRequest \<Rightarrow> 'a pdb_scheme \<Rightarrow> 'a pdb_scheme \<times> ServerPlan reply" where
  "Handle_UpdatePlan now k body w =
    (case body of
       Inl t \<Rightarrow> (w, bad_body t)
     | Inr r \<Rightarrow> map_prod id (answer plan_error 200) (UpdatePlan now k (toEntity r) (pq_Basket r) (pq_Enabled r) w))"

definition Handle_DeletePlan :: "time \<Rightarrow> string \<Rightarrow> 'a pdb_scheme \<Rightarrow> 'a pdb_scheme \<times> string reply" where
  "Handle_DeletePlan now k w = map_prod id (\<lambda>r. answer planBadRequest 200 (said ''deleted'' r)) (DeletePlan now k w)"

definition Handle_ListSubscriptions :: "'a pdb_scheme \<Rightarrow> Subscription list reply" where
  "Handle_ListSubscriptions w = answer planBadRequest 200 (ListSubscriptions [] w)"

definition Handle_Suspend ::
  "'s ctl_api \<Rightarrow> time \<Rightarrow> string \<Rightarrow> ('s, 'a) plat_scheme \<Rightarrow> ('s, 'a) plat_scheme \<times> Subscription reply" where
  "Handle_Suspend api now k w = map_prod id (answer sub_admin_error 200) (Suspend api now (\<lambda>w. w) k w)"

definition Handle_Unsuspend :: "time \<Rightarrow> string \<Rightarrow> 'a pdb_scheme \<Rightarrow> 'a pdb_scheme \<times> Subscription reply" where
  "Handle_Unsuspend now k w = map_prod id (answer sub_admin_error 200) (Unsuspend now (\<lambda>w. w) k w)"

definition Handle_CancelSubscription ::
  "'s ctl_api \<Rightarrow> time \<Rightarrow> string \<Rightarrow> ('s, 'a) plat_scheme \<Rightarrow> ('s, 'a) plat_scheme \<times> Subscription reply" where
  "Handle_CancelSubscription api now k w = map_prod id (answer sub_admin_error 200) (Cancel api now (\<lambda>w. w) [] k w)"

section \<open>Routes\<close>

text \<open>The requests that can write, each with what its route decodes; identifiers of new rows are drawn with the request.\<close>

datatype me_request =
    MePurchase string "string + string"
  | MeRenew string
  | MeCancel string
  | MeCreate string "string + (string \<times> config_map)"
  | MeStart string string
  | MeStop string string

datatype admin_request =
    AdmCreatePlan string "string + planRequest"
  | AdmUpdatePlan string "string + planRequest"
  | AdmDeletePlan string
  | AdmSuspend string
  | AdmUnsuspend string
  | AdmCancel string

datatype plat_body = BodySub Subscription | BodyPlan ServerPlan | BodyInstance PInstance | BodyText string

definition as_body :: "('b \<Rightarrow> plat_body) \<Rightarrow> 'w \<times> 'b reply \<Rightarrow> 'w \<times> plat_body reply" where
  "as_body f = map_prod id (reply_map f)"

fun me_handler ::
  "'s ctl_api \<Rightarrow> time \<Rightarrow> me_request \<Rightarrow> string \<Rightarrow> ('s, 'a) plat_scheme \<Rightarrow> ('s, 'a) plat_scheme \<times> plat_body reply" where
  "me_handler api now (MePurchase ident body) uid w = as_body BodySub (Handle_Purchase now ident body uid w)"
| "me_handler api now (MeRenew k) uid w = as_body BodySub (Handle_Renew now k uid w)"
| "me_handler api now (MeCancel k) uid w = as_body BodySub (Handle_Cancel api now k uid w)"
| "me_handler api now (MeCreate k body) uid w = as_body BodyInstance (Handle_CreateInstance api now k body uid w)"
| "me_handler api now (MeStart k inst) uid w = as_body BodyText (Handle_StartInstance api now k inst uid w)"
| "me_handler api now (MeStop k inst) uid w = as_body BodyText (Handle_StopInstance api k inst uid w)"

fun admin_handler ::
  "'s ctl_api \<Rightarrow> time \<Rightarrow> admin_request \<Rightarrow> ('s, 'a) plat_scheme \<Rightarrow> ('s, 'a) plat_scheme \<times> plat_body reply" where
  "admin_handler api now (AdmCreatePlan ident body) w = as_body BodyPlan (Handle_CreatePlan now ident body w)"
| "admin_handler api now (AdmUpdatePlan k body) w = as_body BodyPlan (Handle_UpdatePlan now k body w)"
| "admin_handler api now (AdmDeletePlan k) w = as_body BodyText (Handle_DeletePlan now k w)"
| "admin_handler api now (AdmSuspend k) w = as_body BodySub (Handle_Suspend api now k w)"
| "admin_handler api now (AdmUnsuspend k) w = as_body BodySub (Handle_Unsuspend now k w)"
| "admin_handler api now (AdmCancel k) w = as_body BodySub (Handle_CancelSubscription api now k w)"

definition me_route ::
  "jwt_lib \<Rightarrow> TokenManager \<Rightarrow> 's ctl_api \<Rightarrow> time \<Rightarrow> string \<Rightarrow> me_request
   \<Rightarrow> ('s, 'a) plat_scheme \<Rightarrow> ('s, 'a) plat_scheme \<times> plat_body reply" where
  "me_route J tm api now header r = AuthRequired J tm now header (\<lambda>uid role. me_handler api now r uid)"

definition admin_route ::
  "jwt_lib \<Rightarrow> TokenManager \<Rightarrow> 's ctl_api \<Rightarrow> time \<Rightarrow> string \<Rightarrow> admin_request
   \<Rightarrow> ('s, 'a) plat_scheme \<Rightarrow> ('s, 'a) plat_scheme \<times> plat_body reply" where
  "admin_route J tm api now header r = AuthRequired J tm now header (RequireAdmin (\<lambda>uid role. admin_handler api now r))"

end
