(* ===== verification/Platform_Orders.thy ===== *)
theory Platform_Orders
  imports Platform_Handlers
begin

text \<open>
  Orders and the catalog of games: \<open>biz/order_use_case.go\<close>, \<open>biz/game_catalog_use_case.go\<close> and their
  handlers of the platform service.  They call the controller's client directly, here the
  record \<open>client\<close>; \<open>meanwhile\<close> is what other requests do between the creation of the instance and
  the save of the order.
\<close>

section \<open>The client\<close>

record PGame =
  pg_ID :: string
  pg_Name :: string
  pg_AppId :: string
  pg_ContainerConfigID :: string

record PConnect =
  pc_NodeIP :: string
  pc_GameHostPort :: "16 word"
  pc_GamePort :: "16 word"
  pc_Protocol :: string

record PFileSession =
  fs_BaseURL :: string
  fs_Token :: string
  fs_InstanceID :: string
  fs_DataRoot :: string
  fs_ExpiresAt :: string

record PConfigSchema =
  cs_GameID :: string
  cs_BuildID :: string
  cs_SchemaJSON :: string
  cs_AdapterMetadata :: string

record 's client =
  cl_instances :: "'s ctl_api"
  cl_UpdateConfig :: "string \<Rightarrow> config_map \<Rightarrow> 's \<Rightarrow> 's \<times> (perr + PInstance)"
  cl_Connect :: "string \<Rightarrow> 's \<Rightarrow> perr + PConnect"
  cl_FileSession :: "string \<Rightarrow> 's \<Rightarrow> 's \<times> (perr + PFileSession)"
  cl_ConfigSchema :: "string \<Rightarrow> 's \<Rightarrow> perr + PConfigSchema"
  cl_ListGames :: "'s \<Rightarrow> perr + PGame list"
  cl_GetGame :: "string \<Rightarrow> 's \<Rightarrow> perr + PGame"
  cl_CreateGame :: "string \<Rightarrow> string \<Rightarrow> 's \<Rightarrow> 's \<times> (perr + PGame)"
  cl_DeleteGame :: "string \<Rightarrow> 's \<Rightarrow> 's \<times> perr option"

section \<open>Orders\<close>

definition save_order :: "Order \<Rightarrow> 'a pdb_scheme \<Rightarrow> 'a pdb_scheme \<times> (perr + Order)" where
  "save_order r w = (case OrderRepo_Save r w of (w1, Some e) \<Rightarrow> (w1, Inl e) | (w1, None) \<Rightarrow> (w1, Inr r))"

definition CreateOrder ::
  "time \<Rightarrow> string \<Rightarrow> string \<Rightarrow> string \<Rightarrow> int \<Rightarrow> config_map \<Rightarrow> 'a pdb_scheme \<Rightarrow> 'a pdb_scheme \<times> (perr + Order)" where
  "CreateOrder now ident uid game amount config w =
    (if uid = [] then (w, Inl (PErrorf ''user_id is required''))
     else if game = [] then (w, Inl (PErrorf ''game_id is required''))
     else if amount \<le> 0 then (w, Inl (PErrorf ''amount must be positive''))
     else save_order \<lparr> or_ID = ident, or_UserID = uid, or_GameID = game, or_InstanceID = [], or_Amount = amount,
            or_Status = OrderStatusCreated, or_Config = config, or_CreateTime = now, or_UpdateTime = now \<rparr> w)"

definition GetOrder :: "string \<Rightarrow> 'a pdb_scheme \<Rightarrow> perr + Order" where
  "GetOrder k w = (if k = [] then Inl (PErrorf ''id is required'') else OrderRepo_GetByID k w)"

definition FileSession :: "'s client \<Rightarrow> string \<Rightarrow> ('s, 'a) plat_scheme \<Rightarrow> ('s, 'a) plat_scheme \<times> (perr + PFileSession)" where
  "FileSession C inst = ctl_call (cl_FileSession C inst)"

definition ConfigSchema :: "'s client \<Rightarrow> string \<Rightarrow> ('s, 'a) plat_scheme \<Rightarrow> perr + PConfigSchema" where
  "ConfigSchema C game w = cl_ConfigSchema C game (pl_ctl w)"

definition ListOrders :: "string \<Rightarrow> string \<Rightarrow> 'a pdb_scheme \<Rightarrow> perr + Order list" where
  "ListOrders uid game w =
    (if uid \<noteq> [] \<and> game \<noteq> [] then OrderRepo_ListByUserAndGame uid game w
     else if uid \<noteq> [] then OrderRepo_ListByUser uid w
     else if game \<noteq> [] then OrderRepo_ListByGame game w
     else OrderRepo_ListAll w)"

definition provisionInstance ::
  "'s client \<Rightarrow> time \<Rightarrow> (('s, 'a) plat_scheme \<Rightarrow> ('s, 'a) plat_scheme) \<Rightarrow> Order \<Rightarrow> OrderStatus
   \<Rightarrow> ('s, 'a) plat_scheme \<Rightarrow> ('s, 'a) plat_scheme \<times> (perr + Order)" where
  "provisionInstance C now meanwhile r final w =
    (case ctl_call (ca_Create (cl_instances C) (or_GameID r) [] [] (or_Config r)) w of
       (w1, Inl e) \<Rightarrow> (w1, Inl (PWrapped ''create game instance via controller: '' e []))
     | (w1, Inr i) \<Rightarrow> save_order (r\<lparr>or_InstanceID := pi_ID i, or_Status := final, or_UpdateTime := now\<rparr>) (meanwhile w1))"

definition PayOrder ::
  "'s client \<Rightarrow> time \<Rightarrow> (('s, 'a) plat_scheme \<Rightarrow> ('s, 'a) plat_scheme) \<Rightarrow> string
   \<Rightarrow> ('s, 'a) plat_scheme \<Rightarrow> ('s, 'a) plat_scheme \<times> (perr + Order)" where
  "PayOrder C now meanwhile k w =
    (case OrderRepo_GetByID k w of
       Inl e \<Rightarrow> (w, Inl e)
     | Inr r \<Rightarrow>
        if or_Status r \<noteq> OrderStatusCreated
        then (w, Inl (PErrorf (''order is in status '' @ show_int (order_code (or_Status r)) @ '', only created can be paid'')))
        else provisionInstance C now meanwhile r OrderStatusPaid w)"

definition ProvisionOrder ::
  "'s client \<Rightarrow> time \<Rightarrow> (('s, 'a) plat_scheme \<Rightarrow> ('s, 'a) plat_scheme) \<Rightarrow> string
   \<Rightarrow> ('s, 'a) plat_scheme \<Rightarrow> ('s, 'a) plat_scheme \<times> (perr + Order)" where
  "ProvisionOrder C now meanwhile k w =
    (case OrderRepo_GetByID k w of
       Inl e \<Rightarrow> (w, Inl e)
     | Inr r \<Rightarrow>
        if or_Status r \<noteq> OrderStatusCreated
        then (w, Inl (PErrorf (''order is in status '' @ show_int (order_code (or_Status r)) @ '', only created can be provisioned'')))
        else provisionInstance C now meanwhile r OrderStatusProvisioned w)"

definition Order_StartInstance :: "'s client \<Rightarrow> string \<Rightarrow> ('s, 'a) plat_scheme \<Rightarrow> ('s, 'a) plat_scheme \<times> (perr + Order)" where
  "Order_StartInstance C k w =
    (case OrderRepo_GetByID k w of
       Inl e \<Rightarrow> (w, Inl e)
     | Inr r \<Rightarrow>
        if or_InstanceID r = [] then (w, Inl (PErrorf ''order has no instance, pay or provision first''))
        else (case ctl_call (ca_Start (cl_instances C) (or_InstanceID r)) w of
                (w1, Some e) \<Rightarrow> (w1, Inl (PWrapped ''start game instance via controller: '' e []))
              | (w1, None) \<Rightarrow> (w1, Inr r)))"

definition Order_StopInstance :: "'s client \<Rightarrow> string \<Rightarrow> ('s, 'a) plat_scheme \<Rightarrow> ('s, 'a) plat_scheme \<times> (perr + Order)" where
  "Order_StopInstance C k w =
    (case OrderRepo_GetByID k w of
       Inl e \<Rightarrow> (w, Inl e)
     | Inr r \<Rightarrow>
        if or_InstanceID r = [] then (w, Inl (PErrorf ''order has no instance''))
        else (case ctl_call (ca_Stop (cl_instances C) (or_InstanceID r)) w of
                (w1, Some e) \<Rightarrow> (w1, Inl (PWrapped ''stop game instance via controller: '' e []))
              | (w1, None) \<Rightarrow> (w1, Inr r)))"

definition Order_UpdateInstanceConfig ::
  "'s client \<Rightarrow> string \<Rightarrow> config_map \<Rightarrow> ('s, 'a) plat_scheme \<Rightarrow> ('s, 'a) plat_scheme \<times> perr option" where
  "Order_UpdateInstanceConfig C k config w =
    (case OrderRepo_GetByID k w of
       Inl e \<Rightarrow> (w, Some e)
     | Inr r \<Rightarrow>
        if or_InstanceID r = [] then (w, Some (PErrorf ''order has no instance, pay or provision first''))
        else (case ctl_call (cl_UpdateConfig C (or_InstanceID r) config) w of
                (w1, Inl e) \<Rightarrow> (w1, Some (PWrapped ''update instance config via controller: '' e []))
              | (w1, Inr i) \<Rightarrow> (w1, None)))"

record UserInstance =
  ui_OrderID :: string
  ui_InstanceID :: string
  ui_GameID :: string
  ui_GameBuildID :: string
  ui_Status :: string
  ui_NodeAgent :: string
  ui_ConnectAddress :: string
  ui_FailReason :: string

definition connect_address :: "'s client \<Rightarrow> string \<Rightarrow> 's \<Rightarrow> string" where
  "connect_address C inst s =
    (case cl_Connect C inst s of
       Inl e \<Rightarrow> []
     | Inr c \<Rightarrow> if pc_NodeIP c \<noteq> [] \<and> pc_GameHostPort c > 0
               then pc_NodeIP c @ '':'' @ show_nat (unat (pc_GameHostPort c)) else [])"

definition user_instance :: "'s client \<Rightarrow> 's \<Rightarrow> Order \<Rightarrow> UserInstance" where
  "user_instance C s r =
    (let ui = \<lparr> ui_OrderID = or_ID r, ui_InstanceID = or_InstanceID r, ui_GameID = or_GameID r, ui_GameBuildID = [],
                ui_Status = [], ui_NodeAgent = [], ui_ConnectAddress = [], ui_FailReason = [] \<rparr>
     in case ca_Get (cl_instances C) (or_InstanceID r) s of
          Inl e \<Rightarrow> ui\<lparr>ui_Status := ''unknown''\<rparr>
        | Inr i \<Rightarrow> ui\<lparr>ui_Status := pi_Status i, ui_FailReason := pi_FailReason i, ui_GameBuildID := pi_GameBuildId i,
            ui_NodeAgent := (case pi_NodeAgentID i of None \<Rightarrow> [] | Some a \<Rightarrow> a),
            ui_ConnectAddress := (if pi_Status i = ''running'' then connect_address C (or_InstanceID r) s else [])\<rparr>)"

definition Order_ListInstances :: "'s client \<Rightarrow> string \<Rightarrow> string \<Rightarrow> ('s, 'a) plat_scheme \<Rightarrow> perr + UserInstance list" where
  "Order_ListInstances C uid game w =
    (case ListOrders uid game w of
       Inl e \<Rightarrow> Inl e
     | Inr rs \<Rightarrow> Inr (map (user_instance C (pl_ctl w)) (filter (\<lambda>r. or_InstanceID r \<noteq> []) rs)))"

section \<open>The handlers of orders\<close>

definition order_error :: "perr \<Rightarrow> 'b reply" where
  "order_error e = (if perr_is e PNotFound then Failure 404 ''order not found'' else Failure 500 (perr_text e))"

text \<open>\<open>loadOwnOrder\<close>, and the same lines at the head of the other handlers: \<open>Inl\<close> when the answer is written.\<close>

definition loadOwnOrder :: "string \<Rightarrow> string \<Rightarrow> string \<Rightarrow> int \<Rightarrow> 'a pdb_scheme \<Rightarrow> 'b reply + Order" where
  "loadOwnOrder refusal k uid role w =
    (case GetOrder k w of
       Inl e \<Rightarrow> Inl (order_error e)
     | Inr r \<Rightarrow> if \<not> isAdmin role \<and> or_UserID r \<noteq> uid then Inl (Failure 403 refusal) else Inr r)"

definition Handle_CreateOrder ::
  "time \<Rightarrow> string \<Rightarrow> string + (string \<times> string \<times> int \<times> config_map) \<Rightarrow> string \<Rightarrow> int \<Rightarrow> 'a pdb_scheme \<Rightarrow> 'a pdb_scheme \<times> Order reply" where
  "Handle_CreateOrder now ident body uid role w =
    (case body of
       Inl t \<Rightarrow> (w, bad_body t)
     | Inr (ruid, game, amount, config) \<Rightarrow>
        map_prod id (answer internal 201)
          (CreateOrder now ident (if isAdmin role \<and> ruid \<noteq> [] then ruid else uid) game amount config w))"

definition Handle_ConfigSchema :: "'s client \<Rightarrow> string \<Rightarrow> ('s, 'a) plat_scheme \<Rightarrow> PConfigSchema reply" where
  "Handle_ConfigSchema C game w = answer internal 200 (ConfigSchema C game w)"

definition Handle_ListOrders :: "string \<Rightarrow> string \<Rightarrow> string \<Rightarrow> int \<Rightarrow> 'a pdb_scheme \<Rightarrow> Order list reply" where
  "Handle_ListOrders quser qgame uid role w = answer internal 200 (ListOrders (if isAdmin role then quser else uid) qgame w)"

definition Handle_GetOrder :: "string \<Rightarrow> string \<Rightarrow> int \<Rightarrow> 'a pdb_scheme \<Rightarrow> Order reply" where
  "Handle_GetOrder k uid role w =
    (case loadOwnOrder ''cannot view other users orders'' k uid role w of Inl r \<Rightarrow> r | Inr r \<Rightarrow> Success 200 r)"

definition Handle_PayOrder ::
  "'s client \<Rightarrow> time \<Rightarrow> (('s, 'a) plat_scheme \<Rightarrow> ('s, 'a) plat_scheme) \<Rightarrow> string \<Rightarrow> string \<Rightarrow> int
   \<Rightarrow> ('s, 'a) plat_scheme \<Rightarrow> ('s, 'a) plat_scheme \<times> Order reply" where
  "Handle_PayOrder C now meanwhile k uid role w =
    (case loadOwnOrder ''cannot pay other users orders'' k uid role w of
       Inl r \<Rightarrow> (w, r)
     | Inr r \<Rightarrow> map_prod id (answer internal 200) (PayOrder C now meanwhile k w))"

definition Handle_ProvisionOrder ::
  "'s client \<Rightarrow> time \<Rightarrow> (('s, 'a) plat_scheme \<Rightarrow> ('s, 'a) plat_scheme) \<Rightarrow> string
   \<Rightarrow> ('s, 'a) plat_scheme \<Rightarrow> ('s, 'a) plat_scheme \<times> Order reply" where
  "Handle_ProvisionOrder C now meanwhile k w = map_prod id (answer order_error 200) (ProvisionOrder C now meanwhile k w)"

definition Handle_OrderStart ::
  "'s client \<Rightarrow> string \<Rightarrow> string \<Rightarrow> int \<Rightarrow> ('s, 'a) plat_scheme \<Rightarrow> ('s, 'a) plat_scheme \<times> string reply" where
  "Handle_OrderStart C k uid role w =
    (case loadOwnOrder ''cannot operate other users orders'' k uid role w of
       Inl r \<Rightarrow> (w, r)
     | Inr r \<Rightarrow> map_prod id (\<lambda>x. answer internal 200 (map_sum id (\<lambda>y. ''starting'') x)) (Order_StartInstance C (or_ID r) w))"

definition Handle_OrderStop ::
  "'s client \<Rightarrow> string \<Rightarrow> string \<Rightarrow> int \<Rightarrow> ('s, 'a) plat_scheme \<Rightarrow> ('s, 'a) plat_scheme \<times> string reply" where
  "Handle_OrderStop C k uid role w =
    (case loadOwnOrder ''cannot operate other users orders'' k uid role w of
       Inl r \<Rightarrow> (w, r)
     | Inr r \<Rightarrow> map_prod id (\<lambda>x. answer internal 200 (map_sum id (\<lambda>y. ''stopping'') x)) (Order_StopInstance C (or_ID r) w))"

definition Handle_MyInstances :: "'s client \<Rightarrow> string \<Rightarrow> string \<Rightarrow> ('s, 'a) plat_scheme \<Rightarrow> UserInstance list reply" where
  "Handle_MyInstances C qgame uid w = answer internal 200 (Order_ListInstances C uid qgame w)"

definition Handle_AllInstances :: "'s client \<Rightarrow> string \<Rightarrow> ('s, 'a) plat_scheme \<Rightarrow> UserInstance list reply" where
  "Handle_AllInstances C qgame w = answer internal 200 (Order_ListInstances C [] qgame w)"

definition session_error :: "perr \<Rightarrow> 'b reply" where
  "session_error e =
    (if perr_is e CtlNotFound then Failure 404 (perr_text e) else Failure 502 (msg_controller_error @ perr_text e))"

definition Handle_MyFileSession ::
  "'s client \<Rightarrow> string \<Rightarrow> string \<Rightarrow> int \<Rightarrow> ('s, 'a) plat_scheme \<Rightarrow> ('s, 'a) plat_scheme \<times> PFileSession reply" where
  "Handle_MyFileSession C k uid role w =
    (case loadOwnOrder ''cannot access other users instances'' k uid role w of
       Inl r \<Rightarrow> (w, r)
     | Inr r \<Rightarrow>
        if or_InstanceID r = [] then (w, Failure 400 ''order has no instance, pay or provision first'')
        else map_prod id (answer session_error 200) (FileSession C (or_InstanceID r) w))"

definition Handle_MyInstanceConfig ::
  "'s client \<Rightarrow> string \<Rightarrow> string + config_map \<Rightarrow> string \<Rightarrow> int \<Rightarrow> ('s, 'a) plat_scheme \<Rightarrow> ('s, 'a) plat_scheme \<times> string reply" where
  "Handle_MyInstanceConfig C k body uid role w =
    (case loadOwnOrder ''cannot access other users instances'' k uid role w of
       Inl r \<Rightarrow> (w, r)
     | Inr r \<Rightarrow>
        (case body of
           Inl t \<Rightarrow> (w, bad_body t)
         | Inr config \<Rightarrow> map_prod id (\<lambda>x. answer planBadRequest 200 (said ''config updated (takes effect on next start)'' x))
             (Order_UpdateInstanceConfig C k config w)))"

section \<open>The catalog\<close>

record GameView =
  gv_ID :: string
  gv_Name :: string
  gv_AppId :: string
  gv_ContainerConfigID :: string
  gv_Profile :: "GameProfile option"

definition game_view :: "PGame \<Rightarrow> GameProfile option \<Rightarrow> GameView" where
  "game_view g p = \<lparr> gv_ID = pg_ID g, gv_Name = pg_Name g, gv_AppId = pg_AppId g,
     gv_ContainerConfigID = pg_ContainerConfigID g, gv_Profile = p \<rparr>"

text \<open>The last profile of a game wins, as in the map the code fills.\<close>

definition Catalog_ListGames :: "'s client \<Rightarrow> bool \<Rightarrow> ('s, 'a) plat_scheme \<Rightarrow> perr + GameView list" where
  "Catalog_ListGames C includeDisabled w =
    (case cl_ListGames C (pl_ctl w) of
       Inl e \<Rightarrow> Inl e
     | Inr games \<Rightarrow>
        (case (if includeDisabled then ProfileRepo_ListAll w else ProfileRepo_ListEnabled w) of
           Inl e \<Rightarrow> Inl e
         | Inr profiles \<Rightarrow>
            let prof = (\<lambda>g. find (\<lambda>p. pf_GameID p = pg_ID g) (rev profiles))
            in Inr (map (\<lambda>g. game_view g (prof g)) (filter (\<lambda>g. includeDisabled \<or> prof g \<noteq> None) games))))"

definition Catalog_GetGame :: "'s client \<Rightarrow> string \<Rightarrow> bool \<Rightarrow> ('s, 'a) plat_scheme \<Rightarrow> perr + GameView" where
  "Catalog_GetGame C k includeDisabled w =
    (case cl_GetGame C k (pl_ctl w) of
       Inl e \<Rightarrow> Inl e
     | Inr g \<Rightarrow>
        (case ProfileRepo_GetByID k w of
           Inr p \<Rightarrow> if \<not> includeDisabled \<and> \<not> pf_Enabled p then Inl CtlNotFound else Inr (game_view g (Some p))
         | Inl e \<Rightarrow> if \<not> perr_is e PNotFound then Inl e
                   else if \<not> includeDisabled then Inl CtlNotFound else Inr (game_view g None)))"

definition Catalog_CreateGame ::
  "'s client \<Rightarrow> time \<Rightarrow> string \<Rightarrow> string \<Rightarrow> GameProfile option \<Rightarrow> ('s, 'a) plat_scheme \<Rightarrow> ('s, 'a) plat_scheme \<times> (perr + GameView)" where
  "Catalog_CreateGame C now name app profile w =
    (case ctl_call (cl_CreateGame C name app) w of
       (w1, Inl e) \<Rightarrow> (w1, Inl e)
     | (w1, Inr g) \<Rightarrow>
        (case profile of
           None \<Rightarrow> (w1, Inr (game_view g None))
         | Some p \<Rightarrow>
            if pf_DisplayName p = [] then (w1, Inr (game_view g (Some p)))
            else let p1 = p\<lparr>pf_GameID := pg_ID g, pf_UpdateTime := now\<rparr>
                 in case ProfileRepo_Save p1 w1 of (w2, Some e) \<Rightarrow> (w2, Inl e) | (w2, None) \<Rightarrow> (w2, Inr (game_view g (Some p1)))))"

definition or_keep :: "string \<Rightarrow> string \<Rightarrow> string" where
  "or_keep new old = (if new = [] then old else new)"

definition UpdateProfile ::
  "time \<Rightarrow> string \<Rightarrow> GameProfile \<Rightarrow> 'a pdb_scheme \<Rightarrow> 'a pdb_scheme \<times> (perr + GameProfile)" where
  "UpdateProfile now k u w =
    (if k = [] then (w, Inl (PErrorf ''game_id is required''))
     else let store = (\<lambda>p0.
            let p = p0\<lparr>pf_DisplayName := or_keep (pf_DisplayName u) (pf_DisplayName p0),
                       pf_IconURL := or_keep (pf_IconURL u) (pf_IconURL p0),
                       pf_AccentColor := or_keep (pf_AccentColor u) (pf_AccentColor p0),
                       pf_Description := or_keep (pf_Description u) (pf_Description p0),
                       pf_Enabled := pf_Enabled u, pf_SortOrder := pf_SortOrder u, pf_UpdateTime := now\<rparr>
            in case ProfileRepo_Save p w of (w1, Some e) \<Rightarrow> (w1, Inl e) | (w1, None) \<Rightarrow> (w1, Inr p))
       in case ProfileRepo_GetByID k w of
            Inr p \<Rightarrow> store p
          | Inl e \<Rightarrow> if \<not> perr_is e PNotFound then (w, Inl e)
              else store \<lparr> pf_GameID = k, pf_DisplayName = [], pf_IconURL = [], pf_AccentColor = [], pf_Description = [],
                     pf_Enabled = False, pf_SortOrder = 0, pf_UpdateTime = zero_time \<rparr>)"

definition Catalog_DeleteGame :: "'s client \<Rightarrow> string \<Rightarrow> ('s, 'a) plat_scheme \<Rightarrow> ('s, 'a) plat_scheme \<times> perr option" where
  "Catalog_DeleteGame C k w =
    (case ctl_call (cl_DeleteGame C k) w of
       (w1, Some e) \<Rightarrow> (w1, Some e)
     | (w1, None) \<Rightarrow>
        (case ProfileRepo_Delete k w1 of
           (w2, Some e) \<Rightarrow> (w2, Some e)
         | (w2, None) \<Rightarrow> OrderRepo_MarkGameRemoved k w2))"

definition catalog_error :: "string \<Rightarrow> perr \<Rightarrow> 'b reply" where
  "catalog_error missing e =
    (if perr_is e CtlNotFound then Failure 404 missing else Failure 502 (msg_controller_error @ perr_text e))"

definition Handle_ListGames :: "'s client \<Rightarrow> int \<Rightarrow> ('s, 'a) plat_scheme \<Rightarrow> GameView list reply" where
  "Handle_ListGames C role w = answer (catalog_error ''games not found'') 200 (Catalog_ListGames C (isAdmin role) w)"

definition Handle_GetGame :: "'s client \<Rightarrow> string \<Rightarrow> int \<Rightarrow> ('s, 'a) plat_scheme \<Rightarrow> GameView reply" where
  "Handle_GetGame C k role w = answer (catalog_error ''game not found'') 200 (Catalog_GetGame C k (isAdmin role) w)"

section \<open>Routes\<close>

text \<open>The requests on orders that can write.\<close>

datatype order_request =
    OrdCreate string "string + (string \<times> string \<times> int \<times> config_map)"
  | OrdPay string
  | OrdProvision string
  | OrdStart string
  | OrdStop string
  | OrdFileSession string
  | OrdConfig string "string + config_map"

fun order_route ::
  "jwt_lib \<Rightarrow> TokenManager \<Rightarrow> 's client \<Rightarrow> time \<Rightarrow> string \<Rightarrow> order_request \<Rightarrow> ('s, 'a) plat_scheme \<Rightarrow> ('s, 'a) plat_scheme" where
  "order_route J tm C now header (OrdCreate ident body) w =
     fst (AuthRequired J tm now header (Handle_CreateOrder now ident body) w)"
| "order_route J tm C now header (OrdPay k) w =
     fst (AuthRequired J tm now header (Handle_PayOrder C now (\<lambda>w. w) k) w)"
| "order_route J tm C now header (OrdProvision k) w =
     fst (AuthRequired J tm now header (RequireAdmin (\<lambda>uid role. Handle_ProvisionOrder C now (\<lambda>w. w) k)) w)"
| "order_route J tm C now header (OrdStart k) w = fst (AuthRequired J tm now header (Handle_OrderStart C k) w)"
| "order_route J tm C now header (OrdStop k) w = fst (AuthRequired J tm now header (Handle_OrderStop C k) w)"
| "order_route J tm C now header (OrdFileSession k) w = fst (AuthRequired J tm now header (Handle_MyFileSession C k) w)"
| "order_route J tm C now header (OrdConfig k body) w = fst (AuthRequired J tm now header (Handle_MyInstanceConfig C k body) w)"

end
