(* ===== verification/Platform_Run.thy ===== *)
theory Platform_Run
  imports Platform_Orders
begin

text \<open>
  The platform service as a whole: the requests of all its writing routes and the sweep of
  \<open>main.go\<close> as events, one at a time.  Every event is a sequence of single writes
  (\<open>plat_write\<close>), and what holds of the tables is proved once per kind of write: the rows stay
  keyed and referenced, and a subscription moves only along the edges of its state machine.
\<close>

section \<open>Events\<close>

datatype plat_event =
    EvUser user_request
  | EvMe string me_request
  | EvAdmin string admin_request
  | EvOrder string order_request
  | EvSweep

text \<open>The ticker of \<open>main\<close> only logs the result of the sweep.\<close>

fun plat_step ::
  "jwt_lib \<Rightarrow> TokenManager \<Rightarrow> 's client \<Rightarrow> time \<Rightarrow> plat_event \<Rightarrow> ('s, 'a) plat_scheme \<Rightarrow> ('s, 'a) plat_scheme" where
  "plat_step J tm C now (EvUser r) w = fst (user_route J tm now r w)"
| "plat_step J tm C now (EvMe header r) w = fst (me_route J tm (cl_instances C) now header r w)"
| "plat_step J tm C now (EvAdmin header r) w = fst (admin_route J tm (cl_instances C) now header r w)"
| "plat_step J tm C now (EvOrder header r) w = order_route J tm C now header r w"
| "plat_step J tm C now EvSweep w = fst (ExpireOverdue (cl_instances C) now (\<lambda>sub w. w) w)"

fun plat_run ::
  "jwt_lib \<Rightarrow> TokenManager \<Rightarrow> 's client \<Rightarrow> (time \<times> plat_event) list \<Rightarrow> ('s, 'a) plat_scheme \<Rightarrow> ('s, 'a) plat_scheme" where
  "plat_run J tm C [] w = w"
| "plat_run J tm C ((now, ev) # evs) w = plat_run J tm C evs (plat_step J tm C now ev w)"

text \<open>The identifiers purchases drew.\<close>

fun drawn_subs :: "(time \<times> plat_event) list \<Rightarrow> string set" where
  "drawn_subs [] = {}"
| "drawn_subs ((now, ev) # evs) = (case ev of EvMe header (MePurchase ident body) \<Rightarrow> {ident} | _ \<Rightarrow> {}) \<union> drawn_subs evs"

section \<open>The state machine of a subscription\<close>

datatype sub_op = OpSuspend | OpUnsuspend | OpCancel | OpRenew | OpExpire

fun sub_next :: "sub_op \<Rightarrow> SubscriptionStatus \<Rightarrow> SubscriptionStatus option" where
  "sub_next OpSuspend SubscriptionActive = Some SubscriptionSuspended"
| "sub_next OpUnsuspend SubscriptionSuspended = Some SubscriptionActive"
| "sub_next OpCancel SubscriptionActive = Some SubscriptionCancelled"
| "sub_next OpCancel SubscriptionSuspended = Some SubscriptionCancelled"
| "sub_next OpRenew SubscriptionActive = Some SubscriptionActive"
| "sub_next OpRenew SubscriptionExpired = Some SubscriptionActive"
| "sub_next OpExpire SubscriptionActive = Some SubscriptionExpired"
| "sub_next op st = None"

inductive sub_reach :: "SubscriptionStatus \<Rightarrow> SubscriptionStatus \<Rightarrow> bool" where
  start: "sub_reach a a"
| move: "sub_reach a b \<Longrightarrow> sub_next op b = Some c \<Longrightarrow> sub_reach a c"

inductive_cases sub_reach_cases: "sub_reach a c"

lemma sub_reach_trans: "sub_reach b c \<Longrightarrow> sub_reach a b \<Longrightarrow> sub_reach a c"
  by (induction rule: sub_reach.induct) (auto intro: sub_reach.move)

lemma sub_next_cancelled [simp]: "sub_next op SubscriptionCancelled = None"
  by (cases op) auto

lemma sub_reach_cancelled: "sub_reach a c \<Longrightarrow> a = SubscriptionCancelled \<Longrightarrow> c = SubscriptionCancelled"
  by (induction rule: sub_reach.induct) auto

text \<open>What a purchase fixed.\<close>

definition same_contract :: "Subscription \<Rightarrow> Subscription \<Rightarrow> bool" where
  "same_contract s t \<longleftrightarrow> su_ID t = su_ID s \<and> su_UserID t = su_UserID s \<and> su_PlanID t = su_PlanID s \<and>
     su_BasketSnapshot t = su_BasketSnapshot s \<and> su_MaxInstances t = su_MaxInstances s \<and> su_CreateTime t = su_CreateTime s"

definition sub_moves :: "Subscription \<Rightarrow> Subscription \<Rightarrow> bool" where
  "sub_moves s t \<longleftrightarrow> same_contract s t \<and> (\<exists>op. sub_next op (su_Status s) = Some (su_Status t))"

definition sub_evolves :: "Subscription \<Rightarrow> Subscription \<Rightarrow> bool" where
  "sub_evolves s t \<longleftrightarrow> same_contract s t \<and> sub_reach (su_Status s) (su_Status t)"

lemma same_contract_refl [simp]: "same_contract s s"
  by (simp add: same_contract_def)

lemma sub_evolves_refl [simp]: "sub_evolves s s"
  by (simp add: sub_evolves_def sub_reach.start)

lemma sub_evolves_trans: "sub_evolves s t \<Longrightarrow> sub_evolves t u \<Longrightarrow> sub_evolves s u"
  by (auto simp: sub_evolves_def same_contract_def intro: sub_reach_trans)

lemma sub_moves_evolves: "sub_moves s t \<Longrightarrow> sub_evolves s t"
  by (auto simp: sub_moves_def sub_evolves_def intro: sub_reach.intros)

section \<open>Single writes\<close>

inductive plat_write :: "string set \<Rightarrow> ('s, 'a) plat_scheme \<Rightarrow> ('s, 'a) plat_scheme \<Rightarrow> bool" for D where
  ctl: "plat_write D w (w\<lparr>pl_ctl := s\<rparr>)"
| user: "UserRepo_Save u w = (w', None) \<Longrightarrow> plat_write D w w'"
| plan: "PlanRepo_Save p w = (w', None) \<Longrightarrow> plat_write D w w'"
| unplan: "PlanRepo_Delete k w = (w', None) \<Longrightarrow> plat_write D w w'"
| order: "OrderRepo_Save r w = (w', None) \<Longrightarrow> plat_write D w w'"
| sub: "SubRepo_Save s w = (w', None) \<Longrightarrow> su_ID s \<in> D \<or> (\<exists>s0 \<in> set (p_subs w). sub_moves s0 s) \<Longrightarrow> plat_write D w w'"

abbreviation plat_writes :: "string set \<Rightarrow> ('s, 'a) plat_scheme \<Rightarrow> ('s, 'a) plat_scheme \<Rightarrow> bool" where
  "plat_writes D \<equiv> (plat_write D)\<^sup>*\<^sup>*"

lemma writes_refl: "w' = w \<Longrightarrow> plat_writes D w w'"
  by simp

lemma writes_one: "plat_write D w w' \<Longrightarrow> plat_writes D w w'"
  by blast

lemma writes_ctl [simp, intro]: "plat_writes D w (w\<lparr>pl_ctl := s\<rparr>)"
  by (rule writes_one[OF plat_write.ctl])

text \<open>A repository that failed has changed nothing.\<close>

lemma UserRepo_Save_Some: "UserRepo_Save u w = (w', Some e) \<Longrightarrow> w' = w"
  by (auto simp: UserRepo_Save_def pguard_write_cases split: if_splits)

lemma PlanRepo_Save_Some: "PlanRepo_Save u w = (w', Some e) \<Longrightarrow> w' = w"
  by (auto simp: PlanRepo_Save_def pguard_write_cases split: if_splits)

lemma PlanRepo_Delete_Some: "PlanRepo_Delete u w = (w', Some e) \<Longrightarrow> w' = w"
  by (auto simp: PlanRepo_Delete_def pguard_write_cases split: if_splits)

lemma OrderRepo_Save_Some: "OrderRepo_Save u w = (w', Some e) \<Longrightarrow> w' = w"
  by (auto simp: OrderRepo_Save_def pguard_write_cases split: if_splits)

lemma writes_save_user: "plat_writes D w (fst (save_user u w))"
  by (auto simp: save_user_def dest: UserRepo_Save_Some intro: writes_one plat_write.user split: prod.splits option.splits)

lemma writes_PlanRepo_Save: "plat_writes D w (fst (PlanRepo_Save p w))"
  by (cases "PlanRepo_Save p w"; cases "snd (PlanRepo_Save p w)")
    (auto dest: PlanRepo_Save_Some intro: writes_one plat_write.plan)

lemma writes_PlanRepo_Delete: "plat_writes D w (fst (PlanRepo_Delete p w))"
  by (cases "PlanRepo_Delete p w"; cases "snd (PlanRepo_Delete p w)")
    (auto dest: PlanRepo_Delete_Some intro: writes_one plat_write.unplan)

lemma writes_save_order: "plat_writes D w (fst (save_order r w))"
  by (auto simp: save_order_def dest: OrderRepo_Save_Some intro: writes_one plat_write.order split: prod.splits option.splits)

lemma writes_save_sub:
  "su_ID s \<in> D \<or> (\<exists>s0 \<in> set (p_subs w). sub_moves s0 s) \<Longrightarrow> plat_writes D w (fst (save_sub s w))"
  by (auto simp: save_sub_def dest: SubRepo_Save_Some intro: writes_one plat_write.sub split: prod.splits option.splits)

lemma fst_map_prod_id [simp]: "fst (map_prod id f p) = fst p"
  by (cases p) simp

section \<open>Every event is a sequence of writes\<close>

lemma GetSubscription_Inr: "GetSubscription k w = Inr s \<Longrightarrow> s \<in> set (p_subs w) \<and> su_ID s = k \<and> k \<noteq> []"
  by (auto simp: GetSubscription_def SubRepo_GetByID_def dest: tbl_find_SomeD split: sum.splits if_splits)

lemma ownSubscription_Inr:
  "ownSubscription uid k w = Inr s \<Longrightarrow> s \<in> set (p_subs w) \<and> su_ID s = k \<and> k \<noteq> [] \<and> (uid \<noteq> [] \<longrightarrow> su_UserID s = uid)"
  by (auto simp: ownSubscription_def dest: GetSubscription_Inr split: sum.splits if_splits)

lemma stopActive_ctl: "\<exists>s. fst (stopActiveInstances api sub w) = w\<lparr>pl_ctl := s\<rparr>"
  by (auto simp: stopActiveInstances_def split: sum.splits prod.splits intro: exI[of _ "pl_ctl w"])

lemma ctl_call_ctl: "\<exists>s. fst (ctl_call f w) = w\<lparr>pl_ctl := s\<rparr>"
  by (auto simp: ctl_call_def split: prod.splits)

lemma CreateInstance_ctl: "\<exists>s. fst (CreateInstance api now uid k game config w) = w\<lparr>pl_ctl := s\<rparr>"
  by (auto simp: CreateInstance_def Let_def split: sum.splits option.splits prod.splits intro: exI[of _ "pl_ctl w"])

lemma StartInstance_ctl: "\<exists>s. fst (StartInstance api now uid k inst w) = w\<lparr>pl_ctl := s\<rparr>"
  by (auto simp: StartInstance_def ctl_call_ctl split: sum.splits intro: exI[of _ "pl_ctl w"])

lemma StopInstance_ctl: "\<exists>s. fst (StopInstance api uid k inst w) = w\<lparr>pl_ctl := s\<rparr>"
  by (auto simp: StopInstance_def ctl_call_ctl split: option.splits intro: exI[of _ "pl_ctl w"])

lemma writes_of_ctl: "\<exists>s. w' = w\<lparr>pl_ctl := s\<rparr> \<Longrightarrow> plat_writes D w w'"
  by auto

lemma writes_CreatePlan: "plat_writes D w (fst (CreatePlan now ident p w))"
proof -
  have "fst (CreatePlan now ident p w) = w \<or> (\<exists>q. fst (CreatePlan now ident p w) = fst (PlanRepo_Save q w))"
    by (auto simp: CreatePlan_def Let_def split: option.splits prod.splits) (metis fst_conv)+
  then show ?thesis using writes_PlanRepo_Save[of D w] by (metis rtranclp.rtrancl_refl)
qed

lemma writes_UpdatePlan: "plat_writes D w (fst (UpdatePlan now k u b en w))"
proof -
  have "fst (UpdatePlan now k u b en w) = w \<or> (\<exists>q. fst (UpdatePlan now k u b en w) = fst (PlanRepo_Save q w))"
    by (auto simp: UpdatePlan_def Let_def split: option.splits prod.splits sum.splits) (metis fst_conv)+
  then show ?thesis using writes_PlanRepo_Save[of D w] by (metis rtranclp.rtrancl_refl)
qed

lemma writes_DeletePlan: "plat_writes D w (fst (DeletePlan now k w))"
  by (auto simp: DeletePlan_def writes_PlanRepo_Save writes_PlanRepo_Delete split: sum.splits)

lemma writes_Purchase: "ident \<in> D \<Longrightarrow> plat_writes D w (fst (Purchase now ident uid plan w))"
  by (auto simp: Purchase_def new_subscription_def intro!: writes_save_sub split: sum.splits)

lemma writes_stop_and_save:
  assumes "sub \<in> set (p_subs w)" "\<exists>op. sub_next op (su_Status sub) = Some st"
  shows "plat_writes D w (fst (stop_and_save api now (\<lambda>w. w) st sub w))"
proof -
  obtain s where s: "fst (stopActiveInstances api sub w) = w\<lparr>pl_ctl := s\<rparr>" using stopActive_ctl[of api sub w] by blast
  have "\<exists>s0 \<in> set (p_subs (w\<lparr>pl_ctl := s\<rparr>)). sub_moves s0 (sub\<lparr>su_Status := st, su_UpdateTime := now\<rparr>)"
    using assms by (intro bexI[of _ sub]) (auto simp: sub_moves_def same_contract_def)
  then have "plat_writes D (w\<lparr>pl_ctl := s\<rparr>) (fst (save_sub (sub\<lparr>su_Status := st, su_UpdateTime := now\<rparr>) (w\<lparr>pl_ctl := s\<rparr>)))"
    by (intro writes_save_sub disjI2)
  then have "plat_writes D w (fst (save_sub (sub\<lparr>su_Status := st, su_UpdateTime := now\<rparr>) (w\<lparr>pl_ctl := s\<rparr>)))"
    by (rule rtranclp_trans[OF writes_ctl])
  then show ?thesis using s by (cases "stopActiveInstances api sub w") (auto simp: stop_and_save_def split: option.splits)
qed

lemma writes_Suspend: "plat_writes D w (fst (Suspend api now (\<lambda>w. w) k w))"
  by (auto simp: Suspend_def dest: GetSubscription_Inr intro!: writes_stop_and_save exI[of _ OpSuspend] split: sum.splits)

lemma writes_Cancel: "plat_writes D w (fst (Cancel api now (\<lambda>w. w) uid k w))"
proof -
  have "\<exists>op. sub_next op st = Some SubscriptionCancelled" if "st = SubscriptionActive \<or> st = SubscriptionSuspended" for st
    using that by (auto intro: exI[of _ OpCancel])
  then show ?thesis
    by (auto simp: Cancel_def dest: ownSubscription_Inr intro!: writes_stop_and_save split: sum.splits)
qed

lemma writes_Unsuspend: "plat_writes D w (fst (Unsuspend now (\<lambda>w. w) k w))"
proof (cases "GetSubscription k w")
  case (Inr s)
  have "su_Status s = SubscriptionSuspended \<Longrightarrow> sub_moves s (s\<lparr>su_Status := SubscriptionActive, su_UpdateTime := now\<rparr>)"
    by (auto simp: sub_moves_def same_contract_def intro: exI[of _ OpUnsuspend])
  then show ?thesis using Inr GetSubscription_Inr[OF Inr] by (auto simp: Unsuspend_def intro!: writes_save_sub)
qed (simp add: Unsuspend_def)

lemma sub_moves_renewed:
  "su_Status s = SubscriptionActive \<or> su_Status s = SubscriptionExpired \<Longrightarrow> sub_moves s (renewed now p s)"
  by (auto simp: sub_moves_def same_contract_def renewed_def Let_def intro: exI[of _ OpRenew])

lemma writes_Renew: "plat_writes D w (fst (Renew now (\<lambda>w. w) uid k w))"
proof (cases "ownSubscription uid k w")
  case (Inr s)
  note s = ownSubscription_Inr[OF Inr]
  show ?thesis using Inr s sub_moves_renewed[of s now]
    by (auto simp: Renew_def intro!: writes_save_sub split: sum.splits)
qed (simp add: Renew_def)

lemma writes_user_route: "plat_writes D w (fst (user_route J tm now r w))"
proof (cases r)
  case (PostUser ident hash body)
  show ?thesis
  proof (cases body)
    case (Inr np)
    then show ?thesis using PostUser CreateUser_cases[of now ident hash "fst np" "snd np" w] writes_save_user[of D w]
      by (auto simp: Handle_CreateUser_def split: prod.splits)
  qed (simp add: PostUser Handle_CreateUser_def)
next
  case (PatchRole header k body)
  then show ?thesis using admin_route_cases[of J tm now header "Handle_SetUserRole now k body" w]
      Handle_SetUserRole_cases[of now k body _ _ w] SetRole_cases[of now k _ w] writes_save_user[of D w]
    by simp (metis rtranclp.rtrancl_refl)
next
  case (PatchStatus header k body)
  then show ?thesis using admin_route_cases[of J tm now header "Handle_SetUserStatus now k body" w]
      Handle_SetUserStatus_cases[of now k body _ _ w] SetStatus_cases[of now k _ w] writes_save_user[of D w]
    by simp (metis rtranclp.rtrancl_refl)
qed

lemma fst_as_body [simp]: "fst (as_body f p) = fst p"
  by (simp add: as_body_def)

lemma writes_me_handler:
  "(\<And>ident body. r = MePurchase ident body \<Longrightarrow> ident \<in> D) \<Longrightarrow> plat_writes D w (fst (me_handler api now r uid w))"
  by (cases r)
    (auto simp: Handle_Purchase_def Handle_Renew_def Handle_Cancel_def Handle_CreateInstance_def Handle_StartInstance_def
       Handle_StopInstance_def writes_Purchase writes_Renew writes_Cancel
       writes_of_ctl[OF CreateInstance_ctl] writes_of_ctl[OF StartInstance_ctl] writes_of_ctl[OF StopInstance_ctl]
     split: sum.splits)

lemma writes_admin_handler: "plat_writes D w (fst (admin_handler api now r w))"
  by (cases r)
    (auto simp: Handle_CreatePlan_def Handle_UpdatePlan_def Handle_DeletePlan_def Handle_Suspend_def Handle_Unsuspend_def
       Handle_CancelSubscription_def writes_CreatePlan writes_UpdatePlan writes_DeletePlan writes_Suspend writes_Unsuspend writes_Cancel
     split: sum.splits)

lemma writes_AuthRequired:
  "(\<And>uid role. plat_writes D w (fst (k uid role w))) \<Longrightarrow> plat_writes D w (fst (AuthRequired J tm now header k w))"
  by (auto simp: AuthRequired_def split: sum.splits)

lemma writes_RequireAdmin: "plat_writes D w (fst (k uid role w)) \<Longrightarrow> plat_writes D w (fst (RequireAdmin k uid role w))"
  by (simp add: RequireAdmin_def)

lemma writes_after_ctl:
  assumes "\<And>s. plat_writes D (w\<lparr>pl_ctl := s\<rparr>) (f (w\<lparr>pl_ctl := s\<rparr>))"
  shows "plat_writes D w (f (w\<lparr>pl_ctl := s\<rparr>))"
  by (rule rtranclp_trans[OF writes_ctl assms])

lemma writes_provision: "plat_writes D w (fst (provisionInstance C now (\<lambda>w. w) r st w))"
  by (auto simp: provisionInstance_def ctl_call_def split: prod.splits sum.splits
      intro: rtranclp_trans[OF writes_ctl writes_save_order])

lemma writes_order_handlers:
  "plat_writes D w (fst (Handle_PayOrder C now (\<lambda>w. w) k uid role w))"
  "plat_writes D w (fst (Handle_ProvisionOrder C now (\<lambda>w. w) k w))"
  "plat_writes D w (fst (Handle_CreateOrder now ident body uid role w))"
  "plat_writes D w (fst (Handle_OrderStart C k uid role w))"
  "plat_writes D w (fst (Handle_OrderStop C k uid role w))"
  "plat_writes D w (fst (Handle_MyFileSession C k uid role w))"
  "plat_writes D w (fst (Handle_MyInstanceConfig C k cbody uid role w))"
  by (auto simp: Handle_PayOrder_def PayOrder_def Handle_ProvisionOrder_def ProvisionOrder_def Handle_CreateOrder_def
      CreateOrder_def Handle_OrderStart_def Order_StartInstance_def Handle_OrderStop_def Order_StopInstance_def
      Handle_MyFileSession_def FileSession_def Handle_MyInstanceConfig_def Order_UpdateInstanceConfig_def ctl_call_def
      writes_provision writes_save_order split: sum.splits option.splits prod.splits)

lemma writes_order_route: "plat_writes D w (order_route J tm C now header r w)"
  by (cases r) (auto intro!: writes_AuthRequired writes_order_handlers writes_RequireAdmin)

text \<open>The sweep read its rows before its first write: at each save the row is still the one in the table.\<close>

lemma SubRepo_Save_table: "SubRepo_Save s w = (w', None) \<Longrightarrow> p_subs w' = tbl_put su_ID s (p_subs w)"
  by (simp add: SubRepo_Save_None)

lemma writes_expire_each:
  "list_all (\<lambda>s. s \<in> set (p_subs w) \<and> su_Status s = SubscriptionActive) subs \<Longrightarrow> distinct (map su_ID subs) \<Longrightarrow>
     plat_writes D w (fst (expire_each api now (\<lambda>sub w. w) n subs w))"
proof (induction subs arbitrary: n w)
  case (Cons sub subs)
  obtain s e where st: "stopActiveInstances api sub w = (w\<lparr>pl_ctl := s\<rparr>, e)"
    using stopActive_ctl[of api sub w] by (cases "stopActiveInstances api sub w") auto
  let ?w1 = "w\<lparr>pl_ctl := s\<rparr>" and ?row = "sub\<lparr>su_Status := SubscriptionExpired, su_UpdateTime := now\<rparr>"
  obtain w2 e2 where sv: "SubRepo_Save ?row ?w1 = (w2, e2)" by (cases "SubRepo_Save ?row ?w1")
  show ?case
  proof (cases e)
    case None
    show ?thesis
    proof (cases e2)
      case None2: None
      have "sub_moves sub ?row"
        using Cons.prems by (auto simp: sub_moves_def same_contract_def intro: exI[of _ OpExpire])
      then have 1: "plat_writes D w w2"
        using Cons.prems sv None2
        by (intro rtranclp_trans[OF writes_ctl writes_one[OF plat_write.sub]]) (auto intro!: bexI[of _ sub])
      have "list_all (\<lambda>t. t \<in> set (p_subs w2) \<and> su_Status t = SubscriptionActive) subs"
        using Cons.prems SubRepo_Save_table[of ?row ?w1 w2] sv None2
        by (auto simp: list_all_iff set_tbl_put image_iff)
      then have "plat_writes D w2 (fst (expire_each api now (\<lambda>sub w. w) (n + 1) subs w2))"
        using Cons.IH Cons.prems(2) by simp
      from rtranclp_trans[OF 1 this] show ?thesis using st sv None None2 by simp
    qed (use st sv None SubRepo_Save_Some[of ?row ?w1] in auto)
  qed (use st in auto)
qed simp

lemma overdue_rows:
  "SubRepo_ListOverdue now w = Inr subs \<longleftrightarrow> p_fault w (Call ''SubOverdue'' []) = None \<and> subs = filter (overdue now) (p_subs w)"
  by (auto simp: SubRepo_ListOverdue_def)

lemma writes_ExpireOverdue:
  assumes "tbl_ok su_ID (p_subs w)"
  shows "plat_writes D w (fst (ExpireOverdue api now (\<lambda>sub w. w) w))"
  using assms
  by (auto simp: ExpireOverdue_def overdue_rows list_all_iff overdue_def tbl_ok_def distinct_map_filter
      intro!: writes_expire_each split: sum.splits)

lemma writes_step:
  assumes "tbl_ok su_ID (p_subs w)" "\<And>header ident body. ev = EvMe header (MePurchase ident body) \<Longrightarrow> ident \<in> D"
  shows "plat_writes D w (plat_step J tm C now ev w)"
proof (cases ev)
  case (EvMe header r)
  then show ?thesis using assms(2) by (auto simp: me_route_def intro!: writes_AuthRequired writes_me_handler)
qed (auto simp: writes_user_route writes_order_route admin_route_def writes_ExpireOverdue[OF assms(1)]
      intro!: writes_AuthRequired writes_RequireAdmin writes_admin_handler)

section \<open>What every write keeps\<close>

definition plat_rows_ok :: "'a pdb_scheme \<Rightarrow> bool" where
  "plat_rows_ok w \<longleftrightarrow> users_ok w \<and> tbl_ok sp_ID (p_plans w) \<and> tbl_ok su_ID (p_subs w) \<and> tbl_ok or_ID (p_orders w) \<and>
     su_UserID ` set (p_subs w) \<subseteq> us_ID ` set (p_users w) \<and> su_PlanID ` set (p_subs w) \<subseteq> sp_ID ` set (p_plans w) \<and>
     or_UserID ` set (p_orders w) \<subseteq> us_ID ` set (p_users w)"

lemma tbl_put_map:
  assumes "tbl_ok key rows" "r \<in> set rows" "key r' = key r"
  shows "tbl_put key r' rows = map (\<lambda>x. if x = r then r' else x) rows"
proof -
  have "(key x = key r) = (x = r)" if "x \<in> set rows" for x
    using assms that by (metis tbl_find_mem option.inject)
  then show ?thesis using assms by (auto simp: tbl_put_def tbl_upd_def)
qed

lemma keys_put: "key ` set (tbl_put key r rows) = insert (key r) (key ` set rows)"
  by (auto simp: set_tbl_put image_iff)

lemma UserRepo_Save_None:
  "UserRepo_Save u w = (w', None) \<longleftrightarrow> w' = w\<lparr>p_users := tbl_put us_ID u (p_users w)\<rparr> \<and>
     p_fault w (Call ''UserSave'' [us_ID u]) = None \<and> \<not> (\<exists>v \<in> set (p_users w). us_Username v = us_Username u \<and> us_ID v \<noteq> us_ID u)"
  by (auto simp: UserRepo_Save_def pguard_write_cases)

lemma write_rows_ok: "plat_write D w w' \<Longrightarrow> plat_rows_ok w \<Longrightarrow> plat_rows_ok w'"
proof (induction rule: plat_write.induct)
  case (user u w w')
  then have "users_ok w'" using save_user_ok[of w u] by (simp add: plat_rows_ok_def save_user_def)
  then show ?case using user by (auto simp: plat_rows_ok_def UserRepo_Save_None keys_put)
next
  case (plan p w w')
  then show ?case
    by (auto simp: plat_rows_ok_def PlanRepo_Save_def pguard_write_cases users_ok_def tbl_ok_put keys_put split: if_splits)
next
  case (unplan k w w')
  then have "w' = w\<lparr>p_plans := tbl_del (\<lambda>p. sp_ID p = k) (p_plans w)\<rparr>" "k \<notin> sp_ID ` set (p_plans w) \<or> k \<notin> su_PlanID ` set (p_subs w)"
    by (auto simp: PlanRepo_Delete_def pguard_write_cases split: if_splits)
  then show ?case using unplan(2)
    by (auto simp: plat_rows_ok_def users_ok_def tbl_del_def tbl_ok_def distinct_map_filter image_subset_iff image_iff) metis+
next
  case (order r w w')
  then show ?case
    by (auto simp: plat_rows_ok_def OrderRepo_Save_def pguard_write_cases users_ok_def tbl_ok_put set_tbl_put split: if_splits)
next
  case (sub s w w')
  then show ?case by (auto simp: plat_rows_ok_def SubRepo_Save_None users_ok_def tbl_ok_put set_tbl_put)
qed (simp add: plat_rows_ok_def users_ok_def)

lemma writes_rows_ok: "plat_writes D w w' \<Longrightarrow> plat_rows_ok w \<Longrightarrow> plat_rows_ok w'"
  by (induction rule: rtranclp_induct) (auto intro: write_rows_ok)

text \<open>A subscription nobody's draw collides with has a successor row.\<close>

lemma write_evolves:
  "plat_write D w w' \<Longrightarrow> tbl_ok su_ID (p_subs w) \<Longrightarrow> s \<in> set (p_subs w) \<Longrightarrow> su_ID s \<notin> D \<Longrightarrow>
     \<exists>t \<in> set (p_subs w'). sub_evolves s t"
proof (induction rule: plat_write.induct)
  case (sub r w w')
  have w': "p_subs w' = tbl_put su_ID r (p_subs w)" using SubRepo_Save_table[OF sub(1)] .
  show ?case
  proof (cases "su_ID s = su_ID r")
    case True
    then obtain s0 where s0: "s0 \<in> set (p_subs w)" "sub_moves s0 r" using sub by auto
    then have "su_ID s0 = su_ID s" using True by (simp add: sub_moves_def same_contract_def)
    then have "s0 = s" using sub.prems(1,2) s0(1) by (metis tbl_find_mem option.inject)
    then show ?thesis using s0(2) w' by (auto simp: set_tbl_put intro: sub_moves_evolves)
  next
    case False
    then show ?thesis using w' sub.prems(2) by (intro bexI[of _ s]) (auto simp: set_tbl_put)
  qed
qed (auto simp: UserRepo_Save_None PlanRepo_Save_def PlanRepo_Delete_def OrderRepo_Save_def pguard_write_cases
      split: if_splits intro: bexI[of _ s])

lemma writes_evolve:
  "plat_writes D w w' \<Longrightarrow> plat_rows_ok w \<Longrightarrow> s \<in> set (p_subs w) \<Longrightarrow> su_ID s \<notin> D \<Longrightarrow>
     \<exists>t \<in> set (p_subs w'). sub_evolves s t"
proof (induction rule: rtranclp_induct)
  case base
  then show ?case by (intro bexI[of _ s]) auto
next
  case (step u v)
  then obtain t where t: "t \<in> set (p_subs u)" "sub_evolves s t" by auto
  then have "su_ID t \<notin> D" using step.prems(3) by (simp add: sub_evolves_def same_contract_def)
  moreover have "tbl_ok su_ID (p_subs u)" using writes_rows_ok[OF step(1) step.prems(1)] by (simp add: plat_rows_ok_def)
  ultimately obtain r where "r \<in> set (p_subs v)" "sub_evolves t r" using write_evolves[OF step(2) _ t(1)] by blast
  then show ?case using t(2) by (blast intro: sub_evolves_trans)
qed

lemma plat_step_ok: "plat_rows_ok w \<Longrightarrow> plat_rows_ok (plat_step J tm C now ev w)"
  by (rule writes_rows_ok[OF writes_step[where D = UNIV]]) (auto simp: plat_rows_ok_def)

lemma plat_run_ok: "plat_rows_ok w \<Longrightarrow> plat_rows_ok (plat_run J tm C evs w)"
  by (induction evs arbitrary: w) (auto simp: plat_step_ok)

lemma plat_run_evolves:
  "plat_rows_ok w \<Longrightarrow> s \<in> set (p_subs w) \<Longrightarrow> su_ID s \<notin> drawn_subs evs \<Longrightarrow>
     \<exists>t \<in> set (p_subs (plat_run J tm C evs w)). sub_evolves s t"
proof (induction evs arbitrary: w s)
  case Nil
  then show ?case by (intro bexI[of _ s]) auto
next
  case (Cons e evs)
  obtain now ev where e: "e = (now, ev)" by (cases e)
  let ?w1 = "plat_step J tm C now ev w"
  let ?D = "case ev of EvMe header (MePurchase ident body) \<Rightarrow> {ident} | _ \<Rightarrow> {}"
  have "plat_writes ?D w ?w1" using Cons.prems(1) by (intro writes_step) (auto simp: plat_rows_ok_def)
  then obtain t where t: "t \<in> set (p_subs ?w1)" "sub_evolves s t"
    using writes_evolve[of ?D w ?w1 s] Cons.prems e by auto
  moreover have "su_ID t \<notin> drawn_subs evs" using t(2) Cons.prems(3) e by (simp add: sub_evolves_def same_contract_def)
  ultimately obtain r where "r \<in> set (p_subs (plat_run J tm C evs ?w1))" "sub_evolves t r"
    using Cons.IH[OF plat_step_ok[OF Cons.prems(1)]] by blast
  then show ?case using t(2) e by (auto intro: sub_evolves_trans)
qed

end
