(* ===== verification/Platform_Isolation.thy ===== *)
theory Platform_Isolation
  imports Platform_Run "HOL-Library.Multiset"
begin

text \<open>
  What the platform relies on of the controller, as the locale \<open>subscription_controller\<close>: what each
  function of \<open>ctl_api\<close> may change of the instances.  Inside it, the requests of a user reach no
  subscription and no instance but his own, and a creation respects the quota.
\<close>

section \<open>What a call may change\<close>

definition owner :: "PInstance \<Rightarrow> string \<times> string \<times> string option" where
  "owner p = (pi_ID p, pi_GameID p, pi_SubscriptionID p)"

text \<open>\<open>own\<close> reads identifier, game and subscription of a row; a row whose identifier is not in \<open>I\<close> is kept as a
  whole.\<close>

definition keeps_rows :: "('i \<Rightarrow> string \<times> string \<times> string option) \<Rightarrow> string set \<Rightarrow> 'i list \<Rightarrow> 'i list \<Rightarrow> bool" where
  "keeps_rows own I = list_all2 (\<lambda>p q. own q = own p \<and> (fst (own p) \<notin> I \<longrightarrow> q = p))"

lemma keeps_rows_refl [simp]: "keeps_rows own I ps ps"
  by (auto simp: keeps_rows_def list_all2_conv_all_nth)

lemma keeps_rows_trans: "keeps_rows own I ps qs \<Longrightarrow> keeps_rows own J qs rs \<Longrightarrow> keeps_rows own (I \<union> J) ps rs"
  unfolding keeps_rows_def by (rule list_all2_trans) auto

lemma keeps_rows_mono: "keeps_rows own I ps qs \<Longrightarrow> I \<subseteq> J \<Longrightarrow> keeps_rows own J ps qs"
  unfolding keeps_rows_def by (erule list_all2_mono) auto

lemma keeps_rows_owners: "keeps_rows own I ps qs \<Longrightarrow> map own qs = map own ps"
  unfolding keeps_rows_def by (induction rule: list_all2_induct) auto

lemma keeps_rows_filter:
  "keeps_rows own I ps qs \<Longrightarrow> (\<And>p. p \<in> set ps \<Longrightarrow> fst (own p) \<in> I \<Longrightarrow> \<not> P (own p)) \<Longrightarrow>
     filter (\<lambda>p. P (own p)) qs = filter (\<lambda>p. P (own p)) ps"
  unfolding keeps_rows_def
proof (induction rule: list_all2_induct)
  case (Cons p ps q qs)
  then show ?case by auto
qed simp

lemma filter_tbl_put:
  assumes "\<And>x. x \<in> set rows \<Longrightarrow> key x = key r \<Longrightarrow> \<not> P x" "\<not> P r"
  shows "filter P (tbl_put key r rows) = filter P rows"
proof (cases "key r \<in> set (map key rows)")
  case True
  have "filter P (tbl_upd (\<lambda>x. key x = key r) (\<lambda>_. r) rows) = filter P rows"
    using assms by (induction rows) (auto simp: tbl_upd_def)
  then show ?thesis using True by (simp add: tbl_put_def)
qed (use assms in \<open>auto simp: tbl_put_def\<close>)

lemma length_filter_tbl_put: "tbl_ok key rows \<Longrightarrow> length (filter P (tbl_put key r rows)) \<le> length (filter P rows) + 1"
proof (cases "key r \<in> set (map key rows)")
  case True
  assume ok: "tbl_ok key rows"
  have "length (filter P (tbl_upd (\<lambda>x. key x = key r) (\<lambda>_. r) rows)) \<le> length (filter P rows) + 1"
    using ok
  proof (induction rows)
    case (Cons x rows)
    show ?case
    proof (cases "key x = key r")
      case True
      then have "tbl_upd (\<lambda>x. key x = key r) (\<lambda>_. r) rows = rows"
        using Cons.prems by (auto simp: tbl_upd_def tbl_ok_def image_iff intro!: map_idI)
      then show ?thesis using True by (simp add: tbl_upd_def)
    next
      case False
      then show ?thesis using Cons by (auto simp: tbl_upd_def tbl_ok_def)
    qed
  qed (simp add: tbl_upd_def)
  then show ?thesis using True by (simp add: tbl_put_def)
qed (auto simp: tbl_put_def)

section \<open>Whose an instance is\<close>

definition owned_by :: "string \<Rightarrow> Subscription list \<Rightarrow> string \<times> string \<times> string option \<Rightarrow> bool" where
  "owned_by uid subs x \<longleftrightarrow> (\<exists>s \<in> set subs. su_UserID s = uid \<and> snd (snd x) = Some (su_ID s))"

fun me_drawn :: "me_request \<Rightarrow> string set" where
  "me_drawn (MePurchase ident body) = {ident}"
| "me_drawn _ = {}"

text \<open>What a request of \<open>uid\<close> leaves as it is, row by row.\<close>

definition untouched ::
  "('i \<Rightarrow> string \<times> string \<times> string option) \<Rightarrow> ('s \<Rightarrow> 'i list) \<Rightarrow> ('s \<Rightarrow> string) \<Rightarrow> string \<Rightarrow> me_request
   \<Rightarrow> ('s, 'a) plat_scheme \<Rightarrow> ('s, 'a) plat_scheme \<Rightarrow> bool" where
  "untouched own insts next_id uid r w w' \<longleftrightarrow>
     p_users w' = p_users w \<and> p_plans w' = p_plans w \<and> p_orders w' = p_orders w \<and> p_profiles w' = p_profiles w \<and>
     filter (\<lambda>s. su_UserID s \<noteq> uid \<and> su_ID s \<notin> me_drawn r) (p_subs w') = filter (\<lambda>s. su_UserID s \<noteq> uid \<and> su_ID s \<notin> me_drawn r) (p_subs w) \<and>
     filter (\<lambda>p. \<not> owned_by uid (p_subs w) (own p) \<and> fst (own p) \<noteq> next_id (pl_ctl w)) (insts (pl_ctl w')) =
     filter (\<lambda>p. \<not> owned_by uid (p_subs w) (own p) \<and> fst (own p) \<noteq> next_id (pl_ctl w)) (insts (pl_ctl w))"

lemma CreateInstance_call:
  "fst (CreateInstance api now uid k game config w) = w \<or>
   (\<exists>sub c. ownSubscription uid k w = Inr sub \<and>
      fst (CreateInstance api now uid k game config w) = w\<lparr>pl_ctl := fst (ca_Create api game [] k c (pl_ctl w))\<rparr> \<and>
      (0 < su_MaxInstances sub \<longrightarrow> (\<exists>ps. ca_List api (su_ID sub) (pl_ctl w) = Inr ps \<and> int (length ps) < su_MaxInstances sub)))"
proof (cases "fst (CreateInstance api now uid k game config w) = w")
  case False
  then obtain sub preset where g: "ownSubscription uid k w = Inr sub" "checkActive now sub = None" "game \<noteq> []"
    "presetForGame sub game = Some preset"
    by (auto simp: CreateInstance_def split: sum.splits option.splits if_splits)
  then have "0 < su_MaxInstances sub \<longrightarrow> (\<exists>ps. ca_List api (su_ID sub) (pl_ctl w) = Inr ps \<and> int (length ps) < su_MaxInstances sub)"
    using False by (auto simp: CreateInstance_def Let_def split: sum.splits if_splits)
  moreover from this have "fst (CreateInstance api now uid k game config w) =
      w\<lparr>pl_ctl := fst (ca_Create api game [] k (merge_config (bi_Config preset) config) (pl_ctl w))\<rparr>"
    using g by (cases "0 < su_MaxInstances sub") (auto simp: CreateInstance_def Let_def split: prod.splits)
  ultimately show ?thesis using g(1) by blast
qed simp

section \<open>The contract\<close>

locale subscription_controller =
  fixes api :: "'s ctl_api" and own :: "'i \<Rightarrow> string \<times> string \<times> string option" and insts :: "'s \<Rightarrow> 'i list"
    and next_id :: "'s \<Rightarrow> string" and good :: "'s \<Rightarrow> bool"
  assumes Get: "good s \<Longrightarrow> ca_Get api i s = Inr p \<Longrightarrow> pi_ID p = i \<and> (\<exists>x \<in> set (insts s). own x = owner p)"
    and List: "good s \<Longrightarrow> k \<noteq> [] \<Longrightarrow> ca_List api k s = Inr ps \<Longrightarrow>
      mset (map owner ps) = mset (map own (filter (\<lambda>x. snd (snd (own x)) = Some k) (insts s)))"
    and Start: "good s \<Longrightarrow> good (fst (ca_Start api i s)) \<and> keeps_rows own {i} (insts s) (insts (fst (ca_Start api i s)))"
    and Stop: "good s \<Longrightarrow> good (fst (ca_Stop api i s)) \<and> keeps_rows own {i} (insts s) (insts (fst (ca_Stop api i s)))"
    and Create: "good s \<Longrightarrow> good (fst (ca_Create api game build k config s)) \<and>
      (insts (fst (ca_Create api game build k config s)) = insts s \<or>
       (\<exists>x. own x = (next_id s, game, if k = [] then None else Some k) \<and>
            insts (fst (ca_Create api game build k config s)) = tbl_put (\<lambda>y. fst (own y)) x (insts s)))"
    and unique: "good s \<Longrightarrow> tbl_ok (\<lambda>y. fst (own y)) (insts s)"
begin

lemma stop_each_keeps:
  "good s \<Longrightarrow> good (fst (stop_each api ps s)) \<and> keeps_rows own (pi_ID ` set ps) (insts s) (insts (fst (stop_each api ps s)))"
proof (induction ps arbitrary: s)
  case (Cons p ps)
  show ?case
  proof (cases "pi_Status p = ''stopped'' \<or> pi_Status p = ''failed''")
    case True
    then show ?thesis using Cons by (auto intro: keeps_rows_mono)
  next
    case False
    obtain s1 e where s1: "ca_Stop api (pi_ID p) s = (s1, e)" by (cases "ca_Stop api (pi_ID p) s")
    have 1: "good s1" "keeps_rows own {pi_ID p} (insts s) (insts s1)" using Stop[OF Cons.prems, of "pi_ID p"] s1 by auto
    then have "good (fst (stop_each api ps s1))" "keeps_rows own ({pi_ID p} \<union> pi_ID ` set ps) (insts s) (insts (fst (stop_each api ps s1)))"
      using Cons.IH[OF 1(1)] keeps_rows_trans by blast+
    then show ?thesis using False s1 by (cases "stop_each api ps s1") auto
  qed
qed simp

lemma stopActive_keeps:
  assumes "good (pl_ctl w)" "su_ID sub \<noteq> []" "w' = fst (stopActiveInstances api sub w)"
  shows "good (pl_ctl w') \<and> keeps_rows own ((\<lambda>x. fst (own x)) ` {x \<in> set (insts (pl_ctl w)). snd (snd (own x)) = Some (su_ID sub)})
    (insts (pl_ctl w)) (insts (pl_ctl w'))"
proof (cases "ca_List api (su_ID sub) (pl_ctl w)")
  case (Inl e)
  then show ?thesis using assms by (simp add: stopActiveInstances_def)
next
  case (Inr ps)
  have "owner ` set ps = own ` {x \<in> set (insts (pl_ctl w)). snd (snd (own x)) = Some (su_ID sub)}"
    using arg_cong[OF List[OF assms(1,2) Inr], of set_mset] by simp
  then have "fst ` owner ` set ps = fst ` own ` {x \<in> set (insts (pl_ctl w)). snd (snd (own x)) = Some (su_ID sub)}" by simp
  then have "pi_ID ` set ps = (\<lambda>x. fst (own x)) ` {x \<in> set (insts (pl_ctl w)). snd (snd (own x)) = Some (su_ID sub)}"
    by (simp add: image_image owner_def)
  then show ?thesis using assms stop_each_keeps[OF assms(1), of ps] Inr
    by (auto simp: stopActiveInstances_def split: prod.splits)
qed

lemma untouched_refl [simp]: "untouched own insts next_id uid r w w"
  by (simp add: untouched_def)

lemma untouched_ctl:
  assumes "keeps_rows own I (insts (pl_ctl w)) (insts s)" "\<And>p. p \<in> set (insts (pl_ctl w)) \<Longrightarrow> fst (own p) \<in> I \<Longrightarrow> owned_by uid (p_subs w) (own p)"
  shows "untouched own insts next_id uid r w (w\<lparr>pl_ctl := s\<rparr>)"
  using keeps_rows_filter[OF assms(1), of "\<lambda>x. \<not> owned_by uid (p_subs w) x \<and> fst x \<noteq> next_id (pl_ctl w)"] assms(2)
  by (simp add: untouched_def)

lemma untouched_save:
  assumes "untouched own insts next_id uid r w w1" "p_subs w1 = p_subs w" "su_UserID s = uid" "tbl_ok su_ID (p_subs w)"
    and "su_ID s \<in> me_drawn r \<or> (\<exists>s0 \<in> set (p_subs w). su_ID s0 = su_ID s \<and> su_UserID s0 = uid)"
  shows "untouched own insts next_id uid r w (fst (save_sub s w1))"
proof (cases "SubRepo_Save s w1")
  case (Pair w2 e)
  show ?thesis
  proof (cases e)
    case (Some x)
    then show ?thesis using Pair assms(1) SubRepo_Save_Some[of s w1 w2 x] by (simp add: save_sub_def)
  next
    case None
    have "filter (\<lambda>s. su_UserID s \<noteq> uid \<and> su_ID s \<notin> me_drawn r) (tbl_put su_ID s (p_subs w)) =
        filter (\<lambda>s. su_UserID s \<noteq> uid \<and> su_ID s \<notin> me_drawn r) (p_subs w)"
    proof (rule filter_tbl_put)
      fix x
      assume x: "x \<in> set (p_subs w)" "su_ID x = su_ID s"
      show "\<not> (su_UserID x \<noteq> uid \<and> su_ID x \<notin> me_drawn r)"
      proof (cases "su_ID s \<in> me_drawn r")
        case False
        then obtain s0 where "s0 \<in> set (p_subs w)" "su_ID s0 = su_ID s" "su_UserID s0 = uid" using assms(5) by auto
        then have "x = s0" using x assms(4) by (metis option.inject tbl_find_mem)
        then show ?thesis using \<open>su_UserID s0 = uid\<close> by simp
      qed (use x in simp)
    qed (use assms(3) in simp)
    moreover have "w2 = w1\<lparr>p_subs := tbl_put su_ID s (p_subs w)\<rparr>" using Pair None assms(2) by (simp add: SubRepo_Save_None)
    ultimately show ?thesis using Pair None assms(1) by (simp add: save_sub_def untouched_def)
  qed
qed

lemma ctl_save_sub: "pl_ctl (fst (save_sub s w)) = pl_ctl w"
  by (auto simp: save_sub_def SubRepo_Save_None dest: SubRepo_Save_Some split: prod.splits option.splits)

lemma Cancel_untouched:
  assumes "good (pl_ctl w)" "tbl_ok su_ID (p_subs w)" "uid \<noteq> []" "w' = fst (Cancel api now (\<lambda>w. w) uid k w)"
  shows "good (pl_ctl w') \<and> untouched own insts next_id uid r w w'"
proof (cases "ownSubscription uid k w")
  case (Inr sub)
  note o = ownSubscription_Inr[OF Inr]
  let ?w1 = "fst (stopActiveInstances api sub w)"
  obtain s where w1: "?w1 = w\<lparr>pl_ctl := s\<rparr>" using stopActive_ctl[of api sub w] by auto
  have k: "good s" "keeps_rows own ((\<lambda>x. fst (own x)) ` {x \<in> set (insts (pl_ctl w)). snd (snd (own x)) = Some (su_ID sub)}) (insts (pl_ctl w)) (insts s)"
    using stopActive_keeps[OF assms(1) _ refl, of sub] o w1 by auto
  have "untouched own insts next_id uid r w ?w1" unfolding w1
  proof (rule untouched_ctl[OF k(2)])
    fix p
    assume "p \<in> set (insts (pl_ctl w))" "fst (own p) \<in> (\<lambda>x. fst (own x)) ` {x \<in> set (insts (pl_ctl w)). snd (snd (own x)) = Some (su_ID sub)}"
    then have "snd (snd (own p)) = Some (su_ID sub)" using unique[OF assms(1)] by (fastforce simp: tbl_ok_def distinct_map inj_on_def)
    then show "owned_by uid (p_subs w) (own p)" using o assms(3) by (auto simp: owned_by_def)
  qed
  moreover have "p_subs ?w1 = p_subs w" using w1 by simp
  ultimately have "untouched own insts next_id uid r w (fst (save_sub (sub\<lparr>su_Status := SubscriptionCancelled, su_UpdateTime := now\<rparr>) ?w1))"
    using o assms(2,3) by (intro untouched_save) auto
  then show ?thesis using \<open>untouched own insts next_id uid r w ?w1\<close> assms(1,4) Inr k(1) w1
    by (cases "stopActiveInstances api sub w") (auto simp: Cancel_def stop_and_save_def ctl_save_sub split: option.splits)
qed (use assms in \<open>simp add: Cancel_def\<close>)

lemma Renew_untouched:
  assumes "good (pl_ctl w)" "tbl_ok su_ID (p_subs w)" "uid \<noteq> []" "w' = fst (Renew now (\<lambda>w. w) uid k w)"
  shows "good (pl_ctl w') \<and> untouched own insts next_id uid r w w'"
proof (cases "ownSubscription uid k w")
  case (Inr sub)
  have "su_UserID (renewed now p sub) = su_UserID sub" "su_ID (renewed now p sub) = su_ID sub" for p
    by (simp_all add: renewed_def Let_def)
  then have "untouched own insts next_id uid r w (fst (save_sub (renewed now p sub) w))" for p
    using ownSubscription_Inr[OF Inr] assms(2,3) by (intro untouched_save) auto
  then show ?thesis using assms(1,4) Inr by (auto simp: Renew_def ctl_save_sub split: sum.splits)
qed (use assms in \<open>simp add: Renew_def\<close>)

lemma Purchase_untouched:
  assumes "good (pl_ctl w)" "tbl_ok su_ID (p_subs w)" "w' = fst (Purchase now ident uid plan w)"
  shows "good (pl_ctl w') \<and> untouched own insts next_id uid (MePurchase ident body) w w'"
proof -
  have "untouched own insts next_id uid (MePurchase ident body) w (fst (save_sub (new_subscription now ident uid p) w))" for p
    using assms(2) by (intro untouched_save) (auto simp: new_subscription_def)
  then show ?thesis using assms(1,3) by (auto simp: Purchase_def ctl_save_sub split: sum.splits)
qed

lemma CreateInstance_untouched:
  assumes "good (pl_ctl w)" "w' = fst (CreateInstance api now uid k game config w)"
  shows "good (pl_ctl w') \<and> untouched own insts next_id uid r w w'"
proof -
  have "w' = w \<or> (\<exists>c. w' = w\<lparr>pl_ctl := fst (ca_Create api game [] k c (pl_ctl w))\<rparr>)"
    using CreateInstance_call[of api now uid k game config w] assms(2) by blast
  then show ?thesis
  proof
    assume "\<exists>c. w' = w\<lparr>pl_ctl := fst (ca_Create api game [] k c (pl_ctl w))\<rparr>"
    then obtain c where w': "w' = w\<lparr>pl_ctl := fst (ca_Create api game [] k c (pl_ctl w))\<rparr>" ..
    from Create[OF assms(1), of game "[]" k c] show ?thesis
      by (auto simp: w' untouched_def intro!: filter_tbl_put)
  qed (use assms(1) in simp)
qed

lemma start_stop_untouched:
  assumes "good (pl_ctl w)" "uid \<noteq> []" "ownSubscription uid k w = Inr sub" "ca_Get api i (pl_ctl w) = Inr p"
    and "pi_SubscriptionID p = Some k" "f = ca_Start api i \<or> f = ca_Stop api i"
  shows "good (pl_ctl (fst (ctl_call f w))) \<and> untouched own insts next_id uid r w (fst (ctl_call f w))"
proof -
  note p = Get[OF assms(1,4)] and o = ownSubscription_Inr[OF assms(3)]
  have f: "good (fst (f (pl_ctl w)))" "keeps_rows own {i} (insts (pl_ctl w)) (insts (fst (f (pl_ctl w))))"
    using Start[OF assms(1)] Stop[OF assms(1)] assms(6) by auto
  have "untouched own insts next_id uid r w (w\<lparr>pl_ctl := fst (f (pl_ctl w))\<rparr>)"
  proof (rule untouched_ctl[OF f(2)])
    fix q
    assume q: "q \<in> set (insts (pl_ctl w))" "fst (own q) \<in> {i}"
    from p obtain x where x: "x \<in> set (insts (pl_ctl w))" "own x = owner p" "pi_ID p = i" by blast
    with q have "q = x" using unique[OF assms(1)] by (auto simp: tbl_ok_def distinct_map inj_on_def owner_def)
    then show "owned_by uid (p_subs w) (own q)" using o x(2) assms(2,5) by (auto simp: owned_by_def owner_def)
  qed
  then show ?thesis using f(1) by (cases "f (pl_ctl w)") (simp add: ctl_call_def)
qed

lemma StartInstance_untouched:
  assumes "good (pl_ctl w)" "uid \<noteq> []" "w' = fst (StartInstance api now uid k i w)"
  shows "good (pl_ctl w') \<and> untouched own insts next_id uid r w w'"
proof (cases "verifyInstanceOwnership api now uid k i w")
  case (Inr sub)
  then obtain p where "ownSubscription uid k w = Inr sub" "ca_Get api i (pl_ctl w) = Inr p" "pi_SubscriptionID p = Some k"
    by (auto simp: verifyInstanceOwnership_def split: sum.splits option.splits if_splits)
  from start_stop_untouched[OF assms(1,2) this, of "ca_Start api i"] show ?thesis
    using assms(3) Inr by (simp add: StartInstance_def)
qed (use assms in \<open>simp add: StartInstance_def\<close>)

lemma StopInstance_untouched:
  assumes "good (pl_ctl w)" "uid \<noteq> []" "w' = fst (StopInstance api uid k i w)"
  shows "good (pl_ctl w') \<and> untouched own insts next_id uid r w w'"
proof (cases "instance_of_subscription api uid k i w")
  case None
  then obtain sub p where "ownSubscription uid k w = Inr sub" "ca_Get api i (pl_ctl w) = Inr p" "pi_SubscriptionID p = Some k"
    by (auto simp: instance_of_subscription_def split: sum.splits if_splits)
  from start_stop_untouched[OF assms(1,2) this, of "ca_Stop api i"] show ?thesis
    using assms(3) None by (simp add: StopInstance_def)
qed (use assms in \<open>simp add: StopInstance_def\<close>)

lemma me_handler_untouched:
  assumes "good (pl_ctl w)" "tbl_ok su_ID (p_subs w)" "uid \<noteq> []"
  shows "good (pl_ctl (fst (me_handler api now r uid w))) \<and> untouched own insts next_id uid r w (fst (me_handler api now r uid w))"
  using assms
  by (cases r)
    (auto simp: Handle_Purchase_def Handle_Renew_def Handle_Cancel_def Handle_CreateInstance_def Handle_StartInstance_def
       Handle_StopInstance_def Purchase_untouched[OF _ _ refl] Renew_untouched[OF _ _ _ refl] Cancel_untouched[OF _ _ _ refl]
       CreateInstance_untouched[OF _ refl] StartInstance_untouched[OF _ _ refl] StopInstance_untouched[OF _ _ refl]
     split: sum.splits)

text \<open>The quota: counted before the creation, which adds at most one.\<close>

lemma CreateInstance_count:
  assumes "good (pl_ctl w)" "ownSubscription uid k w = Inr sub" "0 < su_MaxInstances sub"
    and "w' = fst (CreateInstance api now uid k game config w)"
  shows "insts (pl_ctl w') = insts (pl_ctl w) \<or>
    int (length (filter (\<lambda>x. snd (snd (own x)) = Some k) (insts (pl_ctl w')))) \<le> su_MaxInstances sub"
proof (cases "pl_ctl w' = pl_ctl w")
  case False
  note o = ownSubscription_Inr[OF assms(2)]
  have "w' \<noteq> w" using False by auto
  then obtain c where w': "w' = w\<lparr>pl_ctl := fst (ca_Create api game [] k c (pl_ctl w))\<rparr>"
      "\<exists>ps. ca_List api k (pl_ctl w) = Inr ps \<and> int (length ps) < su_MaxInstances sub"
    using CreateInstance_call[of api now uid k game config w] assms(2,3,4) o by auto
  then obtain ps where c: "pl_ctl w' = fst (ca_Create api game [] k c (pl_ctl w))" "ca_List api k (pl_ctl w) = Inr ps"
    "int (length ps) < su_MaxInstances sub"
    by auto
  have "length ps = length (filter (\<lambda>x. snd (snd (own x)) = Some k) (insts (pl_ctl w)))"
    using arg_cong[OF List[OF assms(1) _ c(2)], of size] o by (simp flip: mset_filter)
  moreover have "insts (pl_ctl w') = insts (pl_ctl w) \<or> (\<exists>p. insts (pl_ctl w') = tbl_put (\<lambda>y. fst (own y)) p (insts (pl_ctl w)))"
    using Create[OF assms(1), of game "[]" k c] c(1) by auto
  ultimately show ?thesis
  proof (elim disjE exE)
    fix p
    assume "length ps = length (filter (\<lambda>x. snd (snd (own x)) = Some k) (insts (pl_ctl w)))"
      "insts (pl_ctl w') = tbl_put (\<lambda>y. fst (own y)) p (insts (pl_ctl w))"
    then show ?thesis
      using length_filter_tbl_put[OF unique[OF assms(1)], of "\<lambda>x. snd (snd (own x)) = Some k" p] c(3) by simp
  qed simp
qed simp

end

end
