(* ===== verification/Platform_Subscriptions.thy ===== *)
theory Platform_Subscriptions
  imports Platform_Run
begin

text \<open>
  What the platform's subscriptions promise: their state machine over any run of events, the
  result of the sweep and what a concurrent renewal loses to it, and the bounds of the expiry.
\<close>

section \<open>The state machine\<close>


section \<open>The sweep\<close>

definition expired_row :: "time \<Rightarrow> Subscription \<Rightarrow> Subscription" where
  "expired_row now s = s\<lparr>su_Status := SubscriptionExpired, su_UpdateTime := now\<rparr>"

lemma expired_row_ID [simp]: "su_ID (expired_row now s) = su_ID s"
  by (simp add: expired_row_def)

lemma expire_each_result:
  assumes "tbl_ok su_ID (p_subs w)" "set subs \<subseteq> set (p_subs w)" "distinct subs"
    and "expire_each api now (\<lambda>sub w. w) n subs w = (w', m, e)"
  shows "\<exists>pre post. subs = pre @ post \<and> m = n + length pre \<and> (e = None \<longleftrightarrow> post = []) \<and>
    p_subs w' = map (\<lambda>s. if s \<in> set pre then expired_row now s else s) (p_subs w)"
  using assms
proof (induction subs arbitrary: w n)
  case Nil
  then show ?case by (intro exI[of _ "[]"]) auto
next
  case (Cons sub subs)
  obtain s e1 where st: "stopActiveInstances api sub w = (w\<lparr>pl_ctl := s\<rparr>, e1)"
    using stopActive_ctl[of api sub w] by (cases "stopActiveInstances api sub w") auto
  obtain w2 e2 where sv: "SubRepo_Save (expired_row now sub) (w\<lparr>pl_ctl := s\<rparr>) = (w2, e2)"
    by (cases "SubRepo_Save (expired_row now sub) (w\<lparr>pl_ctl := s\<rparr>)")
  show ?case
  proof (cases "e1 = None \<and> e2 = None")
    case False
    then have "m = n" "e \<noteq> None" "p_subs w' = p_subs w"
      using Cons.prems(4) st sv SubRepo_Save_Some[of "expired_row now sub" "w\<lparr>pl_ctl := s\<rparr>" w2]
      by (auto simp: expired_row_def split: option.splits)
    then show ?thesis by (intro exI[of _ "[]"] exI[of _ "sub # subs"]) auto
  next
    case True
    have subs2: "p_subs w2 = map (\<lambda>x. if x = sub then expired_row now sub else x) (p_subs w)"
      using SubRepo_Save_table[of "expired_row now sub" "w\<lparr>pl_ctl := s\<rparr>" w2] sv True tbl_put_map[of su_ID "p_subs w" sub] Cons.prems(1,2)
      by simp
    have ok2: "tbl_ok su_ID (p_subs w2)"
      using tbl_ok_put[OF Cons.prems(1), of "expired_row now sub"] SubRepo_Save_table[of "expired_row now sub" "w\<lparr>pl_ctl := s\<rparr>" w2] sv True
      by simp
    have keep: "set subs \<subseteq> set (p_subs w2)" "distinct subs"
      using Cons.prems(2,3) by (auto simp: subs2 image_iff)
    have rest: "expire_each api now (\<lambda>sub w. w) (n + 1) subs w2 = (w', m, e)"
      using Cons.prems(4) st sv True by (simp add: expired_row_def)
    obtain pre post where pp: "subs = pre @ post" "m = n + 1 + length pre" "(e = None) = (post = [])"
      "p_subs w' = map (\<lambda>s. if s \<in> set pre then expired_row now s else s) (p_subs w2)"
      using Cons.IH[OF ok2 keep rest] by blast
    have "expired_row now sub \<notin> set pre"
    proof
      assume "expired_row now sub \<in> set pre"
      then have "expired_row now sub \<in> set (p_subs w)" "expired_row now sub \<noteq> sub"
        using pp(1) Cons.prems(2,3) by auto
      then show False using Cons.prems(1,2) by (metis expired_row_ID list.set_intros(1) option.inject subsetD tbl_find_mem)
    qed
    then have "p_subs w' = map (\<lambda>s. if s \<in> set (sub # pre) then expired_row now s else s) (p_subs w)"
      using Cons.prems(3) pp(1,4) by (auto simp: subs2)
    then show ?thesis using pp by (intro exI[of _ "sub # pre"] exI[of _ post]) auto
  qed
qed

text \<open>C17: What one sweep does: it expires the overdue subscriptions in the order of the table, up to the first one whose
  instances cannot all be stopped or whose row cannot be saved, and no other; its count is the number it
  expired, and it ends without error exactly when it went through all of them.\<close>

theorem ExpireOverdue_result:
  assumes "tbl_ok su_ID (p_subs w)" "p_fault w (Call ''SubOverdue'' []) = None"
    and "ExpireOverdue api now (\<lambda>sub w. w) w = (w', n, e)"
  shows "\<exists>pre post. filter (overdue now) (p_subs w) = pre @ post \<and> n = length pre \<and> (e = None \<longleftrightarrow> post = []) \<and>
    p_subs w' = map (\<lambda>s. if s \<in> set pre then expired_row now s else s) (p_subs w)"
proof -
  have r: "expire_each api now (\<lambda>sub w. w) 0 (filter (overdue now) (p_subs w)) w = (w', n, e)"
    using assms(2,3) by (simp add: ExpireOverdue_def SubRepo_ListOverdue_def pguard_def)
  have "distinct (filter (overdue now) (p_subs w))"
    using assms(1) by (simp add: tbl_ok_def distinct_map)
  then show ?thesis using expire_each_result[OF assms(1) _ _ r] by auto
qed

text \<open>C34: A renewal that comes between the sweep's reading of the table and its save of the row is lost: the request answers with
  the renewed subscription, then the sweep writes the row it read before, expired and with the old
  expiry (the same holds of any other change of the row).\<close>

theorem sweep_loses_renewal:
  assumes "tbl_ok su_ID (p_subs w)" "filter (overdue now) (p_subs w) = [sub]" "p_fault w (Call ''SubOverdue'' []) = None"
    and "stopActiveInstances api sub w = (w1, None)" "Renew t (\<lambda>w. w) uid (su_ID sub) w1 = (w2, Inr r)"
  shows "\<exists>w'. ExpireOverdue api now (\<lambda>s v. fst (Renew t (\<lambda>w. w) uid (su_ID sub) v)) w = (w', 1, None) \<and>
    tbl_find su_ID (su_ID sub) (p_subs w2) = Some r \<and> su_Status r = SubscriptionActive \<and>
    tbl_find su_ID (su_ID sub) (p_subs w') = Some (expired_row now sub)"
proof -
  have w1: "p_subs w1 = p_subs w" "p_users w1 = p_users w" "p_plans w1 = p_plans w" "p_fault w1 = p_fault w"
    using stopActive_ctl[of api sub w] assms(4) by auto
  have sub: "sub \<in> set (p_subs w)" using assms(2) by (metis filter_is_subset list.set_intros(1) subsetD)
  obtain v p where v: "ownSubscription uid (su_ID sub) w1 = Inr v" "r = renewed t p v" "save_sub r w1 = (w2, Inr r)"
    using assms(5) by (auto simp: Renew_def save_sub_def split: sum.splits if_splits prod.splits option.splits)
  have vs: "v = sub"
    using ownSubscription_Inr[OF v(1)] sub w1(1) assms(1) by (metis option.inject tbl_find_mem)
  then have r: "su_ID r = su_ID sub" "su_UserID r = su_UserID sub" "su_PlanID r = su_PlanID sub" "su_Status r = SubscriptionActive"
    "su_MaxInstances r = su_MaxInstances sub"
    using v(2) by (auto simp: renewed_def Let_def)
  have sv: "SubRepo_Save r w1 = (w2, None)" using v(3) by (auto simp: save_sub_def split: prod.splits option.splits)
  note saved = sv[unfolded SubRepo_Save_None]
  then have "SubRepo_Save (expired_row now sub) w2 = (w2\<lparr>p_subs := tbl_put su_ID (expired_row now sub) (p_subs w2)\<rparr>, None)"
    using r by (auto simp: SubRepo_Save_None expired_row_def)
  moreover have "fst (Renew t (\<lambda>w. w) uid (su_ID sub) w1) = w2" using assms(5) by simp
  ultimately show ?thesis using assms(2,3,4) saved r
    by (auto simp: ExpireOverdue_def SubRepo_ListOverdue_def pguard_def expired_row_def table_simps)
qed

section \<open>The expiry\<close>

lemma hours_exact: "0 \<le> h \<Longrightarrow> h \<le> 2562047 \<Longrightarrow> hours_duration h = h * (3600 * second)"
  unfolding hours_duration_def second_def by (rule wrap64_id) (simp add: in_i64_def)

lemma hours_negative: "2562048 \<le> h \<Longrightarrow> h \<le> 5124095 \<Longrightarrow> hours_duration h < 0"
proof -
  assume h: "2562048 \<le> h" "h \<le> 5124095"
  have "hours_duration h = h * (3600 * second) - 2 ^ 64"
    unfolding hours_duration_def
    by (subst wrap64_cong[of _ "h * (3600 * second) - 2 ^ 64"]) (use h in \<open>auto simp: second_def in_i64_def wrap64_id mod_diff_right_eq[symmetric]\<close>)
  then show ?thesis using h by (simp add: second_def)
qed

lemma Purchase_Inr:
  "Purchase now ident uid plan w = (w', Inr s) \<Longrightarrow> \<exists>p. GetPlan plan w = Inr p \<and> sp_Enabled p \<and> s = new_subscription now ident uid p \<and>
     w' = w\<lparr>p_subs := tbl_put su_ID s (p_subs w)\<rparr>"
  by (auto simp: Purchase_def save_sub_def SubRepo_Save_None split: if_splits sum.splits prod.splits option.splits)

text \<open>C35: A purchase copies the plan and, up to 2,562,047 hours, expires exactly the plan's hours later.  From
  one hour more on the product no longer fits 64 bits: the expiry is the wrapped product, which is always
  earlier than the hours sold and at most \<open>2 ^ 63 - 1\<close> nanoseconds away; up to 5,124,095 hours it is negative,
  so the subscription is sold already overdue.  A plan is not checked for an upper bound.\<close>

theorem Purchase_expiry_bounds:
  assumes "Purchase now ident uid plan w = (w', Inr s)" "GetPlan plan w = Inr p"
  shows "su_UserID s = uid \<and> su_BasketSnapshot s = sp_Basket p \<and> su_MaxInstances s = sp_MaxInstances p \<and>
    (sp_DurationHours p \<le> 0 \<longrightarrow> su_ExpiresAt s = None) \<and>
    (0 < sp_DurationHours p \<and> sp_DurationHours p \<le> 2562047 \<longrightarrow>
       su_ExpiresAt s = Some (now + sp_DurationHours p * 3600000000000)) \<and>
    (2562048 \<le> sp_DurationHours p \<longrightarrow> (\<exists>d. su_ExpiresAt s = Some (now + d) \<and>
       - (2 ^ 63) \<le> d \<and> d < 2 ^ 63 \<and> d mod 2 ^ 64 = sp_DurationHours p * 3600000000000 mod 2 ^ 64 \<and>
       d < sp_DurationHours p * 3600000000000 \<and>
       (sp_DurationHours p \<le> 5124095 \<longrightarrow> d < 0 \<and> overdue now s \<and> checkActive now s \<noteq> None)))"
proof -
  let ?h = "sp_DurationHours p"
  have s: "s = new_subscription now ident uid p" using Purchase_Inr[OF assms(1)] assms(2) by auto
  have "overdue now s \<and> checkActive now s \<noteq> None" if h: "2562048 \<le> ?h" "?h \<le> 5124095"
    using hours_negative[OF h] h s by (simp add: overdue_def new_subscription_def checkActive_def)
  moreover have "- (2 ^ 63) \<le> hours_duration ?h \<and> hours_duration ?h < 2 ^ 63 \<and>
      hours_duration ?h mod 2 ^ 64 = ?h * 3600000000000 mod 2 ^ 64"
    using wrap64_in_i64[of "?h * 3600000000000"] wrap64_mod[of "?h * 3600000000000"]
    by (simp add: in_i64_def hours_duration_def second_def)
  ultimately show ?thesis using s hours_negative[of ?h]
    by (auto simp: new_subscription_def hours_exact second_def)
qed

section \<open>Orders\<close>

lemma ctl_call_eq: "f (pl_ctl w) = (s, r) \<Longrightarrow> ctl_call f w = (w\<lparr>pl_ctl := s\<rparr>, r)"
  by (simp add: ctl_call_def)

lemma save_order_Inr:
  "or_UserID r \<in> us_ID ` set (p_users w) \<Longrightarrow> p_fault w (Call ''OrderSave'' [or_ID r]) = None \<Longrightarrow>
     save_order r w = (w\<lparr>p_orders := tbl_put or_ID r (p_orders w)\<rparr>, Inr r)"
  by (simp add: save_order_def OrderRepo_Save_def pguard_write_def)

text \<open>Two payments of one order at the same time both succeed and create two instances: a second payment that runs between the
  first one's creation of its instance and its save still reads the order as created.  The order keeps the
  instance of the save that came last, and no order refers to the other.\<close>

theorem concurrent_payment_orphans:
  assumes "OrderRepo_GetByID k w = Inr r" "or_Status r = OrderStatusCreated"
    and "ca_Create (cl_instances C) (or_GameID r) [] [] (or_Config r) (pl_ctl w) = (s1, Inr p1)"
    and "ca_Create (cl_instances C) (or_GameID r) [] [] (or_Config r) s1 = (s2, Inr p2)"
    and "pi_ID p2 \<noteq> pi_ID p1" "pi_ID p2 \<notin> or_InstanceID ` set (p_orders w)"
    and "or_UserID r \<in> us_ID ` set (p_users w)" "p_fault w (Call ''OrderSave'' [k]) = None"
  shows "\<exists>w1 w' r1 r2. PayOrder C t2 (\<lambda>v. v) k (w\<lparr>pl_ctl := s1\<rparr>) = (w1, Inr r2) \<and>
    PayOrder C t1 (\<lambda>v. fst (PayOrder C t2 (\<lambda>v. v) k v)) k w = (w', Inr r1) \<and>
    or_InstanceID r2 = pi_ID p2 \<and> or_InstanceID r1 = pi_ID p1 \<and> pl_ctl w' = s2 \<and> pi_ID p2 \<notin> or_InstanceID ` set (p_orders w')"
proof -
  have k: "or_ID r = k" using assms(1) by (auto simp: OrderRepo_GetByID_def dest: tbl_find_SomeD)
  let ?r1 = "r\<lparr>or_InstanceID := pi_ID p1, or_Status := OrderStatusPaid, or_UpdateTime := t1\<rparr>"
  let ?r2 = "r\<lparr>or_InstanceID := pi_ID p2, or_Status := OrderStatusPaid, or_UpdateTime := t2\<rparr>"
  have g1: "OrderRepo_GetByID k (w\<lparr>pl_ctl := s1\<rparr>) = Inr r" using assms(1) by (simp add: OrderRepo_GetByID_def)
  let ?w1 = "w\<lparr>pl_ctl := s2, p_orders := tbl_put or_ID ?r2 (p_orders w)\<rparr>"
  have "save_order ?r2 (w\<lparr>pl_ctl := s2\<rparr>) = (w\<lparr>pl_ctl := s2, p_orders := tbl_put or_ID ?r2 (p_orders w)\<rparr>, Inr ?r2)"
    using assms(7,8) k by (subst save_order_Inr) auto
  moreover have "ctl_call (ca_Create (cl_instances C) (or_GameID r) [] [] (or_Config r)) (w\<lparr>pl_ctl := s1\<rparr>) = (w\<lparr>pl_ctl := s2\<rparr>, Inr p2)"
    using ctl_call_eq[of "ca_Create (cl_instances C) (or_GameID r) [] [] (or_Config r)" "w\<lparr>pl_ctl := s1\<rparr>"] assms(4) by simp
  ultimately have inner: "PayOrder C t2 (\<lambda>v. v) k (w\<lparr>pl_ctl := s1\<rparr>) = (?w1, Inr ?r2)"
    using g1 assms(2) by (simp add: PayOrder_def provisionInstance_def)
  have "save_order ?r1 ?w1 = (?w1\<lparr>p_orders := tbl_put or_ID ?r1 (p_orders ?w1)\<rparr>, Inr ?r1)"
    using assms(7,8) k by (subst save_order_Inr) auto
  then have outer: "PayOrder C t1 (\<lambda>v. fst (PayOrder C t2 (\<lambda>v. v) k v)) k w = (?w1\<lparr>p_orders := tbl_put or_ID ?r1 (p_orders ?w1)\<rparr>, Inr ?r1)"
    using assms(1,2) ctl_call_eq[of "ca_Create (cl_instances C) (or_GameID r) [] [] (or_Config r)" w, OF assms(3)] inner
    by (simp add: PayOrder_def provisionInstance_def)
  have "pi_ID p2 \<notin> or_InstanceID ` set (tbl_put or_ID ?r1 (p_orders ?w1))"
    using assms(5,6) k by (auto simp: set_tbl_put)
  then show ?thesis using inner outer by auto
qed

section \<open>Examples\<close>

text \<open>A controller that keeps its instances in a list.\<close>

definition ex_api :: "PInstance list ctl_api" where
  "ex_api = \<lparr>
     ca_Create = (\<lambda>game build sub config s.
       let i = \<lparr> pi_ID = ''i'' @ show_nat (length s), pi_GameID = game, pi_NodeAgentID = None, pi_Status = ''stopped'', pi_GameBuildId = build,
                 pi_FailReason = [], pi_SubscriptionID = (if sub = [] then None else Some sub) \<rparr> in (s @ [i], Inr i)),
     ca_Get = (\<lambda>i s. pfound (tbl_find pi_ID i s)),
     ca_Start = (\<lambda>i s. (tbl_upd (\<lambda>p. pi_ID p = i) (\<lambda>p. p\<lparr>pi_Status := ''pending''\<rparr>) s, None)),
     ca_Stop = (\<lambda>i s. (tbl_upd (\<lambda>p. pi_ID p = i) (\<lambda>p. p\<lparr>pi_Status := ''stopping''\<rparr>) s, None)),
     ca_List = (\<lambda>k s. Inr (filter (\<lambda>p. pi_SubscriptionID p = Some k) s)),
     ca_Runtime = (\<lambda>i s. Inl CtlNotFound) \<rparr>"

definition ex_pclient :: "PInstance list client" where
  "ex_pclient = \<lparr> cl_instances = ex_api, cl_UpdateConfig = (\<lambda>i c s. (s, Inl CtlNotFound)), cl_Connect = (\<lambda>i s. Inl CtlNotFound),
     cl_FileSession = (\<lambda>i s. (s, Inl CtlNotFound)), cl_ConfigSchema = (\<lambda>g s. Inl CtlNotFound), cl_ListGames = (\<lambda>s. Inr []),
     cl_GetGame = (\<lambda>g s. Inl CtlNotFound), cl_CreateGame = (\<lambda>n a s. (s, Inl CtlNotFound)), cl_DeleteGame = (\<lambda>g s. (s, None)) \<rparr>"

definition ex_splan :: ServerPlan where
  "ex_splan = \<lparr> sp_ID = ''p1'', sp_DisplayName = ''P'', sp_Description = [], sp_PriceCents = 100, sp_DurationHours = 2562048,
     sp_ResourceCPUMilli = 0, sp_ResourceMemoryBytes = 0, sp_ResourceDiskBytes = 0, sp_MaxInstances = 1,
     sp_Basket = [\<lparr> bi_GameID = ''g'', bi_Config = [] \<rparr>], sp_Enabled = True, sp_CreateTime = 0, sp_UpdateTime = 0 \<rparr>"

definition ex_sub :: Subscription where
  "ex_sub = \<lparr> su_ID = ''s1'', su_UserID = ''u1'', su_PlanID = ''p1'', su_Status = SubscriptionActive, su_ExpiresAt = Some 10,
     su_BasketSnapshot = [\<lparr> bi_GameID = ''g'', bi_Config = [] \<rparr>], su_MaxInstances = 1, su_CreateTime = 0, su_UpdateTime = 0 \<rparr>"

definition ex_plat :: "PInstance list plat" where
  "ex_plat = \<lparr> p_users = p_users ex_pdb, p_orders = [], p_profiles = [], p_plans = [ex_splan], p_subs = [ex_sub],
     p_fault = (\<lambda>c. None), pl_ctl = [] \<rparr>"

lemmas ex_plat_simps = ex_plat_def ex_sub_def ex_splan_def ex_pdb_def ex_api_def ex_pclient_def



lemma ex_stop: "stopActiveInstances ex_api ex_sub ex_plat = (ex_plat, None)"
  by (simp add: stopActiveInstances_def ex_plat_simps)

lemma ex_overdue: "filter (overdue 11) (p_subs ex_plat) = [ex_sub]"
  by (simp add: overdue_def ex_plat_simps)

lemma ex_Save: "SubRepo_Save s ex_plat = (ex_plat\<lparr>p_subs := [s]\<rparr>, None)"
  if "su_ID s = ''s1''" "su_UserID s = ''u1''" "su_PlanID s = ''p1''" "su_MaxInstances s = 1" for s
  using that by (simp add: SubRepo_Save_def pguard_write_def tbl_put_def tbl_upd_def in_i32_def ex_plat_simps)

lemma ex_sweep: "ExpireOverdue ex_api 11 (\<lambda>sub w. w) ex_plat = (ex_plat\<lparr>p_subs := [expired_row 11 ex_sub]\<rparr>, 1, None)"
proof -
  have "SubRepo_Save (expired_row 11 ex_sub) ex_plat = (ex_plat\<lparr>p_subs := [expired_row 11 ex_sub]\<rparr>, None)"
    by (rule ex_Save) (simp_all add: expired_row_def ex_sub_def)
  moreover have "p_fault ex_plat = (\<lambda>c. None)" by (simp add: ex_plat_def)
  ultimately show ?thesis
    by (simp add: ExpireOverdue_def SubRepo_ListOverdue_def pguard_def ex_overdue ex_stop expired_row_def)
qed

theorem ExpireOverdue_result_witness:
  "\<exists>pre post. [ex_sub] = pre @ post \<and> 1 = length pre \<and> post = ([] :: Subscription list)"
  using ExpireOverdue_result[OF _ _ ex_sweep] ex_overdue by (auto simp: ex_plat_def tbl_ok_def)

lemma ex_GetPlan: "GetPlan ''p1'' ex_plat = Inr ex_splan"
  by (simp add: GetPlan_def PlanRepo_GetByID_def pguard_def pfound_def table_simps ex_plat_simps)

lemma ex_Renew: "Renew 11 (\<lambda>w. w) ''u1'' (su_ID ex_sub) ex_plat = (ex_plat\<lparr>p_subs := [renewed 11 ex_splan ex_sub]\<rparr>, Inr (renewed 11 ex_splan ex_sub))"
proof -
  have "ownSubscription ''u1'' ''s1'' ex_plat = Inr ex_sub"
    by (simp add: ownSubscription_def GetSubscription_def SubRepo_GetByID_def pguard_def pfound_def table_simps ex_plat_def ex_sub_def)
  moreover have "SubRepo_Save (renewed 11 ex_splan ex_sub) ex_plat = (ex_plat\<lparr>p_subs := [renewed 11 ex_splan ex_sub]\<rparr>, None)"
    by (rule ex_Save) (simp_all add: renewed_def Let_def ex_sub_def)
  ultimately show ?thesis using ex_GetPlan by (simp add: Renew_def save_sub_def ex_sub_def ex_splan_def)
qed

theorem sweep_loses_renewal_witness:
  "\<exists>w'. ExpireOverdue ex_api 11 (\<lambda>s v. fst (Renew 11 (\<lambda>w. w) ''u1'' ''s1'' v)) ex_plat = (w', 1, None)"
  using sweep_loses_renewal[OF _ ex_overdue _ ex_stop ex_Renew] by (auto simp: ex_plat_def tbl_ok_def ex_sub_def)

lemma ex_Purchase: "Purchase 5 ''s2'' ''u1'' ''p1'' ex_plat = (ex_plat\<lparr>p_subs := [ex_sub, new_subscription 5 ''s2'' ''u1'' ex_splan]\<rparr>,
    Inr (new_subscription 5 ''s2'' ''u1'' ex_splan))"
  using ex_GetPlan by (simp add: Purchase_def save_sub_def SubRepo_Save_def pguard_write_def tbl_put_def in_i32_def new_subscription_def ex_plat_simps)

theorem Purchase_expiry_bounds_witness:
  "overdue 5 (new_subscription 5 ''s2'' ''u1'' ex_splan)"
  using Purchase_expiry_bounds[OF ex_Purchase ex_GetPlan] by (auto simp: ex_splan_def)

definition ex_order :: Order where
  "ex_order = \<lparr> or_ID = ''o1'', or_UserID = ''u1'', or_GameID = ''g'', or_InstanceID = [], or_Amount = 1, or_Status = OrderStatusCreated,
     or_Config = [], or_CreateTime = 0, or_UpdateTime = 0 \<rparr>"

lemma ex_create: "\<exists>p. ca_Create (cl_instances ex_pclient) ''g'' [] [] [] s = (s @ [p], Inr p) \<and> pi_ID p = ''i'' @ show_nat (length s)"
  by (simp add: ex_pclient_def ex_api_def Let_def)

theorem concurrent_payment_orphans_witness:
  "\<exists>w' r. PayOrder ex_pclient 5 (\<lambda>v. fst (PayOrder ex_pclient 6 (\<lambda>v. v) ''o1'' v)) ''o1'' (ex_plat\<lparr>p_orders := [ex_order]\<rparr>) = (w', Inr r) \<and>
    or_InstanceID r = ''i0'' \<and> length (pl_ctl w') = 2"
proof -
  let ?w = "ex_plat\<lparr>p_orders := [ex_order]\<rparr>"
  obtain p1 where p1: "ca_Create (cl_instances ex_pclient) ''g'' [] [] [] [] = ([p1], Inr p1)" "pi_ID p1 = ''i'' @ show_nat 0"
    using ex_create[of "[]"] by auto
  obtain p2 where p2: "ca_Create (cl_instances ex_pclient) ''g'' [] [] [] [p1] = ([p1, p2], Inr p2)" "pi_ID p2 = ''i'' @ show_nat 1"
    using ex_create[of "[p1]"] by auto
  have o: "or_GameID ex_order = ''g''" "or_Config ex_order = []" "or_UserID ex_order = ''u1''" "or_InstanceID ex_order = []"
    "or_Status ex_order = OrderStatusCreated" "or_ID ex_order = ''o1''" by (simp_all add: ex_order_def)
  have g: "OrderRepo_GetByID ''o1'' ?w = Inr ex_order"
    by (simp add: OrderRepo_GetByID_def pguard_def pfound_def table_simps o ex_plat_def)
  have c: "pl_ctl ?w = []" "p_orders ?w = [ex_order]" "p_users ?w = p_users ex_pdb" "\<And>c. p_fault ?w c = None"
    by (simp_all add: ex_plat_def)
  have "show_nat 0 = ''0''" "show_nat (Suc 0) = ''1''" by code_simp+
  then show ?thesis
    using concurrent_payment_orphans[OF g, of ex_pclient "[p1]" p1 "[p1, p2]" p2 6 5] p1 p2 o c by (auto simp: ex_pdb_def)
qed

end
