(* ===== verification/Instance_Handlers.thy ===== *)
theory Instance_Handlers
  imports Instances Health Http
begin

text \<open>
  The controller's HTTP interface to game instances (\<open>handler/game_instance_handler.go\<close>): each
  handler decodes its request, calls the use case and turns its error into a status code.
  A handler is a function of the decoded parameters; a body that does not decode is
  \<open>Inl\<close> the error text of the binding.  Gin's router and the JSON codec are libraries.
\<close>

section \<open>Error answers\<close>

text \<open>A missing row is 404 in every handler that tests for it; the rest is \<open>other\<close>.\<close>

definition not_found_or :: "int \<Rightarrow> gerr \<Rightarrow> 'b reply" where
  "not_found_or other e =
    (if errors_is e ErrRecordNotFound then Failure 404 ''instance not found'' else Failure other (error_text e))"

definition message_reply :: "(gerr \<Rightarrow> string reply) \<Rightarrow> string \<Rightarrow> gerr option \<Rightarrow> string reply" where
  "message_reply err m r = (case r of Some e \<Rightarrow> err e | None \<Rightarrow> Success 200 m)"

section \<open>Handlers\<close>

record createGameInstanceRequest =
  cr_GameID :: string
  cr_GameBuildID :: string
  cr_Region :: string
  cr_Priority :: int
  cr_Resources :: "ResourceRequest option"
  cr_Config :: "(string \<times> string) list"
  cr_SubscriptionID :: "string option"

definition Handle_CreateGameInstance ::
  "time \<Rightarrow> string \<Rightarrow> (string \<Rightarrow> gerr + AdapterSchema) \<Rightarrow> (string \<Rightarrow> VersionSelector \<Rightarrow> gerr + AssetGameBuild option)
   \<Rightarrow> string + createGameInstanceRequest \<Rightarrow> 'a db_scheme \<Rightarrow> 'a db_scheme \<times> GameInstance reply" where
  "Handle_CreateGameInstance now ident decode asset body w =
    (case body of
       Inl t \<Rightarrow> (w, bad_body t)
     | Inr req \<Rightarrow>
        if cr_GameID req = [] then (w, Failure 400 ''game_id is required'')
        else case CreateGameInstance now ident decode asset (cr_GameID req)
               \<lparr> co_GameBuildID = cr_GameBuildID req, co_Region = cr_Region req, co_Priority = cr_Priority req,
                 co_Resources = cr_Resources req, co_Config = cr_Config req, co_SubscriptionID = cr_SubscriptionID req \<rparr> w of
           (w1, Inl e) \<Rightarrow> (w1, Failure 500 (error_text e))
         | (w1, Inr i) \<Rightarrow> (w1, Success 201 i))"

definition Handle_GetGameInstance :: "string \<Rightarrow> 'a db_scheme \<Rightarrow> GameInstance reply" where
  "Handle_GetGameInstance ident w =
    (case GetGameInstance ident w of Inl e \<Rightarrow> not_found_or 500 e | Inr i \<Rightarrow> Success 200 i)"

definition Handle_UpdateInstanceConfig ::
  "time \<Rightarrow> (string \<Rightarrow> gerr + AdapterSchema) \<Rightarrow> (string \<Rightarrow> VersionSelector \<Rightarrow> gerr + AssetGameBuild option)
   \<Rightarrow> string \<Rightarrow> string + (string \<times> string) list \<Rightarrow> 'a db_scheme \<Rightarrow> 'a db_scheme \<times> GameInstance reply" where
  "Handle_UpdateInstanceConfig now decode asset ident body w =
    (case body of
       Inl t \<Rightarrow> (w, bad_body t)
     | Inr config \<Rightarrow>
        (case UpdateInstanceConfig now decode asset ident config w of
           (w1, Inl e) \<Rightarrow> (w1, Failure 400 (error_text e))
         | (w1, Inr i) \<Rightarrow> (w1, Success 200 i)))"

definition start_error :: "gerr \<Rightarrow> string reply" where
  "start_error e =
    (if errors_is e ErrRecordNotFound then Failure 404 ''instance not found''
     else if errors_is e ErrSubscriptionConflict then Failure 409 (error_text e)
     else if errors_is e ErrStopFailure then Failure 409 (error_text e)
     else Failure 500 (error_text e))"

definition Handle_StartGameInstance ::
  "time \<Rightarrow> ('a disp_scheme \<Rightarrow> 'a disp_scheme) \<Rightarrow> string \<Rightarrow> 'a disp_scheme \<Rightarrow> 'a disp_scheme \<times> string reply" where
  "Handle_StartGameInstance now meanwhile ident w =
    map_prod id (message_reply start_error ''started'') (StartGameInstance now meanwhile ident w)"

definition Handle_StopGameInstance :: "time \<Rightarrow> string \<Rightarrow> 'a disp_scheme \<Rightarrow> 'a disp_scheme \<times> string reply" where
  "Handle_StopGameInstance now ident w =
    map_prod id (message_reply (not_found_or 500) ''stopping'') (StopGameInstance now ident w)"

text \<open>\<open>status\<close> and \<open>sub\<close> are the values of the query, empty when absent.\<close>

definition Handle_ListGameInstances :: "string \<Rightarrow> string \<Rightarrow> 'a db_scheme \<Rightarrow> GameInstance list reply" where
  "Handle_ListGameInstances status sub w =
    (let answer = (\<lambda>st. case ListGameInstances st sub w of
           Inl e \<Rightarrow> Failure 500 (error_text e) | Inr is \<Rightarrow> Success 200 is)
     in if status = [] then answer None
        else case ParseInstanceStatus status of
               None \<Rightarrow> Failure 400 (''invalid status: '' @ status)
             | Some st \<Rightarrow> answer (Some st))"

definition Handle_GetInstancePorts :: "string \<Rightarrow> 'a db_scheme \<Rightarrow> (string \<times> ContainerPortMapping list) reply" where
  "Handle_GetInstancePorts ident w =
    (case GetInstancePorts ident w of Inl e \<Rightarrow> Failure 500 (error_text e) | Inr ms \<Rightarrow> Success 200 (ident, ms))"

definition Handle_GetInstanceConnect :: "string \<Rightarrow> 'a db_scheme \<Rightarrow> InstanceConnectInfo reply" where
  "Handle_GetInstanceConnect ident w =
    (case GetInstanceConnectInfo ident w of Inl e \<Rightarrow> not_found_or 409 e | Inr ci \<Rightarrow> Success 200 ci)"

text \<open>The three bodies of the runtime statistics: not running, running without data, the cached statistics
  as they are (which have no field \<open>running\<close>).\<close>

datatype runtime_body =
    RuntimeNotRunning string
  | RuntimeUnknown string
  | RuntimeStat InstanceRuntimeStat

definition Handle_GetInstanceRuntime ::
  "RuntimeStatsRegistry option \<Rightarrow> string \<Rightarrow> 'a db_scheme \<Rightarrow> runtime_body reply" where
  "Handle_GetInstanceRuntime reg ident w =
    (case GetGameInstance ident w of
       Inl e \<Rightarrow> not_found_or 500 e
     | Inr i \<Rightarrow>
        if gi_Status i \<noteq> StatusRunning then Success 200 (RuntimeNotRunning ident)
        else (case reg of
                None \<Rightarrow> Success 200 (RuntimeUnknown ident)
              | Some r \<Rightarrow> (case Registry_Get ident r of
                             None \<Rightarrow> Success 200 (RuntimeUnknown ident)
                           | Some st \<Rightarrow> Success 200 (RuntimeStat st))))"

definition Handle_RetryGameInstance ::
  "time \<Rightarrow> ('a disp_scheme \<Rightarrow> 'a disp_scheme) \<Rightarrow> string \<Rightarrow> 'a disp_scheme \<Rightarrow> 'a disp_scheme \<times> string reply" where
  "Handle_RetryGameInstance now meanwhile ident w =
    map_prod id (message_reply (not_found_or 409) ''retrying'') (RetryGameInstance now meanwhile ident w)"

definition cancel_error :: "gerr \<Rightarrow> string reply" where
  "cancel_error e =
    (if errors_is e ErrRecordNotFound then Failure 404 ''instance not found''
     else if errors_is e ErrNotQueued then Failure 409 (error_text e)
     else Failure 500 (error_text e))"

definition Handle_CancelGameInstance :: "time \<Rightarrow> string \<Rightarrow> 'a ctl_scheme \<Rightarrow> 'a ctl_scheme \<times> string reply" where
  "Handle_CancelGameInstance now ident w =
    map_prod id (message_reply cancel_error ''cancelled'') (CancelGameInstance now ident w)"

text \<open>\<open>None\<close>: the handler blocks on the full channel of the dispatcher.\<close>

definition Handle_ForceDispatch :: "string \<Rightarrow> 'a disp_scheme \<Rightarrow> ('a disp_scheme \<times> string reply) option" where
  "Handle_ForceDispatch ident w =
    map_option (map_prod id (message_reply (not_found_or 500) ''dispatched'')) (UC_ForceDispatch ident w)"

definition Handle_DeleteGameInstance :: "string \<Rightarrow> 'a disp_scheme \<Rightarrow> 'a disp_scheme \<times> string reply" where
  "Handle_DeleteGameInstance ident w =
    map_prod id (message_reply (not_found_or 409) ''deleted'') (DeleteGameInstance ident w)"

section \<open>Status codes\<close>

lemma not_found_or_Success [simp]: "not_found_or c e \<noteq> Success d b"
  by (simp add: not_found_or_def)

lemma message_reply_Success [simp]:
  "(\<And>e. err e \<noteq> Success c b) \<Longrightarrow> message_reply err m r = Success c b \<longleftrightarrow> r = None \<and> c = 200 \<and> b = m"
  by (auto simp: message_reply_def split: option.splits)

lemma start_error_Success [simp]: "start_error e \<noteq> Success c b"
  by (simp add: start_error_def)

lemma cancel_error_Success [simp]: "cancel_error e \<noteq> Success c b"
  by (simp add: cancel_error_def)

end
