(* ===== verification/Platform_Link.thy ===== *)
theory Platform_Link
  imports Platform_Isolation Platform_Subscriptions Instance_Handlers
begin

text \<open>
  The platform's client of the controller (\<open>internal/client/controller/controller_client.go\<close>) put
  together with the controller's own handlers and use cases: the functions of \<open>ctl_api\<close> as HTTP
  calls on the controller's state.  They satisfy the contract \<open>subscription_controller\<close>, so what
  holds under it holds of the two services together.
\<close>

section \<open>The wire\<close>

text \<open>What the network does to a call: the request never arrives, or its answer is lost after the
  controller has worked.  \<open>wi_json_error\<close> is the body gin writes for an error text.\<close>

datatype net_fault = Unreachable string | ResponseLost string

record wire =
  wi_fault :: "string \<Rightarrow> string \<Rightarrow> net_fault option"
  wi_json_error :: "string \<Rightarrow> string"

definition request_error :: "string \<Rightarrow> string \<Rightarrow> string \<Rightarrow> perr" where
  "request_error m p t = PWrapped (''request controller '' @ m @ '' '' @ p @ '': '') (PErrorf t) []"

text \<open>An answer from 300 on is an error; 404 and 409 are wrapped in their sentinels.  At most 4096
  bytes of the body are read.\<close>

definition status_error :: "wire \<Rightarrow> string \<Rightarrow> string \<Rightarrow> int \<Rightarrow> string \<Rightarrow> perr" where
  "status_error W m p code t =
    (let text = ''controller '' @ m @ '' '' @ p @ '' returned '' @ show_int code @ '': '' @ take 4096 (wi_json_error W t)
     in if code = 404 then PWrapped [] CtlNotFound ('': '' @ text)
        else if code = 409 then PWrapped [] CtlConflict ('': '' @ text)
        else PErrorf text)"

definition client_do ::
  "wire \<Rightarrow> string \<Rightarrow> string \<Rightarrow> ('s \<Rightarrow> 's \<times> 'b reply) \<Rightarrow> ('b \<Rightarrow> 'c) \<Rightarrow> 's \<Rightarrow> 's \<times> (perr + 'c)" where
  "client_do W m p handler decode s =
    (case wi_fault W m p of
       Some (Unreachable t) \<Rightarrow> (s, Inl (request_error m p t))
     | Some (ResponseLost t) \<Rightarrow> (fst (handler s), Inl (request_error m p t))
     | None \<Rightarrow> (case handler s of
                 (s1, Failure code t) \<Rightarrow> (s1, Inl (status_error W m p code t))
               | (s1, Success code b) \<Rightarrow> (s1, Inr (decode b))))"

definition no_body :: "'s \<times> (perr + 'c) \<Rightarrow> 's \<times> perr option" where
  "no_body r = map_prod id (\<lambda>x. case x of Inl e \<Rightarrow> Some e | Inr y \<Rightarrow> None) r"

text \<open>A request that only reads.\<close>

definition reading :: "('s \<Rightarrow> 'b reply) \<Rightarrow> 's \<Rightarrow> 's \<times> 'b reply" where
  "reading h s = (s, h s)"

section \<open>Decoding\<close>

text \<open>The controller's rows as the platform's structs: the JSON of a state is its text.\<close>

definition decode_instance :: "GameInstance \<Rightarrow> PInstance" where
  "decode_instance g = \<lparr> pi_ID = gi_ID g, pi_GameID = gi_GameID g, pi_NodeAgentID = gi_NodeAgentID g,
     pi_Status = status_String (gi_Status g), pi_GameBuildId = gi_GameBuildId g, pi_FailReason = gi_FailReason g,
     pi_SubscriptionID = gi_SubscriptionID g \<rparr>"

text \<open>A field the body does not have is its zero value: the cached statistics have no \<open>running\<close>.\<close>

definition decode_runtime :: "runtime_body \<Rightarrow> PRuntime" where
  "decode_runtime b =
    (let zero = \<lparr> pr_InstanceID = [], pr_Running = False, pr_PlayerCount = 0, pr_MaxPlayers = 0, pr_Healthy = False,
                  pr_ProbeMode = [], pr_ProbeError = [], pr_SampledAt = [] \<rparr>
     in case b of
          RuntimeNotRunning i \<Rightarrow> zero\<lparr>pr_InstanceID := i\<rparr>
        | RuntimeUnknown i \<Rightarrow> zero\<lparr>pr_InstanceID := i, pr_Running := True, pr_ProbeMode := ''unknown''\<rparr>
        | RuntimeStat st \<Rightarrow> zero\<lparr>pr_InstanceID := ir_InstanceID st, pr_PlayerCount := ir_PlayerCount st,
            pr_MaxPlayers := ir_MaxPlayers st, pr_Healthy := ir_Healthy st, pr_ProbeMode := ir_ProbeMode st,
            pr_ProbeError := ir_ProbeError st, pr_SampledAt := ir_SampledAt st\<rparr>)"

section \<open>The client\<close>

text \<open>What the two services run with: the network, the clock of the call, the identifier the controller draws for its next
  instance, its schema decoder and asset service, and its cache of runtime statistics.\<close>

record 'a link =
  lk_wire :: wire
  lk_now :: time
  lk_ident :: "'a \<Rightarrow> string"
  lk_decode :: "string \<Rightarrow> gerr + AdapterSchema"
  lk_asset :: "string \<Rightarrow> VersionSelector \<Rightarrow> gerr + AssetGameBuild option"
  lk_registry :: "RuntimeStatsRegistry option"

definition instances_path :: "string \<Rightarrow> string" where
  "instances_path rest = ''/api/game-instances'' @ rest"

definition Client_CreateGameInstance ::
  "'a disp_scheme link \<Rightarrow> string \<Rightarrow> string \<Rightarrow> string \<Rightarrow> config_map \<Rightarrow> 'a disp_scheme \<Rightarrow> 'a disp_scheme \<times> (perr + PInstance)" where
  "Client_CreateGameInstance L game build sub config =
    client_do (lk_wire L) ''POST'' (instances_path [])
      (\<lambda>s. Handle_CreateGameInstance (lk_now L) (lk_ident L s) (lk_decode L) (lk_asset L)
        (Inr \<lparr> cr_GameID = game, cr_GameBuildID = build, cr_Region = [], cr_Priority = 0, cr_Resources = None,
               cr_Config = config, cr_SubscriptionID = (if sub = [] then None else Some sub) \<rparr>) s)
      decode_instance"

definition Client_GetGameInstance :: "'a disp_scheme link \<Rightarrow> string \<Rightarrow> 'a disp_scheme \<Rightarrow> perr + PInstance" where
  "Client_GetGameInstance L i s =
    snd (client_do (lk_wire L) ''GET'' (instances_path (''/'' @ i)) (reading (Handle_GetGameInstance i)) decode_instance s)"

definition Client_StartGameInstance :: "'a disp_scheme link \<Rightarrow> string \<Rightarrow> 'a disp_scheme \<Rightarrow> 'a disp_scheme \<times> perr option" where
  "Client_StartGameInstance L i s =
    no_body (client_do (lk_wire L) ''POST'' (instances_path (''/'' @ i @ ''/start'')) (Handle_StartGameInstance (lk_now L) (\<lambda>u. u) i) id s)"

definition Client_StopGameInstance :: "'a disp_scheme link \<Rightarrow> string \<Rightarrow> 'a disp_scheme \<Rightarrow> 'a disp_scheme \<times> perr option" where
  "Client_StopGameInstance L i s =
    no_body (client_do (lk_wire L) ''POST'' (instances_path (''/'' @ i @ ''/stop'')) (Handle_StopGameInstance (lk_now L) i) id s)"

definition Client_ListBySubscription :: "'a disp_scheme link \<Rightarrow> string \<Rightarrow> 'a disp_scheme \<Rightarrow> perr + PInstance list" where
  "Client_ListBySubscription L k s =
    snd (client_do (lk_wire L) ''GET'' (instances_path (''?subscription_id='' @ k)) (reading (Handle_ListGameInstances [] k))
      (map decode_instance) s)"

definition Client_GetInstanceRuntime :: "'a disp_scheme link \<Rightarrow> string \<Rightarrow> 'a disp_scheme \<Rightarrow> perr + PRuntime" where
  "Client_GetInstanceRuntime L i s =
    snd (client_do (lk_wire L) ''GET'' (instances_path (''/'' @ i @ ''/runtime''))
      (reading (Handle_GetInstanceRuntime (lk_registry L) i)) decode_runtime s)"

definition Client_UpdateInstanceConfig ::
  "'a disp_scheme link \<Rightarrow> string \<Rightarrow> config_map \<Rightarrow> 'a disp_scheme \<Rightarrow> 'a disp_scheme \<times> (perr + PInstance)" where
  "Client_UpdateInstanceConfig L i config =
    client_do (lk_wire L) ''PUT'' (instances_path (''/'' @ i @ ''/config''))
      (Handle_UpdateInstanceConfig (lk_now L) (lk_decode L) (lk_asset L) i (Inr config)) decode_instance"

definition Client_GetInstanceConnect :: "'a disp_scheme link \<Rightarrow> string \<Rightarrow> 'a disp_scheme \<Rightarrow> perr + PConnect" where
  "Client_GetInstanceConnect L i s =
    snd (client_do (lk_wire L) ''GET'' (instances_path (''/'' @ i @ ''/connect'')) (reading (Handle_GetInstanceConnect i))
      (\<lambda>ci. \<lparr> pc_NodeIP = ci_NodeIP ci, pc_GameHostPort = ci_GameHostPort ci, pc_GamePort = ci_GamePort ci,
             pc_Protocol = ci_Protocol ci \<rparr>) s)"

definition controller_api :: "'a disp_scheme link \<Rightarrow> 'a disp_scheme ctl_api" where
  "controller_api L = \<lparr> ca_Create = Client_CreateGameInstance L, ca_Get = Client_GetGameInstance L,
     ca_Start = Client_StartGameInstance L, ca_Stop = Client_StopGameInstance L, ca_List = Client_ListBySubscription L,
     ca_Runtime = Client_GetInstanceRuntime L \<rparr>"

section \<open>The contract holds\<close>

definition instances_of :: "'a db_scheme \<Rightarrow> PInstance list" where
  "instances_of w = map decode_instance (t_instances w)"

definition instances_ok :: "'a db_scheme \<Rightarrow> bool" where
  "instances_ok w \<longleftrightarrow> tbl_ok gi_ID (t_instances w)"

lemma decode_instance_simps [simp]:
  "pi_ID (decode_instance g) = gi_ID g" "pi_GameID (decode_instance g) = gi_GameID g"
  "pi_SubscriptionID (decode_instance g) = gi_SubscriptionID g" "pi_Status (decode_instance g) = status_String (gi_Status g)"
  by (simp_all add: decode_instance_def)

lemma Inr_client_do:
  "client_do W m p h d s = (s1, Inr x) \<longleftrightarrow> wi_fault W m p = None \<and> (\<exists>c b. h s = (s1, Success c b) \<and> x = d b)"
  by (auto simp: client_do_def split: option.splits net_fault.splits prod.splits reply.splits)

lemma snd_client_do_reading:
  "snd (client_do W m p (reading h) d s) = Inr x \<longleftrightarrow> wi_fault W m p = None \<and> (\<exists>c b. h s = Success c b \<and> x = d b)"
  by (auto simp: client_do_def reading_def split: option.splits net_fault.splits reply.splits)

lemma fst_client_do: "fst (client_do W m p h d s) = s \<or> fst (client_do W m p h d s) = fst (h s)"
  by (auto simp: client_do_def split: option.splits net_fault.splits prod.splits reply.splits)

lemma fst_no_body [simp]: "fst (no_body r) = fst r"
  by (simp add: no_body_def)

lemma RequestDispatch_instances [simp]: "t_instances (fst (RequestDispatch i w)) = t_instances w"
  by (simp add: RequestDispatch_def)

text \<open>A row replaced by one with the same owner.\<close>

definition instance_owner :: "GameInstance \<Rightarrow> string \<times> string \<times> string option" where
  "instance_owner g = (gi_ID g, gi_GameID g, gi_SubscriptionID g)"

lemma instance_owner_simps [simp]:
  "fst (instance_owner g) = gi_ID g" "snd (snd (instance_owner g)) = gi_SubscriptionID g"
  "owner (decode_instance g) = instance_owner g"
  by (simp_all add: instance_owner_def owner_def decode_instance_def)

lemma keeps_tbl_put:
  assumes "tbl_ok gi_ID rows" "g \<in> set rows" "instance_owner g' = instance_owner g"
  shows "tbl_ok gi_ID (tbl_put gi_ID g' rows) \<and> keeps_rows instance_owner {gi_ID g} rows (tbl_put gi_ID g' rows)"
proof -
  have "gi_ID g' = gi_ID g" using assms(3) by (simp add: instance_owner_def)
  then have "tbl_put gi_ID g' rows = map (\<lambda>x. if x = g then g' else x) rows"
    using tbl_put_map[OF assms(1,2)] by simp
  then show ?thesis using assms tbl_ok_put[OF assms(1), of g']
    by (auto simp: keeps_rows_def list_all2_map2 list_all2_same)
qed

lemma keeps_tbl_upd:
  assumes "tbl_ok gi_ID rows" "\<And>g. instance_owner (f g) = instance_owner g"
  shows "tbl_ok gi_ID (tbl_upd (\<lambda>g. gi_ID g = i) f rows) \<and>
    keeps_rows instance_owner {i} rows (tbl_upd (\<lambda>g. gi_ID g = i) f rows)"
proof -
  have "map gi_ID (tbl_upd (\<lambda>g. gi_ID g = i) f rows) = map gi_ID rows"
    using assms(2) by (auto simp: tbl_upd_def instance_owner_def)
  then have "tbl_ok gi_ID (tbl_upd (\<lambda>g. gi_ID g = i) f rows)" using assms(1) by (simp only: tbl_ok_def)
  then show ?thesis using assms(2)
    by (auto simp: keeps_rows_def list_all2_map2 list_all2_same tbl_upd_def)
qed

lemma Save_rows:
  "t_instances (fst (InstanceRepo_Save now i w)) = t_instances w \<or>
   t_instances (fst (InstanceRepo_Save now i w)) = tbl_put gi_ID (i\<lparr>gi_UpdateTime := now\<rparr>) (t_instances w)"
  by (auto simp: InstanceRepo_Save_def Let_def split: option.splits)

lemma GetByID_row: "InstanceRepo_GetByID i w = Inr g \<Longrightarrow> g \<in> set (t_instances w) \<and> gi_ID g = i"
  by (auto simp: InstanceRepo_GetByID_def dest: tbl_find_SomeD)

lemma Start_keeps:
  assumes "instances_ok w"
  shows "instances_ok (fst (StartGameInstance now (\<lambda>u. u) i w)) \<and>
    keeps_rows instance_owner {i} (t_instances w) (t_instances (fst (StartGameInstance now (\<lambda>u. u) i w)))"
proof -
  have "t_instances (fst (StartGameInstance now (\<lambda>u. u) i w)) = t_instances w \<or>
    (\<exists>g. InstanceRepo_GetByID i w = Inr g \<and> t_instances (fst (StartGameInstance now (\<lambda>u. u) i w)) =
       t_instances (fst (InstanceRepo_Save now (g\<lparr>gi_Status := StatusPending, gi_FailReason := [], gi_LastPendingTime := now\<rparr>) w)))"
    by (auto simp: StartGameInstance_def to_pending_def split: sum.splits option.splits prod.splits)
  then show ?thesis
  proof (elim disjE exE conjE)
    fix g :: GameInstance
    let ?g = "g\<lparr>gi_Status := StatusPending, gi_FailReason := [], gi_LastPendingTime := now, gi_UpdateTime := now\<rparr>"
    assume g: "InstanceRepo_GetByID i w = Inr g" and t: "t_instances (fst (StartGameInstance now (\<lambda>u. u) i w)) =
       t_instances (fst (InstanceRepo_Save now (g\<lparr>gi_Status := StatusPending, gi_FailReason := [], gi_LastPendingTime := now\<rparr>) w))"
    have "instance_owner ?g = instance_owner g" by (simp add: instance_owner_def)
    from keeps_tbl_put[OF assms[unfolded instances_ok_def] conjunct1[OF GetByID_row[OF g]] this] show ?thesis
      using t Save_rows[of now "g\<lparr>gi_Status := StatusPending, gi_FailReason := [], gi_LastPendingTime := now\<rparr>" w]
        assms GetByID_row[OF g] by (auto simp: instances_ok_def)
  qed (use assms in \<open>simp add: instances_ok_def\<close>)
qed

lemma Stop_keeps:
  assumes "instances_ok w"
  shows "instances_ok (fst (StopGameInstance now i w)) \<and> keeps_rows instance_owner {i} (t_instances w) (t_instances (fst (StopGameInstance now i w)))"
proof -
  have "t_instances (fst (StopGameInstance now i w)) = t_instances w \<or>
    t_instances (fst (StopGameInstance now i w)) =
      tbl_upd (\<lambda>r. gi_ID r = i) (\<lambda>r. r\<lparr>gi_Status := StatusStopping, gi_UpdateTime := now\<rparr>) (t_instances w)"
  proof (cases "InstanceRepo_GetByID i w")
    case (Inr g)
    have "t_instances (fst (InstanceRepo_UpdateStatus now (g\<lparr>gi_Status := StatusStopping\<rparr>) w)) = t_instances w \<or>
      t_instances (fst (InstanceRepo_UpdateStatus now (g\<lparr>gi_Status := StatusStopping\<rparr>) w)) =
      tbl_upd (\<lambda>r. gi_ID r = i) (\<lambda>r. r\<lparr>gi_Status := StatusStopping, gi_UpdateTime := now\<rparr>) (t_instances w)"
      using GetByID_row[OF Inr] by (auto simp: InstanceRepo_UpdateStatus_def Let_def split: option.splits)
    then show ?thesis using Inr by (auto simp: StopGameInstance_def Let_def split: prod.splits option.splits) 
  qed (simp add: StopGameInstance_def)
  then show ?thesis
    using assms keeps_tbl_upd[of "t_instances w" "\<lambda>r. r\<lparr>gi_Status := StatusStopping, gi_UpdateTime := now\<rparr>" i]
    by (auto simp: instances_ok_def instance_owner_def)
qed

lemma create_end:
  "fst (case rejected of Some e \<Rightarrow> (w, Inl e) | None \<Rightarrow> (case InstanceRepo_Save now g w of
      (w1, i, Some e) \<Rightarrow> (w1, Inl e) | (w1, i, None) \<Rightarrow> (w1, Inr i))) \<in> {w, fst (InstanceRepo_Save now g w)}"
  by (auto split: option.splits prod.splits)

lemma Create_keeps:
  assumes "instances_ok w"
  shows "instances_ok (fst (CreateGameInstance now ident decode asset game opts w)) \<and>
    (t_instances (fst (CreateGameInstance now ident decode asset game opts w)) = t_instances w \<or>
     (\<exists>g. instance_owner g = (ident, game, co_SubscriptionID opts) \<and>
        t_instances (fst (CreateGameInstance now ident decode asset game opts w)) = tbl_put gi_ID g (t_instances w)))"
proof -
  have "t_instances (fst (CreateGameInstance now ident decode asset game opts w)) = t_instances w \<or>
    (\<exists>g. gi_ID g = ident \<and> gi_GameID g = game \<and> gi_SubscriptionID g = co_SubscriptionID opts \<and>
       t_instances (fst (CreateGameInstance now ident decode asset game opts w)) = tbl_put gi_ID g (t_instances w))"
  proof (cases "game = [] \<or> (\<exists>e. resolveBuild asset game (co_GameBuildID opts) = Inl e)")
    case True
    then show ?thesis by (auto simp: CreateGameInstance_def)
  next
    case False
    then obtain build where b: "game \<noteq> []" "resolveBuild asset game (co_GameBuildID opts) = Inr build"
      by (cases "resolveBuild asset game (co_GameBuildID opts)") auto
    have "\<exists>g. gi_ID g = ident \<and> gi_GameID g = game \<and> gi_SubscriptionID g = co_SubscriptionID opts \<and>
        fst (CreateGameInstance now ident decode asset game opts w) \<in> {w, fst (InstanceRepo_Save now g w)}"
      using b unfolding CreateGameInstance_def Let_def
      by (simp only: if_False sum.case) (intro exI conjI; (rule create_end)?; simp)
    then obtain g where g: "gi_ID g = ident" "gi_GameID g = game" "gi_SubscriptionID g = co_SubscriptionID opts"
        "fst (CreateGameInstance now ident decode asset game opts w) \<in> {w, fst (InstanceRepo_Save now g w)}" by blast
    then show ?thesis using Save_rows[of now g w]
      by (auto intro!: exI[of _ "g\<lparr>gi_UpdateTime := now\<rparr>"])
  qed
  then show ?thesis
  proof (elim disjE exE conjE)
    fix g :: GameInstance
    assume "gi_ID g = ident" "gi_GameID g = game" "gi_SubscriptionID g = co_SubscriptionID opts"
      "t_instances (fst (CreateGameInstance now ident decode asset game opts w)) = tbl_put gi_ID g (t_instances w)"
    then show ?thesis using assms tbl_ok_put[of gi_ID "t_instances w" g]
      by (auto simp: instances_ok_def instance_owner_def)
  qed (use assms in \<open>simp add: instances_ok_def\<close>)
qed

lemma Inr_Get_row:
  "Client_GetGameInstance L i s = Inr p \<Longrightarrow> pi_ID p = i \<and> (\<exists>g \<in> set (t_instances s). p = decode_instance g)"
  by (auto simp: Client_GetGameInstance_def snd_client_do_reading Handle_GetGameInstance_def GetGameInstance_def
      dest: GetByID_row split: sum.splits)

lemma List_rows:
  assumes "k \<noteq> []" "Client_ListBySubscription L k s = Inr ps"
  shows "mset ps = mset (filter (\<lambda>p. pi_SubscriptionID p = Some k) (instances_of s))"
proof -
  have "ps = map decode_instance (sort_key gi_CreateTime (filter (\<lambda>r. gi_SubscriptionID r = Some k) (t_instances s)))"
    using assms by (auto simp: Client_ListBySubscription_def snd_client_do_reading Handle_ListGameInstances_def
        ListGameInstances_def InstanceRepo_ListBySubscription_def split: sum.splits)
  moreover have "mset (map decode_instance (sort_key gi_CreateTime rows)) = mset (map decode_instance rows)" for rows
    by simp
  ultimately show ?thesis by (simp add: instances_of_def filter_map o_def)
qed

lemma Start_handler: "fst (Handle_StartGameInstance now m i s) = fst (StartGameInstance now m i s)"
  by (simp add: Handle_StartGameInstance_def)

lemma Stop_handler: "fst (Handle_StopGameInstance now i s) = fst (StopGameInstance now i s)"
  by (simp add: Handle_StopGameInstance_def)

lemma Create_handler:
  "fst (Handle_CreateGameInstance now ident decode asset (Inr r) s) = s \<or>
   fst (Handle_CreateGameInstance now ident decode asset (Inr r) s) =
     fst (CreateGameInstance now ident decode asset (cr_GameID r) \<lparr> co_GameBuildID = cr_GameBuildID r, co_Region = cr_Region r,
       co_Priority = cr_Priority r, co_Resources = cr_Resources r, co_Config = cr_Config r, co_SubscriptionID = cr_SubscriptionID r \<rparr> s)"
  by (auto simp: Handle_CreateGameInstance_def split: prod.splits sum.splits)

interpretation sc: subscription_controller "controller_api L" instance_owner t_instances "lk_ident L" instances_ok
  for L :: "'a disp_scheme link"
proof unfold_locales
  fix s :: "'a disp_scheme" and i k game build config p ps
  assume ok: "instances_ok s"
  show "ca_Get (controller_api L) i s = Inr p \<Longrightarrow> pi_ID p = i \<and> (\<exists>x \<in> set (t_instances s). instance_owner x = owner p)"
    using Inr_Get_row[of L i s p] by (auto simp: controller_api_def)
  show "k \<noteq> [] \<Longrightarrow> ca_List (controller_api L) k s = Inr ps \<Longrightarrow>
      mset (map owner ps) = mset (map instance_owner (filter (\<lambda>x. snd (snd (instance_owner x)) = Some k) (t_instances s)))"
  proof -
    assume "k \<noteq> []" "ca_List (controller_api L) k s = Inr ps"
    then have "mset ps = mset (filter (\<lambda>p. pi_SubscriptionID p = Some k) (instances_of s))"
      using List_rows[of k L s ps] by (simp add: controller_api_def)
    from arg_cong[OF this, of "image_mset owner"] show ?thesis
      by (simp add: instances_of_def filter_map o_def multiset.map_comp flip: mset_filter mset_map)
  qed
  show "instances_ok (fst (ca_Start (controller_api L) i s)) \<and>
      keeps_rows instance_owner {i} (t_instances s) (t_instances (fst (ca_Start (controller_api L) i s)))"
    using Start_keeps[OF ok, of "lk_now L" i] ok
      fst_client_do[of "lk_wire L" "''POST''" "instances_path (''/'' @ i @ ''/start'')" "Handle_StartGameInstance (lk_now L) (\<lambda>u. u) i" id s]
    by (auto simp: controller_api_def Client_StartGameInstance_def Start_handler)
  show "instances_ok (fst (ca_Stop (controller_api L) i s)) \<and>
      keeps_rows instance_owner {i} (t_instances s) (t_instances (fst (ca_Stop (controller_api L) i s)))"
    using Stop_keeps[OF ok, of "lk_now L" i] ok
      fst_client_do[of "lk_wire L" "''POST''" "instances_path (''/'' @ i @ ''/stop'')" "Handle_StopGameInstance (lk_now L) i" id s]
    by (auto simp: controller_api_def Client_StopGameInstance_def Stop_handler)
  let ?req = "\<lparr> cr_GameID = game, cr_GameBuildID = build, cr_Region = [], cr_Priority = 0, cr_Resources = None,
               cr_Config = config, cr_SubscriptionID = (if k = [] then None else Some k) \<rparr>"
  show "instances_ok (fst (ca_Create (controller_api L) game build k config s)) \<and>
      (t_instances (fst (ca_Create (controller_api L) game build k config s)) = t_instances s \<or>
       (\<exists>x. instance_owner x = (lk_ident L s, game, if k = [] then None else Some k) \<and>
          t_instances (fst (ca_Create (controller_api L) game build k config s)) =
            tbl_put (\<lambda>y. fst (instance_owner y)) x (t_instances s)))"
  proof -
    have "fst (ca_Create (controller_api L) game build k config s) = s \<or>
        fst (ca_Create (controller_api L) game build k config s) =
        fst (Handle_CreateGameInstance (lk_now L) (lk_ident L s) (lk_decode L) (lk_asset L) (Inr ?req) s)"
      unfolding controller_api_def Client_CreateGameInstance_def ctl_api.simps
      using fst_client_do[of "lk_wire L" "''POST''" "instances_path []"
          "\<lambda>s. Handle_CreateGameInstance (lk_now L) (lk_ident L s) (lk_decode L) (lk_asset L) (Inr ?req) s" decode_instance s]
      by simp
    then show ?thesis
      using Create_handler[of "lk_now L" "lk_ident L s" "lk_decode L" "lk_asset L" ?req s] ok
        Create_keeps[OF ok, of "lk_now L" "lk_ident L s" "lk_decode L" "lk_asset L" game
          "\<lparr> co_GameBuildID = build, co_Region = [], co_Priority = 0, co_Resources = None, co_Config = config,
             co_SubscriptionID = (if k = [] then None else Some k) \<rparr>"]
      by auto
  qed
  show "tbl_ok (\<lambda>y. fst (instance_owner y)) (t_instances s)" using ok by (simp add: instances_ok_def)
qed

section \<open>Isolation and quota\<close>

text \<open>C7: A user's requests reach only what is his: a request under \<open>/api/me/subscriptions\<close>, authenticated as \<open>uid\<close>, leaves the
  users, plans, orders and profiles as they are, every subscription of another user and every row of the
  controller's table of instances that no subscription of \<open>uid\<close> owns, with all its columns; only a new
  row can appear, under the identifier drawn for it.  Without a valid token nothing changes at all.\<close>

theorem me_requests_isolated:
  assumes "instances_ok (pl_ctl w)" "tbl_ok su_ID (p_subs w)"
    and "\<And>uid role. authenticate J tm now header = Inr (uid, role) \<Longrightarrow> uid \<noteq> []"
  shows "case authenticate J tm now header of
      Inl t \<Rightarrow> me_route J tm (controller_api L) now header r w = (w, Failure 401 t)
    | Inr (uid, role) \<Rightarrow> untouched instance_owner t_instances (lk_ident L) uid r w (fst (me_route J tm (controller_api L) now header r w))"
  using sc.me_handler_untouched[where w = w and L = L, OF assms(1,2)] assms(3)
  by (auto simp: me_route_def AuthRequired_def split: sum.splits)

text \<open>C22: The quota of a subscription holds in the controller's own table: a creation of an instance, through the
  client and whatever the wire does to the answer, either leaves the table of instances as it is, or
  afterwards at most as many of its rows belong to the subscription as the quota of the subscription allows.
  The count is taken on the controller before the creation, so this is about one creation at a time.\<close>

theorem CreateInstance_respects_quota:
  assumes "instances_ok (pl_ctl w)" "ownSubscription uid k w = Inr sub" "0 < su_MaxInstances sub"
    and "CreateInstance (controller_api L) now uid k game config w = (w', r)"
  shows "t_instances (pl_ctl w') = t_instances (pl_ctl w) \<or>
    int (length (filter (\<lambda>g. gi_SubscriptionID g = Some k) (t_instances (pl_ctl w')))) \<le> su_MaxInstances sub"
  using sc.CreateInstance_count[OF assms(1,2,3) refl, where L = L and now = now and game = game and config = config] assms(4)
  by (auto simp: instance_owner_def)

section \<open>The sweep meets a queued instance\<close>

lemma Stop_refused:
  assumes "instances_ok s" "p \<in> set (instances_of s)" "pi_Status p \<notin> {''running'', ''failed''}"
  shows "snd (ca_Stop (controller_api L) (pi_ID p) s) \<noteq> None"
proof -
  obtain g where g: "g \<in> set (t_instances s)" "p = decode_instance g" using assms(2) by (auto simp: instances_of_def)
  have "tbl_find gi_ID (gi_ID g) (t_instances s) = Some g"
    using assms(1) g(1) by (simp add: instances_ok_def tbl_find_mem)
  moreover have "gi_Status g \<noteq> StatusRunning" "gi_Status g \<noteq> Failed" using assms(3) g(2) by auto
  ultimately have "snd (StopGameInstance now (gi_ID g) s) \<noteq> None" for now
    by (auto simp: StopGameInstance_def IsStopFailure_def InstanceRepo_GetByID_def guard_call_def found_def split: option.splits)
  then obtain e where "snd (StopGameInstance (lk_now L) (gi_ID g) s) = Some e" by blast
  then have "\<exists>code t. snd (Handle_StopGameInstance (lk_now L) (gi_ID g) s) = Failure code t"
    by (auto simp: Handle_StopGameInstance_def message_reply_def not_found_or_def)
  then show ?thesis using g(2)
    by (auto simp: controller_api_def Client_StopGameInstance_def no_body_def client_do_def
        split: option.splits net_fault.splits prod.splits reply.splits)
qed

lemma stop_each_refused:
  assumes "instances_ok s" "p \<in> set (instances_of s)" "pi_Status p \<notin> {''stopped'', ''running'', ''failed''}" "p \<in> set ps"
  shows "snd (stop_each (controller_api L) ps s) \<noteq> None"
  using assms
proof (induction ps arbitrary: s)
  case (Cons q ps)
  let ?api = "controller_api L"
  show ?case
  proof (cases "q = p")
    case True
    then have "snd (ca_Stop ?api (pi_ID p) s) \<noteq> None" using Stop_refused Cons.prems by blast
    then show ?thesis using True Cons.prems(3) by (auto split: prod.splits)
  next
    case False
    then have p: "p \<in> set ps" using Cons.prems(4) by simp
    show ?thesis
    proof (cases "pi_Status q = ''stopped'' \<or> pi_Status q = ''failed''")
      case True
      then show ?thesis using Cons p by auto
    next
      case False
      obtain s1 e where s1: "ca_Stop ?api (pi_ID q) s = (s1, e)" by (cases "ca_Stop ?api (pi_ID q) s")
      show ?thesis
      proof (cases "e = None")
        case False2: False
        then show ?thesis using s1 False by (auto split: prod.splits)
      next
        case True
        have ne: "pi_ID p \<noteq> pi_ID q"
          using Stop_refused[OF Cons.prems(1,2), of L] Cons.prems(3) s1 True by auto
        have k: "instances_ok s1" "keeps_rows instance_owner {pi_ID q} (t_instances s) (t_instances s1)"
          using sc.Stop[OF Cons.prems(1), of L "pi_ID q"] s1 by auto
        obtain g where g: "g \<in> set (t_instances s)" "p = decode_instance g" using Cons.prems(2) by (auto simp: instances_of_def)
        then have "g \<in> set (t_instances s1)"
          using k(2) ne unfolding keeps_rows_def list_all2_conv_all_nth in_set_conv_nth by auto
        then have "p \<in> set (instances_of s1)" using g(2) by (simp add: instances_of_def)
        then have "snd (stop_each ?api ps s1) \<noteq> None" using Cons.IH k(1) Cons.prems(3) p by blast
        then show ?thesis using s1 False True by (auto split: prod.splits option.splits)
      qed
    qed
  qed
qed simp

text \<open>C33: One instance the controller does not let stop (queued, pending, starting: only running ones and failed stops can be)
  ends the whole sweep: when the first overdue subscription has such an instance, the sweep expires
  nothing, neither this subscription nor any later one, whatever the others' instances are.\<close>

theorem queued_instance_blocks_sweep:
  assumes "instances_ok (pl_ctl w)" "filter (overdue now) (p_subs w) = sub # rest" "su_ID sub \<noteq> []"
    and "p \<in> set (instances_of (pl_ctl w))" "pi_SubscriptionID p = Some (su_ID sub)"
    and "pi_Status p \<notin> {''stopped'', ''running'', ''failed''}"
  shows "\<exists>w' e. ExpireOverdue (controller_api L) now (\<lambda>s w. w) w = (w', 0, Some e) \<and> p_subs w' = p_subs w"
proof -
  obtain s e where st: "stopActiveInstances (controller_api L) sub w = (w\<lparr>pl_ctl := s\<rparr>, e)"
    using stopActive_ctl[of "controller_api L" sub w] by (cases "stopActiveInstances (controller_api L) sub w") auto
  have "e \<noteq> None"
  proof (cases "ca_List (controller_api L) (su_ID sub) (pl_ctl w)")
    case (Inr ps)
    have "mset ps = mset (filter (\<lambda>p. pi_SubscriptionID p = Some (su_ID sub)) (instances_of (pl_ctl w)))"
      using List_rows[OF assms(3)] Inr by (simp add: controller_api_def)
    then have "p \<in> set ps" using assms(4,5) by (metis (mono_tags, lifting) mem_Collect_eq set_filter set_mset_mset)
    then have "snd (stop_each (controller_api L) ps (pl_ctl w)) \<noteq> None" using stop_each_refused[OF assms(1,4,6)] by blast
    then show ?thesis using st Inr by (auto simp: stopActiveInstances_def split: prod.splits)
  qed (use st in \<open>auto simp: stopActiveInstances_def\<close>)
  then show ?thesis using st assms(2)
    by (auto simp: ExpireOverdue_def SubRepo_ListOverdue_def pguard_def split: option.splits)
qed

section \<open>The runtime statistics\<close>

text \<open>The runtime view of a running instance contradicts itself: as soon as the controller has statistics of it, the platform
  answers \<open>running = false\<close> with the live player count (the cached statistics are sent without the
  field), while without statistics it answers \<open>running = true\<close>.\<close>

theorem runtime_of_running_instance:
  assumes "InstanceRepo_GetByID i s = Inr g" "gi_Status g = StatusRunning" "\<forall>m p. wi_fault (lk_wire L) m p = None"
  shows "\<exists>rt. ca_Runtime (controller_api L) i s = Inr rt \<and>
    (case lk_registry L of
       None \<Rightarrow> pr_Running rt
     | Some reg \<Rightarrow> (case Registry_Get i reg of None \<Rightarrow> pr_Running rt
         | Some st \<Rightarrow> \<not> pr_Running rt \<and> pr_PlayerCount rt = ir_PlayerCount st \<and> pr_Healthy rt = ir_Healthy st))"
  using assms
  by (auto simp: controller_api_def Client_GetInstanceRuntime_def snd_client_do_reading Handle_GetInstanceRuntime_def
      GetGameInstance_def decode_runtime_def Let_def split: option.splits)

section \<open>Examples\<close>

definition ex_link :: "disp link" where
  "ex_link = \<lparr> lk_wire = \<lparr> wi_fault = (\<lambda>m p. None), wi_json_error = (\<lambda>t. t) \<rparr>, lk_now = 5, lk_ident = (\<lambda>s. ''i9''),
     lk_decode = (\<lambda>t. Inl (Errorf [])), lk_asset = (\<lambda>g v. Inl (Errorf [])),
     lk_registry = Some \<lparr> rr_stats = [(''i1'', \<lparr> ir_InstanceID = ''i1'', ir_PlayerCount = 3, ir_MaxPlayers = 8, ir_Healthy = True,
       ir_ProbeMode = ''a2s'', ir_ProbeError = [], ir_SampledAt = [] \<rparr>)], rr_nodes = [] \<rparr> \<rparr>"

definition ex_linked :: "InstanceStatus \<Rightarrow> disp plat" where
  "ex_linked st = \<lparr> p_users = p_users ex_pdb, p_orders = [], p_profiles = [], p_plans = [ex_splan], p_subs = [ex_sub],
     p_fault = (\<lambda>c. None), pl_ctl = ex_disp\<lparr>t_instances := [ex_instance\<lparr>gi_Status := st, gi_SubscriptionID := Some ''s1''\<rparr>]\<rparr> \<rparr>"

lemma ex_linked_simps [simp]:
  "p_subs (ex_linked st) = [ex_sub]" "p_fault (ex_linked st) c = None"
  "t_instances (pl_ctl (ex_linked st)) = [ex_instance\<lparr>gi_Status := st, gi_SubscriptionID := Some ''s1''\<rparr>]"
  "db_fault (pl_ctl (ex_linked st)) c = None"
  by (simp_all add: ex_linked_def)

lemma ex_linked_ok: "instances_ok (pl_ctl (ex_linked st))"
  by (simp add: instances_ok_def tbl_ok_def)

lemma ex_authenticate: "authenticate ex_jwt ex_tm 5 (''Bearer '' @ ''access'') = Inr (''u1'', 0)"
proof -
  have "token_sign ex_jwt ex_tm (ex_claims ''access'') = Inr ''access''"
    by (simp add: token_sign_def ex_jwt_def ex_tm_def ex_claims_def)
  from authenticate_signed[OF ex_jwt_contract this, of 5] show ?thesis by (simp add: ex_claims_def second_def)
qed

theorem me_requests_isolated_witness:
  "untouched instance_owner t_instances (lk_ident ex_link) ''u1'' (MeStop ''s1'' ''i1'') (ex_linked StatusQueued)
     (fst (me_route ex_jwt ex_tm (controller_api ex_link) 5 (''Bearer '' @ ''access'') (MeStop ''s1'' ''i1'') (ex_linked StatusQueued)))"
  using me_requests_isolated[of "ex_linked StatusQueued" ex_jwt ex_tm 5 "''Bearer '' @ ''access''" ex_link "MeStop ''s1'' ''i1''"]
    ex_linked_ok[of StatusQueued] ex_authenticate by (simp add: tbl_ok_def)

lemma ex_own: "ownSubscription ''u1'' ''s1'' (ex_linked st) = Inr ex_sub"
  by (simp add: ownSubscription_def GetSubscription_def SubRepo_GetByID_def pguard_def pfound_def table_simps ex_sub_def)

theorem CreateInstance_respects_quota_witness:
  "\<exists>w' r. CreateInstance (controller_api ex_link) 5 ''u1'' ''s1'' ''g'' [] (ex_linked StatusQueued) = (w', r) \<and>
    (t_instances (pl_ctl w') = t_instances (pl_ctl (ex_linked StatusQueued)) \<or>
     length (filter (\<lambda>g. gi_SubscriptionID g = Some ''s1'') (t_instances (pl_ctl w'))) \<le> 1)"
proof -
  obtain w' r where c: "CreateInstance (controller_api ex_link) 5 ''u1'' ''s1'' ''g'' [] (ex_linked StatusQueued) = (w', r)"
    by (cases "CreateInstance (controller_api ex_link) 5 ''u1'' ''s1'' ''g'' [] (ex_linked StatusQueued)")
  from CreateInstance_respects_quota[OF ex_linked_ok ex_own _ c] c show ?thesis by (auto simp: ex_sub_def)
qed

theorem queued_instance_blocks_sweep_witness:
  "\<exists>w' e. ExpireOverdue (controller_api ex_link) 11 (\<lambda>s w. w) (ex_linked StatusQueued) = (w', 0, Some e)"
  using queued_instance_blocks_sweep[OF ex_linked_ok, of 11 StatusQueued ex_sub "[]"
      "decode_instance (ex_instance\<lparr>gi_Status := StatusQueued, gi_SubscriptionID := Some ''s1''\<rparr>)" ex_link]
  by (auto simp: overdue_def ex_sub_def instances_of_def)

theorem runtime_of_running_instance_witness:
  "\<exists>rt. ca_Runtime (controller_api ex_link) ''i1'' (pl_ctl (ex_linked StatusRunning)) = Inr rt \<and> \<not> pr_Running rt \<and> pr_PlayerCount rt = 3"
proof -
  have "InstanceRepo_GetByID ''i1'' (pl_ctl (ex_linked StatusRunning)) =
      Inr (ex_instance\<lparr>gi_Status := StatusRunning, gi_SubscriptionID := Some ''s1''\<rparr>)"
    by (simp add: InstanceRepo_GetByID_def guard_call_def found_def table_simps)
  from runtime_of_running_instance[OF this, of ex_link] show ?thesis
    by (auto simp: ex_link_def Registry_Get_def)
qed

end
