(* ===== verification/Handler_Messages.thy ===== *)
theory Handler_Messages
  imports Prelude
begin

text \<open>
  The texts of the controller's handlers that are not plain ASCII, as UTF-8 bytes.
\<close>

text \<open>schedule attempts by result (observer_handler.go Metrics)\<close>

definition msg_attempts_help :: string where
  "msg_attempts_help =
     '' '' @
     [CHR 0xE8, CHR 0xB0, CHR 0x83, CHR 0xE5, CHR 0xBA, CHR 0xA6, CHR 0xE5, CHR 0xB0, CHR 0x9D,
      CHR 0xE8, CHR 0xAF, CHR 0x95, CHR 0xE6, CHR 0xAC, CHR 0xA1, CHR 0xE6, CHR 0x95, CHR 0xB0,
      CHR 0xEF, CHR 0xBC, CHR 0x88, CHR 0xE6, CHR 0x8C, CHR 0x89, CHR 0xE7, CHR 0xBB, CHR 0x93,
      CHR 0xE6, CHR 0x9E, CHR 0x9C, CHR 0xE5, CHR 0x88, CHR 0x86, CHR 0xEF, CHR 0xBC, CHR 0x89]"

text \<open>queued instances (observer_handler.go Metrics)\<close>

definition msg_depth_help :: string where
  "msg_depth_help =
     '' '' @
     [CHR 0xE6, CHR 0x8E, CHR 0x92, CHR 0xE9, CHR 0x98, CHR 0x9F, CHR 0xE5, CHR 0xAE, CHR 0x9E,
      CHR 0xE4, CHR 0xBE, CHR 0x8B, CHR 0xE6, CHR 0x95, CHR 0xB0]"

text \<open>scheduler events (observer_handler.go Metrics)\<close>

definition msg_events_help :: string where
  "msg_events_help =
     '' '' @
     [CHR 0xE8, CHR 0xB0, CHR 0x83, CHR 0xE5, CHR 0xBA, CHR 0xA6, CHR 0xE4, CHR 0xBA, CHR 0x8B,
      CHR 0xE4, CHR 0xBB, CHR 0xB6, CHR 0xE6, CHR 0x80, CHR 0xBB, CHR 0xE6, CHR 0x95, CHR 0xB0,
      CHR 0xEF, CHR 0xBC, CHR 0x88, CHR 0xE5, CHR 0x86, CHR 0x85, CHR 0xE5, CHR 0xAD, CHR 0x98,
      CHR 0xE7, CHR 0xBC, CHR 0x93, CHR 0xE5, CHR 0x86, CHR 0xB2, CHR 0xEF, CHR 0xBC, CHR 0x89]"

text \<open>the updates must not be empty (node_agent_update_handler.go BatchUpdate)\<close>

definition msg_updates_empty :: string where
  "msg_updates_empty =
     ''updates '' @
     [CHR 0xE4, CHR 0xB8, CHR 0x8D, CHR 0xE8, CHR 0x83, CHR 0xBD, CHR 0xE4, CHR 0xB8, CHR 0xBA,
      CHR 0xE7, CHR 0xA9, CHR 0xBA]"

text \<open>both identifiers are required (node_agent_update_handler.go BatchUpdate)\<close>

definition msg_update_fields :: string where
  "msg_update_fields =
     ''agent_id '' @
     [CHR 0xE4, CHR 0xB8, CHR 0x8E] @
     '' release_id '' @
     [CHR 0xE5, CHR 0xBF, CHR 0x85, CHR 0xE5, CHR 0xA1, CHR 0xAB]"

text \<open>the release is required (node_agent_update_handler.go Rollback)\<close>

definition msg_release_required :: string where
  "msg_release_required =
     ''release_id '' @
     [CHR 0xE5, CHR 0xBF, CHR 0x85, CHR 0xE5, CHR 0xA1, CHR 0xAB]"

text \<open>the form has no file (agent_release_handler.go Register)\<close>

definition msg_file_missing :: string where
  "msg_file_missing =
     [CHR 0xE7, CHR 0xBC, CHR 0xBA, CHR 0xE5, CHR 0xB0, CHR 0x91] @
     '' file '' @
     [CHR 0xE5, CHR 0xAD, CHR 0x97, CHR 0xE6, CHR 0xAE, CHR 0xB5, CHR 0xEF, CHR 0xBC, CHR 0x88] @
     ''multipart '' @
     [CHR 0xE6, CHR 0x96, CHR 0x87, CHR 0xE4, CHR 0xBB, CHR 0xB6, CHR 0xEF, CHR 0xBC, CHR 0x89]"

text \<open>the tag is required (game_handler.go RegisterGameBuild)\<close>

definition msg_tag_required :: string where
  "msg_tag_required =
     ''artifact_image_tag is required'' @
     [CHR 0xEF, CHR 0xBC, CHR 0x88, CHR 0xE6, CHR 0x96, CHR 0xB0, CHR 0xE7, CHR 0x89, CHR 0x88,
      CHR 0xE6, CHR 0x9C, CHR 0xAC, CHR 0xE8, CHR 0xBA, CHR 0xAB, CHR 0xE4, CHR 0xBB, CHR 0xBD,
      CHR 0xEF, CHR 0xBC, CHR 0x89]"

end
