(* ===== verification/Observer.thy ===== *)
theory Observer
  imports System Stale_Reaper Http Handler_Messages
begin

text \<open>
  The administrator's views (\<open>biz/observer_use_case.go\<close>, \<open>biz/debug_use_case.go\<close>) with their HTTP
  handlers (\<open>handler/observer_handler.go\<close>, \<open>handler/debug_handler.go\<close>).  All but one only read; the one
  that writes is \<open>POST /debug/reconcile/recover\<close>, which requests every unfinished instance again.
  The texts of times (\<open>rfc3339\<close>) and of durations are those of Go's package \<open>time\<close>, given decoded.
\<close>

section \<open>Nodes\<close>

record NodeOverview =
  no_NodeID :: string
  no_NodeAgentID :: string
  no_IP :: string
  no_Location :: string
  no_Enabled :: bool
  no_Health :: string
  no_Alive :: bool
  no_Pressure :: string
  no_CPUCapacityMilli :: int
  no_CPUAllocatableMilli :: int
  no_CPUUsedMilli :: int
  no_CPUReservedMilli :: int
  no_MemCapacityBytes :: int
  no_MemAllocatableBytes :: int
  no_MemUsedBytes :: int
  no_MemReservedBytes :: int
  no_DiskAllocatableBytes :: int
  no_BandwidthRatio :: rat

text \<open>Of several agents on one node the last of the list counts.\<close>

definition agent_of_node :: "NodeAgent list \<Rightarrow> string \<Rightarrow> NodeAgent option" where
  "agent_of_node agents k = find (\<lambda>a. na_NodeId a = k) (rev agents)"

definition node_overview :: "rat \<Rightarrow> NodeAgent option \<Rightarrow> Node \<Rightarrow> NodeOverview" where
  "node_overview target agent n =
    (let cap = ComputeCapacity n target in
     \<lparr> no_NodeID = fmtID (nd_Id n),
       no_NodeAgentID = (case agent of None \<Rightarrow> [] | Some a \<Rightarrow> na_ID a),
       no_IP = nd_Ip n, no_Location = nd_Location n,
       no_Enabled = (case agent of None \<Rightarrow> False | Some a \<Rightarrow> na_Status a = Enabled),
       no_Health = (case agent of None \<Rightarrow> ''no_agent'' | Some a \<Rightarrow> healthStatusName (na_HealthStatus a)),
       no_Alive = (case agent of None \<Rightarrow> False | Some a \<Rightarrow> na_Alive a),
       no_Pressure = pressureStatusName (nd_PressureStatus n),
       no_CPUCapacityMilli = cpuCapacityMilli n, no_CPUAllocatableMilli = CPUAllocatableMilli cap,
       no_CPUUsedMilli = nd_CPUUsedMilli n, no_CPUReservedMilli = nd_CPUReservedMilli n,
       no_MemCapacityBytes = memoryCapacityBytes n, no_MemAllocatableBytes = MemAllocatableBytes cap,
       no_MemUsedBytes = nd_MemoryUsedBytes n, no_MemReservedBytes = nd_MemoryReservedBytes n,
       no_DiskAllocatableBytes = DiskAllocatableBytes cap, no_BandwidthRatio = bandwidthRatio n 0 0 \<rparr>)"

definition NodesOverview :: "rat \<Rightarrow> 'a db_scheme \<Rightarrow> gerr + NodeOverview list" where
  "NodesOverview target w =
    (case NodeRepo_ListAll w of
       Inl e \<Rightarrow> Inl e
     | Inr nodes \<Rightarrow>
       (case AgentRepo_ListAll w of
          Inl e \<Rightarrow> Inl e
        | Inr agents \<Rightarrow>
           Inr (map (\<lambda>n. node_overview target (agent_of_node agents (fmtID (nd_Id n))) n) nodes)))"

definition NodeHistory :: "time \<Rightarrow> string \<Rightarrow> duration \<Rightarrow> 'a db_scheme \<Rightarrow> gerr + NodeResourceSample list" where
  "NodeHistory now node window w =
    (let window' = (if window \<le> 0 then 60 * minute else window) in
     case SampleRepo_ListSince node (now - window') w of
       Inl e \<Rightarrow> Inl e
     | Inr samples \<Rightarrow> Inr (rev samples))"

section \<open>The queue\<close>

record QueueItemOverview =
  qo_InstanceID :: string
  qo_GameID :: string
  qo_Priority :: int
  qo_Reason :: string
  qo_Attempts :: int
  qo_QueuedAt :: string
  qo_WakeAt :: string
  qo_WaitSeconds :: int
  qo_RemainingSeconds :: int

text \<open>\<open>t.Sub(u)\<close> saturates; \<open>d.Seconds()\<close> is a \<open>float64\<close>, and \<open>int64(...)\<close> truncates it.\<close>

definition time_Sub :: "time \<Rightarrow> time \<Rightarrow> duration" where
  "time_Sub t u = max (- (2 ^ 63)) (min (2 ^ 63 - 1) (t - u))"

definition whole_seconds :: "duration \<Rightarrow> int" where
  "whole_seconds d =
    (let sec = (if d < 0 then - (- d div second) else d div second); nsec = d - sec * second
     in ftrunc (fadd (f64 sec) (fdiv (f64 nsec) (f64 second))))"

definition queue_item :: "(time \<Rightarrow> string) \<Rightarrow> time \<Rightarrow> GameInstance list \<Rightarrow> SchedulingQueue \<Rightarrow> QueueItemOverview" where
  "queue_item rfc3339 now insts q =
     \<lparr> qo_InstanceID = sq_InstanceID q,
       qo_GameID = (case find (\<lambda>i. gi_ID i = sq_InstanceID q) (rev insts) of None \<Rightarrow> [] | Some i \<Rightarrow> gi_GameID i),
       qo_Priority = sq_Priority q, qo_Reason = sq_Reason q, qo_Attempts = sq_Attempts q,
       qo_QueuedAt = rfc3339 (sq_QueuedAt q), qo_WakeAt = rfc3339 (sq_WakeAt q),
       qo_WaitSeconds = whole_seconds (time_Sub now (sq_QueuedAt q)),
       qo_RemainingSeconds = whole_seconds (time_Sub (sq_TimeoutAt q) now) \<rparr>"

text \<open>An error of the instances is ignored: the games stay empty.\<close>

definition QueueOverview :: "(time \<Rightarrow> string) \<Rightarrow> time \<Rightarrow> 'a db_scheme \<Rightarrow> gerr + QueueItemOverview list" where
  "QueueOverview rfc3339 now w =
    (case QueueRepo_ListAll w of
       Inl e \<Rightarrow> Inl e
     | Inr qs \<Rightarrow>
        let insts = (case InstanceRepo_ListAll w of Inl e \<Rightarrow> [] | Inr is \<Rightarrow> is)
        in Inr (map (queue_item rfc3339 now insts) qs))"

section \<open>Events and statistics\<close>

text \<open>The window of the history is a 64-bit product.\<close>

definition Observer_Events :: "time \<Rightarrow> int \<Rightarrow> string \<Rightarrow> int \<Rightarrow> 'a ctl_scheme \<Rightarrow> SchedulerEvent list" where
  "Observer_Events now limit typ hours w =
    (case ctl_bus w of
       None \<Rightarrow> []
     | Some b \<Rightarrow>
        if hours > 0 then History (now + wrap64 (- hours * (60 * minute))) typ limit b w
        else Recent limit typ b)"

record SchedulerStats_view =
  ss_Attempts :: "(string \<times> int) list"
  ss_QueueLen :: int
  ss_EventCount :: int

definition SchedulerStats :: "sched_cfg option \<Rightarrow> 'a sched_scheme \<Rightarrow> SchedulerStats_view" where
  "SchedulerStats sc w =
     \<lparr> ss_Attempts = (case sc of None \<Rightarrow> [] | Some c \<Rightarrow> Stats c w),
       ss_QueueLen = (case QueueRepo_Count w of Inl e \<Rightarrow> 0 | Inr n \<Rightarrow> n),
       ss_EventCount = (case ctl_bus w of
            None \<Rightarrow> 0
          | Some b \<Rightarrow> (case DBCount b w of (n, True) \<Rightarrow> n | (n, False) \<Rightarrow> Len b)) \<rparr>"

section \<open>A dry run\<close>

record PreviewRequest =
  pq_GameID :: string
  pq_GameBuildID :: string
  pq_Region :: string
  pq_Resources :: "ResourceRequest option"

definition preview_build :: "PreviewRequest \<Rightarrow> 'a db_scheme \<Rightarrow> string" where
  "preview_build req w =
    (if pq_GameBuildID req \<noteq> [] then pq_GameBuildID req
     else case BranchRepo_ListByGame (pq_GameID req) w of
            Inl e \<Rightarrow> []
          | Inr bs \<Rightarrow> (case find (\<lambda>b. sb_Status b = Enable) bs of None \<Rightarrow> [] | Some b \<Rightarrow> show_int (sb_LastBuildId b)))"

definition preview_instance :: "PreviewRequest \<Rightarrow> 'a db_scheme \<Rightarrow> GameInstance" where
  "preview_instance req w =
     \<lparr> gi_ID = [], gi_GameID = pq_GameID req, gi_NodeAgentID = None, gi_Status = StatusPending,
       gi_LastPendingTime = zero_time, gi_CreateTime = zero_time, gi_UpdateTime = zero_time,
       gi_GameBuildId = preview_build req w, gi_BranchName = [], gi_CacheBuildID = [],
       gi_Region = pq_Region req, gi_Priority = 0, gi_ResourceReq = pq_Resources req,
       gi_ResourceOverride = (pq_Resources req \<noteq> None), gi_QueuedReason = [], gi_QueuedAt = None,
       gi_Cancelled = False, gi_FailReason = [], gi_Config = [], gi_SubscriptionID = None \<rparr>"

definition PreviewSchedule ::
  "sched_cfg \<Rightarrow> time \<Rightarrow> (nat \<Rightarrow> string) \<Rightarrow> PreviewRequest \<Rightarrow> 'a db_scheme \<Rightarrow> gerr + PreviewResult" where
  "PreviewSchedule cfg now gen req w = Preview cfg now gen (preview_instance req w) w"

section \<open>Caches\<close>

record NodeCacheOverview =
  co_NodeAgentID :: string
  co_NodeID :: string
  co_GameID :: string
  co_Branch :: string
  co_Status :: string
  co_BuildID :: string
  co_DownloadProgress :: rat
  co_SizeBytes :: int
  co_LastError :: string

definition cache_row :: "NodeAgent list \<Rightarrow> string \<Rightarrow> CacheEntry \<Rightarrow> NodeCacheOverview" where
  "cache_row agents agent e =
     \<lparr> co_NodeAgentID = agent,
       co_NodeID = (case find (\<lambda>a. na_ID a = agent) (rev agents) of None \<Rightarrow> [] | Some a \<Rightarrow> na_NodeId a),
       co_GameID = ce_GameID e, co_Branch = ce_Branch e, co_Status = ce_Status e, co_BuildID = ce_BuildID e,
       co_DownloadProgress = ce_DownloadProgress e, co_SizeBytes = ce_SizeBytes e, co_LastError = ce_LastError e \<rparr>"

text \<open>The rows come in the order in which Go walks the snapshot, here that of its association list.\<close>

definition CacheOverview :: "snapshot option \<Rightarrow> 'a db_scheme \<Rightarrow> gerr + NodeCacheOverview list" where
  "CacheOverview view w =
    (case view of
       None \<Rightarrow> Inr []
     | Some snap \<Rightarrow>
        (case AgentRepo_ListAll w of
           Inl e \<Rightarrow> Inl e
         | Inr agents \<Rightarrow> Inr (concat (map (\<lambda>(a, es). map (cache_row agents a) es) (ListSnapshot snap)))))"

section \<open>Debugging\<close>

record scheduler_state =
  st_stats :: "(string \<times> int) list"
  st_queue :: "int \<times> string option"
  st_weights :: ScoreWeights

definition schedulerState :: "sched_cfg \<Rightarrow> 'a sched_scheme \<Rightarrow> scheduler_state" where
  "schedulerState sc w = \<lparr> st_stats = Stats sc w, st_queue = QueueStats w, st_weights = sc_weights sc \<rparr>"

record reconcile_status =
  rs_queue_len :: nat
  rs_retry_counts :: "(string \<times> int) list"
  rs_dispatchable :: "GameInstance list"
  rs_scheduler :: scheduler_state

definition ReconcileStatus :: "sched_cfg \<Rightarrow> 'a disp_scheme \<Rightarrow> gerr + reconcile_status" where
  "ReconcileStatus sc w =
    (case InstanceRepo_ListByStatuses dispatchableStatuses w of
       Inl e \<Rightarrow> Inl (Wrapped ''list dispatchable instances: '' e [])
     | Inr is \<Rightarrow> Inr \<lparr> rs_queue_len = QueueLen w, rs_retry_counts = RetryCounts w, rs_dispatchable = is,
                      rs_scheduler = schedulerState sc w \<rparr>)"

definition Debug_Recover :: "'a disp_scheme \<Rightarrow> 'a disp_scheme \<times> (gerr + nat)" where
  "Debug_Recover w = (case Recover w of (w1, Some e) \<Rightarrow> (w1, Inl e) | (w1, None) \<Rightarrow> (w1, Inr (QueueLen w1)))"

datatype agent_info =
    AgentUnknown string string                                     \<comment> \<open>identifier, error\<close>
  | AgentInfo string string int NodeAgentStatus "string + string"  \<comment> \<open>\<dots>, error or address\<close>

definition nodeAgentInfo :: "string \<Rightarrow> 'a db_scheme \<Rightarrow> agent_info" where
  "nodeAgentInfo k w =
    (case AgentRepo_GetByID k w of
       Inl e \<Rightarrow> AgentUnknown k (error_text e)
     | Inr a \<Rightarrow> AgentInfo (na_ID a) (na_NodeId a) (na_Port a) (na_Status a)
        (case NodeRepo_GetByID (na_NodeId a) w of
           Inl e \<Rightarrow> Inl (error_text e)
         | Inr n \<Rightarrow> Inr (nd_Ip n @ '':'' @ show_int (na_Port a))))"

record instance_overview =
  io_instance :: GameInstance
  io_ports :: "ContainerPortMapping list"
  io_agent :: "agent_info option"

fun overview_rows :: "GameInstance list \<Rightarrow> 'a db_scheme \<Rightarrow> gerr + instance_overview list" where
  "overview_rows [] w = Inr []"
| "overview_rows (i # is) w =
    (case PortRepo_ListByInstanceId (gi_ID i) w of
       Inl e \<Rightarrow> Inl (Wrapped (''list port mappings of '' @ gi_ID i @ '': '') e [])
     | Inr ps \<Rightarrow>
        (case overview_rows is w of
           Inl e \<Rightarrow> Inl e
         | Inr rs \<Rightarrow> Inr (\<lparr> io_instance = i, io_ports = ps,
                            io_agent = map_option (\<lambda>a. nodeAgentInfo a w) (gi_NodeAgentID i) \<rparr> # rs)))"

definition InstanceOverview :: "'a db_scheme \<Rightarrow> gerr + instance_overview list" where
  "InstanceOverview w =
    (case InstanceRepo_ListAll w of
       Inl e \<Rightarrow> Inl (Wrapped ''list instances: '' e [])
     | Inr is \<Rightarrow> overview_rows is w)"

section \<open>Handlers\<close>

definition list_reply :: "gerr + 'b \<Rightarrow> 'b reply" where
  "list_reply r = (case r of Inl e \<Rightarrow> Failure 500 (error_text e) | Inr x \<Rightarrow> Success 200 x)"

definition Handle_NodesOverview :: "rat \<Rightarrow> 'a db_scheme \<Rightarrow> NodeOverview list reply" where
  "Handle_NodesOverview target w = list_reply (NodesOverview target w)"

text \<open>\<open>window\<close> is the duration of the query, \<open>None\<close> when it is absent or does not parse.\<close>

definition Handle_NodeHistory ::
  "time \<Rightarrow> string \<Rightarrow> duration option \<Rightarrow> 'a db_scheme \<Rightarrow> (string \<times> NodeResourceSample list) reply" where
  "Handle_NodeHistory now node window w =
    reply_map (Pair node) (list_reply (NodeHistory now node (case window of None \<Rightarrow> 60 * minute | Some d \<Rightarrow> d) w))"

definition Handle_CacheOverview :: "snapshot option \<Rightarrow> 'a db_scheme \<Rightarrow> NodeCacheOverview list reply" where
  "Handle_CacheOverview view w = list_reply (CacheOverview view w)"

definition Handle_QueueOverview ::
  "(time \<Rightarrow> string) \<Rightarrow> time \<Rightarrow> 'a db_scheme \<Rightarrow> (QueueItemOverview list \<times> nat) reply" where
  "Handle_QueueOverview rfc3339 now w = reply_map (\<lambda>qs. (qs, length qs)) (list_reply (QueueOverview rfc3339 now w))"

text \<open>A number of the query: the default unless it is a positive integer.\<close>

definition positive_query :: "int \<Rightarrow> string \<Rightarrow> int" where
  "positive_query d s = (case ParseInt64 s of Some n \<Rightarrow> if n > 0 then n else d | None \<Rightarrow> d)"

definition Handle_Events ::
  "time \<Rightarrow> string \<Rightarrow> string \<Rightarrow> string \<Rightarrow> 'a ctl_scheme \<Rightarrow> (SchedulerEvent list \<times> string) reply" where
  "Handle_Events now limit typ hours w =
    (let h = positive_query 0 hours in
     Success 200 (Observer_Events now (positive_query 100 limit) typ h w, if h > 0 then ''db'' else ''memory''))"

definition Handle_SchedulerStats :: "sched_cfg option \<Rightarrow> 'a sched_scheme \<Rightarrow> SchedulerStats_view reply" where
  "Handle_SchedulerStats sc w = Success 200 (SchedulerStats sc w)"

definition Handle_PreviewSchedule ::
  "sched_cfg \<Rightarrow> time \<Rightarrow> (nat \<Rightarrow> string) \<Rightarrow> string + PreviewRequest \<Rightarrow> 'a db_scheme \<Rightarrow> PreviewResult reply" where
  "Handle_PreviewSchedule cfg now gen body w =
    (case body of
       Inl t \<Rightarrow> bad_body t
     | Inr req \<Rightarrow> if pq_GameID req = [] then Failure 400 ''game_id is required''
                   else list_reply (PreviewSchedule cfg now gen req w))"

definition newline :: string where
  "newline = [CHR 0x0A]"

definition metric :: "string \<Rightarrow> string \<Rightarrow> string \<Rightarrow> string" where
  "metric name help typ = ''# HELP '' @ name @ help @ newline @ ''# TYPE '' @ name @ '' '' @ typ @ newline"

definition attempts_line :: "SchedulerStats_view \<Rightarrow> string \<Rightarrow> string" where
  "attempts_line st k = ''schedule_attempts_total{result='' @ go_quote k @ ''} '' @
     show_int (case map_of (ss_Attempts st) k of None \<Rightarrow> 0 | Some n \<Rightarrow> n) @ newline"

definition Handle_Metrics :: "sched_cfg option \<Rightarrow> 'a sched_scheme \<Rightarrow> string reply" where
  "Handle_Metrics sc w =
    (let st = SchedulerStats sc w in Success 200
      (metric ''schedule_attempts_total'' msg_attempts_help ''counter'' @
       concat (map (attempts_line st) [''scheduled'', ''queued'', ''failed'']) @
       metric ''scheduler_queue_depth'' msg_depth_help ''gauge'' @
       ''scheduler_queue_depth '' @ show_int (ss_QueueLen st) @ newline @
       metric ''scheduler_event_total'' msg_events_help ''gauge'' @
       ''scheduler_event_total '' @ show_int (ss_EventCount st) @ newline))"

definition Handle_ReconcileStatus :: "sched_cfg \<Rightarrow> 'a disp_scheme \<Rightarrow> reconcile_status reply" where
  "Handle_ReconcileStatus sc w = list_reply (ReconcileStatus sc w)"

definition Handle_Recover :: "'a disp_scheme \<Rightarrow> 'a disp_scheme \<times> nat reply" where
  "Handle_Recover w = map_prod id list_reply (Debug_Recover w)"

definition Handle_InstanceOverview :: "'a db_scheme \<Rightarrow> instance_overview list reply" where
  "Handle_InstanceOverview w = list_reply (InstanceOverview w)"

section \<open>The views and the scheduler\<close>

text \<open>What the overview calls allocatable is what the resource constraint compares with.\<close>

lemma overview_agrees_with_constraint:
  assumes "nc_Capacity c = ComputeCapacity n target"
  shows "snd (constraintResources req c) \<longleftrightarrow>
    CPUMilli req \<le> no_CPUAllocatableMilli (node_overview target a n) \<and>
    MemoryBytes req \<le> no_MemAllocatableBytes (node_overview target a n) \<and>
    DiskBytes req \<le> no_DiskAllocatableBytes (node_overview target a n)"
  using assms by (auto simp: constraintResources_def ResourcesSatisfied_def node_overview_def Let_def)

section \<open>A recovery by hand\<close>

text \<open>Recovering requests every unfinished instance again, those in the queue or under a poller too.\<close>

lemma request_all_adds:
  "list_all (\<lambda>i. isDispatchableStatus (gi_Status i)) is \<Longrightarrow>
     mset (d_queue (request_all is w)) + mset (d_overflow (request_all is w)) =
     mset (d_queue w) + mset (d_overflow w) + mset is"
  by (induction "is" arbitrary: w) (auto simp: RequestDispatch_def)

lemma recover_adds_every_unfinished:
  assumes "InstanceRepo_ListByStatuses dispatchableStatuses w = Inr is"
  shows "mset (d_queue (fst (Debug_Recover w))) + mset (d_overflow (fst (Debug_Recover w))) =
    mset (d_queue w) + mset (d_overflow w) + mset is"
proof -
  have "list_all (\<lambda>i. isDispatchableStatus (gi_Status i)) is"
    using assms by (auto simp: InstanceRepo_ListByStatuses_def isDispatchableStatus_def dispatchableStatuses_def list_all_iff)
  then show ?thesis using assms request_all_adds[of "is" w] by (simp add: Debug_Recover_def Recover_def)
qed

lemma recover_keeps:
  "t_nodes (fst (Debug_Recover w)) = t_nodes w" "d_pollers (fst (Debug_Recover w)) = d_pollers w"
proof -
  have "t_nodes (request_all is w) = t_nodes w \<and> d_pollers (request_all is w) = d_pollers w" for "is"
    by (induction "is" arbitrary: w) (auto simp: RequestDispatch_def)
  then show "t_nodes (fst (Debug_Recover w)) = t_nodes w" "d_pollers (fst (Debug_Recover w)) = d_pollers w"
    by (auto simp: Debug_Recover_def Recover_def split: sum.split)
qed

text \<open>The end of a cleaning with its reservation on a node that has the room to give it back.\<close>

lemma onClean_releases:
  fixes w :: "'a disp_scheme"
  assumes "\<forall>c. db_fault w c = None" "gi_NodeAgentID i = Some a" "gi_ResourceReq i = Some r"
    and "AgentRepo_GetByID a w = Inr agent" "list_all (sub_in_range r) (t_nodes w)"
  shows "t_nodes (onCleanInstanceSucceeded cfg now i w) =
      tbl_upd (\<lambda>n. node_key n = na_NodeId agent) (sub_reserved r) (t_nodes w)"
    and "t_agents (onCleanInstanceSucceeded cfg now i w) = t_agents w"
    and "db_fault (onCleanInstanceSucceeded cfg now i w) = db_fault w"
proof -
  obtain X where c: "release_credentials cfg now (gi_ID i) w = w\<lparr>t_creds := X\<rparr>"
    using release_credentials_effect by blast
  have a: "AgentRepo_GetByID a (w\<lparr>t_creds := X\<rparr>) = Inr agent"
    using assms(1,4) by (simp add: AgentRepo_GetByID_def guard_call_def)
  have r: "releaseReservation i (w\<lparr>t_creds := X\<rparr>) =
      w\<lparr>t_creds := X, t_nodes := tbl_upd (\<lambda>n. node_key n = na_NodeId agent) (sub_reserved r) (t_nodes w)\<rparr>"
    using releaseReservation_nodes[OF a assms(2,3)] assms(1,5) by simp
  then show "t_nodes (onCleanInstanceSucceeded cfg now i w) =
      tbl_upd (\<lambda>n. node_key n = na_NodeId agent) (sub_reserved r) (t_nodes w)"
    by (simp add: onClean_nodes c)
  have p: "t_agents (fst (ReleaseMapPortByInstanceId k u)) = t_agents u \<and> db_fault (fst (ReleaseMapPortByInstanceId k u)) = db_fault u"
    for k and u :: "'a disp_scheme"
    using release_ports_effect[of k u] by auto
  show "t_agents (onCleanInstanceSucceeded cfg now i w) = t_agents w"
    "db_fault (onCleanInstanceSucceeded cfg now i w) = db_fault w"
    by (simp_all add: onCleanInstanceSucceeded_def Let_def p InstanceRepo_Save_def c r split: option.split)
qed

definition doubled :: "'a disp_scheme \<Rightarrow> GameInstance \<Rightarrow> string \<Rightarrow> string \<Rightarrow> bool" where
  "doubled w i k k' \<longleftrightarrow> PollOperation k i OnCleanInstance \<in> set (d_pollers w) \<and>
     PollOperation k' i OnCleanInstance \<in> set (remove1 (PollOperation k i OnCleanInstance) (d_pollers w))"

text \<open>C37: A recovery by hand while an instance is being cleaned gives its reservation back twice.  The
  instance has a poller; the recovery queues it again, its dispatch sends a second cleaning and starts a
  second poller for the same instance, and each poller that sees its operation succeed subtracts the
  reservation, the second time from what other instances hold on the node.\<close>

theorem manual_recover_releases_twice:
  fixes w :: "'a disp_scheme"
  assumes "InstanceRepo_ListByStatuses dispatchableStatuses w = Inr [i]" "gi_Status i = StatusCleaning"
    and "gi_NodeAgentID i = Some a" "gi_ResourceReq i = Some r"
    and "d_queue w = []" "d_overflow w = []" "d_pollers w = [PollOperation k i OnCleanInstance]"
    and "\<forall>c. db_fault w c = None" "AgentRepo_GetByID a w = Inr agent" "NodeRepo_GetByID (na_NodeId agent) w = Inr node"
    and "rm_connect rm a (nd_Ip node @ '':'' @ show_int (na_Port agent)) = None" "rm_CleanInstance rm (gi_ID i) = Inr k'"
    and "list_all (sub_in_range r) (t_nodes w)" "list_all (sub_in_range r \<circ> sub_reserved r) (t_nodes w)"
    and "op_Status op = OP_SUCCEEDED" "op_Status op' = OP_SUCCEEDED"
  shows "let w2 = NextDispatch cfg rm now (fst (Debug_Recover w));
             w3 = finish_poller cfg t1 [Inr op] d l as (PollOperation k i OnCleanInstance) w2;
             w4 = finish_poller cfg t2 [Inr op'] d' l' as' (PollOperation k' i OnCleanInstance) w3
         in doubled w2 i k k' \<and>
            t_nodes w4 = tbl_upd (\<lambda>n. node_key n = na_NodeId agent) (sub_reserved r \<circ> sub_reserved r) (t_nodes w)"
proof -
  let ?p = "PollOperation k i OnCleanInstance" and ?p' = "PollOperation k' i OnCleanInstance"
  define w1 where "w1 = fst (Debug_Recover w)"
  have w1: "w1 = w\<lparr>d_queue := [i]\<rparr>"
    using assms(1,2,5) by (simp add: w1_def Debug_Recover_def Recover_def RequestDispatch_def isDispatchableStatus_def dispatchableStatuses_def queue_capacity_def)
  define w2 where "w2 = NextDispatch cfg rm now w1"
  have w2: "w2 = w\<lparr>d_pollers := [?p, ?p']\<rparr>"
  proof -
    have u: "w1\<lparr>d_queue := []\<rparr> = w" using assms(5) by (simp add: w1)
    have "nextDispatchInstance w1 = (w, Some i)" using assms(6) u by (simp add: nextDispatchInstance_def w1)
    moreover have "dispatch_cleaning cfg rm now i w = w\<lparr>d_pollers := [?p, ?p']\<rparr>"
      using assms(3,7,9-12) by (simp add: dispatch_cleaning_def with_client_def start_operation_def start_poller_def)
    ultimately show ?thesis using assms(2) by (simp add: w2_def NextDispatch_def Dispatch_def)
  qed
  define v where "v = clearRetryCount (gi_ID i) (w2\<lparr>d_pollers := [?p']\<rparr>)"
  have v: "\<forall>c. db_fault v c = None" "AgentRepo_GetByID a v = Inr agent" "t_nodes v = t_nodes w" "t_agents v = t_agents w"
    using assms(8,9) by (simp_all add: v_def w2 clearRetryCount_def AgentRepo_GetByID_def guard_call_def)
  define w3 where "w3 = finish_poller cfg t1 [Inr op] d l as ?p w2"
  have w3: "w3 = onCleanInstanceSucceeded cfg t1 i v"
    using assms(15) by (simp add: w3_def finish_poller_def Let_def on_succeeded_def v_def w2)
  have n3: "t_nodes w3 = tbl_upd (\<lambda>n. node_key n = na_NodeId agent) (sub_reserved r) (t_nodes w)"
    and f3: "t_agents w3 = t_agents v" "db_fault w3 = db_fault v"
    using onClean_releases[OF v(1) assms(3,4) v(2)] assms(13) by (simp_all add: w3 v(3))
  define u where "u = clearRetryCount (gi_ID i) (w3\<lparr>d_pollers := remove1 ?p' (d_pollers w3)\<rparr>)"
  have u: "\<forall>c. db_fault u c = None" "AgentRepo_GetByID a u = Inr agent" "t_nodes u = t_nodes w3"
    using v(1,2) f3 by (simp_all add: u_def clearRetryCount_def AgentRepo_GetByID_def guard_call_def)
  have "list_all (sub_in_range r) (t_nodes u)"
    using assms(13,14) by (auto simp: u(3) n3 list_all_iff set_tbl_upd)
  from onClean_releases(1)[OF u(1) assms(3,4) u(2) this, of cfg t2]
  have "t_nodes (finish_poller cfg t2 [Inr op'] d' l' as' ?p' w3) =
      tbl_upd (\<lambda>n. node_key n = na_NodeId agent) (sub_reserved r \<circ> sub_reserved r) (t_nodes w)"
    using assms(16) by (simp add: finish_poller_def Let_def on_succeeded_def u(3) n3 tbl_upd_twice flip: u_def)
  moreover have "doubled w2 i k k'" by (simp add: doubled_def w2)
  ultimately show ?thesis by (simp add: Let_def w3_def w2_def w1_def)
qed

text \<open>Two instances hold one core each; one recovery while the first is cleaned, and none is reserved.\<close>

theorem manual_recover_releases_twice_witness:
  "let i = ex_instance\<lparr>gi_Status := StatusCleaning, gi_NodeAgentID := Some ''a1'', gi_ResourceReq := Some ex_req\<rparr>;
       op = \<lparr> op_Status = OP_SUCCEEDED, op_Error = None \<rparr>;
       w = ex_disp\<lparr>t_nodes := [ex_node\<lparr>nd_CPUReservedMilli := 2000\<rparr>], t_instances := [i],
                   d_pollers := [PollOperation ''k'' i OnCleanInstance]\<rparr>;
       w2 = NextDispatch ex_dcfg (ex_remote\<lparr>rm_connect := \<lambda>a addr. None, rm_CleanInstance := \<lambda>j. Inr ''k2''\<rparr>) 5 (fst (Debug_Recover w));
       w3 = finish_poller ex_dcfg 6 [Inr op] 9 9 [] (PollOperation ''k'' i OnCleanInstance) w2
   in t_nodes (finish_poller ex_dcfg 7 [Inr op] 9 9 [] (PollOperation ''k2'' i OnCleanInstance) w3) = [ex_node]"
proof -
  let ?i = "ex_instance\<lparr>gi_Status := StatusCleaning, gi_NodeAgentID := Some ''a1'', gi_ResourceReq := Some ex_req\<rparr>"
  let ?w = "ex_disp\<lparr>t_nodes := [ex_node\<lparr>nd_CPUReservedMilli := 2000\<rparr>], t_instances := [?i],
                   d_pollers := [PollOperation ''k'' ?i OnCleanInstance]\<rparr>"
  let ?rm = "ex_remote\<lparr>rm_connect := \<lambda>a addr. None, rm_CleanInstance := \<lambda>j. Inr ''k2''\<rparr>"
  let ?op = "\<lparr> op_Status = OP_SUCCEEDED, op_Error = None \<rparr>"
  let ?n = "ex_node\<lparr>nd_CPUReservedMilli := 2000\<rparr>"
  have k: "node_key ?n = ''1''" using node_key_ex_node by (simp add: node_key_def)
  have a: "AgentRepo_GetByID ''a1'' ?w = Inr ex_agent"
    by (simp add: AgentRepo_GetByID_def guard_call_def found_def table_simps)
  have n: "NodeRepo_GetByID ''1'' ?w = Inr ?n"
    by (simp add: NodeRepo_GetByID_def guard_call_def found_def tbl_find_def k)
  have m: "tbl_upd (\<lambda>n. node_key n = ''1'') (sub_reserved ex_req \<circ> sub_reserved ex_req) [?n] = [ex_node]"
    by (simp add: tbl_upd_def k) (simp add: sub_reserved_def ex_node_def ex_req_def)
  have r: "list_all (sub_in_range ex_req) [?n]" "list_all (sub_in_range ex_req \<circ> sub_reserved ex_req) [?n]"
    by (simp_all add: sub_in_range_def sub_reserved_def in_i32_def in_i64_def ex_node_def ex_req_def)
  have s: "InstanceRepo_ListByStatuses dispatchableStatuses ?w = Inr [?i]"
    by (simp add: InstanceRepo_ListByStatuses_def guard_call_def dispatchableStatuses_def)
  show ?thesis
    using manual_recover_releases_twice[of ?w ?i "''a1''" ex_req "''k''" ex_agent ?n ?rm "''k2''" ?op ?op
        ex_dcfg 5 6 9 9 "[]" 7 9 9 "[]"] a n s r
    by (simp add: Let_def m del: o_apply)
qed

end
