(* ===== verification/Face_Clients.thy ===== *)
theory Face_Clients
  imports Pollers
begin

text \<open>
  The controller's wrappers of the generated gRPC clients (\<open>client/nodeagent\<close>, \<open>client/assetservice\<close>):
  each call passes the answer on and wraps an error with the name of the call.  The answers
  themselves are parameters.
\<close>

section \<open>The calls\<close>

datatype nodeagent_op = Agent_StartInstance | Agent_StopInstance | InspectInstance | InspectInstanceStream | CleanInstance
  | PrepareGameBuild | Agent_CreateSnapshot | RestoreSnapshot | GetOperation | GetHeartbeat | GetInstances
  | CacheGame | GetCacheGame | RemoveCache | UpdateNodeAgent

fun nodeagent_op_text :: "nodeagent_op \<Rightarrow> string" where
  "nodeagent_op_text Agent_StartInstance = ''start instance''"
| "nodeagent_op_text Agent_StopInstance = ''stop instance''"
| "nodeagent_op_text InspectInstance = ''inspect instance''"
| "nodeagent_op_text InspectInstanceStream = ''inspect instance stream''"
| "nodeagent_op_text CleanInstance = ''clean instance''"
| "nodeagent_op_text PrepareGameBuild = ''prepare game build''"
| "nodeagent_op_text Agent_CreateSnapshot = ''create snapshot''"
| "nodeagent_op_text RestoreSnapshot = ''restore snapshot''"
| "nodeagent_op_text GetOperation = ''get operation''"
| "nodeagent_op_text GetHeartbeat = ''get heartbeat''"
| "nodeagent_op_text GetInstances = ''get instances''"
| "nodeagent_op_text CacheGame = ''cache game''"
| "nodeagent_op_text GetCacheGame = ''get cache game''"
| "nodeagent_op_text RemoveCache = ''remove cache''"
| "nodeagent_op_text UpdateNodeAgent = ''update node agent''"

datatype assetservice_op = ResolveGameBuild | RegisterGameBuild | ListGameBuilds | GetGameBuild | CreateSnapshot
  | CompleteSnapshot | FailSnapshot | GetSnapshot | GetLatestSnapshot | SetLatestSnapshot | GetSnapshotRestorePlan
  | ListSnapshots | PutAgentRelease | RegisterModManifest | GetModManifest | CheckBuildModCompatibility

fun assetservice_op_text :: "assetservice_op \<Rightarrow> string" where
  "assetservice_op_text ResolveGameBuild = ''resolve game build''"
| "assetservice_op_text RegisterGameBuild = ''register game build''"
| "assetservice_op_text ListGameBuilds = ''list game builds''"
| "assetservice_op_text GetGameBuild = ''get game build''"
| "assetservice_op_text CreateSnapshot = ''create snapshot''"
| "assetservice_op_text CompleteSnapshot = ''complete snapshot''"
| "assetservice_op_text FailSnapshot = ''fail snapshot''"
| "assetservice_op_text GetSnapshot = ''get snapshot''"
| "assetservice_op_text GetLatestSnapshot = ''get latest snapshot''"
| "assetservice_op_text SetLatestSnapshot = ''set latest snapshot''"
| "assetservice_op_text GetSnapshotRestorePlan = ''get snapshot restore plan''"
| "assetservice_op_text ListSnapshots = ''list snapshots''"
| "assetservice_op_text PutAgentRelease = ''open put agent release stream''"
| "assetservice_op_text RegisterModManifest = ''register mod manifest''"
| "assetservice_op_text GetModManifest = ''get mod manifest''"
| "assetservice_op_text CheckBuildModCompatibility = ''check build mod compatibility''"

datatype business_op = Business_CreateGame | Business_GetGame | Business_UpdateGame | Business_DeleteGame
  | Business_ListGames | ListSteamBranches

fun business_op_text :: "business_op \<Rightarrow> string" where
  "business_op_text Business_CreateGame = ''create game''"
| "business_op_text Business_GetGame = ''get game''"
| "business_op_text Business_UpdateGame = ''update game''"
| "business_op_text Business_DeleteGame = ''delete game''"
| "business_op_text Business_ListGames = ''list games''"
| "business_op_text ListSteamBranches = ''list steam branches''"

definition face_call :: "string \<Rightarrow> gerr + 'r \<Rightarrow> gerr + 'r" where
  "face_call t r = (case r of Inl e \<Rightarrow> Inl (Wrapped (t @ '': '') e []) | Inr x \<Rightarrow> Inr x)"

definition nodeagent_call :: "nodeagent_op \<Rightarrow> gerr + 'r \<Rightarrow> gerr + 'r" where
  "nodeagent_call op = face_call (nodeagent_op_text op)"

definition assetservice_call :: "assetservice_op \<Rightarrow> gerr + 'r \<Rightarrow> gerr + 'r" where
  "assetservice_call op = face_call (assetservice_op_text op)"

definition business_call :: "business_op \<Rightarrow> gerr + 'r \<Rightarrow> gerr + 'r" where
  "business_call op = face_call (business_op_text op)"

section \<open>What the wrapping keeps\<close>

text \<open>The decisions the dispatcher and the cache manager take on an error look through the wrapping.\<close>

lemma face_call_Inl: "face_call t r = Inl e' \<longleftrightarrow> (\<exists>e. r = Inl e \<and> e' = Wrapped (t @ '': '') e [])"
  by (auto simp: face_call_def split: sum.splits)

lemma face_call_keeps_decisions:
  assumes "face_call t (Inl e) = Inl e'"
  shows "isRetryableRPCErr e' = isRetryableRPCErr e" "extractErrorDetail e' = extractErrorDetail e"
    and "errors_is e s \<Longrightarrow> errors_is e' s"
  using assms by (auto simp: face_call_def isRetryableRPCErr_def extractErrorDetail_def)

end
