(* ===== verification/Controller_Handlers.thy ===== *)
theory Controller_Handlers
  imports Cache_Manager Observer Face_Clients
begin

text \<open>
  The administrators' HTTP interface of the controller: games and builds (\<open>handler/game_handler.go\<close>),
  nodes and agents (\<open>node_handler.go\<close>), caches (\<open>game_cache_handler.go\<close>), credentials
  (\<open>credential_pool_handler.go\<close>), updates and releases (\<open>node_agent_update_handler.go\<close>,
  \<open>agent_release_handler.go\<close>), and the configurations of a game (\<open>game_platform_config_handler.go\<close>,
  \<open>game_container_config_handler.go\<close>).  As in \<open>Instance_Handlers\<close>, a handler is a function of its
  decoded parameters.  The controller itself authenticates nobody.
\<close>

section \<open>Answers\<close>

definition answer_or :: "int \<Rightarrow> gerr + 'b \<Rightarrow> 'b reply" where
  "answer_or code r = (case r of Inl e \<Rightarrow> Failure 500 (error_text e) | Inr x \<Rightarrow> Success code x)"

text \<open>A missing row is 404 with a text of its own.\<close>

definition missing_or :: "string \<Rightarrow> int \<Rightarrow> gerr + 'b \<Rightarrow> 'b reply" where
  "missing_or t other r =
    (case r of
       Inl e \<Rightarrow> if errors_is e ErrRecordNotFound then Failure 404 t else Failure other (error_text e)
     | Inr x \<Rightarrow> Success 200 x)"

definition ok_message :: "string \<Rightarrow> gerr option \<Rightarrow> gerr + string" where
  "ok_message m r = (case r of Some e \<Rightarrow> Inl e | None \<Rightarrow> Inr m)"

definition bad_request_or :: "int \<Rightarrow> gerr + 'b \<Rightarrow> 'b reply" where
  "bad_request_or code r = (case r of Inl e \<Rightarrow> Failure 400 (error_text e) | Inr x \<Rightarrow> Success code x)"

definition with_body :: "string + 'r \<Rightarrow> 'w \<Rightarrow> ('r \<Rightarrow> 'w \<times> 'b reply) \<Rightarrow> 'w \<times> 'b reply" where
  "with_body body w k = (case body of Inl t \<Rightarrow> (w, bad_body t) | Inr r \<Rightarrow> k r)"

section \<open>Games\<close>

record gameRequest =
  gr_Name :: string
  gr_AppID :: string

definition Handle_CreateGame ::
  "(Game \<Rightarrow> gerr option) \<Rightarrow> string + gameRequest \<Rightarrow> 'a db_scheme \<Rightarrow> 'a db_scheme \<times> Game reply" where
  "Handle_CreateGame remote body w = with_body body w (\<lambda>r.
     if gr_Name r = [] then (w, Failure 400 ''name is required'')
     else map_prod id (answer_or 201) (CreateGame remote (gr_Name r) (gr_AppID r) w))"

definition Ctl_Handle_GetGame :: "string \<Rightarrow> 'a db_scheme \<Rightarrow> Game reply" where
  "Ctl_Handle_GetGame ident w = missing_or ''game not found'' 500 (GetGame ident w)"

definition Handle_UpdateGame ::
  "(string \<Rightarrow> string \<Rightarrow> string \<Rightarrow> gerr option) \<Rightarrow> string \<Rightarrow> string + gameRequest \<Rightarrow> 'a db_scheme \<Rightarrow> 'a db_scheme \<times> Game reply" where
  "Handle_UpdateGame remote ident body w = with_body body w (\<lambda>r.
     if gr_Name r = [] then (w, Failure 400 ''name is required'')
     else map_prod id (answer_or 200) (UpdateGame remote ident (gr_Name r) (gr_AppID r) w))"

definition Handle_DeleteGame :: "gerr option \<Rightarrow> string \<Rightarrow> 'a db_scheme \<Rightarrow> 'a db_scheme \<times> string reply" where
  "Handle_DeleteGame remote ident w = map_prod id (\<lambda>e. answer_or 200 (ok_message ''deleted'' e)) (DeleteGame remote ident w)"

definition Ctl_Handle_ListGames :: "'a db_scheme \<Rightarrow> Game list reply" where
  "Ctl_Handle_ListGames w = answer_or 200 (ListGames w)"

section \<open>Builds\<close>

text \<open>\<open>optionalString\<close>: an empty text is an absent field.\<close>

definition optionalString :: "string \<Rightarrow> string option" where
  "optionalString s = (if s = [] then None else Some s)"

text \<open>The asset service lists the builds of a game, optionally of one channel.\<close>

definition Handle_ListGameBuilds ::
  "(string \<Rightarrow> string option \<Rightarrow> gerr + AssetGameBuild list) \<Rightarrow> string \<Rightarrow> string \<Rightarrow> (string \<times> AssetGameBuild list) reply" where
  "Handle_ListGameBuilds builds game channel =
     reply_map (Pair game) (answer_or 200 (assetservice_call ListGameBuilds (builds game (optionalString channel))))"

record config_schema =
  sv_game_id :: string
  sv_build_id :: string
  sv_schema_json :: string
  sv_credentials :: "CredentialSpec list option"

definition Handle_GetConfigSchema ::
  "(string \<Rightarrow> string option \<Rightarrow> gerr + AssetGameBuild list) \<Rightarrow> string \<Rightarrow> config_schema reply" where
  "Handle_GetConfigSchema builds game =
    (case assetservice_call ListGameBuilds (builds game None) of
       Inl e \<Rightarrow> Failure 500 (error_text e)
     | Inr bs \<Rightarrow>
        (case find (\<lambda>b. ab_SchemaJson b \<noteq> []) bs of
           None \<Rightarrow> Failure 404 ''game has no build with config schema''
         | Some b \<Rightarrow> Success 200 \<lparr> sv_game_id = game, sv_build_id = ab_BuildId b, sv_schema_json = ab_SchemaJson b,
                                   sv_credentials = ab_Credentials b \<rparr>))"

record registerGameBuildRequest =
  rb_GameID :: string
  rb_Channel :: string
  rb_BaseBuildID :: string
  rb_AdapterID :: string
  rb_AdapterVersion :: string
  rb_UpstreamVersion :: string
  rb_ArtifactURI :: string
  rb_ArtifactImageName :: string
  rb_ArtifactImageTag :: string
  rb_AdapterMetadata :: "CredentialSpec list option"
  rb_SchemaJSON :: string

text \<open>The request to the asset service: the build and its base; the status of the build is always the
  constant \<open>BUILD_STATUS_AVAILABLE\<close>.\<close>

record build_registration =
  br_GameId :: string
  br_Channel :: "string option"
  br_AdapterId :: string
  br_AdapterVersion :: "string option"
  br_UpstreamVersion :: "string option"
  br_ArtifactUri :: "string option"
  br_ArtifactImageName :: "string option"
  br_ArtifactImageTag :: "string option"
  br_AdapterMetadata :: "CredentialSpec list option"
  br_SchemaJson :: "string option"
  br_BaseBuildId :: "string option"

definition build_registration_of :: "registerGameBuildRequest \<Rightarrow> build_registration" where
  "build_registration_of r = \<lparr> br_GameId = rb_GameID r, br_Channel = optionalString (rb_Channel r),
     br_AdapterId = rb_AdapterID r, br_AdapterVersion = optionalString (rb_AdapterVersion r),
     br_UpstreamVersion = optionalString (rb_UpstreamVersion r), br_ArtifactUri = optionalString (rb_ArtifactURI r),
     br_ArtifactImageName = optionalString (rb_ArtifactImageName r),
     br_ArtifactImageTag = optionalString (rb_ArtifactImageTag r), br_AdapterMetadata = rb_AdapterMetadata r,
     br_SchemaJson = optionalString (rb_SchemaJSON r), br_BaseBuildId = optionalString (rb_BaseBuildID r) \<rparr>"

definition Handle_RegisterGameBuild ::
  "(build_registration \<Rightarrow> gerr + AssetGameBuild) \<Rightarrow> string + registerGameBuildRequest \<Rightarrow> AssetGameBuild reply" where
  "Handle_RegisterGameBuild register body =
    (case body of
       Inl t \<Rightarrow> bad_body t
     | Inr r \<Rightarrow>
        if rb_GameID r = [] then Failure 400 ''game_id is required''
        else if rb_ArtifactImageTag r = [] then Failure 400 msg_tag_required
        else answer_or 201 (assetservice_call RegisterGameBuild (register (build_registration_of r))))"

definition Handle_GetGameBuild :: "(string \<Rightarrow> gerr + AssetGameBuild option) \<Rightarrow> string \<Rightarrow> AssetGameBuild option reply" where
  "Handle_GetGameBuild get_build build = answer_or 200 (assetservice_call GetGameBuild (get_build build))"

section \<open>Nodes\<close>

definition Handle_CreateNode :: "int \<Rightarrow> string + string \<Rightarrow> 'a db_scheme \<Rightarrow> 'a db_scheme \<times> Node reply" where
  "Handle_CreateNode ident body w = with_body body w (\<lambda>ip.
     if ip = [] then (w, Failure 400 ''ip is required'')
     else map_prod id (answer_or 201) (CreateNode ident ip w))"

definition Handle_ListNodes :: "'a db_scheme \<Rightarrow> Node list reply" where
  "Handle_ListNodes w = answer_or 200 (ListNodes w)"

definition Handle_GetNode :: "string \<Rightarrow> 'a db_scheme \<Rightarrow> Node reply" where
  "Handle_GetNode ident w = missing_or ''node not found'' 500 (GetNode ident w)"

definition Handle_UpdateNode ::
  "('a db_scheme \<Rightarrow> 'a db_scheme) \<Rightarrow> string \<Rightarrow> string + NodeUpdate \<Rightarrow> 'a db_scheme \<Rightarrow> 'a db_scheme \<times> Node reply" where
  "Handle_UpdateNode meanwhile ident body w = with_body body w (\<lambda>u.
     map_prod id (missing_or ''node not found'' 500) (UpdateNode meanwhile ident u w))"

text \<open>Every other error of a deletion is a conflict, one of the data base too.\<close>

definition Handle_DeleteNode :: "string \<Rightarrow> 'a db_scheme \<Rightarrow> 'a db_scheme \<times> string reply" where
  "Handle_DeleteNode ident w =
     map_prod id (\<lambda>e. missing_or ''node not found'' 409 (ok_message ''deleted'' e)) (DeleteNode ident w)"

section \<open>Node agents\<close>

record createNodeAgentRequest =
  cn_Name :: string
  cn_NodeID :: string
  cn_Port :: int

definition Handle_CreateNodeAgent :: "string + createNodeAgentRequest \<Rightarrow> 'a db_scheme \<Rightarrow> 'a db_scheme \<times> NodeAgent reply" where
  "Handle_CreateNodeAgent body w = with_body body w (\<lambda>r.
     if cn_Name r = [] then (w, Failure 400 ''name is required'')
     else map_prod id (answer_or 201) (CreateNodeAgent (cn_Name r) (cn_NodeID r) (cn_Port r) w))"

definition Handle_ListNodeAgentHealth :: "'a db_scheme \<Rightarrow> NodeAgentHealth list reply" where
  "Handle_ListNodeAgentHealth w = answer_or 200 (ListNodeAgentHealth w)"

definition Handle_ListNodeAgents :: "'a db_scheme \<Rightarrow> NodeAgent list reply" where
  "Handle_ListNodeAgents w = answer_or 200 (ListNodeAgents w)"

definition Handle_setEnabled ::
  "('a db_scheme \<Rightarrow> 'a db_scheme) \<Rightarrow> bool \<Rightarrow> string \<Rightarrow> 'a db_scheme \<Rightarrow> 'a db_scheme \<times> NodeAgent reply" where
  "Handle_setEnabled meanwhile enabled ident w =
     map_prod id (missing_or ''node_agent not found'' 500) (SetEnabled meanwhile ident enabled w)"

definition Handle_EnableNodeAgent ::
  "('a db_scheme \<Rightarrow> 'a db_scheme) \<Rightarrow> string \<Rightarrow> 'a db_scheme \<Rightarrow> 'a db_scheme \<times> NodeAgent reply" where
  "Handle_EnableNodeAgent meanwhile = Handle_setEnabled meanwhile True"

definition Handle_DisableNodeAgent ::
  "('a db_scheme \<Rightarrow> 'a db_scheme) \<Rightarrow> string \<Rightarrow> 'a db_scheme \<Rightarrow> 'a db_scheme \<times> NodeAgent reply" where
  "Handle_DisableNodeAgent meanwhile = Handle_setEnabled meanwhile False"

section \<open>Branches and caches\<close>

definition Handle_ListBranches :: "string \<Rightarrow> 'a db_scheme \<Rightarrow> (string \<times> SteamBranch list) reply" where
  "Handle_ListBranches game w = reply_map (Pair game) (answer_or 200 (ListNodeBranches game w))"

definition Handle_SyncBranches ::
  "(string \<Rightarrow> gerr + remote_branch option list) \<Rightarrow> time \<Rightarrow> string \<Rightarrow> 'a db_scheme \<Rightarrow> 'a db_scheme \<times> string reply" where
  "Handle_SyncBranches remote now game w =
     map_prod id (\<lambda>e. answer_or 200 (ok_message ''synced'' e)) (SyncAndRecordBranch remote now game w)"

definition msg_branch_missing :: string where
  "msg_branch_missing = ''branch not found for game, sync first''"

definition Handle_SetBranchMinReplicas ::
  "time \<Rightarrow> string \<Rightarrow> string \<Rightarrow> string + int \<Rightarrow> 'a db_scheme \<Rightarrow> 'a db_scheme \<times> string reply" where
  "Handle_SetBranchMinReplicas now game branch body w = with_body body w (\<lambda>n.
     map_prod id (\<lambda>e. missing_or msg_branch_missing 500 (ok_message ''min_replicas updated'' e))
       (SetBranchMinReplicas now game branch n w))"

definition Handle_UpdateBranchCache ::
  "'s agents \<Rightarrow> 'a db_scheme \<Rightarrow> string \<Rightarrow> string \<Rightarrow> string + string \<Rightarrow> 's manager \<Rightarrow> 's manager \<times> string reply" where
  "Handle_UpdateBranchCache ag w game branch body m = with_body body m (\<lambda>a.
     if a = [] then (m, Failure 400 ''node_agent_id is required'')
     else map_prod id (\<lambda>e. missing_or msg_branch_missing 500 (ok_message ''cache ok'' e)) (UpdateBranchCache ag w game branch a m))"

definition Handle_RemoveBranchCache ::
  "'s agents \<Rightarrow> 'a db_scheme \<Rightarrow> string \<Rightarrow> string \<Rightarrow> string + string \<Rightarrow> 's manager \<Rightarrow> 's manager \<times> string reply" where
  "Handle_RemoveBranchCache ag w game branch body m = with_body body m (\<lambda>a.
     if a = [] then (m, Failure 400 ''node_agent_id is required'')
     else map_prod id (\<lambda>e. answer_or 200 (ok_message ''cache removed'' e)) (RemoveBranchCache ag w game branch a m))"

definition Handle_GetNodeCache ::
  "'s agents \<Rightarrow> 'a db_scheme \<Rightarrow> string \<Rightarrow> string \<Rightarrow> string \<Rightarrow> 's manager
   \<Rightarrow> 's manager \<times> (string \<times> string \<times> string \<times> GameCache option) reply" where
  "Handle_GetNodeCache ag w a game branch m =
    (let b = (if branch = [] then ''public'' else branch) in
     map_prod id (\<lambda>r. reply_map (\<lambda>gc. (a, game, b, gc)) (missing_or ''node_agent not found'' 500 r))
       (GetNodeCache ag w a game b m))"

section \<open>Credentials\<close>

definition Handle_ListTypes :: "(gerr + string list list) option \<Rightarrow> string \<Rightarrow> (string \<times> string list) reply" where
  "Handle_ListTypes client game = reply_map (Pair game) (answer_or 200 (DeclaredTypes client))"

definition Handle_ListCredentials :: "string \<Rightarrow> string \<Rightarrow> 'a db_scheme \<Rightarrow> (string \<times> CredentialView list) reply" where
  "Handle_ListCredentials game rtype w = reply_map (Pair game) (answer_or 200 (Cred_List game rtype w))"

record createCredentialsRequest =
  cq_ResourceType :: string
  cq_Secrets :: "string list"
  cq_Remark :: string

definition Handle_CreateCredentials ::
  "time \<Rightarrow> (nat \<Rightarrow> string) \<Rightarrow> (gerr + string list list) option \<Rightarrow> string \<Rightarrow> string + createCredentialsRequest
   \<Rightarrow> 'a db_scheme \<Rightarrow> 'a db_scheme \<times> nat reply" where
  "Handle_CreateCredentials now gen client game body w = with_body body w (\<lambda>r.
     if cq_ResourceType r = [] then (w, Failure 400 ''resource_type is required'')
     else map_prod id (bad_request_or 201) (Cred_Create now gen client game (cq_ResourceType r) (cq_Secrets r) (cq_Remark r) w))"

definition Handle_DeleteCredential :: "string \<Rightarrow> 'a db_scheme \<Rightarrow> 'a db_scheme \<times> string reply" where
  "Handle_DeleteCredential ident w =
     map_prod id (\<lambda>e. bad_request_or 200 (ok_message ''deleted'' e)) (Cred_Delete ident w)"

definition Handle_ForceRelease :: "time \<Rightarrow> string \<Rightarrow> 'a db_scheme \<Rightarrow> 'a db_scheme \<times> string reply" where
  "Handle_ForceRelease now ident w =
     map_prod id (\<lambda>e. bad_request_or 200 (ok_message ''released'' e)) (Cred_ForceRelease now ident w)"

section \<open>Updates and releases of the agents\<close>

record update_item =
  ui_AgentID :: string
  ui_ReleaseID :: string

text \<open>The agents' side of an update: connections, answers, clocks and polls, as \<open>Update\<close> takes them.\<close>

record 'w update_env =
  ue_connect :: "string \<Rightarrow> string \<Rightarrow> gerr option"
  ue_call :: "string \<Rightarrow> UpdateNodeAgentRequest \<Rightarrow> gerr + (string \<times> string) option"
  ue_now :: "nat \<Rightarrow> time"
  ue_polls :: "nat \<Rightarrow> (time \<times> ('w \<Rightarrow> 'w)) list"
  ue_end :: "nat \<Rightarrow> time"

definition run_update ::
  "('a db_scheme) update_env \<Rightarrow> releases \<Rightarrow> NodeAgentUpdateTarget list \<Rightarrow> 'a db_scheme \<Rightarrow> 'a db_scheme \<times> NodeAgentUpdateResult list" where
  "run_update E rs ts w = Update (ue_connect E) (ue_call E) (ue_now E) (ue_polls E) (ue_end E) 0 rs ts w"

definition Handle_BatchUpdate ::
  "('a db_scheme) update_env \<Rightarrow> releases \<Rightarrow> string + update_item list \<Rightarrow> 'a db_scheme \<Rightarrow> 'a db_scheme \<times> NodeAgentUpdateResult list reply" where
  "Handle_BatchUpdate E rs body w = with_body body w (\<lambda>us.
     if us = [] then (w, Failure 400 msg_updates_empty)
     else if list_ex (\<lambda>u. ui_AgentID u = [] \<or> ui_ReleaseID u = []) us then (w, Failure 400 msg_update_fields)
     else map_prod id (Success 200)
       (run_update E rs (map (\<lambda>u. \<lparr> ut_AgentID = ui_AgentID u, ut_ReleaseID = ui_ReleaseID u \<rparr>) us) w))"

definition Handle_Rollback ::
  "('a db_scheme) update_env \<Rightarrow> releases \<Rightarrow> string \<Rightarrow> string + string \<Rightarrow> 'a db_scheme \<Rightarrow> 'a db_scheme \<times> NodeAgentUpdateResult reply" where
  "Handle_Rollback E rs ident body w = with_body body w (\<lambda>release.
     if release = [] then (w, Failure 400 msg_release_required)
     else case Release_Get release rs w of
       Inl e \<Rightarrow> (w, if errors_is e (Errorf ''release not found'') then Failure 404 ''release not found''
                    else Failure 500 (error_text e))
     | Inr r \<Rightarrow>
        (case run_update E rs [\<lparr> ut_AgentID = ident, ut_ReleaseID = release \<rparr>] w of
           (w1, []) \<Rightarrow> (w1, Failure 500 ''no result'')
         | (w1, res # ress) \<Rightarrow> (w1, Success 200 res)))"

text \<open>\<open>file\<close> is the form's file: absent, not to be opened, or its reads.\<close>

datatype form_file = NoFile | BadFile string | FormFile "(string \<times> read_end) list"

definition register_status :: "gerr \<Rightarrow> int" where
  "register_status e =
    (if errors_is e (Errorf ''invalid version (expect vX.Y.Z)'') \<or> errors_is e (Errorf msg_rel_target) then 400
     else if errors_is e (Errorf ''release not found'') then 404 else 500)"

definition Handle_RegisterRelease ::
  "(string \<Rightarrow> string) \<Rightarrow> gerr option \<Rightarrow> gerr option \<Rightarrow> (nat \<Rightarrow> gerr option) \<Rightarrow> (string list \<Rightarrow> gerr + upload_resp) \<Rightarrow> string \<Rightarrow> time
   \<Rightarrow> form_file \<Rightarrow> RegisterParams \<Rightarrow> releases \<Rightarrow> 'a db_scheme \<Rightarrow> releases \<times> AgentRelease reply" where
  "Handle_RegisterRelease canon open_err head_err send recv ident now file p rs w =
    (case file of
       NoFile \<Rightarrow> (rs, Failure 400 msg_file_missing)
     | BadFile t \<Rightarrow> (rs, Failure 500 (''open upload: '' @ t))
     | FormFile reads \<Rightarrow>
        (case Register canon open_err head_err send recv ident now p (Some reads) rs w of
           (rs1, Inl e) \<Rightarrow> (rs1, Failure (register_status e) (error_text e))
         | (rs1, Inr r) \<Rightarrow> (rs1, Success 201 r)))"

definition Handle_ListReleases :: "releases \<Rightarrow> 'a db_scheme \<Rightarrow> releases reply" where
  "Handle_ListReleases rs w = answer_or 200 (Release_List rs w)"

section \<open>Configurations of a game\<close>

definition Handle_GetPlatformConfig :: "string \<Rightarrow> 'a db_scheme \<Rightarrow> GamePlatformConfig reply" where
  "Handle_GetPlatformConfig game w = answer_or 200 (Platform_Get game w)"

text \<open>\<open>operator\<close> is the value of the request's context, which no middleware sets; a missing map of
  the body is the empty one.\<close>

definition Handle_UpdatePlatformConfig ::
  "time \<Rightarrow> (string \<Rightarrow> gerr + AdapterSchema) \<Rightarrow> gerr + string list \<Rightarrow> string \<Rightarrow> string
   \<Rightarrow> string + (string \<times> string) list option \<Rightarrow> 'a db_scheme \<Rightarrow> 'a db_scheme \<times> GamePlatformConfig reply" where
  "Handle_UpdatePlatformConfig now decode builds operator game body w = with_body body w (\<lambda>config.
     map_prod id (bad_request_or 200)
       (Platform_Update now decode builds game (case config of None \<Rightarrow> [] | Some c \<Rightarrow> c)
          (if operator = [] then ''admin'' else operator) w))"

definition msg_config_missing :: string where
  "msg_config_missing = ''game or container config not found''"

definition Handle_GetContainerConfig :: "string \<Rightarrow> 'a db_scheme \<Rightarrow> GameContainerConfig reply" where
  "Handle_GetContainerConfig game w = missing_or msg_config_missing 500 (GetConfig game w)"

definition Handle_UpdateContainerConfig ::
  "(nat \<Rightarrow> nat) \<Rightarrow> string \<Rightarrow> string + ContainerConfigUpdate \<Rightarrow> 'a db_scheme \<Rightarrow> 'a db_scheme \<times> GameContainerConfig reply" where
  "Handle_UpdateContainerConfig gen game body w = with_body body w (\<lambda>u.
     map_prod id (missing_or msg_config_missing 500) (UpdateConfig gen game u w))"

end
