(* ===== verification/Sessions.thy ===== *)
theory Sessions
  imports Admin Instances Dispatch_Properties Http
begin

text \<open>
  What connects the controller with the node agents.  The registry of its gRPC connections
  (\<open>client/nodeagent/node_agent_face_client.go\<close>), and the sessions that let a browser talk to an
  agent directly: the issuer of the tokens (\<open>biz/file_session.go\<close>), the handlers that hand them out
  (\<open>handler/file_session_handler.go\<close>, \<open>handler/node_agent_log_session_handler.go\<close>), and the
  agent's side that accepts them (\<open>node_agent/src/file_server/auth.rs\<close>).  The token libraries of
  both programs are parameters; a connection is the address it was dialled with.
\<close>

section \<open>The registry of connections\<close>

type_synonym connections = "(string \<times> string) list"

definition NewClientRegistry :: connections where
  "NewClientRegistry = []"

text \<open>\<open>dial\<close> is \<open>grpc.NewClient\<close>.\<close>

definition ClientRegistry_Get ::
  "(string \<Rightarrow> gerr option) \<Rightarrow> string \<Rightarrow> string \<Rightarrow> connections \<Rightarrow> connections \<times> (gerr + string)" where
  "ClientRegistry_Get dial k addr reg =
    (case tbl_find fst k reg of
       Some c \<Rightarrow> (reg, Inr (snd c))
     | None \<Rightarrow> (case dial addr of
                 Some e \<Rightarrow> (reg, Inl (Wrapped (''connect to node '' @ k @ '' at '' @ addr @ '': '') e []))
               | None \<Rightarrow> (tbl_put fst (k, addr) reg, Inr addr)))"

definition ClientRegistry_Close :: "(string \<Rightarrow> gerr option) \<Rightarrow> string \<Rightarrow> connections \<Rightarrow> connections \<times> gerr option" where
  "ClientRegistry_Close close k reg =
    (case tbl_find fst k reg of
       None \<Rightarrow> (reg, None)
     | Some c \<Rightarrow> (tbl_del (\<lambda>x. fst x = k) reg, close (snd c)))"

definition ClientRegistry_CloseAll :: "connections \<Rightarrow> connections" where
  "ClientRegistry_CloseAll reg = []"

text \<open>The address at which every component reaches an agent: its node's IP and its port.\<close>

definition agent_addr :: "string \<Rightarrow> 'a db_scheme \<Rightarrow> gerr + string" where
  "agent_addr k w =
    (case AgentRepo_GetByID k w of
       Inl e \<Rightarrow> Inl e
     | Inr agent \<Rightarrow> (case NodeRepo_GetByID (na_NodeId agent) w of
                       Inl e \<Rightarrow> Inl e
                     | Inr node \<Rightarrow> Inr (nd_Ip node @ '':'' @ show_int (na_Port agent))))"

text \<open>A run of the registry: the connections asked for, one after the other.\<close>

fun gets :: "(string \<times> string) list \<Rightarrow> (string \<Rightarrow> gerr option) \<Rightarrow> connections \<Rightarrow> connections" where
  "gets [] dial reg = reg"
| "gets ((k, addr) # rs) dial reg = gets rs dial (fst (ClientRegistry_Get dial k addr reg))"

lemma gets_keep: "tbl_find fst k reg = Some c \<Longrightarrow> tbl_find fst k (gets rs dial reg) = Some c"
proof (induction rs dial reg rule: gets.induct)
  case (2 k' addr rs dial reg)
  have "tbl_find fst k (fst (ClientRegistry_Get dial k' addr reg)) = Some c"
    using 2(2) by (auto simp: ClientRegistry_Get_def tbl_find_put split: option.split)
  then show ?case using 2(1) by simp
qed simp

section \<open>Session tokens\<close>

definition fileSessionScope :: string where "fileSessionScope = ''files''"
definition agentLogsScope :: string where "agentLogsScope = ''agent_logs''"

record FileSession_reply =
  fr_BaseURL :: string
  fr_Token :: string
  fr_InstanceID :: string
  fr_DataRoot :: string
  fr_ExpiresAt :: time

record AgentLogSession =
  ls_BaseURL :: string
  ls_Token :: string
  ls_AgentID :: string
  ls_ExpiresAt :: time

record fileSessionClaims =
  fc_InstanceID :: string
  fc_Scope :: string
  fc_ExpiresAt :: time

record FileSessionIssuer =
  fi_secret :: string
  fi_ttl :: duration

text \<open>The token libraries: the date of a claim, the signature (HS256), and the agent's decoder, which
  also checks the expiry.\<close>

record session_lib =
  sl_NumericDate :: "time \<Rightarrow> time"
  sl_Sign :: "string \<Rightarrow> fileSessionClaims \<Rightarrow> gerr + string"
  sl_decode :: "time \<Rightarrow> string \<Rightarrow> string \<Rightarrow> string + fileSessionClaims"

definition issuer_sign ::
  "session_lib \<Rightarrow> FileSessionIssuer \<Rightarrow> fileSessionClaims \<Rightarrow> time \<Rightarrow> gerr + (string \<times> time)" where
  "issuer_sign L f c expires = (case sl_Sign L (fi_secret f) c of Inl e \<Rightarrow> Inl e | Inr t \<Rightarrow> Inr (t, expires))"

definition Issue :: "session_lib \<Rightarrow> FileSessionIssuer \<Rightarrow> time \<Rightarrow> string \<Rightarrow> gerr + (string \<times> time)" where
  "Issue L f now ident =
    (let expires = now + fi_ttl f in
     issuer_sign L f \<lparr> fc_InstanceID = ident, fc_Scope = fileSessionScope, fc_ExpiresAt = sl_NumericDate L expires \<rparr> expires)"

definition IssueForAgent :: "session_lib \<Rightarrow> FileSessionIssuer \<Rightarrow> time \<Rightarrow> string \<Rightarrow> gerr + (string \<times> time)" where
  "IssueForAgent L f now agent =
    (let expires = now + fi_ttl f in
     issuer_sign L f \<lparr> fc_InstanceID = [], fc_Scope = agentLogsScope, fc_ExpiresAt = sl_NumericDate L expires \<rparr> expires)"

section \<open>The agent's side\<close>

definition verify_token ::
  "session_lib \<Rightarrow> time \<Rightarrow> string \<Rightarrow> string \<Rightarrow> string \<Rightarrow> string + fileSessionClaims" where
  "verify_token L now token secret expected =
    (case sl_decode L now secret token of
       Inl e \<Rightarrow> Inl (''invalid token: '' @ e)
     | Inr c \<Rightarrow> if fc_Scope c \<noteq> ''files'' then Inl ''invalid token scope''
                else if fc_InstanceID c \<noteq> expected then Inl ''token instance mismatch''
                else Inr c)"

definition verify_agent_logs_token ::
  "session_lib \<Rightarrow> time \<Rightarrow> string \<Rightarrow> string \<Rightarrow> string + fileSessionClaims" where
  "verify_agent_logs_token L now token secret =
    (case sl_decode L now secret token of
       Inl e \<Rightarrow> Inl (''invalid token: '' @ e)
     | Inr c \<Rightarrow> if fc_Scope c \<noteq> ''agent_logs'' then Inl ''invalid token scope'' else Inr c)"

section \<open>The handlers\<close>

definition wrap32 :: "int \<Rightarrow> int" where
  "wrap32 x = (x + 2 ^ 31) mod 2 ^ 32 - 2 ^ 31"

text \<open>\<open>nodeAgent.Port + int32(offset)\<close>.\<close>

definition file_url :: "Node \<Rightarrow> NodeAgent \<Rightarrow> int \<Rightarrow> string" where
  "file_url node agent offset = ''http://'' @ nd_Ip node @ '':'' @ show_int (wrap32 (na_Port agent + wrap32 offset))"

text \<open>The node of an agent, or the answer to its absence.\<close>

definition session_node :: "NodeAgent \<Rightarrow> 'a db_scheme \<Rightarrow> (Node \<Rightarrow> 'b reply) \<Rightarrow> 'b reply" where
  "session_node agent w k =
    (if na_NodeId agent = [] then Failure 400 (''node_agent '' @ na_ID agent @ '' has no node_id assigned, set node_id first'')
     else case NodeRepo_GetByID (na_NodeId agent) w of
       Inl e \<Rightarrow> if errors_is e ErrRecordNotFound
                then Failure 404 (''node '' @ na_NodeId agent @ '' not found for node_agent '' @ na_ID agent)
                else Failure 500 (''load node: '' @ error_text e)
     | Inr node \<Rightarrow> k node)"

definition Handle_FileSession ::
  "session_lib \<Rightarrow> FileSessionIssuer \<Rightarrow> int \<Rightarrow> time \<Rightarrow> string \<Rightarrow> 'a db_scheme \<Rightarrow> FileSession_reply reply" where
  "Handle_FileSession L f offset now ident w =
    (case GetGameInstance ident w of
       Inl e \<Rightarrow> if errors_is e ErrRecordNotFound then Failure 404 ''instance not found'' else Failure 500 (error_text e)
     | Inr inst \<Rightarrow>
       (case gi_NodeAgentID inst of
          None \<Rightarrow> Failure 400 ''instance has no node_agent, dispatch it first''
        | Some a \<Rightarrow>
          (case AgentRepo_GetByID a w of
             Inl e \<Rightarrow> Failure 500 (''load node_agent: '' @ error_text e)
           | Inr agent \<Rightarrow>
             session_node agent w (\<lambda>node.
               case Issue L f now ident of
                 Inl e \<Rightarrow> Failure 500 (''issue token: '' @ error_text e)
               | Inr (t, expires) \<Rightarrow>
                   Success 200 \<lparr> fr_BaseURL = file_url node agent offset, fr_Token = t, fr_InstanceID = ident,
                                 fr_DataRoot = ''/data'', fr_ExpiresAt = expires \<rparr>))))"

definition Handle_LogSession ::
  "session_lib \<Rightarrow> FileSessionIssuer \<Rightarrow> int \<Rightarrow> time \<Rightarrow> string \<Rightarrow> 'a db_scheme \<Rightarrow> AgentLogSession reply" where
  "Handle_LogSession L f offset now ident w =
    (case AgentRepo_GetByID ident w of
       Inl e \<Rightarrow> if errors_is e ErrRecordNotFound then Failure 404 ''node_agent not found''
                else Failure 500 (''load node_agent: '' @ error_text e)
     | Inr agent \<Rightarrow>
       session_node agent w (\<lambda>node.
         case IssueForAgent L f now ident of
           Inl e \<Rightarrow> Failure 500 (''issue token: '' @ error_text e)
         | Inr (t, expires) \<Rightarrow>
             Success 200 \<lparr> ls_BaseURL = file_url node agent offset, ls_Token = t, ls_AgentID = ident,
                           ls_ExpiresAt = expires \<rparr>))"

section \<open>What a session allows\<close>

text \<open>The agent's decoder accepts what was signed with its secret and has not expired, and nothing else.\<close>

definition decodes_signed :: "session_lib \<Rightarrow> duration \<Rightarrow> bool" where
  "decodes_signed L leeway \<longleftrightarrow>
     (\<forall>s c t. sl_Sign L s c = Inr t \<longrightarrow>
        (\<forall>now. (now \<le> fc_ExpiresAt c \<longrightarrow> sl_decode L now s t = Inr c) \<and>
               (fc_ExpiresAt c + leeway < now \<longrightarrow> (\<exists>e. sl_decode L now s t = Inl e)) \<and>
               sl_decode L now s t \<in> range Inl \<union> {Inr c}))"

lemma Issue_token:
  "Issue L f now i = Inr (t, expires) \<Longrightarrow> expires = now + fi_ttl f \<and>
     sl_Sign L (fi_secret f) \<lparr> fc_InstanceID = i, fc_Scope = ''files'', fc_ExpiresAt = sl_NumericDate L (now + fi_ttl f) \<rparr> = Inr t"
  by (auto simp: Issue_def issuer_sign_def Let_def fileSessionScope_def split: sum.splits)

lemma IssueForAgent_token:
  "IssueForAgent L f now a = Inr (t, expires) \<Longrightarrow> expires = now + fi_ttl f \<and>
     sl_Sign L (fi_secret f) \<lparr> fc_InstanceID = [], fc_Scope = ''agent_logs'', fc_ExpiresAt = sl_NumericDate L (now + fi_ttl f) \<rparr> = Inr t"
  by (auto simp: IssueForAgent_def issuer_sign_def Let_def agentLogsScope_def split: sum.splits)

lemma Handle_FileSession_token:
  assumes "Handle_FileSession L f offset now i w = Success code s"
  shows "Issue L f now i = Inr (fr_Token s, fr_ExpiresAt s) \<and> fr_InstanceID s = i \<and>
    (\<exists>inst a agent node. InstanceRepo_GetByID i w = Inr inst \<and> gi_NodeAgentID inst = Some a \<and> AgentRepo_GetByID a w = Inr agent \<and>
       NodeRepo_GetByID (na_NodeId agent) w = Inr node \<and> fr_BaseURL s = file_url node agent offset)"
  using assms by (auto simp: Handle_FileSession_def GetGameInstance_def session_node_def
      split: sum.splits option.splits if_splits prod.splits)

lemma Handle_LogSession_token:
  assumes "Handle_LogSession L f offset now a w = Success code l"
  shows "IssueForAgent L f now a = Inr (ls_Token l, ls_ExpiresAt l)"
  using assms by (auto simp: Handle_LogSession_def session_node_def split: sum.splits if_splits prod.splits)

text \<open>What the agent answers to a token of given claims.\<close>

definition accepted :: "'e + 'c \<Rightarrow> bool" where
  "accepted r = (case r of Inl e \<Rightarrow> False | Inr c \<Rightarrow> True)"

lemma decoded:
  assumes "decodes_signed L leeway" "sl_Sign L s c = Inr t"
  shows "now \<le> fc_ExpiresAt c \<Longrightarrow> sl_decode L now s t = Inr c"
    and "fc_ExpiresAt c + leeway < now \<Longrightarrow> \<exists>e. sl_decode L now s t = Inl e"
    and "sl_decode L now s t = Inr c \<or> (\<exists>e. sl_decode L now s t = Inl e)"
  using assms by (auto simp: decodes_signed_def image_iff)

text \<open>C16: A file session is for its instance: until it expires every agent accepts its token for the files of that
  instance, never for another instance and never for the agent's own logs; after the expiry and the
  leeway of the library it is refused.  A log session opens no instance's files, but its token is the
  same for every agent: the session of one agent opens the logs of all.\<close>

theorem session_tokens_confined:
  assumes "decodes_signed L leeway"
    and "Handle_FileSession L f offset now i w = Success 200 s" "Handle_LogSession L f offset now a w = Success 200 l"
    and "until = sl_NumericDate L (now + fi_ttl f)"
  shows "{j. accepted (verify_token L t (fr_Token s) (fi_secret f) j)} =
      (if accepted (verify_token L t (fr_Token s) (fi_secret f) i) then {i} else {}) \<and>
    (t \<le> until \<longrightarrow> accepted (verify_token L t (fr_Token s) (fi_secret f) i)) \<and>
    (until + leeway < t \<longrightarrow> \<not> accepted (verify_token L t (fr_Token s) (fi_secret f) i)) \<and>
    \<not> accepted (verify_agent_logs_token L t (fr_Token s) (fi_secret f)) \<and>
    {j. accepted (verify_token L t (ls_Token l) (fi_secret f) j)} = {} \<and>
    (t \<le> until \<longrightarrow> accepted (verify_agent_logs_token L t (ls_Token l) (fi_secret f))) \<and>
    (Handle_LogSession L f offset now b w = Success 200 l' \<longrightarrow> ls_Token l' = ls_Token l)"
proof -
  let ?s = "fi_secret f"
  define cf where "cf = \<lparr> fc_InstanceID = i, fc_Scope = ''files'', fc_ExpiresAt = until \<rparr>"
  define cl where "cl = \<lparr> fc_InstanceID = [], fc_Scope = ''agent_logs'', fc_ExpiresAt = until \<rparr>"
  have f: "sl_Sign L ?s cf = Inr (fr_Token s)"
    using Issue_token Handle_FileSession_token[OF assms(2)] assms(4) by (fastforce simp: cf_def)
  have l: "sl_Sign L ?s cl = Inr (ls_Token l)"
    using IssueForAgent_token Handle_LogSession_token[OF assms(3)] assms(4) by (fastforce simp: cl_def)
  note df = decoded[OF assms(1) f, of t] and dl = decoded[OF assms(1) l, of t]
  have "accepted (verify_token L t (fr_Token s) ?s j) \<longleftrightarrow> sl_decode L t ?s (fr_Token s) = Inr cf \<and> j = i" for j
    using df(3) by (cases "j = i") (auto simp: accepted_def verify_token_def cf_def)
  moreover have "\<not> accepted (verify_agent_logs_token L t (fr_Token s) ?s)"
    using df(3) by (auto simp: accepted_def verify_agent_logs_token_def cf_def)
  moreover have "\<not> accepted (verify_token L t (ls_Token l) ?s j)" for j
    using dl(3) by (auto simp: accepted_def verify_token_def cl_def)
  moreover have "t \<le> until \<Longrightarrow> accepted (verify_agent_logs_token L t (ls_Token l) ?s)"
    using dl(1) by (simp add: accepted_def verify_agent_logs_token_def cl_def)
  moreover have "ls_Token l' = ls_Token l" if "Handle_LogSession L f offset now b w = Success 200 l'"
    using IssueForAgent_token[OF Handle_LogSession_token[OF that]] l assms(4) by (simp add: cl_def)
  moreover have "until + leeway < t \<Longrightarrow> sl_decode L t ?s (fr_Token s) \<noteq> Inr cf"
    using df(2) by (auto simp: cf_def)
  ultimately show ?thesis using df(1) by (auto simp: cf_def)
qed

section \<open>An agent that moved\<close>

text \<open>C38: An agent is called for ever at the address of its first call.  After the administrator has given its node
  another IP the agent's address is the new one, but whatever connections are asked for in between,
  the registry answers with the connection dialled to the old address.\<close>

theorem edited_node_keeps_old_connection:
  assumes "AgentRepo_GetByID a w = Inr agent" "NodeRepo_GetByID (na_NodeId agent) w = Inr n" "\<forall>c. db_fault w c = None"
    and "ClientRegistry_Get dial a addr reg = (reg1, Inr conn)" "nu_IP u = Some ip"
  shows "agent_addr a (fst (UpdateNode (\<lambda>w. w) (na_NodeId agent) u w)) = Inr (ip @ '':'' @ show_int (na_Port agent)) \<and>
    snd (ClientRegistry_Get dial a (ip @ '':'' @ show_int (na_Port agent)) (gets rs dial reg1)) = Inr conn"
proof -
  let ?n = "edited_node u n"
  have f: "tbl_find node_key (na_NodeId agent) (t_nodes w) = Some n" using assms(2) by (simp add: NodeRepo_GetByID_def)
  have k: "node_key ?n = na_NodeId agent"
    using tbl_find_SomeD[OF f] by (simp add: edited_node_def node_key_def)
  have w1: "fst (UpdateNode (\<lambda>w. w) (na_NodeId agent) u w) = w\<lparr>t_nodes := tbl_put node_key ?n (t_nodes w)\<rparr>"
    using assms(2,3) by (simp add: UpdateNode_def NodeRepo_Save_def guard_write_def)
  have "tbl_find fst a reg1 = Some (a, conn) \<or> (\<exists>c. tbl_find fst a reg1 = Some c \<and> snd c = conn)"
    using assms(4) by (auto simp: ClientRegistry_Get_def tbl_find_put split: option.splits)
  then obtain c where c: "tbl_find fst a reg1 = Some c" "snd c = conn" by fastforce
  have "agent_addr a (fst (UpdateNode (\<lambda>w. w) (na_NodeId agent) u w)) = Inr (ip @ '':'' @ show_int (na_Port agent))"
    using assms(1,3,5) k
    by (simp add: w1 agent_addr_def AgentRepo_GetByID_def NodeRepo_GetByID_def guard_call_def found_def tbl_find_put given_def)
       (simp add: edited_node_def given_def)
  then show ?thesis using gets_keep[OF c(1), of rs dial] c(2) by (simp add: ClientRegistry_Get_def)
qed

text \<open>A file session for an instance on the agent and a log session for the agent, with a library that signs these two.\<close>

lemma show_ex_ports: "show_int 9000 = ''9000''" "show_int 9002 = ''9002''"
proof -
  have "digit 9 = CHR ''9''" "digit 0 = CHR ''0''" "digit 2 = CHR ''2''" by code_simp+
  then show "show_int 9000 = ''9000''" "show_int 9002 = ''9002''" by (simp_all add: show_int_def show_nat.simps)
qed

definition ex_file_claims :: fileSessionClaims where
  "ex_file_claims = \<lparr> fc_InstanceID = ''i1'', fc_Scope = ''files'', fc_ExpiresAt = 15 \<rparr>"

definition ex_log_claims :: fileSessionClaims where
  "ex_log_claims = \<lparr> fc_InstanceID = [], fc_Scope = ''agent_logs'', fc_ExpiresAt = 15 \<rparr>"

definition ex_sessions :: session_lib where
  "ex_sessions = \<lparr> sl_NumericDate = id,
     sl_Sign = (\<lambda>s c. if c = ex_file_claims then Inr ''F'' else if c = ex_log_claims then Inr ''L'' else Inl (Errorf [])),
     sl_decode = (\<lambda>now s t. if 15 < now then Inl ''expired'' else if t = ''F'' then Inr ex_file_claims
                           else if t = ''L'' then Inr ex_log_claims else Inl []) \<rparr>"

lemma ex_sessions_lawful: "decodes_signed ex_sessions 0"
proof -
  have e: "fc_ExpiresAt ex_file_claims = 15" "fc_ExpiresAt ex_log_claims = 15"
    by (simp_all add: ex_file_claims_def ex_log_claims_def)
  have "(now \<le> fc_ExpiresAt c \<longrightarrow> sl_decode ex_sessions now s t = Inr c) \<and>
      (fc_ExpiresAt c + 0 < now \<longrightarrow> (\<exists>e. sl_decode ex_sessions now s t = Inl e)) \<and>
      sl_decode ex_sessions now s t \<in> range Inl \<union> {Inr c}"
    if t: "sl_Sign ex_sessions s c = Inr t" for s c t now
  proof -
    consider "c = ex_file_claims" "t = ''F''" | "c = ex_log_claims" "t = ''L''"
      using t by (auto simp: ex_sessions_def split: if_splits)
    then show ?thesis
    proof cases
      case 1
      then show ?thesis by (simp add: ex_sessions_def e)
    next
      case 2
      then show ?thesis by (simp add: ex_sessions_def e)
    qed
  qed
  then show ?thesis unfolding decodes_signed_def by blast
qed

theorem session_tokens_confined_witness:
  "let w = ex_disp\<lparr>t_instances := [ex_instance\<lparr>gi_NodeAgentID := Some ''a1''\<rparr>]\<rparr>; f = \<lparr> fi_secret = ''k'', fi_ttl = 10 \<rparr> in
     Handle_FileSession ex_sessions f 2 5 ''i1'' w =
       Success 200 \<lparr> fr_BaseURL = ''http://10.0.0.1:9002'', fr_Token = ''F'', fr_InstanceID = ''i1'', fr_DataRoot = ''/data'', fr_ExpiresAt = 15 \<rparr> \<and>
     {j. accepted (verify_token ex_sessions 9 ''F'' ''k'' j)} = {''i1''}"
proof -
  let ?w = "ex_disp\<lparr>t_instances := [ex_instance\<lparr>gi_NodeAgentID := Some ''a1''\<rparr>]\<rparr>" and ?f = "\<lparr> fi_secret = ''k'', fi_ttl = 10 \<rparr>"
  have a: "AgentRepo_GetByID ''a1'' ?w = Inr ex_agent" "NodeRepo_GetByID ''1'' ?w = Inr ex_node"
    "InstanceRepo_GetByID ''i1'' ?w = Inr (ex_instance\<lparr>gi_NodeAgentID := Some ''a1''\<rparr>)"
    by (simp_all add: AgentRepo_GetByID_def NodeRepo_GetByID_def InstanceRepo_GetByID_def guard_call_def found_def table_simps)
  have u: "file_url ex_node ex_agent 2 = ''http://10.0.0.1:9002''"
    by (simp add: file_url_def wrap32_def ex_node_def ex_agent_def show_ex_ports)
  have h: "Handle_FileSession ex_sessions ?f 2 5 ''i1'' ?w =
       Success 200 \<lparr> fr_BaseURL = ''http://10.0.0.1:9002'', fr_Token = ''F'', fr_InstanceID = ''i1'', fr_DataRoot = ''/data'', fr_ExpiresAt = 15 \<rparr>"
    by (simp add: Handle_FileSession_def GetGameInstance_def a session_node_def u Issue_def issuer_sign_def ex_sessions_def
        ex_file_claims_def ex_log_claims_def Let_def fileSessionScope_def)
  obtain l where l: "Handle_LogSession ex_sessions ?f 2 5 ''a1'' ?w = Success 200 l"
    by (simp add: Handle_LogSession_def a session_node_def IssueForAgent_def issuer_sign_def ex_sessions_def
        ex_file_claims_def ex_log_claims_def Let_def agentLogsScope_def)
  show ?thesis
    using session_tokens_confined[OF ex_sessions_lawful h l, of 15 9] h by (simp add: Let_def) (simp add: ex_sessions_def)
qed

theorem edited_node_keeps_old_connection_witness:
  "agent_addr ''a1'' (fst (UpdateNode (\<lambda>u. u) ''1'' (no_update\<lparr>nu_IP := Some ''10.0.0.9''\<rparr>) ex_disp)) = Inr ''10.0.0.9:9000'' \<and>
   snd (ClientRegistry_Get (\<lambda>a. None) ''a1'' ''10.0.0.9:9000'' (gets [] (\<lambda>a. None) [(''a1'', ''10.0.0.1:9000'')])) = Inr ''10.0.0.1:9000''"
proof -
  have k: "na_NodeId ex_agent = ''1''" "na_Port ex_agent = 9000" by (simp_all add: ex_agent_def)
  have a: "AgentRepo_GetByID ''a1'' ex_disp = Inr ex_agent"
    by (simp add: AgentRepo_GetByID_def guard_call_def found_def table_simps)
  have n: "NodeRepo_GetByID (na_NodeId ex_agent) ex_disp = Inr ex_node" unfolding k
    by (simp add: NodeRepo_GetByID_def guard_call_def found_def table_simps)
  have g: "ClientRegistry_Get (\<lambda>a. None) ''a1'' ''10.0.0.1:9000'' NewClientRegistry = ([(''a1'', ''10.0.0.1:9000'')], Inr ''10.0.0.1:9000'')"
    by (simp add: ClientRegistry_Get_def NewClientRegistry_def tbl_find_def tbl_put_def)
  show ?thesis
    using edited_node_keeps_old_connection[OF a n _ g, of "no_update\<lparr>nu_IP := Some ''10.0.0.9''\<rparr>" "''10.0.0.9''" "[]"]
    by (simp add: k show_ex_ports)
qed

end
