(* ===== verification/Controller_Client.thy ===== *)
theory Controller_Client
  imports Platform_Link Controller_Handlers Sessions
begin

text \<open>
  The rest of the platform's client of the controller (\<open>internal/client/controller/controller_client.go\<close>):
  the calls of the administrators, as HTTP calls on the controller's handlers.  With them the record
  \<open>client\<close> of \<open>Platform_Orders\<close> is instantiated by \<open>link_client\<close>, so orders and the catalogue run on the
  model of the controller.  Identifiers are taken to have no character that a URL reads as more than
  itself: the code puts them into paths and queries as they are.
\<close>

section \<open>The two services\<close>

text \<open>The memory of the controller: that of the dispatcher, of the game-cache manager, and the table of
  releases, which has no other user.\<close>

record 'm controller = disp +
  ct_cache :: "'m manager"
  ct_releases :: releases

text \<open>What the controller's handlers are given beside their requests: the asset service, the agents, the
  random identifiers, the token issuer, and what others do while a node or an agent is edited.\<close>

record ('s, 'm) admin_link = "'s link" +
  ak_time_text :: "time \<Rightarrow> string"
  ak_meanwhile :: "'s \<Rightarrow> 's"
  ak_node_ident :: "'s \<Rightarrow> int"
  ak_create_game :: "Game \<Rightarrow> gerr option"
  ak_update_game :: "string \<Rightarrow> string \<Rightarrow> string \<Rightarrow> gerr option"
  ak_delete_game :: "string \<Rightarrow> gerr option"
  ak_list_builds :: "string \<Rightarrow> string option \<Rightarrow> gerr + AssetGameBuild list"
  ak_register_build :: "build_registration \<Rightarrow> gerr + AssetGameBuild"
  ak_get_build :: "string \<Rightarrow> gerr + AssetGameBuild option"
  ak_branches :: "string \<Rightarrow> gerr + remote_branch option list"
  ak_schemas :: "string \<Rightarrow> gerr + string list"
  ak_pools :: "string \<Rightarrow> (gerr + string list list) option"
  ak_credential_ident :: "nat \<Rightarrow> string"
  ak_excerpt_ident :: "nat \<Rightarrow> nat"
  ak_agents :: "'m agents"
  ak_updates :: "'s update_env"
  ak_session :: session_lib
  ak_issuer :: FileSessionIssuer
  ak_file_port_offset :: int

text \<open>The stream of an upload: the answers of the asset service and the identifier of the release; the
  platform's file is read in any chunks.\<close>

record upload_env =
  ul_canon :: "string \<Rightarrow> string"
  ul_open :: "gerr option"
  ul_header :: "gerr option"
  ul_send :: "nat \<Rightarrow> gerr option"
  ul_recv :: "string list \<Rightarrow> gerr + upload_resp"
  ul_ident :: string

type_synonym 'm ctl_link = "('m controller, 'm) admin_link"

section \<open>Nodes and agents\<close>

definition nodes_path :: "string \<Rightarrow> string" where "nodes_path rest = ''/api/nodes'' @ rest"
definition agents_path :: "string \<Rightarrow> string" where "agents_path rest = ''/api/node-agents'' @ rest"
definition games_path :: "string \<Rightarrow> string" where "games_path rest = ''/api/games'' @ rest"

record PNode =
  pnd_Id :: int
  pnd_Ip :: string
  pnd_CoreNum :: int
  pnd_CoreFrequency :: rat
  pnd_MemorySize :: int
  pnd_StorageSize :: int
  pnd_Location :: string
  pnd_ServiceProvider :: string
  pnd_NetRxLimitMbps :: int
  pnd_NetTxLimitMbps :: int

definition decode_node :: "Node \<Rightarrow> PNode" where
  "decode_node n = \<lparr> pnd_Id = nd_Id n, pnd_Ip = nd_Ip n, pnd_CoreNum = nd_CoreNum n, pnd_CoreFrequency = nd_CoreFrequency n,
     pnd_MemorySize = nd_MemorySize n, pnd_StorageSize = nd_StorageSize n, pnd_Location = nd_Location n,
     pnd_ServiceProvider = nd_ServiceProvider n, pnd_NetRxLimitMbps = nd_NetRxLimitMbps n,
     pnd_NetTxLimitMbps = nd_NetTxLimitMbps n \<rparr>"

definition Client_CreateNode :: "'m ctl_link \<Rightarrow> string \<Rightarrow> 'm controller \<Rightarrow> 'm controller \<times> (perr + PNode)" where
  "Client_CreateNode A ip = client_do (lk_wire A) ''POST'' (nodes_path [])
     (\<lambda>s. Handle_CreateNode (ak_node_ident A s) (Inr ip) s) decode_node"

definition Client_ListNodes :: "'m ctl_link \<Rightarrow> 'm controller \<Rightarrow> 'm controller \<times> (perr + PNode list)" where
  "Client_ListNodes A = client_do (lk_wire A) ''GET'' (nodes_path []) (reading Handle_ListNodes) (map decode_node)"

definition Client_GetNode :: "'m ctl_link \<Rightarrow> string \<Rightarrow> 'm controller \<Rightarrow> 'm controller \<times> (perr + PNode)" where
  "Client_GetNode A i = client_do (lk_wire A) ''GET'' (nodes_path (''/'' @ i)) (reading (Handle_GetNode i)) decode_node"

text \<open>The platform's \<open>NodeUpdate\<close> has the same fields as the controller's.\<close>

definition Client_UpdateNode :: "'m ctl_link \<Rightarrow> string \<Rightarrow> NodeUpdate \<Rightarrow> 'm controller \<Rightarrow> 'm controller \<times> (perr + PNode)" where
  "Client_UpdateNode A i u = client_do (lk_wire A) ''PUT'' (nodes_path (''/'' @ i))
     (Handle_UpdateNode (ak_meanwhile A) i (Inr u)) decode_node"

definition Client_DeleteNode :: "'m ctl_link \<Rightarrow> string \<Rightarrow> 'm controller \<Rightarrow> 'm controller \<times> perr option" where
  "Client_DeleteNode A i = (\<lambda>s. no_body (client_do (lk_wire A) ''DELETE'' (nodes_path (''/'' @ i)) (Handle_DeleteNode i) id s))"

record PNodeAgent =
  pa_ID :: string
  pa_NodeId :: string
  pa_Port :: int
  pa_Status :: int
  pa_Alive :: bool
  pa_LastHeartbeatAt :: "string option"
  pa_HealthStatus :: int
  pa_AgentVersion :: string
  pa_UpdateState :: string
  pa_TargetVersion :: string
  pa_LastUpdateAt :: "string option"
  pa_LastUpdateErr :: string

fun agent_status_code :: "NodeAgentStatus \<Rightarrow> int" where
  "agent_status_code Disabled = 0"
| "agent_status_code Enabled = 1"

fun health_status_code :: "NodeAgentHealthStatus \<Rightarrow> int" where
  "health_status_code HealthUnknown = 0"
| "health_status_code HealthHealthy = 1"
| "health_status_code HealthDegraded = 2"
| "health_status_code HealthUnhealthy = 3"

definition decode_agent :: "(time \<Rightarrow> string) \<Rightarrow> NodeAgent \<Rightarrow> PNodeAgent" where
  "decode_agent f a = \<lparr> pa_ID = na_ID a, pa_NodeId = na_NodeId a, pa_Port = na_Port a, pa_Status = agent_status_code (na_Status a),
     pa_Alive = na_Alive a, pa_LastHeartbeatAt = map_option f (na_LastHeartbeatAt a),
     pa_HealthStatus = health_status_code (na_HealthStatus a), pa_AgentVersion = na_AgentVersion a,
     pa_UpdateState = na_UpdateState a, pa_TargetVersion = na_TargetVersion a,
     pa_LastUpdateAt = map_option f (na_LastUpdateAt a), pa_LastUpdateErr = na_LastUpdateErr a \<rparr>"

text \<open>A port that is not positive is left out of the body, so the controller reads zero.\<close>

definition Client_CreateNodeAgent ::
  "'m ctl_link \<Rightarrow> string \<Rightarrow> string \<Rightarrow> int \<Rightarrow> 'm controller \<Rightarrow> 'm controller \<times> (perr + PNodeAgent)" where
  "Client_CreateNodeAgent A name node port = client_do (lk_wire A) ''POST'' (agents_path [])
     (Handle_CreateNodeAgent (Inr \<lparr> cn_Name = name, cn_NodeID = node, cn_Port = (if port > 0 then port else 0) \<rparr>))
     (decode_agent (ak_time_text A))"

definition Client_ListNodeAgents :: "'m ctl_link \<Rightarrow> 'm controller \<Rightarrow> 'm controller \<times> (perr + PNodeAgent list)" where
  "Client_ListNodeAgents A = client_do (lk_wire A) ''GET'' (agents_path []) (reading Handle_ListNodeAgents)
     (map (decode_agent (ak_time_text A)))"

definition Client_SetNodeAgentEnabled ::
  "'m ctl_link \<Rightarrow> string \<Rightarrow> bool \<Rightarrow> 'm controller \<Rightarrow> 'm controller \<times> (perr + PNodeAgent)" where
  "Client_SetNodeAgentEnabled A i enabled =
     client_do (lk_wire A) ''POST'' (agents_path (''/'' @ i @ ''/'' @ (if enabled then ''enable'' else ''disable'')))
       (if enabled then Handle_EnableNodeAgent (ak_meanwhile A) i else Handle_DisableNodeAgent (ak_meanwhile A) i)
       (decode_agent (ak_time_text A))"

section \<open>Releases and updates of the agents\<close>

record PAgentRelease =
  prel_ID :: string
  prel_Version :: string
  prel_OS :: string
  prel_Arch :: string
  prel_SHA256 :: string
  prel_SizeBytes :: int
  prel_StorageKey :: string
  prel_Note :: string
  prel_CreatedBy :: string
  prel_CreatedAt :: string

definition decode_release :: "(time \<Rightarrow> string) \<Rightarrow> AgentRelease \<Rightarrow> PAgentRelease" where
  "decode_release f r = \<lparr> prel_ID = ar_ID r, prel_Version = ar_Version r, prel_OS = ar_OS r, prel_Arch = ar_Arch r,
     prel_SHA256 = ar_SHA256 r, prel_SizeBytes = ar_SizeBytes r, prel_StorageKey = ar_StorageKey r, prel_Note = ar_Note r,
     prel_CreatedBy = ar_CreatedBy r, prel_CreatedAt = f (ar_CreatedAt r) \<rparr>"

text \<open>The multipart body is written while the request runs: an error of the platform's own read breaks
  the request, before the controller's handler has its form.\<close>

definition Client_UploadAgentRelease ::
  "'m ctl_link \<Rightarrow> upload_env \<Rightarrow> string \<Rightarrow> string \<Rightarrow> string \<Rightarrow> string \<Rightarrow> string + (string \<times> read_end) list
   \<Rightarrow> 'm controller \<Rightarrow> 'm controller \<times> (perr + PAgentRelease)" where
  "Client_UploadAgentRelease A U version os arch note body s =
    (case body of
       Inl t \<Rightarrow> (s, Inl (request_error ''POST'' (agents_path ''/releases'') t))
     | Inr reads \<Rightarrow>
        client_do (lk_wire A) ''POST'' (agents_path ''/releases'')
          (\<lambda>s. map_prod (\<lambda>rs. s\<lparr>ct_releases := rs\<rparr>) id
             (Handle_RegisterRelease (ul_canon U) (ul_open U) (ul_header U) (ul_send U) (ul_recv U) (ul_ident U) (lk_now A)
               (FormFile reads) \<lparr> rp_Version = version, rp_OS = os, rp_Arch = arch, rp_Note = note, rp_ByUser = ''admin'' \<rparr>
               (ct_releases s) s))
          (decode_release (ak_time_text A)) s)"

definition Client_ListAgentReleases :: "'m ctl_link \<Rightarrow> 'm controller \<Rightarrow> 'm controller \<times> (perr + PAgentRelease list)" where
  "Client_ListAgentReleases A = client_do (lk_wire A) ''GET'' (agents_path ''/releases'')
     (reading (\<lambda>s. Handle_ListReleases (ct_releases s) s)) (map (decode_release (ak_time_text A)))"

text \<open>The result of an update has the same fields on both sides.\<close>

definition Client_BatchUpdateNodeAgents ::
  "'m ctl_link \<Rightarrow> update_item list \<Rightarrow> 'm controller \<Rightarrow> 'm controller \<times> (perr + NodeAgentUpdateResult list)" where
  "Client_BatchUpdateNodeAgents A us = client_do (lk_wire A) ''POST'' (agents_path ''/batch-update'')
     (\<lambda>s. Handle_BatchUpdate (ak_updates A) (ct_releases s) (Inr us) s) id"

definition Client_RollbackNodeAgent ::
  "'m ctl_link \<Rightarrow> string \<Rightarrow> string \<Rightarrow> 'm controller \<Rightarrow> 'm controller \<times> (perr + NodeAgentUpdateResult)" where
  "Client_RollbackNodeAgent A i release = client_do (lk_wire A) ''POST'' (agents_path (''/'' @ i @ ''/rollback''))
     (\<lambda>s. Handle_Rollback (ak_updates A) (ct_releases s) i (Inr release) s) id"

section \<open>Games, builds and configurations\<close>

definition decode_game :: "Game \<Rightarrow> PGame" where
  "decode_game g = \<lparr> pg_ID = gm_ID g, pg_Name = gm_Name g, pg_AppId = gm_AppId g, pg_ContainerConfigID = gm_ContainerConfigID g \<rparr>"

definition Client_CreateGame ::
  "'m ctl_link \<Rightarrow> string \<Rightarrow> string \<Rightarrow> 'm controller \<Rightarrow> 'm controller \<times> (perr + PGame)" where
  "Client_CreateGame A name app = client_do (lk_wire A) ''POST'' (games_path [])
     (Handle_CreateGame (ak_create_game A) (Inr \<lparr> gr_Name = name, gr_AppID = app \<rparr>)) decode_game"

definition Client_ListGames :: "'m ctl_link \<Rightarrow> 'm controller \<Rightarrow> 'm controller \<times> (perr + PGame list)" where
  "Client_ListGames A = client_do (lk_wire A) ''GET'' (games_path []) (reading Ctl_Handle_ListGames) (map decode_game)"

definition Client_GetGame :: "'m ctl_link \<Rightarrow> string \<Rightarrow> 'm controller \<Rightarrow> 'm controller \<times> (perr + PGame)" where
  "Client_GetGame A i = client_do (lk_wire A) ''GET'' (games_path (''/'' @ i)) (reading (Ctl_Handle_GetGame i)) decode_game"

definition Client_UpdateGame ::
  "'m ctl_link \<Rightarrow> string \<Rightarrow> string \<Rightarrow> string \<Rightarrow> 'm controller \<Rightarrow> 'm controller \<times> (perr + PGame)" where
  "Client_UpdateGame A i name app = client_do (lk_wire A) ''PUT'' (games_path (''/'' @ i))
     (Handle_UpdateGame (ak_update_game A) i (Inr \<lparr> gr_Name = name, gr_AppID = app \<rparr>)) decode_game"

definition Client_DeleteGame :: "'m ctl_link \<Rightarrow> string \<Rightarrow> 'm controller \<Rightarrow> 'm controller \<times> perr option" where
  "Client_DeleteGame A i = (\<lambda>s. no_body (client_do (lk_wire A) ''DELETE'' (games_path (''/'' @ i))
     (Handle_DeleteGame (ak_delete_game A i) i) id s))"

text \<open>The platform's \<open>GameBuild\<close> reads the fields of a build that the controller writes.\<close>

definition Client_ListGameBuilds ::
  "'m ctl_link \<Rightarrow> string \<Rightarrow> string \<Rightarrow> 'm controller \<Rightarrow> 'm controller \<times> (perr + AssetGameBuild list)" where
  "Client_ListGameBuilds A game channel =
     client_do (lk_wire A) ''GET'' (games_path (''/'' @ game @ ''/builds'' @ (if channel = [] then [] else ''?channel='' @ channel)))
       (reading (\<lambda>s. Handle_ListGameBuilds (ak_list_builds A) game channel)) snd"

text \<open>\<open>derefStr\<close> of the handler's optional texts gives the texts back, so the body is the platform's
  request with the game of the path.\<close>

definition Client_RegisterGameBuild ::
  "'m ctl_link \<Rightarrow> string \<Rightarrow> registerGameBuildRequest \<Rightarrow> 'm controller \<Rightarrow> 'm controller \<times> (perr + AssetGameBuild)" where
  "Client_RegisterGameBuild A game r = client_do (lk_wire A) ''POST'' (games_path (''/'' @ game @ ''/builds''))
     (reading (\<lambda>s. Handle_RegisterGameBuild (ak_register_build A) (Inr (r\<lparr>rb_GameID := game\<rparr>)))) id"

definition Client_GetGameBuild ::
  "'m ctl_link \<Rightarrow> string \<Rightarrow> string \<Rightarrow> 'm controller \<Rightarrow> 'm controller \<times> (perr + AssetGameBuild option)" where
  "Client_GetGameBuild A game build = client_do (lk_wire A) ''GET'' (games_path (''/'' @ game @ ''/builds/'' @ build))
     (reading (\<lambda>s. Handle_GetGameBuild (ak_get_build A) build)) id"

text \<open>The platform keeps the adapter metadata of a schema as JSON: here the text \<open>show\<close> gives it.\<close>

definition Client_GetConfigSchema ::
  "'m ctl_link \<Rightarrow> (CredentialSpec list option \<Rightarrow> string) \<Rightarrow> string \<Rightarrow> 'm controller \<Rightarrow> 'm controller \<times> (perr + PConfigSchema)" where
  "Client_GetConfigSchema A metadata game = client_do (lk_wire A) ''GET'' (games_path (''/'' @ game @ ''/config-schema''))
     (reading (\<lambda>s. Handle_GetConfigSchema (ak_list_builds A) game))
     (\<lambda>v. \<lparr> cs_GameID = sv_game_id v, cs_BuildID = sv_build_id v, cs_SchemaJSON = sv_schema_json v,
            cs_AdapterMetadata = metadata (sv_credentials v) \<rparr>)"

record PPlatformConfig =
  pp_GameID :: string
  pp_Config :: "(string \<times> string) list"
  pp_Version :: int
  pp_UpdatedBy :: string
  pp_UpdateTime :: string

definition decode_platform_config :: "(time \<Rightarrow> string) \<Rightarrow> GamePlatformConfig \<Rightarrow> PPlatformConfig" where
  "decode_platform_config f c = \<lparr> pp_GameID = gp_GameID c, pp_Config = gp_Config c, pp_Version = gp_Version c,
     pp_UpdatedBy = gp_UpdatedBy c, pp_UpdateTime = f (gp_UpdateTime c) \<rparr>"

definition Client_GetPlatformConfig :: "'m ctl_link \<Rightarrow> string \<Rightarrow> 'm controller \<Rightarrow> 'm controller \<times> (perr + PPlatformConfig)" where
  "Client_GetPlatformConfig A game = client_do (lk_wire A) ''GET'' (games_path (''/'' @ game @ ''/platform-config''))
     (reading (Handle_GetPlatformConfig game)) (decode_platform_config (ak_time_text A))"

definition Client_UpdatePlatformConfig ::
  "'m ctl_link \<Rightarrow> string \<Rightarrow> (string \<times> string) list option \<Rightarrow> 'm controller \<Rightarrow> 'm controller \<times> (perr + PPlatformConfig)" where
  "Client_UpdatePlatformConfig A game config = client_do (lk_wire A) ''PUT'' (games_path (''/'' @ game @ ''/platform-config''))
     (Handle_UpdatePlatformConfig (lk_now A) (lk_decode A) (ak_schemas A game) [] game (Inr config))
     (decode_platform_config (ak_time_text A))"

record PContainerConfig =
  pk_ID :: string
  pk_ContainerServerPath :: string
  pk_PortMode :: GameContainerPortMode
  pk_InjectGamePort :: bool
  pk_CPURequestMilli :: int
  pk_MemoryRequestBytes :: int
  pk_DiskRequestBytes :: int
  pk_BandwidthRxMbps :: int
  pk_BandwidthTxMbps :: int
  pk_SingleThreaded :: bool
  pk_PortExcerpt :: "PortExcerptInput list"

definition decode_container_config :: "GameContainerConfig \<Rightarrow> PContainerConfig" where
  "decode_container_config c = \<lparr> pk_ID = gc_ID c, pk_ContainerServerPath = gc_ContainerServerPath c, pk_PortMode = gc_PortMode c,
     pk_InjectGamePort = gc_InjectGamePort c, pk_CPURequestMilli = gc_CPURequestMilli c,
     pk_MemoryRequestBytes = gc_MemoryRequestBytes c, pk_DiskRequestBytes = gc_DiskRequestBytes c,
     pk_BandwidthRxMbps = gc_BandwidthRxMbps c, pk_BandwidthTxMbps = gc_BandwidthTxMbps c,
     pk_SingleThreaded = gc_SingleThreaded c,
     pk_PortExcerpt = map (\<lambda>e. \<lparr> xi_Protocol = pe_Protocol e, xi_BeginPort = pe_BeginPort e,
       xi_ExcerptLength = pe_ExcerptLength e, xi_IsGamePort = pe_IsGamePort e \<rparr>) (gc_PortExcerpt c) \<rparr>"

text \<open>The platform's update has no probe and no query port: they do not reach the controller.\<close>

record PContainerConfigUpdate =
  pu_ContainerServerPath :: "string option"
  pu_PortMode :: "GameContainerPortMode option"
  pu_InjectGamePort :: "bool option"
  pu_CPURequestMilli :: "int option"
  pu_MemoryRequestBytes :: "int option"
  pu_DiskRequestBytes :: "int option"
  pu_BandwidthRxMbps :: "int option"
  pu_BandwidthTxMbps :: "int option"
  pu_SingleThreaded :: "bool option"
  pu_PortExcerpts :: "PortExcerptInput list option"

definition encode_container_update :: "PContainerConfigUpdate \<Rightarrow> ContainerConfigUpdate" where
  "encode_container_update u = \<lparr> cu_ContainerServerPath = pu_ContainerServerPath u, cu_PortMode = pu_PortMode u,
     cu_InjectGamePort = pu_InjectGamePort u, cu_CPURequestMilli = pu_CPURequestMilli u,
     cu_MemoryRequestBytes = pu_MemoryRequestBytes u, cu_DiskRequestBytes = pu_DiskRequestBytes u,
     cu_BandwidthRxMbps = pu_BandwidthRxMbps u, cu_BandwidthTxMbps = pu_BandwidthTxMbps u,
     cu_SingleThreaded = pu_SingleThreaded u, cu_PortExcerpts = pu_PortExcerpts u,
     cu_ProbeMode = None, cu_QueryPortOffset = None \<rparr>"

definition Client_GetContainerConfig :: "'m ctl_link \<Rightarrow> string \<Rightarrow> 'm controller \<Rightarrow> 'm controller \<times> (perr + PContainerConfig)" where
  "Client_GetContainerConfig A game = client_do (lk_wire A) ''GET'' (games_path (''/'' @ game @ ''/container-config''))
     (reading (Handle_GetContainerConfig game)) decode_container_config"

definition Client_UpdateContainerConfig ::
  "'m ctl_link \<Rightarrow> string \<Rightarrow> PContainerConfigUpdate \<Rightarrow> 'm controller \<Rightarrow> 'm controller \<times> (perr + PContainerConfig)" where
  "Client_UpdateContainerConfig A game u = client_do (lk_wire A) ''PUT'' (games_path (''/'' @ game @ ''/container-config''))
     (Handle_UpdateContainerConfig (ak_excerpt_ident A) game (Inr (encode_container_update u))) decode_container_config"

section \<open>Branches, caches and credentials\<close>

record PSteamBranch =
  ps_Id :: string
  ps_BranchName :: string
  ps_LastBuildId :: int
  ps_Description :: string
  ps_GameId :: string
  ps_Status :: int
  ps_MinReplicas :: int
  ps_CreateTime :: string
  ps_UpdateTime :: string

fun branch_status_code :: "SteamBranchStatus \<Rightarrow> int" where
  "branch_status_code Disable = 0"
| "branch_status_code Enable = 1"
| "branch_status_code Abandoned = 2"

definition decode_branch :: "(time \<Rightarrow> string) \<Rightarrow> SteamBranch \<Rightarrow> PSteamBranch" where
  "decode_branch f b = \<lparr> ps_Id = sb_Id b, ps_BranchName = sb_BranchName b, ps_LastBuildId = sb_LastBuildId b,
     ps_Description = sb_Description b, ps_GameId = sb_GameId b, ps_Status = branch_status_code (sb_Status b),
     ps_MinReplicas = sb_MinReplicas b, ps_CreateTime = f (sb_CreateTime b), ps_UpdateTime = f (sb_UpdateTime b) \<rparr>"

definition Client_ListBranches :: "'m ctl_link \<Rightarrow> string \<Rightarrow> 'm controller \<Rightarrow> 'm controller \<times> (perr + PSteamBranch list)" where
  "Client_ListBranches A game = client_do (lk_wire A) ''GET'' (games_path (''/'' @ game @ ''/branches''))
     (reading (Handle_ListBranches game)) (\<lambda>r. map (decode_branch (ak_time_text A)) (snd r))"

definition Client_SyncBranches :: "'m ctl_link \<Rightarrow> string \<Rightarrow> 'm controller \<Rightarrow> 'm controller \<times> perr option" where
  "Client_SyncBranches A game = (\<lambda>s. no_body (client_do (lk_wire A) ''POST'' (games_path (''/'' @ game @ ''/branches/sync''))
     (Handle_SyncBranches (ak_branches A) (lk_now A) game) id s))"

definition Client_UpdateBranchCache ::
  "'m ctl_link \<Rightarrow> string \<Rightarrow> string \<Rightarrow> string \<Rightarrow> 'm controller \<Rightarrow> 'm controller \<times> perr option" where
  "Client_UpdateBranchCache A game branch agent = (\<lambda>s. no_body (client_do (lk_wire A) ''POST''
     (games_path (''/'' @ game @ ''/branches/'' @ branch @ ''/cache''))
     (\<lambda>s. map_prod (\<lambda>m. s\<lparr>ct_cache := m\<rparr>) id (Handle_UpdateBranchCache (ak_agents A) s game branch (Inr agent) (ct_cache s))) id s))"

definition Client_SetBranchMinReplicas ::
  "'m ctl_link \<Rightarrow> string \<Rightarrow> string \<Rightarrow> int \<Rightarrow> 'm controller \<Rightarrow> 'm controller \<times> perr option" where
  "Client_SetBranchMinReplicas A game branch n = (\<lambda>s. no_body (client_do (lk_wire A) ''PUT''
     (games_path (''/'' @ game @ ''/branches/'' @ branch)) (Handle_SetBranchMinReplicas (lk_now A) game branch (Inr n)) id s))"

definition credentials_path :: "string \<Rightarrow> string \<Rightarrow> string" where
  "credentials_path game rest = games_path (''/'' @ game @ ''/credentials'' @ rest)"

text \<open>The platform's \<open>Credential\<close> is the controller's view of it: the secret is masked already.\<close>

definition Client_ListCredentials ::
  "'m ctl_link \<Rightarrow> string \<Rightarrow> string \<Rightarrow> 'm controller \<Rightarrow> 'm controller \<times> (perr + CredentialView list)" where
  "Client_ListCredentials A game rtype =
     client_do (lk_wire A) ''GET'' (credentials_path game (if rtype = [] then [] else ''?resource_type='' @ rtype))
       (reading (Handle_ListCredentials game rtype)) snd"

definition Client_ListCredentialTypes :: "'m ctl_link \<Rightarrow> string \<Rightarrow> 'm controller \<Rightarrow> 'm controller \<times> (perr + string list)" where
  "Client_ListCredentialTypes A game = client_do (lk_wire A) ''GET'' (credentials_path game ''/types'')
     (reading (\<lambda>s. Handle_ListTypes (ak_pools A game) game)) snd"

definition Client_CreateCredentials ::
  "'m ctl_link \<Rightarrow> string \<Rightarrow> createCredentialsRequest \<Rightarrow> 'm controller \<Rightarrow> 'm controller \<times> (perr + nat)" where
  "Client_CreateCredentials A game r = client_do (lk_wire A) ''POST'' (credentials_path game [])
     (Handle_CreateCredentials (lk_now A) (ak_credential_ident A) (ak_pools A game) game (Inr r)) id"

definition Client_DeleteCredential :: "'m ctl_link \<Rightarrow> string \<Rightarrow> string \<Rightarrow> 'm controller \<Rightarrow> 'm controller \<times> perr option" where
  "Client_DeleteCredential A game i = (\<lambda>s. no_body (client_do (lk_wire A) ''DELETE'' (credentials_path game (''/'' @ i))
     (Handle_DeleteCredential i) id s))"

definition Client_ForceReleaseCredential :: "'m ctl_link \<Rightarrow> string \<Rightarrow> string \<Rightarrow> 'm controller \<Rightarrow> 'm controller \<times> perr option" where
  "Client_ForceReleaseCredential A game i = (\<lambda>s. no_body (client_do (lk_wire A) ''POST''
     (credentials_path game (''/'' @ i @ ''/force-release'')) (Handle_ForceRelease (lk_now A) i) id s))"

section \<open>Sessions\<close>

definition Client_CreateFileSession :: "'m ctl_link \<Rightarrow> string \<Rightarrow> 'm controller \<Rightarrow> 'm controller \<times> (perr + PFileSession)" where
  "Client_CreateFileSession A i = client_do (lk_wire A) ''POST'' (instances_path (''/'' @ i @ ''/file-session''))
     (reading (Handle_FileSession (ak_session A) (ak_issuer A) (ak_file_port_offset A) (lk_now A) i))
     (\<lambda>r. \<lparr> fs_BaseURL = fr_BaseURL r, fs_Token = fr_Token r, fs_InstanceID = fr_InstanceID r, fs_DataRoot = fr_DataRoot r,
            fs_ExpiresAt = ak_time_text A (fr_ExpiresAt r) \<rparr>)"

record PAgentLogSession =
  plog_BaseURL :: string
  plog_Token :: string
  plog_AgentID :: string
  plog_ExpiresAt :: string

definition Client_CreateAgentLogSession ::
  "'m ctl_link \<Rightarrow> string \<Rightarrow> 'm controller \<Rightarrow> 'm controller \<times> (perr + PAgentLogSession)" where
  "Client_CreateAgentLogSession A i = client_do (lk_wire A) ''POST'' (agents_path (''/'' @ i @ ''/log-session''))
     (reading (Handle_LogSession (ak_session A) (ak_issuer A) (ak_file_port_offset A) (lk_now A) i))
     (\<lambda>r. \<lparr> plog_BaseURL = ls_BaseURL r, plog_Token = ls_Token r, plog_AgentID = ls_AgentID r,
            plog_ExpiresAt = ak_time_text A (ls_ExpiresAt r) \<rparr>)"

section \<open>Observation\<close>

text \<open>The requests below \<open>/api/observe\<close>, with their queries; any other one finds no route.  The answer's
  body is passed on as it is: \<open>json\<close> writes it.\<close>

datatype observe_request =
    ObsNodes | ObsHistory string "duration option" | ObsCache | ObsQueue | ObsEvents string string string | ObsStats
  | ObsPreview "string + PreviewRequest" | ObsOther string string

datatype observe_body =
    BodyNodes "NodeOverview list" | BodyHistory "string \<times> NodeResourceSample list" | BodyCache "NodeCacheOverview list"
  | BodyQueue "QueueItemOverview list \<times> nat" | BodyEvents "SchedulerEvent list \<times> string" | BodyStats SchedulerStats_view
  | BodyPreview PreviewResult

record observe_env =
  oe_target :: rat
  oe_sched :: sched_cfg
  oe_stats :: "sched_cfg option"
  oe_view :: "snapshot option"
  oe_ident :: "nat \<Rightarrow> string"

fun observe :: "observe_env \<Rightarrow> (time \<Rightarrow> string) \<Rightarrow> time \<Rightarrow> observe_request \<Rightarrow> 'm controller \<Rightarrow> observe_body reply" where
  "observe E f now ObsNodes s = reply_map BodyNodes (Handle_NodesOverview (oe_target E) s)"
| "observe E f now (ObsHistory node window) s = reply_map BodyHistory (Handle_NodeHistory now node window s)"
| "observe E f now ObsCache s = reply_map BodyCache (Handle_CacheOverview (oe_view E) s)"
| "observe E f now ObsQueue s = reply_map BodyQueue (Handle_QueueOverview f now s)"
| "observe E f now (ObsEvents limit typ hours) s = reply_map BodyEvents (Handle_Events now limit typ hours s)"
| "observe E f now ObsStats s = reply_map BodyStats (Handle_SchedulerStats (oe_stats E) s)"
| "observe E f now (ObsPreview body) s = reply_map BodyPreview (Handle_PreviewSchedule (oe_sched E) now (oe_ident E) body s)"
| "observe E f now (ObsOther m p) s = Failure 404 ''404 page not found''"

fun observe_path :: "observe_request \<Rightarrow> string \<times> string" where
  "observe_path ObsNodes = (''GET'', ''/nodes'')"
| "observe_path (ObsHistory node window) = (''GET'', ''/nodes/'' @ node @ ''/history'')"
| "observe_path ObsCache = (''GET'', ''/cache'')"
| "observe_path ObsQueue = (''GET'', ''/queue'')"
| "observe_path (ObsEvents limit typ hours) = (''GET'', ''/events'')"
| "observe_path ObsStats = (''GET'', ''/scheduler/stats'')"
| "observe_path (ObsPreview body) = (''POST'', ''/scheduler/preview'')"
| "observe_path (ObsOther m p) = (m, p)"

definition Client_ObserveForward ::
  "'m ctl_link \<Rightarrow> observe_env \<Rightarrow> string \<Rightarrow> observe_request \<Rightarrow> 'm controller \<Rightarrow> 'm controller \<times> (perr + observe_body)" where
  "Client_ObserveForward A E query r =
    (let (m, p) = observe_path r in
     client_do (lk_wire A) m (''/api/observe'' @ p @ (if query = [] then [] else ''?'' @ query))
       (reading (observe E (ak_time_text A) (lk_now A) r)) id)"

section \<open>The client of the use cases\<close>

definition link_client :: "'m ctl_link \<Rightarrow> (CredentialSpec list option \<Rightarrow> string) \<Rightarrow> 'm controller client" where
  "link_client A metadata = \<lparr> cl_instances = controller_api (link.truncate A),
     cl_UpdateConfig = Client_UpdateInstanceConfig (link.truncate A), cl_Connect = Client_GetInstanceConnect (link.truncate A),
     cl_FileSession = Client_CreateFileSession A, cl_ConfigSchema = (\<lambda>g s. snd (Client_GetConfigSchema A metadata g s)),
     cl_ListGames = (\<lambda>s. snd (Client_ListGames A s)), cl_GetGame = (\<lambda>i s. snd (Client_GetGame A i s)),
     cl_CreateGame = Client_CreateGame A, cl_DeleteGame = Client_DeleteGame A \<rparr>"

text \<open>A call that only reads leaves the controller as it was, whatever the network does.\<close>

lemma fst_client_do_reading [simp]: "fst (client_do W m p (reading h) d s) = s"
  by (auto simp: client_do_def reading_def split: option.splits net_fault.splits reply.splits)

end
