(* ===== verification/Platform_Admin.thy ===== *)
theory Platform_Admin
  imports Controller_Client
begin

text \<open>
  The administrators' interface of the platform (\<open>internal/handler/admin_handler.go\<close>): almost every
  handler checks its body and passes the request to the controller through the client; the profile and
  the icon of a game are the platform's own.  All routes stand behind \<open>AuthRequired\<close> and \<open>RequireAdmin\<close>.
\<close>

type_synonym ('m, 'a) platform = "('m controller, 'a) plat_scheme"

section \<open>Answers\<close>

text \<open>\<open>fail\<close>: a missing row of the controller is 404, everything else 500.\<close>

definition fail_reply :: "perr \<Rightarrow> 'b reply" where
  "fail_reply e = (if perr_is e CtlNotFound then Failure 404 ''not found'' else Failure 500 (perr_text e))"

definition proxy :: "int \<Rightarrow> ('s \<Rightarrow> 's \<times> (perr + 'b)) \<Rightarrow> ('s, 'a) plat_scheme \<Rightarrow> ('s, 'a) plat_scheme \<times> 'b reply" where
  "proxy code call w = map_prod id (answer fail_reply code) (ctl_call call w)"

definition proxy_said :: "string \<Rightarrow> ('s \<Rightarrow> 's \<times> perr option) \<Rightarrow> ('s, 'a) plat_scheme \<Rightarrow> ('s, 'a) plat_scheme \<times> string reply" where
  "proxy_said m call w = map_prod id (\<lambda>e. answer fail_reply 200 (said m e)) (ctl_call call w)"

section \<open>Nodes and agents\<close>

definition Admin_ListNodes :: "'m ctl_link \<Rightarrow> ('m, 'a) platform \<Rightarrow> ('m, 'a) platform \<times> PNode list reply" where
  "Admin_ListNodes A = proxy 200 (Client_ListNodes A)"

definition Admin_CreateNode :: "'m ctl_link \<Rightarrow> string + string \<Rightarrow> ('m, 'a) platform \<Rightarrow> ('m, 'a) platform \<times> PNode reply" where
  "Admin_CreateNode A body w = with_body body w (\<lambda>ip.
     if ip = [] then (w, Failure 400 ''ip is required'') else proxy 201 (Client_CreateNode A ip) w)"

definition Admin_GetNode :: "'m ctl_link \<Rightarrow> string \<Rightarrow> ('m, 'a) platform \<Rightarrow> ('m, 'a) platform \<times> PNode reply" where
  "Admin_GetNode A i = proxy 200 (Client_GetNode A i)"

definition Admin_UpdateNode ::
  "'m ctl_link \<Rightarrow> string \<Rightarrow> string + NodeUpdate \<Rightarrow> ('m, 'a) platform \<Rightarrow> ('m, 'a) platform \<times> PNode reply" where
  "Admin_UpdateNode A i body w = with_body body w (\<lambda>u. proxy 200 (Client_UpdateNode A i u) w)"

definition Admin_DeleteNode :: "'m ctl_link \<Rightarrow> string \<Rightarrow> ('m, 'a) platform \<Rightarrow> ('m, 'a) platform \<times> string reply" where
  "Admin_DeleteNode A i w =
    (case ctl_call (Client_DeleteNode A i) w of
       (w1, None) \<Rightarrow> (w1, Success 200 ''deleted'')
     | (w1, Some e) \<Rightarrow> (w1, if perr_is e CtlNotFound then Failure 404 ''not found'' else Failure 409 (perr_text e)))"

definition Admin_ListNodeAgents :: "'m ctl_link \<Rightarrow> ('m, 'a) platform \<Rightarrow> ('m, 'a) platform \<times> PNodeAgent list reply" where
  "Admin_ListNodeAgents A = proxy 200 (Client_ListNodeAgents A)"

definition Admin_CreateNodeAgent ::
  "'m ctl_link \<Rightarrow> string + createNodeAgentRequest \<Rightarrow> ('m, 'a) platform \<Rightarrow> ('m, 'a) platform \<times> PNodeAgent reply" where
  "Admin_CreateNodeAgent A body w = with_body body w (\<lambda>r.
     if cn_Name r = [] then (w, Failure 400 ''name is required'')
     else proxy 201 (Client_CreateNodeAgent A (cn_Name r) (cn_NodeID r) (cn_Port r)) w)"

definition Admin_setNodeAgentEnabled ::
  "'m ctl_link \<Rightarrow> bool \<Rightarrow> string \<Rightarrow> ('m, 'a) platform \<Rightarrow> ('m, 'a) platform \<times> PNodeAgent reply" where
  "Admin_setNodeAgentEnabled A enabled i = proxy 200 (Client_SetNodeAgentEnabled A i enabled)"

text \<open>The file of an upload is absent, not to be opened, or a body that can break while it is read.\<close>

datatype upload_file = NoUpload | BadUpload string | Upload "string + (string \<times> read_end) list"

definition Admin_UploadAgentRelease ::
  "'m ctl_link \<Rightarrow> upload_env \<Rightarrow> upload_file \<Rightarrow> string \<Rightarrow> string \<Rightarrow> string \<Rightarrow> string
   \<Rightarrow> ('m, 'a) platform \<Rightarrow> ('m, 'a) platform \<times> PAgentRelease reply" where
  "Admin_UploadAgentRelease A U file version os arch note w =
    (case file of
       NoUpload \<Rightarrow> (w, Failure 400 msg_file_missing)
     | BadUpload t \<Rightarrow> (w, Failure 500 (''open upload: '' @ t))
     | Upload body \<Rightarrow> proxy 201 (Client_UploadAgentRelease A U version os arch note body) w)"

definition Admin_ListAgentReleases :: "'m ctl_link \<Rightarrow> ('m, 'a) platform \<Rightarrow> ('m, 'a) platform \<times> PAgentRelease list reply" where
  "Admin_ListAgentReleases A = proxy 200 (Client_ListAgentReleases A)"

definition Admin_BatchUpdateNodeAgents ::
  "'m ctl_link \<Rightarrow> string + update_item list \<Rightarrow> ('m, 'a) platform \<Rightarrow> ('m, 'a) platform \<times> NodeAgentUpdateResult list reply" where
  "Admin_BatchUpdateNodeAgents A body w = with_body body w (\<lambda>us.
     if us = [] then (w, Failure 400 msg_updates_empty) else proxy 200 (Client_BatchUpdateNodeAgents A us) w)"

definition Admin_RollbackNodeAgent ::
  "'m ctl_link \<Rightarrow> string \<Rightarrow> string + string \<Rightarrow> ('m, 'a) platform \<Rightarrow> ('m, 'a) platform \<times> NodeAgentUpdateResult reply" where
  "Admin_RollbackNodeAgent A i body w = with_body body w (\<lambda>release.
     if release = [] then (w, Failure 400 msg_release_required) else proxy 200 (Client_RollbackNodeAgent A i release) w)"

section \<open>Games\<close>

definition Admin_ListGames :: "'m ctl_link \<Rightarrow> ('m, 'a) platform \<Rightarrow> ('m, 'a) platform \<times> PGame list reply" where
  "Admin_ListGames A = proxy 200 (Client_ListGames A)"

definition Admin_CreateGame ::
  "'m ctl_link \<Rightarrow> string + gameRequest \<Rightarrow> ('m, 'a) platform \<Rightarrow> ('m, 'a) platform \<times> PGame reply" where
  "Admin_CreateGame A body w = with_body body w (\<lambda>r.
     if gr_Name r = [] then (w, Failure 400 ''name is required'')
     else proxy 201 (Client_CreateGame A (gr_Name r) (gr_AppID r)) w)"

definition Admin_GetGame :: "'m ctl_link \<Rightarrow> string \<Rightarrow> ('m, 'a) platform \<Rightarrow> ('m, 'a) platform \<times> PGame reply" where
  "Admin_GetGame A i = proxy 200 (Client_GetGame A i)"

definition Admin_UpdateGame ::
  "'m ctl_link \<Rightarrow> string \<Rightarrow> string + gameRequest \<Rightarrow> ('m, 'a) platform \<Rightarrow> ('m, 'a) platform \<times> PGame reply" where
  "Admin_UpdateGame A i body w = with_body body w (\<lambda>r.
     if gr_Name r = [] then (w, Failure 400 ''name is required'')
     else proxy 200 (Client_UpdateGame A i (gr_Name r) (gr_AppID r)) w)"

text \<open>The deletion goes through the catalogue, which removes the profile and marks the orders.\<close>

definition Admin_DeleteGame ::
  "'m ctl_link \<Rightarrow> (CredentialSpec list option \<Rightarrow> string) \<Rightarrow> string \<Rightarrow> ('m, 'a) platform \<Rightarrow> ('m, 'a) platform \<times> string reply" where
  "Admin_DeleteGame A metadata i w =
     map_prod id (\<lambda>e. answer fail_reply 200 (said ''deleted'' e)) (Catalog_DeleteGame (link_client A metadata) i w)"

definition Admin_GetContainerConfig :: "'m ctl_link \<Rightarrow> string \<Rightarrow> ('m, 'a) platform \<Rightarrow> ('m, 'a) platform \<times> PContainerConfig reply" where
  "Admin_GetContainerConfig A i = proxy 200 (Client_GetContainerConfig A i)"

definition Admin_UpdateContainerConfig ::
  "'m ctl_link \<Rightarrow> string \<Rightarrow> string + PContainerConfigUpdate \<Rightarrow> ('m, 'a) platform \<Rightarrow> ('m, 'a) platform \<times> PContainerConfig reply" where
  "Admin_UpdateContainerConfig A i body w = with_body body w (\<lambda>u. proxy 200 (Client_UpdateContainerConfig A i u) w)"

definition Admin_ObserveForward ::
  "'m ctl_link \<Rightarrow> observe_env \<Rightarrow> string \<Rightarrow> observe_request \<Rightarrow> ('m, 'a) platform \<Rightarrow> ('m, 'a) platform \<times> observe_body reply" where
  "Admin_ObserveForward A E query r = proxy 200 (Client_ObserveForward A E query r)"

section \<open>Branches, builds and configurations\<close>

definition Admin_ListBranches ::
  "'m ctl_link \<Rightarrow> string \<Rightarrow> ('m, 'a) platform \<Rightarrow> ('m, 'a) platform \<times> (string \<times> PSteamBranch list) reply" where
  "Admin_ListBranches A i w = map_prod id (reply_map (Pair i)) (proxy 200 (Client_ListBranches A i) w)"

definition Admin_SyncBranches :: "'m ctl_link \<Rightarrow> string \<Rightarrow> ('m, 'a) platform \<Rightarrow> ('m, 'a) platform \<times> string reply" where
  "Admin_SyncBranches A i = proxy_said ''synced'' (Client_SyncBranches A i)"

definition Admin_SetBranchMinReplicas ::
  "'m ctl_link \<Rightarrow> string \<Rightarrow> string \<Rightarrow> string + int \<Rightarrow> ('m, 'a) platform \<Rightarrow> ('m, 'a) platform \<times> string reply" where
  "Admin_SetBranchMinReplicas A i branch body w = with_body body w (\<lambda>n.
     proxy_said ''min_replicas updated'' (Client_SetBranchMinReplicas A i branch n) w)"

definition Admin_UpdateBranchCache ::
  "'m ctl_link \<Rightarrow> string \<Rightarrow> string \<Rightarrow> string + string \<Rightarrow> ('m, 'a) platform \<Rightarrow> ('m, 'a) platform \<times> string reply" where
  "Admin_UpdateBranchCache A i branch body w = with_body body w (\<lambda>agent.
     if agent = [] then (w, Failure 400 ''node_agent_id is required'')
     else proxy_said ''cache ok'' (Client_UpdateBranchCache A i branch agent) w)"

definition Admin_InstanceFileSession :: "'m ctl_link \<Rightarrow> string \<Rightarrow> ('m, 'a) platform \<Rightarrow> ('m, 'a) platform \<times> PFileSession reply" where
  "Admin_InstanceFileSession A i = proxy 200 (Client_CreateFileSession A i)"

definition Admin_NodeAgentLogSession :: "'m ctl_link \<Rightarrow> string \<Rightarrow> ('m, 'a) platform \<Rightarrow> ('m, 'a) platform \<times> PAgentLogSession reply" where
  "Admin_NodeAgentLogSession A i = proxy 200 (Client_CreateAgentLogSession A i)"

definition Admin_ListGameBuilds ::
  "'m ctl_link \<Rightarrow> string \<Rightarrow> string \<Rightarrow> ('m, 'a) platform \<Rightarrow> ('m, 'a) platform \<times> (string \<times> AssetGameBuild list) reply" where
  "Admin_ListGameBuilds A i channel w = map_prod id (reply_map (Pair i)) (proxy 200 (Client_ListGameBuilds A i channel) w)"

text \<open>The body has no game: it is that of the path.\<close>

definition Admin_RegisterGameBuild ::
  "'m ctl_link \<Rightarrow> string \<Rightarrow> string + registerGameBuildRequest \<Rightarrow> ('m, 'a) platform \<Rightarrow> ('m, 'a) platform \<times> AssetGameBuild reply" where
  "Admin_RegisterGameBuild A i body w = with_body body w (\<lambda>r.
     if rb_ArtifactImageTag r = [] then (w, Failure 400 msg_tag_required)
     else proxy 201 (Client_RegisterGameBuild A i r) w)"

definition Admin_GetGameBuild ::
  "'m ctl_link \<Rightarrow> string \<Rightarrow> string \<Rightarrow> ('m, 'a) platform \<Rightarrow> ('m, 'a) platform \<times> AssetGameBuild option reply" where
  "Admin_GetGameBuild A i build = proxy 200 (Client_GetGameBuild A i build)"

definition Admin_GetPlatformConfig :: "'m ctl_link \<Rightarrow> string \<Rightarrow> ('m, 'a) platform \<Rightarrow> ('m, 'a) platform \<times> PPlatformConfig reply" where
  "Admin_GetPlatformConfig A i = proxy 200 (Client_GetPlatformConfig A i)"

definition Admin_UpdatePlatformConfig ::
  "'m ctl_link \<Rightarrow> string \<Rightarrow> string + (string \<times> string) list option \<Rightarrow> ('m, 'a) platform \<Rightarrow> ('m, 'a) platform \<times> PPlatformConfig reply" where
  "Admin_UpdatePlatformConfig A i body w = with_body body w (\<lambda>config. proxy 200 (Client_UpdatePlatformConfig A i config) w)"

section \<open>Credentials\<close>

definition Admin_ListCredentials ::
  "'m ctl_link \<Rightarrow> string \<Rightarrow> string \<Rightarrow> ('m, 'a) platform \<Rightarrow> ('m, 'a) platform \<times> (string \<times> CredentialView list) reply" where
  "Admin_ListCredentials A i rtype w = map_prod id (reply_map (Pair i)) (proxy 200 (Client_ListCredentials A i rtype) w)"

definition Admin_ListCredentialTypes ::
  "'m ctl_link \<Rightarrow> string \<Rightarrow> ('m, 'a) platform \<Rightarrow> ('m, 'a) platform \<times> (string \<times> string list) reply" where
  "Admin_ListCredentialTypes A i w = map_prod id (reply_map (Pair i)) (proxy 200 (Client_ListCredentialTypes A i) w)"

definition Admin_CreateCredentials ::
  "'m ctl_link \<Rightarrow> string \<Rightarrow> string + createCredentialsRequest \<Rightarrow> ('m, 'a) platform \<Rightarrow> ('m, 'a) platform \<times> nat reply" where
  "Admin_CreateCredentials A i body w = with_body body w (\<lambda>r.
     if cq_ResourceType r = [] then (w, Failure 400 ''resource_type is required'')
     else proxy 201 (Client_CreateCredentials A i r) w)"

definition Admin_DeleteCredential :: "'m ctl_link \<Rightarrow> string \<Rightarrow> string \<Rightarrow> ('m, 'a) platform \<Rightarrow> ('m, 'a) platform \<times> string reply" where
  "Admin_DeleteCredential A i credential = proxy_said ''deleted'' (Client_DeleteCredential A i credential)"

definition Admin_ForceReleaseCredential :: "'m ctl_link \<Rightarrow> string \<Rightarrow> string \<Rightarrow> ('m, 'a) platform \<Rightarrow> ('m, 'a) platform \<times> string reply" where
  "Admin_ForceReleaseCredential A i credential = proxy_said ''released'' (Client_ForceReleaseCredential A i credential)"

section \<open>Profiles\<close>

record gameProfileRequest =
  gq_DisplayName :: string
  gq_IconURL :: string
  gq_AccentColor :: string
  gq_Description :: string
  gq_Enabled :: "bool option"
  gq_SortOrder :: "int option"

definition profile_update :: "gameProfileRequest \<Rightarrow> GameProfile" where
  "profile_update r = \<lparr> pf_GameID = [], pf_DisplayName = gq_DisplayName r, pf_IconURL = gq_IconURL r,
     pf_AccentColor = gq_AccentColor r, pf_Description = gq_Description r,
     pf_Enabled = (case gq_Enabled r of None \<Rightarrow> False | Some b \<Rightarrow> b),
     pf_SortOrder = (case gq_SortOrder r of None \<Rightarrow> 0 | Some n \<Rightarrow> n), pf_UpdateTime = zero_time \<rparr>"

definition Admin_UpdateGameProfile ::
  "time \<Rightarrow> string \<Rightarrow> string + gameProfileRequest \<Rightarrow> ('m, 'a) platform \<Rightarrow> ('m, 'a) platform \<times> GameProfile reply" where
  "Admin_UpdateGameProfile now i body w = with_body body w (\<lambda>r.
     map_prod id (answer internal 200) (UpdateProfile now i (profile_update r) w))"

text \<open>The form of an icon: its file with its size, and what the file system answers to the two writes.\<close>

record icon_form =
  if_size :: "int option"
  if_mkdir :: "string option"
  if_save :: "string option"

definition icon_update :: "string \<Rightarrow> GameProfile" where
  "icon_update i = \<lparr> pf_GameID = [], pf_DisplayName = [], pf_IconURL = ''/static/games/'' @ i @ ''.png'', pf_AccentColor = [],
     pf_Description = [], pf_Enabled = False, pf_SortOrder = 0, pf_UpdateTime = zero_time \<rparr>"

definition Admin_UploadGameIcon ::
  "'m ctl_link \<Rightarrow> time \<Rightarrow> string \<Rightarrow> icon_form \<Rightarrow> ('m, 'a) platform \<Rightarrow> ('m, 'a) platform \<times> GameProfile reply" where
  "Admin_UploadGameIcon A now i form w =
    (if i = [] \<or> list_ex (\<lambda>c. c \<in> set [CHR ''/'', CHR 0x5C, CHR ''.'']) i then (w, Failure 400 ''invalid game_id'')
     else case ctl_call (Client_GetGame A i) w of
       (w1, Inl e) \<Rightarrow> (w1, fail_reply e)
     | (w1, Inr g) \<Rightarrow>
       (case if_size form of
          None \<Rightarrow> (w1, Failure 400 ''file is required'')
        | Some bytes \<Rightarrow>
           if bytes > 1024 * 1024 then (w1, Failure 400 ''icon too large (max 1MB)'')
           else case if_mkdir form of
             Some t \<Rightarrow> (w1, Failure 500 t)
           | None \<Rightarrow>
             (case if_save form of
                Some t \<Rightarrow> (w1, Failure 500 (''save icon: '' @ t))
              | None \<Rightarrow> map_prod id (answer internal 200) (UpdateProfile now i (icon_update i) w1))))"

end
