(* ===== verification/Admin_Properties.thy ===== *)
theory Admin_Properties
  imports Platform_Admin
begin

text \<open>
  What the administrators' interface of the platform guarantees over both services: who may use it and
  which tables it can reach, that an edit of a container configuration is read back, and what the upload
  of an icon does to the game.
\<close>

section \<open>The interface as one function\<close>

text \<open>The requests that can write, each with its decoded parameters; the others are in \<open>AdmRead\<close>.\<close>

datatype admin_api_request =
    AdmCreateNode "string + string" | AdmUpdateNode string "string + NodeUpdate" | AdmDeleteNode string
  | AdmCreateAgent "string + createNodeAgentRequest" | AdmSetAgent bool string
  | AdmUpload upload_file string string string string | AdmBatchUpdate "string + update_item list"
  | AdmRollback string "string + string"
  | AdmCreateGame "string + gameRequest" | AdmUpdateGame string "string + gameRequest" | AdmDeleteGame string
  | AdmContainerConfig string "string + PContainerConfigUpdate"
  | AdmPlatformConfig string "string + (string \<times> string) list option"
  | AdmRegisterBuild string "string + registerGameBuildRequest"
  | AdmSyncBranches string | AdmMinReplicas string string "string + int" | AdmCache string string "string + string"
  | AdmCreateCredentials string "string + createCredentialsRequest" | AdmDeleteCredential string string
  | AdmForceRelease string string
  | AdmProfile string "string + gameProfileRequest" | AdmIcon string icon_form
  | AdmObserve string observe_request | AdmRead admin_read
and admin_read =
    RdNodes | RdNode string | RdAgents | RdReleases | RdGames | RdGame string | RdContainer string | RdBranches string
  | RdFileSession string | RdLogSession string | RdBuilds string string | RdBuild string string | RdPlatform string
  | RdCredentials string string | RdTypes string

text \<open>The bodies of the answers are dropped, so that all requests have one type.\<close>

definition dropped :: "'w \<times> 'b reply \<Rightarrow> 'w \<times> unit reply" where
  "dropped r = map_prod id (reply_map (\<lambda>b. ())) r"

fun admin_read_handler ::
  "'m ctl_link \<Rightarrow> admin_read \<Rightarrow> ('m, 'a) platform \<Rightarrow> ('m, 'a) platform \<times> unit reply" where
  "admin_read_handler A RdNodes w = dropped (Admin_ListNodes A w)"
| "admin_read_handler A (RdNode i) w = dropped (Admin_GetNode A i w)"
| "admin_read_handler A RdAgents w = dropped (Admin_ListNodeAgents A w)"
| "admin_read_handler A RdReleases w = dropped (Admin_ListAgentReleases A w)"
| "admin_read_handler A RdGames w = dropped (Admin_ListGames A w)"
| "admin_read_handler A (RdGame i) w = dropped (Admin_GetGame A i w)"
| "admin_read_handler A (RdContainer i) w = dropped (Admin_GetContainerConfig A i w)"
| "admin_read_handler A (RdBranches i) w = dropped (Admin_ListBranches A i w)"
| "admin_read_handler A (RdFileSession i) w = dropped (Admin_InstanceFileSession A i w)"
| "admin_read_handler A (RdLogSession i) w = dropped (Admin_NodeAgentLogSession A i w)"
| "admin_read_handler A (RdBuilds i channel) w = dropped (Admin_ListGameBuilds A i channel w)"
| "admin_read_handler A (RdBuild i build) w = dropped (Admin_GetGameBuild A i build w)"
| "admin_read_handler A (RdPlatform i) w = dropped (Admin_GetPlatformConfig A i w)"
| "admin_read_handler A (RdCredentials i rtype) w = dropped (Admin_ListCredentials A i rtype w)"
| "admin_read_handler A (RdTypes i) w = dropped (Admin_ListCredentialTypes A i w)"

text \<open>The environment of the interface beside the link: uploads, observation, and the adapter metadata.\<close>

record admin_env =
  av_upload :: upload_env
  av_observe :: observe_env
  av_metadata :: "CredentialSpec list option \<Rightarrow> string"

fun admin_api_handler ::
  "'m ctl_link \<Rightarrow> admin_env \<Rightarrow> time \<Rightarrow> admin_api_request \<Rightarrow> ('m, 'a) platform \<Rightarrow> ('m, 'a) platform \<times> unit reply" where
  "admin_api_handler A V now (AdmCreateNode body) w = dropped (Admin_CreateNode A body w)"
| "admin_api_handler A V now (AdmUpdateNode i body) w = dropped (Admin_UpdateNode A i body w)"
| "admin_api_handler A V now (AdmDeleteNode i) w = dropped (Admin_DeleteNode A i w)"
| "admin_api_handler A V now (AdmCreateAgent body) w = dropped (Admin_CreateNodeAgent A body w)"
| "admin_api_handler A V now (AdmSetAgent b i) w = dropped (Admin_setNodeAgentEnabled A b i w)"
| "admin_api_handler A V now (AdmUpload file version os arch note) w =
     dropped (Admin_UploadAgentRelease A (av_upload V) file version os arch note w)"
| "admin_api_handler A V now (AdmBatchUpdate body) w = dropped (Admin_BatchUpdateNodeAgents A body w)"
| "admin_api_handler A V now (AdmRollback i body) w = dropped (Admin_RollbackNodeAgent A i body w)"
| "admin_api_handler A V now (AdmCreateGame body) w = dropped (Admin_CreateGame A body w)"
| "admin_api_handler A V now (AdmUpdateGame i body) w = dropped (Admin_UpdateGame A i body w)"
| "admin_api_handler A V now (AdmDeleteGame i) w = dropped (Admin_DeleteGame A (av_metadata V) i w)"
| "admin_api_handler A V now (AdmContainerConfig i body) w = dropped (Admin_UpdateContainerConfig A i body w)"
| "admin_api_handler A V now (AdmPlatformConfig i body) w = dropped (Admin_UpdatePlatformConfig A i body w)"
| "admin_api_handler A V now (AdmRegisterBuild i body) w = dropped (Admin_RegisterGameBuild A i body w)"
| "admin_api_handler A V now (AdmSyncBranches i) w = dropped (Admin_SyncBranches A i w)"
| "admin_api_handler A V now (AdmMinReplicas i branch body) w = dropped (Admin_SetBranchMinReplicas A i branch body w)"
| "admin_api_handler A V now (AdmCache i branch body) w = dropped (Admin_UpdateBranchCache A i branch body w)"
| "admin_api_handler A V now (AdmCreateCredentials i body) w = dropped (Admin_CreateCredentials A i body w)"
| "admin_api_handler A V now (AdmDeleteCredential i k) w = dropped (Admin_DeleteCredential A i k w)"
| "admin_api_handler A V now (AdmForceRelease i k) w = dropped (Admin_ForceReleaseCredential A i k w)"
| "admin_api_handler A V now (AdmProfile i body) w = dropped (Admin_UpdateGameProfile now i body w)"
| "admin_api_handler A V now (AdmIcon i form) w = dropped (Admin_UploadGameIcon A now i form w)"
| "admin_api_handler A V now (AdmObserve query r) w = dropped (Admin_ObserveForward A (av_observe V) query r w)"
| "admin_api_handler A V now (AdmRead r) w = admin_read_handler A r w"

definition admin_api ::
  "jwt_lib \<Rightarrow> TokenManager \<Rightarrow> 'm ctl_link \<Rightarrow> admin_env \<Rightarrow> time \<Rightarrow> string \<Rightarrow> admin_api_request
   \<Rightarrow> ('m, 'a) platform \<Rightarrow> ('m, 'a) platform \<times> unit reply" where
  "admin_api J tm A V now header r = AuthRequired J tm now header (RequireAdmin (\<lambda>uid role. admin_api_handler A V now r))"

section \<open>Who may use it, and what it reaches\<close>

lemma ctl_call_keeps [simp]:
  "p_users (fst (ctl_call f w)) = p_users w" "p_orders (fst (ctl_call f w)) = p_orders w"
  "p_profiles (fst (ctl_call f w)) = p_profiles w" "p_plans (fst (ctl_call f w)) = p_plans w"
  "p_subs (fst (ctl_call f w)) = p_subs w" "p_fault (fst (ctl_call f w)) = p_fault w"
  "pl_ctl (fst (ctl_call f w)) = fst (f (pl_ctl w))"
  by (simp_all add: ctl_call_def split: prod.split)

lemma fst_proxy [simp]: "fst (proxy c f w) = fst (ctl_call f w)" "fst (proxy_said m g w) = fst (ctl_call g w)"
  by (simp_all add: proxy_def proxy_said_def)

lemma fst_dropped [simp]: "fst (dropped r) = fst r"
  by (simp add: dropped_def)

lemma fst_with_body: "fst (with_body body w k) = (case body of Inl t \<Rightarrow> w | Inr r \<Rightarrow> fst (k r))"
  by (simp add: with_body_def split: sum.split)

text \<open>A call that leaves the controller as it was leaves both services as they were.\<close>

lemma ctl_call_reading: "fst (f (pl_ctl w)) = pl_ctl w \<Longrightarrow> fst (ctl_call f w) = w"
  by (simp add: ctl_call_def case_prod_unfold)

lemma admin_read_keeps: "fst (admin_read_handler A r w) = w"
  by (cases r) (simp_all add: Admin_ListNodes_def Admin_GetNode_def Admin_ListNodeAgents_def Admin_ListAgentReleases_def
    Admin_ListGames_def Admin_GetGame_def Admin_GetContainerConfig_def Admin_ListBranches_def Admin_InstanceFileSession_def
    Admin_NodeAgentLogSession_def Admin_ListGameBuilds_def Admin_GetGameBuild_def Admin_GetPlatformConfig_def
    Admin_ListCredentials_def Admin_ListCredentialTypes_def ctl_call_reading Client_ListNodes_def Client_GetNode_def
    Client_ListNodeAgents_def Client_ListAgentReleases_def Client_ListGames_def Client_GetGame_def
    Client_GetContainerConfig_def Client_ListBranches_def Client_CreateFileSession_def Client_CreateAgentLogSession_def
    Client_ListGameBuilds_def Client_GetGameBuild_def Client_GetPlatformConfig_def Client_ListCredentials_def
    Client_ListCredentialTypes_def)

lemma admin_observe_keeps: "fst (Admin_ObserveForward A E query r w) = w"
  by (simp add: Admin_ObserveForward_def ctl_call_reading Client_ObserveForward_def split: prod.split)

text \<open>The requests that only read, and the game whose rows of the platform a request may change.\<close>

fun only_reads :: "admin_api_request \<Rightarrow> bool" where
  "only_reads (AdmRead r) = True"
| "only_reads (AdmObserve query r) = True"
| "only_reads r = False"

fun addressed_game :: "admin_api_request \<Rightarrow> string option" where
  "addressed_game (AdmDeleteGame i) = Some i"
| "addressed_game (AdmProfile i body) = Some i"
| "addressed_game (AdmIcon i form) = Some i"
| "addressed_game r = None"

lemma UpdateProfile_reach:
  "p_users (fst (UpdateProfile now k u w)) = p_users w \<and> p_orders (fst (UpdateProfile now k u w)) = p_orders w \<and>
   p_plans (fst (UpdateProfile now k u w)) = p_plans w \<and> p_subs (fst (UpdateProfile now k u w)) = p_subs w \<and>
   pl_ctl (fst (UpdateProfile now k u w)) = pl_ctl w \<and>
   {p \<in> set (p_profiles (fst (UpdateProfile now k u w))). pf_GameID p \<noteq> k} = {p \<in> set (p_profiles w). pf_GameID p \<noteq> k}"
proof (cases "ProfileRepo_GetByID k w")
  case (Inl e)
  then show ?thesis
    by (auto simp: UpdateProfile_def ProfileRepo_Save_def pguard_write_def Let_def set_tbl_put split: option.splits prod.splits)
next
  case (Inr p)
  then have "pf_GameID p = k"
    by (auto simp: ProfileRepo_GetByID_def pguard_def pfound_def split: option.splits dest: tbl_find_SomeD)
  with Inr show ?thesis
    by (auto simp: UpdateProfile_def ProfileRepo_Save_def pguard_write_def Let_def set_tbl_put split: option.splits prod.splits)
qed

lemma Catalog_DeleteGame_reach:
  "p_users (fst (Catalog_DeleteGame C i w)) = p_users w \<and> p_plans (fst (Catalog_DeleteGame C i w)) = p_plans w \<and>
   p_subs (fst (Catalog_DeleteGame C i w)) = p_subs w \<and>
   (p_orders (fst (Catalog_DeleteGame C i w)) = p_orders w \<or>
    p_orders (fst (Catalog_DeleteGame C i w)) = tbl_upd (\<lambda>x. or_GameID x = i \<and>
      or_Status x \<in> {OrderStatusCreated, OrderStatusPaid, OrderStatusProvisioned}) (\<lambda>x. x\<lparr>or_Status := OrderStatusGameRemoved\<rparr>) (p_orders w)) \<and>
   {p \<in> set (p_profiles (fst (Catalog_DeleteGame C i w))). pf_GameID p \<noteq> i} = {p \<in> set (p_profiles w). pf_GameID p \<noteq> i}"
  by (auto simp: Catalog_DeleteGame_def ctl_call_def ProfileRepo_Delete_def OrderRepo_MarkGameRemoved_def pguard_write_def tbl_del_def
    split: prod.splits option.splits)

lemma Admin_UploadGameIcon_cases:
  "fst (Admin_UploadGameIcon A now i form w) = fst (ctl_call (Client_GetGame A i) w) \<or>
   fst (Admin_UploadGameIcon A now i form w) = w \<or>
   fst (Admin_UploadGameIcon A now i form w) = fst (UpdateProfile now i (icon_update i) (fst (ctl_call (Client_GetGame A i) w)))"
  by (auto simp: Admin_UploadGameIcon_def split: prod.splits sum.splits option.splits)

definition reaches :: "admin_api_request \<Rightarrow> ('s, 'a) plat_scheme \<Rightarrow> ('s, 'a) plat_scheme \<Rightarrow> bool" where
  "reaches r w w' \<longleftrightarrow> p_users w' = p_users w \<and> p_plans w' = p_plans w \<and> p_subs w' = p_subs w \<and>
     (p_orders w' = p_orders w \<or> (\<exists>i. r = AdmDeleteGame i \<and> p_orders w' = tbl_upd (\<lambda>x. or_GameID x = i \<and>
        or_Status x \<in> {OrderStatusCreated, OrderStatusPaid, OrderStatusProvisioned}) (\<lambda>x. x\<lparr>or_Status := OrderStatusGameRemoved\<rparr>) (p_orders w))) \<and>
     {p \<in> set (p_profiles w'). Some (pf_GameID p) \<noteq> addressed_game r} = {p \<in> set (p_profiles w). Some (pf_GameID p) \<noteq> addressed_game r}"

lemma reaches_refl [simp]: "reaches r w w"
  by (simp add: reaches_def)

lemma reaches_ctl_call [simp]: "reaches r w (fst (ctl_call f w))"
  by (simp add: reaches_def)

lemmas admin_writes = Admin_CreateNode_def Admin_UpdateNode_def Admin_DeleteNode_def Admin_CreateNodeAgent_def
  Admin_setNodeAgentEnabled_def Admin_UploadAgentRelease_def Admin_BatchUpdateNodeAgents_def Admin_RollbackNodeAgent_def
  Admin_CreateGame_def Admin_UpdateGame_def Admin_UpdateContainerConfig_def Admin_UpdatePlatformConfig_def
  Admin_RegisterGameBuild_def Admin_SyncBranches_def Admin_SetBranchMinReplicas_def Admin_UpdateBranchCache_def
  Admin_CreateCredentials_def Admin_DeleteCredential_def Admin_ForceReleaseCredential_def

lemma Admin_DeleteNode_fst: "fst (Admin_DeleteNode A i w) = fst (ctl_call (Client_DeleteNode A i) w)"
  by (auto simp: Admin_DeleteNode_def split: prod.splits option.splits)

lemma admin_api_handler_reaches: "reaches r w (fst (admin_api_handler A V now r w))"
proof (cases r)
  case (AdmDeleteGame i)
  then show ?thesis using Catalog_DeleteGame_reach[of "link_client A (av_metadata V)" i w]
    by (simp add: reaches_def Admin_DeleteGame_def)
next
  case (AdmProfile i body)
  then show ?thesis using UpdateProfile_reach[of now i _ w]
    by (cases body) (simp_all add: reaches_def Admin_UpdateGameProfile_def fst_with_body)
next
  case (AdmIcon i form)
  have "reaches r w (fst (UpdateProfile now i u (fst (ctl_call f w))))" for u f
    using UpdateProfile_reach[of now i u "fst (ctl_call f w)"] AdmIcon by (simp add: reaches_def)
  then show ?thesis using Admin_UploadGameIcon_cases[of A now i form w] AdmIcon
    by (metis admin_api_handler.simps(22) fst_dropped reaches_ctl_call reaches_refl)
next
  case (AdmDeleteNode i)
  then show ?thesis by (simp add: Admin_DeleteNode_fst)
qed (auto simp: admin_writes fst_with_body admin_read_keeps admin_observe_keeps split: sum.splits upload_file.splits)

text \<open>C15: Over all routes of \<open>admin_handler.go\<close> (nodes, agents, games, builds, branches, credentials, configuration,
  profiles, observation; the administrators' requests on plans, subscriptions and users belong to other
  handlers and do change those): a request without an administrator's token is answered 401 or 403 and changes
  neither service; one with it never touches the platform's users, plans and subscriptions, changes orders only
  by marking the open ones of the game it deletes, and profiles only of the game it addresses; a request that
  reads or observes changes nothing anywhere.\<close>

theorem admin_api_confined:
  "(admin_token J tm now header \<or>
      (\<exists>c t. admin_api J tm A V now header r w = (w, Failure c t) \<and> c \<in> {401, 403})) \<and>
   reaches r w (fst (admin_api J tm A V now header r w)) \<and>
   (\<not> only_reads r \<or> fst (admin_api J tm A V now header r w) = w)"
proof -
  have h: "only_reads r \<Longrightarrow> fst (admin_api_handler A V now r w) = w"
    by (cases r) (simp_all add: admin_read_keeps admin_observe_keeps)
  show ?thesis using h admin_api_handler_reaches[of r w A V now]
    by (auto simp: admin_api_def AuthRequired_def RequireAdmin_def admin_token_def split: sum.splits)
qed

section \<open>Profiles and icons\<close>

lemma UpdateProfile_success:
  assumes "UpdateProfile now k u w = (w', Inr p)"
  shows "p_profiles w' = tbl_put pf_GameID p (p_profiles w)" "pf_GameID p = k" "pf_Enabled p = pf_Enabled u"
    "pf_SortOrder p = pf_SortOrder u" "pf_IconURL u = [] \<or> pf_IconURL p = pf_IconURL u"
    "p_fault w' = p_fault w" "p_fault w (Call ''ProfileGet'' [k]) = None"
proof -
  have f: "p_fault w (Call ''ProfileGet'' [k]) = None" using assms
    by (auto simp: UpdateProfile_def ProfileRepo_GetByID_def pguard_def Let_def split: if_splits option.splits)
  have c: "ProfileRepo_GetByID k w = pfound (tbl_find pf_GameID k (p_profiles w))"
    by (simp add: ProfileRepo_GetByID_def pguard_def f)
  show "p_profiles w' = tbl_put pf_GameID p (p_profiles w)" "pf_GameID p = k" "pf_Enabled p = pf_Enabled u"
    "pf_SortOrder p = pf_SortOrder u" "pf_IconURL u = [] \<or> pf_IconURL p = pf_IconURL u" "p_fault w' = p_fault w"
    "p_fault w (Call ''ProfileGet'' [k]) = None"
    using assms f
    by (auto simp: UpdateProfile_def c pfound_def ProfileRepo_Save_def pguard_write_def or_keep_def Let_def
      split: if_splits option.splits dest: tbl_find_SomeD)
qed

lemma answer_Success:
  "map_prod id (answer internal c) r = (w', Success c' x) \<longleftrightarrow> r = (w', Inr x) \<and> c' = c"
  "map_prod id (answer fail_reply c) r' = (v', Success c' y) \<longleftrightarrow> r' = (v', Inr y) \<and> c' = c"
  by (cases r; cases "snd r"; auto simp: answer_def internal_def)
    (cases r'; cases "snd r'"; auto simp: answer_def fail_reply_def)

text \<open>What a user sees of a game whose profile is disabled: nothing.\<close>

lemma disabled_profile_hidden:
  assumes "ProfileRepo_GetByID i w = Inr p" "\<not> pf_Enabled p" "{q \<in> set (p_profiles w). pf_GameID q = i} = {p}"
  shows "Catalog_GetGame C i False w \<noteq> Inr x" "Catalog_ListGames C False w = Inr vs \<Longrightarrow> i \<notin> gv_ID ` set vs"
proof -
  show "Catalog_GetGame C i False w \<noteq> Inr x"
    using assms(1,2) by (auto simp: Catalog_GetGame_def split: sum.splits)
  have none: "find (\<lambda>q. pf_GameID q = i) (rev (sort_key pf_SortOrder (filter pf_Enabled (p_profiles w)))) = None"
    using assms(2,3) by (auto simp: find_None_iff)
  show "i \<notin> gv_ID ` set vs" if "Catalog_ListGames C False w = Inr vs"
    using that none
    by (auto simp: Catalog_ListGames_def ProfileRepo_ListEnabled_def pguard_def Let_def game_view_def split: sum.splits option.splits)
qed

text \<open>C39: Uploading an icon takes the game away from the users.  An upload that succeeds stores the icon's
  address, but the profile it leaves is disabled and at sort order zero, whatever it was before: whatever
  the controller answers, no user finds the game by its identifier or in the list.\<close>

theorem icon_upload_hides_game:
  assumes "Admin_UploadGameIcon A now i form w = (w', Success code p)"
  shows "ProfileRepo_GetByID i w' = Inr p \<and> pf_IconURL p = ''/static/games/'' @ i @ ''.png'' \<and>
    \<not> pf_Enabled p \<and> pf_SortOrder p = 0 \<and>
    (\<forall>C x. Catalog_GetGame C i False w' \<noteq> Inr x) \<and>
    (\<forall>C vs. Catalog_ListGames C False w' = Inr vs \<longrightarrow> i \<notin> gv_ID ` set vs)"
proof -
  obtain w1 where u: "UpdateProfile now i (icon_update i) w1 = (w', Inr p)" using assms
    by (auto simp: Admin_UploadGameIcon_def fail_reply_def answer_Success split: if_splits prod.splits sum.splits option.splits)
  note s = UpdateProfile_success[OF u]
  have g: "ProfileRepo_GetByID i w' = Inr p"
    using s by (simp add: ProfileRepo_GetByID_def pguard_def pfound_def table_simps)
  have "{q \<in> set (p_profiles w'). pf_GameID q = i} = {p}" using s(1,2) by (auto simp: set_tbl_put)
  with g s(3,4,5) disabled_profile_hidden[of i w' p] show ?thesis by (auto simp: icon_update_def)
qed

section \<open>Container configurations\<close>

text \<open>What an edit makes of the configuration a reader sees.\<close>

definition shown_edit :: "PContainerConfigUpdate \<Rightarrow> PContainerConfig \<Rightarrow> PContainerConfig" where
  "shown_edit u c = c\<lparr>pk_ContainerServerPath := given (pu_ContainerServerPath u) (pk_ContainerServerPath c),
     pk_PortMode := given (pu_PortMode u) (pk_PortMode c), pk_InjectGamePort := given (pu_InjectGamePort u) (pk_InjectGamePort c),
     pk_CPURequestMilli := given (pu_CPURequestMilli u) (pk_CPURequestMilli c),
     pk_MemoryRequestBytes := given (pu_MemoryRequestBytes u) (pk_MemoryRequestBytes c),
     pk_DiskRequestBytes := given (pu_DiskRequestBytes u) (pk_DiskRequestBytes c),
     pk_BandwidthRxMbps := given (pu_BandwidthRxMbps u) (pk_BandwidthRxMbps c),
     pk_BandwidthTxMbps := given (pu_BandwidthTxMbps u) (pk_BandwidthTxMbps c),
     pk_SingleThreaded := given (pu_SingleThreaded u) (pk_SingleThreaded c),
     pk_PortExcerpt := given (pu_PortExcerpts u) (pk_PortExcerpt c)\<rparr>"

lemma tbl_find_upd_fixed:
  assumes "\<And>r. key r = k' \<Longrightarrow> key (f r) = k'"
  shows "tbl_find key k (tbl_upd (\<lambda>r. key r = k') f rows) =
         (if k = k' then map_option f (tbl_find key k rows) else tbl_find key k rows)"
  by (induction rows) (auto simp: tbl_upd_def tbl_find_def assms)

lemma edited_config_simps [simp]:
  "gc_ID (edited_config u c) = gc_ID c" "gc_PortExcerpt (edited_config u c) = gc_PortExcerpt c"
  "gc_PortInjectEnv (edited_config u c) = gc_PortInjectEnv c"
  by (simp_all add: edited_config_def)

definition excerpt_inputs :: "GameContainerConfig \<Rightarrow> PortExcerptInput list" where
  "excerpt_inputs c = map (\<lambda>e. \<lparr> xi_Protocol = pe_Protocol e, xi_BeginPort = pe_BeginPort e,
     xi_ExcerptLength = pe_ExcerptLength e, xi_IsGamePort = pe_IsGamePort e \<rparr>) (gc_PortExcerpt c)"

lemma UpdateConfig_success:
  assumes "UpdateConfig gen game u s = (s', Inr c)"
  shows "\<exists>old. GetConfig game s = Inr old \<and> GetConfig game s' = Inr c \<and>
    c = (edited_config u old)\<lparr>gc_PortExcerpt := gc_PortExcerpt c\<rparr> \<and>
    excerpt_inputs c = given (cu_PortExcerpts u) (excerpt_inputs old)"
proof -
  obtain ident where i: "configIDByGame game s = Inr ident" using assms by (auto simp: UpdateConfig_def split: sum.splits)
  obtain old where o: "ConfigRepo_GetByID ident s = Inr old" using assms i by (auto simp: UpdateConfig_def split: sum.splits)
  then have k: "gc_ID old = ident" "tbl_find gc_ID ident (t_configs s) = Some old" "db_fault s (ConfigGet ident) = None"
    by (auto simp: ConfigRepo_GetByID_def guard_call_def found_def split: option.splits dest: tbl_find_SomeD)
  have g: "GetConfig game s = Inr old" using i o by (simp add: GetConfig_def)
  have get: "GetConfig game x = found (tbl_find gc_ID ident (t_configs x))"
    if "t_games x = t_games s" "db_fault x = db_fault s" for x :: "'a db_scheme"
    using i that k(3) by (simp add: GetConfig_def configIDByGame_def GameRepo_GetByID_def ConfigRepo_GetByID_def guard_call_def)
  let ?s1 = "s\<lparr>t_configs := tbl_upd (\<lambda>r. gc_ID r = ident) (\<lambda>r. (edited_config u old)\<lparr>gc_PortExcerpt := gc_PortExcerpt r\<rparr>) (t_configs s)\<rparr>"
  have c1: "tbl_find gc_ID ident (t_configs ?s1) = Some (edited_config u old)"
    using k by (simp add: tbl_find_upd_fixed)
  show ?thesis
  proof (cases "cu_PortExcerpts u")
    case None
    then have "s' = ?s1" "c = edited_config u old" using assms i o k c1
      by (auto simp: UpdateConfig_def ConfigRepo_Save_def guard_write_def ConfigRepo_GetByID_def guard_call_def found_def
        split: option.splits)
    with None g get[of ?s1] c1 show ?thesis by (simp add: given_def found_def excerpt_inputs_def)
  next
    case (Some es)
    let ?ex = "map (\<lambda>n. (map excerpt_of es ! n)\<lparr>pe_ID := gen n, pe_GameContainerConfigID := ident\<rparr>) [0..<length es]"
    let ?s2 = "?s1\<lparr>t_configs := tbl_upd (\<lambda>r. gc_ID r = ident) (\<lambda>r. r\<lparr>gc_PortExcerpt := ?ex\<rparr>) (t_configs ?s1)\<rparr>"
    have c2: "tbl_find gc_ID ident (t_configs ?s2) = Some ((edited_config u old)\<lparr>gc_PortExcerpt := ?ex\<rparr>)"
      using c1 by (simp add: tbl_find_upd_key)
    have "s' = ?s2" "c = (edited_config u old)\<lparr>gc_PortExcerpt := ?ex\<rparr>" using assms i o k c2 Some
      by (auto simp: UpdateConfig_def ConfigRepo_Save_def ConfigRepo_ReplacePortExcerpts_def guard_write_def
        ConfigRepo_GetByID_def guard_call_def found_def split: option.splits)
    moreover have "excerpt_inputs ((edited_config u old)\<lparr>gc_PortExcerpt := ?ex\<rparr>) = es"
      by (rule nth_equalityI) (simp_all add: excerpt_inputs_def excerpt_of_def)
    ultimately show ?thesis using Some g get[of ?s2] c2 by (simp add: given_def found_def)
  qed
qed

lemma shown_edit_config:
  assumes "c = (edited_config (encode_container_update u) old)\<lparr>gc_PortExcerpt := gc_PortExcerpt c\<rparr>"
    "excerpt_inputs c = given (pu_PortExcerpts u) (excerpt_inputs old)"
  shows "decode_container_config c = shown_edit u (decode_container_config old) \<and> gc_ProbeMode c = gc_ProbeMode old \<and>
    gc_QueryPortOffset c = gc_QueryPortOffset old \<and> gc_PortInjectEnv c = gc_PortInjectEnv old"
proof -
  define e where "e = gc_PortExcerpt c"
  have c: "c = (edited_config (encode_container_update u) old)\<lparr>gc_PortExcerpt := e\<rparr>" using assms(1) by (simp only: e_def)
  show ?thesis using assms(2) unfolding c
    by (simp add: decode_container_config_def shown_edit_def edited_config_def encode_container_update_def given_def excerpt_inputs_def)
qed

lemma missing_or_Success:
  "map_prod id (missing_or t n) r = (s', Success c x) \<longleftrightarrow> r = (s', Inr x) \<and> c = 200"
  by (cases r; cases "snd r") (auto simp: missing_or_def)

text \<open>C28: An administrator's edit of a game's container configuration through the platform is read back:
  an edit answered with success shows exactly the fields given and keeps the others, the next read shows
  the same, and what the platform's interface does not have - the probe, its query port, the name of the
  port variable - stays as it is on the controller.\<close>

theorem container_edit_read_back:
  assumes "Admin_UpdateContainerConfig A game (Inr u) w = (w', Success code p)"
    "wi_fault (lk_wire A) ''GET'' (games_path (''/'' @ game @ ''/container-config'')) = None"
  shows "\<exists>old new. GetConfig game (pl_ctl w) = Inr old \<and> p = shown_edit u (decode_container_config old) \<and>
    Admin_GetContainerConfig A game w' = (w', Success 200 p) \<and> GetConfig game (pl_ctl w') = Inr new \<and>
    gc_ProbeMode new = gc_ProbeMode old \<and> gc_QueryPortOffset new = gc_QueryPortOffset old \<and>
    gc_PortInjectEnv new = gc_PortInjectEnv old"
proof -
  obtain s1 where c: "ctl_call (Client_UpdateContainerConfig A game u) w = (w', Inr p)"
    and s1: "Client_UpdateContainerConfig A game u (pl_ctl w) = (s1, Inr p)" "w' = w\<lparr>pl_ctl := s1\<rparr>"
    using assms(1) by (auto simp: Admin_UpdateContainerConfig_def with_body_def proxy_def answer_Success ctl_call_def split: prod.splits)
  obtain cfg where cfg: "UpdateConfig (ak_excerpt_ident A) game (encode_container_update u) (pl_ctl w) = (s1, Inr cfg)"
      "p = decode_container_config cfg"
    using s1(1) by (auto simp: Client_UpdateContainerConfig_def Inr_client_do Handle_UpdateContainerConfig_def with_body_def
      missing_or_Success)
  obtain old where o: "GetConfig game (pl_ctl w) = Inr old" "GetConfig game s1 = Inr cfg"
      "cfg = (edited_config (encode_container_update u) old)\<lparr>gc_PortExcerpt := gc_PortExcerpt cfg\<rparr>"
      "excerpt_inputs cfg = given (pu_PortExcerpts u) (excerpt_inputs old)"
    using UpdateConfig_success[OF cfg(1)] by (auto simp: encode_container_update_def)
  have "Admin_GetContainerConfig A game w' = (w', Success 200 p)"
    using o(2) cfg(2) assms(2) s1(2)
    by (simp add: Admin_GetContainerConfig_def proxy_def ctl_call_def Client_GetContainerConfig_def client_do_def reading_def
      Handle_GetContainerConfig_def missing_or_def answer_def)
  with o(1,2) cfg(2) s1(2) shown_edit_config[OF o(3,4)] show ?thesis by auto
qed

section \<open>Examples\<close>

definition ex_ctl_link :: "unit ctl_link" where
  "ex_ctl_link = \<lparr> lk_wire = lk_wire ex_link, lk_now = 5, lk_ident = (\<lambda>s. ''i9''), lk_decode = (\<lambda>t. Inl (Errorf [])),
     lk_asset = (\<lambda>g v. Inl (Errorf [])), lk_registry = None, ak_time_text = (\<lambda>t. []), ak_meanwhile = id,
     ak_node_ident = (\<lambda>s. 7), ak_create_game = (\<lambda>g. None), ak_update_game = (\<lambda>i n a. None), ak_delete_game = (\<lambda>i. None),
     ak_list_builds = (\<lambda>g c. Inr []), ak_register_build = (\<lambda>r. Inl (Errorf [])), ak_get_build = (\<lambda>b. Inr None),
     ak_branches = (\<lambda>g. Inr []), ak_schemas = (\<lambda>g. Inr []), ak_pools = (\<lambda>g. None), ak_credential_ident = (\<lambda>n. []),
     ak_excerpt_ident = id, ak_agents = ex_agents ex_cache,
     ak_updates = \<lparr> ue_connect = (\<lambda>i a. None), ue_call = (\<lambda>i r. Inr None), ue_now = (\<lambda>n. 5), ue_polls = (\<lambda>n. []), ue_end = (\<lambda>n. 5) \<rparr>,
     ak_session = ex_sessions, ak_issuer = \<lparr> fi_secret = [], fi_ttl = 10 \<rparr>, ak_file_port_offset = 1 \<rparr>"

definition ex_profile :: GameProfile where
  "ex_profile = \<lparr> pf_GameID = ''g1'', pf_DisplayName = ''Game'', pf_IconURL = [], pf_AccentColor = [], pf_Description = [],
     pf_Enabled = True, pf_SortOrder = 3, pf_UpdateTime = 0 \<rparr>"

definition ex_platform :: "(unit, unit) platform" where
  "ex_platform = \<lparr> p_users = p_users ex_pdb, p_orders = [], p_profiles = [ex_profile], p_plans = [], p_subs = [],
     p_fault = (\<lambda>c. None), pl_ctl = disp.extend ex_disp (controller.fields ex_manager []) \<rparr>"

lemma ex_platform_simps [simp]:
  "p_profiles ex_platform = [ex_profile]" "p_fault ex_platform c = None"
  "t_games (pl_ctl ex_platform) = [ex_game]" "t_configs (pl_ctl ex_platform) = [ex_config]"
  "db_fault (pl_ctl ex_platform) k = None"
  by (simp_all add: ex_platform_def ex_disp_def disp.extend_def controller.fields_def)

lemma ex_ctl_wire [simp]: "wi_fault (lk_wire ex_ctl_link) m p = None"
  by (simp add: ex_ctl_link_def ex_link_def)

theorem admin_api_confined_witness:
  "\<forall>V. \<exists>c t. admin_api ex_jwt ex_tm ex_ctl_link V 5 ''Bearer x'' (AdmDeleteGame ''g1'') ex_platform = (ex_platform, Failure c t)"
proof
  fix V
  show "\<exists>c t. admin_api ex_jwt ex_tm ex_ctl_link V 5 ''Bearer x'' (AdmDeleteGame ''g1'') ex_platform = (ex_platform, Failure c t)"
    using admin_api_confined[of ex_jwt ex_tm 5 "''Bearer x''" ex_ctl_link V "AdmDeleteGame ''g1''" ex_platform]
    by (auto simp: admin_token_def authenticate_def token_Parse_def token_key_def ex_jwt_def ex_tm_def)
qed

definition ex_icon :: icon_form where
  "ex_icon = \<lparr> if_size = Some 4096, if_mkdir = None, if_save = None \<rparr>"

lemma ex_get_game: "Client_GetGame ex_ctl_link ''g1'' (pl_ctl ex_platform) = (pl_ctl ex_platform, Inr (decode_game ex_game))"
  by (simp add: Client_GetGame_def client_do_def reading_def Ctl_Handle_GetGame_def missing_or_def GetGame_def GameRepo_GetByID_def
    guard_call_def found_def table_simps ex_game_def)

theorem icon_upload_hides_game_witness:
  "\<exists>w' code p. Admin_UploadGameIcon ex_ctl_link 5 ''g1'' ex_icon ex_platform = (w', Success code p) \<and>
    pf_Enabled ex_profile \<and> \<not> pf_Enabled p \<and> pf_SortOrder p = 0"
proof -
  have "ProfileRepo_GetByID ''g1'' ex_platform = Inr ex_profile"
    by (simp add: ProfileRepo_GetByID_def pguard_def pfound_def table_simps ex_profile_def)
  then obtain w' p where "Admin_UploadGameIcon ex_ctl_link 5 ''g1'' ex_icon ex_platform = (w', Success 200 p)"
    by (auto simp: Admin_UploadGameIcon_def ex_get_game ctl_call_def ex_icon_def UpdateProfile_def Let_def ProfileRepo_Save_def
      pguard_write_def answer_def)
  from icon_upload_hides_game[OF this] this show ?thesis by (auto simp: ex_profile_def)
qed

definition ex_container_update :: PContainerConfigUpdate where
  "ex_container_update = \<lparr> pu_ContainerServerPath = None, pu_PortMode = None, pu_InjectGamePort = None,
     pu_CPURequestMilli = Some 2000, pu_MemoryRequestBytes = None, pu_DiskRequestBytes = None, pu_BandwidthRxMbps = None,
     pu_BandwidthTxMbps = None, pu_SingleThreaded = None, pu_PortExcerpts = Some [] \<rparr>"

theorem container_edit_read_back_witness:
  "\<exists>w' p. Admin_UpdateContainerConfig ex_ctl_link ''g1'' (Inr ex_container_update) ex_platform = (w', Success 200 p) \<and>
    pk_CPURequestMilli p = 2000 \<and> Admin_GetContainerConfig ex_ctl_link ''g1'' w' = (w', Success 200 p)"
proof -
  let ?u = "encode_container_update ex_container_update"
  have i: "configIDByGame ''g1'' (pl_ctl ex_platform) = Inr ''c1''"
    by (simp add: configIDByGame_def GameRepo_GetByID_def guard_call_def found_def table_simps ex_game_def)
  have o: "ConfigRepo_GetByID ''c1'' (pl_ctl ex_platform) = Inr ex_config" "gc_ID ex_config = ''c1''"
    by (simp_all add: ConfigRepo_GetByID_def guard_call_def found_def table_simps ex_config_def)
  obtain s' c where "UpdateConfig (ak_excerpt_ident ex_ctl_link) ''g1'' ?u (pl_ctl ex_platform) = (s', Inr c)"
    by (auto simp: UpdateConfig_def i o ConfigRepo_Save_def ConfigRepo_ReplacePortExcerpts_def guard_write_def ConfigRepo_GetByID_def
      guard_call_def found_def encode_container_update_def ex_container_update_def tbl_find_upd_key table_simps tbl_upd_def)
  then have "\<exists>w' p. Admin_UpdateContainerConfig ex_ctl_link ''g1'' (Inr ex_container_update) ex_platform = (w', Success 200 p)"
    by (simp add: Admin_UpdateContainerConfig_def with_body_def proxy_def ctl_call_def Client_UpdateContainerConfig_def client_do_def
      Handle_UpdateContainerConfig_def missing_or_def answer_def)
  then obtain w' p where r: "Admin_UpdateContainerConfig ex_ctl_link ''g1'' (Inr ex_container_update) ex_platform = (w', Success 200 p)"
    by blast
  from container_edit_read_back[OF r ex_ctl_wire] obtain old where
    "p = shown_edit ex_container_update (decode_container_config old)" "Admin_GetContainerConfig ex_ctl_link ''g1'' w' = (w', Success 200 p)"
    by blast
  with r show ?thesis by (auto simp: shown_edit_def ex_container_update_def given_def)
qed

end
