(* ===== verification/Startup.thy ===== *)
theory Startup
  imports Watch_Properties Sessions Health Pressure Stale_Reaper Cache_View Platform_Users Adapter_Schema
begin

text \<open>
  How the two services come up: the configuration from the environment (\<open>config/config.go\<close> of each), the
  migrations (\<open>migrations_runner.go\<close>) and what \<open>main.go\<close> makes of them - the parameters of the
  components, the background loops and the recovery.  The environment is a function that gives the empty
  text for a variable that is not set, as \<open>os.Getenv\<close> does.  A \<open>float64\<close> of the configuration may be infinite
  or not a number, as \<open>ParseFloat\<close> accepts the texts \<open>Inf\<close> and \<open>NaN\<close>; the components compute with rational
  numbers, so a component that such a value reaches is outside the model, and \<open>main_scheduler\<close>, \<open>main_health\<close>
  and \<open>main_pressure\<close> say so with \<open>None\<close>.
\<close>

section \<open>The environment\<close>

type_synonym environment = "string \<Rightarrow> string"

definition getEnv :: "environment \<Rightarrow> string \<Rightarrow> string \<Rightarrow> string" where
  "getEnv E key fallback = (if E key \<noteq> [] then E key else fallback)"

definition getEnvInt :: "environment \<Rightarrow> string \<Rightarrow> int \<Rightarrow> int" where
  "getEnvInt E key fallback =
    (if E key \<noteq> [] then (case ParseInt64 (E key) of Some n \<Rightarrow> n | None \<Rightarrow> fallback) else fallback)"

text \<open>A \<open>float64\<close>, and what \<open>strconv.ParseFloat\<close> makes of a text: \<open>parse\<close>, \<open>None\<close> for its error.\<close>

datatype go_float = Num rat | PosInf | NegInf | NaN

definition getEnvFloat :: "(string \<Rightarrow> go_float option) \<Rightarrow> environment \<Rightarrow> string \<Rightarrow> go_float \<Rightarrow> go_float" where
  "getEnvFloat parse E key fallback =
    (if E key \<noteq> [] then (case parse (E key) of Some q \<Rightarrow> q | None \<Rightarrow> fallback) else fallback)"

text \<open>\<open>strconv.ParseBool\<close>.\<close>

definition ParseBool :: "string \<Rightarrow> bool option" where
  "ParseBool s =
    (if s \<in> set [''1'', ''t'', ''T'', ''true'', ''TRUE'', ''True''] then Some True
     else if s \<in> set [''0'', ''f'', ''F'', ''false'', ''FALSE'', ''False''] then Some False
     else None)"

definition getEnvBool :: "environment \<Rightarrow> string \<Rightarrow> bool \<Rightarrow> bool" where
  "getEnvBool E key fallback =
    (if E key \<noteq> [] then (case ParseBool (E key) of Some b \<Rightarrow> b | None \<Rightarrow> fallback) else fallback)"

text \<open>\<open>time.Duration(n) * time.Second\<close> and the like: the product of 64 bits wraps.\<close>

definition time_units :: "int \<Rightarrow> duration \<Rightarrow> duration" where
  "time_units n unit = wrap64 (n * unit)"

section \<open>The controller's configuration\<close>

record Config =
  cfg_DBHost :: string
  cfg_DBPort :: int
  cfg_DBUser :: string
  cfg_DBPassword :: string
  cfg_DBName :: string
  cfg_DBSchema :: string
  cfg_AssetServiceAddr :: string
  cfg_HTTPPort :: int
  cfg_GameCacheReconcileInterval :: int
  cfg_NodeAgentFileSecret :: string
  cfg_NodeAgentFilePortOffset :: int
  cfg_HeartbeatCheckIntervalSec :: int
  cfg_HeartbeatProbeTimeoutMs :: int
  cfg_HeartbeatFailThreshold :: int
  cfg_AgentUpdateWaitSec :: int
  cfg_SchedulerScoreWeights :: string
  cfg_SchedulerUtilizationTarget :: go_float
  cfg_SchedulerRegionForce :: bool
  cfg_SchedulerReservationRetry :: int
  cfg_SchedulerHistoryWindowSec :: int
  cfg_SchedulerHealthStaleSec :: int
  cfg_SchedulerCacheSpillWatermark :: go_float
  cfg_SchedulerCacheUpdateBufferRatio :: go_float
  cfg_PressureWarningPct :: go_float
  cfg_PressureCriticalPct :: go_float
  cfg_PressureObservePeriods :: int
  cfg_PressureRecoverPeriods :: int
  cfg_HealthDegradedPct :: go_float
  cfg_StaleReservationTimeoutMin :: int
  cfg_StaleReservationScanSec :: int
  cfg_RPCTimeoutSec :: int
  cfg_NodeOfflineFenceMin :: int
  cfg_QueueScanIntervalSec :: int
  cfg_QueueBackoffBaseSec :: int
  cfg_QueueBackoffMaxSec :: int
  cfg_QueueTimeoutMin :: int
  cfg_QueueMaxWakePerRound :: int
  cfg_CacheViewRefreshSec :: int
  cfg_CacheUpdateBufferRatio :: go_float
  cfg_EventBufferSize :: int

definition Load :: "(string \<Rightarrow> go_float option) \<Rightarrow> environment \<Rightarrow> Config" where
  "Load parse E = \<lparr> cfg_DBHost = getEnv E ''DB_HOST'' ''localhost'', cfg_DBPort = getEnvInt E ''DB_PORT'' 5432,
     cfg_DBUser = getEnv E ''DB_USER'' ''postgres'', cfg_DBPassword = getEnv E ''DB_PASSWORD'' ''postgres'',
     cfg_DBName = getEnv E ''DB_NAME'' ''game_server'', cfg_DBSchema = getEnv E ''DB_SCHEMA'' ''public'',
     cfg_AssetServiceAddr = getEnv E ''ASSET_SERVICE_ADDR'' ''localhost:9091'', cfg_HTTPPort = getEnvInt E ''HTTP_PORT'' 8090,
     cfg_GameCacheReconcileInterval = getEnvInt E ''GAME_CACHE_RECONCILE_INTERVAL'' 60,
     cfg_NodeAgentFileSecret = getEnv E ''NODE_AGENT_FILE_SECRET'' ''dev-file-secret-change-me'',
     cfg_NodeAgentFilePortOffset = getEnvInt E ''NODE_AGENT_FILE_PORT_OFFSET'' 2,
     cfg_HeartbeatCheckIntervalSec = getEnvInt E ''HEARTBEAT_CHECK_INTERVAL_SEC'' 10,
     cfg_HeartbeatProbeTimeoutMs = getEnvInt E ''HEARTBEAT_PROBE_TIMEOUT_MS'' 5000,
     cfg_HeartbeatFailThreshold = getEnvInt E ''HEARTBEAT_FAIL_THRESHOLD'' 2,
     cfg_AgentUpdateWaitSec = getEnvInt E ''AGENT_UPDATE_WAIT_SEC'' 120,
     cfg_SchedulerScoreWeights = getEnv E ''SCHEDULER_SCORE_WEIGHTS'' [],
     cfg_SchedulerUtilizationTarget = getEnvFloat parse E ''SCHEDULER_UTILIZATION_TARGET'' (Num (flit (8 / 10))),
     cfg_SchedulerRegionForce = getEnvBool E ''SCHEDULER_REGION_FORCE'' False,
     cfg_SchedulerReservationRetry = getEnvInt E ''SCHEDULER_RESERVATION_RETRY'' 3,
     cfg_SchedulerHistoryWindowSec = getEnvInt E ''SCHEDULER_HISTORY_WINDOW_SEC'' 900,
     cfg_SchedulerHealthStaleSec = getEnvInt E ''SCHEDULER_HEALTH_STALE_SEC'' 30,
     cfg_SchedulerCacheSpillWatermark = getEnvFloat parse E ''SCHEDULER_CACHE_SPILL_WATERMARK'' (Num (flit (8 / 10))),
     cfg_SchedulerCacheUpdateBufferRatio = getEnvFloat parse E ''SCHEDULER_CACHE_UPDATE_BUFFER_RATIO'' (Num (flit (15 / 100))),
     cfg_PressureWarningPct = getEnvFloat parse E ''PRESSURE_WARNING_PCT'' (Num 85),
     cfg_PressureCriticalPct = getEnvFloat parse E ''PRESSURE_CRITICAL_PCT'' (Num 95),
     cfg_PressureObservePeriods = getEnvInt E ''PRESSURE_OBSERVE_PERIODS'' 3,
     cfg_PressureRecoverPeriods = getEnvInt E ''PRESSURE_RECOVER_PERIODS'' 3,
     cfg_HealthDegradedPct = getEnvFloat parse E ''HEALTH_DEGRADED_PCT'' (Num 85),
     cfg_StaleReservationTimeoutMin = getEnvInt E ''STALE_RESERVATION_TIMEOUT_MIN'' 10,
     cfg_StaleReservationScanSec = getEnvInt E ''STALE_RESERVATION_SCAN_SEC'' 60,
     cfg_RPCTimeoutSec = getEnvInt E ''RPC_TIMEOUT_SEC'' 30, cfg_NodeOfflineFenceMin = getEnvInt E ''NODE_OFFLINE_FENCE_MIN'' 3,
     cfg_QueueScanIntervalSec = getEnvInt E ''QUEUE_SCAN_INTERVAL_SEC'' 5,
     cfg_QueueBackoffBaseSec = getEnvInt E ''QUEUE_BACKOFF_BASE_SEC'' 15,
     cfg_QueueBackoffMaxSec = getEnvInt E ''QUEUE_BACKOFF_MAX_SEC'' 300,
     cfg_QueueTimeoutMin = getEnvInt E ''QUEUE_TIMEOUT_MIN'' 30,
     cfg_QueueMaxWakePerRound = getEnvInt E ''QUEUE_MAX_WAKE_PER_ROUND'' 50,
     cfg_CacheViewRefreshSec = getEnvInt E ''CACHE_VIEW_REFRESH_SEC'' 30,
     cfg_CacheUpdateBufferRatio = getEnvFloat parse E ''CACHE_UPDATE_BUFFER_RATIO'' (Num (flit (15 / 100))),
     cfg_EventBufferSize = getEnvInt E ''EVENT_BUFFER_SIZE'' 1000 \<rparr>"

definition dsn :: "string \<Rightarrow> int \<Rightarrow> string \<Rightarrow> string \<Rightarrow> string \<Rightarrow> string \<Rightarrow> string" where
  "dsn host port user password name schema =
     ''host='' @ host @ '' port='' @ show_int port @ '' user='' @ user @ '' password='' @ password @ '' dbname='' @ name @
     '' sslmode=disable search_path='' @ schema"


section \<open>Migrations\<close>

text \<open>What the library answers to the five calls; no change is an error of its own.\<close>

record migrate_lib =
  ml_db :: "gerr option"
  ml_source :: "gerr option"
  ml_driver :: "gerr option"
  ml_instance :: "gerr option"
  ml_up :: "gerr option"

definition ErrNoChange :: gerr where "ErrNoChange = Errorf ''no change''"

definition runMigrations :: "migrate_lib \<Rightarrow> gerr option" where
  "runMigrations L =
    (case ml_db L of Some e \<Rightarrow> Some (Wrapped ''get sql db: '' e []) | None \<Rightarrow>
    (case ml_source L of Some e \<Rightarrow> Some (Wrapped ''init migration source: '' e []) | None \<Rightarrow>
    (case ml_driver L of Some e \<Rightarrow> Some (Wrapped ''init migration driver: '' e []) | None \<Rightarrow>
    (case ml_instance L of Some e \<Rightarrow> Some (Wrapped ''init migrate instance: '' e []) | None \<Rightarrow>
    (case ml_up L of
       Some e \<Rightarrow> if \<not> errors_is e ErrNoChange then Some (Wrapped ''run migrations: '' e []) else None
     | None \<Rightarrow> None)))))"

section \<open>The components' parameters\<close>

text \<open>\<open>unmarshal\<close> is \<open>json.Unmarshal\<close> into the weights: what it leaves there, an error or not.\<close>

definition main_weights :: "(string \<Rightarrow> ScoreWeights \<Rightarrow> ScoreWeights) \<Rightarrow> Config \<Rightarrow> ScoreWeights" where
  "main_weights unmarshal c =
    (if cfg_SchedulerScoreWeights c \<noteq> [] then unmarshal (cfg_SchedulerScoreWeights c) DefaultScoreWeights
     else DefaultScoreWeights)"

text \<open>A value as the guards of the constructors see it.  They compare with finite bounds only, where an
  infinity is like a number beyond every \<open>float64\<close>, and they reject it like one, apart from a positive
  infinite buffer ratio, which has no upper guard.  A NaN compares with nothing, so no guard rejects it.\<close>

definition seen :: "go_float \<Rightarrow> rat option" where
  "seen x = (case x of Num q \<Rightarrow> Some q | PosInf \<Rightarrow> Some (2 ^ 1024) | NegInf \<Rightarrow> Some (- (2 ^ 1024)) | NaN \<Rightarrow> None)"

definition seen_ratio :: "go_float \<Rightarrow> rat option" where
  "seen_ratio x = (if x = PosInf then None else seen x)"

definition main_scheduler ::
  "(string \<Rightarrow> ScoreWeights \<Rightarrow> ScoreWeights) \<Rightarrow> cache_provider \<Rightarrow> Config \<Rightarrow> sched_cfg option" where
  "main_scheduler unmarshal view c =
    (case (seen (cfg_SchedulerUtilizationTarget c), seen (cfg_SchedulerCacheSpillWatermark c),
           seen_ratio (cfg_SchedulerCacheUpdateBufferRatio c)) of
       (Some target, Some watermark, Some ratio) \<Rightarrow> Some (NewResourceAwareScheduler
         \<lparr> sc_weights = main_weights unmarshal c, sc_utilizationTarget = target,
           sc_regionForce = cfg_SchedulerRegionForce c, sc_reservationRetry = cfg_SchedulerReservationRetry c,
           sc_historyWindow = time_units (cfg_SchedulerHistoryWindowSec c) second,
           sc_healthStaleWindow = time_units (cfg_SchedulerHealthStaleSec c) second,
           sc_cacheSpillWatermark = watermark, sc_cacheUpdateBufferRatio = ratio,
           sc_cacheProvider = view, sc_statRepo = True \<rparr>)
     | _ \<Rightarrow> None)"





definition main_pressure :: "Config \<Rightarrow> PressureMonitor option" where
  "main_pressure c =
    (case (seen (cfg_PressureWarningPct c), seen (cfg_PressureCriticalPct c)) of
       (Some warning, Some critical) \<Rightarrow> Some (NewPressureMonitor warning critical
         (cfg_PressureObservePeriods c) (cfg_PressureRecoverPeriods c) (time_units (cfg_SchedulerHistoryWindowSec c) second))
     | _ \<Rightarrow> None)"


definition main_issuer :: "Config \<Rightarrow> FileSessionIssuer" where
  "main_issuer c = \<lparr> fi_secret = cfg_NodeAgentFileSecret c, fi_ttl = 30 * minute \<rparr>"


text \<open>The interval of every background loop: the waker and the view of the caches replace one that is not
  positive, the others take theirs as it is.\<close>

definition main_tickers :: "Config \<Rightarrow> (string \<times> duration) list" where
  "main_tickers c =
    (let guarded = (\<lambda>d n. if time_units n second \<le> 0 then d else time_units n second) in
     [(''NodeAgentUpdateReconciler'', 15 * second), (''SchedulerEventBus'', second),
      (''QueueWaker'', guarded (5 * second) (cfg_QueueScanIntervalSec c)),
      (''NodeAgentHealthMonitor'', time_units (cfg_HeartbeatCheckIntervalSec c) second),
      (''PressureMonitor'', time_units (cfg_HeartbeatCheckIntervalSec c) second),
      (''StaleReservationReaper'', time_units (cfg_StaleReservationScanSec c) second),
      (''GameCacheManager'', time_units (cfg_GameCacheReconcileInterval c) second),
      (''NodeCacheView'', guarded (30 * second) (cfg_CacheViewRefreshSec c)),
      (''WatchRunningInstances'', 15 * second)])"

section \<open>The start of the controller\<close>

text \<open>The data base, the migrations and the asset service's connection; without one of them the process
  exits.  A loop whose interval is not positive panics in \<open>time.NewTicker\<close>, which ends the process.  Before
  the recovery the dispatcher, the waker and the other loops are already running: \<open>meanwhile\<close> is what they
  do until then.  \<open>mn_listen\<close> is the error \<open>ListenAndServe\<close> ends with, which is logged only: the process and
  its loops go on, without an interface.\<close>

record main_lib =
  mn_open :: "string \<Rightarrow> gerr option"
  mn_migrate :: migrate_lib
  mn_dial :: "string \<Rightarrow> gerr option"
  mn_listen :: "int \<Rightarrow> gerr option"

datatype start_end = Exit int | Panic string | Serving int | Unserved gerr

definition listening :: "main_lib \<Rightarrow> int \<Rightarrow> start_end" where
  "listening L port = (case mn_listen L port of None \<Rightarrow> Serving port | Some e \<Rightarrow> Unserved e)"


section \<open>The platform's configuration\<close>

record PConfig =
  pcfg_DBHost :: string
  pcfg_DBPort :: int
  pcfg_DBUser :: string
  pcfg_DBPassword :: string
  pcfg_DBName :: string
  pcfg_DBSchema :: string
  pcfg_HTTPPort :: int
  pcfg_JWTSecret :: string
  pcfg_JWTAccessTTLMin :: int
  pcfg_JWTRefreshTTLHour :: int
  pcfg_ControllerAddr :: string
  pcfg_AdminUsername :: string
  pcfg_AdminPassword :: string

definition Platform_Load :: "environment \<Rightarrow> PConfig" where
  "Platform_Load E = \<lparr> pcfg_DBHost = getEnv E ''DB_HOST'' ''localhost'', pcfg_DBPort = getEnvInt E ''DB_PORT'' 5432,
     pcfg_DBUser = getEnv E ''DB_USER'' ''postgres'', pcfg_DBPassword = getEnv E ''DB_PASSWORD'' ''postgres'',
     pcfg_DBName = getEnv E ''DB_NAME'' ''platform'', pcfg_DBSchema = getEnv E ''DB_SCHEMA'' ''public'',
     pcfg_HTTPPort = getEnvInt E ''HTTP_PORT'' 8081, pcfg_JWTSecret = getEnv E ''JWT_SECRET'' ''dev-secret-change-me'',
     pcfg_JWTAccessTTLMin = getEnvInt E ''JWT_ACCESS_TTL_MIN'' 30, pcfg_JWTRefreshTTLHour = getEnvInt E ''JWT_REFRESH_TTL_HOUR'' 168,
     pcfg_ControllerAddr = getEnv E ''CONTROLLER_ADDR'' ''http://127.0.0.1:8088'',
     pcfg_AdminUsername = getEnv E ''ADMIN_USERNAME'' [], pcfg_AdminPassword = getEnv E ''ADMIN_PASSWORD'' [] \<rparr>"

definition Platform_DSN :: "PConfig \<Rightarrow> string" where
  "Platform_DSN c = dsn (pcfg_DBHost c) (pcfg_DBPort c) (pcfg_DBUser c) (pcfg_DBPassword c) (pcfg_DBName c) (pcfg_DBSchema c)"

definition main_tokens :: "PConfig \<Rightarrow> TokenManager" where
  "main_tokens c = \<lparr> tm_secret = pcfg_JWTSecret c, tm_accessTTL = time_units (pcfg_JWTAccessTTLMin c) minute,
     tm_refreshTTL = time_units (pcfg_JWTRefreshTTLHour c) (60 * minute) \<rparr>"

text \<open>The address of the controller: slashes at its end are cut (\<open>strings.TrimRight\<close>).\<close>

definition NewClient_baseURL :: "string \<Rightarrow> string" where
  "NewClient_baseURL url =
    rev (dropWhile (\<lambda>c. c = CHR ''/'') (rev (if url = [] then ''http://127.0.0.1:8088'' else url)))"

definition main_platform ::
  "main_lib \<Rightarrow> time \<Rightarrow> string \<Rightarrow> (string \<Rightarrow> perr + string) \<Rightarrow> environment \<Rightarrow> 'a pdb_scheme \<Rightarrow> 'a pdb_scheme \<times> start_end" where
  "main_platform L now ident hash E w =
    (let c = Platform_Load E in
     if mn_open L (Platform_DSN c) \<noteq> None then (w, Exit 1)
     else if runMigrations (mn_migrate L) \<noteq> None then (w, Exit 1)
     else (seed_admin now ident hash (pcfg_AdminUsername c) (pcfg_AdminPassword c) w, listening L (pcfg_HTTPPort c)))"

definition Handle_Health :: "string reply" where
  "Handle_Health = Success 200 ''ok''"

section \<open>The start\<close>





text \<open>With nothing set in the environment every interval is positive.\<close>

lemma default_tickers:
  "main_tickers (Load parse (\<lambda>_. [])) = [(''NodeAgentUpdateReconciler'', 15 * second), (''SchedulerEventBus'', second),
      (''QueueWaker'', 5 * second), (''NodeAgentHealthMonitor'', 10 * second), (''PressureMonitor'', 10 * second),
      (''StaleReservationReaper'', minute), (''GameCacheManager'', minute), (''NodeCacheView'', 30 * second),
      (''WatchRunningInstances'', 15 * second)]"
  by (simp add: main_tickers_def Load_def getEnvInt_def time_units_def wrap64_def second_def minute_def)


section \<open>Bounds\<close>




section \<open>Examples\<close>


definition ex_environment :: "string \<Rightarrow> string \<Rightarrow> environment" where
  "ex_environment key v = (\<lambda>k. if k = key then v else [])"


text \<open>A warning threshold of 97 makes the critical one lower than it; a utilization target that is not a
  number reaches the scheduler.\<close>

lemma thresholds_out_of_order:
  "case main_pressure (Load (\<lambda>t. Some (Num 97)) (ex_environment ''PRESSURE_WARNING_PCT'' ''97'')) of
     None \<Rightarrow> False | Some p \<Rightarrow> pr_warningPct p = 97 \<and> pr_criticalPct p = 95"
  by (simp add: main_pressure_def NewPressureMonitor_def Load_def getEnvFloat_def ex_environment_def Let_def seen_def)

lemma target_not_a_number:
  "main_scheduler unmarshal view (Load (\<lambda>t. Some NaN) (ex_environment ''SCHEDULER_UTILIZATION_TARGET'' ''NaN'')) = None"
  by (simp add: main_scheduler_def Load_def getEnvFloat_def ex_environment_def seen_def)

end
