(* ===== verification/Spec2Isabelle.thy ===== *)
theory Spec2Isabelle
  imports System Watch_Properties Schedule_Examples Platform_Link Controller_Handlers Sessions Admin_Properties Startup
begin

text \<open>
  A verification development for the control plane of the game server cluster: the controller
  (\<open>controller-go\<close>) and the platform service (\<open>platform-service\<close>), both written in Go.

  \<^bold>\<open>The program.\<close>  The controller decides on which node a game instance runs and drives it there.
  A user's operation (\<open>biz/game_instance_use_case.go\<close>) writes the row of an instance and asks the
  reconcile dispatcher for it.  The dispatcher is a queue with an overflow map and one consumer
  (\<open>biz/reconcile_dispatcher.go\<close>): it dispatches the phase the instance is in - pending instances go to
  the scheduler, which filters and ranks the candidate nodes, plans host ports and reserves the resources
  in one transaction of the data base; scheduled ones are prepared, started, stopped and cleaned by
  commands to the agent of their node - and starts a poller for every operation that takes time.
  Beside it work the queue waker, the watch over running instances, the monitors of health and pressure,
  the sentinel of stuck instances, the game-cache manager and the reconciler of agent updates.  The
  platform service has users, plans, orders and subscriptions; a subscription owns instances on the
  controller, which it reaches over HTTP.  The asset service, the node agents (both written in Rust), the
  network and the data base driver are not part of the model: what they answer is a parameter.

  \<^bold>\<open>How the code is translated.\<close>  A struct is a record, an
  enumeration a datatype, a Go string the list of its bytes, a map with string keys an association list
  or a HOL map.  Machine integers are \<open>int\<close> with the wrap-around written out (\<open>wrap64\<close> in
  \<open>Prelude\<close>) wherever the code computes with them, \<open>32 word\<close> and \<open>16 word\<close> for the wire and for ports;
  \<open>float64\<close> is a rational number that every operation rounds to the nearest double (\<open>Float64\<close>).  Times
  and durations are nanoseconds.  The state is passed explicitly: \<open>db\<close> has one list of rows per table and
  the answers of the driver, \<open>disp\<close> adds the memory of the controller, \<open>plat\<close> is the platform's data
  base.  An error is the left of a sum, with the chain of its wrapping, so that \<open>errors.Is\<close> can be
  asked.  An operation reads the clock once (the source sometimes twice, microseconds apart); random
  identifiers are arguments.  Where others may work between a read and the write that depends on it, the
  operation takes them as an argument: \<open>meanwhile\<close> is any function on the state, and the theorems say
  what it must keep.

  \<^bold>\<open>The theories.\<close>
  \<^item> \<open>Prelude\<close>, \<open>Float64\<close>, \<open>Messages\<close>, \<open>Http\<close>: shared lemmas and the locale \<open>keyed_table\<close> of the
    repositories; rounding; the texts that are not ASCII; the answers of handlers.
  \<^item> \<open>Entities\<close>, \<open>Database\<close>: \<open>internal/entity\<close> and \<open>internal/repository/gorm\<close> with the constraints
    of the migrations, among them the unique index on the active instance of a subscription.
  \<^item> \<open>Capacity\<close>, \<open>Reservation\<close>: \<open>node_capacity.go\<close> and the transaction of \<open>reservation_repo.go\<close>.
    The transaction's statements are modelled one by one, on what the earlier ones wrote; the data base
    keeps them all or none.  A committed reservation stays within the utilization limit and release undoes it.
  \<^item> \<open>Candidates\<close>, \<open>Scheduler\<close>, \<open>Scheduling\<close>, \<open>Schedule_Exits\<close>: \<open>candidate.go\<close>, \<open>scoring.go\<close>,
    \<open>constraint.go\<close>, \<open>scheduler.go\<close>, \<open>scheduler_impl.go\<close>.  The constraint pipeline equals its
    specification, the choice is optimal, every outcome is characterised, and what every single
    write keeps survives a schedule (locale \<open>reservation_invariant\<close>, interpreted for the limits of the
    nodes, for the exclusiveness of host ports, and for both).
  \<^item> \<open>Ports\<close>, \<open>Port_Plans\<close>: \<open>game_container_port_mapper.go\<close>.  Plans are sound and complete.
  \<^item> \<open>Queueing\<close>, \<open>Event_Bus\<close>: \<open>queue.go\<close>, \<open>queue_waker.go\<close>, \<open>event_bus.go\<close>; the locale
    \<open>dispatch_requester\<close> is what the waker relies on of the dispatcher.
  \<^item> \<open>Runtime_Spec\<close>, \<open>Dispatcher\<close>, \<open>Pollers\<close>: \<open>reconcile_dispatcher.go\<close>.  \<open>Lifecycle\<close> is the abstract
    machine of an instance (its status, its retry counter, and whether it waits, is watched or rests) with
    a measure; \<open>Dispatching\<close>, \<open>Dispatch_Refinement\<close> and \<open>Dispatch_Properties\<close> prove that every dispatch
    and every poll refines it and, while the data base takes the status, loses no instance (locale
    \<open>lifecycle_run\<close>).  \<open>Dispatch_Invariant\<close>
    states once what an invariant must keep to survive the dispatcher (locales \<open>dispatch_invariant\<close>,
    \<open>dispatch_run\<close>), \<open>Dispatch_Safety\<close> interprets it for the cluster's limits.  \<open>Watch_Properties\<close>:
    restart, waker and fencing.
  \<^item> \<open>Credentials\<close>, \<open>Cache_View\<close>, \<open>Cache_Manager\<close>, \<open>Adapter_Schema\<close>, \<open>Instances\<close>, \<open>Pressure\<close>,
    \<open>Health\<close>, \<open>Stale_Reaper\<close>, \<open>Agent_Update\<close>, \<open>Admin\<close>: the use cases and monitors of the files they
    name, each with its properties.
  \<^item> \<open>System\<close>: all of these as one step relation; no interleaving oversells a node, shares a host port or
    corrupts the dispatcher's memory.
  \<^item> \<open>Instance_Handlers\<close>, \<open>Controller_Handlers\<close>, \<open>Handler_Messages\<close>: the controller's HTTP interface
    (\<open>internal/handler\<close>) to instances and to everything else, with the texts of its answers.
  \<^item> \<open>Observer\<close>: the reports and the manual operations of \<open>observer_use_case.go\<close> and \<open>debug_use_case.go\<close>;
    a recovery by hand is not the recovery of a restart, it can release a reservation twice.
  \<^item> \<open>Face_Clients\<close>, \<open>Sessions\<close>: the wrappers and the registry of connections of \<open>internal/client\<close>; the
    sessions for files and logs (\<open>file_session.go\<close>, their handlers, and the agents' check of a token), with
    what a token opens.
  \<^item> \<open>Startup\<close>: \<open>config/config.go\<close>, \<open>migrations_runner.go\<close> and what \<open>main.go\<close> of both services makes of
    them: how a start ends, what the recovery adds to a queue that is already served, and that every
    parameter is in its range unless a NaN (or an infinite ratio) is configured.
  \<^item> \<open>Platform_Data\<close>, \<open>Platform_Messages\<close>, \<open>Platform_Users\<close>, \<open>Platform_Plans\<close>, \<open>Platform_Handlers\<close>,
    \<open>Platform_Orders\<close>: the platform's rows, repositories, use cases, middlewares, handlers and routes.
    \<open>Platform_Run\<close> has the requests and the sweep as events and reduces them to single writes;
    \<open>Platform_Subscriptions\<close> proves the state machine of subscriptions over every run.
  \<^item> \<open>Platform_Isolation\<close>, \<open>Platform_Link\<close>: what the platform relies on of the controller (locale
    \<open>subscription_controller\<close>), and the platform's HTTP client on top of the controller's own handlers, which
    satisfies it; so the isolation of users holds of both services together.
  \<^item> \<open>Controller_Client\<close>, \<open>Platform_Admin\<close>, \<open>Admin_Properties\<close>: the rest of the platform's client
    (\<open>controller_client.go\<close>), again on the controller's own handlers, and the administrators' interface
    of \<open>admin_handler.go\<close> on it: who may use it, which rows of both services each request can reach, and
    that an edit is read back.
  \<^item> \<open>Examples\<close>, \<open>Schedule_Examples\<close>: one small cluster on which the theorems are applied.

  \<^bold>\<open>Bounds.\<close>  No definition has fuel.  The retry loop of the scheduler runs over the list of its
  attempts (the configured retries and one more), the doubling of the backoff over its counter, the searches for ports over the
  65536 numbers, a poller over the list of its rounds up to the deadline; everything else is structural.
  That an instance comes to rest is a theorem: the measure of \<open>Lifecycle\<close> is at most 64 and falls with
  every hand-over between queue and pollers.

  \<^bold>\<open>Parameters.\<close>  The answers of the agents, of the asset service and of the driver; the decoder of adapter
  schemas; bcrypt and the token library (records of functions, whose documented laws the theorems on logins
  and sessions assume); the order in which Go walks a map; the clock.  Every hypothesis on them appears in
  the statements, and each property with hypotheses is applied to a concrete case by the theorem of the
  same name with the suffix \<open>_witness\<close>.

  \<^bold>\<open>Not modelled.\<close>  Goroutines and tickers that only call a modelled round again (their intervals are in
  \<open>Startup\<close>); locks (an operation under a mutex is one step); the audit log; Gin's router, the JSON codec
  and the parsing of uploads (handlers get decoded requests); the HTTP servers themselves and the graceful
  shutdown; a component that computes with the \<open>float64\<close> values \<open>NaN\<close> or \<open>Inf\<close> (\<open>Startup\<close> says when the
  configuration lets one through); generated gRPC code; the services in Rust, of which
  only the check of session tokens is here, the web front end and the adapters' scripts.
\<close>

end
